(* ===== verification/Prelude.thy ===== *)
theory Prelude
  imports
    Complex_Main
    "HOL-Library.List_Lexorder"
    "HOL-Library.Char_ord"
    "HOL-Library.Product_Lexorder"
begin

text \<open>
  Shared vocabulary of the development: Python exceptions as values, the sequencing of
  operations that may raise, JSON payloads, list-backed tables with uniqueness checks,
  and the generic lemmas the component theories use. It also holds the interface
  \<open>keyed_store\<close>: an operation that returns the row stored under its
  idempotency key instead of creating a second one.
\<close>

section \<open>Names of the model\<close>

type_synonym ident = string

text \<open>
  Instants are microseconds since the epoch, in UTC. The code stores UTC instants only and
  adds the missing zone to the naive values SQLite returns (\<open>_as_aware_utc\<close>,
  \<open>replace(tzinfo=UTC)\<close>), so both spellings of an instant are the same number here.
\<close>

type_synonym time = int

definition seconds :: "int \<Rightarrow> time" where
  "seconds n = n * 1000000"

definition minutes :: "int \<Rightarrow> time" where
  "minutes n = seconds (60 * n)"

definition days :: "int \<Rightarrow> time" where
  "days n = seconds (86400 * n)"

section \<open>Exceptions and sequencing\<close>

text \<open>
  \<open>AppError status code\<close> is \<open>app.errors.AppError\<close> without its display message;
  \<open>IntegrityError\<close> is the exception the database driver raises when a uniqueness
  constraint is violated; \<open>KeyError\<close>, \<open>TypeError\<close>, \<open>ValueError\<close> and \<open>AttributeError\<close> are the Python
  built-ins.
\<close>

datatype exn = AppError nat string | IntegrityError | KeyError | TypeError | ValueError | AttributeError

text \<open>
  A statement that may raise has type \<open>exn + 'a\<close>. An exception that leaves a request
  handler discards the open transaction, so the state it would have produced is dropped
  with it: \<open>Inl\<close> carries no state.
\<close>

definition bindE :: "'e + 'a \<Rightarrow> ('a \<Rightarrow> 'e + 'b) \<Rightarrow> 'e + 'b" where
  "bindE m f = (case m of Inl e \<Rightarrow> Inl e | Inr a \<Rightarrow> f a)"

text \<open>A request: on an exception the transaction is rolled back to the state it began in.\<close>

definition run_tx :: "('s \<Rightarrow> 'e + 'a \<times> 's) \<Rightarrow> 's \<Rightarrow> ('e + 'a) \<times> 's" where
  "run_tx m s = (case m s of Inl e \<Rightarrow> (Inl e, s) | Inr (a, s') \<Rightarrow> (Inr a, s'))"

named_theorems inr_simps \<open>when a statement of the model succeeds\<close>
named_theorems touch \<open>which tables a successful statement may change\<close>
named_theorems table_simps \<open>equations of the table operations\<close>

lemma bindE_Inr [simp]: "bindE (Inr a) f = f a"
  and bindE_Inl [simp]: "bindE (Inl e) f = Inl e"
  by (simp_all add: bindE_def)

lemma bindE_eq_Inr [inr_simps]: "bindE m f = Inr y \<longleftrightarrow> (\<exists>a. m = Inr a \<and> f a = Inr y)"
  by (cases m) simp_all

lemma bindE_eq_Inl: "bindE m f = Inl e \<longleftrightarrow> m = Inl e \<or> (\<exists>a. m = Inr a \<and> f a = Inl e)"
  by (cases m) simp_all

lemma bindE_cong [fundef_cong]:
  "m = m' \<Longrightarrow> (\<And>a. m' = Inr a \<Longrightarrow> f a = f' a) \<Longrightarrow> bindE m f = bindE m' f'"
  by (cases m') simp_all

lemma if_eq_Inr [inr_simps]:
  "(if c then m else n) = Inr y \<longleftrightarrow> c \<and> m = Inr y \<or> \<not> c \<and> n = Inr y"
  by simp

lemma option_eq_Inr [inr_simps]:
  "(case x of None \<Rightarrow> m | Some v \<Rightarrow> f v) = Inr y \<longleftrightarrow>
    x = None \<and> m = Inr y \<or> (\<exists>v. x = Some v \<and> f v = Inr y)"
  by (cases x) simp_all

lemma sum_eq_Inr [inr_simps]:
  "(case m of Inl e \<Rightarrow> f e | Inr a \<Rightarrow> g a) = Inr y \<longleftrightarrow>
    (\<exists>e. m = Inl e \<and> f e = Inr y) \<or> (\<exists>a. m = Inr a \<and> g a = Inr y)"
  by (cases m) simp_all

lemma case_Inr_iff: "(case m of Inl e \<Rightarrow> False | Inr a \<Rightarrow> P a) \<longleftrightarrow> (\<exists>a. m = Inr a \<and> P a)"
  by (cases m) simp_all

lemma run_tx_simps [simp]:
  "m s = Inl e \<Longrightarrow> run_tx m s = (Inl e, s)"
  "m s = Inr (a, s') \<Longrightarrow> run_tx m s = (Inr a, s')"
  by (simp_all add: run_tx_def)

lemma run_tx_cases:
  obtains (Error) e where "m s = Inl e" "run_tx m s = (Inl e, s)"
  | (Ok) a s' where "m s = Inr (a, s')" "run_tx m s = (Inr a, s')"
proof (cases "m s")
  case (Inl e)
  then show thesis by (simp add: Error)
next
  case (Inr p)
  then show thesis by (cases p) (simp add: Ok)
qed

text \<open>A sequence of statements over a list, stopping at the first exception.\<close>

fun foldE :: "('a \<Rightarrow> 's \<Rightarrow> 'e + 's) \<Rightarrow> 'a list \<Rightarrow> 's \<Rightarrow> 'e + 's" where
  "foldE f [] s = Inr s"
| "foldE f (x # xs) s = bindE (f x s) (foldE f xs)"

lemma foldE_append: "foldE f (xs @ ys) s = bindE (foldE f xs s) (foldE f ys)"
proof (induction xs arbitrary: s)
  case (Cons x xs)
  then show ?case by (cases "f x s") simp_all
qed simp

text \<open>A property that every statement of the sequence keeps is kept by the sequence.\<close>

lemma foldE_invariant:
  assumes "foldE f xs s = Inr t" and "P s"
    and "\<And>x s t. x \<in> set xs \<Longrightarrow> P s \<Longrightarrow> f x s = Inr t \<Longrightarrow> P t"
  shows "P t"
  using assms
proof (induction xs arbitrary: s)
  case (Cons x xs)
  then show ?case by (auto simp: inr_simps)
qed simp

text \<open>What one statement of the sequence establishes and the others keep holds at the end.\<close>

lemma foldE_reaches:
  assumes "foldE f xs s = Inr t" and "x \<in> set xs" and "P s"
    and "\<And>y s t. P s \<Longrightarrow> f y s = Inr t \<Longrightarrow> P t"
    and "\<And>s t. P s \<Longrightarrow> f x s = Inr t \<Longrightarrow> Q t"
    and "\<And>y s t. Q s \<Longrightarrow> f y s = Inr t \<Longrightarrow> Q t"
  shows "Q t"
proof -
  from assms(2) obtain ys zs where xs: "xs = ys @ x # zs" by (auto dest: split_list)
  with assms(1) obtain s1 s2 where "foldE f ys s = Inr s1" "f x s1 = Inr s2" and 3: "foldE f zs s2 = Inr t"
    by (auto simp: foldE_append inr_simps)
  moreover from this(1) assms(3) have "P s1" by (rule foldE_invariant) (rule assms(4))
  ultimately have "Q s2" by (intro assms(5))
  with 3 show ?thesis by (rule foldE_invariant) (rule assms(6))
qed

section \<open>JSON values\<close>

datatype json =
    JNull
  | JBool bool
  | JInt int
  | JNum rat
  | JStr string
  | JArr "json list"
  | JObj "(string \<times> json) list"

type_synonym jobj = "(string \<times> json) list"

text \<open>\<open>d.get(k)\<close>: \<open>JNull\<close> is what the code reads for a missing key.\<close>

definition jget :: "jobj \<Rightarrow> string \<Rightarrow> json" where
  "jget d k = (case map_of d k of None \<Rightarrow> JNull | Some v \<Rightarrow> v)"

text \<open>Python truth of a JSON value.\<close>

fun truthy :: "json \<Rightarrow> bool" where
  "truthy JNull = False"
| "truthy (JBool b) = b"
| "truthy (JInt n) = (n \<noteq> 0)"
| "truthy (JNum q) = (q \<noteq> 0)"
| "truthy (JStr s) = (s \<noteq> [])"
| "truthy (JArr xs) = (xs \<noteq> [])"
| "truthy (JObj d) = (d \<noteq> [])"

text \<open>A nullable string column as the JSON value it is serialised to, and back.\<close>

definition jopt :: "ident option \<Rightarrow> json" where
  "jopt x = (case x of None \<Rightarrow> JNull | Some v \<Rightarrow> JStr v)"

text \<open>Python truth of a nullable string: \<open>None\<close> and \<open>''\<close> are false.\<close>

definition present :: "string option \<Rightarrow> bool" where
  "present x \<longleftrightarrow> (case x of None \<Rightarrow> False | Some v \<Rightarrow> v \<noteq> [])"

lemma present_Some [simp]: "present (Some v) \<longleftrightarrow> v \<noteq> []"
  and present_None [simp]: "\<not> present None"
  by (simp_all add: present_def)

section \<open>Python text and numbers\<close>

text \<open>\<open>str.strip\<close>: the whitespace characters of Latin-1.\<close>

definition is_space :: "char \<Rightarrow> bool" where
  "is_space c \<longleftrightarrow> (let n = of_char c :: nat in
    9 \<le> n \<and> n \<le> 13 \<or> 28 \<le> n \<and> n \<le> 32 \<or> n = 133 \<or> n = 160)"

definition py_strip :: "string \<Rightarrow> string" where
  "py_strip s = rev (dropWhile is_space (rev (dropWhile is_space s)))"

lemma py_strip_Nil [simp]: "py_strip [] = []"
  by (simp add: py_strip_def)

text \<open>\<open>str.lower\<close> on Latin-1.\<close>

definition py_lower :: "string \<Rightarrow> string" where
  "py_lower = map (\<lambda>c. let n = of_char c :: nat in
    if 65 \<le> n \<and> n \<le> 90 \<or> 192 \<le> n \<and> n \<le> 222 \<and> n \<noteq> 215 then char_of (n + 32) else c)"

text \<open>Decimal digits, and \<open>str\<close> of an integer.\<close>

fun show_nat :: "nat \<Rightarrow> string" where
  "show_nat n = (if n < 10 then [char_of (48 + n)] else show_nat (n div 10) @ [char_of (48 + n mod 10)])"

definition show_int :: "int \<Rightarrow> string" where
  "show_int k = (if k < 0 then CHR ''-'' # show_nat (nat (- k)) else show_nat (nat k))"

text \<open>
  \<open>int(text)\<close> without the surrounding whitespace: a sign, then digits, with single
  underscores allowed between digits. \<open>None\<close> is \<open>ValueError\<close>.
\<close>

definition digit_of :: "char \<Rightarrow> nat option" where
  "digit_of c = (let n = of_char c :: nat in if 48 \<le> n \<and> n \<le> 57 then Some (n - 48) else None)"

fun parse_digits :: "bool \<Rightarrow> nat \<Rightarrow> string \<Rightarrow> nat option" where
  "parse_digits after_digit acc [] = (if after_digit then Some acc else None)"
| "parse_digits after_digit acc (c # cs) =
    (case digit_of c of
       Some k \<Rightarrow> parse_digits True (10 * acc + k) cs
     | None \<Rightarrow> if c = CHR ''_'' \<and> after_digit then parse_digits False acc cs else None)"

definition parse_int :: "string \<Rightarrow> int option" where
  "parse_int text = (case py_strip text of
     [] \<Rightarrow> None
   | c # cs \<Rightarrow>
       if c = CHR ''-'' then map_option (\<lambda>n. - int n) (parse_digits False 0 cs)
       else if c = CHR ''+'' then map_option int (parse_digits False 0 cs)
       else map_option int (parse_digits False 0 (c # cs)))"

text \<open>
  \<open>int(x)\<close> of a JSON value: truncation of a fraction, \<open>None\<close> where Python raises
  \<open>TypeError\<close> or \<open>ValueError\<close>.
\<close>

fun py_int :: "json \<Rightarrow> int option" where
  "py_int JNull = None"
| "py_int (JBool b) = Some (if b then 1 else 0)"
| "py_int (JInt n) = Some n"
| "py_int (JNum q) = Some (if 0 \<le> q then \<lfloor>q\<rfloor> else \<lceil>q\<rceil>)"
| "py_int (JStr s) = parse_int s"
| "py_int (JArr xs) = None"
| "py_int (JObj d) = None"

text \<open>\<open>x or 0\<close> before the conversion.\<close>

definition py_int_or_0 :: "json \<Rightarrow> int option" where
  "py_int_or_0 j = (if truthy j then py_int j else Some 0)"

text \<open>The statement \<open>int(x or 0)\<close> with the exception it raises.\<close>

definition int_or_raise :: "json \<Rightarrow> exn + int" where
  "int_or_raise j = (case py_int_or_0 j of
     Some n \<Rightarrow> Inr n
   | None \<Rightarrow> Inl (case j of JStr _ \<Rightarrow> ValueError | _ \<Rightarrow> TypeError))"

text \<open>
  \<open>x == y\<close> of two JSON values: numbers and booleans compare by their numeric value, lists
  and objects entry by entry.
\<close>

fun py_num :: "json \<Rightarrow> rat option" where
  "py_num (JBool b) = Some (if b then 1 else 0)"
| "py_num (JInt n) = Some (of_int n)"
| "py_num (JNum q) = Some q"
| "py_num _ = None"

fun py_eq :: "json \<Rightarrow> json \<Rightarrow> bool" and py_eqs :: "json list \<Rightarrow> json list \<Rightarrow> bool"
  and py_has :: "(string \<times> json) list \<Rightarrow> (string \<times> json) list \<Rightarrow> bool" where
  "py_eq (JArr xs) j = (case j of JArr ys \<Rightarrow> py_eqs xs ys | _ \<Rightarrow> False)"
| "py_eq (JObj d) j = (case j of JObj e \<Rightarrow> length d = length e \<and> py_has d e | _ \<Rightarrow> False)"
| "py_eq (JStr s) j = (j = JStr s)"
| "py_eq JNull j = (j = JNull)"
| "py_eq (JBool b) j = (py_num j = py_num (JBool b))"
| "py_eq (JInt n) j = (py_num j = py_num (JInt n))"
| "py_eq (JNum q) j = (py_num j = py_num (JNum q))"
| "py_eqs [] ys = (ys = [])"
| "py_eqs (x # xs) ys = (case ys of [] \<Rightarrow> False | y # ys \<Rightarrow> py_eq x y \<and> py_eqs xs ys)"
| "py_has [] e = True"
| "py_has ((k, v) # d) e = ((case map_of e k of None \<Rightarrow> False | Some w \<Rightarrow> py_eq v w) \<and> py_has d e)"

text \<open>
  \<open>str(x)\<close> used as an identifier. The text of a fraction, list or object is no
  identifier of any row (identifiers are a prefix and hexadecimal digits), which \<open>None\<close>
  stands for.
\<close>

fun id_text :: "json \<Rightarrow> string option" where
  "id_text JNull = Some ''None''"
| "id_text (JBool b) = Some (if b then ''True'' else ''False'')"
| "id_text (JInt n) = Some (show_int n)"
| "id_text (JNum q) = None"
| "id_text (JStr s) = Some s"
| "id_text (JArr xs) = None"
| "id_text (JObj d) = None"

declare show_nat.simps [simp del]

lemma show_nat_nonempty [simp]: "show_nat n \<noteq> []"
  by (subst show_nat.simps) simp

section \<open>Tables\<close>

text \<open>
  A table is the list of its rows in insertion order. \<open>find\<close> is
  \<open>session.scalar(select(...).where(...))\<close> and \<open>update_where\<close> assigns to the
  attributes of every row that satisfies the predicate.
\<close>

definition update_where :: "('r \<Rightarrow> bool) \<Rightarrow> ('r \<Rightarrow> 'r) \<Rightarrow> 'r list \<Rightarrow> 'r list" where
  "update_where P f xs = map (\<lambda>r. if P r then f r else r) xs"

text \<open>The row that satisfies the predicate, added when there is none, with attributes assigned.\<close>

definition upsert :: "('r \<Rightarrow> bool) \<Rightarrow> 'r \<Rightarrow> ('r \<Rightarrow> 'r) \<Rightarrow> 'r list \<Rightarrow> 'r list" where
  "upsert P new f xs = update_where P f (if list_ex P xs then xs else xs @ [new])"

definition sum_where :: "('r \<Rightarrow> bool) \<Rightarrow> ('r \<Rightarrow> int) \<Rightarrow> 'r list \<Rightarrow> int" where
  "sum_where P f xs = sum_list (map f (filter P xs))"

definition count_where :: "('r \<Rightarrow> bool) \<Rightarrow> 'r list \<Rightarrow> nat" where
  "count_where P xs = length (filter P xs)"

text \<open>
  Insertion under uniqueness constraints: \<open>clash new old\<close> says that the two rows agree
  on the primary key or on a unique index.
\<close>

definition insert_row :: "('r \<Rightarrow> 'r \<Rightarrow> bool) \<Rightarrow> 'r \<Rightarrow> 'r list \<Rightarrow> exn + 'r list" where
  "insert_row clash r xs = (if list_ex (clash r) xs then Inl IntegrityError else Inr (xs @ [r]))"

definition unique_by :: "('r \<Rightarrow> 'k) \<Rightarrow> 'r list \<Rightarrow> bool" where
  "unique_by key xs \<longleftrightarrow> distinct (map key xs)"

lemma insert_row_eq_Inr [inr_simps]:
  "insert_row clash r xs = Inr ys \<longleftrightarrow> \<not> list_ex (clash r) xs \<and> ys = xs @ [r]"
  by (auto simp: insert_row_def)

lemma insert_row_unique:
  assumes "insert_row clash r xs = Inr ys" and "unique_by key xs"
    and "\<And>x. key x = key r \<Longrightarrow> clash r x"
  shows "unique_by key ys"
  using assms by (auto simp: inr_simps unique_by_def list_ex_iff)

lemma find_SomeD: "find P xs = Some x \<Longrightarrow> x \<in> set xs \<and> P x"
  by (auto simp: find_Some_iff)

lemma find_append: "find P (xs @ ys) = (case find P xs of None \<Rightarrow> find P ys | Some x \<Rightarrow> Some x)"
  by (induction xs) simp_all

lemma find_append_hit: "find P xs = Some x \<Longrightarrow> find P (xs @ ys) = Some x"
  by (simp add: find_append)

lemma find_snoc_new: "find P xs = None \<Longrightarrow> P x \<Longrightarrow> find P (xs @ [x]) = Some x"
  by (simp add: find_append)

lemma find_None_set: "find P xs = None \<Longrightarrow> x \<in> set xs \<Longrightarrow> \<not> P x"
  by (auto simp: find_None_iff)

lemma find_stronger:
  "find P xs = Some x \<Longrightarrow> Q x \<Longrightarrow> (\<And>y. Q y \<Longrightarrow> P y) \<Longrightarrow> find Q xs = Some x"
  by (induction xs) (auto split: if_splits)

lemma find_unique:
  assumes "unique_by key xs" and "x \<in> set xs" and "P x" and "\<And>y. P y \<Longrightarrow> key y = key x"
  shows "find P xs = Some x"
  using assms
proof (induction xs)
  case (Cons z zs)
  show ?case
  proof (cases "P z")
    case True
    then have "key z = key x" by (rule Cons.prems(4))
    with Cons.prems(1,2) have "z = x" by (auto simp: unique_by_def image_iff)
    with True show ?thesis by simp
  next
    case False
    with Cons.prems(3) have "x \<noteq> z" by blast
    with Cons.prems(2) have "x \<in> set zs" by simp
    moreover from Cons.prems(1) have "unique_by key zs" by (simp add: unique_by_def)
    ultimately have "find P zs = Some x" using Cons.IH Cons.prems(3,4) by blast
    with False show ?thesis by simp
  qed
qed simp

lemma update_where_simps [table_simps]:
  "update_where P f [] = []"
  "update_where P f (x # xs) = (if P x then f x else x) # update_where P f xs"
  "update_where P f (xs @ ys) = update_where P f xs @ update_where P f ys"
  by (simp_all add: update_where_def)

lemma length_update_where [simp]: "length (update_where P f xs) = length xs"
  by (simp add: update_where_def)

lemma set_update_where: "set (update_where P f xs) = (\<lambda>r. if P r then f r else r) ` set xs"
  by (auto simp: update_where_def)

lemma map_update_where: "(\<And>r. P r \<Longrightarrow> g (f r) = g r) \<Longrightarrow> map g (update_where P f xs) = map g xs"
  by (auto simp: update_where_def)

lemma update_where_id: "(\<And>r. r \<in> set xs \<Longrightarrow> \<not> P r) \<Longrightarrow> update_where P f xs = xs"
  by (simp add: update_where_def map_idI)

lemma unique_by_update_where:
  "unique_by key xs \<Longrightarrow> (\<And>r. P r \<Longrightarrow> key (f r) = key r) \<Longrightarrow> unique_by key (update_where P f xs)"
  by (simp add: unique_by_def map_update_where)

lemma find_update_where:
  assumes "\<And>r. P r \<Longrightarrow> Q (f r) \<longleftrightarrow> Q r"
  shows "find Q (update_where P f xs) = map_option (\<lambda>r. if P r then f r else r) (find Q xs)"
  using assms by (induction xs) (auto simp: table_simps)

lemma find_set_where:
  "find Q xs = Some c \<Longrightarrow> P c \<Longrightarrow> Q c' \<Longrightarrow> find Q (update_where P (\<lambda>_. c') xs) = Some c'"
  by (induction xs) (auto simp: table_simps split: if_splits)

lemma find_upsert_same:
  assumes "P new" and "\<And>r. P r \<Longrightarrow> P (f r)"
  shows "find P (upsert P new f xs) = Some (f (case find P xs of None \<Rightarrow> new | Some r \<Rightarrow> r))"
proof (cases "find P xs")
  case None
  then have "\<not> list_ex P xs" by (auto simp: find_None_iff list_ex_iff)
  with None assms show ?thesis by (simp add: upsert_def find_update_where find_append)
next
  case (Some r)
  then have "list_ex P xs" "P r" by (auto simp: list_ex_iff dest!: find_SomeD)
  with Some assms(2) show ?thesis by (simp add: upsert_def find_update_where)
qed

lemma find_upsert_other:
  assumes "\<not> Q new" and "\<And>r. P r \<Longrightarrow> \<not> Q r \<and> \<not> Q (f r)"
  shows "find Q (upsert P new f xs) = find Q xs"
proof -
  have "find Q (update_where P f ys) = find Q ys" for ys
    using assms(2) by (induction ys) (auto simp: table_simps)
  with assms(1) show ?thesis by (simp add: upsert_def find_append split: option.splits)
qed

lemma unique_upsert:
  assumes "unique_by key xs" and "\<And>r. P r \<longleftrightarrow> key r = key new" and "\<And>r. key (f r) = key r"
  shows "unique_by key (upsert P new f xs)"
proof -
  have "unique_by key (if list_ex P xs then xs else xs @ [new])"
    using assms(1,2) by (auto simp: unique_by_def list_ex_iff)
  with assms(3) show ?thesis by (simp add: upsert_def unique_by_update_where)
qed

lemma set_upsert:
  "set (upsert P new f xs) =
    (\<lambda>r. if P r then f r else r) ` (set xs \<union> (if list_ex P xs then {} else {new}))"
  by (simp add: upsert_def set_update_where)

lemma sum_where_simps [table_simps]:
  "sum_where P f [] = 0"
  "sum_where P f (x # xs) = (if P x then f x else 0) + sum_where P f xs"
  "sum_where P f (xs @ ys) = sum_where P f xs + sum_where P f ys"
  by (simp_all add: sum_where_def)

lemma sum_where_none: "(\<And>x. x \<in> set xs \<Longrightarrow> \<not> P x) \<Longrightarrow> sum_where P f xs = 0"
  by (induction xs) (simp_all add: table_simps)

lemma sum_where_update_where:
  assumes "\<And>r. Q r \<Longrightarrow> P (g r) \<longleftrightarrow> P r" and "\<And>r. Q r \<Longrightarrow> f (g r) = f r"
  shows "sum_where P f (update_where Q g xs) = sum_where P f xs"
  using assms by (induction xs) (simp_all add: table_simps)

lemma count_where_simps [table_simps]:
  "count_where P [] = 0"
  "count_where P (x # xs) = (if P x then Suc (count_where P xs) else count_where P xs)"
  "count_where P (xs @ ys) = count_where P xs + count_where P ys"
  by (simp_all add: count_where_def)

lemma count_where_pos: "0 < count_where P xs \<longleftrightarrow> (\<exists>x \<in> set xs. P x)"
  by (auto simp: count_where_def filter_empty_conv)

lemma count_where_update_where:
  assumes "\<And>r. Q r \<Longrightarrow> P (g r) \<longleftrightarrow> P r"
  shows "count_where P (update_where Q g xs) = count_where P xs"
  using assms by (induction xs) (simp_all add: table_simps)

section \<open>Look up, insert, look up again\<close>

text \<open>
  The shape the services share: select the row, otherwise add it in a savepoint
  (\<open>session.begin_nested()\<close> and \<open>flush\<close>), and when the insertion violates a
  uniqueness constraint select once more before giving up. \<open>get\<close> and \<open>upd\<close> read and
  replace one table, \<open>mk\<close> builds the new row (and draws its identifier).
\<close>

definition get_or_insert ::
  "('r \<Rightarrow> bool) \<Rightarrow> ('r \<Rightarrow> 'r \<Rightarrow> bool) \<Rightarrow> ('s \<Rightarrow> 'r list) \<Rightarrow> (('r list \<Rightarrow> 'r list) \<Rightarrow> 's \<Rightarrow> 's)
    \<Rightarrow> ('s \<Rightarrow> 'r \<times> 's) \<Rightarrow> 's \<Rightarrow> exn + 'r \<times> 's" where
  "get_or_insert P clash get upd mk s =
    (case find P (get s) of
       Some r \<Rightarrow> Inr (r, s)
     | None \<Rightarrow>
         (let (r, s1) = mk s in
          case insert_row clash r (get s1) of
            Inr rows \<Rightarrow> Inr (r, upd (\<lambda>_. rows) s1)
          | Inl e \<Rightarrow> (case find P (get s1) of Some r' \<Rightarrow> Inr (r', s1) | None \<Rightarrow> Inl e)))"

lemma get_or_insert_hit: "find P (get s) = Some r \<Longrightarrow> get_or_insert P clash get upd mk s = Inr (r, s)"
  by (simp add: get_or_insert_def)

lemma get_or_insert_eq_Inr:
  assumes "get (snd (mk s)) = get s"
  shows "get_or_insert P clash get upd mk s = Inr (r, s') \<longleftrightarrow>
    (find P (get s) = Some r \<and> s' = s) \<or>
    (find P (get s) = None \<and> r = fst (mk s) \<and> \<not> list_ex (clash r) (get s) \<and>
      s' = upd (\<lambda>_. get s @ [r]) (snd (mk s)))"
proof (cases "find P (get s)")
  case None
  obtain r1 s1 where mk: "mk s = (r1, s1)" by (cases "mk s")
  with assms have "get s1 = get s" by simp
  with None mk show ?thesis
    by (auto simp: get_or_insert_def insert_row_def split: if_splits)
next
  case (Some r0)
  then show ?thesis by (auto simp: get_or_insert_hit)
qed

section \<open>The idempotency-key contract\<close>

text \<open>
  Most writers of the services look a row up under its key first, return it when it is
  there, and otherwise create it (\<open>record_engagement_event\<close>, \<open>grant_xp\<close>,
  \<open>grant_points\<close>, \<open>spend_points\<close>, \<open>reverse_points\<close>,
  \<open>grant_reward\<close>, ...). What a caller relies on is this contract; its consequences are
  proved once here, and each writer is an interpretation.
\<close>

locale keyed_store =
  fixes look :: "'k \<Rightarrow> 's \<Rightarrow> 'r option"
    and op :: "'k \<Rightarrow> 'a \<Rightarrow> 's \<Rightarrow> exn + 'r \<times> 's"
    and ok :: "'a \<Rightarrow> bool"
  assumes hit: "ok a \<Longrightarrow> look k s = Some r \<Longrightarrow> op k a s = Inr (r, s)"
    and stored: "op k a s = Inr (r, s') \<Longrightarrow> look k s' = Some r"
    and accepted: "op k a s = Inr (r, s') \<Longrightarrow> ok a"
begin

lemma replay:
  assumes "op k a s = Inr (r, s')" and "ok b"
  shows "op k b s' = Inr (r, s')"
  using assms by (blast intro: hit stored)

lemma replay_same: "op k a s = Inr (r, s') \<Longrightarrow> op k a s' = Inr (r, s')"
  by (blast intro: replay accepted)

text \<open>Any number of retries leaves the state of the first success and returns its row.\<close>

lemma retries:
  assumes "op k a s = Inr (r, s')" and "\<And>b. b \<in> set bs \<Longrightarrow> ok b"
  shows "foldE (\<lambda>b s. bindE (op k b s) (\<lambda>(r', s). if r' = r then Inr s else Inl KeyError)) bs s'
    = Inr s'"
  using assms by (induction bs) (auto simp: replay)

lemma functional: "op k a s = Inr (r, s') \<Longrightarrow> look k s = Some r0 \<Longrightarrow> r = r0 \<and> s' = s"
  using accepted hit by fastforce

end

section \<open>Services that keep an invariant\<close>

text \<open>
  A service is an operation that a request handler runs in its own transaction. Its
  contract is that a successful run keeps the invariant of the component; a failed one is
  rolled back. The consequence, for any sequence of requests whatever their outcomes, is
  proved once here and obtained for each operation by interpretation.
\<close>

locale service =
  fixes op :: "'a \<Rightarrow> 's \<Rightarrow> exn + 'r \<times> 's"
    and inv :: "'s \<Rightarrow> bool"
  assumes keeps: "op a s = Inr (r, s') \<Longrightarrow> inv s \<Longrightarrow> inv s'"
begin

lemma request: "inv s \<Longrightarrow> inv (snd (run_tx (op a) s))"
  by (rule run_tx_cases [of "op a" s]) (auto intro: keeps)

lemma requests: "inv s \<Longrightarrow> inv (fold (\<lambda>a s. snd (run_tx (op a) s)) as s)"
  by (induction as arbitrary: s) (simp_all add: request)

end

end
