(* ===== verification/Schema.thy ===== *)
theory Schema
  imports Prelude
begin

text \<open>
  The rows of the database (\<open>backend/app/models.py\<close>), one record per mapped class with
  the columns the modelled operations read or write, and the database state all of them
  act on. Left out of the rows are the columns that only carry display text or media
  addresses (titles and bodies of notifications, descriptions, image URLs) and the
  \<open>updated_at\<close> bookkeeping stamps. A column prefix names the class: \<open>pl_amount\<close>
  is \<open>PointLedger.amount\<close>. Foreign keys are not enforced (the SQLite deployment does
  not switch them on, and no operation below relies on them).
\<close>

section \<open>Rows\<close>

datatype role = FAN | ADMIN | ARTIST

text \<open>\<open>Role.value\<close>\<close>

fun role_value :: "role \<Rightarrow> string" where
  "role_value FAN = ''fan''"
| "role_value ADMIN = ''admin''"
| "role_value ARTIST = ''artist''"

record user =
  u_id :: string
  u_email :: "string option"
  u_username :: "string option"
  u_password_hash :: "string option"
  u_must_change_password :: bool
  u_role :: role
  u_nickname :: "string option"
  u_favorite_artist_ids :: "string list"
  u_favorite_member_ids :: "string list"
  u_onboarding_completed :: bool
  u_notification_email_enabled :: bool
  u_deleted_at :: "time option"

record follow =
  fo_id :: string
  fo_follower_id :: string
  fo_following_id :: string
  fo_created_at :: time

record user_block =
  ub_id :: string
  ub_blocker_id :: string
  ub_blocked_id :: string
  ub_created_at :: time

record card_visibility =
  cv_user_id :: string
  cv_public_enabled :: bool

record organization =
  org_id :: string
  org_name :: string
  org_slug :: string
  org_status :: string
  org_contract_starts_at :: "time option"
  org_contract_ends_at :: "time option"
  org_logo_asset_id :: "string option"

record admin_membership =
  am_user_id :: string
  am_organization_id :: "string option"
  am_access_level :: string
  am_status :: string
  am_last_login_at :: "time option"

record organization_artist =
  oa_organization_id :: string
  oa_artist_id :: string

record admin_artist_assignment =
  aa_admin_user_id :: string
  aa_artist_id :: string

record login_session =
  se_token :: string
  se_user_id :: string

record refresh_token =
  rt_jti :: string
  rt_family_id :: string
  rt_token_digest :: string
  rt_user_id :: string
  rt_client :: string
  rt_expires_at :: time
  rt_created_at :: time
  rt_used_at :: "time option"
  rt_revoked_at :: "time option"
  rt_replaced_by_jti :: "string option"

record magic_link =
  ml_token_hash :: string
  ml_email :: string
  ml_purpose :: string
  ml_expires_at :: time
  ml_consumed_at :: "time option"

record card_row =
  c_id :: string
  c_name :: string
  c_status :: string
  c_release_policy :: string
  c_release_status :: string
  c_review_version :: int
  c_is_official :: bool
  c_artist_id :: "string option"
  c_member_id :: "string option"
  c_owner_artist_id :: "string option"
  c_organization_id :: "string option"
  c_rarity :: "string option"
  c_image_asset_id :: "string option"
  c_handwriting_asset_id :: "string option"
  c_voice_asset_id :: "string option"
  c_video_asset_id :: "string option"
  c_design_config :: "jobj option"
  c_review_note :: "string option"
  c_has_voice :: bool
  c_issue_limit :: "int option"
  c_tradable :: bool
  c_drop_id :: "string option"
  c_template_id :: "string option"
  c_season_name :: "string option"
  c_signature_text :: "string option"
  c_handwriting_transform :: "jobj option"

record card_review_request =
  rr_id :: string
  rr_card_id :: string
  rr_version :: int
  rr_stage :: string
  rr_status :: string
  rr_snapshot :: jobj

record card_review_decision =
  rd_id :: string
  rd_request_id :: string
  rd_reviewer_user_id :: string
  rd_decision :: string
  rd_note :: "string option"
  rd_decided_at :: time

record drop_row =
  d_id :: string
  d_name :: string
  d_status :: string
  d_organization_id :: "string option"
  d_artist_id :: "string option"
  d_starts_at :: "time option"
  d_ends_at :: "time option"

record card_pack =
  cp_id :: string
  cp_organization_id :: "string option"
  cp_artist_id :: string
  cp_name :: string
  cp_version :: string
  cp_status :: string
  cp_published_at :: "time option"

record shop_product =
  sp_id :: string
  sp_artist_id :: "string option"
  sp_product_type :: string
  sp_card_pack_id :: "string option"
  sp_name :: string
  sp_description :: "string option"
  sp_fulfillment :: jobj
  sp_price_points :: int
  sp_status :: string
  sp_starts_at :: "time option"
  sp_ends_at :: "time option"
  sp_inventory_limit :: "int option"
  sp_sold_count :: int
  sp_per_user_limit :: "int option"
  sp_scheduled_publish_at :: "time option"
  sp_exposure_slot :: string

record shop_order =
  so_id :: string
  so_user_id :: string
  so_product_id :: string
  so_product_name :: string
  so_price_points :: int
  so_payment_method :: string
  so_status :: string
  so_idempotency_key :: "string option"
  so_point_ledger_id :: "string option"
  so_point_event_id :: "string option"
  so_refund_transaction_id :: "string option"
  so_refunded_at :: "time option"
  so_created_at :: time

record shop_order_entitlement =
  soe_id :: string
  soe_order_id :: string
  soe_user_id :: string
  soe_pack_id :: string
  soe_status :: string
  soe_opened_at :: "time option"
  soe_created_at :: time

record card_pack_card =
  cpc_id :: string
  cpc_pack_id :: string
  cpc_card_id :: string
  cpc_position :: int
  cpc_probability :: rat
  cpc_enabled :: bool

record card_pack_opening =
  cpo_id :: string
  cpo_user_id :: string
  cpo_pack_id :: string
  cpo_card_id :: string
  cpo_user_card_id :: "string option"
  cpo_idempotency_key :: "string option"
  cpo_issuance_code :: string
  cpo_created_at :: time

record card_combination_recipe =
  ccr_id :: string
  ccr_scope_type :: string
  ccr_scope_id :: string
  ccr_input_quantity :: int
  ccr_output_rarity_pool :: "string list"
  ccr_probability_snapshot :: "(string \<times> rat) list"
  ccr_probability_version :: string
  ccr_status :: string

record card_combination =
  cc_id :: string
  cc_user_id :: string
  cc_recipe_id :: string
  cc_result_card_id :: string
  cc_result_user_card_id :: "string option"
  cc_material_user_card_ids :: "string list"
  cc_probability_version :: string
  cc_idempotency_key :: "string option"
  cc_status :: string

record card_combination_material =
  ccm_id :: string
  ccm_combination_id :: string
  ccm_user_card_id :: string
  ccm_card_id :: string

record redeem_code =
  rc_code :: string
  rc_card_id :: string
  rc_drop_id :: string
  rc_expires_at :: "time option"
  rc_used_count :: int
  rc_max_uses :: int
  rc_batch_id :: "string option"
  rc_disabled_at :: "time option"

record user_card =
  uc_id :: string
  uc_user_id :: string
  uc_card_id :: string
  uc_redeem_code_id :: "string option"
  uc_drop_id :: "string option"
  uc_serial_number :: int
  uc_acquisition_source :: string
  uc_acquired_at :: time
  uc_expires_at :: "time option"
  uc_trade_locked_at :: "time option"

record trade_proposal =
  tp_id :: string
  tp_proposer_id :: string
  tp_recipient_id :: string
  tp_status :: string
  tp_expires_at :: time
  tp_created_at :: time
  tp_responded_at :: "time option"

record trade_item =
  ti_id :: string
  ti_proposal_id :: string
  ti_user_card_id :: string
  ti_side :: string

record trade_lock =
  tl_id :: string
  tl_proposal_id :: string
  tl_user_card_id :: string

record trade_hold =
  th_id :: string
  th_proposal_id :: string
  th_ticket_id :: "string option"
  th_released_at :: "time option"

record ownership_event =
  ol_id :: string
  ol_user_card_id :: string
  ol_user_id :: string
  ol_card_id :: string
  ol_action :: string
  ol_source_type :: string
  ol_source_id :: string
  ol_from_user_id :: "string option"
  ol_to_user_id :: "string option"
  ol_metadata_json :: "jobj option"
  ol_previous_hash :: "string option"
  ol_record_hash :: "string option"
  ol_created_at :: time

record engagement_event =
  ev_id :: string
  ev_user_id :: string
  ev_kind :: string
  ev_source_type :: string
  ev_source_id :: string
  ev_payload :: jobj
  ev_status :: string
  ev_processed_at :: "time option"
  ev_error_code :: "string option"
  ev_error_message :: "string option"
  ev_attempt_count :: int
  ev_next_attempt_at :: "time option"
  ev_dead_lettered_at :: "time option"

record mission_definition =
  md_id :: string
  md_organization_id :: "string option"
  md_artist_id :: "string option"
  md_title :: string
  md_event_kind :: string
  md_target_value :: int
  md_recurrence :: string
  md_condition_payload :: jobj
  md_reward_payload :: jobj
  md_status :: string
  md_starts_at :: "time option"
  md_ends_at :: "time option"

record mission_progress_row =
  mp_id :: string
  mp_user_id :: string
  mp_mission_id :: string
  mp_period_key :: string
  mp_current_value :: int
  mp_completed_at :: "time option"
  mp_claimed_at :: "time option"

record point_ledger_row =
  pl_id :: string
  pl_user_id :: string
  pl_source_event_id :: string
  pl_rule_key :: string
  pl_transaction_type :: string
  pl_amount :: int
  pl_balance_after :: int
  pl_expires_at :: "time option"
  pl_reversed_ledger_id :: "string option"
  pl_metadata_json :: jobj
  pl_created_at :: time

record point_balance =
  pb_user_id :: string
  pb_balance :: int

record point_transaction =
  pt_id :: string
  pt_user_id :: string
  pt_operation :: string
  pt_idempotency_key :: string
  pt_amount :: int
  pt_resource_type :: "string option"
  pt_resource_id :: "string option"
  pt_request_hash :: "string option"
  pt_ledger_id :: "string option"
  pt_status :: string
  pt_created_at :: time

record point_charge =
  pc_id :: string
  pc_user_id :: string
  pc_package_id :: string
  pc_payment_method :: string
  pc_points :: int
  pc_price_won :: int
  pc_status :: string
  pc_idempotency_key :: string
  pc_ledger_id :: "string option"
  pc_created_at :: time
  pc_refunded_at :: "time option"

record point_charge_package =
  pp_id :: string
  pp_points :: int
  pp_price_won :: int
  pp_label :: string
  pp_status :: string
  pp_sort_order :: int
  pp_scheduled_publish_at :: "time option"

record level_policy_version =
  lp_id :: string
  lp_status :: string
  lp_is_active :: bool
  lp_effective_at :: "time option"

record level_threshold =
  lt_id :: string
  lt_policy_version_id :: string
  lt_level :: int
  lt_required_xp :: int

record analytics_event =
  ae_id :: string
  ae_event_name :: string
  ae_user_id :: "string option"
  ae_organization_id :: "string option"
  ae_artist_id :: "string option"
  ae_card_id :: "string option"
  ae_pack_id :: "string option"
  ae_source :: "string option"
  ae_dedupe_key :: "string option"
  ae_metadata_json :: jobj
  ae_created_at :: time

record achievement_definition =
  ad_id :: string
  ad_organization_id :: "string option"
  ad_artist_id :: "string option"
  ad_condition_type :: string
  ad_target_value :: int
  ad_condition_payload :: jobj
  ad_reward_rule_key :: "string option"
  ad_status :: string
  ad_starts_at :: "time option"
  ad_ends_at :: "time option"

record achievement_progress_row =
  ap_id :: string
  ap_user_id :: string
  ap_achievement_id :: string
  ap_current_value :: int
  ap_completed_at :: "time option"

record reward =
  rw_id :: string
  rw_organization_id :: "string option"
  rw_artist_id :: "string option"
  rw_reward_type :: string
  rw_name :: string
  rw_metadata :: jobj
  rw_status :: string

record reward_grant =
  rg_id :: string
  rg_user_id :: string
  rg_reward_id :: string
  rg_source_event_id :: string
  rg_rule_key :: string
  rg_granted_at :: time
  rg_claimed_at :: "time option"
  rg_revoked_at :: "time option"

record reward_pack_entitlement =
  rpe_id :: string
  rpe_reward_grant_id :: string
  rpe_user_id :: string
  rpe_pack_id :: string
  rpe_status :: string
  rpe_opened_at :: "time option"
  rpe_created_at :: time

record xp_ledger_row =
  xl_id :: string
  xl_user_id :: string
  xl_event_id :: string
  xl_rule_key :: string
  xl_amount :: int
  xl_created_at :: time

record fan_level =
  fl_user_id :: string
  fl_total_xp :: int
  fl_level :: int

record pass_season =
  ps_id :: string
  ps_organization_id :: "string option"
  ps_artist_id :: "string option"
  ps_title :: string
  ps_description :: "string option"
  ps_status :: string
  ps_is_paid :: bool
  ps_premium_enabled :: bool
  ps_premium_price_points :: "int option"
  ps_starts_at :: "time option"
  ps_ends_at :: "time option"

record pass_tier =
  pti_id :: string
  pti_season_id :: string
  pti_tier :: int
  pti_required_xp :: int
  pti_reward_id :: "string option"
  pti_premium_reward_id :: "string option"

record pass_progress_row =
  ppr_id :: string
  ppr_user_id :: string
  ppr_season_id :: string
  ppr_current_xp :: int
  ppr_claimed_tier_ids :: "string list"
  ppr_premium_claimed_tier_ids :: "string list"

record pass_entitlement =
  pe_id :: string
  pe_user_id :: string
  pe_season_id :: string
  pe_price_points :: int
  pe_status :: string
  pe_order_id :: "string option"
  pe_purchased_at :: time

record profile_equipment_row =
  eq_user_id :: string
  eq_equipped_reward_ids :: "string list"
  eq_is_public :: bool

record collection_campaign =
  cca_id :: string
  cca_artist_id :: "string option"
  cca_season_name :: "string option"
  cca_required_card_ids :: "string list"
  cca_benefit_asset_id :: "string option"
  cca_status :: string

record notification =
  n_id :: string
  n_user_id :: string
  n_kind :: string
  n_entity_type :: "string option"
  n_entity_id :: "string option"
  n_event_key :: "string option"
  n_is_read :: bool
  n_read_at :: "time option"
  n_created_at :: time

record push_device =
  pd_id :: string
  pd_user_id :: string
  pd_token :: string
  pd_platform :: string
  pd_enabled :: bool
  pd_last_seen_at :: time

record notification_delivery =
  nd_id :: string
  nd_notification_id :: string
  nd_channel :: string
  nd_destination :: string
  nd_idempotency_key :: string
  nd_status :: string
  nd_attempt_count :: int
  nd_next_attempt_at :: "time option"
  nd_last_error :: "string option"
  nd_sent_at :: "time option"
  nd_created_at :: time

record audit_log =
  al_id :: string
  al_actor_user_id :: "string option"
  al_action :: string
  al_entity_type :: string
  al_entity_id :: string
  al_organization_id :: "string option"
  al_artist_id :: "string option"
  al_details :: jobj
  al_created_at :: time

record approval_request =
  apr_id :: string
  apr_kind :: string
  apr_entity_type :: string
  apr_entity_id :: string
  apr_requested_by :: string
  apr_approved_by :: "string option"
  apr_status :: string
  apr_payload :: jobj
  apr_reason :: "string option"
  apr_created_at :: time
  apr_decided_at :: "time option"

record event_row =
  e_id :: string
  e_organization_id :: "string option"
  e_artist_id :: "string option"
  e_title :: string
  e_hero_asset_id :: string
  e_event_type :: string
  e_workflow_status :: string
  e_starts_at :: time
  e_ends_at :: "time option"
  e_participant_limit :: "int option"
  e_application_starts_at :: "time option"
  e_application_ends_at :: "time option"
  e_drop_id :: "string option"
  e_card_id :: "string option"
  e_achievement_id :: "string option"
  e_external_url :: "string option"
  e_review_note :: "string option"
  e_created_by :: string
  e_reviewed_by :: "string option"
  e_published_at :: "time option"
  e_notification_sent_at :: "time option"
  e_featured :: bool
  e_priority :: int

record event_application =
  ea_id :: string
  ea_event_id :: string
  ea_user_id :: string
  ea_status :: string
  ea_check_in_token_hash :: "string option"
  ea_check_in_token_issued_at :: "time option"
  ea_checked_in_at :: "time option"
  ea_checked_in_by :: "string option"
  ea_created_at :: time

record event_comment =
  ec_id :: string
  ec_event_id :: string
  ec_user_id :: string
  ec_body :: string
  ec_status :: string
  ec_created_at :: time

record consent_record =
  con_id :: string
  con_user_id :: "string option"
  con_policy_key :: string
  con_policy_version :: string
  con_granted :: bool
  con_source :: string
  con_created_at :: time

record event_like =
  el_id :: string
  el_user_id :: string
  el_event_id :: string
  el_created_at :: time

record support_ticket =
  st_id :: string
  st_user_id :: string
  st_category :: string
  st_subject :: string
  st_target_type :: "string option"
  st_target_id :: "string option"
  st_status :: string
  st_assigned_admin_id :: "string option"
  st_created_at :: time
  st_closed_at :: "time option"

record support_message =
  sm_id :: string
  sm_ticket_id :: string
  sm_author_user_id :: string
  sm_body :: string
  sm_created_at :: time

record support_evidence =
  sev_id :: string
  sev_ticket_id :: string
  sev_actor_user_id :: string
  sev_kind :: string
  sev_reference_id :: "string option"
  sev_note :: "string option"
  sev_created_at :: time

record social_account =
  sa_id :: string
  sa_provider :: string
  sa_subject :: string
  sa_user_id :: string
  sa_email :: "string option"
  sa_created_at :: time

record oauth_state =
  os_state_hash :: string
  os_provider :: string
  os_client :: string
  os_redirect_uri :: string
  os_expires_at :: time
  os_created_at :: time
  os_consumed_at :: "time option"

record oauth_exchange_code =
  ox_code_hash :: string
  ox_user_id :: string
  ox_client :: string
  ox_expires_at :: time
  ox_created_at :: time
  ox_consumed_at :: "time option"

record artist =
  ar_id :: string
  ar_name :: string

record artist_profile =
  arp_user_id :: string
  arp_artist_id :: string
  arp_verification_status :: string

record member_row =
  mem_id :: string
  mem_artist_id :: string
  mem_name :: string

record card_effect_version =
  cev_id :: string
  cev_card_id :: string
  cev_version :: int
  cev_design_config :: jobj
  cev_author_user_id :: string
  cev_status :: string
  cev_review_note :: "string option"
  cev_submitted_at :: "time option"
  cev_approved_at :: "time option"
  cev_created_at :: time

record card_collaboration_comment =
  ccl_id :: string
  ccl_card_id :: string
  ccl_author_user_id :: string
  ccl_body :: string
  ccl_mention_user_id :: "string option"
  ccl_status :: string
  ccl_review_version :: "int option"
  ccl_created_at :: time

record event_related_card =
  erc_id :: string
  erc_event_id :: string
  erc_card_id :: string
  erc_position :: int

record redeem_code_batch =
  rcb_id :: string
  rcb_drop_id :: string
  rcb_card_id :: string
  rcb_quantity :: int
  rcb_max_uses_per_code :: int
  rcb_expires_at :: string
  rcb_prefix :: string

record fan_wishlist_item =
  fw_id :: string
  fw_user_id :: string
  fw_card_id :: string
  fw_created_at :: time

record collection_goal =
  cgo_id :: string
  cgo_user_id :: string
  cgo_pack_id :: string
  cgo_target_count :: int
  cgo_completed_at :: "time option"
  cgo_created_at :: time

record collection_benefit_claim =
  cbc_id :: string
  cbc_user_id :: string
  cbc_campaign_id :: string
  cbc_claimed_at :: time

record content_calendar_entry =
  cce_id :: string
  cce_content_type :: string
  cce_content_id :: string
  cce_title :: string
  cce_starts_at :: time
  cce_ends_at :: time
  cce_status :: string
  cce_notes :: "string option"
  cce_created_by :: string
  cce_created_at :: time

record asset =
  as_id :: string
  as_owner_id :: string
  as_file_name :: "string option"
  as_content_type :: "string option"
  as_purpose :: "string option"
  as_upload_expires_at :: "time option"
  as_upload_completed_at :: "time option"
  as_storage_path :: "string option"
  as_processed_storage_path :: "string option"
  as_content_sha256 :: "string option"
  as_transform :: "jobj option"

record background_removal_job =
  bj_id :: string
  bj_asset_id :: string
  bj_status :: string
  bj_transparent_image_url :: "string option"
  bj_preview_url :: "string option"

record spatial_scene_job =
  ssj_id :: string
  ssj_owner_id :: string
  ssj_asset_id :: string
  ssj_idempotency_key :: string
  ssj_generation_key :: string
  ssj_status :: string
  ssj_phase :: "string option"
  ssj_attempts :: int
  ssj_error_code :: "string option"
  ssj_next_attempt_at :: "time option"
  ssj_result_metadata :: "jobj option"
  ssj_created_at :: time
  ssj_updated_at :: time

section \<open>The database state\<close>

text \<open>
  The last four fields are what a request reads from its surroundings: the clock (one
  reading per request), the random hexadecimal digits \<open>uuid4().hex\<close> yields, of which
  \<open>drawn\<close> have been used, and \<open>sha256(json.dumps(payload, sort_keys=True)).hexdigest()\<close>
  as a function of the payload. Nothing is assumed about the last two: identifiers may
  collide, and an insertion that collides raises \<open>IntegrityError\<close>.
\<close>

record db =
  users :: "user list"
  follows :: "follow list"
  user_blocks :: "user_block list"
  card_visibilities :: "card_visibility list"
  organizations :: "organization list"
  admin_memberships :: "admin_membership list"
  organization_artists :: "organization_artist list"
  admin_artist_assignments :: "admin_artist_assignment list"
  login_sessions :: "login_session list"
  refresh_tokens :: "refresh_token list"
  magic_links :: "magic_link list"
  cards :: "card_row list"
  card_review_requests :: "card_review_request list"
  card_review_decisions :: "card_review_decision list"
  drops :: "drop_row list"
  card_packs :: "card_pack list"
  shop_products :: "shop_product list"
  shop_orders :: "shop_order list"
  shop_order_entitlements :: "shop_order_entitlement list"
  card_pack_cards :: "card_pack_card list"
  card_pack_openings :: "card_pack_opening list"
  card_combination_recipes :: "card_combination_recipe list"
  card_combinations :: "card_combination list"
  card_combination_materials :: "card_combination_material list"
  redeem_codes :: "redeem_code list"
  user_cards :: "user_card list"
  trade_proposals :: "trade_proposal list"
  trade_items :: "trade_item list"
  trade_locks :: "trade_lock list"
  trade_holds :: "trade_hold list"
  ownership_ledger :: "ownership_event list"
  engagement_events :: "engagement_event list"
  mission_definitions :: "mission_definition list"
  mission_progress :: "mission_progress_row list"
  point_ledger :: "point_ledger_row list"
  point_balances :: "point_balance list"
  point_transactions :: "point_transaction list"
  point_charges :: "point_charge list"
  point_charge_packages :: "point_charge_package list"
  level_policy_versions :: "level_policy_version list"
  level_thresholds :: "level_threshold list"
  analytics_events :: "analytics_event list"
  achievement_definitions :: "achievement_definition list"
  achievement_progress :: "achievement_progress_row list"
  reward_catalog :: "reward list"
  reward_grants :: "reward_grant list"
  reward_pack_entitlements :: "reward_pack_entitlement list"
  xp_ledger :: "xp_ledger_row list"
  fan_levels :: "fan_level list"
  pass_seasons :: "pass_season list"
  pass_tiers :: "pass_tier list"
  pass_progress :: "pass_progress_row list"
  pass_entitlements :: "pass_entitlement list"
  profile_equipment :: "profile_equipment_row list"
  collection_campaigns :: "collection_campaign list"
  notifications :: "notification list"
  push_devices :: "push_device list"
  notification_deliveries :: "notification_delivery list"
  audit_logs :: "audit_log list"
  approval_requests :: "approval_request list"
  events :: "event_row list"
  event_applications :: "event_application list"
  event_comments :: "event_comment list"
  consent_records :: "consent_record list"
  event_likes :: "event_like list"
  support_tickets :: "support_ticket list"
  support_messages :: "support_message list"
  support_evidence_rows :: "support_evidence list"
  social_accounts :: "social_account list"
  oauth_states :: "oauth_state list"
  oauth_exchange_codes :: "oauth_exchange_code list"
  artists :: "artist list"
  artist_profiles :: "artist_profile list"
  members :: "member_row list"
  card_effect_versions :: "card_effect_version list"
  card_collaboration_comments :: "card_collaboration_comment list"
  event_related_cards :: "event_related_card list"
  redeem_code_batches :: "redeem_code_batch list"
  fan_wishlist_items :: "fan_wishlist_item list"
  collection_goals :: "collection_goal list"
  collection_benefit_claims :: "collection_benefit_claim list"
  content_calendar_entries :: "content_calendar_entry list"
  assets :: "asset list"
  background_removal_jobs :: "background_removal_job list"
  spatial_scene_jobs :: "spatial_scene_job list"
  now :: time
  entropy :: "nat \<Rightarrow> string"
  drawn :: nat
  sha256 :: "json \<Rightarrow> string"

text \<open>An empty database at instant 0, with a concrete supply of identifiers.\<close>

definition empty_db :: db where
  "empty_db = \<lparr>
     users = [],
     follows = [],
     user_blocks = [],
     card_visibilities = [],
     organizations = [],
     admin_memberships = [],
     organization_artists = [],
     admin_artist_assignments = [],
     login_sessions = [],
     refresh_tokens = [],
     magic_links = [],
     cards = [],
     card_review_requests = [],
     card_review_decisions = [],
     drops = [],
     card_packs = [],
     shop_products = [],
     shop_orders = [],
     shop_order_entitlements = [],
     card_pack_cards = [],
     card_pack_openings = [],
     card_combination_recipes = [],
     card_combinations = [],
     card_combination_materials = [],
     redeem_codes = [],
     user_cards = [],
     trade_proposals = [],
     trade_items = [],
     trade_locks = [],
     trade_holds = [],
     ownership_ledger = [],
     engagement_events = [],
     mission_definitions = [],
     mission_progress = [],
     point_ledger = [],
     point_balances = [],
     point_transactions = [],
     point_charges = [],
     point_charge_packages = [],
     level_policy_versions = [],
     level_thresholds = [],
     analytics_events = [],
     achievement_definitions = [],
     achievement_progress = [],
     reward_catalog = [],
     reward_grants = [],
     reward_pack_entitlements = [],
     xp_ledger = [],
     fan_levels = [],
     pass_seasons = [],
     pass_tiers = [],
     pass_progress = [],
     pass_entitlements = [],
     profile_equipment = [],
     collection_campaigns = [],
     notifications = [],
     push_devices = [],
     notification_deliveries = [],
     audit_logs = [],
     approval_requests = [],
     events = [],
     event_applications = [],
     event_comments = [],
     consent_records = [],
     event_likes = [],
     support_tickets = [],
     support_messages = [],
     support_evidence_rows = [],
     social_accounts = [],
     oauth_states = [],
     oauth_exchange_codes = [],
     artists = [],
     artist_profiles = [],
     members = [],
     card_effect_versions = [],
     card_collaboration_comments = [],
     event_related_cards = [],
     redeem_code_batches = [],
     fan_wishlist_items = [],
     collection_goals = [],
     collection_benefit_claims = [],
     content_calendar_entries = [],
     assets = [],
     background_removal_jobs = [],
     spatial_scene_jobs = [],
     now = 0, entropy = (\<lambda>n. replicate n (CHR ''x'')), drawn = 0, sha256 = (\<lambda>_. ''digest'')\<rparr>"

text \<open>\<open>f"{prefix}{uuid4().hex[:12]}"\<close> and the draw it makes.\<close>

definition new_id :: "string \<Rightarrow> db \<Rightarrow> ident" where
  "new_id prefix s = prefix @ entropy s (drawn s)"

definition draw :: "db \<Rightarrow> db" where
  "draw s = s\<lparr>drawn := Suc (drawn s)\<rparr>"

lemma draw_simps [simp]:
  "users (draw s) = users s"
  "follows (draw s) = follows s"
  "user_blocks (draw s) = user_blocks s"
  "card_visibilities (draw s) = card_visibilities s"
  "organizations (draw s) = organizations s"
  "admin_memberships (draw s) = admin_memberships s"
  "organization_artists (draw s) = organization_artists s"
  "admin_artist_assignments (draw s) = admin_artist_assignments s"
  "login_sessions (draw s) = login_sessions s"
  "refresh_tokens (draw s) = refresh_tokens s"
  "magic_links (draw s) = magic_links s"
  "cards (draw s) = cards s"
  "card_review_requests (draw s) = card_review_requests s"
  "card_review_decisions (draw s) = card_review_decisions s"
  "drops (draw s) = drops s"
  "card_packs (draw s) = card_packs s"
  "shop_products (draw s) = shop_products s"
  "shop_orders (draw s) = shop_orders s"
  "shop_order_entitlements (draw s) = shop_order_entitlements s"
  "card_pack_cards (draw s) = card_pack_cards s"
  "card_pack_openings (draw s) = card_pack_openings s"
  "card_combination_recipes (draw s) = card_combination_recipes s"
  "card_combinations (draw s) = card_combinations s"
  "card_combination_materials (draw s) = card_combination_materials s"
  "redeem_codes (draw s) = redeem_codes s"
  "user_cards (draw s) = user_cards s"
  "trade_proposals (draw s) = trade_proposals s"
  "trade_items (draw s) = trade_items s"
  "trade_locks (draw s) = trade_locks s"
  "trade_holds (draw s) = trade_holds s"
  "ownership_ledger (draw s) = ownership_ledger s"
  "engagement_events (draw s) = engagement_events s"
  "mission_definitions (draw s) = mission_definitions s"
  "mission_progress (draw s) = mission_progress s"
  "point_ledger (draw s) = point_ledger s"
  "point_balances (draw s) = point_balances s"
  "point_transactions (draw s) = point_transactions s"
  "point_charges (draw s) = point_charges s"
  "point_charge_packages (draw s) = point_charge_packages s"
  "level_policy_versions (draw s) = level_policy_versions s"
  "level_thresholds (draw s) = level_thresholds s"
  "analytics_events (draw s) = analytics_events s"
  "achievement_definitions (draw s) = achievement_definitions s"
  "achievement_progress (draw s) = achievement_progress s"
  "reward_catalog (draw s) = reward_catalog s"
  "reward_grants (draw s) = reward_grants s"
  "reward_pack_entitlements (draw s) = reward_pack_entitlements s"
  "xp_ledger (draw s) = xp_ledger s"
  "fan_levels (draw s) = fan_levels s"
  "pass_seasons (draw s) = pass_seasons s"
  "pass_tiers (draw s) = pass_tiers s"
  "pass_progress (draw s) = pass_progress s"
  "pass_entitlements (draw s) = pass_entitlements s"
  "profile_equipment (draw s) = profile_equipment s"
  "collection_campaigns (draw s) = collection_campaigns s"
  "notifications (draw s) = notifications s"
  "push_devices (draw s) = push_devices s"
  "notification_deliveries (draw s) = notification_deliveries s"
  "audit_logs (draw s) = audit_logs s"
  "approval_requests (draw s) = approval_requests s"
  "events (draw s) = events s"
  "event_applications (draw s) = event_applications s"
  "event_comments (draw s) = event_comments s"
  "consent_records (draw s) = consent_records s"
  "event_likes (draw s) = event_likes s"
  "support_tickets (draw s) = support_tickets s"
  "support_messages (draw s) = support_messages s"
  "support_evidence_rows (draw s) = support_evidence_rows s"
  "social_accounts (draw s) = social_accounts s"
  "oauth_states (draw s) = oauth_states s"
  "oauth_exchange_codes (draw s) = oauth_exchange_codes s"
  "artists (draw s) = artists s"
  "artist_profiles (draw s) = artist_profiles s"
  "members (draw s) = members s"
  "card_effect_versions (draw s) = card_effect_versions s"
  "card_collaboration_comments (draw s) = card_collaboration_comments s"
  "event_related_cards (draw s) = event_related_cards s"
  "redeem_code_batches (draw s) = redeem_code_batches s"
  "fan_wishlist_items (draw s) = fan_wishlist_items s"
  "collection_goals (draw s) = collection_goals s"
  "collection_benefit_claims (draw s) = collection_benefit_claims s"
  "content_calendar_entries (draw s) = content_calendar_entries s"
  "assets (draw s) = assets s"
  "background_removal_jobs (draw s) = background_removal_jobs s"
  "spatial_scene_jobs (draw s) = spatial_scene_jobs s"
  "now (draw s) = now s"
  "entropy (draw s) = entropy s"
  "sha256 (draw s) = sha256 s"
  "drawn (draw s) = Suc (drawn s)"
  by (simp_all add: draw_def)

lemma new_id_draw: "new_id p (draw s) = p @ entropy s (Suc (drawn s))"
  by (simp add: new_id_def)

text \<open>\<open>get_or_insert\<close> where the new row draws one identifier.\<close>

lemma get_or_insert_draw:
  assumes "get (draw s) = get s"
  shows "get_or_insert P clash get upd (\<lambda>s. (row s, draw s)) s = Inr (r, s') \<longleftrightarrow>
    (find P (get s) = Some r \<and> s' = s) \<or>
    (find P (get s) = None \<and> r = row s \<and> \<not> list_ex (clash r) (get s) \<and>
      s' = upd (\<lambda>_. get s @ [r]) (draw s))"
  using assms by (subst get_or_insert_eq_Inr) simp_all

end
