(* ===== verification/Engagement.thy ===== *)
theory Engagement
  imports Schema
begin

text \<open>
  The records every other service writes: engagement events, analytics events, audit
  entries, and in-app notifications with their outbox of e-mail and push deliveries
  (\<open>backend/app/services.py\<close>, \<open>backend/app/notification_delivery.py\<close>).
\<close>

section \<open>Engagement events\<close>

definition find_event :: "ident \<Rightarrow> string \<Rightarrow> string \<Rightarrow> string \<Rightarrow> db \<Rightarrow> engagement_event option" where
  "find_event u k st si s =
    find (\<lambda>e. ev_user_id e = u \<and> ev_kind e = k \<and> ev_source_type e = st \<and> ev_source_id e = si)
      (engagement_events s)"

text \<open>Primary key and \<open>uq_engagement_event_source\<close>.\<close>

definition clash_event :: "engagement_event \<Rightarrow> engagement_event \<Rightarrow> bool" where
  "clash_event e x \<longleftrightarrow> ev_id x = ev_id e \<or>
    (ev_user_id x = ev_user_id e \<and> ev_kind x = ev_kind e \<and>
     ev_source_type x = ev_source_type e \<and> ev_source_id x = ev_source_id e)"

definition new_event :: "ident \<Rightarrow> string \<Rightarrow> string \<Rightarrow> string \<Rightarrow> jobj \<Rightarrow> db \<Rightarrow> engagement_event" where
  "new_event u k st si payload s =
    \<lparr>ev_id = new_id ''evt_'' s, ev_user_id = u, ev_kind = k, ev_source_type = st,
     ev_source_id = si, ev_payload = payload, ev_status = ''pending'', ev_processed_at = None,
     ev_error_code = None, ev_error_message = None, ev_attempt_count = 0,
     ev_next_attempt_at = None, ev_dead_lettered_at = None\<rparr>"

definition record_engagement_event ::
  "ident \<Rightarrow> string \<Rightarrow> string \<Rightarrow> string \<Rightarrow> jobj \<Rightarrow> db \<Rightarrow> exn + engagement_event \<times> db" where
  "record_engagement_event u k st si payload =
    get_or_insert
      (\<lambda>e. ev_user_id e = u \<and> ev_kind e = k \<and> ev_source_type e = st \<and> ev_source_id e = si)
      clash_event engagement_events engagement_events_update
      (\<lambda>s. (new_event u k st si payload s, draw s))"

text \<open>Assignments to attributes of one event.\<close>

definition set_event :: "ident \<Rightarrow> (engagement_event \<Rightarrow> engagement_event) \<Rightarrow> db \<Rightarrow> db" where
  "set_event i f s = s\<lparr>engagement_events := update_where (\<lambda>e. ev_id e = i) f (engagement_events s)\<rparr>"

lemma record_engagement_event_cases:
  assumes "record_engagement_event u k st si p s = Inr (e, s')"
  obtains (Old) "find_event u k st si s = Some e" "s' = s"
  | (New) "find_event u k st si s = None" "e = new_event u k st si p s"
      "\<not> list_ex (clash_event e) (engagement_events s)"
      "s' = (draw s)\<lparr>engagement_events := engagement_events s @ [e]\<rparr>"
  using assms unfolding record_engagement_event_def find_event_def
  by (subst (asm) get_or_insert_draw) auto

lemma record_engagement_event_hit:
  "find_event u k st si s = Some e \<Longrightarrow> record_engagement_event u k st si p s = Inr (e, s)"
  by (simp add: record_engagement_event_def find_event_def get_or_insert_hit)

lemma record_engagement_event_key:
  assumes "record_engagement_event u k st si p s = Inr (e, s')"
  shows "ev_user_id e = u" "ev_kind e = k" "ev_source_type e = st" "ev_source_id e = si"
    "find_event u k st si s' = Some e"
proof -
  have *: "ev_user_id e = u \<and> ev_kind e = k \<and> ev_source_type e = st \<and> ev_source_id e = si \<and>
    find_event u k st si s' = Some e"
    using assms
  proof (cases rule: record_engagement_event_cases)
    case Old
    then show ?thesis by (auto simp: find_event_def dest!: find_SomeD)
  next
    case New
    then show ?thesis by (simp add: find_event_def new_event_def find_append)
  qed
  then show "ev_user_id e = u" "ev_kind e = k" "ev_source_type e = st" "ev_source_id e = si"
    "find_event u k st si s' = Some e" by simp_all
qed

text \<open>
  The event of a source is created once: an interpretation of the idempotency contract
  whose key is the four columns of \<open>uq_engagement_event_source\<close>.
\<close>

interpretation event_store: keyed_store
  "\<lambda>(u, k, st, si). find_event u k st si"
  "\<lambda>(u, k, st, si) p. record_engagement_event u k st si p"
  "\<lambda>_. True"
  by unfold_locales
    (auto simp: record_engagement_event_hit dest: record_engagement_event_key(5))

section \<open>Analytics and audit\<close>

definition clash_analytics :: "analytics_event \<Rightarrow> analytics_event \<Rightarrow> bool" where
  "clash_analytics e x \<longleftrightarrow> ae_id x = ae_id e \<or>
    (ae_dedupe_key e \<noteq> None \<and> ae_dedupe_key x = ae_dedupe_key e)"

record analytics_args =
  aa_event_name :: string
  aa_user_id :: "ident option"
  aa_organization_id :: "ident option"
  aa_artist :: "ident option"
  aa_card_id :: "ident option"
  aa_pack_id :: "ident option"
  aa_source :: "string option"
  aa_dedupe_key :: "string option"
  aa_metadata :: jobj

text \<open>An empty \<open>dedupe_key\<close> is treated as none by the lookups, but is stored as given.\<close>

definition record_analytics_event :: "analytics_args \<Rightarrow> db \<Rightarrow> exn + analytics_event \<times> db" where
  "record_analytics_event a =
    get_or_insert
      (\<lambda>e. present (aa_dedupe_key a) \<and> ae_dedupe_key e = aa_dedupe_key a)
      clash_analytics analytics_events analytics_events_update
      (\<lambda>s. (\<lparr>ae_id = new_id ''analytics_'' s, ae_event_name = aa_event_name a,
              ae_user_id = aa_user_id a, ae_organization_id = aa_organization_id a,
              ae_artist_id = aa_artist a, ae_card_id = aa_card_id a, ae_pack_id = aa_pack_id a,
              ae_source = aa_source a, ae_dedupe_key = aa_dedupe_key a,
              ae_metadata_json = aa_metadata a, ae_created_at = now s\<rparr>, draw s))"

lemma record_analytics_event_touch [touch]:
  assumes "record_analytics_event a s = Inr (e, s')"
  shows "\<exists>es n. s' = s\<lparr>analytics_events := es, drawn := n\<rparr>"
proof -
  have "s' = s \<or> s' = (draw s)\<lparr>analytics_events := analytics_events s @ [e]\<rparr>"
    using assms unfolding record_analytics_event_def by (subst (asm) get_or_insert_draw) auto
  then have "s' = s\<lparr>analytics_events := analytics_events s', drawn := drawn s'\<rparr>"
    by (auto simp: draw_def)
  then show ?thesis by blast
qed

record audit_args =
  au_actor_user_id :: "ident option"
  au_action :: string
  au_entity_type :: string
  au_entity_id :: ident
  au_organization_id :: "ident option"
  au_artist_id :: "ident option"
  au_details :: jobj

definition record_audit :: "audit_args \<Rightarrow> db \<Rightarrow> exn + db" where
  "record_audit a s =
    bindE (insert_row (\<lambda>r x. al_id x = al_id r)
        \<lparr>al_id = new_id ''audit_'' s, al_actor_user_id = au_actor_user_id a,
         al_action = au_action a, al_entity_type = au_entity_type a,
         al_entity_id = au_entity_id a, al_organization_id = au_organization_id a,
         al_artist_id = au_artist_id a, al_details = au_details a, al_created_at = now s\<rparr>
        (audit_logs s))
      (\<lambda>rows. Inr ((draw s)\<lparr>audit_logs := rows\<rparr>))"

lemma record_audit_touch [touch]:
  assumes "record_audit a s = Inr s'"
  shows "\<exists>rows n. s' = s\<lparr>audit_logs := rows, drawn := n\<rparr>"
proof -
  from assms have "s' = s\<lparr>audit_logs := audit_logs s', drawn := drawn s'\<rparr>"
    by (auto simp: record_audit_def inr_simps draw_def)
  then show ?thesis by blast
qed

lemma record_engagement_event_touch [touch]:
  assumes "record_engagement_event u k st si p s = Inr (e, s')"
  shows "\<exists>es n. s' = s\<lparr>engagement_events := es, drawn := n\<rparr>"
proof -
  from assms have "s' = s\<lparr>engagement_events := engagement_events s', drawn := drawn s'\<rparr>"
    by (cases rule: record_engagement_event_cases) (auto simp: draw_def)
  then show ?thesis by blast
qed

section \<open>Notifications and their delivery outbox\<close>

text \<open>Primary key and the unique index on \<open>(user_id, event_key)\<close>; null keys never clash.\<close>

definition clash_notification :: "notification \<Rightarrow> notification \<Rightarrow> bool" where
  "clash_notification r x \<longleftrightarrow> n_id x = n_id r \<or>
    (n_event_key r \<noteq> None \<and> n_user_id x = n_user_id r \<and> n_event_key x = n_event_key r)"

definition clash_delivery :: "notification_delivery \<Rightarrow> notification_delivery \<Rightarrow> bool" where
  "clash_delivery r x \<longleftrightarrow> nd_id x = nd_id r \<or> nd_idempotency_key x = nd_idempotency_key r \<or>
    (nd_notification_id x = nd_notification_id r \<and> nd_channel x = nd_channel r \<and>
     nd_destination x = nd_destination r)"

definition build_delivery :: "ident \<Rightarrow> string \<Rightarrow> string \<Rightarrow> db \<Rightarrow> notification_delivery" where
  "build_delivery nid channel destination s =
    \<lparr>nd_id = new_id ''delivery_'' s, nd_notification_id = nid, nd_channel = channel,
     nd_destination = destination,
     nd_idempotency_key = nid @ '':'' @ channel @ '':'' @ destination,
     nd_status = ''pending'', nd_attempt_count = 0, nd_next_attempt_at = None,
     nd_last_error = None, nd_sent_at = None, nd_created_at = now s\<rparr>"

definition add_delivery :: "ident \<Rightarrow> string \<Rightarrow> string \<Rightarrow> db \<Rightarrow> exn + db" where
  "add_delivery nid channel destination s =
    bindE (insert_row clash_delivery (build_delivery nid channel destination s)
        (notification_deliveries s))
      (\<lambda>rows. Inr ((draw s)\<lparr>notification_deliveries := rows\<rparr>))"

definition get_user :: "ident \<Rightarrow> db \<Rightarrow> user option" where
  "get_user i s = find (\<lambda>u. u_id u = i) (users s)"

definition queue_notification_deliveries :: "notification \<Rightarrow> db \<Rightarrow> exn + db" where
  "queue_notification_deliveries r s =
    (case get_user (n_user_id r) s of
       None \<Rightarrow> Inr s
     | Some recipient \<Rightarrow>
         bindE (if u_notification_email_enabled recipient \<and> present (u_email recipient)
                then add_delivery (n_id r) ''email'' (the (u_email recipient)) s
                else Inr s)
           (foldE (\<lambda>d. add_delivery (n_id r) ''push'' (pd_token d))
             (filter (\<lambda>d. pd_user_id d = u_id recipient \<and> pd_enabled d) (push_devices s))))"

definition has_notification :: "ident \<Rightarrow> string \<Rightarrow> db \<Rightarrow> bool" where
  "has_notification u key s \<longleftrightarrow>
    list_ex (\<lambda>r. n_user_id r = u \<and> n_event_key r = Some key) (notifications s)"

definition new_notification ::
  "ident \<Rightarrow> ident \<Rightarrow> string \<Rightarrow> string \<Rightarrow> ident \<Rightarrow> string \<Rightarrow> db \<Rightarrow> notification" where
  "new_notification i u kind entity_type entity_id key s =
    \<lparr>n_id = i, n_user_id = u, n_kind = kind, n_entity_type = Some entity_type,
     n_entity_id = Some entity_id, n_event_key = Some key, n_is_read = False,
     n_read_at = None, n_created_at = now s\<rparr>"

definition add_notification :: "notification \<Rightarrow> db \<Rightarrow> exn + db" where
  "add_notification r s =
    bindE (insert_row clash_notification r (notifications s))
      (\<lambda>rows. Inr (s\<lparr>notifications := rows\<rparr>))"

text \<open>\<open>notify_user_once\<close>; \<open>notify_admin_once\<close> has the same body.\<close>

definition notify_user_once ::
  "ident \<Rightarrow> string \<Rightarrow> string \<Rightarrow> ident \<Rightarrow> string \<Rightarrow> db \<Rightarrow> exn + db" where
  "notify_user_once u kind entity_type entity_id key s =
    (if has_notification u key s then Inr s
     else
       let r = new_notification (new_id ''notification_'' s) u kind entity_type entity_id key s
       in bindE (add_notification r (draw s)) (queue_notification_deliveries r))"

definition notify_admin_once ::
  "ident \<Rightarrow> string \<Rightarrow> string \<Rightarrow> ident \<Rightarrow> string \<Rightarrow> db \<Rightarrow> exn + db" where
  "notify_admin_once u kind entity_type entity_id key s =
    (if has_notification u key s then Inr s
     else
       let r = new_notification (new_id ''notification_'' s) u kind entity_type entity_id key s
       in bindE (add_notification r (draw s)) (queue_notification_deliveries r))"

text \<open>What notifying may change: the two notification tables and the draw counter.\<close>

definition only_notifies :: "db \<Rightarrow> db \<Rightarrow> bool" where
  "only_notifies s s' \<longleftrightarrow>
    (\<exists>ns ds n. s' = s\<lparr>notifications := ns, notification_deliveries := ds, drawn := n\<rparr>)"

lemma only_notifiesI:
  "s' = s\<lparr>notifications := notifications s', notification_deliveries := notification_deliveries s',
    drawn := drawn s'\<rparr> \<Longrightarrow> only_notifies s s'"
  unfolding only_notifies_def by blast

lemma only_notifies_intros [simp]:
  "only_notifies s s"
  "only_notifies s (s\<lparr>notifications := ns\<rparr>)"
  "only_notifies s (draw s)"
  "only_notifies s ((draw s)\<lparr>notifications := ns\<rparr>)"
  "only_notifies s ((draw s)\<lparr>notification_deliveries := ds\<rparr>)"
  by (rule only_notifiesI, simp add: draw_def)+

lemma only_notifies_trans: "only_notifies s t \<Longrightarrow> only_notifies t u \<Longrightarrow> only_notifies s u"
  by (rule only_notifiesI) (auto simp: only_notifies_def)

lemma add_delivery_notifies: "add_delivery i c d s = Inr s' \<Longrightarrow> only_notifies s s'"
  by (auto simp: add_delivery_def inr_simps)

lemma queue_deliveries_invariant:
  assumes "queue_notification_deliveries r s = Inr s'" and "P s"
    and step: "\<And>i c d s t. P s \<Longrightarrow> add_delivery i c d s = Inr t \<Longrightarrow> P t"
  shows "P s'"
proof (cases "get_user (n_user_id r) s")
  case None
  with assms show ?thesis by (simp add: queue_notification_deliveries_def)
next
  case (Some recipient)
  let ?ds = "filter (\<lambda>d. pd_user_id d = u_id recipient \<and> pd_enabled d) (push_devices s)"
  from Some assms(1) obtain s1 where
    1: "(if u_notification_email_enabled recipient \<and> present (u_email recipient)
         then add_delivery (n_id r) ''email'' (the (u_email recipient)) s else Inr s) = Inr s1"
    and 2: "foldE (\<lambda>d. add_delivery (n_id r) ''push'' (pd_token d)) ?ds s1 = Inr s'"
    unfolding queue_notification_deliveries_def by (auto simp only: option.case bindE_eq_Inr)
  from 1 \<open>P s\<close> have "P s1" by (auto split: if_splits dest: step)
  with 2 show ?thesis by (rule foldE_invariant) (blast intro: step)
qed

lemma queue_deliveries_notifies:
  assumes "queue_notification_deliveries r s = Inr s'"
  shows "only_notifies s s'"
  using assms by (rule queue_deliveries_invariant)
    (auto intro: only_notifies_trans add_delivery_notifies)

lemma notify_user_once_notifies: "notify_user_once u k et ei key s = Inr s' \<Longrightarrow> only_notifies s s'"
  by (auto simp: notify_user_once_def add_notification_def inr_simps Let_def split: if_splits
      intro: only_notifies_trans [OF only_notifies_intros(4)] dest!: queue_deliveries_notifies)

lemma notify_admin_once_eq: "notify_admin_once = notify_user_once"
  by (simp add: fun_eq_iff notify_admin_once_def notify_user_once_def)

lemmas notify_touch [touch] = notify_user_once_notifies [unfolded only_notifies_def]

text \<open>A second call with the same key changes nothing and cannot fail.\<close>

lemma queue_deliveries_notifications:
  assumes "queue_notification_deliveries r s = Inr s'"
  shows "notifications s' = notifications s"
  using assms by (rule queue_deliveries_invariant) (auto simp: add_delivery_def inr_simps)

lemma notify_user_once_known: "notify_user_once u k et ei key s = Inr s' \<Longrightarrow> has_notification u key s'"
  by (auto simp: notify_user_once_def add_notification_def inr_simps Let_def has_notification_def
      new_notification_def dest!: queue_deliveries_notifications split: if_splits)

lemma notify_user_once_again:
  "notify_user_once u k et ei key s = Inr s' \<Longrightarrow> notify_user_once u k2 et2 ei2 key s' = Inr s'"
  by (frule notify_user_once_known) (simp add: notify_user_once_def)

end
