(* ===== verification/Points.thy ===== *)
theory Points
  imports Engagement
begin

text \<open>
  The point economy of \<open>backend/app/services.py\<close>: the append-only point ledger, the
  cached balance per fan, the writers \<open>grant_points\<close>, \<open>spend_points\<close> and
  \<open>reverse_points\<close>, point charges and their refunds, administrator adjustments, and the
  reconciliation report. The component invariant \<open>points_inv\<close> says that every cached
  balance is the sum of that fan's ledger, is never negative, and equals the
  \<open>balance_after\<close> of the fan's latest ledger row.
\<close>

section \<open>Point charge packages\<close>

definition POINT_CHARGE_PACKAGES :: "(string \<times> int \<times> int \<times> string) list" where
  "POINT_CHARGE_PACKAGES =
    [(''points_500'', 500, 5000, ''500P''),
     (''points_1000'', 1000, 9500, ''1,000P''),
     (''points_3000'', 3000, 27000, ''3,000P'')]"

definition default_packages :: "point_charge_package list" where
  "default_packages =
    map (\<lambda>(index, i, points, price, label).
          \<lparr>pp_id = i, pp_points = points, pp_price_won = price, pp_label = label,
           pp_status = ''active'', pp_sort_order = int index, pp_scheduled_publish_at = None\<rparr>)
      (enumerate 0 POINT_CHARGE_PACKAGES)"

definition ensure_point_charge_packages :: "db \<Rightarrow> point_charge_package list \<times> db" where
  "ensure_point_charge_packages s =
    (let rows = sort_key (\<lambda>p. (pp_sort_order p, pp_id p)) (point_charge_packages s)
     in if rows \<noteq> [] then (rows, s)
        else (default_packages, s\<lparr>point_charge_packages := default_packages\<rparr>))"

definition point_charge_package :: "ident \<Rightarrow> exn + (string \<times> int \<times> int \<times> string)" where
  "point_charge_package i =
    (case find (\<lambda>(j, _). j = i) POINT_CHARGE_PACKAGES of
       None \<Rightarrow> Inl (AppError 404 ''POINT_PACKAGE_NOT_FOUND'')
     | Some p \<Rightarrow> Inr p)"

text \<open>The row itself stands for the dictionary \<open>_point_charge_package_data\<close> copies from it.\<close>

definition resolve_point_charge_package :: "ident \<Rightarrow> db \<Rightarrow> exn + point_charge_package \<times> db" where
  "resolve_point_charge_package i s =
    (let (packages, s1) = ensure_point_charge_packages s
     in case find (\<lambda>p. pp_id p = i) packages of
          None \<Rightarrow> Inl (AppError 404 ''POINT_PACKAGE_NOT_FOUND'')
        | Some package \<Rightarrow>
            if pp_status package \<noteq> ''active'' then Inl (AppError 409 ''POINT_PACKAGE_INACTIVE'')
            else if (case pp_scheduled_publish_at package of
                       None \<Rightarrow> False | Some t \<Rightarrow> now s1 < t)
            then Inl (AppError 409 ''POINT_PACKAGE_NOT_PUBLISHED'')
            else Inr (package, s1))"

section \<open>Balances and ledger rows\<close>

definition find_balance :: "ident \<Rightarrow> db \<Rightarrow> point_balance option" where
  "find_balance u s = find (\<lambda>b. pb_user_id b = u) (point_balances s)"

text \<open>The balance a fan sees: 0 when no row is cached.\<close>

definition balance_in :: "ident \<Rightarrow> point_balance list \<Rightarrow> int" where
  "balance_in u bs = (case find (\<lambda>b. pb_user_id b = u) bs of None \<Rightarrow> 0 | Some b \<Rightarrow> pb_balance b)"

abbreviation balance_of :: "ident \<Rightarrow> db \<Rightarrow> int" where
  "balance_of u s \<equiv> balance_in u (point_balances s)"

definition set_balance :: "ident \<Rightarrow> int \<Rightarrow> db \<Rightarrow> db" where
  "set_balance u n s =
    s\<lparr>point_balances := update_where (\<lambda>b. pb_user_id b = u) (\<lambda>b. b\<lparr>pb_balance := n\<rparr>)
        (point_balances s)\<rparr>"

text \<open>\<open>_get_or_create_point_balance_for_update\<close>\<close>

definition balance_for_update :: "ident \<Rightarrow> db \<Rightarrow> exn + point_balance \<times> db" where
  "balance_for_update u =
    get_or_insert (\<lambda>b. pb_user_id b = u) (\<lambda>b x. pb_user_id x = pb_user_id b)
      point_balances point_balances_update (\<lambda>s. (\<lparr>pb_user_id = u, pb_balance = 0\<rparr>, s))"

text \<open>Primary key and \<open>uq_point_ledger_event_rule\<close>.\<close>

definition clash_ledger :: "point_ledger_row \<Rightarrow> point_ledger_row \<Rightarrow> bool" where
  "clash_ledger l x \<longleftrightarrow> pl_id x = pl_id l \<or>
    (pl_user_id x = pl_user_id l \<and> pl_source_event_id x = pl_source_event_id l \<and>
     pl_rule_key x = pl_rule_key l)"

definition find_ledger :: "ident \<Rightarrow> ident \<Rightarrow> string \<Rightarrow> db \<Rightarrow> point_ledger_row option" where
  "find_ledger u ev rk s =
    find (\<lambda>l. pl_user_id l = u \<and> pl_source_event_id l = ev \<and> pl_rule_key l = rk) (point_ledger s)"

definition get_ledger :: "ident \<Rightarrow> db \<Rightarrow> point_ledger_row option" where
  "get_ledger i s = find (\<lambda>l. pl_id l = i) (point_ledger s)"

definition add_ledger :: "point_ledger_row \<Rightarrow> db \<Rightarrow> exn + db" where
  "add_ledger l s =
    bindE (insert_row clash_ledger l (point_ledger s)) (\<lambda>rows. Inr (s\<lparr>point_ledger := rows\<rparr>))"

text \<open>The keyword arguments of the three ledger writers.\<close>

record point_args =
  pa_user_id :: ident
  pa_source_event_id :: ident
  pa_rule_key :: string
  pa_amount :: int
  pa_metadata :: jobj
  pa_expires_at :: "time option"
  pa_reversed_ledger_id :: "ident option"

definition ledger_row ::
  "string \<Rightarrow> point_args \<Rightarrow> int \<Rightarrow> int \<Rightarrow> db \<Rightarrow> point_ledger_row" where
  "ledger_row transaction_type a amount balance_after s =
    \<lparr>pl_id = new_id ''point_'' s, pl_user_id = pa_user_id a,
     pl_source_event_id = pa_source_event_id a, pl_rule_key = pa_rule_key a,
     pl_transaction_type = transaction_type, pl_amount = amount,
     pl_balance_after = balance_after, pl_expires_at = pa_expires_at a,
     pl_reversed_ledger_id = pa_reversed_ledger_id a, pl_metadata_json = pa_metadata a,
     pl_created_at = now s\<rparr>"

section \<open>The ledger writers\<close>

definition find_args :: "point_args \<Rightarrow> db \<Rightarrow> point_ledger_row option" where
  "find_args a = find_ledger (pa_user_id a) (pa_source_event_id a) (pa_rule_key a)"

definition grant_points :: "point_args \<Rightarrow> db \<Rightarrow> exn + point_ledger_row \<times> db" where
  "grant_points a s =
    (if pa_amount a \<le> 0 then Inl (AppError 422 ''INVALID_POINT_AMOUNT'')
     else case find_args a s of
       Some existing \<Rightarrow> Inr (existing, s)
     | None \<Rightarrow>
         let ledger = ledger_row ''earn'' (a\<lparr>pa_reversed_ledger_id := None\<rparr>) (pa_amount a) 0 s
         in case add_ledger ledger (draw s) of
              Inl e \<Rightarrow>
                (case find_args a (draw s) of Some existing \<Rightarrow> Inr (existing, draw s) | None \<Rightarrow> Inl e)
            | Inr s1 \<Rightarrow>
                bindE (balance_for_update (pa_user_id a) s1) (\<lambda>(balance, s2).
                  let total = pb_balance balance + pa_amount a;
                      ledger' = ledger\<lparr>pl_balance_after := total\<rparr>;
                      s3 = set_balance (pa_user_id a) total s2
                  in Inr (ledger', s3\<lparr>point_ledger :=
                       update_where (\<lambda>l. pl_id l = pl_id ledger) (\<lambda>_. ledger') (point_ledger s3)\<rparr>)))"

definition spend_points :: "point_args \<Rightarrow> db \<Rightarrow> exn + point_ledger_row \<times> db" where
  "spend_points a s =
    (if pa_amount a \<le> 0 then Inl (AppError 422 ''INVALID_POINT_AMOUNT'')
     else case find_args a s of
       Some existing \<Rightarrow> Inr (existing, s)
     | None \<Rightarrow>
         (case find_balance (pa_user_id a) s of
            None \<Rightarrow> Inl (AppError 409 ''INSUFFICIENT_POINTS'')
          | Some balance \<Rightarrow>
              if pb_balance balance < pa_amount a then Inl (AppError 409 ''INSUFFICIENT_POINTS'')
              else
                let total = pb_balance balance - pa_amount a;
                    s1 = set_balance (pa_user_id a) total s;
                    ledger = ledger_row ''spend''
                      (a\<lparr>pa_reversed_ledger_id := None, pa_expires_at := None\<rparr>)
                      (- pa_amount a) total s1
                in bindE (add_ledger ledger (draw s1)) (\<lambda>s2. Inr (ledger, s2))))"

definition reverse_points :: "point_args \<Rightarrow> db \<Rightarrow> exn + point_ledger_row \<times> db" where
  "reverse_points a s =
    (if pa_amount a \<le> 0 then Inl (AppError 422 ''INVALID_POINT_AMOUNT'')
     else case find_args a s of
       Some existing \<Rightarrow> Inr (existing, s)
     | None \<Rightarrow>
         bindE (balance_for_update (pa_user_id a) s) (\<lambda>(balance, s1).
           let total = pb_balance balance + pa_amount a;
               s2 = set_balance (pa_user_id a) total s1;
               ledger = ledger_row ''reverse'' (a\<lparr>pa_expires_at := None\<rparr>) (pa_amount a) total s2
           in bindE (add_ledger ledger (draw s2)) (\<lambda>s3. Inr (ledger, s3))))"

definition execute_point_ledger_command ::
  "string \<Rightarrow> point_args \<Rightarrow> db \<Rightarrow> exn + point_ledger_row \<times> db" where
  "execute_point_ledger_command operation a s =
    (if operation = ''earn'' then grant_points a s
     else if operation = ''spend'' then spend_points a s
     else if operation = ''reverse'' then reverse_points a s
     else Inl (AppError 422 ''INVALID_POINT_OPERATION''))"

section \<open>Charges and refunds\<close>

definition clash_charge :: "point_charge \<Rightarrow> point_charge \<Rightarrow> bool" where
  "clash_charge c x \<longleftrightarrow> pc_id x = pc_id c \<or>
    (pc_user_id x = pc_user_id c \<and> pc_idempotency_key x = pc_idempotency_key c)"

definition clash_transaction :: "point_transaction \<Rightarrow> point_transaction \<Rightarrow> bool" where
  "clash_transaction t x \<longleftrightarrow> pt_id x = pt_id t \<or>
    (pt_user_id x = pt_user_id t \<and> pt_operation x = pt_operation t \<and>
     pt_idempotency_key x = pt_idempotency_key t)"

definition add_transaction :: "point_transaction \<Rightarrow> db \<Rightarrow> exn + db" where
  "add_transaction t s =
    bindE (insert_row clash_transaction t (point_transactions s))
      (\<lambda>rows. Inr (s\<lparr>point_transactions := rows\<rparr>))"

definition find_transaction :: "ident \<Rightarrow> string \<Rightarrow> string \<Rightarrow> db \<Rightarrow> point_transaction option" where
  "find_transaction u operation key s =
    find (\<lambda>t. pt_user_id t = u \<and> pt_operation t = operation \<and> pt_idempotency_key t = key)
      (point_transactions s)"

definition find_charge :: "ident \<Rightarrow> ident \<Rightarrow> db \<Rightarrow> point_charge option" where
  "find_charge i u s = find (\<lambda>c. pc_id c = i \<and> pc_user_id c = u) (point_charges s)"

definition find_charge_by_key :: "ident \<Rightarrow> string \<Rightarrow> db \<Rightarrow> point_charge option" where
  "find_charge_by_key u key s =
    find (\<lambda>c. pc_user_id c = u \<and> pc_idempotency_key c = key) (point_charges s)"

definition create_point_charge ::
  "ident \<Rightarrow> ident \<Rightarrow> string \<Rightarrow> string \<Rightarrow> db \<Rightarrow> exn + point_charge \<times> db" where
  "create_point_charge u package_id payment_method key s =
    bindE (resolve_point_charge_package package_id s) (\<lambda>(package, s1).
    case find_charge_by_key u key s1 of
      Some existing \<Rightarrow> Inr (existing, s1)
    | None \<Rightarrow>
        bindE (record_engagement_event u ''points_charged'' ''point_charge'' (u @ '':'' @ key)
            [(''packageId'', JStr package_id), (''points'', JInt (pp_points package)),
             (''paymentMethod'', JStr payment_method)] s1) (\<lambda>(event, s2).
        bindE (grant_points
            \<lparr>pa_user_id = u, pa_source_event_id = ev_id event,
             pa_rule_key = ''point_charge:'' @ package_id, pa_amount = pp_points package,
             pa_metadata = [(''packageId'', JStr package_id), (''paymentMethod'', JStr payment_method)],
             pa_expires_at = None, pa_reversed_ledger_id = None\<rparr> s2) (\<lambda>(ledger, s3).
        let charge =
              \<lparr>pc_id = new_id ''point_charge_'' s3, pc_user_id = u, pc_package_id = package_id,
               pc_payment_method = payment_method, pc_points = pp_points package,
               pc_price_won = pp_price_won package, pc_status = ''completed'',
               pc_idempotency_key = key, pc_ledger_id = Some (pl_id ledger),
               pc_created_at = now s3, pc_refunded_at = None\<rparr>;
            s4 = draw s3;
            transaction =
              \<lparr>pt_id = new_id ''point_tx_'' s4, pt_user_id = u, pt_operation = ''charge'',
               pt_idempotency_key = key, pt_amount = pp_points package,
               pt_resource_type = Some ''point_charge'', pt_resource_id = Some (pc_id charge),
               pt_request_hash = Some (sha256 s4 (JObj
                 [(''packageId'', JStr package_id), (''paymentMethod'', JStr payment_method),
                  (''points'', JInt (pp_points package))])),
               pt_ledger_id = Some (pl_id ledger), pt_status = ''completed'',
               pt_created_at = now s4\<rparr>
        in bindE (insert_row clash_charge charge (point_charges s4)) (\<lambda>charges.
           bindE (add_transaction transaction ((draw s4)\<lparr>point_charges := charges\<rparr>)) (\<lambda>s5.
           Inr (charge, s5))))))"

definition refund_point_charge ::
  "ident \<Rightarrow> ident \<Rightarrow> string \<Rightarrow> db \<Rightarrow> exn + point_charge \<times> db" where
  "refund_point_charge u charge_id key s =
    (case find_transaction u ''refund'' key s of
       Some existing \<Rightarrow>
         if pt_resource_id existing \<noteq> Some charge_id
         then Inl (AppError 409 ''IDEMPOTENCY_KEY_REUSED'')
         else (case find_charge charge_id u s of
                 None \<Rightarrow> Inl (AppError 404 ''POINT_CHARGE_NOT_FOUND'')
               | Some charge \<Rightarrow> Inr (charge, s))
     | None \<Rightarrow>
    (case find_charge charge_id u s of
       None \<Rightarrow> Inl (AppError 404 ''POINT_CHARGE_NOT_FOUND'')
     | Some charge \<Rightarrow>
       if pc_status charge = ''refunded'' then Inr (charge, s)
       else if pc_status charge \<noteq> ''completed'' \<or> \<not> present (pc_ledger_id charge)
       then Inl (AppError 409 ''POINT_CHARGE_NOT_REFUNDABLE'')
       else
        bindE (record_engagement_event u ''points_refunded'' ''point_charge_refund'' (pc_id charge)
            [(''chargeId'', JStr (pc_id charge)), (''points'', JInt (pc_points charge))] s)
          (\<lambda>(event, s1).
        bindE (balance_for_update u s1) (\<lambda>(balance, s2).
        if pb_balance balance < pc_points charge
        then Inl (AppError 409 ''POINT_CHARGE_REFUND_BALANCE'')
        else
          let total = pb_balance balance - pc_points charge;
              s3 = set_balance u total s2;
              ledger = ledger_row ''reverse''
                \<lparr>pa_user_id = u, pa_source_event_id = ev_id event,
                 pa_rule_key = ''point_charge_refund:'' @ pc_id charge,
                 pa_amount = pc_points charge,
                 pa_metadata = [(''chargeId'', JStr (pc_id charge))],
                 pa_expires_at = None, pa_reversed_ledger_id = pc_ledger_id charge\<rparr>
                (- pc_points charge) total s3
          in bindE (add_ledger ledger (draw s3)) (\<lambda>s4.
             let charge' = charge\<lparr>pc_status := ''refunded'', pc_refunded_at := Some (now s4)\<rparr>;
                 s5 = s4\<lparr>point_charges :=
                   update_where (\<lambda>c. pc_id c = pc_id charge) (\<lambda>_. charge') (point_charges s4)\<rparr>;
                 transaction =
                   \<lparr>pt_id = new_id ''point_tx_'' s5, pt_user_id = u, pt_operation = ''refund'',
                    pt_idempotency_key = key, pt_amount = - pc_points charge,
                    pt_resource_type = Some ''point_charge'', pt_resource_id = Some (pc_id charge),
                    pt_request_hash = Some (sha256 s5 (JStr (''point_charge:'' @ pc_id charge))),
                    pt_ledger_id = None, pt_status = ''completed'', pt_created_at = now s5\<rparr>
             in bindE (add_transaction transaction (draw s5)) (\<lambda>s6. Inr (charge', s6)))))))"

section \<open>Administrator adjustments\<close>

text \<open>The transaction and, when it names a ledger row that still exists, that row.\<close>

definition adjusted_before ::
  "ident \<Rightarrow> int \<Rightarrow> string \<Rightarrow> db \<Rightarrow> exn + point_ledger_row option" where
  "adjusted_before u amount key s =
    (case find_transaction u ''adjustment'' key s of
       None \<Rightarrow> Inr None
     | Some t \<Rightarrow>
         if pt_amount t \<noteq> amount \<or> pt_resource_id t \<noteq> Some u
         then Inl (AppError 409 ''IDEMPOTENCY_KEY_REUSED'')
         else if present (pt_ledger_id t) then Inr (get_ledger (the (pt_ledger_id t)) s)
         else Inr None)"

definition apply_adjustment ::
  "ident \<Rightarrow> int \<Rightarrow> string option \<Rightarrow> ident \<Rightarrow> string \<Rightarrow> db \<Rightarrow> exn + point_ledger_row \<times> db" where
  "apply_adjustment u amount reason actor_id key s =
    bindE (record_engagement_event u ''points_adjusted'' ''admin_point_adjustment''
        (''admin_adjustment:'' @ u @ '':'' @ key)
        [(''amount'', JInt amount), (''reason'', jopt reason)] s) (\<lambda>(event, s1).
    let a = \<lparr>pa_user_id = u, pa_source_event_id = ev_id event,
          pa_rule_key = ''admin_point_adjustment'', pa_amount = \<bar>amount\<bar>,
          pa_metadata = [(''actorId'', JStr actor_id)],
          pa_expires_at = None, pa_reversed_ledger_id = None\<rparr>
    in if amount > 0 then grant_points a s1 else spend_points a s1)"

text \<open>The existing transaction gets the ledger row, or a new transaction is added with it.\<close>

definition save_adjustment ::
  "ident \<Rightarrow> int \<Rightarrow> string option \<Rightarrow> string \<Rightarrow> ident \<Rightarrow> db \<Rightarrow> exn + db" where
  "save_adjustment u amount reason key ledger_id s =
    (case find_transaction u ''adjustment'' key s of
       Some t \<Rightarrow>
         Inr (s\<lparr>point_transactions :=
           update_where (\<lambda>x. pt_id x = pt_id t) (\<lambda>x. x\<lparr>pt_ledger_id := Some ledger_id\<rparr>)
             (point_transactions s)\<rparr>)
     | None \<Rightarrow>
         add_transaction
           \<lparr>pt_id = new_id ''point_tx_'' s, pt_user_id = u, pt_operation = ''adjustment'',
            pt_idempotency_key = key, pt_amount = amount,
            pt_resource_type = Some ''user'', pt_resource_id = Some u,
            pt_request_hash = Some (sha256 s (JObj
              [(''amount'', JInt amount), (''reason'', jopt reason), (''userId'', JStr u)])),
            pt_ledger_id = Some ledger_id, pt_status = ''completed'', pt_created_at = now s\<rparr>
           (draw s))"

definition adjust_points ::
  "ident \<Rightarrow> int \<Rightarrow> string option \<Rightarrow> ident \<Rightarrow> string \<Rightarrow> db
    \<Rightarrow> exn + (point_ledger_row \<times> bool) \<times> db" where
  "adjust_points u amount reason actor_id key s =
    (if amount = 0 then Inl (AppError 422 ''INVALID_POINT_AMOUNT'')
     else bindE (adjusted_before u amount key s) (\<lambda>before.
       case before of
         Some ledger \<Rightarrow> Inr ((ledger, True), s)
       | None \<Rightarrow>
           bindE (apply_adjustment u amount reason actor_id key s) (\<lambda>(ledger, s1).
           bindE (save_adjustment u amount reason key (pl_id ledger) s1) (\<lambda>s2.
           Inr ((ledger, False), s2)))))"

section \<open>Reconciliation\<close>

definition total_in :: "ident \<Rightarrow> point_ledger_row list \<Rightarrow> int" where
  "total_in u ls = sum_where (\<lambda>l. pl_user_id l = u) pl_amount ls"

abbreviation ledger_total :: "ident \<Rightarrow> db \<Rightarrow> int" where
  "ledger_total u s \<equiv> total_in u (point_ledger s)"

record drift =
  dr_user_id :: ident
  dr_cached_balance :: int
  dr_ledger_total :: int
  dr_difference :: int

definition reconcile_point_balances :: "db \<Rightarrow> drift list" where
  "reconcile_point_balances s =
    map (\<lambda>u. \<lparr>dr_user_id = u, dr_cached_balance = balance_of u s, dr_ledger_total = ledger_total u s,
              dr_difference = balance_of u s - ledger_total u s\<rparr>)
      (filter (\<lambda>u. ledger_total u s \<noteq> balance_of u s)
        (sort (remdups (map pb_user_id (point_balances s) @ map pl_user_id (point_ledger s)))))"


section \<open>The component invariant\<close>

text \<open>
  \<open>running u acc ls\<close>: reading the ledger from a balance of \<open>acc\<close>, every row of fan
  \<open>u\<close> records the balance after it.
\<close>

fun running :: "ident \<Rightarrow> int \<Rightarrow> point_ledger_row list \<Rightarrow> bool" where
  "running u acc [] = True"
| "running u acc (l # ls) =
    (if pl_user_id l = u then pl_balance_after l = acc + pl_amount l \<and> running u (acc + pl_amount l) ls
     else running u acc ls)"

definition ledger_key :: "point_ledger_row \<Rightarrow> ident \<times> ident \<times> string" where
  "ledger_key l = (pl_user_id l, pl_source_event_id l, pl_rule_key l)"

definition points_ok :: "point_ledger_row list \<Rightarrow> point_balance list \<Rightarrow> bool" where
  "points_ok ls bs \<longleftrightarrow>
    unique_by pb_user_id bs \<and>
    unique_by pl_id ls \<and>
    unique_by ledger_key ls \<and>
    (\<forall>u. balance_in u bs = total_in u ls) \<and>
    (\<forall>u. 0 \<le> balance_in u bs) \<and>
    (\<forall>u. running u 0 ls)"

text \<open>
  The invariant of a state reads its two tables only, so that assignments to other tables
  simplify away.
\<close>

abbreviation points_inv :: "db \<Rightarrow> bool" where
  "points_inv s \<equiv> points_ok (point_ledger s) (point_balances s)"

text \<open>\<open>posted l s s'\<close>: exactly the row \<open>l\<close> was appended and its fan's balance moved by it.\<close>

definition posted :: "point_ledger_row \<Rightarrow> db \<Rightarrow> db \<Rightarrow> bool" where
  "posted l s s' \<longleftrightarrow>
    point_ledger s' = point_ledger s @ [l] \<and>
    \<not> list_ex (clash_ledger l) (point_ledger s) \<and>
    pl_balance_after l = balance_of (pl_user_id l) s + pl_amount l \<and>
    (\<forall>u. balance_of u s' = (if u = pl_user_id l then pl_balance_after l else balance_of u s)) \<and>
    (unique_by pb_user_id (point_balances s) \<longrightarrow> unique_by pb_user_id (point_balances s'))"

lemma running_snoc:
  "running u acc (ls @ [l]) \<longleftrightarrow>
    running u acc ls \<and>
    (pl_user_id l = u \<longrightarrow>
      pl_balance_after l = acc + total_in u ls + pl_amount l)"
  by (induction ls arbitrary: acc) (auto simp: total_in_def table_simps algebra_simps)

lemma running_nth:
  "running u acc ls \<Longrightarrow> n < length ls \<Longrightarrow> pl_user_id (ls ! n) = u \<Longrightarrow>
    pl_balance_after (ls ! n) = acc + total_in u (take (Suc n) ls)"
proof (induction ls arbitrary: acc n)
  case (Cons l ls)
  then show ?case
    by (cases n) (auto simp: total_in_def table_simps split: if_splits)
qed simp

lemma points_inv_posted:
  assumes "points_inv s" and "posted l s s'" and "0 \<le> pl_balance_after l"
  shows "points_inv s'"
proof -
  have "unique_by f (point_ledger s')"
    if "unique_by f (point_ledger s)" "\<And>x. f x = f l \<Longrightarrow> clash_ledger l x" for f :: "_ \<Rightarrow> 'k"
    using that assms(2) by (auto simp: posted_def unique_by_def list_ex_iff)
  from this [of pl_id] this [of ledger_key] show ?thesis
    using assms
    by (auto simp: points_ok_def posted_def clash_ledger_def ledger_key_def running_snoc
        total_in_def table_simps)
qed

lemma points_inv_empty: "points_inv empty_db"
  by (simp add: points_ok_def empty_db_def unique_by_def balance_in_def total_in_def sum_where_def)

section \<open>What the writers do\<close>

lemma balance_for_update_cases:
  assumes "balance_for_update u s = Inr (b, s')"
  obtains (Old) "find_balance u s = Some b" "s' = s"
  | (New) "find_balance u s = None" "b = \<lparr>pb_user_id = u, pb_balance = 0\<rparr>"
      "s' = s\<lparr>point_balances := point_balances s @ [b]\<rparr>"
  using assms unfolding balance_for_update_def find_balance_def
  by (subst (asm) get_or_insert_eq_Inr) auto

lemma balance_for_update_total:
  "\<exists>b s'. balance_for_update u s = Inr (b, s')"
  by (auto simp: balance_for_update_def get_or_insert_def insert_row_def find_None_iff list_ex_iff
      split: option.splits)

text \<open>
  After the locked read the row exists, so the assignment to it sets the balance that the
  read returned plus the delta, and nobody else's.
\<close>

lemma balance_for_update_set:
  assumes "balance_for_update u s = Inr (b, s1)"
  shows "pb_balance b = balance_of u s"
    and "balance_of v (set_balance u n s1) = (if v = u then n else balance_of v s)"
    and "unique_by pb_user_id (point_balances s) \<Longrightarrow>
      unique_by pb_user_id (point_balances (set_balance u n s1))"
    and "s1 = s\<lparr>point_balances := point_balances s1\<rparr>"
    and "point_ledger s1 = point_ledger s"
  using assms
  by (cases rule: balance_for_update_cases;
      auto simp: balance_in_def find_balance_def set_balance_def find_update_where find_append
        find_None_iff unique_by_def map_update_where
        dest: find_SomeD split: option.splits)+

lemma find_args_other [simp]:
  "find_args a (s\<lparr>point_balances := bs\<rparr>) = find_args a s"
  by (simp add: find_args_def find_ledger_def)

lemma grant_points_cases:
  assumes "grant_points a s = Inr (l, s')"
  obtains (Old) "find_args a s = Some l" "s' = s"
  | (New) "find_args a s = None" "posted l s s'" "pl_amount l = pa_amount a"
      "pl_user_id l = pa_user_id a" "find_args a s' = Some l" "0 < pa_amount a"
      "l = ledger_row ''earn'' (a\<lparr>pa_reversed_ledger_id := None\<rparr>) (pa_amount a)
        (balance_of (pa_user_id a) s + pa_amount a) s"
proof (cases "find_args a s")
  case (Some l0)
  with assms have "l = l0 \<and> s' = s" by (auto simp: grant_points_def split: if_splits)
  with Some show thesis by (intro Old) simp_all
next
  case None
  let ?l = "ledger_row ''earn'' (a\<lparr>pa_reversed_ledger_id := None\<rparr>) (pa_amount a) 0 s"
  have none: "find_args a (draw s) = None" using None by (simp add: find_args_def find_ledger_def)
  from assms None obtain s1 where add: "add_ledger ?l (draw s) = Inr s1" and pos: "0 < pa_amount a"
    by (auto simp: grant_points_def Let_def none split: if_splits sum.splits)
  then have s1: "s1 = (draw s)\<lparr>point_ledger := point_ledger s @ [?l]\<rparr>"
    and fresh: "\<not> list_ex (clash_ledger ?l) (point_ledger s)"
    by (auto simp: add_ledger_def inr_simps)
  obtain b s2 where b: "balance_for_update (pa_user_id a) s1 = Inr (b, s2)"
    using balance_for_update_total by blast
  let ?t = "pb_balance b + pa_amount a"
  have "grant_points a s = Inr (?l\<lparr>pl_balance_after := ?t\<rparr>,
    (set_balance (pa_user_id a) ?t s2)\<lparr>point_ledger :=
       update_where (\<lambda>x. pl_id x = pl_id ?l) (\<lambda>_. ?l\<lparr>pl_balance_after := ?t\<rparr>)
         (point_ledger (set_balance (pa_user_id a) ?t s2))\<rparr>)"
    using pos by (simp add: grant_points_def Let_def None add b)
  note eqs = this [unfolded assms, unfolded sum.inject prod.inject]
  note l = eqs [THEN conjunct1] and s' = eqs [THEN conjunct2]
  note b' = balance_for_update_set [OF b]
  have "update_where (\<lambda>x. pl_id x = pl_id ?l) f (point_ledger s) = point_ledger s" for f
    using fresh by (intro update_where_id) (auto simp: list_ex_iff clash_ledger_def)
  then have led: "point_ledger s' = point_ledger s @ [l]"
    using b'(5) by (simp add: s' l set_balance_def s1 update_where_simps)
  have bal: "balance_of v s1 = balance_of v s" for v
    by (simp add: s1)
  have bal': "point_balances s' = point_balances (set_balance (pa_user_id a) ?t s2)"
    by (simp add: s')
  have l': "l = ledger_row ''earn'' (a\<lparr>pa_reversed_ledger_id := None\<rparr>) (pa_amount a)
        (balance_of (pa_user_id a) s + pa_amount a) s"
    using b'(1) by (simp add: l bal ledger_row_def)
  show thesis
  proof (rule New)
    show "posted l s s'"
      unfolding posted_def
    proof (intro conjI allI impI)
      show "\<not> list_ex (clash_ledger l) (point_ledger s)"
        using fresh by (simp add: l clash_ledger_def [abs_def])
      show "unique_by pb_user_id (point_balances s')" if "unique_by pb_user_id (point_balances s)"
        using that b'(3) by (simp add: s' s1)
    qed (use led b'(1,2) bal bal' in \<open>simp_all add: l ledger_row_def\<close>)
    show "find_args a s' = Some l"
      using None led by (simp add: find_args_def find_ledger_def find_append l' ledger_row_def)
  qed (use None pos l' in \<open>simp_all add: ledger_row_def\<close>)
qed

text \<open>
  The other writers set the balance first and insert the finished row: \<open>moved u n s s1\<close>
  is the first half.
\<close>

definition moved :: "ident \<Rightarrow> int \<Rightarrow> db \<Rightarrow> db \<Rightarrow> bool" where
  "moved u n s s1 \<longleftrightarrow> point_ledger s1 = point_ledger s \<and>
    (\<forall>v. balance_of v s1 = (if v = u then n else balance_of v s)) \<and>
    (unique_by pb_user_id (point_balances s) \<longrightarrow> unique_by pb_user_id (point_balances s1))"

lemma moved_for_update:
  "balance_for_update u s = Inr (b, s1) \<Longrightarrow> moved u n s (set_balance u n s1)"
  using balance_for_update_set [of u s b s1] by (simp add: moved_def set_balance_def)

lemma moved_found:
  assumes "find_balance u s = Some b"
  shows "moved u n s (set_balance u n s)"
  using moved_for_update [of u s b s] assms
  by (simp add: balance_for_update_def get_or_insert_def find_balance_def)

lemma posted_moved:
  assumes "moved u n s s1" and "add_ledger l (draw s1) = Inr s2"
    and "pl_user_id l = u" and "pl_balance_after l = n" and "n = balance_of u s + pl_amount l"
  shows "posted l s s2"
proof -
  from assms(2) have s2: "s2 = (draw s1)\<lparr>point_ledger := point_ledger s1 @ [l]\<rparr>"
    and fresh: "\<not> list_ex (clash_ledger l) (point_ledger s1)"
    by (auto simp: add_ledger_def inr_simps)
  from assms(1,3-5) fresh show ?thesis by (simp add: posted_def moved_def s2)
qed

lemma posted_found:
  "posted l s s' \<Longrightarrow> find_ledger u ev rk s = None \<Longrightarrow> pl_user_id l = u \<Longrightarrow>
    pl_source_event_id l = ev \<Longrightarrow> pl_rule_key l = rk \<Longrightarrow> find_ledger u ev rk s' = Some l"
  by (simp add: posted_def find_ledger_def find_append)

lemma spend_points_cases:
  assumes "spend_points a s = Inr (l, s')"
  obtains (Old) "find_args a s = Some l" "s' = s"
  | (New) "find_args a s = None" "posted l s s'" "pl_amount l = - pa_amount a"
      "pl_user_id l = pa_user_id a" "find_args a s' = Some l" "0 < pa_amount a"
      "pa_amount a \<le> balance_of (pa_user_id a) s"
proof (cases "find_args a s")
  case (Some l0)
  with assms have "l = l0 \<and> s' = s" by (auto simp: spend_points_def split: if_splits)
  with Some show thesis by (intro Old) simp_all
next
  case None
  let ?u = "pa_user_id a"
  from assms None obtain b where b: "find_balance ?u s = Some b"
    and le: "pa_amount a \<le> pb_balance b" and pos: "0 < pa_amount a"
    by (auto simp: spend_points_def split: if_splits option.splits)
  let ?t = "pb_balance b - pa_amount a"
  let ?l = "ledger_row ''spend'' (a\<lparr>pa_reversed_ledger_id := None, pa_expires_at := None\<rparr>)
    (- pa_amount a) ?t (set_balance ?u ?t s)"
  from assms have add: "add_ledger ?l (draw (set_balance ?u ?t s)) = Inr s'" and l: "l = ?l"
    by (auto simp: spend_points_def None b Let_def bindE_eq_Inr split: if_splits)
  have bal: "balance_of ?u s = pb_balance b" by (use b in \<open>simp add: balance_in_def find_balance_def\<close>)
  have "posted l s s'"
    by (rule posted_moved [OF moved_found [OF b] add, folded l]) (simp_all add: l ledger_row_def bal)
  moreover from this None have "find_args a s' = Some l"
    unfolding find_args_def by (rule posted_found) (simp_all add: l ledger_row_def)
  ultimately show thesis
    by (intro New) (use None le pos bal in \<open>simp_all add: l ledger_row_def\<close>)
qed

lemma reverse_points_cases:
  assumes "reverse_points a s = Inr (l, s')"
  obtains (Old) "find_args a s = Some l" "s' = s"
  | (New) "find_args a s = None" "posted l s s'" "pl_amount l = pa_amount a"
      "pl_user_id l = pa_user_id a" "find_args a s' = Some l" "0 < pa_amount a"
proof (cases "find_args a s")
  case (Some l0)
  with assms have "l = l0 \<and> s' = s" by (auto simp: reverse_points_def split: if_splits)
  with Some show thesis by (intro Old) simp_all
next
  case None
  let ?u = "pa_user_id a"
  obtain b s1 where b: "balance_for_update ?u s = Inr (b, s1)"
    using balance_for_update_total by blast
  let ?t = "pb_balance b + pa_amount a"
  let ?l = "ledger_row ''reverse'' (a\<lparr>pa_expires_at := None\<rparr>) (pa_amount a) ?t (set_balance ?u ?t s1)"
  from assms have add: "add_ledger ?l (draw (set_balance ?u ?t s1)) = Inr s'" and l: "l = ?l"
    and pos: "0 < pa_amount a"
    by (auto simp: reverse_points_def None b Let_def bindE_eq_Inr split: if_splits)
  have "posted l s s'"
    by (rule posted_moved [OF moved_for_update [OF b] add, folded l])
      (simp_all add: l ledger_row_def balance_for_update_set(1) [OF b])
  moreover from this None have "find_args a s' = Some l"
    unfolding find_args_def by (rule posted_found) (simp_all add: l ledger_row_def)
  ultimately show thesis
    by (intro New) (use None pos in \<open>simp_all add: l ledger_row_def\<close>)
qed

text \<open>Which tables the writers may touch.\<close>

named_theorems points_touch \<open>which tables the statements of the point economy may change\<close>
named_theorems points_keeps \<open>the statements that keep the point invariant\<close>

definition only_points :: "db \<Rightarrow> db \<Rightarrow> bool" where
  "only_points s s' \<longleftrightarrow>
    (\<exists>ls bs n. s' = s\<lparr>point_ledger := ls, point_balances := bs, drawn := n\<rparr>)"

lemma only_pointsI:
  "s' = s\<lparr>point_ledger := point_ledger s', point_balances := point_balances s', drawn := drawn s'\<rparr>
    \<Longrightarrow> only_points s s'"
  unfolding only_points_def by blast

lemma balance_for_update_touch:
  "balance_for_update u s = Inr (b, s') \<Longrightarrow> \<exists>bs. s' = s\<lparr>point_balances := bs\<rparr>"
  by (drule balance_for_update_set(4)) blast

lemma add_ledger_touch: "add_ledger l s = Inr s' \<Longrightarrow> \<exists>ls. s' = s\<lparr>point_ledger := ls\<rparr>"
  by (auto simp: add_ledger_def inr_simps)

lemma writers_only_points:
  "grant_points a s = Inr (l, s') \<Longrightarrow> only_points s s'"
  "spend_points a s = Inr (l, s') \<Longrightarrow> only_points s s'"
  "reverse_points a s = Inr (l, s') \<Longrightarrow> only_points s s'"
  by (rule only_pointsI;
      auto simp: grant_points_def spend_points_def reverse_points_def Let_def inr_simps set_balance_def draw_def
        split: if_splits option.splits sum.splits dest!: add_ledger_touch balance_for_update_touch)+

lemmas writers_touch [points_touch] = writers_only_points [unfolded only_points_def]

lemma points_keeps_moved:
  assumes "moved u n s s1" and "add_ledger l (draw s1) = Inr s2"
    and "pl_user_id l = u" and "pl_balance_after l = n" and "n = balance_of u s + pl_amount l"
    and "0 \<le> n" and "points_inv s"
  shows "points_inv s2"
  using points_inv_posted [OF \<open>points_inv s\<close> posted_moved [OF assms(1-5)]] assms(4,6) by simp

lemma points_inv_nonneg: "points_inv s \<Longrightarrow> 0 \<le> balance_of u s"
  unfolding points_ok_def by blast

lemma points_inv_delta:
  assumes "points_inv s" and "posted l s s'" and "0 \<le> balance_of (pl_user_id l) s + pl_amount l"
  shows "points_inv s'"
  using assms by (intro points_inv_posted [OF assms(1,2)]) (simp add: posted_def)

lemma writers_keep [points_keeps]:
  "grant_points a s = Inr (l, s') \<Longrightarrow> points_inv s \<Longrightarrow> points_inv s'"
  "spend_points a s = Inr (l, s') \<Longrightarrow> points_inv s \<Longrightarrow> points_inv s'"
  "reverse_points a s = Inr (l, s') \<Longrightarrow> points_inv s \<Longrightarrow> points_inv s'"
  by (erule grant_points_cases spend_points_cases reverse_points_cases;
      use points_inv_nonneg [of s "pa_user_id a"] in \<open>simp add: points_inv_delta\<close>)+

lemma execute_point_ledger_command_keeps [points_keeps]:
  "execute_point_ledger_command op a s = Inr (l, s') \<Longrightarrow> points_inv s \<Longrightarrow> points_inv s'"
  by (auto simp: execute_point_ledger_command_def intro: points_keeps split: if_splits)

lemma resolve_point_charge_package_touch [touch]:
  assumes "resolve_point_charge_package i s = Inr (p, s')"
  shows "\<exists>ps. s' = s\<lparr>point_charge_packages := ps\<rparr>"
proof -
  from assms have "s' = s\<lparr>point_charge_packages := point_charge_packages s'\<rparr>"
    by (auto simp: resolve_point_charge_package_def ensure_point_charge_packages_def Let_def
        split: if_splits option.splits)
  then show ?thesis by blast
qed

lemma add_transaction_touch [touch]:
  "add_transaction t s = Inr s' \<Longrightarrow> \<exists>ts. s' = s\<lparr>point_transactions := ts\<rparr>"
  by (auto simp: add_transaction_def inr_simps)

lemma create_point_charge_keeps [points_keeps]:
  "create_point_charge u p m k s = Inr (c, s') \<Longrightarrow> points_inv s \<Longrightarrow> points_inv s'"
  by (auto simp: create_point_charge_def inr_simps Let_def dest!: touch; fastforce intro: points_keeps)

text \<open>
  The branch of \<open>refund_point_charge\<close> that does the refund: the charge was completed, the
  compensating ledger row takes its points away, and the charge is marked.
\<close>

lemma refund_point_charge_cases:
  assumes "refund_point_charge u i k s = Inr (c, s')"
  obtains (Replayed) t where "find_transaction u ''refund'' k s = Some t"
      "pt_resource_id t = Some i" "find_charge i u s = Some c" "s' = s"
  | (Already) "find_charge i u s = Some c" "pc_status c = ''refunded''" "s' = s"
  | (Refunded) c0 event s1 s2 b ledger s4 t where
      "find_charge i u s = Some c0" "pc_status c0 = ''completed''" "present (pc_ledger_id c0)"
      "record_engagement_event u ''points_refunded'' ''point_charge_refund'' (pc_id c0)
        [(''chargeId'', JStr (pc_id c0)), (''points'', JInt (pc_points c0))] s = Inr (event, s1)"
      "balance_for_update u s1 = Inr (b, s2)" "pc_points c0 \<le> pb_balance b"
      "pl_user_id ledger = u" "pl_amount ledger = - pc_points c0"
      "pl_balance_after ledger = pb_balance b - pc_points c0"
      "pl_reversed_ledger_id ledger = pc_ledger_id c0"
      "add_ledger ledger (draw (set_balance u (pb_balance b - pc_points c0) s2)) = Inr s4"
      "c = c0\<lparr>pc_status := ''refunded'', pc_refunded_at := Some (now s4)\<rparr>"
      "add_transaction t (draw (s4\<lparr>point_charges :=
          update_where (\<lambda>x. pc_id x = pc_id c0) (\<lambda>_. c) (point_charges s4)\<rparr>)) = Inr s'"
      "pt_user_id t = u" "pt_operation t = ''refund''" "pt_idempotency_key t = k"
      "pt_resource_id t = Some (pc_id c0)"
proof (cases "find_transaction u ''refund'' k s")
  case (Some t)
  with assms have "pt_resource_id t = Some i \<and> find_charge i u s = Some c \<and> s' = s"
    by (auto simp: refund_point_charge_def inr_simps)
  then show thesis by (intro Replayed [OF Some]) simp_all
next
  case None
  from assms obtain c0 where c0: "find_charge i u s = Some c0"
    by (auto simp: refund_point_charge_def None inr_simps)
  show thesis
  proof (cases "pc_status c0 = ''refunded''")
    case True
    with assms c0 None have "c = c0 \<and> s' = s" by (simp add: refund_point_charge_def)
    with c0 True show thesis by (intro Already) simp_all
  next
    case False
    with assms c0 None show thesis
      by (auto simp: refund_point_charge_def inr_simps Let_def intro!: Refunded [OF c0] simp: ledger_row_def)
  qed
qed

lemma refund_point_charge_keeps [points_keeps]:
  assumes "refund_point_charge u i k s = Inr (c, s')" and "points_inv s"
  shows "points_inv s'"
  using assms(1)
proof (cases rule: refund_point_charge_cases)
  case (Refunded c0 event s1 s2 b ledger s4 t)
  from Refunded(4) assms(2) have "points_inv s1" by (auto dest!: touch)
  have "points_inv s4"
    by (rule points_keeps_moved [OF moved_for_update [OF Refunded(5)] Refunded(11) Refunded(7,9)])
      (use Refunded(6,8) \<open>points_inv s1\<close> balance_for_update_set(1) [OF Refunded(5)] in simp_all)
  with add_transaction_touch [OF Refunded(13)] show ?thesis by auto
qed (use assms(2) in simp_all)

lemma apply_adjustment_keeps [points_keeps]:
  "apply_adjustment u n r a k s = Inr (l, s') \<Longrightarrow> points_inv s \<Longrightarrow> points_inv s'"
  by (auto simp: apply_adjustment_def inr_simps Let_def dest!: touch; fastforce intro: points_keeps)

lemma save_adjustment_touch [touch]:
  assumes "save_adjustment u n r k l s = Inr s'"
  shows "\<exists>ts n. s' = s\<lparr>point_transactions := ts, drawn := n\<rparr>"
proof -
  from assms have "s' = s\<lparr>point_transactions := point_transactions s', drawn := drawn s'\<rparr>"
    by (auto simp: save_adjustment_def inr_simps draw_def dest!: touch)
  then show ?thesis by blast
qed

lemma adjust_points_keeps [points_keeps]:
  "adjust_points u n r a k s = Inr (x, s') \<Longrightarrow> points_inv s \<Longrightarrow> points_inv s'"
  by (auto simp: adjust_points_def inr_simps dest!: touch; fastforce intro: points_keeps)

text \<open>
  Every request of the economy keeps the invariant, whatever its outcome, and so does every
  sequence of them: the operations are interpretations of \<open>service\<close>.
\<close>

interpretation ledger_commands: service
  "\<lambda>(operation, a). execute_point_ledger_command operation a" points_inv
  by unfold_locales (clarsimp simp: execute_point_ledger_command_keeps)

interpretation charges: service
  "\<lambda>(u, package, payment_method, key). create_point_charge u package payment_method key" points_inv
  by unfold_locales (clarsimp simp: create_point_charge_keeps)

interpretation charge_refunds: service
  "\<lambda>(u, charge_id, key). refund_point_charge u charge_id key" points_inv
  by unfold_locales (clarsimp simp: refund_point_charge_keeps)

interpretation adjustments: service
  "\<lambda>(u, amount, reason, actor_id, key). adjust_points u amount reason actor_id key" points_inv
  by unfold_locales (clarsimp simp: adjust_points_keeps)

text \<open>
  The three writers are idempotent in \<open>(user, source event, rule)\<close>: interpretations of the
  idempotency contract. A replay is accepted with any positive amount and returns the row
  of the first call.
\<close>

definition at_key :: "ident \<times> ident \<times> string \<Rightarrow> point_args \<Rightarrow> point_args" where
  "at_key k a = (case k of (u, ev, rk) \<Rightarrow>
    a\<lparr>pa_user_id := u, pa_source_event_id := ev, pa_rule_key := rk\<rparr>)"

lemma find_args_at_key: "find_args (at_key (u, ev, rk) a) s = find_ledger u ev rk s"
  by (simp add: find_args_def at_key_def)

lemma pa_amount_at_key [simp]: "pa_amount (at_key k a) = pa_amount a"
  by (simp add: at_key_def split: prod.splits)

interpretation grant_store: keyed_store
  "\<lambda>(u, ev, rk). find_ledger u ev rk" "\<lambda>k a. grant_points (at_key k a)" "\<lambda>a. 0 < pa_amount a"
proof unfold_locales
  fix a k s r s'
  show "grant_points (at_key k a) s = Inr (r, s)"
    if "0 < pa_amount a" "(case k of (u, ev, rk) \<Rightarrow> find_ledger u ev rk) s = Some r" for s
    using that by (cases k) (simp add: grant_points_def find_args_at_key)
  assume *: "grant_points (at_key k a) s = Inr (r, s')"
  from * show "(case k of (u, ev, rk) \<Rightarrow> find_ledger u ev rk) s' = Some r"
    by (cases k, elim grant_points_cases) (simp_all add: find_args_at_key)
  from * show "0 < pa_amount a" by (simp add: grant_points_def split: if_splits)
qed

interpretation spend_store: keyed_store
  "\<lambda>(u, ev, rk). find_ledger u ev rk" "\<lambda>k a. spend_points (at_key k a)" "\<lambda>a. 0 < pa_amount a"
proof unfold_locales
  fix a k s r s'
  show "spend_points (at_key k a) s = Inr (r, s)"
    if "0 < pa_amount a" "(case k of (u, ev, rk) \<Rightarrow> find_ledger u ev rk) s = Some r" for s
    using that by (cases k) (simp add: spend_points_def find_args_at_key)
  assume *: "spend_points (at_key k a) s = Inr (r, s')"
  from * show "(case k of (u, ev, rk) \<Rightarrow> find_ledger u ev rk) s' = Some r"
    by (cases k, elim spend_points_cases) (simp_all add: find_args_at_key)
  from * show "0 < pa_amount a" by (simp add: spend_points_def split: if_splits)
qed

interpretation reverse_store: keyed_store
  "\<lambda>(u, ev, rk). find_ledger u ev rk" "\<lambda>k a. reverse_points (at_key k a)" "\<lambda>a. 0 < pa_amount a"
proof unfold_locales
  fix a k s r s'
  show "reverse_points (at_key k a) s = Inr (r, s)"
    if "0 < pa_amount a" "(case k of (u, ev, rk) \<Rightarrow> find_ledger u ev rk) s = Some r" for s
    using that by (cases k) (simp add: reverse_points_def find_args_at_key)
  assume *: "reverse_points (at_key k a) s = Inr (r, s')"
  from * show "(case k of (u, ev, rk) \<Rightarrow> find_ledger u ev rk) s' = Some r"
    by (cases k, elim reverse_points_cases) (simp_all add: find_args_at_key)
  from * show "0 < pa_amount a" by (simp add: reverse_points_def split: if_splits)
qed

lemma at_key_self: "at_key (pa_user_id a, pa_source_event_id a, pa_rule_key a) a = a"
  by (simp add: at_key_def)

section \<open>Reconciliation reports exactly the drift\<close>

lemma balance_in_absent: "u \<notin> pb_user_id ` set bs \<Longrightarrow> balance_in u bs = 0"
  by (auto simp: balance_in_def find_Some_iff split: option.splits)

lemma total_in_absent: "u \<notin> pl_user_id ` set ls \<Longrightarrow> total_in u ls = 0"
  by (auto simp: total_in_def intro!: sum_where_none)

lemma drift_has_row:
  "ledger_total u s \<noteq> balance_of u s \<Longrightarrow>
    u \<in> set (map pb_user_id (point_balances s) @ map pl_user_id (point_ledger s))"
  using balance_in_absent [of u "point_balances s"] total_in_absent [of u "point_ledger s"] by fastforce

lemma set_reconcile:
  "set (reconcile_point_balances s) =
    (\<lambda>u. \<lparr>dr_user_id = u, dr_cached_balance = balance_of u s, dr_ledger_total = ledger_total u s,
          dr_difference = balance_of u s - ledger_total u s\<rparr>) `
      {u. ledger_total u s \<noteq> balance_of u s}"
  using drift_has_row by (auto simp: reconcile_point_balances_def)

lemma reconcile_empty: "reconcile_point_balances s = [] \<longleftrightarrow> (\<forall>u. balance_of u s = ledger_total u s)"
proof -
  have "reconcile_point_balances s = [] \<longleftrightarrow> set (reconcile_point_balances s) = {}" by simp
  then show ?thesis unfolding set_reconcile by auto
qed


section \<open>Properties\<close>

lemma posted_balance: "posted l s s' \<Longrightarrow>
    balance_of u s' = balance_of u s + (if u = pl_user_id l then pl_amount l else 0)"
  by (simp add: posted_def)

lemma create_point_charge_new:
  assumes op: "create_point_charge u p m k s = Inr (c, s')" and none: "find_charge_by_key u k s = None"
  obtains package s1 event s2 l s3 where
    "resolve_point_charge_package p s = Inr (package, s1)"
    "record_engagement_event u ''points_charged'' ''point_charge'' (u @ '':'' @ k)
       [(''packageId'', JStr p), (''points'', JInt (pp_points package)), (''paymentMethod'', JStr m)] s1
     = Inr (event, s2)"
    "grant_points
       \<lparr>pa_user_id = u, pa_source_event_id = ev_id event, pa_rule_key = ''point_charge:'' @ p,
        pa_amount = pp_points package,
        pa_metadata = [(''packageId'', JStr p), (''paymentMethod'', JStr m)],
        pa_expires_at = None, pa_reversed_ledger_id = None\<rparr> s2 = Inr (l, s3)"
    "pc_points c = pp_points package" "pc_status c = ''completed''" "pc_user_id c = u"
    "pc_idempotency_key c = k" "pc_ledger_id c = Some (pl_id l)"
    "\<not> list_ex (clash_charge c) (point_charges s)"
    "point_charges s' = point_charges s @ [c]"
    "point_balances s' = point_balances s3" "point_ledger s' = point_ledger s3"
proof -
  obtain package s1 where 1: "resolve_point_charge_package p s = Inr (package, s1)"
    using op by (auto simp: create_point_charge_def bindE_eq_Inr)
  then have s1: "point_charges s1 = point_charges s" by (auto dest!: touch)
  with none have n1: "find_charge_by_key u k s1 = None" by (simp add: find_charge_by_key_def)
  note op1 = op [unfolded create_point_charge_def 1 bindE_Inr prod.case n1 option.case]
  obtain event s2 where 2: "record_engagement_event u ''points_charged'' ''point_charge'' (u @ '':'' @ k)
       [(''packageId'', JStr p), (''points'', JInt (pp_points package)), (''paymentMethod'', JStr m)] s1
     = Inr (event, s2)"
    using op1 by (auto simp only: bindE_eq_Inr)
  note op2 = op1 [unfolded 2 bindE_Inr prod.case]
  obtain l s3 where 3: "grant_points
       \<lparr>pa_user_id = u, pa_source_event_id = ev_id event, pa_rule_key = ''point_charge:'' @ p,
        pa_amount = pp_points package,
        pa_metadata = [(''packageId'', JStr p), (''paymentMethod'', JStr m)],
        pa_expires_at = None, pa_reversed_ledger_id = None\<rparr> s2 = Inr (l, s3)"
    using op2 by (auto simp only: bindE_eq_Inr)
  from 2 3 s1 have "point_charges s3 = point_charges s" by (auto dest!: touch points_touch)
  with op2 [unfolded 3 bindE_Inr prod.case] show thesis
    by (intro that [OF 1 2 3]) (auto simp: Let_def inr_simps dest!: touch)
qed

lemma find_unique_id:
  "\<not> list_ex (clash_charge c) cs \<Longrightarrow> find (\<lambda>x. pc_id x = pc_id c \<and> pc_user_id x = pc_user_id c) (cs @ [c]) = Some c"
  by (rule find_snoc_new) (auto simp: find_None_iff list_ex_iff clash_charge_def)

lemma refund_point_charge_effect:
  assumes "refund_point_charge u i k s = Inr (c', s')" and "find_transaction u ''refund'' k s = None"
    and c: "find_charge i u s = Some c" and "pc_status c = ''completed''"
  shows "balance_of v s' = balance_of v s - (if v = u then pc_points c else 0)"
    and "pc_status c' = ''refunded''" and "find_charge i u s' = Some c'"
    and "find_transaction u ''refund'' k s' \<noteq> None"
    and "pc_points c \<le> balance_of u s"
proof -
  have "balance_of v s' = balance_of v s - (if v = u then pc_points c else 0) \<and>
    pc_status c' = ''refunded'' \<and> find_charge i u s' = Some c' \<and>
    find_transaction u ''refund'' k s' \<noteq> None \<and> pc_points c \<le> balance_of u s"
    using assms(1)
  proof (cases rule: refund_point_charge_cases)
    case (Refunded c0 event s1 s2 b ledger s4 t)
    with c have [simp]: "c0 = c" by simp
    have s1: "point_balances s1 = point_balances s" "point_charges s1 = point_charges s"
      using Refunded(4) by (auto dest!: touch)
    have "moved u (pb_balance b - pc_points c) s1 (set_balance u (pb_balance b - pc_points c) s2)"
      by (rule moved_for_update) (rule Refunded(5))
    with Refunded(7-9,11) balance_for_update_set(1) [OF Refunded(5)]
    have "posted ledger s1 s4" by (intro posted_moved) simp_all
    with Refunded(7,8) s1 have bal: "balance_of v s4 = balance_of v s - (if v = u then pc_points c else 0)"
      by (auto simp: posted_def)
    have tx: "find_transaction u ''refund'' k s' \<noteq> None"
      using Refunded(13-16) by (auto simp: add_transaction_def inr_simps find_transaction_def find_append
        split: option.splits)
    have cs: "point_charges s4 = point_charges s"
      using Refunded(11) s1(2) balance_for_update_touch [OF Refunded(5)]
      by (auto simp: add_ledger_def inr_simps set_balance_def)
    have "pc_id c = i \<and> pc_user_id c = u" using find_SomeD [OF c [unfolded find_charge_def]] by simp
    then have "find (\<lambda>x. pc_id x = i \<and> pc_user_id x = u)
        (update_where (\<lambda>x. pc_id x = pc_id c) (\<lambda>_. c') (point_charges s)) = Some c'"
      using c Refunded(12) unfolding find_charge_def by (intro find_set_where [where c = c]) auto
    with bal tx cs Refunded(6,12) s1 balance_for_update_set(1) [OF Refunded(5)] show ?thesis
      using add_transaction_touch [OF Refunded(13)] by (auto simp: find_charge_def)
  qed (use assms in simp_all)
  then show "balance_of v s' = balance_of v s - (if v = u then pc_points c else 0)"
    "pc_status c' = ''refunded''" "find_charge i u s' = Some c'"
    "find_transaction u ''refund'' k s' \<noteq> None" "pc_points c \<le> balance_of u s"
    by simp_all
qed

lemma create_point_charge_effect:
  assumes "create_point_charge u p m k s = Inr (c, s')" and "find_charge_by_key u k s = None"
    and "find_event u ''points_charged'' ''point_charge'' (u @ '':'' @ k) s = None"
    and fresh: "\<And>l. l \<in> set (point_ledger s) \<Longrightarrow> pl_source_event_id l \<noteq> new_id ''evt_'' s"
  shows "balance_of v s' = balance_of v s + (if v = u then pc_points c else 0)"
    and "pc_status c = ''completed''" and "find_charge (pc_id c) u s' = Some c"
    and "find_charge_by_key u k s' = Some c"
proof -
  have "balance_of v s' = balance_of v s + (if v = u then pc_points c else 0) \<and>
    pc_status c = ''completed'' \<and> find_charge (pc_id c) u s' = Some c \<and>
    find_charge_by_key u k s' = Some c"
    using assms(1,2)
  proof (cases rule: create_point_charge_new)
    case (1 package s1 event s2 l s3)
    have s1: "engagement_events s1 = engagement_events s" "point_ledger s1 = point_ledger s"
      "point_balances s1 = point_balances s" "new_id ''evt_'' s1 = new_id ''evt_'' s"
      using 1(1) by (auto dest!: touch simp: new_id_def)
    then have ev: "ev_id event = new_id ''evt_'' s"
      and s2: "point_ledger s2 = point_ledger s" "point_balances s2 = point_balances s"
      using 1(2) assms(3)
      by (auto elim!: record_engagement_event_cases simp: find_event_def new_event_def)
    with fresh have "find_ledger u (ev_id event) rk s2 = None" for rk
      by (auto simp: find_ledger_def find_None_iff)
    with 1(3) have "posted l s2 s3 \<and> pl_amount l = pp_points package \<and> pl_user_id l = u"
      by (auto elim!: grant_points_cases simp: find_args_def)
    then show ?thesis
      using 1(4-12) assms(2) s2 find_unique_id [OF 1(9)]
      by (auto simp: posted_def find_charge_def find_charge_by_key_def find_append)
  qed
  then show "balance_of v s' = balance_of v s + (if v = u then pc_points c else 0)"
    "pc_status c = ''completed''" "find_charge (pc_id c) u s' = Some c"
    "find_charge_by_key u k s' = Some c" by simp_all
qed

text \<open>C1. A spend whose key was not used before fails with \<open>INSUFFICIENT_POINTS\<close> exactly when the
  fan's balance is below the amount; otherwise, when it succeeds, it appends one ledger row, debits
  exactly the amount from that fan and nobody else, and leaves a balance that is not negative.\<close>

theorem spend_points_exact:
  assumes "find_args a s = None" and "0 < pa_amount a"
  shows "(spend_points a s = Inl (AppError 409 ''INSUFFICIENT_POINTS'') \<longleftrightarrow>
      balance_of (pa_user_id a) s < pa_amount a) \<and>
    (\<forall>l s'. spend_points a s = Inr (l, s') \<longrightarrow>
      point_ledger s' = point_ledger s @ [l] \<and> pl_amount l = - pa_amount a \<and>
      pl_balance_after l = balance_of (pa_user_id a) s' \<and> 0 \<le> balance_of (pa_user_id a) s' \<and>
      (\<forall>v. balance_of v s' = balance_of v s - (if v = pa_user_id a then pa_amount a else 0)))"
proof (intro conjI allI impI)
  show "spend_points a s = Inl (AppError 409 ''INSUFFICIENT_POINTS'') \<longleftrightarrow>
      balance_of (pa_user_id a) s < pa_amount a"
    using assms
    by (auto simp: spend_points_def balance_in_def find_balance_def Let_def add_ledger_def insert_row_def
        split: option.splits)
qed (use assms(1) in \<open>auto elim!: spend_points_cases simp: posted_def\<close>)

text \<open>A small state for the concrete instances: one fan whose charge of 500 points is booked.\<close>

definition wallet_row :: point_ledger_row where
  "wallet_row =
    \<lparr>pl_id = ''point_0'', pl_user_id = ''ann'', pl_source_event_id = ''evt_0'',
     pl_rule_key = ''point_charge:points_500'', pl_transaction_type = ''earn'', pl_amount = 500,
     pl_balance_after = 500, pl_expires_at = None, pl_reversed_ledger_id = None,
     pl_metadata_json = [], pl_created_at = 0\<rparr>"

definition wallet_db :: db where
  "wallet_db = empty_db\<lparr>point_ledger := [wallet_row],
    point_balances := [\<lparr>pb_user_id = ''ann'', pb_balance = 500\<rparr>]\<rparr>"

definition wallet_args :: "int \<Rightarrow> point_args" where
  "wallet_args n =
    \<lparr>pa_user_id = ''ann'', pa_source_event_id = ''evt_1'', pa_rule_key = ''shop'', pa_amount = n,
     pa_metadata = [], pa_expires_at = None, pa_reversed_ledger_id = None\<rparr>"

lemmas wallet_simps = wallet_db_def wallet_args_def wallet_row_def empty_db_def

lemma wallet_db_inv: "points_inv wallet_db"
  by (auto simp: wallet_simps points_ok_def unique_by_def balance_in_def total_in_def sum_where_def)

theorem spend_points_exact_witness:
  "spend_points (wallet_args 501) wallet_db = Inl (AppError 409 ''INSUFFICIENT_POINTS'') \<and>
   balance_of ''ann'' (snd (projr (spend_points (wallet_args 200) wallet_db))) = 300"
proof -
  have "find_args (wallet_args n) wallet_db = None" for n
    by (simp add: find_args_def find_ledger_def wallet_simps)
  note exact = spend_points_exact [OF this]
  have "isl (spend_points (wallet_args 200) wallet_db) = False" by code_simp
  then obtain l s' where "spend_points (wallet_args 200) wallet_db = Inr (l, s')"
    by (cases "spend_points (wallet_args 200) wallet_db") auto
  moreover from this exact [of 200] have "balance_of ''ann'' s' = 300"
    by (simp add: wallet_simps balance_in_def)
  ultimately show ?thesis using exact [of 501] by (simp add: wallet_simps balance_in_def)
qed


definition charged_ann :: "exn + point_charge \<times> db" where
  "charged_ann = create_point_charge ''ann'' ''points_1000'' ''card'' ''k'' wallet_db"

definition refunded_ann :: "exn + point_charge \<times> db" where
  "refunded_ann =
    bindE charged_ann (\<lambda>(c, s1). refund_point_charge ''ann'' (pc_id c) ''r'' s1)"


text \<open>The reconciliation report is exact: it lists a fan if and only if the cached balance differs
  from the sum of that fan's ledger rows, every entry states both numbers and their difference,
  and nobody is listed twice.\<close>

theorem reconcile_exact:
  "(\<exists>d \<in> set (reconcile_point_balances s). dr_user_id d = u) = (balance_of u s \<noteq> ledger_total u s) \<and>
   list_all (\<lambda>d. dr_cached_balance d = balance_of (dr_user_id d) s \<and>
      dr_ledger_total d = ledger_total (dr_user_id d) s \<and>
      dr_difference d = dr_cached_balance d - dr_ledger_total d) (reconcile_point_balances s) \<and>
   distinct (map dr_user_id (reconcile_point_balances s))"
proof (intro conjI)
  show "(\<exists>d \<in> set (reconcile_point_balances s). dr_user_id d = u) =
      (balance_of u s \<noteq> ledger_total u s)"
    unfolding set_reconcile by auto
  show "list_all (\<lambda>d. dr_cached_balance d = balance_of (dr_user_id d) s \<and>
      dr_ledger_total d = ledger_total (dr_user_id d) s \<and>
      dr_difference d = dr_cached_balance d - dr_ledger_total d) (reconcile_point_balances s)"
    unfolding list_all_iff set_reconcile by auto
  show "distinct (map dr_user_id (reconcile_point_balances s))"
    by (simp add: reconcile_point_balances_def comp_def distinct_map)
qed

lemma adjust_points_cases:
  assumes "adjust_points u n r a k s = Inr ((l, replayed), s')"
  obtains (Replayed) "replayed" "adjusted_before u n k s = Inr (Some l)" "n \<noteq> 0" "s' = s"
  | (Applied) s1 where "\<not> replayed" "adjusted_before u n k s = Inr None" "n \<noteq> 0"
      "apply_adjustment u n r a k s = Inr (l, s1)"
      "save_adjustment u n r k (pl_id l) s1 = Inr s'"
  using assms by (auto simp: adjust_points_def inr_simps)

lemma apply_adjustment_row:
  assumes "apply_adjustment u n r a k s = Inr (l, s')" and "points_inv s"
  shows "get_ledger (pl_id l) s' = Some l" and "point_transactions s' = point_transactions s"
proof -
  from assms(1) obtain event s1 where
    1: "record_engagement_event u ''points_adjusted'' ''admin_point_adjustment''
        (''admin_adjustment:'' @ u @ '':'' @ k) [(''amount'', JInt n), (''reason'', jopt r)] s = Inr (event, s1)"
    by (auto simp: apply_adjustment_def bindE_eq_Inr)
  let ?a = "\<lparr>pa_user_id = u, pa_source_event_id = ev_id event, pa_rule_key = ''admin_point_adjustment'',
    pa_amount = \<bar>n\<bar>, pa_metadata = [(''actorId'', JStr a)], pa_expires_at = None,
    pa_reversed_ledger_id = None\<rparr>"
  from assms(1) have 2: "(if n > 0 then grant_points ?a s1 else spend_points ?a s1) = Inr (l, s')"
    by (simp only: apply_adjustment_def 1 bindE_Inr prod.case Let_def)
  then have "find_args ?a s' = Some l"
    by (auto split: if_splits elim: grant_points_cases spend_points_cases)
  then have "l \<in> set (point_ledger s')"
    unfolding find_args_def find_ledger_def by (auto dest: find_SomeD)
  moreover have "unique_by pl_id (point_ledger s')"
    using apply_adjustment_keeps [OF assms] by (simp add: points_ok_def)
  ultimately show "get_ledger (pl_id l) s' = Some l"
    unfolding get_ledger_def by (intro find_unique [where key = pl_id]) auto
  from 1 2 show "point_transactions s' = point_transactions s"
    by (auto split: if_splits dest!: touch points_touch)
qed

lemma save_adjustment_found:
  assumes "save_adjustment u n r k i s = Inr s'"
    and "\<And>t. find_transaction u ''adjustment'' k s = Some t \<Longrightarrow> pt_amount t = n \<and> pt_resource_id t = Some u"
  shows "\<exists>t. find_transaction u ''adjustment'' k s' = Some t \<and> pt_amount t = n \<and>
    pt_resource_id t = Some u \<and> pt_ledger_id t = Some i"
proof (cases "find_transaction u ''adjustment'' k s")
  case None
  with assms(1) show ?thesis
    by (auto simp: save_adjustment_def add_transaction_def inr_simps find_transaction_def find_append)
next
  case (Some t)
  with assms have "find_transaction u ''adjustment'' k s' = Some (t\<lparr>pt_ledger_id := Some i\<rparr>)"
    by (auto simp: save_adjustment_def find_transaction_def find_update_where)
  with Some assms(2) show ?thesis by simp
qed

text \<open>An administrator adjustment is applied once per idempotency key: repeating the request that
  succeeded returns the same ledger row marked as a replay and changes nothing, and the same key
  with another amount is refused.\<close>

theorem adjust_points_replay:
  assumes "points_inv s" and "adjust_points u n r a k s = Inr ((l, False), s')" and "pl_id l \<noteq> []"
  shows "adjust_points u n r2 a2 k s' = Inr ((l, True), s') \<and>
    (m \<noteq> 0 \<and> m \<noteq> n \<longrightarrow> adjust_points u m r2 a2 k s' = Inl (AppError 409 ''IDEMPOTENCY_KEY_REUSED''))"
  using assms(2)
proof (cases rule: adjust_points_cases)
  case (Applied s1)
  note row = apply_adjustment_row [OF Applied(4) assms(1)]
  have "pt_amount t = n \<and> pt_resource_id t = Some u"
    if "find_transaction u ''adjustment'' k s1 = Some t" for t
    using that Applied(2) row(2) by (auto simp: adjusted_before_def find_transaction_def split: if_splits)
  from save_adjustment_found [OF Applied(5) this] obtain t where
    t: "find_transaction u ''adjustment'' k s' = Some t" "pt_amount t = n" "pt_resource_id t = Some u"
      "pt_ledger_id t = Some (pl_id l)" by blast
  have "get_ledger (pl_id l) s' = Some l"
    using row(1) save_adjustment_touch [OF Applied(5)] by (auto simp: get_ledger_def)
  with t assms(3) Applied(3) show ?thesis by (simp add: adjust_points_def adjusted_before_def)
qed simp

definition adjusted_ann :: "exn + (point_ledger_row \<times> bool) \<times> db" where
  "adjusted_ann = adjust_points ''ann'' (-120) (Some ''duplicate reward'') ''admin'' ''k'' wallet_db"

theorem adjust_points_replay_witness:
  "\<exists>l s'. adjusted_ann = Inr ((l, False), s') \<and> balance_of ''ann'' s' = 380 \<and>
    adjust_points ''ann'' (-120) None ''admin'' ''k'' s' = Inr ((l, True), s') \<and>
    adjust_points ''ann'' 5 None ''admin'' ''k'' s' = Inl (AppError 409 ''IDEMPOTENCY_KEY_REUSED'')"
proof -
  have "case adjusted_ann of Inl e \<Rightarrow> False | Inr ((l, b), s') \<Rightarrow>
      \<not> b \<and> pl_id l \<noteq> [] \<and> balance_of ''ann'' s' = 380"
    by code_simp
  then obtain l s' where 1: "adjusted_ann = Inr ((l, False), s')" "pl_id l \<noteq> []"
    "balance_of ''ann'' s' = 380"
    by (auto simp: case_Inr_iff)
  from adjust_points_replay [OF wallet_db_inv 1(1) [unfolded adjusted_ann_def] 1(2),
      where ?m = 5 and ?r2.0 = None and ?a2.0 = "''admin''"] 1
  show ?thesis by (intro exI [of _ l] exI [of _ s']) simp
qed
end
