(* ===== verification/Ownership.thy ===== *)
theory Ownership
  imports Engagement
begin

text \<open>
  Card ownership (\<open>backend/app/services.py\<close>): the hash-chained ownership ledger, its
  verification, and the grant of a card with its serial number. The invariant
  \<open>holdings_ok\<close> says that serial numbers of a card are exactly 1 to the number of copies.
\<close>

section \<open>The ownership ledger\<close>

text \<open>
  \<open>_ownership_hash_payload\<close> of a row. The record hash is not part of it; the instant is
  serialised injectively (\<open>isoformat\<close> of a UTC instant), here as the number itself.
\<close>

definition ownership_hash_payload :: "ownership_event \<Rightarrow> json" where
  "ownership_hash_payload e = JObj
    [(''action'', JStr (ol_action e)),
     (''cardId'', JStr (ol_card_id e)),
     (''createdAt'', JInt (ol_created_at e)),
     (''fromUserId'', jopt (ol_from_user_id e)),
     (''id'', JStr (ol_id e)),
     (''metadata'', JObj (case ol_metadata_json e of None \<Rightarrow> [] | Some m \<Rightarrow> m)),
     (''previousHash'', jopt (ol_previous_hash e)),
     (''sourceId'', JStr (ol_source_id e)),
     (''sourceType'', JStr (ol_source_type e)),
     (''toUserId'', jopt (ol_to_user_id e)),
     (''userCardId'', JStr (ol_user_card_id e)),
     (''userId'', JStr (ol_user_id e))]"

definition event_order :: "ownership_event \<Rightarrow> time \<times> ident" where
  "event_order e = (ol_created_at e, ol_id e)"

text \<open>
  The hash of the newest event of a fan: ordered by instant, then by identifier. The database
  and Python are assumed to compare identifiers alike (code-point order).
\<close>

definition latest_hash :: "ident \<Rightarrow> ownership_event list \<Rightarrow> string option" where
  "latest_hash u es =
    (let own = sort_key event_order (filter (\<lambda>e. ol_user_id e = u) es)
     in if own = [] then None else ol_record_hash (last own))"

definition clash_ownership :: "ownership_event \<Rightarrow> ownership_event \<Rightarrow> bool" where
  "clash_ownership e x \<longleftrightarrow> ol_id x = ol_id e \<or>
    (ol_user_id x = ol_user_id e \<and> ol_action x = ol_action e \<and>
     ol_source_type x = ol_source_type e \<and> ol_source_id x = ol_source_id e)"

record ownership_args =
  ow_user_card_id :: ident
  ow_user_id :: ident
  ow_card_id :: ident
  ow_action :: string
  ow_source_type :: string
  ow_source_id :: string
  ow_from_user_id :: "ident option"
  ow_to_user_id :: "ident option"
  ow_metadata :: jobj
  ow_created_at :: "time option"

definition hashed :: "(json \<Rightarrow> string) \<Rightarrow> ownership_event \<Rightarrow> ownership_event" where
  "hashed sha e = e\<lparr>ol_record_hash := Some (sha (ownership_hash_payload e))\<rparr>"

definition new_ownership_event :: "ownership_args \<Rightarrow> db \<Rightarrow> ownership_event" where
  "new_ownership_event a s = hashed (sha256 s)
    \<lparr>ol_id = new_id ''ledger_'' s, ol_user_card_id = ow_user_card_id a, ol_user_id = ow_user_id a,
     ol_card_id = ow_card_id a, ol_action = ow_action a, ol_source_type = ow_source_type a,
     ol_source_id = ow_source_id a, ol_from_user_id = ow_from_user_id a,
     ol_to_user_id = ow_to_user_id a, ol_metadata_json = Some (ow_metadata a),
     ol_previous_hash = latest_hash (ow_user_id a) (ownership_ledger s), ol_record_hash = None,
     ol_created_at = (case ow_created_at a of None \<Rightarrow> now s | Some t \<Rightarrow> t)\<rparr>"

definition append_ownership_ledger :: "ownership_args \<Rightarrow> db \<Rightarrow> exn + ownership_event \<times> db" where
  "append_ownership_ledger a s =
    (let e = new_ownership_event a s
     in bindE (insert_row clash_ownership e (ownership_ledger s))
          (\<lambda>rows. Inr (e, (draw s)\<lparr>ownership_ledger := rows\<rparr>)))"

section \<open>Verification of the chain\<close>

record chain_report =
  cr_valid :: bool
  cr_verified :: nat
  cr_legacy :: nat
  cr_violations :: "string list"

text \<open>The loop, with \<open>previous_hash\<close> and the counters as its state.\<close>

definition verify_event ::
  "(json \<Rightarrow> string) \<Rightarrow> ownership_event \<Rightarrow> string option \<times> nat \<times> nat \<times> string list
    \<Rightarrow> string option \<times> nat \<times> nat \<times> string list" where
  "verify_event sha e st = (case st of (previous, verified, legacy, violations) \<Rightarrow>
    if \<not> present (ol_record_hash e) then (None, verified, Suc legacy, violations)
    else
      (ol_record_hash e, Suc verified, legacy,
       violations
       @ (if ol_previous_hash e \<noteq> previous then [ol_id e @ '':previous_hash''] else [])
       @ (if ol_record_hash e \<noteq> Some (sha (ownership_hash_payload e))
          then [ol_id e @ '':record_hash''] else [])))"

definition verify_ownership_chain ::
  "(json \<Rightarrow> string) \<Rightarrow> ownership_event list \<Rightarrow> chain_report" where
  "verify_ownership_chain sha es =
    (case fold (verify_event sha) (sort_key event_order es) (None, 0, 0, []) of
       (_, verified, legacy, violations) \<Rightarrow>
         \<lparr>cr_valid = (violations = []), cr_verified = verified, cr_legacy = legacy,
          cr_violations = violations\<rparr>)"

section \<open>Granting a card\<close>

definition get_card :: "ident \<Rightarrow> db \<Rightarrow> card_row option" where
  "get_card i s = find (\<lambda>c. c_id c = i) (cards s)"

definition get_user_card :: "ident \<Rightarrow> db \<Rightarrow> user_card option" where
  "get_user_card i s = find (\<lambda>c. uc_id c = i) (user_cards s)"

text \<open>
  Primary key, \<open>uq_user_cards_card_serial\<close> and \<open>uq_user_cards_user_redeem_code\<close>
  (null codes never clash).
\<close>

definition clash_user_card :: "user_card \<Rightarrow> user_card \<Rightarrow> bool" where
  "clash_user_card c x \<longleftrightarrow> uc_id x = uc_id c \<or>
    (uc_card_id x = uc_card_id c \<and> uc_serial_number x = uc_serial_number c) \<or>
    (uc_redeem_code_id c \<noteq> None \<and> uc_user_id x = uc_user_id c \<and>
     uc_redeem_code_id x = uc_redeem_code_id c)"

definition blocked_between :: "ident \<Rightarrow> ident \<Rightarrow> db \<Rightarrow> bool" where
  "blocked_between a b s \<longleftrightarrow>
    list_ex (\<lambda>k. (ub_blocker_id k = a \<and> ub_blocked_id k = b) \<or>
      (ub_blocker_id k = b \<and> ub_blocked_id k = a)) (user_blocks s)"

definition notify_followers_of_card :: "user_card \<Rightarrow> db \<Rightarrow> exn + db" where
  "notify_followers_of_card uc s =
    (if (case find (\<lambda>v. cv_user_id v = uc_user_id uc) (card_visibilities s) of
           None \<Rightarrow> False | Some v \<Rightarrow> \<not> cv_public_enabled v) then Inr s
     else if get_user (uc_user_id uc) s = None \<or> get_card (uc_card_id uc) s = None then Inr s
     else
       foldE (\<lambda>f s.
           if blocked_between f (uc_user_id uc) s then Inr s
           else notify_user_once f ''following_card_collected'' ''fan'' (uc_user_id uc)
             (''following-card:'' @ uc_user_id uc @ '':'' @ uc_id uc @ '':'' @ f) s)
         (map fo_follower_id (filter (\<lambda>f. fo_following_id f = uc_user_id uc) (follows s))) s)"

record card_grant_args =
  cg_user_id :: ident
  cg_card_id :: ident
  cg_source_type :: string
  cg_source_id :: string
  cg_acquisition_source :: string
  cg_metadata :: jobj
  cg_redeem_code_id :: "ident option"
  cg_drop_id :: "ident option"

text \<open>The card that the ownership ledger already records for this source.\<close>

definition granted_before :: "card_grant_args \<Rightarrow> db \<Rightarrow> user_card option" where
  "granted_before a s =
    (case find (\<lambda>e. ol_user_id e = cg_user_id a \<and> ol_action e = ''grant'' \<and>
            ol_source_type e = cg_source_type a \<and> ol_source_id e = cg_source_id a)
          (ownership_ledger s) of
       None \<Rightarrow> None
     | Some e \<Rightarrow> if ol_user_card_id e = [] then None else get_user_card (ol_user_card_id e) s)"

definition copies :: "ident \<Rightarrow> user_card list \<Rightarrow> nat" where
  "copies c xs = count_where (\<lambda>x. uc_card_id x = c) xs"

definition new_user_card :: "card_grant_args \<Rightarrow> db \<Rightarrow> user_card" where
  "new_user_card a s =
    \<lparr>uc_id = new_id ''uc_'' s, uc_user_id = cg_user_id a, uc_card_id = cg_card_id a,
     uc_redeem_code_id = cg_redeem_code_id a, uc_drop_id = cg_drop_id a,
     uc_serial_number = int (copies (cg_card_id a) (user_cards s)) + 1,
     uc_acquisition_source = cg_acquisition_source a, uc_acquired_at = now s,
     uc_expires_at = None, uc_trade_locked_at = None\<rparr>"

definition grant_event_args :: "card_grant_args \<Rightarrow> ident \<Rightarrow> ownership_args" where
  "grant_event_args a uc =
    \<lparr>ow_user_card_id = uc, ow_user_id = cg_user_id a, ow_card_id = cg_card_id a,
     ow_action = ''grant'', ow_source_type = cg_source_type a, ow_source_id = cg_source_id a,
     ow_from_user_id = None, ow_to_user_id = Some (cg_user_id a), ow_metadata = cg_metadata a,
     ow_created_at = None\<rparr>"

definition grant_user_card :: "card_grant_args \<Rightarrow> db \<Rightarrow> exn + user_card \<times> db" where
  "grant_user_card a s =
    (case granted_before a s of
       Some existing \<Rightarrow> Inr (existing, s)
     | None \<Rightarrow>
    (case get_card (cg_card_id a) s of
       None \<Rightarrow> Inl (AppError 409 ''CARD_NOT_PUBLISHED'')
     | Some crd \<Rightarrow>
       if c_status crd \<noteq> ''published'' then Inl (AppError 409 ''CARD_NOT_PUBLISHED'')
       else
         let uc = new_user_card a s
         in bindE (insert_row clash_user_card uc (user_cards s)) (\<lambda>rows.
            bindE (append_ownership_ledger (grant_event_args a (uc_id uc))
                ((draw s)\<lparr>user_cards := rows\<rparr>)) (\<lambda>(_, s1).
            bindE (notify_followers_of_card uc s1) (\<lambda>s2. Inr (uc, s2))))))"

section \<open>Lemmas on the chain\<close>

text \<open>
  \<open>linked sha prev es\<close>: every event carries its own hash and the hash of its predecessor.
\<close>

fun linked :: "(json \<Rightarrow> string) \<Rightarrow> string option \<Rightarrow> ownership_event list \<Rightarrow> bool" where
  "linked sha prev [] = True"
| "linked sha prev (e # es) =
    (if present (ol_record_hash e)
     then ol_previous_hash e = prev \<and> ol_record_hash e = Some (sha (ownership_hash_payload e)) \<and>
       linked sha (ol_record_hash e) es
     else linked sha None es)"

definition end_hash :: "string option \<Rightarrow> ownership_event list \<Rightarrow> string option" where
  "end_hash prev es = (if es = [] then prev
     else if present (ol_record_hash (last es)) then ol_record_hash (last es) else None)"

lemma end_hash_simps [simp]:
  "end_hash prev [] = prev"
  "end_hash prev (e # es) = end_hash (if present (ol_record_hash e) then ol_record_hash e else None) es"
  by (auto simp: end_hash_def)

lemma verify_events:
  "\<exists>w. fold (verify_event sha) es (prev, v, l, viol) =
     (end_hash prev es, v + count_where (\<lambda>e. present (ol_record_hash e)) es,
      l + count_where (\<lambda>e. \<not> present (ol_record_hash e)) es, viol @ w) \<and>
     (w = [] \<longleftrightarrow> linked sha prev es)"
proof (induction es arbitrary: prev v l viol)
  case (Cons e es)
  show ?case
  proof (cases "present (ol_record_hash e)")
    case True
    let ?w = "(if ol_previous_hash e \<noteq> prev then [ol_id e @ '':previous_hash''] else [])
       @ (if ol_record_hash e \<noteq> Some (sha (ownership_hash_payload e))
          then [ol_id e @ '':record_hash''] else [])"
    have "verify_event sha e (prev, v, l, viol) = (ol_record_hash e, Suc v, l, viol @ ?w)"
      using True by (simp add: verify_event_def)
    moreover obtain w where "fold (verify_event sha) es (ol_record_hash e, Suc v, l, viol @ ?w) =
      (end_hash (ol_record_hash e) es, Suc v + count_where (\<lambda>e. present (ol_record_hash e)) es,
       l + count_where (\<lambda>e. \<not> present (ol_record_hash e)) es, (viol @ ?w) @ w)"
      "w = [] \<longleftrightarrow> linked sha (ol_record_hash e) es"
      using Cons.IH by blast
    ultimately show ?thesis
      using True by (intro exI [of _ "?w @ w"]) (simp add: table_simps)
  next
    case False
    then have "verify_event sha e (prev, v, l, viol) = (None, v, Suc l, viol)"
      by (simp add: verify_event_def)
    moreover obtain w where "fold (verify_event sha) es (None, v, Suc l, viol) =
      (end_hash None es, v + count_where (\<lambda>e. present (ol_record_hash e)) es,
       Suc l + count_where (\<lambda>e. \<not> present (ol_record_hash e)) es, viol @ w)"
      "w = [] \<longleftrightarrow> linked sha None es"
      using Cons.IH by blast
    ultimately show ?thesis
      using False by (intro exI [of _ w]) (simp add: table_simps)
  qed
qed (simp add: table_simps)

lemma chain_report:
  "cr_valid (verify_ownership_chain sha es) \<longleftrightarrow> linked sha None (sort_key event_order es)"
  "cr_verified (verify_ownership_chain sha es) =
    count_where (\<lambda>e. present (ol_record_hash e)) (sort_key event_order es)"
proof -
  obtain w where "fold (verify_event sha) (sort_key event_order es) (None, 0, 0, []) =
     (end_hash None (sort_key event_order es),
      0 + count_where (\<lambda>e. present (ol_record_hash e)) (sort_key event_order es),
      0 + count_where (\<lambda>e. \<not> present (ol_record_hash e)) (sort_key event_order es), [] @ w)"
    "w = [] \<longleftrightarrow> linked sha None (sort_key event_order es)"
    using verify_events by blast
  then show "cr_valid (verify_ownership_chain sha es) \<longleftrightarrow> linked sha None (sort_key event_order es)"
    "cr_verified (verify_ownership_chain sha es) =
      count_where (\<lambda>e. present (ol_record_hash e)) (sort_key event_order es)"
    by (simp_all add: verify_ownership_chain_def)
qed

lemma linked_append: "linked sha prev (es @ fs) \<longleftrightarrow> linked sha prev es \<and> linked sha (end_hash prev es) fs"
  by (induction es arbitrary: prev) auto

text \<open>An event later than all others of the list is sorted to the end.\<close>

lemma insort_key_snoc: "f x \<le> f y \<Longrightarrow> insort_key f x (zs @ [y]) = insort_key f x zs @ [y]"
  by (induction zs) auto

lemma sort_key_snoc_last:
  "(\<And>x. x \<in> set xs \<Longrightarrow> f x \<le> f y) \<Longrightarrow> sort_key f (xs @ [y]) = sort_key f xs @ [y]"
  by (induction xs) (auto simp: insort_key_snoc)

definition events_of :: "ident \<Rightarrow> ownership_event list \<Rightarrow> ownership_event list" where
  "events_of u es = filter (\<lambda>e. ol_user_id e = u) es"

lemma latest_hash_end:
  assumes "\<And>e. e \<in> set es \<Longrightarrow> ol_record_hash e \<noteq> Some []"
  shows "latest_hash u es = end_hash None (sort_key event_order (events_of u es))"
proof (cases "events_of u es = []")
  case False
  define own where "own = sort_key event_order (events_of u es)"
  have "own \<noteq> []" using False by (metis own_def length_0_conv length_sort)
  then have "last own \<in> set own" by simp
  then have "last own \<in> set es" by (simp add: own_def events_of_def)
  from assms [OF this] have "present (ol_record_hash (last own)) \<or> ol_record_hash (last own) = None"
    by (cases "ol_record_hash (last own)") auto
  with \<open>own \<noteq> []\<close> show ?thesis
    by (auto simp: latest_hash_def end_hash_def Let_def simp flip: own_def events_of_def)
qed (simp add: latest_hash_def end_hash_def Let_def flip: events_of_def)

lemma payload_hashed [simp]: "ownership_hash_payload (hashed sha e) = ownership_hash_payload e"
  by (simp add: ownership_hash_payload_def hashed_def)

lemma new_ownership_event_simps [simp]:
  "ol_user_id (new_ownership_event a s) = ow_user_id a"
  "ol_previous_hash (new_ownership_event a s) = latest_hash (ow_user_id a) (ownership_ledger s)"
  "ol_record_hash (new_ownership_event a s) =
    Some (sha256 s (ownership_hash_payload (new_ownership_event a s)))"
  "ol_user_card_id (new_ownership_event a s) = ow_user_card_id a"
  "ol_action (new_ownership_event a s) = ow_action a"
  "ol_source_type (new_ownership_event a s) = ow_source_type a"
  "ol_source_id (new_ownership_event a s) = ow_source_id a"
  by (simp_all add: new_ownership_event_def payload_hashed) (simp_all add: hashed_def)

lemma append_ownership_ledger_eq:
  "append_ownership_ledger a s = Inr (e, s') \<longleftrightarrow>
    e = new_ownership_event a s \<and> \<not> list_ex (clash_ownership e) (ownership_ledger s) \<and>
    s' = (draw s)\<lparr>ownership_ledger := ownership_ledger s @ [e]\<rparr>"
  by (auto simp: append_ownership_ledger_def inr_simps Let_def)

lemma append_ownership_ledger_touch [touch]:
  assumes "append_ownership_ledger a s = Inr (e, s')"
  shows "\<exists>es n. s' = s\<lparr>ownership_ledger := es, drawn := n\<rparr>"
proof -
  from assms have "s' = s\<lparr>ownership_ledger := ownership_ledger s', drawn := drawn s'\<rparr>"
    by (auto simp: append_ownership_ledger_eq draw_def)
  then show ?thesis by blast
qed

text \<open>Two linked chains without legacy rows that end in the same hash are the same history.\<close>

lemma linked_end_inj:
  assumes "inj_on sha (ownership_hash_payload ` set (es @ fs))"
    and "linked sha None es" and "linked sha None fs"
    and "\<And>e. e \<in> set es \<union> set fs \<Longrightarrow> present (ol_record_hash e)"
    and "end_hash None es = end_hash None fs"
  shows "map ownership_hash_payload es = map ownership_hash_payload fs"
  using assms
proof (induction es arbitrary: fs rule: rev_induct)
  case Nil
  from Nil.prems(4) [of "last fs"] Nil.prems(5) show ?case
    by (cases "fs = []") (auto simp: end_hash_def present_def split: option.splits)
next
  case (snoc e es)
  then obtain f gs where fs: "fs = gs @ [f]"
    using snoc.prems(4) [of e]
    by (cases fs rule: rev_cases) (auto simp: end_hash_def present_def split: option.splits)
  from snoc.prems fs have h: "ol_record_hash e = ol_record_hash f"
    "present (ol_record_hash e)" "present (ol_record_hash f)"
    by (auto simp: end_hash_def)
  from snoc.prems(2,3) h have "sha (ownership_hash_payload e) = sha (ownership_hash_payload f)"
    by (simp add: linked_append fs)
  with snoc.prems(1) have p: "ownership_hash_payload e = ownership_hash_payload f"
    by (rule inj_onD) (simp_all add: fs)
  then have "jopt (ol_previous_hash e) = jopt (ol_previous_hash f)"
    by (simp add: ownership_hash_payload_def)
  then have "ol_previous_hash e = ol_previous_hash f"
    by (simp add: jopt_def split: option.splits)
  with snoc.prems(2,3) h have "end_hash None es = end_hash None gs"
    by (simp add: linked_append fs)
  moreover have "linked sha None es" "linked sha None gs"
    using snoc.prems(2,3) by (simp_all add: linked_append fs)
  ultimately have "map ownership_hash_payload es = map ownership_hash_payload gs"
    using snoc.prems(1,4) by (intro snoc.IH) (auto simp: fs elim!: inj_on_subset)
  with p show ?case by (simp add: fs)
qed

section \<open>Lemmas on holdings\<close>

text \<open>What of a copy never changes: its identifier, its card and its serial number.\<close>

definition slot :: "user_card \<Rightarrow> ident \<times> ident \<times> int" where
  "slot x = (uc_id x, uc_card_id x, uc_serial_number x)"

definition slots_ok :: "(ident \<times> ident \<times> int) list \<Rightarrow> bool" where
  "slots_ok ss \<longleftrightarrow> distinct (map fst ss) \<and> distinct (map snd ss) \<and>
    (\<forall>c. {n. (c, n) \<in> snd ` set ss} = {1..int (count_where (\<lambda>x. fst (snd x) = c) ss)})"

definition holdings_ok :: "user_card list \<Rightarrow> bool" where
  "holdings_ok xs \<longleftrightarrow> slots_ok (map slot xs)"

lemma holdings_ok_update:
  "(\<And>r. P r \<Longrightarrow> slot (f r) = slot r) \<Longrightarrow> holdings_ok (update_where P f xs) = holdings_ok xs"
  by (simp add: holdings_ok_def map_update_where)

lemma copies_slots: "copies c xs = count_where (\<lambda>x. fst (snd x) = c) (map slot xs)"
  by (induction xs) (simp_all add: copies_def table_simps slot_def)

lemma slots_ok_snoc:
  assumes "slots_ok ss" and "i \<notin> fst ` set ss"
    and "n = int (count_where (\<lambda>x. fst (snd x) = c) ss) + 1"
  shows "slots_ok (ss @ [(i, c, n)])"
proof -
  have old: "{m. (d, m) \<in> snd ` set ss} = {1..int (count_where (\<lambda>x. fst (snd x) = d) ss)}" for d
    using assms(1) by (simp add: slots_ok_def)
  have "(c, n) \<notin> snd ` set ss"
  proof
    assume "(c, n) \<in> snd ` set ss"
    then have "n \<in> {m. (c, m) \<in> snd ` set ss}" by simp
    then show False unfolding old by (simp add: assms(3))
  qed
  moreover have "{m. (d, m) \<in> snd ` set (ss @ [(i, c, n)])} =
      {1..int (count_where (\<lambda>x. fst (snd x) = d) (ss @ [(i, c, n)]))}" for d
  proof -
    have "{m. (d, m) \<in> snd ` set (ss @ [(i, c, n)])} =
        {m. (d, m) \<in> snd ` set ss} \<union> (if d = c then {n} else {})" by auto
    then show ?thesis unfolding old by (auto simp: table_simps assms(3))
  qed
  ultimately show ?thesis using assms(1,2) by (simp add: slots_ok_def)
qed

lemma holdings_ok_insert:
  assumes "holdings_ok xs" and "uc_id x \<notin> uc_id ` set xs"
    and "uc_serial_number x = int (copies (uc_card_id x) xs) + 1"
  shows "holdings_ok (xs @ [x])"
  using assms slots_ok_snoc [of "map slot xs" "uc_id x" "uc_serial_number x" "uc_card_id x"]
  by (simp add: holdings_ok_def copies_slots slot_def [of x] image_image) (simp add: slot_def)

lemma holdings_ok_Nil [simp]: "holdings_ok []"
  by (simp add: holdings_ok_def slots_ok_def count_where_def)

text \<open>What a successful grant does.\<close>

lemma notify_followers_notifies: "notify_followers_of_card uc s = Inr s' \<Longrightarrow> only_notifies s s'"
  by (auto simp: notify_followers_of_card_def inr_simps
      elim!: foldE_invariant [where P = "only_notifies s"]
      intro: only_notifies_trans dest!: notify_user_once_notifies)

lemmas notify_followers_touch [touch] = notify_followers_notifies [unfolded only_notifies_def]

lemma grant_user_card_cases:
  assumes "grant_user_card a s = Inr (uc, s')"
  obtains (Old) "granted_before a s = Some uc" "s' = s"
  | (New) c s1 e where "granted_before a s = None" "get_card (cg_card_id a) s = Some c"
      "c_status c = ''published''" "uc = new_user_card a s"
      "\<not> list_ex (clash_user_card uc) (user_cards s)"
      "append_ownership_ledger (grant_event_args a (uc_id uc))
        ((draw s)\<lparr>user_cards := user_cards s @ [uc]\<rparr>) = Inr (e, s1)"
      "only_notifies s1 s'"
  using assms notify_followers_notifies by (auto simp: grant_user_card_def inr_simps Let_def)

lemma grant_user_card_ledger:
  assumes "append_ownership_ledger (grant_event_args a i) t = Inr (e, s1)" and "only_notifies s1 s'"
  shows "user_cards s' = user_cards t" and "ownership_ledger s' = ownership_ledger t @ [e]"
    and "ol_user_card_id e = i"
  using assms by (auto simp: append_ownership_ledger_eq only_notifies_def grant_event_args_def)

lemma grant_user_card_touch [touch]:
  assumes "grant_user_card a s = Inr (uc, s')"
  shows "\<exists>cs es ns ds n. s' = s\<lparr>user_cards := cs, ownership_ledger := es, notifications := ns,
    notification_deliveries := ds, drawn := n\<rparr>"
proof -
  from assms have "s' = s\<lparr>user_cards := user_cards s', ownership_ledger := ownership_ledger s',
      notifications := notifications s', notification_deliveries := notification_deliveries s',
      drawn := drawn s'\<rparr>"
    by (cases rule: grant_user_card_cases)
      (auto simp: draw_def only_notifies_def append_ownership_ledger_eq)
  then show ?thesis by blast
qed

lemma grant_user_card_holdings:
  assumes "grant_user_card a s = Inr (uc, s')" and "holdings_ok (user_cards s)"
  shows "holdings_ok (user_cards s')"
  using assms(1)
proof (cases rule: grant_user_card_cases)
  case (New c s1 e)
  from New(5) have "uc_id uc \<notin> uc_id ` set (user_cards s)"
    by (auto simp: list_ex_iff clash_user_card_def)
  with assms(2) New(4) show ?thesis
    unfolding grant_user_card_ledger(1) [OF New(6,7)] by (simp add: holdings_ok_insert new_user_card_def)
qed (use assms(2) in simp)

text \<open>A grant is found again under its source: the ledger event names the copy.\<close>

lemma grant_user_card_found:
  assumes "grant_user_card a s = Inr (uc, s')"
    and "\<not> list_ex (\<lambda>e. ol_user_id e = cg_user_id a \<and> ol_action e = ''grant'' \<and>
      ol_source_type e = cg_source_type a \<and> ol_source_id e = cg_source_id a) (ownership_ledger s)"
  shows "granted_before a s' = Some uc"
  using assms(1)
proof (cases rule: grant_user_card_cases)
  case Old
  with assms(2) show ?thesis by (auto simp: granted_before_def list_ex_iff dest!: find_SomeD split: option.splits)
next
  case (New c s1 e)
  note l = grant_user_card_ledger [OF New(6,7)]
  have e: "ol_user_id e = cg_user_id a \<and> ol_action e = ''grant'' \<and>
      ol_source_type e = cg_source_type a \<and> ol_source_id e = cg_source_id a"
    using New(6) by (auto simp: append_ownership_ledger_eq grant_event_args_def)
  have "find (\<lambda>e. ol_user_id e = cg_user_id a \<and> ol_action e = ''grant'' \<and>
      ol_source_type e = cg_source_type a \<and> ol_source_id e = cg_source_id a) (ownership_ledger s') = Some e"
    unfolding l(2) using assms(2) e by (intro find_snoc_new) (auto simp: find_None_iff list_ex_iff)
  moreover have "find (\<lambda>c. uc_id c = uc_id uc) (user_cards s') = Some uc"
    unfolding l(1) using New(5)
    by (simp, intro find_snoc_new) (auto simp: find_None_iff list_ex_iff clash_user_card_def)
  moreover have "uc_id uc \<noteq> []" by (simp add: New(4) new_user_card_def new_id_def)
  ultimately show ?thesis by (simp add: granted_before_def get_user_card_def l(3))
qed

section \<open>Properties\<close>

text \<open>C2. Appending keeps a fan's chain valid, as long as the new event sorts after the fan's earlier
  ones (a strictly later instant is enough): when verification reports the fan's events valid,
  it still does after the append, it counts one more verified event, and the events of every
  other fan are untouched.\<close>

theorem append_extends_valid_chain:
  assumes "append_ownership_ledger a s = Inr (e, s')"
    and "cr_valid (verify_ownership_chain (sha256 s) (events_of (ow_user_id a) (ownership_ledger s)))"
    and "\<And>x. x \<in> set (events_of (ow_user_id a) (ownership_ledger s)) \<Longrightarrow> event_order x \<le> event_order e"
    and "\<And>x. x \<in> set (ownership_ledger s) \<Longrightarrow> ol_record_hash x \<noteq> Some []" and "\<And>j. sha256 s j \<noteq> []"
  shows "cr_valid (verify_ownership_chain (sha256 s) (events_of (ow_user_id a) (ownership_ledger s'))) \<and>
    cr_verified (verify_ownership_chain (sha256 s) (events_of (ow_user_id a) (ownership_ledger s'))) =
      Suc (cr_verified (verify_ownership_chain (sha256 s) (events_of (ow_user_id a) (ownership_ledger s)))) \<and>
    (\<forall>v. v \<noteq> ow_user_id a \<longrightarrow> events_of v (ownership_ledger s') = events_of v (ownership_ledger s))"
proof -
  from assms(1) have e: "e = new_ownership_event a s"
    and s': "ownership_ledger s' = ownership_ledger s @ [e]"
    by (simp_all add: append_ownership_ledger_eq)
  let ?es = "events_of (ow_user_id a) (ownership_ledger s)"
  have own: "events_of (ow_user_id a) (ownership_ledger s') = ?es @ [e]"
    by (simp add: events_of_def s' e)
  have sorted: "sort_key event_order (?es @ [e]) = sort_key event_order ?es @ [e]"
    using assms(3) by (rule sort_key_snoc_last)
  have "ol_previous_hash e = end_hash None (sort_key event_order ?es)"
    using assms(4) by (simp add: e latest_hash_end)
  moreover have "ol_record_hash e = Some (sha256 s (ownership_hash_payload e))" by (simp add: e)
  moreover have "present (ol_record_hash e)" using assms(5) by (simp add: e)
  ultimately show ?thesis
    using assms(2) unfolding own chain_report sorted
    by (auto simp: linked_append table_simps s' events_of_def e)
qed

definition own_args :: "ident \<Rightarrow> string \<Rightarrow> time \<Rightarrow> ownership_args" where
  "own_args uc src t =
    \<lparr>ow_user_card_id = uc, ow_user_id = ''ann'', ow_card_id = ''c1'', ow_action = ''grant'',
     ow_source_type = ''drop'', ow_source_id = src, ow_from_user_id = None,
     ow_to_user_id = Some ''ann'', ow_metadata = [], ow_created_at = Some t\<rparr>"

definition own_db :: db where
  "own_db = snd (projr (append_ownership_ledger (own_args ''uc1'' ''s1'' 5) empty_db))"

lemma own_args_user [simp]: "ow_user_id (own_args uc src t) = ''ann''"
  by (simp add: own_args_def)

lemma own_db_ledger: "ownership_ledger own_db = [new_ownership_event (own_args ''uc1'' ''s1'' 5) empty_db]"
  by (simp add: own_db_def append_ownership_ledger_def insert_row_def empty_db_def Let_def)

lemma own_db_sha [simp]: "sha256 own_db = (\<lambda>_. ''digest'')" "sha256 empty_db = (\<lambda>_. ''digest'')"
  by (simp_all add: own_db_def append_ownership_ledger_def insert_row_def empty_db_def Let_def)

theorem append_extends_valid_chain_witness:
  "cr_valid (verify_ownership_chain (\<lambda>_. ''digest'')
     (events_of ''ann'' (ownership_ledger
       (snd (projr (append_ownership_ledger (own_args ''uc2'' ''s2'' 6) own_db))))))"
proof -
  have "\<not> isl (append_ownership_ledger (own_args ''uc2'' ''s2'' 6) own_db)"
    and v: "cr_valid (verify_ownership_chain (\<lambda>_. ''digest'') (events_of ''ann'' (ownership_ledger own_db)))"
    by code_simp+
  then obtain e s' where r: "append_ownership_ledger (own_args ''uc2'' ''s2'' 6) own_db = Inr (e, s')"
    by (cases "append_ownership_ledger (own_args ''uc2'' ''s2'' 6) own_db") auto
  then have "ol_created_at e = 6"
    by (simp add: append_ownership_ledger_eq new_ownership_event_def hashed_def own_args_def)
  then have "event_order x \<le> event_order e" if "x \<in> set (ownership_ledger own_db)" for x
    using that by (simp add: own_db_ledger new_ownership_event_def hashed_def event_order_def own_args_def)
  then have "cr_valid (verify_ownership_chain (sha256 own_db)
      (events_of (ow_user_id (own_args ''uc2'' ''s2'' 6)) (ownership_ledger s')))"
    using v by (intro append_extends_valid_chain [OF r, THEN conjunct1])
      (auto simp: own_db_ledger events_of_def)
  then show ?thesis by (simp add: r)
qed

text \<open>C16. The newest record hash commits to the whole history: two fan histories without legacy rows
  that both verify and end in the same record hash are equal in every hashed field, in order, so
  a tampered history that still verifies must end in a different hash (for a collision-free
  hash).\<close>

theorem chain_commits_to_history:
  assumes "inj_on sha (ownership_hash_payload ` set (es @ fs))"
    and "cr_valid (verify_ownership_chain sha es)" and "cr_valid (verify_ownership_chain sha fs)"
    and "list_all (\<lambda>e. present (ol_record_hash e)) (es @ fs)"
    and "latest_hash u es = latest_hash u fs"
    and "events_of u es = es" and "events_of u fs = fs"
  shows "map ownership_hash_payload (sort_key event_order es) =
    map ownership_hash_payload (sort_key event_order fs)"
proof (rule linked_end_inj [where sha = sha])
  have ne: "ol_record_hash e \<noteq> Some []" if "e \<in> set es \<union> set fs" for e
    using assms(4) that unfolding list_all_iff by (metis present_Some set_append)
  show "end_hash None (sort_key event_order es) = end_hash None (sort_key event_order fs)"
    using latest_hash_end [of es u] latest_hash_end [of fs u] assms(5-7) ne by auto
qed (use assms(1-4) in \<open>auto simp: chain_report list_all_iff\<close>)

text \<open>A toy hash for the instance: the identifier of the event.\<close>

definition id_hash :: "json \<Rightarrow> string" where
  "id_hash j = (case j of JObj d \<Rightarrow> (case jget d ''id'' of JStr i \<Rightarrow> i | _ \<Rightarrow> ''?'') | _ \<Rightarrow> ''?'')"

definition id_db :: db where
  "id_db = (let s = empty_db\<lparr>sha256 := id_hash, entropy := (\<lambda>n. replicate n CHR ''a'')\<rparr>
    in snd (projr (bindE (append_ownership_ledger (own_args ''uc1'' ''s1'' 5) s)
      (\<lambda>(_, s1). append_ownership_ledger (own_args ''uc2'' ''s2'' 6) s1))))"

theorem chain_commits_to_history_witness:
  "map ownership_hash_payload (sort_key event_order (ownership_ledger id_db)) =
   map ownership_hash_payload (sort_key event_order
     (map (\<lambda>e. e\<lparr>ol_metadata_json := None\<rparr>) (ownership_ledger id_db)))"
proof (rule chain_commits_to_history [where u = "''ann''" and sha = id_hash])
  show "inj_on id_hash (ownership_hash_payload ` set (ownership_ledger id_db @
      map (\<lambda>e. e\<lparr>ol_metadata_json := None\<rparr>) (ownership_ledger id_db)))"
  proof -
    have "ownership_hash_payload (e\<lparr>ol_metadata_json := None\<rparr>) = ownership_hash_payload e"
      if "e \<in> set (ownership_ledger id_db)" for e
    proof -
      have "list_all (\<lambda>e. ol_metadata_json e = Some []) (ownership_ledger id_db)" by code_simp
      with that show ?thesis by (simp add: list_all_iff ownership_hash_payload_def)
    qed
    moreover have "inj_on (\<lambda>e. id_hash (ownership_hash_payload e)) (set (ownership_ledger id_db))"
      by (rule distinct_map [THEN iffD1, THEN conjunct2]) code_simp
    ultimately show ?thesis
      by (fastforce simp: inj_on_def)
  qed
qed (code_simp+)

text \<open>Two events of one fan written at the same instant break the chain of an honest history
  whenever the second random identifier sorts before the first: the writer links them in the order
  of writing, the verifier reads them in the order of their identifiers.\<close>

theorem same_instant_flagged:
  assumes "append_ownership_ledger a s = Inr (e1, s1)" and "append_ownership_ledger b s1 = Inr (e2, s2)"
    and "ow_user_id b = ow_user_id a" and "events_of (ow_user_id a) (ownership_ledger s) = []"
    and "ol_created_at e2 = ol_created_at e1" and "ol_id e2 < ol_id e1"
    and "\<And>j. sha256 s1 j \<noteq> []"
  shows "\<not> cr_valid (verify_ownership_chain sha (events_of (ow_user_id a) (ownership_ledger s2)))"
proof -
  from assms(1,2) have e: "e1 = new_ownership_event a s" "e2 = new_ownership_event b s1"
    and led: "ownership_ledger s2 = (ownership_ledger s @ [e1]) @ [e2]"
    and s1: "ownership_ledger s1 = ownership_ledger s @ [e1]"
    by (simp_all add: append_ownership_ledger_eq)
  have own: "events_of (ow_user_id a) (ownership_ledger s2) = [e1, e2]"
    using assms(3,4) e unfolding led by (simp add: events_of_def)
  have "filter (\<lambda>e. ol_user_id e = ow_user_id a) (ownership_ledger s1) = [e1]"
    using assms(4) unfolding s1 by (simp add: events_of_def) (simp add: e(1))
  then have "latest_hash (ow_user_id a) (ownership_ledger s1) = ol_record_hash e1"
    by (simp add: latest_hash_def)
  then have "ol_previous_hash e2 = ol_record_hash e1" by (simp add: e(2) assms(3))
  moreover have "ol_record_hash e1 \<noteq> None" by (simp add: e(1))
  moreover have "present (ol_record_hash e2)" using assms(7) by (simp add: e(2))
  moreover have "sort_key event_order [e1, e2] = [e2, e1]"
    using assms(5,6) by (simp add: event_order_def)
  ultimately show ?thesis unfolding own chain_report by simp
qed

definition clock_db :: db where
  "clock_db = empty_db\<lparr>entropy := (\<lambda>n. if n = 0 then ''b'' else ''a'')\<rparr>"

theorem same_instant_flagged_witness:
  "\<exists>e1 s1 e2 s2. append_ownership_ledger (own_args ''uc1'' ''s1'' 5) clock_db = Inr (e1, s1) \<and>
    append_ownership_ledger (own_args ''uc2'' ''s2'' 5) s1 = Inr (e2, s2) \<and>
    \<not> cr_valid (verify_ownership_chain (\<lambda>_. ''digest'') (events_of ''ann'' (ownership_ledger s2)))"
proof -
  have "case append_ownership_ledger (own_args ''uc1'' ''s1'' 5) clock_db of Inl e \<Rightarrow> False
    | Inr (e1, s1) \<Rightarrow> (case append_ownership_ledger (own_args ''uc2'' ''s2'' 5) s1 of Inl e \<Rightarrow> False
      | Inr (e2, s2) \<Rightarrow> ol_created_at e2 = ol_created_at e1 \<and> ol_id e2 < ol_id e1)"
    by code_simp
  then obtain e1 s1 e2 s2 where
    1: "append_ownership_ledger (own_args ''uc1'' ''s1'' 5) clock_db = Inr (e1, s1)"
    and 2: "append_ownership_ledger (own_args ''uc2'' ''s2'' 5) s1 = Inr (e2, s2)"
    and 3: "ol_created_at e2 = ol_created_at e1" "ol_id e2 < ol_id e1"
    by (auto simp: case_Inr_iff)
  have "sha256 s1 = (\<lambda>_. ''digest'')"
    using 1 by (auto simp: append_ownership_ledger_eq clock_db_def)
  with same_instant_flagged [OF 1 2 _ _ 3] have
    "\<not> cr_valid (verify_ownership_chain (\<lambda>_. ''digest'') (events_of ''ann'' (ownership_ledger s2)))"
    by (simp add: clock_db_def empty_db_def events_of_def)
  with 1 2 show ?thesis by blast
qed

interpretation card_grants: service "grant_user_card" "\<lambda>s. holdings_ok (user_cards s)"
  by unfold_locales (rule grant_user_card_holdings)

lemma holdings_serials:
  assumes "holdings_ok xs"
  shows "uc_serial_number ` set (filter (\<lambda>x. uc_card_id x = c) xs) = {1..int (copies c xs)}"
    and "distinct (map uc_serial_number (filter (\<lambda>x. uc_card_id x = c) xs))"
proof -
  have "{n. (c, n) \<in> snd ` set (map slot xs)} = {1..int (copies c xs)}"
    using assms by (simp only: holdings_ok_def slots_ok_def copies_slots)
  then show eq: "uc_serial_number ` set (filter (\<lambda>x. uc_card_id x = c) xs) = {1..int (copies c xs)}"
    by (auto simp: slot_def image_iff)
  have "length (map uc_serial_number (filter (\<lambda>x. uc_card_id x = c) xs)) = copies c xs"
    by (simp add: copies_def count_where_def)
  then show "distinct (map uc_serial_number (filter (\<lambda>x. uc_card_id x = c) xs))"
    by (intro card_distinct) (simp only: set_map eq, simp)
qed

text \<open>Serial numbers: after any sequence of grant requests, whatever their outcomes, the copies
  of each card that exist carry exactly the serial numbers 1 to their number, each once.\<close>

theorem grants_number_copies:
  assumes "user_cards s = []"
  shows "let xs = filter (\<lambda>x. uc_card_id x = c)
      (user_cards (fold (\<lambda>a s. snd (run_tx (grant_user_card a) s)) as s))
    in distinct (map uc_serial_number xs) \<and>
       uc_serial_number ` set xs = {1..int (length xs)}"
proof -
  have "holdings_ok (user_cards (fold (\<lambda>a s. snd (run_tx (grant_user_card a) s)) as s))"
    by (rule card_grants.requests) (simp add: assms)
  from holdings_serials [OF this, of c] show ?thesis
    by (simp add: copies_def count_where_def)
qed

definition drop_card :: card_row where
  "drop_card =
    \<lparr>c_id = ''c1'', c_name = ''Debut'', c_status = ''published'', c_release_policy = ''direct'',
     c_release_status = ''approved'', c_review_version = 1, c_is_official = True,
     c_artist_id = Some ''art'', c_member_id = None, c_owner_artist_id = None,
     c_organization_id = Some ''org'', c_rarity = Some ''rare'', c_image_asset_id = None,
     c_handwriting_asset_id = None, c_voice_asset_id = None, c_video_asset_id = None,
     c_design_config = None, c_review_note = None, c_has_voice = False, c_issue_limit = Some 1,
     c_tradable = True, c_drop_id = None, c_template_id = None, c_season_name = None,
     c_signature_text = None, c_handwriting_transform = None\<rparr>"

definition grant_args :: "string \<Rightarrow> card_grant_args" where
  "grant_args src =
    \<lparr>cg_user_id = ''ann'', cg_card_id = ''c1'', cg_source_type = ''drop'', cg_source_id = src,
     cg_acquisition_source = ''drop'', cg_metadata = [], cg_redeem_code_id = None,
     cg_drop_id = None\<rparr>"

definition catalog_db :: db where
  "catalog_db = empty_db\<lparr>cards := [drop_card]\<rparr>"

theorem grants_number_copies_witness:
  "let xs = filter (\<lambda>x. uc_card_id x = ''c1'')
      (user_cards (fold (\<lambda>a s. snd (run_tx (grant_user_card a) s))
        [grant_args ''a'', grant_args ''b'', grant_args ''a''] catalog_db))
   in distinct (map uc_serial_number xs) \<and> uc_serial_number ` set xs = {1..int (length xs)}"
  by (rule grants_number_copies) (simp add: catalog_db_def empty_db_def)

text \<open>A grant is made once per source: when no earlier ledger event has the fan and the source of
  the request, a successful grant returns a copy of the requested published card, owned by the
  requesting fan and recorded by exactly one new ledger event, and repeating the request (with
  whatever other arguments) returns that copy and changes nothing.\<close>

theorem grant_user_card_once:
  assumes "grant_user_card a s = Inr (uc, s')"
    and "\<not> list_ex (\<lambda>e. ol_user_id e = cg_user_id a \<and> ol_action e = ''grant'' \<and>
      ol_source_type e = cg_source_type a \<and> ol_source_id e = cg_source_id a) (ownership_ledger s)"
    and "cg_user_id b = cg_user_id a" and "cg_source_type b = cg_source_type a"
    and "cg_source_id b = cg_source_id a"
  shows "grant_user_card b s' = Inr (uc, s') \<and>
    user_cards s' = user_cards s @ [uc] \<and> uc_user_id uc = cg_user_id a \<and> uc_card_id uc = cg_card_id a \<and>
    (\<exists>c. get_card (cg_card_id a) s = Some c \<and> c_status c = ''published'') \<and>
    (\<exists>e. ownership_ledger s' = ownership_ledger s @ [e] \<and> ol_user_card_id e = uc_id uc)"
proof -
  have "granted_before b s' = Some uc"
    using grant_user_card_found [OF assms(1,2)] assms(3-5) by (simp add: granted_before_def)
  then have "grant_user_card b s' = Inr (uc, s')" by (simp add: grant_user_card_def)
  moreover have "user_cards s' = user_cards s @ [uc] \<and> uc_user_id uc = cg_user_id a \<and>
    uc_card_id uc = cg_card_id a \<and>
    (\<exists>c. get_card (cg_card_id a) s = Some c \<and> c_status c = ''published'') \<and>
    (\<exists>e. ownership_ledger s' = ownership_ledger s @ [e] \<and> ol_user_card_id e = uc_id uc)"
    using assms(1)
  proof (cases rule: grant_user_card_cases)
    case Old
    with assms(2) show ?thesis
      by (auto simp: granted_before_def list_ex_iff dest!: find_SomeD split: option.splits)
  next
    case (New c s1 e)
    note l = grant_user_card_ledger [OF New(6,7)]
    have "user_cards s' = user_cards s @ [uc]" "ownership_ledger s' = ownership_ledger s @ [e]"
      using l(1,2) by simp_all
    with l(3) New(2-4) show ?thesis by (simp add: new_user_card_def)
  qed
  ultimately show ?thesis by simp
qed

theorem grant_user_card_once_witness:
  "\<exists>uc s'. grant_user_card (grant_args ''a'') catalog_db = Inr (uc, s') \<and>
    grant_user_card (grant_args ''a'') s' = Inr (uc, s')"
proof -
  have "\<not> isl (grant_user_card (grant_args ''a'') catalog_db)" by code_simp
  then obtain uc s' where r: "grant_user_card (grant_args ''a'') catalog_db = Inr (uc, s')"
    by (cases "grant_user_card (grant_args ''a'') catalog_db") auto
  have "\<not> list_ex P (ownership_ledger catalog_db)" for P
    by (simp add: catalog_db_def empty_db_def)
  from grant_user_card_once [OF r this refl refl refl] r show ?thesis by blast
qed

end
