(* ===== verification/Growth.thy ===== *)
theory Growth
  imports Engagement
begin

text \<open>
  Experience points, levels, rewards and profile equipment
  (\<open>backend/app/services.py\<close>): the XP ledger with the cached level of each fan, the level
  policies, reward grants and their claim, and the equipment built from claimed rewards. The
  invariant \<open>levels_ok\<close> says that the cached total is the sum of the fan's XP ledger.
\<close>

section \<open>Experience points\<close>

definition clash_xp :: "xp_ledger_row \<Rightarrow> xp_ledger_row \<Rightarrow> bool" where
  "clash_xp r x \<longleftrightarrow> xl_id x = xl_id r \<or>
    (xl_user_id x = xl_user_id r \<and> xl_event_id x = xl_event_id r \<and> xl_rule_key x = xl_rule_key r)"

definition find_xp :: "ident \<Rightarrow> ident \<Rightarrow> string \<Rightarrow> db \<Rightarrow> xp_ledger_row option" where
  "find_xp u ev rk s =
    find (\<lambda>r. xl_user_id r = u \<and> xl_event_id r = ev \<and> xl_rule_key r = rk) (xp_ledger s)"

text \<open>The policy in force: latest effective instant first, policies without one last.\<close>

definition active_policy :: "db \<Rightarrow> level_policy_version option" where
  "active_policy s =
    (case sort_key (\<lambda>p. case lp_effective_at p of None \<Rightarrow> (True, 0, lp_id p) | Some t \<Rightarrow> (False, - t, lp_id p))
        (filter (\<lambda>p. lp_status p = ''published'' \<and> lp_is_active p \<and>
            (case lp_effective_at p of None \<Rightarrow> True | Some t \<Rightarrow> t \<le> now s)) (level_policy_versions s)) of
       [] \<Rightarrow> None | p # _ \<Rightarrow> Some p)"

definition level_for_total_xp :: "int \<Rightarrow> db \<Rightarrow> int" where
  "level_for_total_xp xp s =
    (case active_policy s of
       None \<Rightarrow> max 1 (xp div 100 + 1)
     | Some p \<Rightarrow>
         (case sort_key (\<lambda>l. - l)
             (map lt_level (filter (\<lambda>t. lt_policy_version_id t = lp_id p \<and>
                lt_required_xp t \<le> max 0 xp) (level_thresholds s))) of
            [] \<Rightarrow> 1
          | l # _ \<Rightarrow> if l = 0 then 1 else l))"

definition xp_in :: "ident \<Rightarrow> xp_ledger_row list \<Rightarrow> int" where
  "xp_in u rs = sum_where (\<lambda>r. xl_user_id r = u) xl_amount rs"

text \<open>\<open>session.get(FanLevel, user_id)\<close>, created when missing, then both attributes assigned.\<close>

definition set_level :: "ident \<Rightarrow> int \<Rightarrow> int \<Rightarrow> db \<Rightarrow> db" where
  "set_level u xp level s =
    s\<lparr>fan_levels :=
       upsert (\<lambda>l. fl_user_id l = u) \<lparr>fl_user_id = u, fl_total_xp = 0, fl_level = 1\<rparr>
         (\<lambda>l. l\<lparr>fl_total_xp := xp, fl_level := level\<rparr>) (fan_levels s)\<rparr>"

definition grant_xp :: "ident \<Rightarrow> ident \<Rightarrow> string \<Rightarrow> int \<Rightarrow> db \<Rightarrow> exn + xp_ledger_row \<times> db" where
  "grant_xp u ev rk amount s =
    (case find_xp u ev rk s of
       Some existing \<Rightarrow> Inr (existing, s)
     | None \<Rightarrow>
         let row = \<lparr>xl_id = new_id ''xp_'' s, xl_user_id = u, xl_event_id = ev, xl_rule_key = rk,
               xl_amount = amount, xl_created_at = now s\<rparr>;
             s1 = draw s
         in case insert_row clash_xp row (xp_ledger s1) of
              Inl e \<Rightarrow>
                (case find_xp u ev rk s1 of Some existing \<Rightarrow> Inr (existing, s1) | None \<Rightarrow> Inl e)
            | Inr rows \<Rightarrow>
                let s2 = s1\<lparr>xp_ledger := rows\<rparr>; xp = xp_in u rows
                in Inr (row, set_level u xp (level_for_total_xp xp s2) s2))"

text \<open>
  The XP of a fan within a scope; with an artist, only rows whose event names that artist in
  its payload count.
\<close>

definition scoped_user_xp ::
  "ident \<Rightarrow> ident option \<Rightarrow> time option \<Rightarrow> time option \<Rightarrow> db \<Rightarrow> int" where
  "scoped_user_xp u artist starts ends s =
    sum_where (\<lambda>r. xl_user_id r = u \<and>
        (case starts of None \<Rightarrow> True | Some t \<Rightarrow> t \<le> xl_created_at r) \<and>
        (case ends of None \<Rightarrow> True | Some t \<Rightarrow> xl_created_at r \<le> t) \<and>
        (case artist of None \<Rightarrow> True
         | Some a \<Rightarrow> list_ex (\<lambda>e. ev_id e = xl_event_id r \<and> jget (ev_payload e) ''artistId'' = JStr a)
             (engagement_events s)))
      xl_amount (xp_ledger s)"

definition current_user_xp :: "ident \<Rightarrow> db \<Rightarrow> int" where
  "current_user_xp u = scoped_user_xp u None None None"

definition CARD_COLLECTION_XP :: int where
  "CARD_COLLECTION_XP = 30"

definition base_xp_for :: "engagement_event \<Rightarrow> int" where
  "base_xp_for e =
    (if ev_kind e = ''card_collected'' then CARD_COLLECTION_XP
     else if ev_kind e = ''card_revoked'' then - CARD_COLLECTION_XP
     else 0)"

section \<open>Rewards\<close>

definition clash_grant :: "reward_grant \<Rightarrow> reward_grant \<Rightarrow> bool" where
  "clash_grant g x \<longleftrightarrow> rg_id x = rg_id g \<or>
    (rg_user_id x = rg_user_id g \<and> rg_source_event_id x = rg_source_event_id g \<and>
     rg_rule_key x = rg_rule_key g)"

definition find_grant :: "ident \<Rightarrow> ident \<Rightarrow> string \<Rightarrow> db \<Rightarrow> reward_grant option" where
  "find_grant u ev rk s =
    find (\<lambda>g. rg_user_id g = u \<and> rg_source_event_id g = ev \<and> rg_rule_key g = rk) (reward_grants s)"

definition get_reward :: "ident \<Rightarrow> db \<Rightarrow> reward option" where
  "get_reward i s = find (\<lambda>r. rw_id r = i) (reward_catalog s)"

definition grant_reward :: "ident \<Rightarrow> ident \<Rightarrow> ident \<Rightarrow> string \<Rightarrow> db \<Rightarrow> exn + reward_grant \<times> db" where
  "grant_reward u reward_id ev rk s =
    (case find_grant u ev rk s of
       Some existing \<Rightarrow> Inr (existing, s)
     | None \<Rightarrow>
    (case get_reward reward_id s of
       None \<Rightarrow> Inl (AppError 409 ''REWARD_NOT_PUBLISHED'')
     | Some reward \<Rightarrow>
       if rw_status reward \<noteq> ''published'' then Inl (AppError 409 ''REWARD_NOT_PUBLISHED'')
       else
         let grant = \<lparr>rg_id = new_id ''reward_grant_'' s, rg_user_id = u, rg_reward_id = reward_id,
               rg_source_event_id = ev, rg_rule_key = rk, rg_granted_at = now s,
               rg_claimed_at = None, rg_revoked_at = None\<rparr>;
             s1 = draw s
         in case insert_row clash_grant grant (reward_grants s1) of
              Inl e \<Rightarrow>
                (case find_grant u ev rk s1 of Some existing \<Rightarrow> Inr (existing, s1) | None \<Rightarrow> Inl e)
            | Inr rows \<Rightarrow> Inr (grant, s1\<lparr>reward_grants := rows\<rparr>)))"

text \<open>\<open>_datetime_data\<close>: an instant in ISO format stands for itself.\<close>

definition datetime_data :: "time option \<Rightarrow> json" where
  "datetime_data t = (case t of None \<Rightarrow> JNull | Some v \<Rightarrow> JInt v)"

definition reward_grant_data :: "reward_grant \<Rightarrow> reward \<Rightarrow> jobj" where
  "reward_grant_data g r =
    [(''id'', JStr (rg_id g)), (''rewardId'', JStr (rw_id r)), (''type'', JStr (rw_reward_type r)),
     (''name'', JStr (rw_name r)), (''metadata'', JObj (rw_metadata r)),
     (''grantedAt'', datetime_data (Some (rg_granted_at g))),
     (''claimedAt'', datetime_data (rg_claimed_at g))]"

text \<open>\<open>_reward_grant_with_catalog\<close> and its locking variant select the same row.\<close>

definition reward_grant_with_catalog :: "ident \<Rightarrow> ident \<Rightarrow> db \<Rightarrow> (reward_grant \<times> reward) option" where
  "reward_grant_with_catalog u grant_id s =
    (case find (\<lambda>g. rg_id g = grant_id \<and> rg_user_id g = u \<and> rg_revoked_at g = None) (reward_grants s) of
       None \<Rightarrow> None
     | Some g \<Rightarrow>
        (case find (\<lambda>r. rw_id r = rg_reward_id g \<and> rw_status r = ''published'') (reward_catalog s) of
           None \<Rightarrow> None | Some r \<Rightarrow> Some (g, r)))"

definition locked_reward_grant_with_catalog ::
  "ident \<Rightarrow> ident \<Rightarrow> db \<Rightarrow> (reward_grant \<times> reward) option" where
  "locked_reward_grant_with_catalog u grant_id s =
    (case find (\<lambda>g. rg_id g = grant_id \<and> rg_user_id g = u \<and> rg_revoked_at g = None) (reward_grants s) of
       None \<Rightarrow> None
     | Some g \<Rightarrow>
        (case get_reward (rg_reward_id g) s of
           None \<Rightarrow> None
         | Some r \<Rightarrow> if rw_status r \<noteq> ''published'' then None else Some (g, r)))"

definition set_grant :: "ident \<Rightarrow> (reward_grant \<Rightarrow> reward_grant) \<Rightarrow> db \<Rightarrow> db" where
  "set_grant i f s = s\<lparr>reward_grants := update_where (\<lambda>g. rg_id g = i) f (reward_grants s)\<rparr>"

definition claimed_notification :: "ident \<Rightarrow> ident \<Rightarrow> db \<Rightarrow> notification" where
  "claimed_notification u grant_id s =
    new_notification (new_id ''notification_'' s) u ''reward_claimed'' ''reward_grant'' grant_id
      (''reward:'' @ grant_id @ '':claimed'') s"

definition claim_reward_grant :: "ident \<Rightarrow> ident \<Rightarrow> db \<Rightarrow> exn + jobj \<times> db" where
  "claim_reward_grant u grant_id s =
    (case locked_reward_grant_with_catalog u grant_id s of
       None \<Rightarrow> Inl (AppError 404 ''REWARD_GRANT_NOT_FOUND'')
     | Some (grant, reward) \<Rightarrow>
         if rg_claimed_at grant = None then
           let s1 = set_grant (rg_id grant) (\<lambda>g. g\<lparr>rg_claimed_at := Some (now s)\<rparr>) s
           in bindE (add_notification (claimed_notification u (rg_id grant) s1) (draw s1)) (\<lambda>s2.
              Inr (reward_grant_data (grant\<lparr>rg_claimed_at := Some (now s)\<rparr>) reward, s2))
         else Inr (reward_grant_data grant reward, s))"

section \<open>Profile equipment\<close>

definition validate_equipment_reward :: "ident \<Rightarrow> string \<Rightarrow> ident \<Rightarrow> db \<Rightarrow> exn + db" where
  "validate_equipment_reward u expected_type grant_id s =
    (case reward_grant_with_catalog u grant_id s of
       None \<Rightarrow> Inl (AppError 404 ''REWARD_GRANT_NOT_FOUND'')
     | Some (grant, reward) \<Rightarrow>
         if rg_claimed_at grant = None then Inl (AppError 409 ''REWARD_GRANT_UNCLAIMED'')
         else if rw_reward_type reward \<noteq> expected_type
         then Inl (AppError 422 ''INVALID_EQUIPMENT_REWARD_TYPE'')
         else Inr s)"

record equipment_payload =
  qp_title_reward_id :: "ident option"
  qp_badge_reward_ids :: "ident list"
  qp_frame_reward_id :: "ident option"
  qp_theme_reward_id :: "ident option"
  qp_public_profile_enabled :: bool

text \<open>The non-empty identifiers of a payload, in its order.\<close>

definition optional_id :: "ident option \<Rightarrow> ident list" where
  "optional_id x = (case x of None \<Rightarrow> [] | Some v \<Rightarrow> if v = [] then [] else [v])"

definition equipped_ids :: "equipment_payload \<Rightarrow> ident list" where
  "equipped_ids p = optional_id (qp_title_reward_id p)
    @ filter (\<lambda>i. i \<noteq> []) (qp_badge_reward_ids p)
    @ optional_id (qp_frame_reward_id p) @ optional_id (qp_theme_reward_id p)"

text \<open>
  \<open>_equipment_data\<close>: the stored identifiers are distributed over the positions by the type
  of the reward they still stand for.
\<close>

definition reward_type_of :: "ident \<Rightarrow> ident \<Rightarrow> db \<Rightarrow> string option" where
  "reward_type_of u i s =
    (case find (\<lambda>g. rg_user_id g = u \<and> rg_id g = i \<and> rg_revoked_at g = None \<and>
           get_reward (rg_reward_id g) s \<noteq> None) (reward_grants s) of
       None \<Rightarrow> None
     | Some g \<Rightarrow> map_option rw_reward_type (get_reward (rg_reward_id g) s))"

definition place_reward :: "(ident \<Rightarrow> string option) \<Rightarrow> ident \<Rightarrow> equipment_payload \<Rightarrow> equipment_payload" where
  "place_reward type_of i p =
    (if type_of i = Some ''title'' \<and> qp_title_reward_id p = None
     then p\<lparr>qp_title_reward_id := Some i\<rparr>
     else if type_of i = Some ''badge'' \<and> length (qp_badge_reward_ids p) < 3
     then p\<lparr>qp_badge_reward_ids := qp_badge_reward_ids p @ [i]\<rparr>
     else if type_of i = Some ''profile_frame'' \<and> qp_frame_reward_id p = None
     then p\<lparr>qp_frame_reward_id := Some i\<rparr>
     else if type_of i = Some ''collection_theme'' \<and> qp_theme_reward_id p = None
     then p\<lparr>qp_theme_reward_id := Some i\<rparr>
     else p)"

definition equipment_data :: "ident \<Rightarrow> db \<Rightarrow> equipment_payload" where
  "equipment_data u s =
    (let equipment = find (\<lambda>q. eq_user_id q = u) (profile_equipment s);
         ids = (case equipment of None \<Rightarrow> [] | Some q \<Rightarrow> eq_equipped_reward_ids q);
         result = \<lparr>qp_title_reward_id = None, qp_badge_reward_ids = [], qp_frame_reward_id = None,
           qp_theme_reward_id = None,
           qp_public_profile_enabled = (case equipment of None \<Rightarrow> False | Some q \<Rightarrow> eq_is_public q)\<rparr>
     in fold (place_reward (\<lambda>i. reward_type_of u i s)) ids result)"

definition save_equipment :: "ident \<Rightarrow> ident list \<Rightarrow> bool \<Rightarrow> db \<Rightarrow> db" where
  "save_equipment u ids public s =
    s\<lparr>profile_equipment :=
       upsert (\<lambda>q. eq_user_id q = u)
         \<lparr>eq_user_id = u, eq_equipped_reward_ids = [], eq_is_public = True\<rparr>
         (\<lambda>q. q\<lparr>eq_equipped_reward_ids := ids, eq_is_public := public\<rparr>) (profile_equipment s)\<rparr>"

definition update_profile_equipment ::
  "ident \<Rightarrow> equipment_payload \<Rightarrow> db \<Rightarrow> exn + equipment_payload \<times> db" where
  "update_profile_equipment u p s =
    (if \<not> distinct (equipped_ids p) then Inl (AppError 422 ''DUPLICATE_EQUIPMENT_REWARD'')
     else
      bindE (foldE (validate_equipment_reward u ''title'') (optional_id (qp_title_reward_id p)) s) (\<lambda>s1.
      bindE (foldE (validate_equipment_reward u ''badge'') (qp_badge_reward_ids p) s1) (\<lambda>s2.
      bindE (foldE (validate_equipment_reward u ''profile_frame'')
          (optional_id (qp_frame_reward_id p)) s2) (\<lambda>s3.
      bindE (foldE (validate_equipment_reward u ''collection_theme'')
          (optional_id (qp_theme_reward_id p)) s3) (\<lambda>s4.
      let s5 = save_equipment u (equipped_ids p) (qp_public_profile_enabled p) s4
      in Inr (equipment_data u s5, s5))))))"

section \<open>XP lemmas\<close>

named_theorems growth_touch \<open>which tables the growth services may change\<close>

definition levels_ok :: "xp_ledger_row list \<Rightarrow> fan_level list \<Rightarrow> bool" where
  "levels_ok rs ls \<longleftrightarrow> unique_by xl_id rs \<and>
    unique_by (\<lambda>r. (xl_user_id r, xl_event_id r, xl_rule_key r)) rs \<and>
    unique_by fl_user_id ls \<and>
    (\<forall>l \<in> set ls. fl_total_xp l = xp_in (fl_user_id l) rs) \<and>
    (\<forall>r \<in> set rs. \<exists>l \<in> set ls. fl_user_id l = xl_user_id r)"

abbreviation levels_inv :: "db \<Rightarrow> bool" where
  "levels_inv s \<equiv> levels_ok (xp_ledger s) (fan_levels s)"

lemma grant_xp_cases:
  assumes "grant_xp u ev rk n s = Inr (r, s')"
  obtains (Old) "find_xp u ev rk s = Some r" "s' = s"
  | (New) "find_xp u ev rk s = None" "xl_user_id r = u" "xl_event_id r = ev" "xl_rule_key r = rk"
      "xl_amount r = n" "xl_created_at r = now s" "\<not> list_ex (clash_xp r) (xp_ledger s)"
      "s' = set_level u (xp_in u (xp_ledger s @ [r]))
        (level_for_total_xp (xp_in u (xp_ledger s @ [r])) s)
        ((draw s)\<lparr>xp_ledger := xp_ledger s @ [r]\<rparr>)"
proof (cases "find_xp u ev rk s")
  case (Some x)
  with assms have "x = r \<and> s' = s" by (simp add: grant_xp_def)
  with Some show thesis by (intro Old) simp_all
next
  case None
  have "find_xp u ev rk (draw s) = None" using None by (simp add: find_xp_def)
  moreover have "level_for_total_xp n ((draw s)\<lparr>xp_ledger := rows\<rparr>) = level_for_total_xp n s" for n rows
    by (simp add: level_for_total_xp_def active_policy_def cong: option.case_cong list.case_cong)
  ultimately show thesis
    using assms None by (intro New) (auto simp: grant_xp_def Let_def inr_simps)
qed

lemma set_level_touch: "\<exists>ls. set_level u t l s = s\<lparr>fan_levels := ls\<rparr>"
  unfolding set_level_def by blast

lemma grant_xp_touch [growth_touch]:
  assumes "grant_xp u ev rk n s = Inr (r, s')"
  shows "\<exists>rs ls k. s' = s\<lparr>xp_ledger := rs, fan_levels := ls, drawn := k\<rparr>"
proof -
  from assms have "s' = s\<lparr>xp_ledger := xp_ledger s', fan_levels := fan_levels s', drawn := drawn s'\<rparr>"
    by (cases rule: grant_xp_cases) (auto simp: set_level_def draw_def)
  then show ?thesis by blast
qed

lemma find_set_level:
  "find (\<lambda>l. fl_user_id l = v) (fan_levels (set_level u t n s)) =
    (if v = u then Some \<lparr>fl_user_id = u, fl_total_xp = t, fl_level = n\<rparr>
     else find (\<lambda>l. fl_user_id l = v) (fan_levels s))"
  by (auto simp: set_level_def find_upsert_same find_upsert_other split: option.splits
      dest!: find_SomeD)

lemma levels_ok_grant:
  assumes "levels_ok rs ls" and "\<not> list_ex (clash_xp r) rs" and "xl_user_id r = u"
  shows "levels_ok (rs @ [r])
    (upsert (\<lambda>l. fl_user_id l = u) \<lparr>fl_user_id = u, fl_total_xp = 0, fl_level = 1\<rparr>
      (\<lambda>l. l\<lparr>fl_total_xp := xp_in u (rs @ [r]), fl_level := n\<rparr>) ls)" (is "levels_ok _ ?ls")
proof -
  have other: "xp_in v (rs @ [r]) = xp_in v rs" if "v \<noteq> u" for v
    using that assms(3) by (simp add: xp_in_def table_simps)
  have "unique_by fl_user_id ?ls"
    using assms(1) by (intro unique_upsert) (auto simp: levels_ok_def)
  moreover have "\<forall>l \<in> set ?ls. fl_total_xp l = xp_in (fl_user_id l) (rs @ [r])"
    using assms(1) other by (auto simp: set_upsert levels_ok_def)
  moreover have "\<exists>l \<in> set ?ls. fl_user_id l = xl_user_id x" if "x \<in> set (rs @ [r])" for x
  proof -
    have "\<exists>l \<in> set ls \<union> (if list_ex (\<lambda>l. fl_user_id l = u) ls then {}
        else {\<lparr>fl_user_id = u, fl_total_xp = 0, fl_level = 1\<rparr>}). fl_user_id l = xl_user_id x"
      using that assms(1,3) by (cases "x = r") (fastforce simp: levels_ok_def list_ex_iff)+
    then obtain l where l: "l \<in> set ls \<union> (if list_ex (\<lambda>l. fl_user_id l = u) ls then {}
        else {\<lparr>fl_user_id = u, fl_total_xp = 0, fl_level = 1\<rparr>})" "fl_user_id l = xl_user_id x" ..
    from l(2) show ?thesis unfolding set_upsert by (intro bexI [OF _ imageI [OF l(1)]]) simp
  qed
  ultimately show ?thesis
    using assms(1,2) by (auto simp: levels_ok_def unique_by_def clash_xp_def list_ex_iff)
qed

lemma grant_xp_keeps: "grant_xp u ev rk n s = Inr (r, s') \<Longrightarrow> levels_inv s \<Longrightarrow> levels_inv s'"
  by (erule grant_xp_cases) (auto simp: set_level_def elim!: levels_ok_grant)

interpretation xp_grants: service "\<lambda>(u, ev, rk, n). grant_xp u ev rk n" levels_inv
  by unfold_locales (clarsimp simp: grant_xp_keeps)

interpretation xp_store: keyed_store "\<lambda>(u, ev, rk). find_xp u ev rk" "\<lambda>(u, ev, rk) n. grant_xp u ev rk n"
  "\<lambda>_. True"
proof unfold_locales
  fix a k s r s'
  show "(case k of (u, ev, rk) \<Rightarrow> \<lambda>n. grant_xp u ev rk n) a s = Inr (r, s)"
    if "(case k of (u, ev, rk) \<Rightarrow> find_xp u ev rk) s = Some r" for s
    using that by (cases k) (simp add: grant_xp_def)
  assume "(case k of (u, ev, rk) \<Rightarrow> \<lambda>n. grant_xp u ev rk n) a s = Inr (r, s')"
  then show "(case k of (u, ev, rk) \<Rightarrow> find_xp u ev rk) s' = Some r"
    by (cases k, simp, elim grant_xp_cases) (simp_all add: find_xp_def set_level_def find_append)
qed simp

text \<open>Levels grow with the total.\<close>

lemma sort_desc_hd:
  fixes xs :: "int list"
  shows "(case sort_key (\<lambda>l. - l) xs of [] \<Rightarrow> 1 | l # _ \<Rightarrow> l) = (if xs = [] then 1 else Max (set xs))"
proof (cases "sort_key (\<lambda>l. - l) xs")
  case Nil
  then have "xs = []" by (metis length_0_conv length_sort)
  then show ?thesis by simp
next
  case (Cons l ls)
  then have "set xs = insert l (set ls)" by (metis list.simps(15) set_sort)
  moreover have "sorted (map (\<lambda>l. - l) (l # ls))" using Cons by (metis sorted_sort_key)
  ultimately have "Max (set xs) = l" by (intro Max_eqI) auto
  with Cons show ?thesis by auto
qed

lemma level_for_total_xp_eq:
  assumes "\<And>t. t \<in> set (level_thresholds s) \<Longrightarrow> 1 \<le> lt_level t"
  shows "level_for_total_xp xp s = (case active_policy s of
       None \<Rightarrow> max 1 (xp div 100 + 1)
     | Some p \<Rightarrow>
         Max (insert 1 (lt_level ` {t \<in> set (level_thresholds s).
           lt_policy_version_id t = lp_id p \<and> lt_required_xp t \<le> max 0 xp})))"
proof (cases "active_policy s")
  case (Some p)
  define xs where "xs = map lt_level (filter (\<lambda>t. lt_policy_version_id t = lp_id p \<and>
    lt_required_xp t \<le> max 0 xp) (level_thresholds s))"
  have pos: "1 \<le> l" if "l \<in> set xs" for l using that assms by (auto simp: xs_def)
  have "level_for_total_xp xp s = (case sort_key (\<lambda>l. - l) xs of [] \<Rightarrow> 1 | l # _ \<Rightarrow> if l = 0 then 1 else l)"
    by (simp add: level_for_total_xp_def Some xs_def)
  also have "\<dots> = (case sort_key (\<lambda>l. - l) xs of [] \<Rightarrow> 1 | l # _ \<Rightarrow> l)"
  proof -
    have "0 \<notin> set (sort_key (\<lambda>l. - l) xs)" using pos [of 0] by auto
    then show ?thesis by (cases "sort_key (\<lambda>l. - l) xs") auto
  qed
  also have "\<dots> = (if xs = [] then 1 else Max (set xs))" by (rule sort_desc_hd)
  also have "\<dots> = Max (insert 1 (set xs))"
    using pos by (auto simp: Max_insert max_def Max_ge_iff)
  also have "set xs = lt_level ` {t \<in> set (level_thresholds s).
      lt_policy_version_id t = lp_id p \<and> lt_required_xp t \<le> max 0 xp}"
    by (auto simp: xs_def)
  finally show ?thesis by (simp add: Some)
qed (simp add: level_for_total_xp_def)

lemma level_for_total_xp_mono:
  assumes "\<And>t. t \<in> set (level_thresholds s) \<Longrightarrow> 1 \<le> lt_level t" and "x \<le> y"
  shows "1 \<le> level_for_total_xp x s \<and> level_for_total_xp x s \<le> level_for_total_xp y s"
proof (cases "active_policy s")
  case None
  have "x div 100 \<le> y div 100" using assms(2) by (rule zdiv_mono1) simp
  then show ?thesis by (simp add: level_for_total_xp_eq [OF assms(1)] None)
next
  case (Some p)
  let ?l = "\<lambda>z. lt_level ` {t \<in> set (level_thresholds s).
    lt_policy_version_id t = lp_id p \<and> lt_required_xp t \<le> max 0 z}"
  have "?l x \<subseteq> ?l y" using assms(2) by auto
  then have "Max (insert 1 (?l x)) \<le> Max (insert 1 (?l y))" by (intro Max_mono) auto
  moreover have "1 \<le> Max (insert 1 (?l x))" by (rule Max_ge) auto
  ultimately show ?thesis by (simp add: level_for_total_xp_eq [OF assms(1)] Some)
qed

section \<open>Reward lemmas\<close>

lemma grant_reward_cases:
  assumes "grant_reward u i ev rk s = Inr (g, s')"
  obtains (Old) "find_grant u ev rk s = Some g" "s' = s"
  | (New) r where "find_grant u ev rk s = None" "get_reward i s = Some r" "rw_status r = ''published''"
      "rg_user_id g = u" "rg_reward_id g = i" "rg_source_event_id g = ev" "rg_rule_key g = rk"
      "rg_claimed_at g = None" "rg_revoked_at g = None"
      "\<not> list_ex (clash_grant g) (reward_grants s)"
      "s' = (draw s)\<lparr>reward_grants := reward_grants s @ [g]\<rparr>"
proof (cases "find_grant u ev rk s")
  case (Some x)
  with assms have "x = g \<and> s' = s" by (simp add: grant_reward_def)
  with Some show thesis by (intro Old) simp_all
next
  case None
  then have "find_grant u ev rk (draw s) = None" by (simp add: find_grant_def)
  with assms None obtain r where "get_reward i s = Some r" "rw_status r = ''published''"
    by (auto simp: grant_reward_def inr_simps)
  with assms None \<open>find_grant u ev rk (draw s) = None\<close> show thesis
    by (intro New) (auto simp: grant_reward_def Let_def inr_simps)
qed

lemma grant_reward_touch [growth_touch]:
  assumes "grant_reward u i ev rk s = Inr (g, s')"
  shows "\<exists>gs n. s' = s\<lparr>reward_grants := gs, drawn := n\<rparr>"
proof -
  from assms have "s' = s\<lparr>reward_grants := reward_grants s', drawn := drawn s'\<rparr>"
    by (cases rule: grant_reward_cases) (auto simp: draw_def)
  then show ?thesis by blast
qed

text \<open>One grant per fan, source event and rule.\<close>

interpretation reward_store: keyed_store "\<lambda>(u, ev, rk). find_grant u ev rk"
  "\<lambda>(u, ev, rk) i. grant_reward u i ev rk" "\<lambda>_. True"
proof unfold_locales
  fix a k s r s'
  show "(case k of (u, ev, rk) \<Rightarrow> \<lambda>i. grant_reward u i ev rk) a s = Inr (r, s)"
    if "(case k of (u, ev, rk) \<Rightarrow> find_grant u ev rk) s = Some r" for s
    using that by (cases k) (simp add: grant_reward_def)
  assume "(case k of (u, ev, rk) \<Rightarrow> \<lambda>i. grant_reward u i ev rk) a s = Inr (r, s')"
  then show "(case k of (u, ev, rk) \<Rightarrow> find_grant u ev rk) s' = Some r"
    by (cases k, simp, elim grant_reward_cases) (simp_all add: find_grant_def find_append)
qed simp

lemma add_notification_touch [touch]:
  "add_notification r s = Inr s' \<Longrightarrow> \<exists>ns. s' = s\<lparr>notifications := ns\<rparr>"
  by (auto simp: add_notification_def inr_simps)

lemma locked_after_claim:
  assumes "locked_reward_grant_with_catalog u i s = Some (g, r)"
    and "reward_grants s' = update_where (\<lambda>x. rg_id x = rg_id g) (\<lambda>x. x\<lparr>rg_claimed_at := t\<rparr>) (reward_grants s)"
    and "reward_catalog s' = reward_catalog s"
  shows "locked_reward_grant_with_catalog u i s' = Some (g\<lparr>rg_claimed_at := t\<rparr>, r)"
proof -
  from assms(1) have g: "find (\<lambda>g. rg_id g = i \<and> rg_user_id g = u \<and> rg_revoked_at g = None) (reward_grants s) = Some g"
    by (auto simp: locked_reward_grant_with_catalog_def split: option.splits if_splits)
  with assms show ?thesis
    by (auto simp: locked_reward_grant_with_catalog_def find_update_where get_reward_def
        split: if_splits option.splits)
qed

section \<open>Equipment lemmas\<close>

lemma validate_equipment_reward_eq:
  "validate_equipment_reward u ty i s = Inr s' \<longleftrightarrow>
    s' = s \<and> (\<exists>g r. reward_grant_with_catalog u i s = Some (g, r) \<and> rg_claimed_at g \<noteq> None \<and>
      rw_reward_type r = ty)"
  by (auto simp: validate_equipment_reward_def inr_simps)

lemma validate_all:
  "foldE (validate_equipment_reward u ty) is s = Inr s' \<Longrightarrow>
    s' = s \<and> (\<forall>i \<in> set is. \<exists>g r. reward_grant_with_catalog u i s = Some (g, r) \<and>
      rg_claimed_at g \<noteq> None \<and> rw_reward_type r = ty)"
  by (induction "is") (auto simp: inr_simps validate_equipment_reward_eq)

lemma reward_type_of_valid:
  assumes "reward_grant_with_catalog u i s = Some (g, r)" and "unique_by rw_id (reward_catalog s)"
  shows "reward_type_of u i s = Some (rw_reward_type r)"
proof -
  from assms(1) have
    g: "find (\<lambda>g. rg_id g = i \<and> rg_user_id g = u \<and> rg_revoked_at g = None) (reward_grants s) = Some g"
    and r: "find (\<lambda>r. rw_id r = rg_reward_id g \<and> rw_status r = ''published'') (reward_catalog s) = Some r"
    by (auto simp: reward_grant_with_catalog_def split: option.splits)
  from find_SomeD [OF r] have r': "get_reward (rg_reward_id g) s = Some r"
    unfolding get_reward_def by (intro find_unique [OF assms(2)]) auto
  have "find (\<lambda>g. rg_user_id g = u \<and> rg_id g = i \<and> rg_revoked_at g = None \<and>
      get_reward (rg_reward_id g) s \<noteq> None) (reward_grants s) = Some g"
    by (rule find_stronger [OF g]) (use find_SomeD [OF g] r' in auto)
  with r' show ?thesis by (simp add: reward_type_of_def)
qed

lemma place_badges:
  assumes "\<And>i. i \<in> set is \<Longrightarrow> ty i = Some ''badge''"
    and "length (qp_badge_reward_ids p) + length is \<le> 3"
  shows "fold (place_reward ty) is p = p\<lparr>qp_badge_reward_ids := qp_badge_reward_ids p @ is\<rparr>"
  using assms
proof (induction "is" arbitrary: p)
  case (Cons i "is")
  then have "place_reward ty i p = p\<lparr>qp_badge_reward_ids := qp_badge_reward_ids p @ [i]\<rparr>"
    by (simp add: place_reward_def)
  with Cons show ?case by simp
qed simp

lemma place_optional:
  assumes "x \<noteq> Some []"
  shows "(\<And>i. x = Some i \<Longrightarrow> ty i = Some ''title'') \<Longrightarrow> qp_title_reward_id p = None \<Longrightarrow>
      fold (place_reward ty) (optional_id x) p = p\<lparr>qp_title_reward_id := x\<rparr>"
    and "(\<And>i. x = Some i \<Longrightarrow> ty i = Some ''profile_frame'') \<Longrightarrow> qp_frame_reward_id p = None \<Longrightarrow>
      fold (place_reward ty) (optional_id x) p = p\<lparr>qp_frame_reward_id := x\<rparr>"
    and "(\<And>i. x = Some i \<Longrightarrow> ty i = Some ''collection_theme'') \<Longrightarrow> qp_theme_reward_id p = None \<Longrightarrow>
      fold (place_reward ty) (optional_id x) p = p\<lparr>qp_theme_reward_id := x\<rparr>"
  using assms by (auto simp: optional_id_def place_reward_def split: option.splits)

lemma find_saved:
  "find (\<lambda>q. eq_user_id q = u) (profile_equipment (save_equipment u ids b s)) =
    Some \<lparr>eq_user_id = u, eq_equipped_reward_ids = ids, eq_is_public = b\<rparr>"
  by (auto simp: save_equipment_def find_upsert_same split: option.splits dest!: find_SomeD)

section \<open>Properties\<close>

text \<open>Granting XP: for a source not granted before the fan's cached total grows by exactly the
  amount and equals the sum of the fan's XP ledger, the cached level is the level of the new
  total, no other fan's level changes; for a source granted before nothing changes at all.\<close>

theorem grant_xp_exact:
  assumes "levels_inv s" and "grant_xp u ev rk n s = Inr (r, s')"
  shows "levels_inv s' \<and>
    (if find_xp u ev rk s = None
     then xp_in u (xp_ledger s') = xp_in u (xp_ledger s) + n \<and>
       (\<exists>l. find (\<lambda>l. fl_user_id l = u) (fan_levels s') = Some l \<and>
         fl_total_xp l = xp_in u (xp_ledger s') \<and> fl_level l = level_for_total_xp (fl_total_xp l) s) \<and>
       (\<forall>v. v \<noteq> u \<longrightarrow> find (\<lambda>l. fl_user_id l = v) (fan_levels s') =
         find (\<lambda>l. fl_user_id l = v) (fan_levels s))
     else s' = s)"
  using assms(2)
proof (cases rule: grant_xp_cases)
  case New
  let ?t = "xp_in u (xp_ledger s @ [r])"
  have led: "xp_ledger s' = xp_ledger s @ [r]" by (simp add: New(8) set_level_def)
  have find: "find (\<lambda>l. fl_user_id l = v) (fan_levels s') =
    (if v = u then Some \<lparr>fl_user_id = u, fl_total_xp = ?t, fl_level = level_for_total_xp ?t s\<rparr>
     else find (\<lambda>l. fl_user_id l = v) (fan_levels s))" for v
    unfolding New(8) find_set_level by simp
  moreover have "?t = xp_in u (xp_ledger s) + n" using New(2,5) by (simp add: xp_in_def table_simps)
  ultimately show ?thesis using New(1) find led grant_xp_keeps [OF assms(2,1)] by simp
qed (use assms(1) in simp)

definition fan_db :: db where
  "fan_db = empty_db\<lparr>xp_ledger := [\<lparr>xl_id = ''x0'', xl_user_id = ''ann'', xl_event_id = ''e0'',
      xl_rule_key = ''base'', xl_amount = 90, xl_created_at = 0\<rparr>],
    fan_levels := [\<lparr>fl_user_id = ''ann'', fl_total_xp = 90, fl_level = 1\<rparr>]\<rparr>"

theorem grant_xp_exact_witness:
  "\<exists>r s'. grant_xp ''ann'' ''e1'' ''base'' 30 fan_db = Inr (r, s') \<and>
    (\<exists>l. find (\<lambda>l. fl_user_id l = ''ann'') (fan_levels s') = Some l \<and>
      fl_total_xp l = 120 \<and> fl_level l = 2)"
proof -
  have inv: "levels_inv fan_db"
    by (simp add: fan_db_def empty_db_def levels_ok_def unique_by_def xp_in_def sum_where_def)
  have none: "find_xp ''ann'' ''e1'' ''base'' fan_db = None" by code_simp
  have "\<not> isl (grant_xp ''ann'' ''e1'' ''base'' 30 fan_db)" by code_simp
  then obtain r s' where r: "grant_xp ''ann'' ''e1'' ''base'' 30 fan_db = Inr (r, s')"
    by (cases "grant_xp ''ann'' ''e1'' ''base'' 30 fan_db") auto
  have xp: "xp_in ''ann'' (xp_ledger fan_db) + 30 = 120" and lv: "level_for_total_xp 120 fan_db = 2"
    by code_simp+
  from grant_xp_exact [OF inv r] none xp lv show ?thesis
    by (intro exI [of _ r] exI [of _ s'] conjI r) auto
qed

text \<open>Levels: a fan's level is at least 1 and never falls when the total grows, under the default
  policy and under any published policy whose thresholds name levels from 1 on.\<close>

theorem level_monotone:
  assumes "\<And>t. t \<in> set (level_thresholds s) \<Longrightarrow> 1 \<le> lt_level t" and "x \<le> y"
  shows "1 \<le> level_for_total_xp x s \<and> level_for_total_xp x s \<le> level_for_total_xp y s"
  using assms by (rule level_for_total_xp_mono)

definition policy_db :: db where
  "policy_db = empty_db\<lparr>
    level_policy_versions := [\<lparr>lp_id = ''v1'', lp_status = ''published'', lp_is_active = True,
      lp_effective_at = Some 0\<rparr>],
    level_thresholds := [\<lparr>lt_id = ''t1'', lt_policy_version_id = ''v1'', lt_level = 1, lt_required_xp = 0\<rparr>,
      \<lparr>lt_id = ''t2'', lt_policy_version_id = ''v1'', lt_level = 4, lt_required_xp = 50\<rparr>]\<rparr>"

theorem level_monotone_witness:
  "level_for_total_xp 60 policy_db = 4 \<and> 4 \<le> level_for_total_xp 70 policy_db"
proof -
  have "level_for_total_xp 60 policy_db = 4" by code_simp
  moreover have "1 \<le> lt_level t" if "t \<in> set (level_thresholds policy_db)" for t
    using that by (auto simp: policy_db_def)
  ultimately show ?thesis using level_monotone [of policy_db 60 70] by simp
qed

text \<open>Claiming a reward grant twice is harmless: the second claim returns the same data as the
  first and leaves the state unchanged, so the instant of the claim is never overwritten and one
  notification is stored.\<close>

theorem claim_reward_once:
  assumes "claim_reward_grant u i s = Inr (d, s')"
  shows "claim_reward_grant u i s' = Inr (d, s')"
proof -
  from assms obtain g r where gr: "locked_reward_grant_with_catalog u i s = Some (g, r)"
    by (auto simp: claim_reward_grant_def inr_simps)
  show ?thesis
  proof (cases "rg_claimed_at g")
    case None
    with assms gr have s': "d = reward_grant_data (g\<lparr>rg_claimed_at := Some (now s)\<rparr>) r"
      "reward_grants s' = update_where (\<lambda>x. rg_id x = rg_id g) (\<lambda>x. x\<lparr>rg_claimed_at := Some (now s)\<rparr>)
        (reward_grants s)" "reward_catalog s' = reward_catalog s"
      by (auto simp: claim_reward_grant_def inr_simps Let_def set_grant_def dest!: touch)
    from locked_after_claim [OF gr s'(2,3)] s'(1) show ?thesis by (simp add: claim_reward_grant_def)
  next
    case (Some t)
    with assms gr show ?thesis by (simp add: claim_reward_grant_def)
  qed
qed

definition badge_reward :: reward where
  "badge_reward = \<lparr>rw_id = ''r1'', rw_organization_id = None, rw_artist_id = None,
     rw_reward_type = ''badge'', rw_name = ''Debut badge'', rw_metadata = [],
     rw_status = ''published''\<rparr>"

definition reward_db :: "time option \<Rightarrow> db" where
  "reward_db claimed = empty_db\<lparr>reward_catalog := [badge_reward],
     reward_grants := [\<lparr>rg_id = ''g1'', rg_user_id = ''ann'', rg_reward_id = ''r1'',
       rg_source_event_id = ''e1'', rg_rule_key = ''k'', rg_granted_at = 0,
       rg_claimed_at = claimed, rg_revoked_at = None\<rparr>]\<rparr>"

theorem claim_reward_once_witness:
  "\<exists>d s'. claim_reward_grant ''ann'' ''g1'' (reward_db None) = Inr (d, s') \<and>
    claim_reward_grant ''ann'' ''g1'' s' = Inr (d, s')"
proof -
  have "\<not> isl (claim_reward_grant ''ann'' ''g1'' (reward_db None))" by code_simp
  then obtain d s' where "claim_reward_grant ''ann'' ''g1'' (reward_db None) = Inr (d, s')"
    by (cases "claim_reward_grant ''ann'' ''g1'' (reward_db None)") auto
  with claim_reward_once [OF this] show ?thesis by blast
qed

text \<open>Equipment round trip: when saving succeeds, the profile shows exactly the title, badges (at
  most three), frame and theme that were sent, and saving succeeds only for distinct, claimed,
  unrevoked grants of the fan whose published rewards have the types of their positions.\<close>

theorem equipment_roundtrip:
  assumes "update_profile_equipment u p s = Inr (q, s')"
    and "unique_by rw_id (reward_catalog s)" and "length (qp_badge_reward_ids p) \<le> 3"
    and "[] \<notin> set (qp_badge_reward_ids p)" and "qp_title_reward_id p \<noteq> Some []"
    and "qp_frame_reward_id p \<noteq> Some []" and "qp_theme_reward_id p \<noteq> Some []"
  shows "q = p \<and> equipment_data u s' = p \<and> distinct (equipped_ids p) \<and>
    (\<forall>i \<in> set (equipped_ids p). \<exists>g r. reward_grant_with_catalog u i s = Some (g, r) \<and>
      rg_user_id g = u \<and> rg_claimed_at g \<noteq> None \<and> rg_revoked_at g = None \<and> rw_status r = ''published'')"
proof -
  from assms(1) obtain s1 s2 s3 s4 where
    d: "distinct (equipped_ids p)"
    and v: "foldE (validate_equipment_reward u ''title'') (optional_id (qp_title_reward_id p)) s = Inr s1"
      "foldE (validate_equipment_reward u ''badge'') (qp_badge_reward_ids p) s1 = Inr s2"
      "foldE (validate_equipment_reward u ''profile_frame'') (optional_id (qp_frame_reward_id p)) s2 = Inr s3"
      "foldE (validate_equipment_reward u ''collection_theme'') (optional_id (qp_theme_reward_id p)) s3 = Inr s4"
    and s': "s' = save_equipment u (equipped_ids p) (qp_public_profile_enabled p) s4"
    and q: "q = equipment_data u s'"
    by (auto simp: update_profile_equipment_def Let_def bindE_eq_Inr split: if_splits)
  note v' = validate_all [OF v(1)] validate_all [OF v(2)] validate_all [OF v(3)] validate_all [OF v(4)]
  have [simp]: "s1 = s" "s2 = s" "s3 = s" "s4 = s" using v' by simp_all
  have "reward_grants s' = reward_grants s" "get_reward j s' = get_reward j s" for j
    by (simp_all add: s' save_equipment_def get_reward_def)
  then have ty: "reward_type_of u i s' = reward_type_of u i s" for i
    by (simp add: reward_type_of_def split: option.split)
  have "(\<forall>i \<in> set (optional_id (qp_title_reward_id p)). reward_type_of u i s = Some ''title'') \<and>
    (\<forall>i \<in> set (qp_badge_reward_ids p). reward_type_of u i s = Some ''badge'') \<and>
    (\<forall>i \<in> set (optional_id (qp_frame_reward_id p)). reward_type_of u i s = Some ''profile_frame'') \<and>
    (\<forall>i \<in> set (optional_id (qp_theme_reward_id p)). reward_type_of u i s = Some ''collection_theme'')"
    using v' reward_type_of_valid [OF _ assms(2)] by fastforce
  then have types: "qp_title_reward_id p = Some i \<Longrightarrow> reward_type_of u i s = Some ''title''"
    "i \<in> set (qp_badge_reward_ids p) \<Longrightarrow> reward_type_of u i s = Some ''badge''"
    "qp_frame_reward_id p = Some i \<Longrightarrow> reward_type_of u i s = Some ''profile_frame''"
    "qp_theme_reward_id p = Some i \<Longrightarrow> reward_type_of u i s = Some ''collection_theme''" for i
    using assms(5-7) by (auto simp: optional_id_def)
  have "filter (\<lambda>i. i \<noteq> []) (qp_badge_reward_ids p) = qp_badge_reward_ids p"
    using assms(4) by (auto simp: filter_id_conv)
  moreover have "find (\<lambda>q. eq_user_id q = u) (profile_equipment s') =
      Some \<lparr>eq_user_id = u, eq_equipped_reward_ids = equipped_ids p,
        eq_is_public = qp_public_profile_enabled p\<rparr>"
    by (simp add: s' find_saved)
  ultimately have shown: "equipment_data u s' = p"
    using types assms(3,5-7)
    by (simp add: equipment_data_def ty Let_def equipped_ids_def place_optional place_badges)
  moreover have "\<forall>i \<in> set (equipped_ids p). \<exists>g r. reward_grant_with_catalog u i s = Some (g, r) \<and>
      rg_claimed_at g \<noteq> None"
    using v' by (auto simp: equipped_ids_def)
  moreover have "rg_user_id g = u \<and> rg_revoked_at g = None \<and> rw_status r = ''published''"
    if "reward_grant_with_catalog u i s = Some (g, r)" for i g r
    using that by (auto simp: reward_grant_with_catalog_def dest!: find_SomeD split: option.splits)
  ultimately show ?thesis using d q by blast
qed

definition badge_payload :: equipment_payload where
  "badge_payload = \<lparr>qp_title_reward_id = None, qp_badge_reward_ids = [''g1''],
     qp_frame_reward_id = None, qp_theme_reward_id = None, qp_public_profile_enabled = True\<rparr>"

theorem equipment_roundtrip_witness:
  "\<exists>s'. update_profile_equipment ''ann'' badge_payload (reward_db (Some 3)) = Inr (badge_payload, s') \<and>
    equipment_data ''ann'' s' = badge_payload"
proof -
  have "\<not> isl (update_profile_equipment ''ann'' badge_payload (reward_db (Some 3)))" by code_simp
  then obtain q s' where r: "update_profile_equipment ''ann'' badge_payload (reward_db (Some 3)) = Inr (q, s')"
    by (cases "update_profile_equipment ''ann'' badge_payload (reward_db (Some 3))") auto
  from equipment_roundtrip [OF r] have "q = badge_payload \<and> equipment_data ''ann'' s' = badge_payload"
    by (simp add: reward_db_def empty_db_def unique_by_def badge_payload_def)
  with r show ?thesis by blast
qed

end
