(* ===== verification/Shop.thy ===== *)
theory Shop
  imports Points Growth Ownership
begin

text \<open>
  The storefront (\<open>backend/app/routers/fan.py\<close>): point purchases of products, their
  refunds, the exchange of points for rewards, and the opening of card packs.
\<close>

section \<open>Products and orders\<close>

definition get_product :: "ident \<Rightarrow> db \<Rightarrow> shop_product option" where
  "get_product i s = find (\<lambda>p. sp_id p = i) (shop_products s)"

definition set_product :: "ident \<Rightarrow> (shop_product \<Rightarrow> shop_product) \<Rightarrow> db \<Rightarrow> db" where
  "set_product i f s = s\<lparr>shop_products := update_where (\<lambda>p. sp_id p = i) f (shop_products s)\<rparr>"

text \<open>Primary key and \<open>uq_shop_orders_user_key\<close> (null keys never clash).\<close>

definition clash_order :: "shop_order \<Rightarrow> shop_order \<Rightarrow> bool" where
  "clash_order r x \<longleftrightarrow> so_id x = so_id r \<or>
    (so_idempotency_key r \<noteq> None \<and> so_user_id x = so_user_id r \<and>
     so_idempotency_key x = so_idempotency_key r)"

definition add_order :: "shop_order \<Rightarrow> db \<Rightarrow> exn + db" where
  "add_order r s =
    bindE (insert_row clash_order r (shop_orders s)) (\<lambda>rows. Inr (s\<lparr>shop_orders := rows\<rparr>))"

definition set_order :: "ident \<Rightarrow> (shop_order \<Rightarrow> shop_order) \<Rightarrow> db \<Rightarrow> db" where
  "set_order i f s = s\<lparr>shop_orders := update_where (\<lambda>r. so_id r = i) f (shop_orders s)\<rparr>"

definition clash_order_entitlement :: "shop_order_entitlement \<Rightarrow> shop_order_entitlement \<Rightarrow> bool" where
  "clash_order_entitlement r x \<longleftrightarrow> soe_id x = soe_id r \<or> soe_order_id x = soe_order_id r"

definition shop_product_is_sellable :: "shop_product \<Rightarrow> time \<Rightarrow> bool" where
  "shop_product_is_sellable p t \<longleftrightarrow>
    sp_status p = ''published'' \<and>
    (case sp_starts_at p of None \<Rightarrow> True | Some a \<Rightarrow> a \<le> t) \<and>
    (case sp_ends_at p of None \<Rightarrow> True | Some b \<Rightarrow> t \<le> b)"

section \<open>Purchases\<close>

datatype order_response =
    OrderReplayed ident ident string
  | OrderCreated ident ident string

text \<open>The checks of \<open>create_shop_order\<close> on the product it is about to sell.\<close>

definition purchase_error :: "ident \<Rightarrow> shop_product \<Rightarrow> db \<Rightarrow> exn option" where
  "purchase_error u p s =
    (if \<not> shop_product_is_sellable p (now s) then Some (AppError 409 ''SHOP_PRODUCT_UNAVAILABLE'')
     else if sp_product_type p = ''card_pack'' \<and> \<not> present (sp_card_pack_id p)
     then Some (AppError 409 ''SHOP_PRODUCT_NOT_PURCHASABLE'')
     else if sp_product_type p \<noteq> ''card_pack'' \<and> \<not> truthy (jget (sp_fulfillment p) ''rewardId'')
     then Some (AppError 409 ''SHOP_PRODUCT_NOT_PURCHASABLE'')
     else if (case sp_inventory_limit p of None \<Rightarrow> False | Some n \<Rightarrow> n \<le> sp_sold_count p)
     then Some (AppError 409 ''SHOP_PRODUCT_SOLD_OUT'')
     else if (case sp_per_user_limit p of
                None \<Rightarrow> False
              | Some n \<Rightarrow> n \<le> int (count_where (\<lambda>r. so_user_id r = u \<and> so_product_id r = sp_id p \<and>
                  so_status r = ''completed'') (shop_orders s)))
     then Some (AppError 409 ''SHOP_PRODUCT_USER_LIMIT'')
     else None)"

definition purchase_analytics ::
  "string \<Rightarrow> string \<Rightarrow> ident \<Rightarrow> shop_product \<Rightarrow> analytics_args" where
  "purchase_analytics event_name dedupe u p =
    \<lparr>aa_event_name = event_name, aa_user_id = Some u, aa_organization_id = None,
     aa_artist = sp_artist_id p, aa_card_id = None, aa_pack_id = sp_card_pack_id p,
     aa_source = Some ''shop_order'', aa_dedupe_key = Some dedupe,
     aa_metadata = [(''conversion'', JStr ''purchase''), (''productId'', JStr (sp_id p))]\<rparr>"

text \<open>What the buyer gets: the right to open the pack, or the product's reward.\<close>

definition fulfil_order :: "ident \<Rightarrow> shop_product \<Rightarrow> ident \<Rightarrow> ident \<Rightarrow> db \<Rightarrow> exn + db" where
  "fulfil_order u p order_id event_id s =
    (if sp_product_type p = ''card_pack'' then
       let r = \<lparr>soe_id = new_id ''shop_entitlement_'' s, soe_order_id = order_id, soe_user_id = u,
             soe_pack_id = the (sp_card_pack_id p), soe_status = ''available'',
             soe_opened_at = None, soe_created_at = now s\<rparr>
       in bindE (insert_row clash_order_entitlement r (shop_order_entitlements s))
            (\<lambda>rows. Inr ((draw s)\<lparr>shop_order_entitlements := rows\<rparr>))
     else
       (case id_text (jget (sp_fulfillment p) ''rewardId'') of
          None \<Rightarrow> Inl (AppError 409 ''REWARD_NOT_PUBLISHED'')
        | Some reward_id \<Rightarrow>
            bindE (grant_reward u reward_id event_id (''shop_order:'' @ order_id) s)
              (\<lambda>(_, s1). Inr s1)))"

definition purchase_args :: "ident \<Rightarrow> shop_product \<Rightarrow> ident \<Rightarrow> ident \<Rightarrow> point_args" where
  "purchase_args u p order_id event_id =
    \<lparr>pa_user_id = u, pa_source_event_id = event_id, pa_rule_key = ''shop_order:'' @ sp_id p,
     pa_amount = sp_price_points p,
     pa_metadata = [(''productId'', JStr (sp_id p)), (''cardPackId'', jopt (sp_card_pack_id p)),
       (''orderId'', JStr order_id)],
     pa_expires_at = None, pa_reversed_ledger_id = None\<rparr>"

definition new_order :: "ident \<Rightarrow> shop_product \<Rightarrow> string \<Rightarrow> string \<Rightarrow> db \<Rightarrow> shop_order" where
  "new_order u p payment_method key s =
    \<lparr>so_id = new_id ''shop_order_'' s, so_user_id = u, so_product_id = sp_id p,
     so_product_name = sp_name p, so_price_points = sp_price_points p,
     so_payment_method = payment_method, so_status = ''completed'',
     so_idempotency_key = Some key, so_point_ledger_id = None, so_point_event_id = None,
     so_refund_transaction_id = None, so_refunded_at = None, so_created_at = now s\<rparr>"

definition order_transaction :: "ident \<Rightarrow> string \<Rightarrow> string \<Rightarrow> int \<Rightarrow> ident \<Rightarrow> db \<Rightarrow> point_transaction" where
  "order_transaction u operation key amount ledger_id s =
    \<lparr>pt_id = new_id ''point_tx_'' s, pt_user_id = u, pt_operation = operation,
     pt_idempotency_key = key, pt_amount = amount, pt_resource_type = None, pt_resource_id = None,
     pt_request_hash = None, pt_ledger_id = Some ledger_id, pt_status = ''completed'',
     pt_created_at = now s\<rparr>"

text \<open>The writes of a purchase, once the product is known and the checks have passed.\<close>

definition book_order ::
  "ident \<Rightarrow> shop_product \<Rightarrow> string \<Rightarrow> string \<Rightarrow> db \<Rightarrow> exn + shop_order \<times> db" where
  "book_order u p payment_method key s =
    bindE (record_analytics_event (purchase_analytics ''conversion.started''
        (''shop-order-attempt:'' @ u @ '':'' @ sp_id p @ '':'' @ key) u p) s) (\<lambda>(_, s1).
    let order = new_order u p payment_method key s1
    in bindE (add_order order (draw s1)) (\<lambda>s2.
    let s3 = set_product (sp_id p) (\<lambda>q. q\<lparr>sp_sold_count := sp_sold_count q + 1\<rparr>) s2
    in bindE (record_engagement_event u ''points_spent'' ''shop_order'' (so_id order)
        [(''productId'', JStr (sp_id p)), (''points'', JInt (sp_price_points p)),
         (''orderId'', JStr (so_id order))] s3) (\<lambda>(event, s4).
    bindE (record_analytics_event (purchase_analytics ''conversion.completed''
        (''shop-order:'' @ so_id order) u p) s4) (\<lambda>(_, s5).
    bindE (spend_points (purchase_args u p (so_id order) (ev_id event)) s5) (\<lambda>(ledger, s6).
    let order' = order\<lparr>so_point_ledger_id := Some (pl_id ledger), so_point_event_id := Some (ev_id event)\<rparr>;
        s7 = set_order (so_id order) (\<lambda>_. order') s6
    in bindE (fulfil_order u p (so_id order) (ev_id event) s7) (\<lambda>s8.
    bindE (add_transaction (order_transaction u ''charge'' key (- sp_price_points p) (pl_id ledger) s8)
        (draw s8)) (\<lambda>s9. Inr (order', s9))))))))"

definition create_shop_order ::
  "ident \<Rightarrow> ident \<Rightarrow> string \<Rightarrow> string option \<Rightarrow> db \<Rightarrow> exn + order_response \<times> db" where
  "create_shop_order u product_id payment_method header s =
    (case header of
       None \<Rightarrow> Inl (AppError 422 ''IDEMPOTENCY_KEY_REQUIRED'')
     | Some text \<Rightarrow>
    let key = py_strip text in
    if key = [] then Inl (AppError 422 ''IDEMPOTENCY_KEY_REQUIRED'')
    else if payment_method \<noteq> ''points'' then Inl (AppError 422 ''SHOP_PAYMENT_METHOD_UNSUPPORTED'')
    else
    (case find (\<lambda>r. so_user_id r = u \<and> so_idempotency_key r = Some key) (shop_orders s) of
       Some existing \<Rightarrow>
         if so_product_id existing \<noteq> product_id \<or> so_payment_method existing \<noteq> payment_method
         then Inl (AppError 409 ''IDEMPOTENCY_KEY_REUSED'')
         else Inr (OrderReplayed (so_id existing) (so_product_id existing) (so_status existing), s)
     | None \<Rightarrow>
    (case get_product product_id s of
       None \<Rightarrow> Inl (AppError 409 ''SHOP_PRODUCT_UNAVAILABLE'')
     | Some p \<Rightarrow>
    (case purchase_error u p s of
       Some e \<Rightarrow> Inl e
     | None \<Rightarrow>
         bindE (book_order u p payment_method key s) (\<lambda>(r, s').
         Inr (OrderCreated (so_id r) (so_product_id r) (so_status r), s'))))))"

section \<open>Refunds of purchases\<close>

text \<open>What was delivered is taken back, unless it was used.\<close>

definition revoke_delivery :: "ident \<Rightarrow> shop_order \<Rightarrow> db \<Rightarrow> exn + db" where
  "revoke_delivery u r s =
    (case find (\<lambda>x. soe_order_id x = so_id r) (shop_order_entitlements s) of
       Some entitlement \<Rightarrow>
         if soe_status entitlement = ''opened'' then Inl (AppError 409 ''SHOP_ORDER_NOT_REFUNDABLE'')
         else Inr (s\<lparr>shop_order_entitlements :=
           update_where (\<lambda>x. soe_id x = soe_id entitlement) (\<lambda>x. x\<lparr>soe_status := ''revoked''\<rparr>)
             (shop_order_entitlements s)\<rparr>)
     | None \<Rightarrow>
         (case find (\<lambda>g. rg_user_id g = u \<and> rg_rule_key g = ''shop_order:'' @ so_id r) (reward_grants s) of
            None \<Rightarrow> Inl (AppError 409 ''SHOP_ORDER_NOT_REFUNDABLE'')
          | Some g \<Rightarrow>
              if rg_revoked_at g \<noteq> None then Inl (AppError 409 ''SHOP_ORDER_NOT_REFUNDABLE'')
              else if rg_claimed_at g \<noteq> None then Inl (AppError 409 ''SHOP_ORDER_NOT_REFUNDABLE'')
              else Inr (set_grant (rg_id g) (\<lambda>x. x\<lparr>rg_revoked_at := Some (now s)\<rparr>) s)))"

definition refund_args :: "ident \<Rightarrow> shop_order \<Rightarrow> ident \<Rightarrow> ident \<Rightarrow> point_args" where
  "refund_args u r event_id original_id =
    \<lparr>pa_user_id = u, pa_source_event_id = event_id, pa_rule_key = ''shop_refund:'' @ so_id r,
     pa_amount = so_price_points r, pa_metadata = [(''orderId'', JStr (so_id r))],
     pa_expires_at = None, pa_reversed_ledger_id = Some original_id\<rparr>"

definition book_refund :: "ident \<Rightarrow> shop_order \<Rightarrow> string \<Rightarrow> db \<Rightarrow> exn + point_ledger_row \<times> db" where
  "book_refund u r key s =
    bindE (revoke_delivery u r s) (\<lambda>s1.
    case get_ledger (the (so_point_ledger_id r)) s1 of
      None \<Rightarrow> Inl (AppError 409 ''SHOP_ORDER_LEDGER_INVALID'')
    | Some original \<Rightarrow>
        if 0 \<le> pl_amount original then Inl (AppError 409 ''SHOP_ORDER_LEDGER_INVALID'')
        else
          bindE (record_engagement_event u ''points_refunded'' ''shop_refund''
              (so_id r @ '':'' @ key)
              [(''orderId'', JStr (so_id r)), (''points'', JInt (so_price_points r))] s1) (\<lambda>(event, s2).
          bindE (reverse_points (refund_args u r (ev_id event) (pl_id original)) s2) (\<lambda>(ledger, s3).
          let t = order_transaction u ''refund'' key (so_price_points r) (pl_id ledger) s3
          in bindE (add_transaction t (draw s3)) (\<lambda>s4.
             Inr (ledger, set_order (so_id r)
               (\<lambda>x. x\<lparr>so_status := ''refunded'', so_refund_transaction_id := Some (pt_id t),
                 so_refunded_at := Some (now s4)\<rparr>) s4)))))"

text \<open>The result is the order of the request and the balance after the refund.\<close>

definition refund_shop_order ::
  "ident \<Rightarrow> ident \<Rightarrow> string option \<Rightarrow> db \<Rightarrow> exn + (ident \<times> int) \<times> db" where
  "refund_shop_order u order_id header s =
    (if \<not> present header then Inl (AppError 422 ''IDEMPOTENCY_KEY_REQUIRED'')
     else
       let key = the header in
       case (case find_transaction u ''refund'' key s of
               None \<Rightarrow> None
             | Some t \<Rightarrow> if present (pt_ledger_id t) then get_ledger (the (pt_ledger_id t)) s else None) of
         Some ledger \<Rightarrow> Inr ((order_id, pl_balance_after ledger), s)
       | None \<Rightarrow>
      (case find (\<lambda>r. so_id r = order_id \<and> so_user_id r = u) (shop_orders s) of
         None \<Rightarrow> Inl (AppError 404 ''SHOP_ORDER_NOT_FOUND'')
       | Some r \<Rightarrow>
           if so_status r \<noteq> ''completed'' \<or> \<not> present (so_point_ledger_id r)
           then Inl (AppError 409 ''SHOP_ORDER_NOT_REFUNDABLE'')
           else bindE (book_refund u r key s) (\<lambda>(ledger, s'). Inr ((so_id r, pl_balance_after ledger), s'))))"

section \<open>Exchange of points for rewards\<close>

datatype exchange_response = ExchangeReplayed ident int | Exchanged ident ident int int

definition exchange_points ::
  "ident \<Rightarrow> ident \<Rightarrow> string option \<Rightarrow> db \<Rightarrow> exn + exchange_response \<times> db" where
  "exchange_points u reward_id header s =
    (case find (\<lambda>r. rw_id r = reward_id \<and> rw_status r = ''published'') (reward_catalog s) of
       None \<Rightarrow> Inl (AppError 404 ''REWARD_NOT_FOUND'')
     | Some reward \<Rightarrow>
    (case py_int_or_0 (jget (rw_metadata reward) ''pointCost'') of
       None \<Rightarrow> Inl (AppError 422 ''REWARD_POINT_COST_INVALID'')
     | Some cost \<Rightarrow>
    if cost \<le> 0 then Inl (AppError 409 ''REWARD_NOT_EXCHANGEABLE'')
    else
      let s1 = (if present header then s else draw s);
          source_id = u @ '':'' @ reward_id @ '':'' @
            (if present header then the header else new_id [] s)
      in case (case find_event u ''points_spent'' ''point_exchange'' source_id s1 of
                 None \<Rightarrow> None
               | Some e \<Rightarrow> find (\<lambda>g. rg_user_id g = u \<and> rg_source_event_id g = ev_id e \<and>
                   rg_revoked_at g = None) (reward_grants s1)) of
           Some g \<Rightarrow> Inr (ExchangeReplayed (rg_id g) (balance_of u s1), s1)
         | None \<Rightarrow>
             bindE (record_engagement_event u ''points_spent'' ''point_exchange'' source_id
                 [(''rewardId'', JStr (rw_id reward)), (''points'', JInt cost)] s1) (\<lambda>(event, s2).
             bindE (spend_points
                 \<lparr>pa_user_id = u, pa_source_event_id = ev_id event,
                  pa_rule_key = ''point_exchange:'' @ rw_id reward, pa_amount = cost,
                  pa_metadata = [(''rewardId'', JStr (rw_id reward))],
                  pa_expires_at = None, pa_reversed_ledger_id = None\<rparr> s2) (\<lambda>(_, s3).
             let grant = \<lparr>rg_id = new_id ''reward_grant_'' s3, rg_user_id = u,
                   rg_reward_id = rw_id reward, rg_source_event_id = ev_id event,
                   rg_rule_key = ''point_exchange:'' @ rw_id reward, rg_granted_at = now s3,
                   rg_claimed_at = None, rg_revoked_at = None\<rparr>
             in bindE (insert_row clash_grant grant (reward_grants s3)) (\<lambda>rows.
                let s4 = (draw s3)\<lparr>reward_grants := rows\<rparr>
                in Inr (Exchanged (rg_id grant) (rw_id reward) cost (balance_of u s4), s4))))))"

section \<open>Opening card packs\<close>

definition clash_opening :: "card_pack_opening \<Rightarrow> card_pack_opening \<Rightarrow> bool" where
  "clash_opening r x \<longleftrightarrow> cpo_id x = cpo_id r \<or> cpo_issuance_code x = cpo_issuance_code r \<or>
    (cpo_idempotency_key r \<noteq> None \<and> cpo_user_id x = cpo_user_id r \<and>
     cpo_pack_id x = cpo_pack_id r \<and> cpo_idempotency_key x = cpo_idempotency_key r)"

definition find_pack :: "ident \<Rightarrow> db \<Rightarrow> card_pack option" where
  "find_pack i s = find (\<lambda>p. cp_id p = i \<and> cp_status p = ''published'') (card_packs s)"

text \<open>
  The oldest unused right to open the pack is marked opened: a purchased one first, else a
  rewarded one. Having none is no error.
\<close>

definition consume_entitlement :: "ident \<Rightarrow> ident \<Rightarrow> db \<Rightarrow> db" where
  "consume_entitlement u pack_id s =
    (case sort_key (\<lambda>x. (soe_created_at x, soe_id x))
        (filter (\<lambda>x. soe_user_id x = u \<and> soe_pack_id x = pack_id \<and> soe_status x = ''available'')
          (shop_order_entitlements s)) of
       entitlement # _ \<Rightarrow>
         s\<lparr>shop_order_entitlements :=
           update_where (\<lambda>x. soe_id x = soe_id entitlement)
             (\<lambda>x. x\<lparr>soe_status := ''opened'', soe_opened_at := Some (now s)\<rparr>)
             (shop_order_entitlements s)\<rparr>
     | [] \<Rightarrow>
         (case sort_key (\<lambda>x. (rpe_created_at x, rpe_id x))
             (filter (\<lambda>x. rpe_user_id x = u \<and> rpe_pack_id x = pack_id \<and> rpe_status x = ''available'')
               (reward_pack_entitlements s)) of
            entitlement # _ \<Rightarrow>
              s\<lparr>reward_pack_entitlements :=
                update_where (\<lambda>x. rpe_id x = rpe_id entitlement)
                  (\<lambda>x. x\<lparr>rpe_status := ''opened'', rpe_opened_at := Some (now s)\<rparr>)
                  (reward_pack_entitlements s)\<rparr>
          | [] \<Rightarrow> s))"

text \<open>The published cards of a pack in the order of its odds table.\<close>

definition pack_rows :: "ident \<Rightarrow> db \<Rightarrow> (card_pack_card \<times> card_row) list" where
  "pack_rows pack_id s =
    filter (\<lambda>(_, c). c_status c = ''published'')
      (concat (map (\<lambda>l. case get_card (cpc_card_id l) s of None \<Rightarrow> [] | Some c \<Rightarrow> [(l, c)])
        (sort_key (\<lambda>l. (cpc_position l, cpc_id l))
          (filter (\<lambda>l. cpc_pack_id l = pack_id \<and> cpc_enabled l) (card_pack_cards s)))))"

text \<open>The first row whose cumulated probability reaches the draw; the last row when none does.\<close>

fun pick_row :: "rat \<Rightarrow> rat \<Rightarrow> (card_pack_card \<times> card_row) list \<Rightarrow> (card_pack_card \<times> card_row) option" where
  "pick_row r cursor [] = None"
| "pick_row r cursor (x # xs) =
    (if r \<le> cursor + cpc_probability (fst x) then Some x
     else pick_row r (cursor + cpc_probability (fst x)) xs)"

definition select_row :: "rat \<Rightarrow> (card_pack_card \<times> card_row) list \<Rightarrow> card_pack_card \<times> card_row" where
  "select_row r rows = (case pick_row r 0 rows of Some x \<Rightarrow> x | None \<Rightarrow> last rows)"

record pack_result =
  pr_opening_id :: ident
  pr_issuance_code :: string
  pr_user_card_id :: ident
  pr_pack_id :: ident
  pr_card_id :: ident
  pr_serial_number :: int
  pr_probability :: rat

text \<open>The stored result of an earlier request with the same key, when it is complete.\<close>

definition replayed_opening :: "ident \<Rightarrow> ident \<Rightarrow> string option \<Rightarrow> db \<Rightarrow> pack_result option" where
  "replayed_opening u pack_id header s =
    (if \<not> present header then None
     else case find (\<lambda>r. cpo_user_id r = u \<and> cpo_pack_id r = pack_id \<and> cpo_idempotency_key r = header)
         (card_pack_openings s) of
       None \<Rightarrow> None
     | Some r \<Rightarrow>
         if \<not> present (cpo_user_card_id r) then None
         else (case (get_user_card (the (cpo_user_card_id r)) s,
                     find (\<lambda>l. cpc_pack_id l = pack_id \<and> cpc_card_id l = cpo_card_id r) (card_pack_cards s),
                     get_card (cpo_card_id r) s) of
                 (Some uc, Some l, Some c) \<Rightarrow>
                   Some \<lparr>pr_opening_id = cpo_id r, pr_issuance_code = cpo_issuance_code r,
                     pr_user_card_id = uc_id uc, pr_pack_id = pack_id, pr_card_id = c_id c,
                     pr_serial_number = uc_serial_number uc, pr_probability = cpc_probability l\<rparr>
               | _ \<Rightarrow> None))"

text \<open>
  The grant of a drawn card with its opening, event, audit entry, notification and
  analytics. The entropy of the issuance code and of the opening's identifier is drawn first.
\<close>

definition open_row ::
  "ident \<Rightarrow> card_pack \<Rightarrow> string option \<Rightarrow> card_pack_card \<Rightarrow> card_row \<Rightarrow> db \<Rightarrow> exn + pack_result \<times> db" where
  "open_row u pack header link c s =
    (let code = new_id ''PF-'' s; s1 = draw s; opening_id = new_id ''opening_'' s1; s2 = draw s1
     in bindE (grant_user_card
         \<lparr>cg_user_id = u, cg_card_id = c_id c, cg_source_type = ''card_pack_opening'',
          cg_source_id = opening_id, cg_acquisition_source = ''card_pack'',
          cg_metadata = [(''packId'', JStr (cp_id pack)), (''issuanceCode'', JStr code),
            (''probabilityVersion'', JStr (cp_version pack)),
            (''probability'', JNum (cpc_probability link))],
          cg_redeem_code_id = None, cg_drop_id = c_drop_id c\<rparr> s2) (\<lambda>(uc, s3).
        bindE (insert_row clash_opening
            \<lparr>cpo_id = opening_id, cpo_user_id = u, cpo_pack_id = cp_id pack, cpo_card_id = c_id c,
             cpo_user_card_id = Some (uc_id uc), cpo_idempotency_key = header,
             cpo_issuance_code = code, cpo_created_at = now s3\<rparr> (card_pack_openings s3)) (\<lambda>rows.
        bindE (record_engagement_event u ''card_collected'' ''user_card'' (uc_id uc)
            [(''cardId'', JStr (c_id c)), (''artistId'', jopt (c_artist_id c)),
             (''memberId'', jopt (c_member_id c)), (''packId'', JStr (cp_id pack)),
             (''source'', JStr ''card_pack'')] (s3\<lparr>card_pack_openings := rows\<rparr>)) (\<lambda>(event, s4).
        bindE (record_audit
            \<lparr>au_actor_user_id = Some u, au_action = ''card_pack.opened'',
             au_entity_type = ''card_pack_opening'', au_entity_id = opening_id,
             au_organization_id = None, au_artist_id = Some (cp_artist_id pack),
             au_details = [(''cardId'', JStr (c_id c)), (''userCardId'', JStr (uc_id uc)),
               (''engagementEventId'', JStr (ev_id event))]\<rparr> s4) (\<lambda>s5.
        bindE (notify_user_once u ''card_pack_opened'' ''user_card'' (uc_id uc)
            (''pack-opening:'' @ opening_id) s5) (\<lambda>s6.
        bindE (record_analytics_event
            \<lparr>aa_event_name = ''card_pack.opened'', aa_user_id = Some u,
             aa_organization_id =
               (if present (cp_organization_id pack) then cp_organization_id pack else c_organization_id c),
             aa_artist = Some (cp_artist_id pack), aa_card_id = Some (c_id c),
             aa_pack_id = Some (cp_id pack), aa_source = Some ''card_pack'',
             aa_dedupe_key = Some (''card-pack-opened:'' @ opening_id),
             aa_metadata = [(''userCardId'', JStr (uc_id uc)), (''openingId'', JStr opening_id)]\<rparr> s6)
          (\<lambda>(_, s7).
        Inr (\<lparr>pr_opening_id = opening_id, pr_issuance_code = code, pr_user_card_id = uc_id uc,
              pr_pack_id = cp_id pack, pr_card_id = c_id c, pr_serial_number = uc_serial_number uc,
              pr_probability = cpc_probability link\<rparr>, s7))))))))"

text \<open>\<open>r\<close> is the value of \<open>SystemRandom().uniform(0, 100)\<close>.\<close>

definition open_card_pack ::
  "ident \<Rightarrow> ident \<Rightarrow> string option \<Rightarrow> rat \<Rightarrow> db \<Rightarrow> exn + pack_result \<times> db" where
  "open_card_pack u pack_id header r s =
    (case find_pack pack_id s of
       None \<Rightarrow> Inl (AppError 404 ''CARD_PACK_NOT_FOUND'')
     | Some pack \<Rightarrow>
    let s1 = consume_entitlement u (cp_id pack) s in
    case replayed_opening u (cp_id pack) header s1 of
      Some result \<Rightarrow> Inr (result, s1)
    | None \<Rightarrow>
    let rows = pack_rows (cp_id pack) s1 in
    if rows = [] \<or> 1 / 1000 < \<bar>sum_list (map (\<lambda>(l, _). cpc_probability l) rows) - 100\<bar>
    then Inl (AppError 409 ''INVALID_PACK_ODDS'')
    else if list_ex (\<lambda>(_, c). c_status c \<noteq> ''published'') rows
    then Inl (AppError 409 ''PACK_CARDS_NOT_PUBLISHED'')
    else
      (case select_row r rows of (link, selected) \<Rightarrow>
        (case get_card (c_id selected) s1 of
           None \<Rightarrow> Inl (AppError 409 ''CARD_NOT_FOUND'')
         | Some c \<Rightarrow> open_row u pack header link c s1)))"

section \<open>Frames\<close>

lemma add_order_touch [touch]: "add_order r s = Inr s' \<Longrightarrow> \<exists>rs. s' = s\<lparr>shop_orders := rs\<rparr>"
  by (auto simp: add_order_def inr_simps)

lemma fulfil_order_touch [touch]:
  assumes "fulfil_order u p i e s = Inr s'"
  shows "\<exists>es gs n. s' = s\<lparr>shop_order_entitlements := es, reward_grants := gs, drawn := n\<rparr>"
proof -
  from assms have "s' = s\<lparr>shop_order_entitlements := shop_order_entitlements s',
      reward_grants := reward_grants s', drawn := drawn s'\<rparr>"
    by (auto simp: fulfil_order_def inr_simps Let_def draw_def dest!: growth_touch)
  then show ?thesis by blast
qed

lemma revoke_delivery_touch [touch]:
  assumes "revoke_delivery u r s = Inr s'"
  shows "\<exists>es gs. s' = s\<lparr>shop_order_entitlements := es, reward_grants := gs\<rparr>"
proof -
  from assms have "s' = s\<lparr>shop_order_entitlements := shop_order_entitlements s',
      reward_grants := reward_grants s'\<rparr>"
    by (auto simp: revoke_delivery_def inr_simps set_grant_def)
  then show ?thesis by blast
qed

lemma set_order_touch [simp]:
  "point_ledger (set_order i f s) = point_ledger s" "point_balances (set_order i f s) = point_balances s"
  "point_ledger (set_product i g s) = point_ledger s" "point_balances (set_product i g s) = point_balances s"
  by (simp_all add: set_order_def set_product_def)

text \<open>The steps of a purchase and of a refund.\<close>

lemma book_order_cases:
  assumes "book_order u p pm key s = Inr (r, s')"
  obtains a s1 s2 event s4 b s5 ledger s6 s8 where
    "record_analytics_event (purchase_analytics ''conversion.started''
        (''shop-order-attempt:'' @ u @ '':'' @ sp_id p @ '':'' @ key) u p) s = Inr (a, s1)"
    "add_order (new_order u p pm key s1) (draw s1) = Inr s2"
    "record_engagement_event u ''points_spent'' ''shop_order'' (so_id (new_order u p pm key s1))
        [(''productId'', JStr (sp_id p)), (''points'', JInt (sp_price_points p)),
         (''orderId'', JStr (so_id (new_order u p pm key s1)))]
        (set_product (sp_id p) (\<lambda>q. q\<lparr>sp_sold_count := sp_sold_count q + 1\<rparr>) s2) = Inr (event, s4)"
    "record_analytics_event (purchase_analytics ''conversion.completed''
        (''shop-order:'' @ so_id (new_order u p pm key s1)) u p) s4 = Inr (b, s5)"
    "spend_points (purchase_args u p (so_id (new_order u p pm key s1)) (ev_id event)) s5 = Inr (ledger, s6)"
    "r = (new_order u p pm key s1)\<lparr>so_point_ledger_id := Some (pl_id ledger),
        so_point_event_id := Some (ev_id event)\<rparr>"
    "fulfil_order u p (so_id r) (ev_id event) (set_order (so_id r) (\<lambda>_. r) s6) = Inr s8"
    "add_transaction (order_transaction u ''charge'' key (- sp_price_points p) (pl_id ledger) s8)
        (draw s8) = Inr s'"
proof -
  obtain a s1 where 1: "record_analytics_event (purchase_analytics ''conversion.started''
        (''shop-order-attempt:'' @ u @ '':'' @ sp_id p @ '':'' @ key) u p) s = Inr (a, s1)"
    using assms unfolding book_order_def by (auto simp only: bindE_eq_Inr)
  note r1 = assms [unfolded book_order_def 1 bindE_Inr prod.case Let_def]
  obtain s2 where 2: "add_order (new_order u p pm key s1) (draw s1) = Inr s2"
    using r1 by (auto simp only: bindE_eq_Inr)
  note r2 = r1 [unfolded 2 bindE_Inr]
  obtain event s4 where 3: "record_engagement_event u ''points_spent'' ''shop_order''
        (so_id (new_order u p pm key s1))
        [(''productId'', JStr (sp_id p)), (''points'', JInt (sp_price_points p)),
         (''orderId'', JStr (so_id (new_order u p pm key s1)))]
        (set_product (sp_id p) (\<lambda>q. q\<lparr>sp_sold_count := sp_sold_count q + 1\<rparr>) s2) = Inr (event, s4)"
    using r2 by (auto simp only: bindE_eq_Inr)
  note r3 = r2 [unfolded 3 bindE_Inr prod.case]
  obtain b s5 where 4: "record_analytics_event (purchase_analytics ''conversion.completed''
        (''shop-order:'' @ so_id (new_order u p pm key s1)) u p) s4 = Inr (b, s5)"
    using r3 by (auto simp only: bindE_eq_Inr)
  note r4 = r3 [unfolded 4 bindE_Inr prod.case]
  obtain ledger s6 where 5: "spend_points (purchase_args u p (so_id (new_order u p pm key s1)) (ev_id event)) s5
      = Inr (ledger, s6)"
    using r4 by (auto simp only: bindE_eq_Inr)
  note r5 = r4 [unfolded 5 bindE_Inr prod.case]
  let ?o = "new_order u p pm key s1"
  let ?r = "?o\<lparr>so_point_ledger_id := Some (pl_id ledger), so_point_event_id := Some (ev_id event)\<rparr>"
  from r5 obtain s8 where "fulfil_order u p (so_id ?o) (ev_id event) (set_order (so_id ?o) (\<lambda>_. ?r) s6) = Inr s8"
    and "add_transaction (order_transaction u ''charge'' key (- sp_price_points p) (pl_id ledger) s8)
      (draw s8) = Inr s'" and "r = ?r"
    by (auto simp: inr_simps)
  then show thesis by (intro that [OF 1 2 3 4 5, of s8]) simp_all
qed

lemma book_refund_cases:
  assumes "book_refund u r key s = Inr (ledger, s')"
  obtains s1 original event s2 s3 s4 where
    "revoke_delivery u r s = Inr s1" "get_ledger (the (so_point_ledger_id r)) s1 = Some original"
    "pl_amount original < 0"
    "record_engagement_event u ''points_refunded'' ''shop_refund'' (so_id r @ '':'' @ key)
       [(''orderId'', JStr (so_id r)), (''points'', JInt (so_price_points r))] s1 = Inr (event, s2)"
    "reverse_points (refund_args u r (ev_id event) (pl_id original)) s2 = Inr (ledger, s3)"
    "add_transaction (order_transaction u ''refund'' key (so_price_points r) (pl_id ledger) s3) (draw s3) = Inr s4"
    "s' = set_order (so_id r) (\<lambda>x. x\<lparr>so_status := ''refunded'',
       so_refund_transaction_id :=
         Some (pt_id (order_transaction u ''refund'' key (so_price_points r) (pl_id ledger) s3)),
       so_refunded_at := Some (now s4)\<rparr>) s4"
proof -
  obtain s1 where 1: "revoke_delivery u r s = Inr s1"
    using assms unfolding book_refund_def by (auto simp only: bindE_eq_Inr)
  note r1 = assms [unfolded book_refund_def 1 bindE_Inr]
  obtain original where 2: "get_ledger (the (so_point_ledger_id r)) s1 = Some original"
    "pl_amount original < 0"
    using r1 by (auto simp: option_eq_Inr split: if_splits)
  then have neg: "(0 \<le> pl_amount original) = False" by simp
  note r2 = r1 [unfolded 2(1) option.case neg if_False]
  obtain event s2 where 3: "record_engagement_event u ''points_refunded'' ''shop_refund'' (so_id r @ '':'' @ key)
       [(''orderId'', JStr (so_id r)), (''points'', JInt (so_price_points r))] s1 = Inr (event, s2)"
    using r2 by (auto simp only: bindE_eq_Inr)
  note r3 = r2 [unfolded 3 bindE_Inr prod.case]
  obtain l s3 where 4: "reverse_points (refund_args u r (ev_id event) (pl_id original)) s2 = Inr (l, s3)"
    using r3 by (auto simp only: bindE_eq_Inr)
  note r4 = r3 [unfolded 4 bindE_Inr prod.case Let_def]
  from r4 have l: "l = ledger" by (auto simp: inr_simps)
  let ?t = "order_transaction u ''refund'' key (so_price_points r) (pl_id ledger) s3"
  from r4 l obtain s4 where "add_transaction ?t (draw s3) = Inr s4"
    and "s' = set_order (so_id r) (\<lambda>x. x\<lparr>so_status := ''refunded'',
      so_refund_transaction_id := Some (pt_id ?t), so_refunded_at := Some (now s4)\<rparr>) s4"
    by (auto simp: inr_simps)
  then show thesis using 4 l by (intro that [OF 1 2 3, of s3 s4]) simp_all
qed

section \<open>The storefront keeps the point invariant\<close>

lemma book_order_keeps [points_keeps]:
  assumes "book_order u p pm key s = Inr (r, s')" and "points_inv s"
  shows "points_inv s'"
  using assms(1)
proof (cases rule: book_order_cases)
  case (1 a s1 s2 event s4 b s5 ledger s6 s8)
  from 1(1-4) assms(2) have "points_inv s5" by (auto dest!: touch)
  with 1(5) have "points_inv s6" by (rule writers_keep(2))
  with 1(7,8) show ?thesis by (auto dest!: touch)
qed

lemma book_refund_keeps [points_keeps]:
  assumes "book_refund u r key s = Inr (l, s')" and "points_inv s"
  shows "points_inv s'"
  using assms(1)
proof (cases rule: book_refund_cases)
  case (1 s1 original event s2 s3 s4)
  from 1(1,4) assms(2) have "points_inv s2" by (auto dest!: touch)
  with 1(5) have "points_inv s3" by (rule writers_keep(3))
  with 1(6,7) show ?thesis by (auto dest!: touch)
qed

lemma create_shop_order_cases:
  assumes "create_shop_order u i pm h s = Inr (x, s')"
  obtains (Replayed) r where "x = OrderReplayed (so_id r) (so_product_id r) (so_status r)" "s' = s"
      "h \<noteq> None" "find (\<lambda>r. so_user_id r = u \<and> so_idempotency_key r = Some (py_strip (the h))) (shop_orders s) = Some r"
      "so_product_id r = i"
  | (Created) p r where "x = OrderCreated (so_id r) (so_product_id r) (so_status r)"
      "h \<noteq> None" "find (\<lambda>r. so_user_id r = u \<and> so_idempotency_key r = Some (py_strip (the h))) (shop_orders s) = None"
      "get_product i s = Some p" "purchase_error u p s = None"
      "book_order u p pm (py_strip (the h)) s = Inr (r, s')"
  using assms by (auto simp: create_shop_order_def inr_simps Let_def)

lemma refund_shop_order_cases:
  assumes "refund_shop_order u i h s = Inr (x, s')"
  obtains (Replayed) t l where "find_transaction u ''refund'' (the h) s = Some t"
      "get_ledger (the (pt_ledger_id t)) s = Some l" "x = (i, pl_balance_after l)" "s' = s" "present h"
  | (Refunded) r l where "find (\<lambda>r. so_id r = i \<and> so_user_id r = u) (shop_orders s) = Some r"
      "so_status r = ''completed''" "present (so_point_ledger_id r)" "present h"
      "book_refund u r (the h) s = Inr (l, s')" "x = (so_id r, pl_balance_after l)"
      "find_transaction u ''refund'' (the h) s = None \<or>
       (\<exists>t. find_transaction u ''refund'' (the h) s = Some t \<and>
         (\<not> present (pt_ledger_id t) \<or> get_ledger (the (pt_ledger_id t)) s = None))"
  using assms by (auto simp: refund_shop_order_def inr_simps Let_def split: option.splits if_splits)

lemma create_shop_order_keeps [points_keeps]:
  "create_shop_order u i pm h s = Inr (x, s') \<Longrightarrow> points_inv s \<Longrightarrow> points_inv s'"
  by (erule create_shop_order_cases) (simp_all add: book_order_keeps)

lemma refund_shop_order_keeps [points_keeps]:
  "refund_shop_order u i h s = Inr (x, s') \<Longrightarrow> points_inv s \<Longrightarrow> points_inv s'"
  by (erule refund_shop_order_cases) (simp_all add: book_refund_keeps)

lemma exchange_points_keeps [points_keeps]:
  "exchange_points u i h s = Inr (x, s') \<Longrightarrow> points_inv s \<Longrightarrow> points_inv s'"
  by (auto simp: exchange_points_def inr_simps Let_def dest!: touch;
      fastforce intro: writers_keep(2) split: if_splits)

interpretation shop_purchases: service "\<lambda>(u, i, pm, h). create_shop_order u i pm h" points_inv
  by unfold_locales (clarsimp simp: create_shop_order_keeps)

interpretation shop_refunds: service "\<lambda>(u, i, h). refund_shop_order u i h" points_inv
  by unfold_locales (clarsimp simp: refund_shop_order_keeps)

interpretation point_exchanges: service "\<lambda>(u, i, h). exchange_points u i h" points_inv
  by unfold_locales (clarsimp simp: exchange_points_keeps)

section \<open>Effects of a purchase\<close>

text \<open>Identifiers that are still to be drawn occur in no ledger row or event.\<close>

definition fresh_events :: "db \<Rightarrow> bool" where
  "fresh_events s \<longleftrightarrow> (\<forall>n \<ge> drawn s.
    (\<forall>l \<in> set (point_ledger s). pl_source_event_id l \<noteq> ''evt_'' @ entropy s n) \<and>
    (\<forall>e \<in> set (engagement_events s). ev_source_id e \<noteq> ''shop_order_'' @ entropy s n))"

lemma fresh_events_mono:
  assumes "fresh_events s" and "drawn s \<le> drawn s'" and "point_ledger s' = point_ledger s"
    and "engagement_events s' = engagement_events s" and "entropy s' = entropy s"
  shows "fresh_events s'"
  using assms by (auto simp: fresh_events_def)

lemma record_analytics_event_drawn:
  assumes "record_analytics_event a s = Inr (e, s')"
  shows "drawn s \<le> drawn s'"
  using assms unfolding record_analytics_event_def by (subst (asm) get_or_insert_draw) auto

lemma book_order_effect:
  assumes "book_order u p pm key s = Inr (r, s')" and "fresh_events s" and "0 < sp_price_points p"
  shows "\<exists>l. point_ledger s' = point_ledger s @ [l] \<and> pl_amount l = - sp_price_points p \<and>
      pl_user_id l = u \<and> sp_price_points p \<le> balance_of u s \<and>
      (\<forall>v. balance_of v s' = balance_of v s - (if v = u then sp_price_points p else 0)) \<and>
      shop_orders s' = shop_orders s @ [r] \<and> so_user_id r = u \<and> so_product_id r = sp_id p \<and>
      so_status r = ''completed'' \<and> so_price_points r = sp_price_points p \<and>
      so_payment_method r = pm \<and> so_idempotency_key r = Some key \<and> so_point_ledger_id r = Some (pl_id l) \<and>
      shop_products s' = update_where (\<lambda>q. sp_id q = sp_id p)
        (\<lambda>q. q\<lparr>sp_sold_count := sp_sold_count q + 1\<rparr>) (shop_products s)"
  using assms(1)
proof (cases rule: book_order_cases)
  case (1 a s1 s2 event s4 b s5 ledger s6 s8)
  let ?o = "new_order u p pm key s1"
  let ?s3 = "set_product (sp_id p) (\<lambda>q. q\<lparr>sp_sold_count := sp_sold_count q + 1\<rparr>) s2"
  from 1(2) have s2: "s2 = (draw s1)\<lparr>shop_orders := shop_orders s1 @ [?o]\<rparr>"
    and new: "\<not> list_ex (clash_order ?o) (shop_orders s1)"
    by (auto simp: add_order_def inr_simps)
  from 1(1) have s1: "point_ledger s1 = point_ledger s" "point_balances s1 = point_balances s"
    "engagement_events s1 = engagement_events s" "entropy s1 = entropy s"
    "shop_orders s1 = shop_orders s" "shop_products s1 = shop_products s"
    by (auto dest!: touch)
  have f1: "fresh_events s1"
    using fresh_events_mono [OF assms(2) record_analytics_event_drawn [OF 1(1)] s1(1,3,4)] .
  have f3: "fresh_events ?s3"
    by (rule fresh_events_mono [OF f1]) (simp_all add: s2 set_product_def)
  have "find_event u ''points_spent'' ''shop_order'' (so_id ?o) ?s3 = None"
    using f1 by (auto simp: find_event_def find_None_iff fresh_events_def new_order_def new_id_def s2 set_product_def)
  with 1(3) have ev: "ev_id event = new_id ''evt_'' ?s3"
    and s4: "point_ledger s4 = point_ledger s" "point_balances s4 = point_balances s"
      "shop_orders s4 = shop_orders s @ [?o]" "shop_products s4 = shop_products ?s3"
    by (auto elim!: record_engagement_event_cases simp: new_event_def s2 s1 set_product_def)
  from 1(4) s4 have s5: "point_ledger s5 = point_ledger s" "point_balances s5 = point_balances s"
      "shop_orders s5 = shop_orders s @ [?o]" "shop_products s5 = shop_products ?s3"
    by (auto dest!: touch)
  have "find_args (purchase_args u p (so_id ?o) (ev_id event)) s5 = None"
    using f3 by (auto simp: find_args_def find_ledger_def purchase_args_def find_None_iff s5 ev
        fresh_events_def new_id_def s2 set_product_def s1)
  with 1(5) have sp: "posted ledger s5 s6" "pl_amount ledger = - sp_price_points p" "pl_user_id ledger = u"
    "sp_price_points p \<le> balance_of u s5"
    by (auto elim!: spend_points_cases simp: purchase_args_def)
  from 1(5) s5 have s6: "shop_orders s6 = shop_orders s @ [?o]" "shop_products s6 = shop_products ?s3"
    by (auto dest!: points_touch)
  have "update_where (\<lambda>x. so_id x = so_id r) (\<lambda>_. r) (shop_orders s @ [?o]) = shop_orders s @ [r]"
    using new by (auto simp: table_simps 1(6) list_ex_iff clash_order_def s1 intro!: update_where_id)
  then have "shop_orders s' = shop_orders s @ [r]"
    using 1(7,8) s6(1) by (auto dest!: touch simp: set_order_def)
  moreover have "shop_products s' = shop_products ?s3"
    using 1(7,8) s6(2) by (auto dest!: touch simp: set_order_def)
  moreover have "point_ledger s' = point_ledger s6" "point_balances s' = point_balances s6"
    using 1(7,8) by (auto dest!: touch simp: set_order_def)
  ultimately show ?thesis
    using sp s5 by (intro exI [of _ ledger]) (auto simp: posted_def 1(6) new_order_def set_product_def s2 s1)
qed

section \<open>Properties\<close>

text \<open>C20. A purchase is exact: when the storefront accepts a new order, the buyer could afford it and
  pays exactly the price (nobody else's balance moves), one completed order for the product is
  stored with the ledger row that paid for it, the product's sold count grows by one and stays
  within its inventory limit, and repeating the request with the same key reports the same order
  and changes nothing.\<close>

theorem create_shop_order_exact:
  assumes "create_shop_order u i pm (Some h) s = Inr (OrderCreated oid pid st, s')"
    and "get_product i s = Some p" and "fresh_events s" and "0 < sp_price_points p"
  shows "sp_price_points p \<le> balance_of u s \<and>
    (\<forall>v. balance_of v s' = balance_of v s - (if v = u then sp_price_points p else 0)) \<and>
    (\<exists>l r. point_ledger s' = point_ledger s @ [l] \<and> shop_orders s' = shop_orders s @ [r] \<and>
      so_id r = oid \<and> so_user_id r = u \<and> so_product_id r = i \<and> so_status r = ''completed'' \<and>
      so_point_ledger_id r = Some (pl_id l)) \<and>
    get_product i s' = Some (p\<lparr>sp_sold_count := sp_sold_count p + 1\<rparr>) \<and>
    (case sp_inventory_limit p of None \<Rightarrow> True | Some n \<Rightarrow> sp_sold_count p + 1 \<le> n) \<and>
    create_shop_order u i pm (Some h) s' = Inr (OrderReplayed oid i ''completed'', s')"
  using assms(1)
proof (cases rule: create_shop_order_cases)
  case (Created q r)
  from Created(4) assms(2) have [simp]: "q = p" by simp
  have pid: "sp_id p = i" using assms(2) by (auto simp: get_product_def dest!: find_SomeD)
  from book_order_effect [OF Created(6)] assms(3,4) obtain l where
    l: "point_ledger s' = point_ledger s @ [l]" "sp_price_points p \<le> balance_of u s"
      "\<forall>v. balance_of v s' = balance_of v s - (if v = u then sp_price_points p else 0)"
      "shop_orders s' = shop_orders s @ [r]" "so_user_id r = u" "so_product_id r = i"
      "so_status r = ''completed''" "so_payment_method r = pm" "so_idempotency_key r = Some (py_strip h)"
      "so_point_ledger_id r = Some (pl_id l)"
      "shop_products s' = update_where (\<lambda>q. sp_id q = i)
        (\<lambda>q. q\<lparr>sp_sold_count := sp_sold_count q + 1\<rparr>) (shop_products s)"
    using pid by auto
  have "get_product i s' = Some (p\<lparr>sp_sold_count := sp_sold_count p + 1\<rparr>)"
    using assms(2) pid by (simp add: get_product_def l(11) find_update_where)
  moreover have "case sp_inventory_limit p of None \<Rightarrow> True | Some n \<Rightarrow> sp_sold_count p + 1 \<le> n"
    using Created(5) by (auto simp: purchase_error_def split: option.splits if_splits)
  moreover have "find (\<lambda>r. so_user_id r = u \<and> so_idempotency_key r = Some (py_strip h)) (shop_orders s') = Some r"
    using Created(3) l(5,9) by (simp add: l(4) find_append)
  moreover have "py_strip h \<noteq> [] \<and> pm = ''points''"
    using assms(1) by (auto simp: create_shop_order_def Let_def split: if_splits)
  ultimately show ?thesis
    using Created(1) l by (auto simp: create_shop_order_def)
qed simp

definition pack_product :: shop_product where
  "pack_product =
    \<lparr>sp_id = ''p1'', sp_artist_id = Some ''art'', sp_product_type = ''card_pack'',
     sp_card_pack_id = Some ''pack1'', sp_name = ''Debut pack'', sp_description = None,
     sp_fulfillment = [], sp_price_points = 200, sp_status = ''published'', sp_starts_at = None,
     sp_ends_at = None, sp_inventory_limit = Some 1, sp_sold_count = 0, sp_per_user_limit = None,
     sp_scheduled_publish_at = None, sp_exposure_slot = ''shop''\<rparr>"

definition shop_db :: db where
  "shop_db = wallet_db\<lparr>shop_products := [pack_product], entropy := (\<lambda>n. replicate (Suc n) CHR ''y'')\<rparr>"

lemma shop_db_fresh: "fresh_events shop_db"
  by (simp add: fresh_events_def shop_db_def wallet_db_def wallet_row_def empty_db_def)

theorem create_shop_order_exact_witness:
  "\<exists>oid pid st s'. create_shop_order ''ann'' ''p1'' ''points'' (Some ''k'') shop_db = Inr (OrderCreated oid pid st, s') \<and>
    balance_of ''ann'' s' = 300 \<and>
    create_shop_order ''ann'' ''p1'' ''points'' (Some ''k'') s' = Inr (OrderReplayed oid ''p1'' ''completed'', s')"
proof -
  have "case create_shop_order ''ann'' ''p1'' ''points'' (Some ''k'') shop_db of Inl e \<Rightarrow> False
    | Inr (OrderReplayed a b c, s') \<Rightarrow> False | Inr (OrderCreated a b c, s') \<Rightarrow> True"
    by code_simp
  then obtain oid pid st s' where
    r: "create_shop_order ''ann'' ''p1'' ''points'' (Some ''k'') shop_db = Inr (OrderCreated oid pid st, s')"
    by (auto split: sum.splits prod.splits order_response.splits)
  have "get_product ''p1'' shop_db = Some pack_product" by code_simp
  from create_shop_order_exact [OF r this shop_db_fresh] r show ?thesis
    by (auto simp: pack_product_def shop_db_def wallet_db_def balance_in_def)
qed

section \<open>Effects of a refund\<close>

lemma revoke_delivery_orders:
  "revoke_delivery u r s = Inr s1 \<Longrightarrow> shop_orders s1 = shop_orders s \<and> engagement_events s1 = engagement_events s \<and>
    point_ledger s1 = point_ledger s \<and> point_balances s1 = point_balances s \<and>
    new_id p s1 = new_id p s \<and> point_transactions s1 = point_transactions s"
  by (auto dest!: touch simp: new_id_def)

lemma find_set_order:
  "find (\<lambda>r. so_id r = i \<and> so_user_id r = u) (shop_orders s) = Some r \<Longrightarrow>
    (\<And>x. so_id (f x) = so_id x) \<Longrightarrow> (\<And>x. so_user_id (f x) = so_user_id x) \<Longrightarrow>
    find (\<lambda>r. so_id r = i \<and> so_user_id r = u) (shop_orders (set_order i f s)) = Some (f r)"
  by (auto simp: set_order_def find_update_where dest!: find_SomeD)

lemma book_refund_effect:
  assumes "book_refund u r key s = Inr (l, s')" and "points_inv s"
    and o: "find (\<lambda>r. so_id r = i \<and> so_user_id r = u) (shop_orders s) = Some r"
    and none: "find_event u ''points_refunded'' ''shop_refund'' (i @ '':'' @ key) s = None"
    and fresh: "\<And>x. x \<in> set (point_ledger s) \<Longrightarrow> pl_source_event_id x \<noteq> new_id ''evt_'' s"
  shows "balance_of v s' = balance_of v s + (if v = u then so_price_points r else 0)"
    and "\<exists>r'. find (\<lambda>r. so_id r = i \<and> so_user_id r = u) (shop_orders s') = Some r' \<and> so_status r' = ''refunded''"
    and "\<exists>t. find_transaction u ''refund'' key s' = Some t \<and>
      (find_transaction u ''refund'' key s = None \<longrightarrow> pt_ledger_id t = Some (pl_id l))"
    and "get_ledger (pl_id l) s' = Some l" and "pl_id l \<noteq> []"
    and "pl_balance_after l = balance_of u s'"
proof -
  have i: "so_id r = i" "so_user_id r = u" using find_SomeD [OF o] by simp_all
  have "(\<forall>v. balance_of v s' = balance_of v s + (if v = u then so_price_points r else 0)) \<and>
    (\<exists>r'. find (\<lambda>r. so_id r = i \<and> so_user_id r = u) (shop_orders s') = Some r' \<and> so_status r' = ''refunded'') \<and>
    (\<exists>t. find_transaction u ''refund'' key s' = Some t \<and>
      (find_transaction u ''refund'' key s = None \<longrightarrow> pt_ledger_id t = Some (pl_id l))) \<and>
    get_ledger (pl_id l) s' = Some l \<and> pl_id l \<noteq> [] \<and> pl_balance_after l = balance_of u s'"
    using assms(1)
  proof (cases rule: book_refund_cases)
    case (1 s1 original event s2 s3 s4)
    note s1 = revoke_delivery_orders [OF 1(1)]
    have ev: "ev_id event = new_id ''evt_'' s"
      and s2: "point_ledger s2 = point_ledger s" "point_balances s2 = point_balances s"
        "shop_orders s2 = shop_orders s" "point_transactions s2 = point_transactions s"
      using 1(4) none s1 i
      by (auto elim!: record_engagement_event_cases simp: find_event_def new_event_def)
    have "find_args (refund_args u r (ev_id event) (pl_id original)) s2 = None"
      using fresh by (auto simp: find_args_def find_ledger_def refund_args_def find_None_iff s2 ev)
    with 1(5) have post: "posted l s2 s3" "pl_amount l = so_price_points r" "pl_user_id l = u"
      by (auto elim!: reverse_points_cases simp: refund_args_def)
    from 1(5) have s3: "shop_orders s3 = shop_orders s" "point_transactions s3 = point_transactions s"
      using s2 by (auto dest!: points_touch)
    from 1(6) have s4: "shop_orders s4 = shop_orders s" "point_ledger s4 = point_ledger s3"
      "point_balances s4 = point_balances s3" using s3 by (auto dest!: touch)
    have bal: "\<forall>v. balance_of v s' = balance_of v s + (if v = u then so_price_points r else 0)"
      using post s2 s4 by (auto simp: 1(7) posted_def)
    have "find (\<lambda>r. so_id r = i \<and> so_user_id r = u) (shop_orders s4) = Some r" using o s4 by simp
    from find_set_order [OF this] have ord:
      "\<exists>r'. find (\<lambda>r. so_id r = i \<and> so_user_id r = u) (shop_orders s') = Some r' \<and> so_status r' = ''refunded''"
      by (simp add: 1(7) i)
    have tx: "\<exists>t. find_transaction u ''refund'' key s' = Some t \<and>
      (find_transaction u ''refund'' key s = None \<longrightarrow> pt_ledger_id t = Some (pl_id l))"
      using 1(6) s3 by (auto simp: 1(7) set_order_def add_transaction_def inr_simps find_transaction_def
          find_append order_transaction_def split: option.splits)
    have "points_inv s3" by (rule writers_keep(3) [OF 1(5)]) (use assms(2) s2 in simp)
    then have "unique_by pl_id (point_ledger s3)" by (simp add: points_ok_def)
    moreover have "l \<in> set (point_ledger s3)" using post(1) by (simp add: posted_def)
    ultimately have "find (\<lambda>x. pl_id x = pl_id l) (point_ledger s3) = Some l"
      by (intro find_unique [where key = pl_id]) auto
    then have "get_ledger (pl_id l) s' = Some l" by (simp add: get_ledger_def 1(7) s4)
    moreover have "pl_id l \<noteq> []"
      using 1(5) \<open>find_args _ s2 = None\<close>
      by (auto simp: reverse_points_def Let_def inr_simps ledger_row_def new_id_def)
    moreover have "pl_balance_after l = balance_of u s'"
      using post s4 by (simp add: 1(7) posted_def)
    ultimately show ?thesis using bal ord tx by blast
  qed
  then show "balance_of v s' = balance_of v s + (if v = u then so_price_points r else 0)"
    "\<exists>r'. find (\<lambda>r. so_id r = i \<and> so_user_id r = u) (shop_orders s') = Some r' \<and> so_status r' = ''refunded''"
    "\<exists>t. find_transaction u ''refund'' key s' = Some t \<and>
      (find_transaction u ''refund'' key s = None \<longrightarrow> pt_ledger_id t = Some (pl_id l))"
    "get_ledger (pl_id l) s' = Some l" "pl_id l \<noteq> []" "pl_balance_after l = balance_of u s'"
    by simp_all
qed

text \<open>An order is refunded at most once: refunding a completed order under a new key gives the buyer
  back exactly its price (nobody else's balance moves), reports the new balance and marks the order
  refunded, after which a refund under any key that names no earlier refund is rejected.\<close>

theorem refund_shop_order_once:
  assumes "refund_shop_order u i (Some k) s = Inr ((j, b), s')" and "points_inv s"
    and "find (\<lambda>r. so_id r = i \<and> so_user_id r = u) (shop_orders s) = Some r"
    and "find_transaction u ''refund'' k s = None"
    and "find_event u ''points_refunded'' ''shop_refund'' (i @ '':'' @ k) s = None"
    and "\<And>x. x \<in> set (point_ledger s) \<Longrightarrow> pl_source_event_id x \<noteq> new_id ''evt_'' s"
    and "find_transaction u ''refund'' k2 s' = None" and "k2 \<noteq> []"
  shows "(\<forall>v. balance_of v s' = balance_of v s + (if v = u then so_price_points r else 0)) \<and>
    j = i \<and> b = balance_of u s' \<and>
    refund_shop_order u i (Some k2) s' = Inl (AppError 409 ''SHOP_ORDER_NOT_REFUNDABLE'')"
  using assms(1)
proof (cases rule: refund_shop_order_cases)
  case (Replayed t l)
  with assms(4) show ?thesis by simp
next
  case (Refunded q l)
  from Refunded(1) assms(3) have [simp]: "q = r" by simp
  have i: "so_id r = i" using find_SomeD [OF assms(3)] by simp
  from Refunded(5) have book: "book_refund u r k s = Inr (l, s')" by simp
  note eff = book_refund_effect [OF book assms(2,3,5,6)]
  from eff(2) obtain r' where
    "find (\<lambda>r. so_id r = i \<and> so_user_id r = u) (shop_orders s') = Some r'" "so_status r' = ''refunded''"
    by blast
  then have "refund_shop_order u i (Some k2) s' = Inl (AppError 409 ''SHOP_ORDER_NOT_REFUNDABLE'')"
    using assms(7,8) by (simp add: refund_shop_order_def)
  with eff(1,6) Refunded(6) i show ?thesis by simp
qed

definition bought_db :: db where
  "bought_db = snd (projr (create_shop_order ''ann'' ''p1'' ''points'' (Some ''k'') shop_db))"

lemma bought_db_inv: "points_inv bought_db"
proof -
  have "\<not> isl (create_shop_order ''ann'' ''p1'' ''points'' (Some ''k'') shop_db)" by code_simp
  then obtain x s' where r: "create_shop_order ''ann'' ''p1'' ''points'' (Some ''k'') shop_db = Inr (x, s')"
    by (cases "create_shop_order ''ann'' ''p1'' ''points'' (Some ''k'') shop_db") auto
  moreover have "points_inv shop_db" using wallet_db_inv by (simp add: shop_db_def)
  ultimately show ?thesis using create_shop_order_keeps [OF r] by (simp add: bought_db_def)
qed

definition bought_id :: ident where
  "bought_id = so_id (hd (shop_orders bought_db))"

theorem refund_shop_order_once_witness:
  "\<exists>b s'. refund_shop_order ''ann'' bought_id (Some ''r'') bought_db = Inr ((bought_id, b), s') \<and>
    balance_of ''ann'' s' = 500 \<and>
    refund_shop_order ''ann'' bought_id (Some ''r2'') s' = Inl (AppError 409 ''SHOP_ORDER_NOT_REFUNDABLE'')"
proof -
  have c: "case refund_shop_order ''ann'' bought_id (Some ''r'') bought_db of Inl e \<Rightarrow> False
    | Inr ((j, b), s') \<Rightarrow> find_transaction ''ann'' ''refund'' ''r2'' s' = None"
    and f: "find_transaction ''ann'' ''refund'' ''r'' bought_db = None"
    "find_event ''ann'' ''points_refunded'' ''shop_refund'' (bought_id @ '':'' @ ''r'') bought_db = None"
    "list_all (\<lambda>x. pl_source_event_id x \<noteq> new_id ''evt_'' bought_db) (point_ledger bought_db)"
    and o: "map_option so_price_points (find (\<lambda>r. so_id r = bought_id \<and> so_user_id r = ''ann'') (shop_orders bought_db))
      = Some 200" and b: "balance_of ''ann'' bought_db = 300"
    by code_simp+
  from c obtain j b s' where r: "refund_shop_order ''ann'' bought_id (Some ''r'') bought_db = Inr ((j, b), s')"
    and n: "find_transaction ''ann'' ''refund'' ''r2'' s' = None"
    by (auto simp: case_Inr_iff)
  from o obtain r where r0: "find (\<lambda>r. so_id r = bought_id \<and> so_user_id r = ''ann'') (shop_orders bought_db) = Some r"
    and price: "so_price_points r = 200" by (auto simp del: find_Some_iff)
  have "(\<forall>v. balance_of v s' = balance_of v bought_db + (if v = ''ann'' then so_price_points r else 0)) \<and>
    j = bought_id \<and> b = balance_of ''ann'' s' \<and>
    refund_shop_order ''ann'' bought_id (Some ''r2'') s' = Inl (AppError 409 ''SHOP_ORDER_NOT_REFUNDABLE'')"
    by (rule refund_shop_order_once [OF r bought_db_inv r0 f(1,2) _ n])
      (use f(3) in \<open>auto simp: list_all_iff\<close>)
  with r price b show ?thesis by auto
qed

text \<open>A refund key answers for any order: once a purchase was refunded under a key, a refund request
  with that key for a different order reports success with the earlier balance, although that
  order stays as it was and no points are returned.\<close>

theorem refund_key_reuse_ignored:
  assumes "refund_shop_order u i (Some k) s = Inr (x, s')" and "points_inv s"
    and "find (\<lambda>r. so_id r = i \<and> so_user_id r = u) (shop_orders s) = Some r"
    and "find_transaction u ''refund'' k s = None"
    and "find_event u ''points_refunded'' ''shop_refund'' (i @ '':'' @ k) s = None"
    and "\<And>x. x \<in> set (point_ledger s) \<Longrightarrow> pl_source_event_id x \<noteq> new_id ''evt_'' s"
  shows "refund_shop_order u other (Some k) s' = Inr ((other, balance_of u s'), s')"
  using assms(1)
proof (cases rule: refund_shop_order_cases)
  case (Replayed t l)
  with assms(4) show ?thesis by simp
next
  case (Refunded q l)
  from Refunded(1) assms(3) have "q = r" by simp
  with Refunded(5) have book: "book_refund u r k s = Inr (l, s')" by simp
  note eff = book_refund_effect [OF book assms(2,3,5,6)]
  from eff(3) assms(4) obtain t where "find_transaction u ''refund'' k s' = Some t"
    "pt_ledger_id t = Some (pl_id l)" by blast
  with eff(4-6) Refunded(4) show ?thesis by (simp add: refund_shop_order_def)
qed

theorem refund_key_reuse_ignored_witness:
  "\<exists>x s'. refund_shop_order ''ann'' bought_id (Some ''r'') bought_db = Inr (x, s') \<and>
    refund_shop_order ''ann'' ''another order'' (Some ''r'') s' = Inr ((''another order'', balance_of ''ann'' s'), s')"
proof -
  have c: "\<not> isl (refund_shop_order ''ann'' bought_id (Some ''r'') bought_db)"
    and f: "find_transaction ''ann'' ''refund'' ''r'' bought_db = None"
    "find_event ''ann'' ''points_refunded'' ''shop_refund'' (bought_id @ '':'' @ ''r'') bought_db = None"
    "list_all (\<lambda>x. pl_source_event_id x \<noteq> new_id ''evt_'' bought_db) (point_ledger bought_db)"
    and o: "find (\<lambda>r. so_id r = bought_id \<and> so_user_id r = ''ann'') (shop_orders bought_db) \<noteq> None"
    by code_simp+
  from c obtain x s' where r: "refund_shop_order ''ann'' bought_id (Some ''r'') bought_db = Inr (x, s')"
    by (cases "refund_shop_order ''ann'' bought_id (Some ''r'') bought_db") auto
  from o obtain r where r0: "find (\<lambda>r. so_id r = bought_id \<and> so_user_id r = ''ann'') (shop_orders bought_db) = Some r"
    by blast
  have "refund_shop_order ''ann'' ''another order'' (Some ''r'') s' = Inr ((''another order'', balance_of ''ann'' s'), s')"
    by (rule refund_key_reuse_ignored [OF r bought_db_inv r0 f(1,2)])
      (use f(3) in \<open>auto simp: list_all_iff\<close>)
  with r show ?thesis by blast
qed

section \<open>Card packs\<close>

lemma pick_row_nth:
  assumes "k < length rows" and "\<And>x. x \<in> set rows \<Longrightarrow> 0 \<le> cpc_probability (fst x)"
    and "c + sum_list (map (\<lambda>x. cpc_probability (fst x)) (take k rows)) < r"
    and "r \<le> c + sum_list (map (\<lambda>x. cpc_probability (fst x)) (take (Suc k) rows))"
  shows "pick_row r c rows = Some (rows ! k)"
  using assms
proof (induction rows arbitrary: c k)
  case (Cons x xs)
  show ?case
  proof (cases k)
    case 0
    with Cons.prems show ?thesis by simp
  next
    case (Suc m)
    have "0 \<le> sum_list (map (\<lambda>x. cpc_probability (fst x)) (take m xs))"
      using Cons.prems(2) by (intro sum_list_nonneg) (auto dest: in_set_takeD)
    with Cons.prems Suc show ?thesis by (auto simp: Cons.IH add.assoc)
  qed
qed simp

lemma consume_entitlement_touch:
  "\<exists>es rs. consume_entitlement u i s = s\<lparr>shop_order_entitlements := es, reward_pack_entitlements := rs\<rparr>"
proof -
  let ?s = "consume_entitlement u i s"
  have "?s = s\<lparr>shop_order_entitlements := shop_order_entitlements ?s,
      reward_pack_entitlements := reward_pack_entitlements ?s\<rparr>"
    by (simp add: consume_entitlement_def split: list.splits)
  then show ?thesis by blast
qed

lemma consume_entitlement_frame [simp]:
  "user_cards (consume_entitlement u i s) = user_cards s"
  "ownership_ledger (consume_entitlement u i s) = ownership_ledger s"
  "point_ledger (consume_entitlement u i s) = point_ledger s"
  "point_balances (consume_entitlement u i s) = point_balances s"
  "card_pack_openings (consume_entitlement u i s) = card_pack_openings s"
  using consume_entitlement_touch [of u i s] by auto

lemma open_row_user_cards:
  assumes "open_row u pack h l c s = Inr (x, s')"
  shows "holdings_ok (user_cards s) \<Longrightarrow> holdings_ok (user_cards s')"
    and "points_inv s \<Longrightarrow> points_inv s'"
proof -
  let ?a = "\<lparr>cg_user_id = u, cg_card_id = c_id c, cg_source_type = ''card_pack_opening'',
          cg_source_id = new_id ''opening_'' (draw s), cg_acquisition_source = ''card_pack'',
          cg_metadata = [(''packId'', JStr (cp_id pack)), (''issuanceCode'', JStr (new_id ''PF-'' s)),
            (''probabilityVersion'', JStr (cp_version pack)),
            (''probability'', JNum (cpc_probability l))],
          cg_redeem_code_id = None, cg_drop_id = c_drop_id c\<rparr>"
  obtain uc s3 where 1: "grant_user_card ?a (draw (draw s)) = Inr (uc, s3)"
    using assms by (auto simp: open_row_def bindE_eq_Inr Let_def)
  note r = assms [unfolded open_row_def Let_def 1 bindE_Inr prod.case]
  have "user_cards s' = user_cards s3 \<and> point_ledger s' = point_ledger s3 \<and> point_balances s' = point_balances s3"
    using r by (auto simp: inr_simps dest!: touch)
  then show "holdings_ok (user_cards s) \<Longrightarrow> holdings_ok (user_cards s')" "points_inv s \<Longrightarrow> points_inv s'"
    using grant_user_card_holdings [OF 1] grant_user_card_touch [OF 1] by auto
qed

lemma open_card_pack_cases:
  assumes "open_card_pack u i h r s = Inr (x, s')"
  obtains (Replayed) pack where "find_pack i s = Some pack"
      "replayed_opening u (cp_id pack) h (consume_entitlement u (cp_id pack) s) = Some x"
      "s' = consume_entitlement u (cp_id pack) s"
  | (Opened) pack c where "find_pack i s = Some pack"
      "replayed_opening u (cp_id pack) h (consume_entitlement u (cp_id pack) s) = None"
      "pack_rows (cp_id pack) (consume_entitlement u (cp_id pack) s) \<noteq> []"
      "\<bar>sum_list (map (\<lambda>x. cpc_probability (fst x))
        (pack_rows (cp_id pack) (consume_entitlement u (cp_id pack) s))) - 100\<bar> \<le> 1 / 1000"
      "get_card (c_id (snd (select_row r (pack_rows (cp_id pack) (consume_entitlement u (cp_id pack) s)))))
        (consume_entitlement u (cp_id pack) s) = Some c"
      "open_row u pack h (fst (select_row r (pack_rows (cp_id pack) (consume_entitlement u (cp_id pack) s)))) c
        (consume_entitlement u (cp_id pack) s) = Inr (x, s')"
  using assms by (auto simp: open_card_pack_def inr_simps Let_def case_prod_unfold)

lemma open_card_pack_keeps:
  "open_card_pack u i h r s = Inr (x, s') \<Longrightarrow> points_inv s \<Longrightarrow> points_inv s'"
  "open_card_pack u i h r s = Inr (x, s') \<Longrightarrow> holdings_ok (user_cards s) \<Longrightarrow> holdings_ok (user_cards s')"
  by (erule open_card_pack_cases; simp add: open_row_user_cards)+


text \<open>A retried pack opening burns a second right to open: when a request with a known key is
  answered from the stored opening, the oldest available purchased right is still marked opened,
  while no card is granted for it.\<close>

theorem pack_replay_consumes_entitlement:
  assumes "open_card_pack u i h r s = Inr (x, s')" and "find_pack i s = Some pack"
    and "replayed_opening u (cp_id pack) h s = Some x0"
    and "sort_key (\<lambda>y. (soe_created_at y, soe_id y))
        (filter (\<lambda>y. soe_user_id y = u \<and> soe_pack_id y = cp_id pack \<and> soe_status y = ''available'')
          (shop_order_entitlements s)) = e # es"
  shows "x = x0 \<and> user_cards s' = user_cards s \<and> card_pack_openings s' = card_pack_openings s \<and>
    shop_order_entitlements s' = update_where (\<lambda>y. soe_id y = soe_id e)
      (\<lambda>y. y\<lparr>soe_status := ''opened'', soe_opened_at := Some (now s)\<rparr>) (shop_order_entitlements s)"
proof -
  have "replayed_opening u i h (s\<lparr>shop_order_entitlements := es, reward_pack_entitlements := rs\<rparr>) =
      replayed_opening u i h s" for i es rs
    by (auto simp: replayed_opening_def get_user_card_def get_card_def split: option.split)
  with consume_entitlement_touch [of u "cp_id pack" s]
  have eq: "replayed_opening u (cp_id pack) h (consume_entitlement u (cp_id pack) s) =
      replayed_opening u (cp_id pack) h s" by auto
  from assms(1) show ?thesis
  proof (cases rule: open_card_pack_cases)
    case (Replayed q)
    with assms(2,3) eq have "x = x0" "s' = consume_entitlement u (cp_id pack) s" by simp_all
    then show ?thesis by (simp add: consume_entitlement_def assms(4))
  next
    case (Opened q c)
    with assms(2,3) eq show ?thesis by simp
  qed
qed

definition debut_pack :: card_pack where
  "debut_pack = \<lparr>cp_id = ''pack1'', cp_organization_id = None, cp_artist_id = ''art'',
     cp_name = ''Debut pack'', cp_version = ''v1'', cp_status = ''published'', cp_published_at = None\<rparr>"

definition pack_right :: "ident \<Rightarrow> shop_order_entitlement" where
  "pack_right i = \<lparr>soe_id = i, soe_order_id = ''order '' @ i, soe_user_id = ''ann'', soe_pack_id = ''pack1'',
     soe_status = ''available'', soe_opened_at = None, soe_created_at = 0\<rparr>"

definition pack_link :: "ident \<Rightarrow> rat \<Rightarrow> card_pack_card" where
  "pack_link c q = \<lparr>cpc_id = ''l '' @ c, cpc_pack_id = ''pack1'', cpc_card_id = c, cpc_position = 0,
     cpc_probability = q, cpc_enabled = True\<rparr>"

definition pack_db :: db where
  "pack_db = catalog_db\<lparr>card_packs := [debut_pack], card_pack_cards := [pack_link ''c1'' 100],
     shop_order_entitlements := [pack_right ''a'', pack_right ''b'']\<rparr>"


definition opened_db :: db where
  "opened_db = snd (projr (open_card_pack ''ann'' ''pack1'' (Some ''k'') 50 pack_db))"

theorem pack_replay_consumes_entitlement_witness:
  "\<exists>x s'. open_card_pack ''ann'' ''pack1'' (Some ''k'') 50 opened_db = Inr (x, s') \<and>
    length (user_cards s') = 1 \<and> map soe_status (shop_order_entitlements s') = [''opened'', ''opened'']"
proof -
  have f: "find_pack ''pack1'' opened_db = Some debut_pack"
    and ok: "\<not> isl (open_card_pack ''ann'' ''pack1'' (Some ''k'') 50 opened_db)"
    and re: "replayed_opening ''ann'' (cp_id debut_pack) (Some ''k'') opened_db \<noteq> None"
    and u: "length (user_cards opened_db) = 1"
    and so: "map soe_id (sort_key (\<lambda>y. (soe_created_at y, soe_id y))
        (filter (\<lambda>y. soe_user_id y = ''ann'' \<and> soe_pack_id y = cp_id debut_pack \<and> soe_status y = ''available'')
          (shop_order_entitlements opened_db))) = [''b'']"
    and st: "map (\<lambda>y. (soe_id y, soe_status y)) (shop_order_entitlements opened_db) =
      [(''a'', ''opened''), (''b'', ''available'')]"
    by code_simp+
  from ok obtain x s' where r: "open_card_pack ''ann'' ''pack1'' (Some ''k'') 50 opened_db = Inr (x, s')"
    by (cases "open_card_pack ''ann'' ''pack1'' (Some ''k'') 50 opened_db") auto
  from re obtain x0 where x0: "replayed_opening ''ann'' (cp_id debut_pack) (Some ''k'') opened_db = Some x0"
    by blast
  from so obtain e where e: "sort_key (\<lambda>y. (soe_created_at y, soe_id y))
        (filter (\<lambda>y. soe_user_id y = ''ann'' \<and> soe_pack_id y = cp_id debut_pack \<and> soe_status y = ''available'')
          (shop_order_entitlements opened_db)) = [e]" "soe_id e = ''b''" by auto
  from st obtain y1 y2 where y: "shop_order_entitlements opened_db = [y1, y2]" "soe_id y1 = ''a''"
    "soe_status y1 = ''opened''" "soe_id y2 = ''b''" by auto
  from pack_replay_consumes_entitlement [OF r f x0 e(1)] u y e(2) r show ?thesis
    by (auto simp: table_simps)
qed

end
