(* ===== verification/Pass.thy ===== *)
theory Pass
  imports Shop
begin

text \<open>
  Fan passes (\<open>backend/app/services.py\<close>): the progress of a fan in a season, the premium
  purchase, the claim of a tier on the free and the premium track, and the repair of missing
  grants for global passes.
\<close>

section \<open>Seasons and progress\<close>

definition PASS_CLAIM_GRACE_DAYS :: int where
  "PASS_CLAIM_GRACE_DAYS = 14"

definition season_active_for_pass_view :: "pass_season \<Rightarrow> time \<Rightarrow> bool" where
  "season_active_for_pass_view p t \<longleftrightarrow>
    (case ps_starts_at p of None \<Rightarrow> True | Some a \<Rightarrow> a \<le> t) \<and>
    (case ps_ends_at p of None \<Rightarrow> True | Some b \<Rightarrow> t \<le> b)"

definition season_open_for_claim :: "pass_season \<Rightarrow> time \<Rightarrow> bool" where
  "season_open_for_claim p t \<longleftrightarrow>
    (if (case ps_starts_at p of None \<Rightarrow> False | Some a \<Rightarrow> t < a) then False
     else case ps_ends_at p of None \<Rightarrow> True | Some b \<Rightarrow> t \<le> b + days PASS_CLAIM_GRACE_DAYS)"

definition find_progress :: "ident \<Rightarrow> ident \<Rightarrow> db \<Rightarrow> pass_progress_row option" where
  "find_progress u i s = find (\<lambda>r. ppr_user_id r = u \<and> ppr_season_id r = i) (pass_progress s)"

definition clash_progress :: "pass_progress_row \<Rightarrow> pass_progress_row \<Rightarrow> bool" where
  "clash_progress r x \<longleftrightarrow> ppr_id x = ppr_id r \<or>
    (ppr_user_id x = ppr_user_id r \<and> ppr_season_id x = ppr_season_id r)"

definition set_progress :: "ident \<Rightarrow> (pass_progress_row \<Rightarrow> pass_progress_row) \<Rightarrow> db \<Rightarrow> db" where
  "set_progress i f s = s\<lparr>pass_progress := update_where (\<lambda>r. ppr_id r = i) f (pass_progress s)\<rparr>"

definition new_progress :: "ident \<Rightarrow> ident \<Rightarrow> pass_progress_row" where
  "new_progress u i =
    \<lparr>ppr_id = ''pass_progress_'' @ u @ ''_'' @ i, ppr_user_id = u, ppr_season_id = i,
     ppr_current_xp = 0, ppr_claimed_tier_ids = [], ppr_premium_claimed_tier_ids = []\<rparr>"

definition refresh_pass_progress ::
  "ident \<Rightarrow> pass_season \<Rightarrow> ident option \<Rightarrow> db \<Rightarrow> exn + pass_progress_row \<times> db" where
  "refresh_pass_progress u season artist s =
    bindE (get_or_insert (\<lambda>r. ppr_user_id r = u \<and> ppr_season_id r = ps_id season) clash_progress
        pass_progress pass_progress_update (\<lambda>s. (new_progress u (ps_id season), s)) s) (\<lambda>(progress, s1).
    let xp = scoped_user_xp u (if ps_artist_id season \<noteq> None then ps_artist_id season else artist)
          (ps_starts_at season) (ps_ends_at season) s1
    in Inr (progress\<lparr>ppr_current_xp := xp\<rparr>,
         set_progress (ppr_id progress) (\<lambda>r. r\<lparr>ppr_current_xp := xp\<rparr>) s1))"

definition update_pass_progress :: "ident \<Rightarrow> db \<Rightarrow> exn + db" where
  "update_pass_progress u s =
    foldE (\<lambda>season s. bindE (refresh_pass_progress u season None s) (\<lambda>(_, s'). Inr s'))
      (filter (\<lambda>p. ps_status p = ''published'' \<and> (\<not> ps_is_paid p \<or> ps_premium_enabled p) \<and>
          season_active_for_pass_view p (now s)) (pass_seasons s)) s"

section \<open>The pass view\<close>

record tier_view =
  tv_id :: ident
  tv_tier :: int
  tv_required_xp :: int
  tv_reward_id :: "ident option"
  tv_claimed :: bool
  tv_claimable :: bool
  tv_reward :: "reward option"
  tv_premium :: "(ident option \<times> reward option \<times> bool \<times> bool) option"

definition published_reward :: "reward option \<Rightarrow> reward option" where
  "published_reward r = (case r of None \<Rightarrow> None | Some x \<Rightarrow> if rw_status x \<noteq> ''published'' then None else Some x)"

definition pass_tier_data ::
  "pass_tier \<Rightarrow> pass_progress_row \<Rightarrow> reward option \<Rightarrow> reward option \<Rightarrow> bool \<Rightarrow> tier_view" where
  "pass_tier_data tier progress free premium purchased =
    (let claimed = pti_id tier \<in> set (ppr_claimed_tier_ids progress);
         premium_claimed = pti_id tier \<in> set (ppr_premium_claimed_tier_ids progress)
     in \<lparr>tv_id = pti_id tier, tv_tier = pti_tier tier, tv_required_xp = pti_required_xp tier,
         tv_reward_id = pti_reward_id tier, tv_claimed = claimed,
         tv_claimable = (\<not> claimed \<and> pti_required_xp tier \<le> ppr_current_xp progress),
         tv_reward = published_reward free,
         tv_premium = (if premium \<noteq> None \<or> present (pti_premium_reward_id tier)
           then Some (pti_premium_reward_id tier, published_reward premium, premium_claimed,
             purchased \<and> \<not> premium_claimed \<and> pti_required_xp tier \<le> ppr_current_xp progress)
           else None)\<rparr>)"

definition active_entitlement :: "ident \<Rightarrow> ident \<Rightarrow> db \<Rightarrow> pass_entitlement option" where
  "active_entitlement u i s =
    find (\<lambda>e. pe_user_id e = u \<and> pe_season_id e = i \<and> pe_status e = ''active'') (pass_entitlements s)"

definition reward_of :: "ident option \<Rightarrow> db \<Rightarrow> reward option" where
  "reward_of i s = (case i of None \<Rightarrow> None | Some j \<Rightarrow> get_reward j s)"

record season_view =
  sv_season :: pass_season
  sv_is_purchased :: bool
  sv_current_xp :: int
  sv_claimed_tier_ids :: "ident list"
  sv_tiers :: "tier_view list"

definition season_item :: "ident \<Rightarrow> pass_season \<Rightarrow> pass_progress_row \<Rightarrow> db \<Rightarrow> season_view" where
  "season_item u season progress s =
    (let purchased = (active_entitlement u (ps_id season) s \<noteq> None)
     in \<lparr>sv_season = season, sv_is_purchased = purchased, sv_current_xp = ppr_current_xp progress,
         sv_claimed_tier_ids = ppr_claimed_tier_ids progress,
         sv_tiers = map (\<lambda>t. pass_tier_data t progress (reward_of (pti_reward_id t) s)
             (reward_of (pti_premium_reward_id t) s) purchased)
           (sort_key (\<lambda>t. (pti_tier t, pti_id t)) (filter (\<lambda>t. pti_season_id t = ps_id season) (pass_tiers s)))\<rparr>)"

text \<open>Seasons in order of their start; databases sort a missing start last (PostgreSQL).\<close>

definition visible_seasons :: "ident option \<Rightarrow> bool \<Rightarrow> db \<Rightarrow> pass_season list" where
  "visible_seasons artist global_scope s =
    filter (\<lambda>p. season_active_for_pass_view p (now s))
      (sort_key (\<lambda>p. (case ps_starts_at p of None \<Rightarrow> (True, 0) | Some t \<Rightarrow> (False, t), ps_id p))
        (filter (\<lambda>p. ps_status p = ''published'' \<and> (\<not> ps_is_paid p \<or> ps_premium_enabled p) \<and>
            (if global_scope then ps_artist_id p = None
             else case artist of None \<Rightarrow> True | Some a \<Rightarrow> ps_artist_id p = Some a))
          (pass_seasons s)))"

definition fan_pass_data ::
  "ident \<Rightarrow> ident option \<Rightarrow> bool \<Rightarrow> db \<Rightarrow> exn + season_view list \<times> db" where
  "fan_pass_data u artist global_scope s =
    foldE (\<lambda>season (items, s).
        bindE (refresh_pass_progress u season artist s) (\<lambda>(progress, s1).
        Inr (items @ [season_item u season progress s1], s1)))
      (visible_seasons artist global_scope s) ([], s)"

section \<open>Premium purchase\<close>

definition get_season :: "ident \<Rightarrow> db \<Rightarrow> pass_season option" where
  "get_season i s = find (\<lambda>p. ps_id p = i) (pass_seasons s)"

definition find_entitlement :: "ident \<Rightarrow> ident \<Rightarrow> db \<Rightarrow> pass_entitlement option" where
  "find_entitlement u i s =
    find (\<lambda>e. pe_user_id e = u \<and> pe_season_id e = i) (pass_entitlements s)"

definition clash_entitlement :: "pass_entitlement \<Rightarrow> pass_entitlement \<Rightarrow> bool" where
  "clash_entitlement r x \<longleftrightarrow> pe_id x = pe_id r \<or>
    (pe_user_id x = pe_user_id r \<and> pe_season_id x = pe_season_id r)"

definition pass_product :: "pass_season \<Rightarrow> int \<Rightarrow> shop_product" where
  "pass_product season price =
    \<lparr>sp_id = ''pass_product_'' @ ps_id season, sp_artist_id = ps_artist_id season,
     sp_product_type = ''limited_item'', sp_card_pack_id = None, sp_name = ps_title season,
     sp_description = ps_description season, sp_fulfillment = [], sp_price_points = price,
     sp_status = ''published'', sp_starts_at = None, sp_ends_at = None, sp_inventory_limit = None,
     sp_sold_count = 0, sp_per_user_limit = None, sp_scheduled_publish_at = None,
     sp_exposure_slot = ''pass''\<rparr>"

text \<open>The product behind the pass is created on the first sale and refreshed on later ones.\<close>

definition save_pass_product :: "pass_season \<Rightarrow> int \<Rightarrow> db \<Rightarrow> db" where
  "save_pass_product season price s =
    s\<lparr>shop_products := upsert (\<lambda>p. sp_id p = ''pass_product_'' @ ps_id season) (pass_product season price)
        (\<lambda>p. p\<lparr>sp_name := ps_title season, sp_description := ps_description season,
          sp_price_points := price\<rparr>) (shop_products s)\<rparr>"

definition pass_order :: "ident \<Rightarrow> pass_season \<Rightarrow> int \<Rightarrow> ident \<Rightarrow> ident \<Rightarrow> db \<Rightarrow> shop_order" where
  "pass_order u season price ledger_id event_id s =
    \<lparr>so_id = new_id ''shop_order_'' s, so_user_id = u,
     so_product_id = ''pass_product_'' @ ps_id season, so_product_name = ps_title season,
     so_price_points = price, so_payment_method = ''points'', so_status = ''completed'',
     so_idempotency_key = Some (''pass:'' @ ps_id season), so_point_ledger_id = Some ledger_id,
     so_point_event_id = Some event_id, so_refund_transaction_id = None, so_refunded_at = None,
     so_created_at = now s\<rparr>"

definition save_entitlement ::
  "ident \<Rightarrow> pass_season \<Rightarrow> int \<Rightarrow> ident \<Rightarrow> db \<Rightarrow> exn + ident \<times> db" where
  "save_entitlement u season price order_id s =
    (case find_entitlement u (ps_id season) s of
       None \<Rightarrow>
         let r = \<lparr>pe_id = new_id ''pass_entitlement_'' s, pe_user_id = u, pe_season_id = ps_id season,
               pe_price_points = price, pe_status = ''active'', pe_order_id = Some order_id,
               pe_purchased_at = now s\<rparr>
         in bindE (insert_row clash_entitlement r (pass_entitlements s))
              (\<lambda>rows. Inr (pe_id r, (draw s)\<lparr>pass_entitlements := rows\<rparr>))
     | Some e \<Rightarrow>
         Inr (pe_id e, s\<lparr>pass_entitlements :=
           update_where (\<lambda>x. pe_id x = pe_id e)
             (\<lambda>x. x\<lparr>pe_price_points := price, pe_status := ''active'', pe_order_id := Some order_id\<rparr>)
             (pass_entitlements s)\<rparr>))"

record purchase_result =
  pu_season_id :: ident
  pu_entitlement_id :: ident
  pu_price_points :: int
  pu_replayed :: bool

definition mark_processed :: "engagement_event \<Rightarrow> db \<Rightarrow> db" where
  "mark_processed e s =
    set_event (ev_id e) (\<lambda>x. x\<lparr>ev_status := ''processed'', ev_processed_at := Some (now s)\<rparr>) s"

definition book_pass :: "ident \<Rightarrow> pass_season \<Rightarrow> int \<Rightarrow> db \<Rightarrow> exn + purchase_result \<times> db" where
  "book_pass u season price s =
    bindE (record_engagement_event u ''pass_purchased'' ''pass_season'' (ps_id season)
        [(''seasonId'', JStr (ps_id season)), (''points'', JInt price)] s) (\<lambda>(event, s1).
    let s2 = save_pass_product season price (mark_processed event s1)
    in bindE (spend_points
        \<lparr>pa_user_id = u, pa_source_event_id = ev_id event,
         pa_rule_key = ''pass_purchase:'' @ ps_id season, pa_amount = price,
         pa_metadata = [(''seasonId'', JStr (ps_id season))], pa_expires_at = None,
         pa_reversed_ledger_id = None\<rparr> s2) (\<lambda>(ledger, s3).
    let order = pass_order u season price (pl_id ledger) (ev_id event) s3
    in bindE (add_order order (draw s3)) (\<lambda>s4.
    bindE (save_entitlement u season price (so_id order) s4) (\<lambda>(entitlement_id, s5).
    bindE (record_audit
        \<lparr>au_actor_user_id = Some u, au_action = ''pass.purchased'', au_entity_type = ''pass_season'',
         au_entity_id = ps_id season, au_organization_id = ps_organization_id season,
         au_artist_id = ps_artist_id season,
         au_details = [(''pricePoints'', JInt price), (''ledgerId'', JStr (pl_id ledger))]\<rparr> s5) (\<lambda>s6.
    Inr (\<lparr>pu_season_id = ps_id season, pu_entitlement_id = entitlement_id, pu_price_points = price,
          pu_replayed = False\<rparr>, s6))))))"

definition purchase_pass_season :: "ident \<Rightarrow> ident \<Rightarrow> db \<Rightarrow> exn + purchase_result \<times> db" where
  "purchase_pass_season u season_id s =
    (case get_season season_id s of
       None \<Rightarrow> Inl (AppError 404 ''PASS_SEASON_NOT_FOUND'')
     | Some season \<Rightarrow>
    if ps_status season \<noteq> ''published'' \<or> \<not> ps_premium_enabled season
    then Inl (AppError 404 ''PASS_SEASON_NOT_FOUND'')
    else if \<not> season_active_for_pass_view season (now s) then Inl (AppError 409 ''PASS_SEASON_SALE_CLOSED'')
    else
      (case (case find_entitlement u (ps_id season) s of
               None \<Rightarrow> None | Some e \<Rightarrow> if pe_status e = ''active'' then Some e else None) of
         Some e \<Rightarrow>
           Inr (\<lparr>pu_season_id = ps_id season, pu_entitlement_id = pe_id e,
             pu_price_points = pe_price_points e, pu_replayed = True\<rparr>, s)
       | None \<Rightarrow>
           (case ps_premium_price_points season of
              None \<Rightarrow> Inl (AppError 409 ''PASS_PRICE_NOT_CONFIGURED'')
            | Some price \<Rightarrow>
                if price \<le> 0 then Inl (AppError 409 ''PASS_PRICE_NOT_CONFIGURED'')
                else book_pass u season price s)))"

section \<open>Claiming a tier\<close>

definition find_tier :: "ident \<Rightarrow> db \<Rightarrow> (pass_tier \<times> pass_season) option" where
  "find_tier i s =
    (case find (\<lambda>t. pti_id t = i) (pass_tiers s) of
       None \<Rightarrow> None
     | Some t \<Rightarrow> (case get_season (pti_season_id t) s of None \<Rightarrow> None | Some p \<Rightarrow> Some (t, p)))"

definition clash_reward_pack :: "reward_pack_entitlement \<Rightarrow> reward_pack_entitlement \<Rightarrow> bool" where
  "clash_reward_pack r x \<longleftrightarrow> rpe_id x = rpe_id r \<or> rpe_reward_grant_id x = rpe_reward_grant_id r"

text \<open>A card-pack reward comes with one right to open its pack.\<close>

definition add_pack_entitlement ::
  "ident \<Rightarrow> reward_grant \<Rightarrow> reward \<Rightarrow> db \<Rightarrow> exn + reward_pack_entitlement option \<times> db" where
  "add_pack_entitlement u grant reward s =
    (if rw_reward_type reward \<noteq> ''card_pack'' then Inr (None, s)
     else
       let v = jget (rw_metadata reward) ''cardPackId'' in
       case (case (if truthy v then id_text v else Some []) of
               None \<Rightarrow> None | Some text \<Rightarrow> find_pack (py_strip text) s) of
         None \<Rightarrow> Inl (AppError 409 ''CARD_PACK_NOT_PUBLISHED'')
       | Some pack \<Rightarrow>
           let r = \<lparr>rpe_id = new_id ''reward_pack_entitlement_'' s, rpe_reward_grant_id = rg_id grant,
                 rpe_user_id = u, rpe_pack_id = cp_id pack, rpe_status = ''available'',
                 rpe_opened_at = None, rpe_created_at = now s\<rparr>
           in bindE (insert_row clash_reward_pack r (reward_pack_entitlements s))
                (\<lambda>rows. Inr (Some r, (draw s)\<lparr>reward_pack_entitlements := rows\<rparr>)))"

text \<open>The reward of the tier, granted and claimed at once.\<close>

definition deliver_tier_reward ::
  "ident \<Rightarrow> ident \<Rightarrow> ident \<Rightarrow> string \<Rightarrow> db
    \<Rightarrow> exn + (jobj option \<times> reward_pack_entitlement option) \<times> db" where
  "deliver_tier_reward u reward_id event_id rule_key s =
    bindE (grant_reward u reward_id event_id rule_key s) (\<lambda>(grant, s1).
    case get_reward reward_id s1 of
      None \<Rightarrow> Inr ((None, None), s1)
    | Some reward \<Rightarrow>
        bindE (add_pack_entitlement u grant reward s1) (\<lambda>(entitlement, s2).
        let s3 = set_grant (rg_id grant) (\<lambda>g. g\<lparr>rg_claimed_at := Some (now s2)\<rparr>) s2
        in bindE (add_notification (claimed_notification u (rg_id grant) s3) (draw s3)) (\<lambda>s4.
           Inr ((Some (reward_grant_data (grant\<lparr>rg_claimed_at := Some (now s2)\<rparr>) reward), entitlement), s4))))"

record claim_result =
  cl_season_id :: ident
  cl_tier_id :: ident
  cl_track :: string
  cl_claimed_at :: time
  cl_reward_grant :: "jobj option"
  cl_card_pack_entitlement :: "reward_pack_entitlement option"

text \<open>The checks between the refreshed progress and the writes.\<close>

definition claim_error ::
  "ident \<Rightarrow> pass_tier \<Rightarrow> pass_season \<Rightarrow> string \<Rightarrow> pass_progress_row \<Rightarrow> db \<Rightarrow> exn option" where
  "claim_error u tier season track progress s =
    (if track = ''premium'' \<and> active_entitlement u (ps_id season) s = None
     then Some (AppError 409 ''PASS_PREMIUM_NOT_PURCHASED'')
     else if pti_id tier \<in> set (if track = ''premium'' then ppr_premium_claimed_tier_ids progress
         else ppr_claimed_tier_ids progress)
     then Some (AppError 409 ''PASS_TIER_ALREADY_CLAIMED'')
     else if ppr_current_xp progress < pti_required_xp tier then Some (AppError 409 ''PASS_TIER_LOCKED'')
     else None)"

definition save_claim :: "string \<Rightarrow> ident \<Rightarrow> pass_progress_row \<Rightarrow> db \<Rightarrow> db" where
  "save_claim track tier_id progress s =
    set_progress (ppr_id progress)
      (\<lambda>r. if track = ''premium''
        then r\<lparr>ppr_premium_claimed_tier_ids := ppr_premium_claimed_tier_ids progress @ [tier_id]\<rparr>
        else r\<lparr>ppr_claimed_tier_ids := ppr_claimed_tier_ids progress @ [tier_id]\<rparr>) s"

definition book_claim ::
  "ident \<Rightarrow> pass_tier \<Rightarrow> pass_season \<Rightarrow> string \<Rightarrow> pass_progress_row \<Rightarrow> db \<Rightarrow> exn + claim_result \<times> db" where
  "book_claim u tier season track progress s =
    bindE (record_engagement_event u ''pass_tier_claimed'' ''pass_tier'' (pti_id tier)
        [(''seasonId'', JStr (ps_id season)), (''requiredXp'', JInt (pti_required_xp tier)),
         (''track'', JStr track)] s) (\<lambda>(event, s1).
    let s2 = mark_processed event s1;
        reward_id = (if track = ''premium'' then pti_premium_reward_id tier else pti_reward_id tier)
    in bindE (if present reward_id
        then deliver_tier_reward u (the reward_id) (ev_id event)
          (''pass_tier:'' @ pti_id tier @ '':'' @ track) s2
        else Inr ((None, None), s2)) (\<lambda>((data, entitlement), s3).
    bindE (record_audit
        \<lparr>au_actor_user_id = Some u, au_action = ''pass_tier.claimed'', au_entity_type = ''pass_tier'',
         au_entity_id = pti_id tier, au_organization_id = ps_organization_id season,
         au_artist_id = ps_artist_id season,
         au_details = [(''seasonId'', JStr (ps_id season)), (''requiredXp'', JInt (pti_required_xp tier)),
           (''track'', JStr track)]\<rparr>
        (save_claim track (pti_id tier) progress s3)) (\<lambda>s4.
    Inr (\<lparr>cl_season_id = ps_id season, cl_tier_id = pti_id tier, cl_track = track,
          cl_claimed_at = now s4, cl_reward_grant = data,
          cl_card_pack_entitlement = entitlement\<rparr>, s4))))"

definition claim_pass_tier :: "ident \<Rightarrow> ident \<Rightarrow> string \<Rightarrow> db \<Rightarrow> exn + claim_result \<times> db" where
  "claim_pass_tier u tier_id track s =
    (case find_tier tier_id s of
       None \<Rightarrow> Inl (AppError 404 ''PASS_TIER_NOT_FOUND'')
     | Some (tier, season) \<Rightarrow>
    if ps_status season \<noteq> ''published'' \<or> (track = ''premium'' \<and> \<not> ps_premium_enabled season)
    then Inl (AppError 404 ''PASS_TIER_NOT_FOUND'')
    else if track \<noteq> ''free'' \<and> track \<noteq> ''premium'' then Inl (AppError 422 ''PASS_TRACK_INVALID'')
    else if \<not> season_open_for_claim season (now s) then Inl (AppError 409 ''PASS_SEASON_CLAIM_CLOSED'')
    else
      bindE (refresh_pass_progress u season None s) (\<lambda>(progress, s1).
      case claim_error u tier season track progress s1 of
        Some e \<Rightarrow> Inl e
      | None \<Rightarrow> book_claim u tier season track progress s1))"

section \<open>Repair of missing grants\<close>

definition repairable_tiers :: "ident \<Rightarrow> db \<Rightarrow> (pass_tier \<times> pass_season \<times> reward) list" where
  "repairable_tiers u s =
    (let claimed = concat (map ppr_claimed_tier_ids (filter (\<lambda>r. ppr_user_id r = u) (pass_progress s)))
     in concat (map (\<lambda>t.
          if pti_id t \<notin> set claimed then []
          else case (get_season (pti_season_id t) s, reward_of (pti_reward_id t) s) of
            (Some p, Some r) \<Rightarrow>
              if ps_artist_id p = None \<and> rw_status r = ''published'' then [(t, p, r)] else []
          | _ \<Rightarrow> []) (pass_tiers s)))"

definition repair_tier :: "ident \<Rightarrow> pass_tier \<times> pass_season \<times> reward \<Rightarrow> nat \<times> db \<Rightarrow> exn + nat \<times> db" where
  "repair_tier u row st = (case (row, st) of ((tier, season, reward), (n, s)) \<Rightarrow>
    bindE (record_engagement_event u ''pass_tier_claimed'' ''pass_tier'' (pti_id tier)
        [(''seasonId'', JStr (ps_id season)), (''requiredXp'', JInt (pti_required_xp tier))] s) (\<lambda>(event, s1).
    let s2 = set_event (ev_id event) (\<lambda>x. x\<lparr>ev_status := ''processed'',
          ev_processed_at := (if ev_processed_at x = None then Some (now s1) else ev_processed_at x)\<rparr>) s1
    in bindE (grant_reward u (rw_id reward) (ev_id event) (''pass_tier:'' @ pti_id tier) s2) (\<lambda>(grant, s3).
       if rg_claimed_at grant = None
       then Inr (Suc n, set_grant (rg_id grant) (\<lambda>g. g\<lparr>rg_claimed_at := Some (now s3)\<rparr>) s3)
       else Inr (n, s3))))"

definition reconcile_claimed_global_pass_reward_grants :: "ident \<Rightarrow> db \<Rightarrow> exn + nat \<times> db" where
  "reconcile_claimed_global_pass_reward_grants u s = foldE (repair_tier u) (repairable_tiers u s) (0, s)"


section \<open>Lemmas\<close>

lemma refresh_pass_progress_cases:
  assumes "refresh_pass_progress u season artist s = Inr (p, s')"
  obtains rows where "s' = s\<lparr>pass_progress := rows\<rparr>" "find_progress u (ps_id season) s' = Some p"
proof -
  from assms obtain p0 s1 where
    1: "get_or_insert (\<lambda>r. ppr_user_id r = u \<and> ppr_season_id r = ps_id season) clash_progress
        pass_progress pass_progress_update (\<lambda>s. (new_progress u (ps_id season), s)) s = Inr (p0, s1)"
    and p: "p = p0\<lparr>ppr_current_xp := ppr_current_xp p\<rparr>"
    and s': "s' = set_progress (ppr_id p0) (\<lambda>r. r\<lparr>ppr_current_xp := ppr_current_xp p\<rparr>) s1"
    by (auto simp: refresh_pass_progress_def inr_simps Let_def)
  have s1: "s1 = s\<lparr>pass_progress := pass_progress s1\<rparr> \<and>
      find_progress u (ps_id season) s1 = Some p0"
    using 1 by (subst (asm) get_or_insert_eq_Inr)
      (auto simp: find_progress_def find_append new_progress_def)
  then obtain rows where rows: "s1 = s\<lparr>pass_progress := rows\<rparr>" by blast
  let ?rows = "update_where (\<lambda>r. ppr_id r = ppr_id p0) (\<lambda>r. r\<lparr>ppr_current_xp := ppr_current_xp p\<rparr>) rows"
  have "s' = s\<lparr>pass_progress := ?rows\<rparr>" by (simp add: s' rows set_progress_def)
  moreover have "find_progress u (ps_id season) s' = Some p"
    using s1 by (subst p) (simp add: s' find_progress_def set_progress_def find_update_where)
  ultimately show thesis by (rule that)
qed

lemma refresh_pass_progress_touch [touch]:
  "refresh_pass_progress u p a s = Inr (r, s') \<Longrightarrow> \<exists>rows. s' = s\<lparr>pass_progress := rows\<rparr>"
  by (erule refresh_pass_progress_cases) blast

lemma refresh_known:
  "find_progress u (ps_id season) s = Some p0 \<Longrightarrow>
    \<exists>p s'. refresh_pass_progress u season a s = Inr (p, s') \<and>
      ppr_claimed_tier_ids p = ppr_claimed_tier_ids p0 \<and>
      ppr_premium_claimed_tier_ids p = ppr_premium_claimed_tier_ids p0 \<and>
      (\<exists>rows. s' = s\<lparr>pass_progress := rows\<rparr>)"
  by (auto simp: refresh_pass_progress_def find_progress_def get_or_insert_hit Let_def set_progress_def)

lemma mark_processed_touch: "\<exists>es. mark_processed e s = s\<lparr>engagement_events := es\<rparr>"
  unfolding mark_processed_def set_event_def by blast

lemma mark_processed_simps [simp]:
  "point_ledger (mark_processed e s) = point_ledger s" "point_balances (mark_processed e s) = point_balances s"
  "reward_grants (mark_processed e s) = reward_grants s" "pass_progress (mark_processed e s) = pass_progress s"
  "pass_entitlements (mark_processed e s) = pass_entitlements s"
  "shop_orders (mark_processed e s) = shop_orders s" "pass_seasons (mark_processed e s) = pass_seasons s"
  "now (mark_processed e s) = now s" "pass_tiers (mark_processed e s) = pass_tiers s"
  by (simp_all add: mark_processed_def set_event_def)

lemma save_entitlement_touch [touch]:
  assumes "save_entitlement u season price oid s = Inr (i, s')"
  shows "\<exists>es n. s' = s\<lparr>pass_entitlements := es, drawn := n\<rparr>"
proof -
  from assms have "s' = s\<lparr>pass_entitlements := pass_entitlements s', drawn := drawn s'\<rparr>"
    by (auto simp: save_entitlement_def inr_simps Let_def draw_def)
  then show ?thesis by blast
qed

lemma save_entitlement_found:
  assumes "save_entitlement u season price oid s = Inr (i, s')"
  shows "\<exists>e. find_entitlement u (ps_id season) s' = Some e \<and> pe_status e = ''active'' \<and> pe_id e = i \<and>
    pe_price_points e = price"
proof (cases "find_entitlement u (ps_id season) s")
  case None
  with assms show ?thesis
    by (auto simp: save_entitlement_def inr_simps Let_def find_entitlement_def find_append)
next
  case (Some e)
  with assms show ?thesis
    by (auto simp: save_entitlement_def find_entitlement_def find_update_where)
qed

lemma book_pass_cases:
  assumes "book_pass u season price s = Inr (r, s')"
  obtains event s1 ledger s3 s4 i s5 where
    "record_engagement_event u ''pass_purchased'' ''pass_season'' (ps_id season)
      [(''seasonId'', JStr (ps_id season)), (''points'', JInt price)] s = Inr (event, s1)"
    "spend_points
        \<lparr>pa_user_id = u, pa_source_event_id = ev_id event,
         pa_rule_key = ''pass_purchase:'' @ ps_id season, pa_amount = price,
         pa_metadata = [(''seasonId'', JStr (ps_id season))], pa_expires_at = None,
         pa_reversed_ledger_id = None\<rparr> (save_pass_product season price (mark_processed event s1)) = Inr (ledger, s3)"
    "add_order (pass_order u season price (pl_id ledger) (ev_id event) s3) (draw s3) = Inr s4"
    "save_entitlement u season price (so_id (pass_order u season price (pl_id ledger) (ev_id event) s3)) s4 = Inr (i, s5)"
    "\<exists>a. record_audit a s5 = Inr s'"
    "r = \<lparr>pu_season_id = ps_id season, pu_entitlement_id = i, pu_price_points = price, pu_replayed = False\<rparr>"
proof -
  obtain event s1 where 1: "record_engagement_event u ''pass_purchased'' ''pass_season'' (ps_id season)
      [(''seasonId'', JStr (ps_id season)), (''points'', JInt price)] s = Inr (event, s1)"
    using assms unfolding book_pass_def by (auto simp only: bindE_eq_Inr)
  note r1 = assms [unfolded book_pass_def 1 bindE_Inr prod.case Let_def]
  obtain ledger s3 where 2: "spend_points
        \<lparr>pa_user_id = u, pa_source_event_id = ev_id event,
         pa_rule_key = ''pass_purchase:'' @ ps_id season, pa_amount = price,
         pa_metadata = [(''seasonId'', JStr (ps_id season))], pa_expires_at = None,
         pa_reversed_ledger_id = None\<rparr> (save_pass_product season price (mark_processed event s1)) = Inr (ledger, s3)"
    using r1 by (auto simp only: bindE_eq_Inr)
  note r2 = r1 [unfolded 2 bindE_Inr prod.case]
  obtain s4 where 3: "add_order (pass_order u season price (pl_id ledger) (ev_id event) s3) (draw s3) = Inr s4"
    using r2 by (auto simp only: bindE_eq_Inr)
  note r3 = r2 [unfolded 3 bindE_Inr prod.case]
  obtain i s5 where 4: "save_entitlement u season price
      (so_id (pass_order u season price (pl_id ledger) (ev_id event) s3)) s4 = Inr (i, s5)"
    using r3 by (auto simp only: bindE_eq_Inr)
  from r3 [unfolded 4 bindE_Inr prod.case] show thesis
    by (intro that [OF 1 2 3 4]) (auto simp: inr_simps)
qed

lemma save_pass_product_simps [simp]:
  "point_ledger (save_pass_product p n s) = point_ledger s"
  "point_balances (save_pass_product p n s) = point_balances s"
  "pass_entitlements (save_pass_product p n s) = pass_entitlements s"
  "pass_seasons (save_pass_product p n s) = pass_seasons s"
  "now (save_pass_product p n s) = now s"
  by (simp_all add: save_pass_product_def)

lemma book_pass_keeps [points_keeps]:
  assumes "book_pass u season price s = Inr (r, s')" and "points_inv s"
  shows "points_inv s'"
  using assms(1)
proof (cases rule: book_pass_cases)
  case (1 event s1 ledger s3 s4 i s5)
  from 1(1) assms(2) have "points_inv s1" by (auto dest!: touch)
  then have "points_inv s3" by (intro writers_keep(2) [OF 1(2)]) simp
  with 1(3-5) show ?thesis by (auto dest!: touch)
qed

lemma purchase_pass_season_keeps [points_keeps]:
  "purchase_pass_season u i s = Inr (r, s') \<Longrightarrow> points_inv s \<Longrightarrow> points_inv s'"
  by (auto simp: purchase_pass_season_def inr_simps book_pass_keeps)

interpretation pass_purchases: service "\<lambda>(u, i). purchase_pass_season u i" points_inv
  by unfold_locales (clarsimp simp: purchase_pass_season_keeps)

lemma book_pass_effect:
  assumes "book_pass u season price s = Inr (r, s')" and "0 < price"
    and "find_event u ''pass_purchased'' ''pass_season'' (ps_id season) s = None"
    and "\<And>l. l \<in> set (point_ledger s) \<Longrightarrow> pl_source_event_id l \<noteq> new_id ''evt_'' s"
  shows "price \<le> balance_of u s"
    and "balance_of v s' = balance_of v s - (if v = u then price else 0)"
    and "\<exists>e. find_entitlement u (ps_id season) s' = Some e \<and> pe_status e = ''active'' \<and>
      pe_id e = pu_entitlement_id r \<and> pe_price_points e = price"
    and "pass_seasons s' = pass_seasons s" and "now s' = now s"
    and "\<not> pu_replayed r" and "pu_season_id r = ps_id season" and "pu_price_points r = price"
proof -
  have "price \<le> balance_of u s \<and> (\<forall>v. balance_of v s' = balance_of v s - (if v = u then price else 0)) \<and>
    (\<exists>e. find_entitlement u (ps_id season) s' = Some e \<and> pe_status e = ''active'' \<and>
      pe_id e = pu_entitlement_id r \<and> pe_price_points e = price) \<and>
    pass_seasons s' = pass_seasons s \<and> now s' = now s \<and> \<not> pu_replayed r \<and> pu_season_id r = ps_id season \<and>
    pu_price_points r = price"
    using assms(1)
  proof (cases rule: book_pass_cases)
    case (1 event s1 ledger s3 s4 i s5)
    let ?s2 = "save_pass_product season price (mark_processed event s1)"
    from 1(1) assms(3) have ev: "ev_id event = new_id ''evt_'' s"
      and s1: "point_ledger s1 = point_ledger s" "point_balances s1 = point_balances s"
        "pass_seasons s1 = pass_seasons s" "now s1 = now s"
      by (auto elim!: record_engagement_event_cases simp: new_event_def)
    let ?a = "\<lparr>pa_user_id = u, pa_source_event_id = ev_id event,
         pa_rule_key = ''pass_purchase:'' @ ps_id season, pa_amount = price,
         pa_metadata = [(''seasonId'', JStr (ps_id season))], pa_expires_at = None,
         pa_reversed_ledger_id = None\<rparr>"
    have "find_args ?a ?s2 = None"
      using assms(4) by (auto simp: find_args_def find_ledger_def find_None_iff s1 ev)
    with 1(2) have post: "posted ledger ?s2 s3" "pl_amount ledger = - price" "pl_user_id ledger = u"
      "price \<le> balance_of u s" by (auto elim!: spend_points_cases simp: s1)
    have s3: "pass_seasons s3 = pass_seasons s" "now s3 = now s"
      using 1(2) s1 by (auto dest!: points_touch)
    have s': "point_balances s' = point_balances s3" "pass_seasons s' = pass_seasons s" "now s' = now s"
      using 1(3-5) s3 by (auto dest!: touch)
    have "\<exists>e. find_entitlement u (ps_id season) s' = Some e \<and> pe_status e = ''active'' \<and>
      pe_id e = i \<and> pe_price_points e = price"
      using save_entitlement_found [OF 1(4)] 1(5) by (auto simp: find_entitlement_def dest!: touch)
    with post s' s1 1(6) show ?thesis by (auto simp: posted_def)
  qed
  then show "price \<le> balance_of u s" "balance_of v s' = balance_of v s - (if v = u then price else 0)"
    "\<exists>e. find_entitlement u (ps_id season) s' = Some e \<and> pe_status e = ''active'' \<and>
      pe_id e = pu_entitlement_id r \<and> pe_price_points e = price"
    "pass_seasons s' = pass_seasons s" "now s' = now s" "\<not> pu_replayed r" "pu_season_id r = ps_id season"
    "pu_price_points r = price"
    by simp_all
qed

lemma add_pack_entitlement_touch [touch]:
  assumes "add_pack_entitlement u g r s = Inr (x, s')"
  shows "\<exists>es n. s' = s\<lparr>reward_pack_entitlements := es, drawn := n\<rparr>"
proof -
  from assms have "s' = s\<lparr>reward_pack_entitlements := reward_pack_entitlements s', drawn := drawn s'\<rparr>"
    by (auto simp: add_pack_entitlement_def inr_simps Let_def draw_def)
  then show ?thesis by blast
qed

lemma deliver_tier_reward_touch [touch]:
  assumes "deliver_tier_reward u i e rk s = Inr (x, s')"
  shows "\<exists>gs es ns n. s' = s\<lparr>reward_grants := gs, reward_pack_entitlements := es, notifications := ns,
    drawn := n\<rparr>"
proof -
  from assms have "s' = s\<lparr>reward_grants := reward_grants s',
      reward_pack_entitlements := reward_pack_entitlements s', notifications := notifications s',
      drawn := drawn s'\<rparr>"
    by (auto simp: deliver_tier_reward_def inr_simps Let_def draw_def set_grant_def
        dest!: touch growth_touch)
  then show ?thesis by blast
qed

lemma find_grant_update [simp]:
  "(find_grant u ev rk (set_grant i (\<lambda>g. g\<lparr>rg_claimed_at := t\<rparr>) s) = None) = (find_grant u ev rk s = None)"
  by (simp add: find_grant_def set_grant_def find_update_where)

lemma grant_reward_stored: "grant_reward u i ev rk s = Inr (g, s') \<Longrightarrow> find_grant u ev rk s' = Some g"
  using reward_store.stored [of "(u, ev, rk)"] by simp

lemma grant_reward_mono:
  "grant_reward u i ev rk s = Inr (g, s') \<Longrightarrow> find_grant u2 ev2 rk2 s \<noteq> None \<Longrightarrow>
    find_grant u2 ev2 rk2 s' \<noteq> None"
  by (erule grant_reward_cases) (auto simp: find_grant_def find_append)

lemma find_grant_cong: "reward_grants s' = reward_grants s \<Longrightarrow> find_grant u ev rk s' = find_grant u ev rk s"
  by (simp add: find_grant_def)

lemma deliver_tier_reward_grant:
  assumes "deliver_tier_reward u i e rk s = Inr (x, s')"
  shows "find_grant u e rk s' \<noteq> None"
proof -
  from assms obtain g s1 where 1: "grant_reward u i e rk s = Inr (g, s1)"
    by (auto simp: deliver_tier_reward_def bindE_eq_Inr)
  have "reward_grants s' = reward_grants s1 \<or>
    (\<exists>t. reward_grants s' = update_where (\<lambda>x. rg_id x = rg_id g) (\<lambda>g. g\<lparr>rg_claimed_at := t\<rparr>) (reward_grants s1))"
    using assms 1 by (auto simp: deliver_tier_reward_def inr_simps Let_def set_grant_def dest!: touch)
  then show ?thesis
    using grant_reward_stored [OF 1] by (auto simp: find_grant_def find_update_where)
qed

lemma book_claim_cases:
  assumes "book_claim u tier season track progress s = Inr (r, s')"
  obtains event s1 x y s3 a where
    "record_engagement_event u ''pass_tier_claimed'' ''pass_tier'' (pti_id tier)
        [(''seasonId'', JStr (ps_id season)), (''requiredXp'', JInt (pti_required_xp tier)),
         (''track'', JStr track)] s = Inr (event, s1)"
    "(if present (if track = ''premium'' then pti_premium_reward_id tier else pti_reward_id tier)
        then deliver_tier_reward u (the (if track = ''premium'' then pti_premium_reward_id tier else pti_reward_id tier))
          (ev_id event) (''pass_tier:'' @ pti_id tier @ '':'' @ track) (mark_processed event s1)
        else Inr ((None, None), mark_processed event s1)) = Inr ((x, y), s3)"
    "record_audit a (save_claim track (pti_id tier) progress s3) = Inr s'"
    "r = \<lparr>cl_season_id = ps_id season, cl_tier_id = pti_id tier, cl_track = track,
          cl_claimed_at = now s', cl_reward_grant = x, cl_card_pack_entitlement = y\<rparr>"
proof -
  obtain event s1 where 1: "record_engagement_event u ''pass_tier_claimed'' ''pass_tier'' (pti_id tier)
        [(''seasonId'', JStr (ps_id season)), (''requiredXp'', JInt (pti_required_xp tier)),
         (''track'', JStr track)] s = Inr (event, s1)"
    using assms unfolding book_claim_def by (auto simp only: bindE_eq_Inr)
  note r1 = assms [unfolded book_claim_def 1 bindE_Inr prod.case Let_def]
  obtain x y s3 where 2: "(if present (if track = ''premium'' then pti_premium_reward_id tier else pti_reward_id tier)
        then deliver_tier_reward u (the (if track = ''premium'' then pti_premium_reward_id tier else pti_reward_id tier))
          (ev_id event) (''pass_tier:'' @ pti_id tier @ '':'' @ track) (mark_processed event s1)
        else Inr ((None, None), mark_processed event s1)) = Inr ((x, y), s3)"
    using r1 by (auto simp only: bindE_eq_Inr split_paired_Ex)
  from r1 [unfolded 2 bindE_Inr prod.case] show thesis
    by (intro that [OF 1 2]) (auto simp: inr_simps)
qed

lemma delivered_touch:
  assumes "(if b then deliver_tier_reward u i e rk s else Inr ((None, None), s)) = Inr (x, s')"
  shows "\<exists>gs es ns n. s' = s\<lparr>reward_grants := gs, reward_pack_entitlements := es, notifications := ns,
    drawn := n\<rparr>"
proof (cases b)
  case True
  with assms show ?thesis by (auto dest!: deliver_tier_reward_touch)
next
  case False
  with assms have "s' = s\<lparr>reward_grants := reward_grants s',
      reward_pack_entitlements := reward_pack_entitlements s', notifications := notifications s',
      drawn := drawn s'\<rparr>" by simp
  then show ?thesis by blast
qed

lemma book_claim_effect:
  assumes "book_claim u tier season track progress s = Inr (r, s')"
    and "find_progress u (ps_id season) s = Some progress"
  shows "\<exists>p'. find_progress u (ps_id season) s' = Some p' \<and>
      pti_id tier \<in> set (if track = ''premium'' then ppr_premium_claimed_tier_ids p' else ppr_claimed_tier_ids p')"
    and "pass_tiers s' = pass_tiers s" and "pass_seasons s' = pass_seasons s"
    and "pass_entitlements s' = pass_entitlements s" and "now s' = now s"
    and "point_ledger s' = point_ledger s" and "point_balances s' = point_balances s"
proof -
  have "(\<exists>p'. find_progress u (ps_id season) s' = Some p' \<and>
      pti_id tier \<in> set (if track = ''premium'' then ppr_premium_claimed_tier_ids p' else ppr_claimed_tier_ids p')) \<and>
    pass_tiers s' = pass_tiers s \<and> pass_seasons s' = pass_seasons s \<and>
    pass_entitlements s' = pass_entitlements s \<and> now s' = now s \<and>
    point_ledger s' = point_ledger s \<and> point_balances s' = point_balances s"
    using assms(1)
  proof (cases rule: book_claim_cases)
    case (1 event s1 x y s3 a)
    let ?f = "\<lambda>r. if track = ''premium''
        then r\<lparr>ppr_premium_claimed_tier_ids := ppr_premium_claimed_tier_ids progress @ [pti_id tier]\<rparr>
        else r\<lparr>ppr_claimed_tier_ids := ppr_claimed_tier_ids progress @ [pti_id tier]\<rparr>"
    have s3: "pass_progress s3 = pass_progress s" "pass_tiers s3 = pass_tiers s" "pass_seasons s3 = pass_seasons s"
      "pass_entitlements s3 = pass_entitlements s" "now s3 = now s" "point_ledger s3 = point_ledger s"
      "point_balances s3 = point_balances s"
      using 1(1) delivered_touch [OF 1(2)] by (auto dest!: touch)
    then have "find_progress u (ps_id season) (save_claim track (pti_id tier) progress s3) = Some (?f progress)"
      using assms(2) by (simp add: save_claim_def set_progress_def find_progress_def find_update_where)
    then have "find_progress u (ps_id season) s' = Some (?f progress)"
      using record_audit_touch [OF 1(3)] by (auto simp: find_progress_def)
    moreover have "pti_id tier \<in> set (if track = ''premium'' then ppr_premium_claimed_tier_ids (?f progress)
        else ppr_claimed_tier_ids (?f progress))" by simp
    ultimately show ?thesis
      using record_audit_touch [OF 1(3)] s3 by (auto simp: save_claim_def set_progress_def)
  qed
  then show "\<exists>p'. find_progress u (ps_id season) s' = Some p' \<and>
      pti_id tier \<in> set (if track = ''premium'' then ppr_premium_claimed_tier_ids p' else ppr_claimed_tier_ids p')"
    "pass_tiers s' = pass_tiers s" "pass_seasons s' = pass_seasons s"
    "pass_entitlements s' = pass_entitlements s" "now s' = now s"
    "point_ledger s' = point_ledger s" "point_balances s' = point_balances s"
    by blast+
qed

lemma claim_pass_tier_cases:
  assumes "claim_pass_tier u i track s = Inr (r, s')"
  obtains tier season progress s1 where "find_tier i s = Some (tier, season)"
    "ps_status season = ''published''" "track = ''premium'' \<Longrightarrow> ps_premium_enabled season"
    "track = ''free'' \<or> track = ''premium''" "season_open_for_claim season (now s)"
    "refresh_pass_progress u season None s = Inr (progress, s1)"
    "claim_error u tier season track progress s1 = None"
    "book_claim u tier season track progress s1 = Inr (r, s')"
  using assms by (auto simp: claim_pass_tier_def inr_simps)

lemma claim_pass_tier_keeps [points_keeps]:
  assumes "claim_pass_tier u i track s = Inr (r, s')" and "points_inv s"
  shows "points_inv s'"
  using assms(1)
proof (cases rule: claim_pass_tier_cases)
  case (1 tier season progress s1)
  from refresh_pass_progress_cases [OF 1(6)] have p: "find_progress u (ps_id season) s1 = Some progress"
    by blast
  from 1(6) assms(2) have "points_inv s1" by (auto dest!: touch)
  with book_claim_effect(6,7) [OF 1(8) p] show ?thesis by simp
qed

subsection \<open>Claims and repairs of the same tier\<close>

lemma find_event_set_event:
  assumes "\<And>x. ev_user_id (f x) = ev_user_id x \<and> ev_kind (f x) = ev_kind x \<and>
    ev_source_type (f x) = ev_source_type x \<and> ev_source_id (f x) = ev_source_id x \<and> ev_id (f x) = ev_id x"
  shows "map_option ev_id (find_event u k st si (set_event i f s)) = map_option ev_id (find_event u k st si s)"
  using assms by (cases "find_event u k st si s") (simp_all add: find_event_def set_event_def find_update_where)

definition tier_event :: "ident \<Rightarrow> ident \<Rightarrow> db \<Rightarrow> ident option" where
  "tier_event u i s = map_option ev_id (find_event u ''pass_tier_claimed'' ''pass_tier'' i s)"

lemma record_tier_event:
  assumes "record_engagement_event u k st si p s = Inr (e, s')"
  shows "find_event u k st si s' = Some e"
    and "find_event u2 k2 st2 si2 s = Some e2 \<Longrightarrow> find_event u2 k2 st2 si2 s' = Some e2"
    and "reward_grants s' = reward_grants s"
proof -
  show "find_event u k st si s' = Some e" using record_engagement_event_key(5) [OF assms] .
  show "find_event u2 k2 st2 si2 s = Some e2 \<Longrightarrow> find_event u2 k2 st2 si2 s' = Some e2"
    using assms by (auto elim!: record_engagement_event_cases simp: find_event_def find_append)
  show "reward_grants s' = reward_grants s" using assms by (auto dest!: touch)
qed

lemma book_claim_grant:
  assumes "book_claim u tier season ''free'' progress s = Inr (r, s')" and "present (pti_reward_id tier)"
  shows "\<exists>e. tier_event u (pti_id tier) s' = Some e \<and>
    find_grant u e (''pass_tier:'' @ pti_id tier @ '':free'') s' \<noteq> None"
  using assms(1)
proof (cases rule: book_claim_cases)
  case (1 event s1 x y s3 a)
  have "map_option ev_id (find_event u ''pass_tier_claimed'' ''pass_tier'' (pti_id tier) (mark_processed event s1))
      = Some (ev_id event)"
    unfolding mark_processed_def by (subst find_event_set_event) (simp_all add: record_tier_event(1) [OF 1(1)])
  moreover have "engagement_events s' = engagement_events (mark_processed event s1)"
    using delivered_touch [OF 1(2)] record_audit_touch [OF 1(3)] by (auto simp: save_claim_def set_progress_def)
  ultimately have e: "tier_event u (pti_id tier) s' = Some (ev_id event)"
    by (simp add: tier_event_def find_event_def)
  from 1(2) assms(2) have "deliver_tier_reward u (the (pti_reward_id tier)) (ev_id event)
      (''pass_tier:'' @ pti_id tier @ '':free'') (mark_processed event s1) = Inr ((x, y), s3)" by simp
  then have "find_grant u (ev_id event) (''pass_tier:'' @ pti_id tier @ '':free'') s3 \<noteq> None"
    by (rule deliver_tier_reward_grant)
  moreover have "reward_grants s' = reward_grants s3"
    using record_audit_touch [OF 1(3)] by (auto simp: save_claim_def set_progress_def)
  ultimately have "find_grant u (ev_id event) (''pass_tier:'' @ pti_id tier @ '':free'') s' \<noteq> None"
    using find_grant_cong [of s' s3] by (simp del: not_None_eq)
  with e show ?thesis by blast
qed

lemma repair_tier_steps:
  assumes "repair_tier u (tier, season, reward) (n, s) = Inr (n', s')"
  shows "\<exists>e. tier_event u (pti_id tier) s' = Some e \<and> find_grant u e (''pass_tier:'' @ pti_id tier) s' \<noteq> None"
    and "find_grant v ev rk s \<noteq> None \<Longrightarrow> find_grant v ev rk s' \<noteq> None"
    and "tier_event v i s = Some e \<Longrightarrow> tier_event v i s' = Some e"
proof -
  from assms obtain event s1 grant s3 where
    1: "record_engagement_event u ''pass_tier_claimed'' ''pass_tier'' (pti_id tier)
        [(''seasonId'', JStr (ps_id season)), (''requiredXp'', JInt (pti_required_xp tier))] s = Inr (event, s1)"
    and 2: "grant_reward u (rw_id reward) (ev_id event) (''pass_tier:'' @ pti_id tier)
        (set_event (ev_id event) (\<lambda>x. x\<lparr>ev_status := ''processed'',
          ev_processed_at := (if ev_processed_at x = None then Some (now s1) else ev_processed_at x)\<rparr>) s1) = Inr (grant, s3)"
    and 3: "s' = s3 \<or> s' = set_grant (rg_id grant) (\<lambda>g. g\<lparr>rg_claimed_at := Some (now s3)\<rparr>) s3"
    by (auto simp: repair_tier_def inr_simps Let_def)
  let ?s2 = "set_event (ev_id event) (\<lambda>x. x\<lparr>ev_status := ''processed'',
          ev_processed_at := (if ev_processed_at x = None then Some (now s1) else ev_processed_at x)\<rparr>) s1"
  have ev: "tier_event v i s' = tier_event v i s1" for v i
  proof -
    have "engagement_events s' = engagement_events ?s2"
      using 3 grant_reward_touch [OF 2] by (auto simp: set_grant_def)
    then have "tier_event v i s' = tier_event v i ?s2" by (simp add: tier_event_def find_event_def)
    also have "\<dots> = tier_event v i s1" unfolding tier_event_def by (rule find_event_set_event) simp
    finally show ?thesis .
  qed
  have g: "find_grant v ev rk s' \<noteq> None" if "find_grant v ev rk s3 \<noteq> None" for v ev rk
    using 3 that by (elim disjE) (simp_all del: not_None_eq)
  show "\<exists>e. tier_event u (pti_id tier) s' = Some e \<and> find_grant u e (''pass_tier:'' @ pti_id tier) s' \<noteq> None"
    using ev g [of u "ev_id event"] grant_reward_stored [OF 2] record_tier_event(1) [OF 1]
    by (simp add: tier_event_def)
  show "find_grant v ev rk s \<noteq> None \<Longrightarrow> find_grant v ev rk s' \<noteq> None"
    using grant_reward_mono [OF 2, of v ev rk] record_tier_event(3) [OF 1]
    by (intro g) (simp add: find_grant_def set_event_def)
  show "tier_event v i s = Some e \<Longrightarrow> tier_event v i s' = Some e"
    using record_tier_event(2) [OF 1] ev by (auto simp: tier_event_def)
qed

lemma repairable_after_claim:
  assumes "find_tier i s = Some (tier, season)" and "ps_artist_id season = None"
    and "pti_reward_id tier = Some j" and "get_reward j s = Some reward" and "rw_status reward = ''published''"
    and "find_progress u k s = Some p" and "i \<in> set (ppr_claimed_tier_ids p)"
  shows "(tier, season, reward) \<in> set (repairable_tiers u s)"
proof -
  from assms(1) have t: "tier \<in> set (pass_tiers s)" "pti_id tier = i"
      "get_season (pti_season_id tier) s = Some season"
    by (auto simp: find_tier_def split: option.splits dest!: find_SomeD)
  from assms(6) have "p \<in> set (pass_progress s)" "ppr_user_id p = u"
    by (auto simp: find_progress_def dest!: find_SomeD)
  with t assms show ?thesis
    by (auto simp: repairable_tiers_def Let_def reward_of_def intro!: bexI [of _ tier])
qed

lemma two_grants:
  assumes "find_grant u e k1 s \<noteq> None" and "find_grant u e k2 s \<noteq> None" and "k1 \<noteq> k2"
  shows "2 \<le> count_where (\<lambda>g. rg_user_id g = u \<and> rg_source_event_id g = e) (reward_grants s)"
proof -
  from assms obtain g1 g2 where g: "g1 \<in> set (reward_grants s)" "g2 \<in> set (reward_grants s)" "g1 \<noteq> g2"
    "rg_user_id g1 = u" "rg_source_event_id g1 = e" "rg_user_id g2 = u" "rg_source_event_id g2 = e"
    by (fastforce simp: find_grant_def dest!: find_SomeD)
  let ?xs = "filter (\<lambda>g. rg_user_id g = u \<and> rg_source_event_id g = e) (reward_grants s)"
  have "card {g1, g2} \<le> card (set ?xs)" using g by (intro card_mono) auto
  also have "\<dots> \<le> length ?xs" by (rule card_length)
  finally show ?thesis using g(3) by (simp add: count_where_def)
qed

section \<open>Properties\<close>

text \<open>The premium pass is paid once: a first purchase needs and takes exactly the configured price
  (no other balance moves) and leaves an active entitlement; every later purchase of the season by
  the same fan, while it is on sale, is a replay that returns that entitlement and changes nothing.\<close>

theorem purchase_pass_exact:
  assumes "purchase_pass_season u i s = Inr (r, s')" and "\<not> pu_replayed r"
    and "find_event u ''pass_purchased'' ''pass_season'' i s = None"
    and "\<And>l. l \<in> set (point_ledger s) \<Longrightarrow> pl_source_event_id l \<noteq> new_id ''evt_'' s"
  shows "0 < pu_price_points r \<and> pu_price_points r \<le> balance_of u s \<and>
    (\<forall>v. balance_of v s' = balance_of v s - (if v = u then pu_price_points r else 0)) \<and>
    purchase_pass_season u i s' = Inr (r\<lparr>pu_replayed := True\<rparr>, s')"
proof -
  from assms(1,2) obtain season price where
    season: "get_season i s = Some season" "ps_status season = ''published''" "ps_premium_enabled season"
      "season_active_for_pass_view season (now s)"
    and "ps_premium_price_points season = Some price" and pos: "0 < price"
    and book: "book_pass u season price s = Inr (r, s')"
    by (auto simp: purchase_pass_season_def inr_simps)
  have i: "ps_id season = i" using season(1) by (auto simp: get_season_def dest!: find_SomeD)
  note eff = book_pass_effect [OF book pos assms(3) [folded i] assms(4), simplified]
  from eff(3) obtain e where e: "find_entitlement u (ps_id season) s' = Some e" "pe_status e = ''active''"
    "pe_id e = pu_entitlement_id r" "pe_price_points e = price" by blast
  have "get_season i s' = Some season" using season(1) eff(4) by (simp add: get_season_def)
  with season e eff(5-8) have "purchase_pass_season u i s' = Inr (r\<lparr>pu_replayed := True\<rparr>, s')"
    by (simp add: purchase_pass_season_def)
  with eff pos show ?thesis by simp
qed

definition debut_season :: pass_season where
  "debut_season = \<lparr>ps_id = ''s1'', ps_organization_id = None, ps_artist_id = None, ps_title = ''Debut'',
     ps_description = None, ps_status = ''published'', ps_is_paid = False, ps_premium_enabled = True,
     ps_premium_price_points = Some 200, ps_starts_at = None, ps_ends_at = None\<rparr>"

definition first_tier :: pass_tier where
  "first_tier = \<lparr>pti_id = ''t1'', pti_season_id = ''s1'', pti_tier = 1, pti_required_xp = 0,
     pti_reward_id = Some ''r1'', pti_premium_reward_id = None\<rparr>"

definition pass_db :: db where
  "pass_db = shop_db\<lparr>pass_seasons := [debut_season], pass_tiers := [first_tier],
     reward_catalog := [badge_reward]\<rparr>"

theorem purchase_pass_exact_witness:
  "\<exists>r s'. purchase_pass_season ''ann'' ''s1'' pass_db = Inr (r, s') \<and> pu_price_points r = 200 \<and>
    balance_of ''ann'' s' = 300 \<and> purchase_pass_season ''ann'' ''s1'' s' = Inr (r\<lparr>pu_replayed := True\<rparr>, s')"
proof -
  have "case purchase_pass_season ''ann'' ''s1'' pass_db of Inl e \<Rightarrow> False
    | Inr (r, s') \<Rightarrow> \<not> pu_replayed r \<and> pu_price_points r = 200" by code_simp
  then obtain r s' where r: "purchase_pass_season ''ann'' ''s1'' pass_db = Inr (r, s')"
    and p: "\<not> pu_replayed r" "pu_price_points r = 200" by (auto simp: case_Inr_iff)
  have "find_event ''ann'' ''pass_purchased'' ''pass_season'' ''s1'' pass_db = None" by code_simp
  moreover have "list_all (\<lambda>l. pl_source_event_id l \<noteq> new_id ''evt_'' pass_db) (point_ledger pass_db)"
    by code_simp
  moreover have "balance_of ''ann'' pass_db = 500" by code_simp
  ultimately show ?thesis using purchase_pass_exact [OF r p(1)] p(2) r by (auto simp: list_all_iff)
qed



text \<open>After a fan claims the free reward of a tier of a global pass, the repair of missing grants grants
  it again: the repair looks for the key \<open>pass_tier:ID\<close>, the claim stored \<open>pass_tier:ID:free\<close>, so the
  fan ends with two grants for the one claim event.\<close>

theorem repair_grants_claimed_tier_again:
  assumes "claim_pass_tier u i ''free'' s = Inr (r, s1)"
    and "reconcile_claimed_global_pass_reward_grants u s1 = Inr (n, s2)"
    and "find_tier i s1 = Some (tier, season)" and "ps_artist_id season = None"
    and "pti_reward_id tier = Some j" and "j \<noteq> []"
    and "get_reward j s1 = Some reward" and "rw_status reward = ''published''"
  shows "\<exists>e. tier_event u i s2 = Some e \<and>
    2 \<le> count_where (\<lambda>g. rg_user_id g = u \<and> rg_source_event_id g = e) (reward_grants s2)"
proof -
  have i: "pti_id tier = i" using assms(3) by (auto simp: find_tier_def split: option.splits dest!: find_SomeD)
  from assms(1) obtain p where "find_progress u (ps_id season) s1 = Some p" "i \<in> set (ppr_claimed_tier_ids p)"
    and claimed: "\<exists>e. tier_event u i s1 = Some e \<and> find_grant u e (''pass_tier:'' @ i @ '':free'') s1 \<noteq> None"
  proof (cases rule: claim_pass_tier_cases)
    case (1 tier0 season0 progress s0)
    obtain rows where s0: "s0 = s\<lparr>pass_progress := rows\<rparr>"
      and p: "find_progress u (ps_id season0) s0 = Some progress"
      using refresh_pass_progress_cases [OF 1(6)] by blast
    note eff = book_claim_effect [OF 1(8) p]
    have "find_tier i s1 = Some (tier0, season0)"
      using 1(1) eff(2,3) by (auto simp: find_tier_def get_season_def s0 split: option.splits)
    with assms(3) have eq: "tier0 = tier" "season0 = season" by simp_all
    from eff(1) obtain p' where "find_progress u (ps_id season) s1 = Some p'" "i \<in> set (ppr_claimed_tier_ids p')"
      by (auto simp: eq i)
    moreover have "present (pti_reward_id tier)" using assms(5,6) by simp
    note book_claim_grant [OF 1(8) [unfolded eq] this]
    ultimately show thesis by (intro that) (simp_all add: i)
  qed
  then have row: "(tier, season, reward) \<in> set (repairable_tiers u s1)"
    by (intro repairable_after_claim [OF assms(3,4,5,7,8)])
  from claimed obtain e where e: "tier_event u i s1 = Some e"
    "find_grant u e (''pass_tier:'' @ i @ '':free'') s1 \<noteq> None" by blast
  let ?P = "\<lambda>x. tier_event u i (snd x) = Some e \<and>
    find_grant u e (''pass_tier:'' @ i @ '':free'') (snd x) \<noteq> None"
  let ?Q = "\<lambda>x. ?P x \<and> find_grant u e (''pass_tier:'' @ i) (snd x) \<noteq> None"
  have P: "?P y" if "?P x" "repair_tier u z x = Inr y" for x y :: "nat \<times> db" and z
    using that(1) repair_tier_steps(2,3) [of u "fst z" "fst (snd z)" "snd (snd z)" "fst x" "snd x" "fst y" "snd y"]
      that(2) by (simp del: not_None_eq)
  have "?Q (n, s2)"
  proof (rule foldE_reaches [where P = ?P and Q = ?Q, OF _ row])
    show "foldE (repair_tier u) (repairable_tiers u s1) (0, s1) = Inr (n, s2)"
      using assms(2) by (simp add: reconcile_claimed_global_pass_reward_grants_def)
    show "?P (0, s1)" using e by simp
    show "?P y" if "?P x" "repair_tier u z x = Inr y" for x y :: "nat \<times> db" and z
      using that by (rule P)
    show "?Q y" if "?P x" "repair_tier u (tier, season, reward) x = Inr y" for x y :: "nat \<times> db"
    proof -
      from P [OF that] have p: "?P y" .
      from repair_tier_steps(1) [of u tier season reward "fst x" "snd x" "fst y" "snd y"] that(2)
      obtain e2 where "tier_event u i (snd y) = Some e2" "find_grant u e2 (''pass_tier:'' @ i) (snd y) \<noteq> None"
        unfolding i by (auto simp del: not_None_eq)
      with p show ?thesis by (simp del: not_None_eq)
    qed
    show "?Q y" if "?Q x" "repair_tier u z x = Inr y" for x y :: "nat \<times> db" and z
      using P [OF conjunct1 [OF that(1)] that(2)] conjunct2 [OF that(1)] that(2)
        repair_tier_steps(2) [of u "fst z" "fst (snd z)" "snd (snd z)" "fst x" "snd x" "fst y" "snd y"]
      by (simp del: not_None_eq)
  qed
  then have "find_grant u e (''pass_tier:'' @ i @ '':free'') s2 \<noteq> None"
    "find_grant u e (''pass_tier:'' @ i) s2 \<noteq> None" "tier_event u i s2 = Some e"
    by (simp_all del: not_None_eq)
  from two_grants [OF this(1,2)] this(3) show ?thesis by simp
qed

definition claimed_db :: db where
  "claimed_db = snd (projr (claim_pass_tier ''ann'' ''t1'' ''free'' pass_db))"

theorem repair_grants_claimed_tier_again_witness:
  "\<exists>n s2 e. reconcile_claimed_global_pass_reward_grants ''ann'' claimed_db = Inr (n, s2) \<and>
    2 \<le> count_where (\<lambda>g. rg_user_id g = ''ann'' \<and> rg_source_event_id g = e) (reward_grants s2)"
proof -
  have "\<not> isl (claim_pass_tier ''ann'' ''t1'' ''free'' pass_db)" by code_simp
  then obtain r where r: "claim_pass_tier ''ann'' ''t1'' ''free'' pass_db = Inr (r, claimed_db)"
    by (cases "claim_pass_tier ''ann'' ''t1'' ''free'' pass_db") (auto simp: claimed_db_def)
  have "\<not> isl (reconcile_claimed_global_pass_reward_grants ''ann'' claimed_db)" by code_simp
  then obtain n s2 where n: "reconcile_claimed_global_pass_reward_grants ''ann'' claimed_db = Inr (n, s2)"
    by (cases "reconcile_claimed_global_pass_reward_grants ''ann'' claimed_db") auto
  have "find_tier ''t1'' claimed_db = Some (first_tier, debut_season)"
    "get_reward ''r1'' claimed_db = Some badge_reward" by code_simp+
  from repair_grants_claimed_tier_again [OF r n this(1) _ _ _ this(2)] n show ?thesis
    by (auto simp: first_tier_def debut_season_def badge_reward_def)
qed

end
