(* ===== verification/Calendar.thy ===== *)
theory Calendar
  imports Prelude
begin

text \<open>
  The part of Python's \<open>datetime\<close> module that the mission periods read: the civil date of
  an instant, its ISO text and its ISO year and week. The definitions follow the reference
  implementation of the standard library (\<open>Lib/_pydatetime.py\<close>): proleptic Gregorian
  ordinals, where day 1 is 0001-01-01.
\<close>

section \<open>Dates\<close>

definition day_number :: "time \<Rightarrow> int" where
  "day_number t = t div days 1 + 719163"

definition is_leap :: "int \<Rightarrow> bool" where
  "is_leap y \<longleftrightarrow> y mod 4 = 0 \<and> (y mod 100 \<noteq> 0 \<or> y mod 400 = 0)"

definition days_before_year :: "int \<Rightarrow> int" where
  "days_before_year y = (let k = y - 1 in k * 365 + k div 4 - k div 100 + k div 400)"

definition month_start :: "nat \<Rightarrow> int" where
  "month_start m = [0, 0, 31, 59, 90, 120, 151, 181, 212, 243, 273, 304, 334] ! m"

definition days_before_month :: "bool \<Rightarrow> nat \<Rightarrow> int" where
  "days_before_month leap m = month_start m + (if leap \<and> 2 < m then 1 else 0)"

definition ymd2ord :: "int \<Rightarrow> nat \<Rightarrow> int \<Rightarrow> int" where
  "ymd2ord y m d = days_before_year y + days_before_month (is_leap y) m + d"

text \<open>Month and day of the zero-based day \<open>n\<close> of a year: an estimate that is at most one too large.\<close>

definition month_day :: "bool \<Rightarrow> int \<Rightarrow> nat \<times> int" where
  "month_day leap n =
    (let m = nat ((n + 50) div 32)
     in if days_before_month leap m > n then (m - 1, n - days_before_month leap (m - 1) + 1)
        else (m, n - days_before_month leap m + 1))"

definition ord2ymd :: "int \<Rightarrow> int \<times> nat \<times> int" where
  "ord2ymd number =
    (let n = number - 1;
         n400 = n div 146097; n = n mod 146097;
         n100 = n div 36524; n = n mod 36524;
         n4 = n div 1461; n = n mod 1461;
         n1 = n div 365; n = n mod 365;
         year = n400 * 400 + 1 + n100 * 100 + n4 * 4 + n1
     in if n1 = 4 \<or> n100 = 4 then (year - 1, 12, 31)
        else (year, month_day (n1 = 3 \<and> (n4 \<noteq> 24 \<or> n100 = 3)) n))"

section \<open>ISO weeks\<close>

definition iso_week1_monday :: "int \<Rightarrow> int" where
  "iso_week1_monday y =
    (let first = ymd2ord y 1 1; weekday = (first + 6) mod 7; monday = first - weekday
     in if weekday > 3 then monday + 7 else monday)"

definition isocalendar :: "int \<Rightarrow> int \<times> int" where
  "isocalendar today =
    (let y = fst (ord2ymd today);
         week = (today - iso_week1_monday y) div 7
     in if week < 0 then (y - 1, (today - iso_week1_monday (y - 1)) div 7 + 1)
        else if 52 \<le> week \<and> iso_week1_monday (y + 1) \<le> today then (y + 1, 1)
        else (y, week + 1))"

section \<open>Text\<close>

definition digit :: "int \<Rightarrow> char" where
  "digit k = char_of (48 + nat (k mod 10))"

definition pad2 :: "int \<Rightarrow> string" where
  "pad2 n = [digit (n div 10), digit n]"

definition pad4 :: "int \<Rightarrow> string" where
  "pad4 n = [digit (n div 1000), digit (n div 100), digit (n div 10), digit n]"

definition iso_date :: "time \<Rightarrow> string" where
  "iso_date t = (case ord2ymd (day_number t) of (y, m, d) \<Rightarrow>
    pad4 y @ ''-'' @ pad2 (int m) @ ''-'' @ pad2 d)"

definition iso_week :: "time \<Rightarrow> string" where
  "iso_week t = (case isocalendar (day_number t) of (y, w) \<Rightarrow> show_int y @ ''-W'' @ pad2 w)"

text \<open>\<open>isoformat\<close> of an instant in UTC; a whole second shows no fraction.\<close>

definition iso_instant :: "time \<Rightarrow> string" where
  "iso_instant t =
    (let us = t mod days 1; s = us div 1000000; f = us mod 1000000
     in iso_date t @ ''T'' @ pad2 (s div 3600) @ '':'' @ pad2 (s div 60 mod 60) @ '':'' @ pad2 (s mod 60) @
        (if f = 0 then [] else ''.'' @ pad2 (f div 10000) @ pad4 (f mod 10000)) @ ''+00:00'')"

text \<open>The instants a Python \<open>datetime\<close> can hold: years 1 to 9999.\<close>

definition valid_time :: "time \<Rightarrow> bool" where
  "valid_time t \<longleftrightarrow> 1 \<le> day_number t \<and> day_number t \<le> 3652059"

section \<open>Ordinals and dates\<close>

lemma month_day_correct:
  assumes "0 \<le> n" and "n < 365"
  shows "days_before_month leap (fst (month_day leap n)) + snd (month_day leap n) = n + 1 \<and>
    1 \<le> fst (month_day leap n) \<and> fst (month_day leap n) \<le> 12 \<and>
    1 \<le> snd (month_day leap n) \<and> snd (month_day leap n) \<le> 31"
proof -
  have "list_all (\<lambda>leap. list_all (\<lambda>n.
      days_before_month leap (fst (month_day leap n)) + snd (month_day leap n) = n + 1 \<and>
      1 \<le> fst (month_day leap n) \<and> fst (month_day leap n) \<le> 12 \<and>
      1 \<le> snd (month_day leap n) \<and> snd (month_day leap n) \<le> 31) [0..364]) [True, False]"
    by code_simp
  with assms show ?thesis by (cases leap) (auto simp: list_all_iff)
qed

lemma days_before_year_parts:
  fixes a b c d :: int
  assumes "0 \<le> b" "b \<le> 3" "0 \<le> c" "c \<le> 24" "0 \<le> d" "d \<le> 3"
  shows "days_before_year (400 * a + 100 * b + 4 * c + d + 1) = 146097 * a + 36524 * b + 1461 * c + 365 * d"
proof -
  have "(400 * a + 100 * b + 4 * c + d) div 4 = 100 * a + 25 * b + c" using assms by linarith
  moreover have "(400 * a + 100 * b + 4 * c + d) div 100 = 4 * a + b" using assms by linarith
  moreover have "(400 * a + 100 * b + 4 * c + d) div 400 = a" using assms by linarith
  ultimately show ?thesis by (simp add: days_before_year_def Let_def)
qed

lemma mod_zero_top: "0 < m \<Longrightarrow> 1 \<le> r \<Longrightarrow> r \<le> m \<Longrightarrow> (r + m * k) mod m = 0 \<longleftrightarrow> r = m" for r m k :: int
  by (cases "r = m") simp_all

lemma leap_parts:
  fixes a b c d :: int
  assumes "0 \<le> b" "b \<le> 3" "0 \<le> c" "c \<le> 24" "0 \<le> d" "d \<le> 3"
  shows "is_leap (400 * a + 100 * b + 4 * c + d + 1) \<longleftrightarrow> d = 3 \<and> (c \<noteq> 24 \<or> b = 3)"
proof -
  let ?y = "400 * a + 100 * b + 4 * c + d + 1"
  have "?y = (d + 1) + 4 * (100 * a + 25 * b + c)" by simp
  then have "?y mod 4 = 0 \<longleftrightarrow> d + 1 = 4" using assms by (simp only:) (rule mod_zero_top, simp_all)
  moreover have "?y = (4 * c + d + 1) + 100 * (4 * a + b)" by simp
  then have "?y mod 100 = 0 \<longleftrightarrow> 4 * c + d + 1 = 100" using assms by (simp only:) (rule mod_zero_top, simp_all)
  moreover have "?y = (100 * b + 4 * c + d + 1) + 400 * a" by simp
  then have "?y mod 400 = 0 \<longleftrightarrow> 100 * b + 4 * c + d + 1 = 400" using assms
    by (simp only:) (rule mod_zero_top, simp_all)
  moreover have "d + 1 = 4 \<longleftrightarrow> d = 3" by linarith
  moreover have "4 * c + d + 1 = 100 \<longleftrightarrow> c = 24 \<and> d = 3" using assms(3-6) by presburger
  moreover have "100 * b + 4 * c + d + 1 = 400 \<longleftrightarrow> b = 3 \<and> c = 24 \<and> d = 3"
    using assms by linarith
  ultimately show ?thesis unfolding is_leap_def by (simp only:) blast
qed

lemma year_length: "days_before_year (y + 1) = days_before_year y + (if is_leap y then 366 else 365)"
proof -
  obtain a b c d :: int where "y - 1 = 400 * a + 100 * b + 4 * c + d"
    and r: "0 \<le> b" "b \<le> 3" "0 \<le> c" "c \<le> 24" "0 \<le> d" "d \<le> 3"
  proof
    let ?a = "(y - 1) div 400" and ?r = "(y - 1) mod 400"
    let ?b = "?r div 100" and ?s = "?r mod 100"
    show "y - 1 = 400 * ?a + 100 * ?b + 4 * (?s div 4) + ?s mod 4" by simp
    have "0 \<le> ?r" "?r < 400" "0 \<le> ?s" "?s < 100" by simp_all
    then show "0 \<le> ?b" "?b \<le> 3" "0 \<le> ?s div 4" "?s div 4 \<le> 24" "0 \<le> ?s mod 4" "?s mod 4 \<le> 3"
      by linarith+
  qed
  then have y: "y = 400 * a + 100 * b + 4 * c + d + 1" by simp
  note y0 = days_before_year_parts [OF r, of a]
  consider "d < 3" | "d = 3" "c < 24" | "d = 3" "c = 24" "b < 3" | "d = 3" "c = 24" "b = 3"
    using r by linarith
  then show ?thesis
  proof cases
    case 1
    with r days_before_year_parts [of b c "d + 1" a] y0 leap_parts [OF r, of a] show ?thesis by (simp add: y)
  next
    case 2
    with r days_before_year_parts [of b "c + 1" 0 a] y0 leap_parts [OF r, of a] show ?thesis
      by (simp add: y algebra_simps)
  next
    case 3
    with r days_before_year_parts [of "b + 1" 0 0 a] y0 leap_parts [OF r, of a] show ?thesis
      by (simp add: y algebra_simps)
  next
    case 4
    with r days_before_year_parts [of 0 0 0 "a + 1"] y0 leap_parts [OF r, of a] show ?thesis
      by (simp add: y algebra_simps)
  qed
qed

lemma year_mono: "y < z \<Longrightarrow> days_before_year (y + 1) \<le> days_before_year z"
proof (induction "nat (z - y - 1)" arbitrary: z)
  case 0
  then have "z = y + 1" by simp
  then show ?case by simp
next
  case (Suc k)
  then have "days_before_year (y + 1) \<le> days_before_year (z - 1)" by simp
  with year_length [of "z - 1"] show ?case by (simp split: if_splits)
qed

lemma div_mod_bounds:
  fixes x m k :: int
  assumes "0 \<le> x" "x \<le> k" "0 < m"
  shows "0 \<le> x div m" "x div m \<le> k div m" "0 \<le> x mod m" "x mod m \<le> m - 1" "x = m * (x div m) + x mod m"
  using assms pos_mod_bound [of m x] by (simp_all add: zdiv_mono1 pos_imp_zdiv_nonneg_iff)

text \<open>The digits of a day number in the Gregorian cycles.\<close>

lemma ord2ymd_cases:
  obtains a b c d r :: int where
    "number = 146097 * a + 36524 * b + 1461 * c + 365 * d + r + 1"
    "0 \<le> b" "b \<le> 4" "0 \<le> c" "c \<le> 24" "0 \<le> d" "d \<le> 4" "0 \<le> r" "r \<le> 364"
    "36524 * b + 1461 * c + 365 * d + r \<le> 146096" "1461 * c + 365 * d + r \<le> 36523" "365 * d + r \<le> 1460"
    "ord2ymd number = (if d = 4 \<or> b = 4 then (a * 400 + 1 + b * 100 + c * 4 + d - 1, 12, 31)
        else (a * 400 + 1 + b * 100 + c * 4 + d, month_day (d = 3 \<and> (c \<noteq> 24 \<or> b = 3)) r))"
proof -
  define a r1 where a: "a = (number - 1) div 146097" "r1 = (number - 1) mod 146097"
  define b r2 where b: "b = r1 div 36524" "r2 = r1 mod 36524"
  define c r3 where c: "c = r2 div 1461" "r3 = r2 mod 1461"
  define d r where d: "d = r3 div 365" "r = r3 mod 365"
  have r1: "0 \<le> r1" "r1 \<le> 146096" using pos_mod_bound [of 146097 "number - 1"] by (simp_all add: a)
  have r2: "0 \<le> b" "b \<le> 4" "0 \<le> r2" "r2 \<le> 36523" "r1 = 36524 * b + r2"
    using div_mod_bounds [OF r1, of 36524] by (simp_all add: b)
  have r3: "0 \<le> c" "c \<le> 24" "0 \<le> r3" "r3 \<le> 1460" "r2 = 1461 * c + r3"
    using div_mod_bounds [OF r2(3,4), of 1461] by (simp_all add: c)
  have r4: "0 \<le> d" "d \<le> 4" "0 \<le> r" "r \<le> 364" "r3 = 365 * d + r"
    using div_mod_bounds [OF r3(3,4), of 365] by (simp_all add: d)
  have n: "number - 1 = 146097 * a + r1" unfolding a by simp
  have eq: "ord2ymd number = (if d = 4 \<or> b = 4 then (a * 400 + 1 + b * 100 + c * 4 + d - 1, 12, 31)
        else (a * 400 + 1 + b * 100 + c * 4 + d, month_day (d = 3 \<and> (c \<noteq> 24 \<or> b = 3)) r))"
    by (simp only: ord2ymd_def Let_def a b c d)
  show thesis
    by (rule that [OF _ _ _ _ _ _ _ _ _ _ _ _ eq]) (use r1 r2 r3 r4 n in linarith)+
qed

lemma ord2ymd_correct:
  assumes "ord2ymd number = (y, m, d)"
  shows "ymd2ord y m d = number \<and> days_before_year y < number \<and> number \<le> days_before_year (y + 1) \<and>
    1 \<le> m \<and> m \<le> 12 \<and> 1 \<le> d \<and> d \<le> 31"
proof (cases number rule: ord2ymd_cases)
  case (1 a b c e r)
  show ?thesis
  proof (cases "e = 4 \<or> b = 4")
    case False
    with 1 have p: "0 \<le> b" "b \<le> 3" "0 \<le> c" "c \<le> 24" "0 \<le> e" "e \<le> 3" by linarith+
    from assms 1(13) False have y: "y = 400 * a + 100 * b + 4 * c + e + 1"
      and md: "month_day (e = 3 \<and> (c \<noteq> 24 \<or> b = 3)) r = (m, d)" by auto
    from days_before_year_parts [OF p, of a] have k: "days_before_year y = number - r - 1"
      using 1(1) by (simp only: y)
    have "is_leap y = (e = 3 \<and> (c \<noteq> 24 \<or> b = 3))" using leap_parts [OF p, of a] by (simp only: y)
    with month_day_correct [of r "is_leap y"] 1(8,9) md
    have "days_before_month (is_leap y) m + d = r + 1" "1 \<le> m" "m \<le> 12" "1 \<le> d" "d \<le> 31"
      by auto
    with k year_length [of y] 1(8,9) show ?thesis by (simp add: ymd2ord_def)
  next
    case True
    have "y = 400 * a + 100 * b + 4 * c + e" "m = 12" "d = 31" using assms 1(13) True by auto
    have "is_leap y \<and> days_before_year y = number - 366"
    proof (cases "b = 4")
      case b: True
      with 1 have "c = 0" "e = 0" "r = 0" by linarith+
      with 1(1) b \<open>y = _\<close> leap_parts [of 3 24 3 a] days_before_year_parts [of 3 24 3 a] show ?thesis
        by (simp add: add.commute)
    next
      case b: False
      with True have "e = 4" by simp
      with 1 b have c: "0 \<le> b" "b \<le> 3" "0 \<le> c" "c \<le> 23" "r = 0" by linarith+
      with 1(1) \<open>y = _\<close> \<open>e = 4\<close> leap_parts [of b c 3 a] days_before_year_parts [of b c 3 a] show ?thesis
        by (simp add: ac_simps)
    qed
    moreover have "days_before_month True 12 = 335" by code_simp
    ultimately show ?thesis using year_length [of y] \<open>m = 12\<close> \<open>d = 31\<close> by (simp add: ymd2ord_def)
  qed
qed

lemma ord2ymd_inject: "ord2ymd k = ord2ymd l \<longleftrightarrow> k = l"
proof
  assume eq: "ord2ymd k = ord2ymd l"
  obtain y m d where k: "ord2ymd k = (y, m, d)" by (rule prod_cases3)
  with eq have l: "ord2ymd l = (y, m, d)" by simp
  from ord2ymd_correct [OF k] ord2ymd_correct [OF l] show "k = l" by linarith
qed simp

lemma ord2ymd_year:
  "days_before_year (fst (ord2ymd k)) < k" "k \<le> days_before_year (fst (ord2ymd k) + 1)"
proof -
  obtain y m d where k: "ord2ymd k = (y, m, d)" by (rule prod_cases3)
  from ord2ymd_correct [OF k] k show "days_before_year (fst (ord2ymd k)) < k"
    "k \<le> days_before_year (fst (ord2ymd k) + 1)" by simp_all
qed

section \<open>Weeks\<close>

definition week_start :: "int \<Rightarrow> int" where
  "week_start k = k - (k + 6) mod 7"

lemma week_start_mod: "(week_start k + 6) mod 7 = 0"
  by (simp add: week_start_def mod_diff_left_eq [symmetric] algebra_simps)

lemma iso_week1_monday_near:
  "(iso_week1_monday y + 6) mod 7 = 0" "days_before_year y - 2 \<le> iso_week1_monday y"
  "iso_week1_monday y \<le> days_before_year y + 4"
proof -
  let ?f = "days_before_year y + 1"
  have f: "ymd2ord y 1 1 = ?f" by (simp add: ymd2ord_def days_before_month_def month_start_def)
  let ?w = "(?f + 6) mod 7"
  have w: "0 \<le> ?w" "?w < 7" by simp_all
  have eq: "iso_week1_monday y = (if ?w > 3 then ?f - ?w + 7 else ?f - ?w)"
    by (simp only: iso_week1_monday_def Let_def f)
  then show "days_before_year y - 2 \<le> iso_week1_monday y" "iso_week1_monday y \<le> days_before_year y + 4"
    using w by (auto split: if_splits)
  have "(?f - ?w + 6) mod 7 = 0" using week_start_mod [of ?f] by (simp add: week_start_def)
  then have "(?f - ?w + 7 + 6) mod 7 = 0" "(?f - ?w + 6) mod 7 = 0" by presburger+
  then show "(iso_week1_monday y + 6) mod 7 = 0" unfolding eq by simp
qed

lemma mondays_apart:
  fixes m n :: int
  assumes "(m + 6) mod 7 = 0" and "(n + 6) mod 7 = 0"
  shows "\<exists>q. n = m + 7 * q"
proof -
  from assms have "7 dvd (n + 6) - (m + 6)" by (intro dvd_diff) (simp_all add: dvd_eq_mod_eq_0)
  then show ?thesis by (auto simp: dvd_def algebra_simps)
qed

lemma iso_week1_monday_step:
  "iso_week1_monday (y + 1) = iso_week1_monday y + 364 \<or> iso_week1_monday (y + 1) = iso_week1_monday y + 371"
proof -
  obtain q where q: "iso_week1_monday (y + 1) = iso_week1_monday y + 7 * q"
    using mondays_apart iso_week1_monday_near(1) by blast
  have "359 \<le> 7 * q" "7 * q \<le> 372"
    using iso_week1_monday_near(2,3) [of y] iso_week1_monday_near(2,3) [of "y + 1"] year_length [of y] q
    by (simp_all split: if_splits)
  then have "q = 52 \<or> q = 53" by linarith
  with q show ?thesis by auto
qed

lemma iso_week1_monday_mono: "y < z \<Longrightarrow> iso_week1_monday (y + 1) \<le> iso_week1_monday z"
proof (induction "nat (z - y - 1)" arbitrary: z)
  case 0
  then have "z = y + 1" by simp
  then show ?case by simp
next
  case (Suc k)
  then have "iso_week1_monday (y + 1) \<le> iso_week1_monday (z - 1)" by simp
  with iso_week1_monday_step [of "z - 1"] show ?case by auto
qed

lemma week_start_from:
  assumes "(m + 6) mod 7 = 0"
  shows "week_start k = m + 7 * ((k - m) div 7)"
proof -
  have "(k + 6) mod 7 = ((k - m) + (m + 6)) mod 7" by simp
  also have "\<dots> = (k - m) mod 7" using assms by (metis add.right_neutral mod_add_right_eq)
  finally show ?thesis unfolding week_start_def
    using minus_mult_div_eq_mod [of "k - m" 7] by linarith
qed

text \<open>The ISO year holds the day, and the week counts from its first Monday.\<close>

lemma isocalendar_correct:
  assumes "isocalendar k = (y, w)"
  shows "iso_week1_monday y \<le> k \<and> k < iso_week1_monday (y + 1) \<and>
    week_start k = iso_week1_monday y + 7 * (w - 1) \<and> 1 \<le> w \<and> w \<le> 53"
proof -
  define z where "z = fst (ord2ymd k)"
  note near = iso_week1_monday_near
  have z: "days_before_year z < k" "k \<le> days_before_year (z + 1)"
    using ord2ymd_year [of k] by (simp_all add: z_def)
  let ?m = "iso_week1_monday z"
  have eq: "(y, w) = (if (k - ?m) div 7 < 0 then (z - 1, (k - iso_week1_monday (z - 1)) div 7 + 1)
        else if 52 \<le> (k - ?m) div 7 \<and> iso_week1_monday (z + 1) \<le> k then (z + 1, 1)
        else (z, (k - ?m) div 7 + 1))"
    using assms by (simp only: isocalendar_def Let_def z_def)
  have "iso_week1_monday y \<le> k \<and> k < iso_week1_monday (y + 1) \<and> w = (k - iso_week1_monday y) div 7 + 1"
  proof -
    consider "k < ?m" | "?m \<le> k" "52 \<le> (k - ?m) div 7" "iso_week1_monday (z + 1) \<le> k"
      | "?m \<le> k" "\<not> (52 \<le> (k - ?m) div 7 \<and> iso_week1_monday (z + 1) \<le> k)" by linarith
    then show ?thesis
    proof cases
      case 1
      with eq have "y = z - 1" "w = (k - iso_week1_monday (z - 1)) div 7 + 1"
        by (simp_all split: if_splits)
      with 1 z near(3) [of "z - 1"] year_length [of "z - 1"] show ?thesis by (auto split: if_splits)
    next
      case 2
      with eq have "y = z + 1" "w = 1" by (simp_all add: pos_imp_zdiv_neg_iff split: if_splits)
      moreover from 2 z near(2) [of "z + 1"] iso_week1_monday_step [of "z + 1"]
      have "k < iso_week1_monday (z + 1 + 1)" "k - iso_week1_monday (z + 1) \<le> 2" by auto
      ultimately show ?thesis using 2 by (auto simp: div_pos_pos_trivial)
    next
      case 3
      then have "y = z \<and> w = (k - ?m) div 7 + 1"
        using eq by (auto simp: pos_imp_zdiv_neg_iff split: if_splits)
      moreover from 3 iso_week1_monday_step [of z] have "k < iso_week1_monday (z + 1)" by linarith
      ultimately show ?thesis using 3 by simp
    qed
  qed
  moreover from this have "0 \<le> k - iso_week1_monday y" "k - iso_week1_monday y \<le> 370"
    using iso_week1_monday_step [of y] by auto
  then have "0 \<le> (k - iso_week1_monday y) div 7" "(k - iso_week1_monday y) div 7 \<le> 52" by linarith+
  ultimately show ?thesis using week_start_from [OF near(1) [of y], of k] by simp
qed

lemma isocalendar_eq_iff: "isocalendar k = isocalendar l \<longleftrightarrow> week_start k = week_start l"
proof -
  obtain y w where k: "isocalendar k = (y, w)" by (cases "isocalendar k")
  obtain z v where l: "isocalendar l = (z, v)" by (cases "isocalendar l")
  note kc = isocalendar_correct [OF k] and lc = isocalendar_correct [OF l]
  show ?thesis
  proof
    assume "isocalendar k = isocalendar l"
    with k l kc lc show "week_start k = week_start l" by simp
  next
    assume eq: "week_start k = week_start l"
    have le: "week_start i \<le> i" for i by (simp add: week_start_def)
    have "y = z"
    proof (rule linorder_cases [of y z])
      assume "y < z"
      have "iso_week1_monday z \<le> week_start l" using lc by simp
      also have "\<dots> \<le> k" using le [of k] eq by simp
      finally show ?thesis using iso_week1_monday_mono [OF \<open>y < z\<close>] kc by simp
    next
      assume "z < y"
      have "iso_week1_monday y \<le> week_start k" using kc by simp
      also have "\<dots> \<le> l" using le [of l] eq by simp
      finally show ?thesis using iso_week1_monday_mono [OF \<open>z < y\<close>] lc by simp
    qed
    with kc lc eq k l show "isocalendar k = isocalendar l" by simp
  qed
qed

section \<open>Texts determine their numbers\<close>

lemma digit_inject: "digit k = digit l \<longleftrightarrow> k mod 10 = l mod 10"
proof -
  have "48 + nat (i mod 10) < 256" for i :: int using pos_mod_bound [of 10 i] by linarith
  then have "digit k = digit l \<longleftrightarrow> nat (k mod 10) = nat (l mod 10)"
    by (simp add: digit_def char_of_eq_iff of_char_of take_bit_nat_eq_self)
  then show ?thesis by (simp add: eq_nat_nat_iff)
qed

lemma length_pad [simp]: "length (pad2 n) = 2" "length (pad4 n) = 4"
  by (simp_all add: pad2_def pad4_def)

text \<open>The two and four decimal digits of a small number.\<close>

lemma mod_small: "0 \<le> x \<Longrightarrow> x \<le> k \<Longrightarrow> 0 < m \<Longrightarrow> k div m < 10 \<Longrightarrow> x div m mod 10 = x div m" for x k m :: int
  using div_mod_bounds(1,2) [of x k m] by (intro mod_pos_pos_trivial) linarith+

lemma two_digits:
  fixes m :: int
  assumes "0 \<le> m" "m < 100"
  shows "10 * (m div 10 mod 10) + m mod 10 = m"
  using mod_small [of m 99 10] assms by simp

lemma four_digits:
  fixes m :: int
  assumes "0 \<le> m" "m < 10000"
  shows "1000 * (m div 1000 mod 10) + 100 * (m div 100 mod 10) + 10 * (m div 10 mod 10) + m mod 10 = m"
proof -
  have "m div 100 = m div 10 div 10" "m div 1000 = m div 10 div 10 div 10"
    by (simp_all add: zdiv_zmult2_eq [symmetric])
  moreover have "m div 1000 mod 10 = m div 1000" using assms mod_small [of m 9999 1000] by simp
  moreover have "10 * (k div 10) + k mod 10 = k" for k :: int by simp
  note this [of m] this [of "m div 10"] this [of "m div 10 div 10"]
  ultimately show ?thesis by (simp only:)
qed

lemma pad2_inject:
  assumes "0 \<le> m" "m < 100" "0 \<le> n" "n < 100"
  shows "pad2 m = pad2 n \<longleftrightarrow> m = n"
proof
  assume "pad2 m = pad2 n"
  then have "m div 10 mod 10 = n div 10 mod 10" "m mod 10 = n mod 10" by (simp_all add: pad2_def digit_inject)
  then have "10 * (m div 10 mod 10) + m mod 10 = 10 * (n div 10 mod 10) + n mod 10" by (simp only:)
  then show "m = n" by (simp only: two_digits assms)
qed simp

lemma pad4_inject:
  assumes "0 \<le> m" "m < 10000" "0 \<le> n" "n < 10000"
  shows "pad4 m = pad4 n \<longleftrightarrow> m = n"
proof
  assume "pad4 m = pad4 n"
  then have "m div 1000 mod 10 = n div 1000 mod 10" "m div 100 mod 10 = n div 100 mod 10"
    "m div 10 mod 10 = n div 10 mod 10" "m mod 10 = n mod 10" by (simp_all add: pad4_def digit_inject)
  then have "1000 * (m div 1000 mod 10) + 100 * (m div 100 mod 10) + 10 * (m div 10 mod 10) + m mod 10 =
    1000 * (n div 1000 mod 10) + 100 * (n div 100 mod 10) + 10 * (n div 10 mod 10) + n mod 10" by (simp only:)
  then show "m = n" by (simp only: four_digits assms)
qed simp

text \<open>Reading the digits back.\<close>

definition digits_value :: "string \<Rightarrow> nat" where
  "digits_value s = foldl (\<lambda>a c. 10 * a + (of_char c - 48)) 0 s"

lemma digits_value_show: "digits_value (show_nat n) = n"
proof (induction n rule: show_nat.induct)
  case (1 n)
  have c: "of_char (char_of (48 + k :: nat)) - 48 = k" if "k < 10" for k :: nat
    using that by (simp add: of_char_of take_bit_nat_eq_self)
  show ?case
  proof (cases "n < 10")
    case True
    then show ?thesis by (subst show_nat.simps) (simp add: digits_value_def c)
  next
    case False
    then show ?thesis using 1
      by (subst show_nat.simps) (simp add: digits_value_def c)
  qed
qed

lemma show_nat_inject: "show_nat m = show_nat n \<longleftrightarrow> m = n"
  by (metis digits_value_show)

lemma iso_date_eq_iff:
  assumes "valid_time t" and "valid_time t'"
  shows "iso_date t = iso_date t' \<longleftrightarrow> day_number t = day_number t'"
proof -
  obtain y m d where k: "ord2ymd (day_number t) = (y, m, d)" by (rule prod_cases3)
  obtain z n e where l: "ord2ymd (day_number t') = (z, n, e)" by (rule prod_cases3)
  note kc = ord2ymd_correct [OF k] and lc = ord2ymd_correct [OF l]
  have y: "0 \<le> x \<and> x < 10000" if "days_before_year x < i" "i \<le> days_before_year (x + 1)"
    "1 \<le> i" "i \<le> 3652059" for x i
  proof -
    have "days_before_year 1 = 0" "days_before_year 10000 = 3652059" by code_simp+
    with that year_mono [of x 1] year_mono [of 9999 x] show ?thesis by (smt (verit))
  qed
  have "iso_date t = iso_date t' \<longleftrightarrow> y = z \<and> m = n \<and> d = e"
    using kc lc y [of y "day_number t"] y [of z "day_number t'"] assms
    by (auto simp: iso_date_def k l valid_time_def pad4_inject pad2_inject)
  also have "\<dots> \<longleftrightarrow> day_number t = day_number t'" using k l ord2ymd_inject by fastforce
  finally show ?thesis .
qed

lemma iso_week_eq_iff:
  assumes "valid_time t" and "valid_time t'"
  shows "iso_week t = iso_week t' \<longleftrightarrow> week_start (day_number t) = week_start (day_number t')"
proof -
  obtain y w where k: "isocalendar (day_number t) = (y, w)" by (rule prod.exhaust)
  obtain z v where l: "isocalendar (day_number t') = (z, v)" by (rule prod.exhaust)
  note kc = isocalendar_correct [OF k] and lc = isocalendar_correct [OF l]
  have start: "iso_week1_monday 0 \<le> 0" by code_simp
  have pos: "0 \<le> x" if "i < iso_week1_monday (x + 1)" "1 \<le> i" for x i
    using that start iso_week1_monday_mono [of x 0] by linarith
  have "0 \<le> y" "0 \<le> z"
    using kc lc assms by (auto simp: valid_time_def intro: pos [of "day_number t"] pos [of "day_number t'"])
  then have "iso_week t = iso_week t' \<longleftrightarrow> y = z \<and> w = v"
    using kc lc by (auto simp: iso_week_def k l show_int_def show_nat_inject pad2_inject)
  also have "\<dots> \<longleftrightarrow> week_start (day_number t) = week_start (day_number t')"
    using isocalendar_eq_iff [of "day_number t" "day_number t'"] by (simp add: k l)
  finally show ?thesis .
qed

end
