(* ===== verification/Retry.thy ===== *)
theory Retry
  imports Schema
begin

text \<open>
  The retry policy of background work (\<open>backend/app/retry.py\<close>) and the settings it is called
  with (\<open>backend/app/core/config.py\<close>).
\<close>

record settings =
  engagement_event_max_attempts :: int
  engagement_event_retry_base_seconds :: int
  engagement_event_retry_max_seconds :: int

definition default_settings :: settings where
  "default_settings = \<lparr>engagement_event_max_attempts = 5, engagement_event_retry_base_seconds = 30,
     engagement_event_retry_max_seconds = 3600\<rparr>"

record retry_decision =
  rd_status :: string
  rd_next_attempt_at :: "time option"

definition decide_retry :: "int \<Rightarrow> time \<Rightarrow> int \<Rightarrow> int \<Rightarrow> int \<Rightarrow> retry_decision" where
  "decide_retry attempt_count t max_attempts base_delay max_delay =
    (if max_attempts \<le> attempt_count then \<lparr>rd_status = ''dead_letter'', rd_next_attempt_at = None\<rparr>
     else
       let exponent = nat (max (attempt_count - 1) 0);
           delay = min (base_delay * 2 ^ exponent) max_delay
       in \<lparr>rd_status = ''failed'', rd_next_attempt_at = Some (t + seconds delay)\<rparr>)"

text \<open>With the settings of the service.\<close>

definition retry_with :: "settings \<Rightarrow> int \<Rightarrow> time \<Rightarrow> retry_decision" where
  "retry_with cfg attempt_count t =
    decide_retry attempt_count t (engagement_event_max_attempts cfg)
      (engagement_event_retry_base_seconds cfg) (engagement_event_retry_max_seconds cfg)"

definition retry_delay :: "int \<Rightarrow> int \<Rightarrow> int \<Rightarrow> int" where
  "retry_delay attempt_count base_delay max_delay =
    min (base_delay * 2 ^ nat (max (attempt_count - 1) 0)) max_delay"

lemma decide_retry_status:
  "rd_status (decide_retry n t m b d) = (if m \<le> n then ''dead_letter'' else ''failed'')"
  "rd_next_attempt_at (decide_retry n t m b d) = (if m \<le> n then None else Some (t + seconds (retry_delay n b d)))"
  by (simp_all add: decide_retry_def retry_delay_def Let_def)

lemma retry_delay_mono:
  assumes "0 \<le> b" and "m \<le> n"
  shows "retry_delay m b d \<le> retry_delay n b d"
proof -
  have "nat (max (m - 1) 0) \<le> nat (max (n - 1) 0)" using assms(2) by simp
  then have "b * 2 ^ nat (max (m - 1) 0) \<le> b * 2 ^ nat (max (n - 1) 0)"
    using assms(1) by (intro mult_left_mono power_increasing) simp_all
  then show ?thesis by (auto simp: retry_delay_def)
qed

lemma retry_delay_bounds:
  assumes "0 < b" and "b \<le> d"
  shows "b \<le> retry_delay n b d" and "retry_delay n b d \<le> d"
proof -
  have "b * 1 \<le> b * 2 ^ k" for k :: nat using assms(1) by (intro mult_left_mono) simp_all
  with assms(2) show "b \<le> retry_delay n b d" by (simp add: retry_delay_def)
qed (simp add: retry_delay_def)

end
