(* ===== verification/Progress.thy ===== *)
theory Progress
  imports Calendar Retry Points Growth Pass
begin

text \<open>
  Consumption of engagement events (\<open>backend/app/services.py\<close>): which sources count, the
  missions with their periods, the achievements with their conditions, and the task
  \<open>process_engagement_event\<close> with its retries.
\<close>

section \<open>Which cards count\<close>

text \<open>The join of user cards, cards and drops that every source condition starts from.\<close>

definition card_drop_rows :: "db \<Rightarrow> (user_card \<times> card_row \<times> drop_row) list" where
  "card_drop_rows s =
    concat (map (\<lambda>uc.
      case find (\<lambda>c. c_id c = uc_card_id uc) (cards s) of
        None \<Rightarrow> []
      | Some c \<Rightarrow>
          (case find (\<lambda>d. c_drop_id c = Some (d_id d)) (drops s) of
             None \<Rightarrow> [] | Some d \<Rightarrow> [(uc, c, d)])) (user_cards s))"

definition eligible_source :: "ident \<Rightarrow> user_card \<times> card_row \<times> drop_row \<Rightarrow> bool" where
  "eligible_source u row \<longleftrightarrow> (case row of (uc, c, d) \<Rightarrow>
    uc_user_id uc = u \<and> c_status c = ''published'' \<and> c_is_official c \<and>
    c_release_status c = ''published'' \<and>
    uc_drop_id uc \<noteq> None \<and> uc_drop_id uc = c_drop_id c \<and> d_status d = ''live'')"

text \<open>A condition on a column that is added only for a true value of the payload.\<close>

definition if_given :: "json \<Rightarrow> ident option \<Rightarrow> bool" where
  "if_given v column \<longleftrightarrow> (truthy v \<longrightarrow> (case column of None \<Rightarrow> False | Some i \<Rightarrow> v = JStr i))"

definition card_collected_source_is_eligible :: "engagement_event \<Rightarrow> db \<Rightarrow> bool" where
  "card_collected_source_is_eligible e s \<longleftrightarrow>
    (if ev_kind e \<noteq> ''card_collected'' then True
     else if ev_source_type e \<noteq> ''user_card'' then False
     else
       let pack_id = jget (ev_payload e) ''packId''; card_id = jget (ev_payload e) ''cardId''
       in if jget (ev_payload e) ''source'' = JStr ''card_pack'' \<and> truthy pack_id then
         list_ex (\<lambda>uc.
           uc_user_id uc = ev_user_id e \<and> uc_id uc = ev_source_id e \<and>
           list_ex (\<lambda>c. c_id c = uc_card_id uc \<and> c_status c = ''published'' \<and> c_is_official c \<and>
             c_release_status c = ''published'') (cards s) \<and>
           list_ex (\<lambda>l. pack_id = JStr (cpc_pack_id l) \<and> cpc_card_id l = uc_card_id uc \<and> cpc_enabled l)
             (card_pack_cards s) \<and>
           if_given card_id (Some (uc_card_id uc))) (user_cards s)
       else
         list_ex (\<lambda>row. eligible_source (ev_user_id e) row \<and> uc_id (fst row) = ev_source_id e \<and>
           if_given card_id (Some (uc_card_id (fst row))) \<and>
           if_given (jget (ev_payload e) ''dropId'') (uc_drop_id (fst row))) (card_drop_rows s))"

section \<open>The organization of an event\<close>

definition organization_id_for_card_collected_event :: "engagement_event \<Rightarrow> db \<Rightarrow> ident option" where
  "organization_id_for_card_collected_event e s =
    (if ev_kind e \<noteq> ''card_collected'' then None
     else
       case (if ev_source_type e = ''user_card''
             then (case find (\<lambda>(uc, c, d). uc_id uc = ev_source_id e \<and> uc_user_id uc = ev_user_id e)
                     (card_drop_rows s) of
                   None \<Rightarrow> None | Some (uc, c, d) \<Rightarrow> d_organization_id d)
             else None) of
         Some i \<Rightarrow> Some i
       | None \<Rightarrow>
           let card_id = jget (ev_payload e) ''cardId''; drop_id = jget (ev_payload e) ''dropId''
           in if truthy card_id \<or> truthy drop_id then
             (case find (\<lambda>(c, d). if_given card_id (Some (c_id c)) \<and> if_given drop_id (Some (d_id d)))
                 (concat (map (\<lambda>c. map (Pair c) (filter (\<lambda>d. c_drop_id c = Some (d_id d)) (drops s))) (cards s))) of
                None \<Rightarrow> None | Some (c, d) \<Rightarrow> d_organization_id d)
           else None)"

text \<open>A text that is no identifier belongs to no organization.\<close>

definition organization_id_for_event :: "engagement_event \<Rightarrow> db \<Rightarrow> ident option" where
  "organization_id_for_event e s =
    (let v = jget (ev_payload e) ''organizationId''
     in if truthy v then id_text v else organization_id_for_card_collected_event e s)"

section \<open>Missions\<close>

definition iso_or_open :: "time option \<Rightarrow> string" where
  "iso_or_open t = (case t of None \<Rightarrow> ''open'' | Some x \<Rightarrow> iso_instant x)"

definition mission_period_key :: "string \<Rightarrow> time \<Rightarrow> time option \<Rightarrow> time option \<Rightarrow> string" where
  "mission_period_key recurrence event_time starts_at ends_at =
    (if recurrence = ''daily'' then iso_date event_time
     else if recurrence = ''weekly'' then iso_week event_time
     else if recurrence = ''season'' then ''season:'' @ iso_or_open starts_at @ '':'' @ iso_or_open ends_at
     else ''once'')"

text \<open>\<open>_payload_value_matches\<close>: a list of expected values means any of them.\<close>

definition payload_value_matches :: "json \<Rightarrow> json \<Rightarrow> bool" where
  "payload_value_matches expected actual =
    (case expected of JArr xs \<Rightarrow> list_ex (\<lambda>x. py_eq actual x) xs | _ \<Rightarrow> py_eq actual expected)"

definition mission_payload_matches :: "mission_definition \<Rightarrow> engagement_event \<Rightarrow> bool" where
  "mission_payload_matches m e \<longleftrightarrow>
    list_all (\<lambda>(key, expected).
      case map_of (ev_payload e) key of
        None \<Rightarrow> False | Some actual \<Rightarrow> payload_value_matches expected actual) (md_condition_payload m)"

definition published_missions_for_event :: "engagement_event \<Rightarrow> db \<Rightarrow> mission_definition list" where
  "published_missions_for_event e s =
    (let organization_id = organization_id_for_event e s;
         artist_id = jget (ev_payload e) ''artistId''
     in filter (\<lambda>m.
          (md_organization_id m \<noteq> None \<longrightarrow> md_organization_id m = organization_id) \<and>
          (case md_artist_id m of None \<Rightarrow> True | Some a \<Rightarrow> artist_id = JStr a) \<and>
          mission_payload_matches m e)
        (filter (\<lambda>m. md_status m = ''published'' \<and> md_event_kind m = ev_kind e \<and>
            (case md_starts_at m of None \<Rightarrow> True | Some t \<Rightarrow> t \<le> now s) \<and>
            (case md_ends_at m of None \<Rightarrow> True | Some t \<Rightarrow> now s \<le> t)) (mission_definitions s)))"

definition clash_mission_progress :: "mission_progress_row \<Rightarrow> mission_progress_row \<Rightarrow> bool" where
  "clash_mission_progress r x \<longleftrightarrow> mp_id x = mp_id r \<or>
    (mp_user_id x = mp_user_id r \<and> mp_mission_id x = mp_mission_id r \<and> mp_period_key x = mp_period_key r)"

definition new_mission_progress :: "ident \<Rightarrow> ident \<Rightarrow> string \<Rightarrow> db \<Rightarrow> mission_progress_row" where
  "new_mission_progress u m period s =
    \<lparr>mp_id = new_id ''mission_progress_'' s, mp_user_id = u, mp_mission_id = m, mp_period_key = period,
     mp_current_value = 0, mp_completed_at = None, mp_claimed_at = None\<rparr>"

definition get_or_create_mission_progress ::
  "ident \<Rightarrow> ident \<Rightarrow> string \<Rightarrow> db \<Rightarrow> exn + mission_progress_row \<times> db" where
  "get_or_create_mission_progress u m period =
    get_or_insert (\<lambda>r. mp_user_id r = u \<and> mp_mission_id r = m \<and> mp_period_key r = period)
      clash_mission_progress mission_progress mission_progress_update
      (\<lambda>s. (new_mission_progress u m period s, draw s))"

text \<open>
  \<open>notify_mission_once\<close> and \<open>notify_fan_once\<close> add the notification without queueing
  deliveries; they differ in the kind and the entity.
\<close>

definition notify_growth_once :: "ident \<Rightarrow> string \<Rightarrow> string \<Rightarrow> ident \<Rightarrow> string \<Rightarrow> db \<Rightarrow> exn + db" where
  "notify_growth_once u kind entity_type entity_id key s =
    (if has_notification u key s then Inr s
     else add_notification (new_notification (new_id ''notification_'' s) u kind entity_type entity_id key s) (draw s))"

definition notify_mission_once :: "ident \<Rightarrow> mission_definition \<Rightarrow> string \<Rightarrow> db \<Rightarrow> exn + db" where
  "notify_mission_once u m period =
    notify_growth_once u ''mission_completed'' ''mission'' (md_id m)
      (''mission:'' @ md_id m @ '':'' @ u @ '':'' @ period)"

definition notify_fan_once :: "ident \<Rightarrow> achievement_definition \<Rightarrow> db \<Rightarrow> exn + db" where
  "notify_fan_once u a =
    notify_growth_once u ''achievement_unlocked'' ''achievement'' (ad_id a)
      (''achievement:'' @ ad_id a @ '':'' @ u)"

text \<open>A grant whose identifier comes from a payload, when the payload has one.\<close>

definition grant_reward_named :: "ident \<Rightarrow> json \<Rightarrow> ident \<Rightarrow> string \<Rightarrow> db \<Rightarrow> exn + db" where
  "grant_reward_named u v ev rk s =
    (if \<not> truthy v then Inr s
     else
       case id_text v of
         None \<Rightarrow> (case find_grant u ev rk s of
             Some _ \<Rightarrow> Inr s | None \<Rightarrow> Inl (AppError 409 ''REWARD_NOT_PUBLISHED''))
       | Some i \<Rightarrow> bindE (grant_reward u i ev rk s) (\<lambda>(_, s'). Inr s'))"

definition grant_xp_amount :: "ident \<Rightarrow> ident \<Rightarrow> string \<Rightarrow> int \<Rightarrow> db \<Rightarrow> exn + db" where
  "grant_xp_amount u ev rk amount s =
    (if amount = 0 then Inr s else bindE (grant_xp u ev rk amount s) (\<lambda>(_, s'). Inr s'))"

definition deliver_mission_reward :: "engagement_event \<Rightarrow> mission_definition \<Rightarrow> string \<Rightarrow> db \<Rightarrow> exn + db" where
  "deliver_mission_reward e m period s =
    (let u = ev_user_id e; payload = md_reward_payload m;
         rule_key = ''mission:'' @ md_id m @ '':'' @ period
     in bindE (int_or_raise (jget payload ''xp'')) (\<lambda>xp.
        bindE (grant_xp_amount u (ev_id e) rule_key xp s) (\<lambda>s1.
        bindE (int_or_raise (jget payload ''points'')) (\<lambda>points.
        bindE (if points = 0 then Inr s1
               else bindE (grant_points
                 \<lparr>pa_user_id = u, pa_source_event_id = ev_id e, pa_rule_key = rule_key,
                  pa_amount = points,
                  pa_metadata = [(''missionId'', JStr (md_id m)), (''periodKey'', JStr period)],
                  pa_expires_at = None, pa_reversed_ledger_id = None\<rparr> s1) (\<lambda>(_, s2). Inr s2)) (\<lambda>s2.
        bindE (grant_reward_named u (jget payload ''rewardId'') (ev_id e) rule_key s2)
          (notify_mission_once u m period))))))"

definition set_mission_progress :: "ident \<Rightarrow> (mission_progress_row \<Rightarrow> mission_progress_row) \<Rightarrow> db \<Rightarrow> db" where
  "set_mission_progress i f s =
    s\<lparr>mission_progress := update_where (\<lambda>r. mp_id r = i) f (mission_progress s)\<rparr>"

text \<open>One more event towards the target; a completed period no longer moves.\<close>

definition advance_mission :: "mission_definition \<Rightarrow> time \<Rightarrow> mission_progress_row \<Rightarrow> mission_progress_row" where
  "advance_mission m t r =
    (if mp_completed_at r \<noteq> None then r
     else
       let v = min (mp_current_value r + 1) (md_target_value m)
       in r\<lparr>mp_current_value := v, mp_completed_at := (if md_target_value m \<le> v then Some t else None)\<rparr>)"

definition update_mission_progress ::
  "engagement_event \<Rightarrow> mission_definition \<Rightarrow> db \<Rightarrow> exn + mission_progress_row \<times> db" where
  "update_mission_progress e m s =
    (let period = mission_period_key (md_recurrence m) (now s) (md_starts_at m) (md_ends_at m)
     in bindE (get_or_create_mission_progress (ev_user_id e) (md_id m) period s) (\<lambda>(progress, s1).
        let after = advance_mission m (now s1) progress;
            s2 = set_mission_progress (mp_id progress) (advance_mission m (now s1)) s1
        in bindE (if mp_completed_at after \<noteq> None \<and> mp_completed_at progress = None
                  then deliver_mission_reward e m period s2 else Inr s2) (\<lambda>s3.
           Inr (after, s3))))"

section \<open>Achievements\<close>

definition published_definitions_for_event :: "engagement_event \<Rightarrow> db \<Rightarrow> achievement_definition list" where
  "published_definitions_for_event e s =
    (if ev_kind e \<noteq> ''card_collected'' then []
     else
       let artist_id = jget (ev_payload e) ''artistId'';
           of_artist = (\<lambda>a. case ad_artist_id a of None \<Rightarrow> True | Some x \<Rightarrow> artist_id = JStr x)
       in filter (\<lambda>a. ad_status a = ''published'' \<and>
            (case organization_id_for_card_collected_event e s of
               None \<Rightarrow> ad_organization_id a = None \<and> of_artist a
             | Some i \<Rightarrow> ad_organization_id a = Some i \<or>
                 (ad_organization_id a = None \<and> ad_artist_id a = None)) \<and>
            of_artist a) (achievement_definitions s))"

definition in_scope :: "achievement_definition \<Rightarrow> card_row \<Rightarrow> drop_row \<Rightarrow> bool" where
  "in_scope a c d \<longleftrightarrow>
    (ad_organization_id a \<noteq> None \<longrightarrow> d_organization_id d = ad_organization_id a) \<and>
    (ad_artist_id a \<noteq> None \<longrightarrow> c_artist_id c = ad_artist_id a)"

definition source_rows :: "ident \<Rightarrow> achievement_definition \<Rightarrow> db \<Rightarrow> (user_card \<times> card_row \<times> drop_row) list" where
  "source_rows u a s =
    filter (\<lambda>row. eligible_source u row \<and> in_scope a (fst (snd row)) (snd (snd row))) (card_drop_rows s)"

text \<open>\<open>COUNT(DISTINCT column)\<close> does not count nulls.\<close>

definition owned_card_query_value :: "ident \<Rightarrow> achievement_definition \<Rightarrow> (card_row \<Rightarrow> ident option) \<Rightarrow> db \<Rightarrow> int" where
  "owned_card_query_value u a column s =
    (let rows = filter (\<lambda>row. if_given (jget (ad_condition_payload a) ''memberId'') (c_member_id (fst (snd row))))
         (source_rows u a s)
     in int (length (remdups (List.map_filter (\<lambda>row. column (fst (snd row))) rows))))"

text \<open>\<open>list(campaign.required_card_ids if campaign else payload.get("cardIds", []))\<close>.\<close>

definition required_card_ids :: "jobj \<Rightarrow> db \<Rightarrow> exn + json list" where
  "required_card_ids payload s =
    (let campaign_id = jget payload ''campaignId''
     in case (if truthy campaign_id
              then find (\<lambda>c. campaign_id = JStr (cca_id c)) (collection_campaigns s) else None) of
          Some c \<Rightarrow> Inr (map JStr (cca_required_card_ids c))
        | None \<Rightarrow>
            (case map_of payload ''cardIds'' of
               None \<Rightarrow> Inr []
             | Some (JArr xs) \<Rightarrow> Inr xs
             | Some (JStr t) \<Rightarrow> Inr (map (\<lambda>c. JStr [c]) t)
             | Some (JObj d) \<Rightarrow> Inr (map (JStr \<circ> fst) d)
             | Some _ \<Rightarrow> Inl TypeError))"

definition achievement_current_value :: "engagement_event \<Rightarrow> achievement_definition \<Rightarrow> db \<Rightarrow> exn + int" where
  "achievement_current_value e a s =
    (let u = ev_user_id e; payload = ad_condition_payload a; rows = source_rows u a s;
         kind = ad_condition_type a
     in if kind = ''first_card'' then Inr (min 1 (owned_card_query_value u a (Some \<circ> c_id) s))
     else if kind = ''card_count'' then Inr (owned_card_query_value u a (Some \<circ> c_id) s)
     else if kind = ''member_count'' then Inr (owned_card_query_value u a c_member_id s)
     else if kind = ''specific_card'' then
       (let card_id = jget payload ''cardId''
        in Inr (if truthy card_id \<and> list_ex (\<lambda>row. card_id = JStr (uc_card_id (fst row))) rows then 1 else 0))
     else if kind = ''set_complete'' then
       bindE (required_card_ids payload s) (\<lambda>required.
         Inr (int (length (remdups (filter (\<lambda>i. JStr i \<in> set required) (map (uc_card_id \<circ> fst) rows))))))
     else if kind = ''drop_participation'' then
       (let configured = jget payload ''dropId'';
            drop_id = (if truthy configured then configured else jget (ev_payload e) ''dropId'')
        in Inr (if truthy drop_id \<and> list_ex (\<lambda>row. (case c_drop_id (fst (snd row)) of
               None \<Rightarrow> False | Some i \<Rightarrow> drop_id = JStr i)) rows then 1 else 0))
     else Inr 0)"

definition clash_achievement_progress ::
  "achievement_progress_row \<Rightarrow> achievement_progress_row \<Rightarrow> bool" where
  "clash_achievement_progress r x \<longleftrightarrow> ap_id x = ap_id r \<or>
    (ap_user_id x = ap_user_id r \<and> ap_achievement_id x = ap_achievement_id r)"

definition new_achievement_progress :: "ident \<Rightarrow> ident \<Rightarrow> db \<Rightarrow> achievement_progress_row" where
  "new_achievement_progress u a s =
    \<lparr>ap_id = new_id ''achievement_progress_'' s, ap_user_id = u, ap_achievement_id = a,
     ap_current_value = 0, ap_completed_at = None\<rparr>"

definition get_or_create_achievement_progress ::
  "ident \<Rightarrow> ident \<Rightarrow> db \<Rightarrow> exn + achievement_progress_row \<times> db" where
  "get_or_create_achievement_progress u a =
    get_or_insert (\<lambda>r. ap_user_id r = u \<and> ap_achievement_id r = a)
      clash_achievement_progress achievement_progress achievement_progress_update
      (\<lambda>s. (new_achievement_progress u a s, draw s))"

definition set_achievement_progress ::
  "ident \<Rightarrow> (achievement_progress_row \<Rightarrow> achievement_progress_row) \<Rightarrow> db \<Rightarrow> db" where
  "set_achievement_progress i f s =
    s\<lparr>achievement_progress := update_where (\<lambda>r. ap_id r = i) f (achievement_progress s)\<rparr>"

text \<open>
  The value is recomputed from the owned cards and may fall again; a completion stays. The
  reward is \<open>reward_rule_key\<close>, or the payload's \<open>rewardId\<close> read as text.
\<close>

definition advance_achievement ::
  "achievement_definition \<Rightarrow> int \<Rightarrow> time \<Rightarrow> achievement_progress_row \<Rightarrow> achievement_progress_row" where
  "advance_achievement a current t r =
    (let v = min current (ad_target_value a)
     in r\<lparr>ap_current_value := v,
          ap_completed_at := (if ad_target_value a \<le> v \<and> ap_completed_at r = None then Some t
            else ap_completed_at r)\<rparr>)"

definition achievement_reward :: "achievement_definition \<Rightarrow> json" where
  "achievement_reward a =
    (if present (ad_reward_rule_key a) then JStr (the (ad_reward_rule_key a))
     else jget (ad_condition_payload a) ''rewardId'')"

definition deliver_achievement :: "engagement_event \<Rightarrow> achievement_definition \<Rightarrow> db \<Rightarrow> exn + db" where
  "deliver_achievement e a s =
    (let u = ev_user_id e; rule_key = ''achievement:'' @ ad_id a
     in bindE (int_or_raise (jget (ad_condition_payload a) ''xpBonus'')) (\<lambda>xp.
        bindE (grant_xp_amount u (ev_id e) rule_key xp s) (\<lambda>s1.
        bindE (grant_reward_named u (achievement_reward a) (ev_id e) rule_key s1) (notify_fan_once u a))))"

definition update_achievement_progress ::
  "engagement_event \<Rightarrow> achievement_definition \<Rightarrow> db \<Rightarrow> exn + achievement_progress_row \<times> db" where
  "update_achievement_progress e a s =
    bindE (get_or_create_achievement_progress (ev_user_id e) (ad_id a) s) (\<lambda>(progress, s1).
    bindE (achievement_current_value e a s1) (\<lambda>current.
    let after = advance_achievement a current (now s1) progress;
        s2 = set_achievement_progress (ap_id progress) (advance_achievement a current (now s1)) s1
    in bindE (if ap_completed_at after \<noteq> None \<and> ap_completed_at progress = None
              then deliver_achievement e a s2 else Inr s2) (\<lambda>s3.
       Inr (after, s3))))"

section \<open>Consumption of an event\<close>

definition get_event :: "ident \<Rightarrow> db \<Rightarrow> engagement_event option" where
  "get_event i s = find (\<lambda>e. ev_id e = i) (engagement_events s)"

text \<open>The body of the \<open>try\<close> block, up to the commit.\<close>

definition consume_event :: "engagement_event \<Rightarrow> db \<Rightarrow> exn + db" where
  "consume_event e s =
    (let eligible = card_collected_source_is_eligible e s;
         amount = (if eligible then base_xp_for e else 0)
     in bindE (grant_xp_amount (ev_user_id e) (ev_id e) (ev_kind e) amount s) (\<lambda>s1.
        bindE (if ev_kind e \<noteq> ''card_collected'' \<or> eligible
               then foldE (\<lambda>m s. bindE (update_mission_progress e m s) (\<lambda>(_, s'). Inr s'))
                 (published_missions_for_event e s1) s1
               else Inr s1) (\<lambda>s2.
        bindE (foldE (\<lambda>a s. bindE (update_achievement_progress e a s) (\<lambda>(_, s'). Inr s'))
            (published_definitions_for_event e s2) s2) (\<lambda>s3.
        bindE (update_pass_progress (ev_user_id e) s3) (\<lambda>s4.
        Inr (set_event (ev_id e) (\<lambda>x. x\<lparr>ev_status := ''processed'', ev_processed_at := Some (now s4),
          ev_next_attempt_at := None\<rparr>) s4))))))"

text \<open>The class name or the application code, as \<open>error_code\<close> records it.\<close>

fun error_code :: "exn \<Rightarrow> string" where
  "error_code (AppError status code) = code"
| "error_code IntegrityError = ''IntegrityError''"
| "error_code KeyError = ''KeyError''"
| "error_code TypeError = ''TypeError''"
| "error_code ValueError = ''ValueError''"

text \<open>What the second transaction writes after a failure; \<open>message\<close> is the text of the exception.\<close>

definition record_failure :: "settings \<Rightarrow> (exn \<Rightarrow> string) \<Rightarrow> ident \<Rightarrow> int \<Rightarrow> exn \<Rightarrow> db \<Rightarrow> db" where
  "record_failure cfg message i attempts x s =
    (let decision = retry_with cfg attempts (now s)
     in set_event i (\<lambda>e. e\<lparr>ev_status := rd_status decision,
          ev_next_attempt_at := rd_next_attempt_at decision,
          ev_dead_lettered_at := (if rd_status decision = ''dead_letter'' then Some (now s) else None),
          ev_attempt_count := attempts, ev_error_code := Some (error_code x),
          ev_error_message := Some (take 500 (message x))\<rparr>) s)"

text \<open>
  The task: the exception it raises to its caller, if any, and the database it leaves. A
  failed attempt is rolled back before the failure is recorded.
\<close>

definition process_engagement_event ::
  "settings \<Rightarrow> (exn \<Rightarrow> string) \<Rightarrow> ident \<Rightarrow> db \<Rightarrow> exn option \<times> db" where
  "process_engagement_event cfg message i s =
    (case get_event i s of
       None \<Rightarrow> (Some (AppError 404 ''ENGAGEMENT_EVENT_NOT_FOUND''), s)
     | Some e \<Rightarrow>
         if ev_status e = ''processed'' \<or> ev_status e = ''dead_letter'' then (None, s)
         else
           let attempts = ev_attempt_count e + 1;
               s1 = set_event i (\<lambda>x. x\<lparr>ev_attempt_count := attempts, ev_error_code := None,
                 ev_error_message := None\<rparr>) s
           in case consume_event e s1 of
                Inr s2 \<Rightarrow> (None, s2)
              | Inl x \<Rightarrow> (Some x, record_failure cfg message i attempts x s))"

text \<open>The failed events whose backoff has elapsed, earliest first; the count of those that succeed.\<close>

definition due_events :: "nat \<Rightarrow> db \<Rightarrow> ident list" where
  "due_events limit s =
    map ev_id (take limit (sort_key (\<lambda>e. the (ev_next_attempt_at e))
      (filter (\<lambda>e. ev_status e = ''failed'' \<and>
        (case ev_next_attempt_at e of None \<Rightarrow> False | Some t \<Rightarrow> t \<le> now s)) (engagement_events s))))"

definition retry_failed_engagement_events ::
  "settings \<Rightarrow> (exn \<Rightarrow> string) \<Rightarrow> nat \<Rightarrow> db \<Rightarrow> nat \<times> db" where
  "retry_failed_engagement_events cfg message limit s =
    fold (\<lambda>i (n, s). case process_engagement_event cfg message i s of
        (None, s') \<Rightarrow> (Suc n, s') | (Some _, s') \<Rightarrow> (n, s')) (due_events limit s) (0, s)"

definition revoke_card_growth :: "user_card \<Rightarrow> string \<Rightarrow> db \<Rightarrow> exn + engagement_event \<times> db" where
  "revoke_card_growth uc reason =
    record_engagement_event (uc_user_id uc) ''card_revoked'' ''user_card'' (uc_id uc)
      [(''cardId'', JStr (uc_card_id uc)), (''reason'', JStr reason)]"

section \<open>What consuming an event may write\<close>

text \<open>
  A predicate on the database that the ledger writers keep and that does not look at progress
  rows and notifications is kept by everything the task does before its last assignment.
\<close>

locale growth_writes =
  fixes P :: "db \<Rightarrow> bool"
  assumes xp: "grant_xp u ev rk n s = Inr (r, s') \<Longrightarrow> P s \<Longrightarrow> P s'"
    and points: "grant_points a s = Inr (l, s') \<Longrightarrow> P s \<Longrightarrow> P s'"
    and reward: "grant_reward u i ev rk s = Inr (g, s') \<Longrightarrow> P s \<Longrightarrow> P s'"
    and rows: "P s \<Longrightarrow> P (s\<lparr>drawn := k, mission_progress := ms, achievement_progress := ps,
      pass_progress := qs, notifications := ns\<rparr>)"
begin

lemma missions: "P s \<Longrightarrow> P (s\<lparr>drawn := k, mission_progress := ms\<rparr>)"
  using rows [where s = s and k = k and ms = ms and ps = "achievement_progress s" and qs = "pass_progress s" and ns = "notifications s"] by simp

lemma achievements: "P s \<Longrightarrow> P (s\<lparr>drawn := k, achievement_progress := ps\<rparr>)"
  using rows [where s = s and k = k and ms = "mission_progress s" and ps = ps and qs = "pass_progress s" and ns = "notifications s"] by simp

lemma passes: "P s \<Longrightarrow> P (s\<lparr>pass_progress := qs\<rparr>)"
  using rows [where s = s and k = "drawn s" and ms = "mission_progress s" and ps = "achievement_progress s" and qs = qs and ns = "notifications s"] by simp

lemma notices: "P s \<Longrightarrow> P (s\<lparr>drawn := k, notifications := ns\<rparr>)"
  using rows [where s = s and k = k and ms = "mission_progress s" and ps = "achievement_progress s" and qs = "pass_progress s" and ns = ns] by simp

lemma xp_amount: "grant_xp_amount u ev rk n s = Inr s' \<Longrightarrow> P s \<Longrightarrow> P s'"
  by (auto simp: grant_xp_amount_def inr_simps intro: xp)

lemma reward_named: "grant_reward_named u v ev rk s = Inr s' \<Longrightarrow> P s \<Longrightarrow> P s'"
  by (auto simp: grant_reward_named_def inr_simps intro: reward)

lemma notify: "notify_growth_once u k et ei key s = Inr s' \<Longrightarrow> P s \<Longrightarrow> P s'"
  by (auto simp: notify_growth_once_def add_notification_def inr_simps draw_def intro: notices)

lemma mission_reward: "deliver_mission_reward e m p s = Inr s' \<Longrightarrow> P s \<Longrightarrow> P s'"
  by (auto simp: deliver_mission_reward_def notify_mission_once_def Let_def inr_simps
      dest: xp_amount points reward_named notify)

lemma achievement_reward: "deliver_achievement e a s = Inr s' \<Longrightarrow> P s \<Longrightarrow> P s'"
  by (auto simp: deliver_achievement_def notify_fan_once_def Let_def inr_simps
      dest: xp_amount reward_named notify)

lemma mission_row: "get_or_create_mission_progress u m p s = Inr (r, s') \<Longrightarrow> P s \<Longrightarrow> P s'"
  unfolding get_or_create_mission_progress_def
  by (subst (asm) get_or_insert_draw) (auto simp: draw_def intro: missions)

lemma achievement_row: "get_or_create_achievement_progress u a s = Inr (r, s') \<Longrightarrow> P s \<Longrightarrow> P s'"
  unfolding get_or_create_achievement_progress_def
  by (subst (asm) get_or_insert_draw) (auto simp: draw_def intro: achievements)

lemma set_mission: "P s \<Longrightarrow> P (set_mission_progress i f s)"
  using missions [where s = s and k = "drawn s"] by (simp add: set_mission_progress_def)

lemma set_achievement: "P s \<Longrightarrow> P (set_achievement_progress i f s)"
  using achievements [where s = s and k = "drawn s"] by (simp add: set_achievement_progress_def)

lemma mission: "update_mission_progress e m s = Inr (r, s') \<Longrightarrow> P s \<Longrightarrow> P s'"
  by (auto simp: update_mission_progress_def Let_def inr_simps
      dest!: mission_row intro: mission_reward set_mission)

lemma achievement: "update_achievement_progress e a s = Inr (r, s') \<Longrightarrow> P s \<Longrightarrow> P s'"
  by (auto simp: update_achievement_progress_def Let_def inr_simps
      dest!: achievement_row intro: achievement_reward set_achievement)

lemma pass_seasons_step: "update_pass_progress u s = Inr s' \<Longrightarrow> P s \<Longrightarrow> P s'"
  unfolding update_pass_progress_def
  by (erule foldE_invariant) (auto simp: inr_simps dest!: refresh_pass_progress_touch intro: passes)

lemma consumed:
  assumes "consume_event e s = Inr s'" and "P s"
  obtains s4 where "P s4" "s' = set_event (ev_id e) (\<lambda>x. x\<lparr>ev_status := ''processed'',
    ev_processed_at := Some (now s4), ev_next_attempt_at := None\<rparr>) s4"
proof -
  let ?eligible = "card_collected_source_is_eligible e s"
  from assms(1) obtain s1 s2 s3 s4 where
    1: "grant_xp_amount (ev_user_id e) (ev_id e) (ev_kind e) (if ?eligible then base_xp_for e else 0) s = Inr s1"
    and 2: "(if ev_kind e \<noteq> ''card_collected'' \<or> ?eligible
        then foldE (\<lambda>m s. bindE (update_mission_progress e m s) (\<lambda>(_, s'). Inr s'))
          (published_missions_for_event e s1) s1 else Inr s1) = Inr s2"
    and 3: "foldE (\<lambda>a s. bindE (update_achievement_progress e a s) (\<lambda>(_, s'). Inr s'))
        (published_definitions_for_event e s2) s2 = Inr s3"
    and 4: "update_pass_progress (ev_user_id e) s3 = Inr s4"
    and 5: "s' = set_event (ev_id e) (\<lambda>x. x\<lparr>ev_status := ''processed'',
      ev_processed_at := Some (now s4), ev_next_attempt_at := None\<rparr>) s4"
    unfolding consume_event_def Let_def by (auto simp only: bindE_eq_Inr Inr_inject)
  from 1 assms(2) have "P s1" by (rule xp_amount)
  with 2 have "P s2"
    by (auto split: if_splits elim!: foldE_invariant simp: inr_simps dest: mission)
  with 3 have "P s3" by (rule foldE_invariant) (auto simp: inr_simps dest: achievement)
  with 4 have "P s4" by (rule pass_seasons_step)
  with 5 show thesis by (intro that)
qed

end

interpretation point_writes: growth_writes points_inv
  by unfold_locales (auto dest!: growth_touch intro: writers_keep(1))

interpretation level_writes: growth_writes levels_inv
  by unfold_locales (auto dest!: points_touch growth_touch(2) intro: grant_xp_keeps)

text \<open>The events table and the clock are not touched.\<close>

interpretation event_frame: growth_writes "\<lambda>s. engagement_events s = es \<and> now s = t" for es t
  by unfold_locales (auto dest!: points_touch growth_touch)

section \<open>Attempts\<close>

definition final :: "engagement_event \<Rightarrow> bool" where
  "final e \<longleftrightarrow> ev_status e = ''processed'' \<or> ev_status e = ''dead_letter''"

lemma get_set_event:
  assumes "\<And>x. ev_id (f x) = ev_id x"
  shows "get_event i (set_event j f s) = map_option (\<lambda>e. if ev_id e = j then f e else e) (get_event i s)"
  using assms by (simp add: get_event_def set_event_def find_update_where)

lemma get_event_id: "get_event i s = Some e \<Longrightarrow> ev_id e = i"
  by (auto simp: get_event_def dest!: find_SomeD)

lemma process_final: "get_event i s = Some e \<Longrightarrow> final e \<Longrightarrow> process_engagement_event cfg msg i s = (None, s)"
  by (auto simp: process_engagement_event_def final_def)

lemma process_cases:
  assumes "get_event i s = Some e" and "\<not> final e"
  obtains (Consumed) s2 where "process_engagement_event cfg msg i s = (None, s2)"
      "consume_event e (set_event i (\<lambda>x. x\<lparr>ev_attempt_count := ev_attempt_count e + 1, ev_error_code := None,
         ev_error_message := None\<rparr>) s) = Inr s2"
  | (Failed) x where "process_engagement_event cfg msg i s =
      (Some x, record_failure cfg msg i (ev_attempt_count e + 1) x s)"
proof (cases "consume_event e (set_event i (\<lambda>x. x\<lparr>ev_attempt_count := ev_attempt_count e + 1,
    ev_error_code := None, ev_error_message := None\<rparr>) s)")
  case (Inl x)
  with assms show thesis by (intro Failed [of x]) (simp add: process_engagement_event_def final_def)
next
  case (Inr s2)
  with assms show thesis by (intro Consumed [of s2]) (simp_all add: process_engagement_event_def final_def)
qed

text \<open>The event after a successful attempt.\<close>

lemma consumed_event:
  assumes "consume_event e s = Inr s'" and "get_event (ev_id e) s = Some x"
  shows "\<exists>e'. get_event (ev_id e) s' = Some e' \<and> ev_status e' = ''processed''"
proof (rule event_frame.consumed [OF assms(1), of "engagement_events s" "now s"])
  fix s4
  assume frame: "engagement_events s4 = engagement_events s \<and> now s4 = now s"
    and s': "s' = set_event (ev_id e) (\<lambda>x. x\<lparr>ev_status := ''processed'', ev_processed_at := Some (now s4),
      ev_next_attempt_at := None\<rparr>) s4"
  from frame assms(2) have "get_event (ev_id e) s4 = Some x" by (simp add: get_event_def)
  moreover from this have "ev_id x = ev_id e" by (rule get_event_id)
  ultimately show ?thesis by (simp add: s' get_set_event)
qed simp

lemma process_step:
  assumes "get_event i s = Some e" and "\<not> final e"
  shows "\<exists>e'. get_event i (snd (process_engagement_event cfg msg i s)) = Some e' \<and>
    (ev_status e' = ''processed'' \<or>
     ev_attempt_count e' = ev_attempt_count e + 1 \<and>
     ev_status e' = (if engagement_event_max_attempts cfg \<le> ev_attempt_count e + 1 then ''dead_letter'' else ''failed''))"
  using assms
proof (cases rule: process_cases [where cfg = cfg and msg = msg])
  case (Consumed s2)
  have "ev_id e = i" using assms(1) by (rule get_event_id)
  with consumed_event [OF Consumed(2)] assms(1) obtain e' where "get_event i s2 = Some e'" "ev_status e' = ''processed''"
    by (auto simp: get_set_event)
  then show ?thesis by (simp add: Consumed(1))
next
  case (Failed x)
  have "ev_id e = i" using assms(1) by (rule get_event_id)
  with assms(1) show ?thesis
    by (simp add: Failed record_failure_def Let_def get_set_event retry_with_def decide_retry_status)
qed

definition attempt_at :: "settings \<Rightarrow> (exn \<Rightarrow> string) \<Rightarrow> ident \<Rightarrow> time \<Rightarrow> db \<Rightarrow> db" where
  "attempt_at cfg msg i t s = snd (process_engagement_event cfg msg i (s\<lparr>now := t\<rparr>))"

lemma attempt_step:
  assumes "get_event i s = Some e"
  shows "\<exists>e'. get_event i (attempt_at cfg msg i t s) = Some e' \<and>
    (final e' \<or> \<not> final e \<and> ev_attempt_count e' = ev_attempt_count e + 1 \<and>
      ev_attempt_count e' < engagement_event_max_attempts cfg)"
proof -
  have e: "get_event i (s\<lparr>now := t\<rparr>) = Some e" using assms by (simp add: get_event_def)
  show ?thesis
  proof (cases "final e")
    case True
    with process_final [OF e True] e show ?thesis by (simp add: attempt_at_def)
  next
    case False
    from process_step [OF e False, of cfg msg] False show ?thesis
      by (auto simp: attempt_at_def final_def split: if_splits)
  qed
qed

section \<open>Progress of a mission\<close>

definition find_mission :: "ident \<Rightarrow> ident \<Rightarrow> string \<Rightarrow> db \<Rightarrow> mission_progress_row option" where
  "find_mission u m p s =
    find (\<lambda>r. mp_user_id r = u \<and> mp_mission_id r = m \<and> mp_period_key r = p) (mission_progress s)"

lemma mission_row_found:
  assumes "get_or_create_mission_progress u m p s = Inr (r, s')"
  shows "find_mission u m p s' = Some r \<and> now s' = now s \<and> notifications s' = notifications s \<and>
    (find_mission u m p s = None \<longrightarrow> mp_current_value r = 0 \<and> mp_completed_at r = None) \<and>
    (\<forall>r0. find_mission u m p s = Some r0 \<longrightarrow> r = r0)"
  using assms unfolding get_or_create_mission_progress_def
  by (subst (asm) get_or_insert_draw) (auto simp: find_mission_def find_append new_mission_progress_def)

lemma delivered_frame:
  assumes "deliver_mission_reward e m p s = Inr s'"
  shows "mission_progress s' = mission_progress s \<and> now s' = now s \<and>
    has_notification (ev_user_id e) (''mission:'' @ md_id m @ '':'' @ ev_user_id e @ '':'' @ p) s'"
proof -
  have xp: "mission_progress s' = mission_progress s \<and> now s' = now s" if "grant_xp_amount u ev rk n s = Inr s'" for u ev rk n s s'
    using that by (auto simp: grant_xp_amount_def inr_simps dest!: growth_touch)
  have named: "mission_progress s' = mission_progress s \<and> now s' = now s" if "grant_reward_named u v ev rk s = Inr s'" for u v ev rk s s'
    using that by (auto simp: grant_reward_named_def inr_simps dest!: growth_touch)
  have notice: "mission_progress s' = mission_progress s \<and> now s' = now s \<and> has_notification u key s'"
    if "notify_growth_once u k et ei key s = Inr s'" for u k et ei key s s'
    using that by (auto simp: notify_growth_once_def add_notification_def inr_simps has_notification_def
      new_notification_def)
  from assms show ?thesis
    by (auto simp: deliver_mission_reward_def notify_mission_once_def Let_def inr_simps
        dest!: xp named notice points_touch)
qed

definition mission_at :: "engagement_event \<Rightarrow> mission_definition \<Rightarrow> string \<Rightarrow> nat \<Rightarrow> db \<Rightarrow> bool" where
  "mission_at e m p k s \<longleftrightarrow>
    (case find_mission (ev_user_id e) (md_id m) p s of
       None \<Rightarrow> k = 0
     | Some r \<Rightarrow> mp_current_value r = min (int k) (md_target_value m) \<and>
         (mp_completed_at r \<noteq> None \<longleftrightarrow> md_target_value m \<le> int k))"

lemma mission_step:
  assumes "update_mission_progress e m s = Inr (r, s')" and "mission_at e m p k s" and "1 \<le> md_target_value m"
    and p: "p = mission_period_key (md_recurrence m) (now s) (md_starts_at m) (md_ends_at m)"
  shows "find_mission (ev_user_id e) (md_id m) p s' = Some r \<and> mission_at e m p (Suc k) s' \<and> now s' = now s \<and>
    (has_notification (ev_user_id e) (''mission:'' @ md_id m @ '':'' @ ev_user_id e @ '':'' @ p) s' \<longleftrightarrow>
      has_notification (ev_user_id e) (''mission:'' @ md_id m @ '':'' @ ev_user_id e @ '':'' @ p) s \<or>
      md_target_value m = int (Suc k))"
proof -
  let ?u = "ev_user_id e" and ?key = "''mission:'' @ md_id m @ '':'' @ ev_user_id e @ '':'' @ p"
  from assms(1) obtain progress s1 where
    1: "get_or_create_mission_progress ?u (md_id m) p s = Inr (progress, s1)"
    and r: "r = advance_mission m (now s1) progress"
    and 2: "(if mp_completed_at r \<noteq> None \<and> mp_completed_at progress = None
        then deliver_mission_reward e m p (set_mission_progress (mp_id progress) (advance_mission m (now s1)) s1)
        else Inr (set_mission_progress (mp_id progress) (advance_mission m (now s1)) s1)) = Inr s'"
    unfolding update_mission_progress_def Let_def p by (auto simp: inr_simps)
  let ?s2 = "set_mission_progress (mp_id progress) (advance_mission m (now s1)) s1"
  note found = mission_row_found [OF 1]
  have keeps: "mp_user_id (advance_mission m t x) = mp_user_id x \<and> mp_mission_id (advance_mission m t x) = mp_mission_id x \<and>
    mp_period_key (advance_mission m t x) = mp_period_key x" for t x by (simp add: advance_mission_def Let_def)
  have s2: "find_mission ?u (md_id m) p ?s2 = Some r" "now ?s2 = now s" "notifications ?s2 = notifications s"
    using found keeps by (simp_all add: find_mission_def set_mission_progress_def find_update_where r)
  have s': "find_mission ?u (md_id m) p s' = Some r \<and> now s' = now s \<and>
    (has_notification ?u ?key s' \<longleftrightarrow> has_notification ?u ?key s \<or> (mp_completed_at r \<noteq> None \<and> mp_completed_at progress = None))"
  proof (cases "mp_completed_at r \<noteq> None \<and> mp_completed_at progress = None")
    case True
    with 2 have "deliver_mission_reward e m p ?s2 = Inr s'" by simp
    from delivered_frame [OF this] True s2 show ?thesis by (simp add: find_mission_def)
  next
    case False
    with 2 have "s' = ?s2" by auto
    with False s2 show ?thesis by (auto simp: has_notification_def)
  qed
  have before: "mp_current_value progress = min (int k) (md_target_value m)"
    "mp_completed_at progress \<noteq> None \<longleftrightarrow> md_target_value m \<le> int k"
    using found assms(2,3) by (cases "find_mission ?u (md_id m) p s"; simp add: mission_at_def)+
  have after: "mp_current_value r = min (int (Suc k)) (md_target_value m)"
    "mp_completed_at r \<noteq> None \<longleftrightarrow> md_target_value m \<le> int (Suc k)"
    using before by (cases "mp_completed_at progress"; simp add: r advance_mission_def Let_def min_def)+
  have "mp_completed_at r \<noteq> None \<and> mp_completed_at progress = None \<longleftrightarrow> md_target_value m = int (Suc k)"
    using before(2) after(2) by auto
  with s' after show ?thesis by (simp add: mission_at_def)
qed

definition advance_all :: "mission_definition \<Rightarrow> engagement_event list \<Rightarrow> db \<Rightarrow> exn + db" where
  "advance_all m = foldE (\<lambda>e s. bindE (update_mission_progress e m s) (\<lambda>(_, s'). Inr s'))"

lemma mission_steps:
  assumes "advance_all m es s = Inr s'" and "mission_at e m p k s" and "1 \<le> md_target_value m"
    and "p = mission_period_key (md_recurrence m) (now s) (md_starts_at m) (md_ends_at m)"
    and "\<forall>x \<in> set es. ev_user_id x = ev_user_id e"
    and "has_notification (ev_user_id e) (''mission:'' @ md_id m @ '':'' @ ev_user_id e @ '':'' @ p) s \<longleftrightarrow>
      md_target_value m \<le> int k"
  shows "mission_at e m p (k + length es) s' \<and>
    (has_notification (ev_user_id e) (''mission:'' @ md_id m @ '':'' @ ev_user_id e @ '':'' @ p) s' \<longleftrightarrow>
      md_target_value m \<le> int (k + length es)) \<and>
    (es \<noteq> [] \<longrightarrow> find_mission (ev_user_id e) (md_id m) p s' \<noteq> None)"
  using assms
proof (induction es arbitrary: s k)
  case Nil
  then show ?case by (simp add: advance_all_def)
next
  case (Cons x es)
  let ?key = "''mission:'' @ md_id m @ '':'' @ ev_user_id e @ '':'' @ p"
  from Cons.prems(1) obtain r s1 where 1: "update_mission_progress x m s = Inr (r, s1)"
    and 2: "advance_all m es s1 = Inr s'" by (auto simp: advance_all_def inr_simps)
  have x: "ev_user_id x = ev_user_id e" using Cons.prems(5) by simp
  have "mission_at x m p k s" using Cons.prems(2) x by (simp add: mission_at_def)
  from mission_step [OF 1 this Cons.prems(3,4)] x
  have step: "find_mission (ev_user_id e) (md_id m) p s1 = Some r" "mission_at e m p (Suc k) s1" "now s1 = now s"
    "has_notification (ev_user_id e) ?key s1 \<longleftrightarrow> md_target_value m \<le> int (Suc k)"
    using Cons.prems(6) by (auto simp: mission_at_def)
  from Cons.IH [OF 2 step(2) Cons.prems(3)] Cons.prems(4,5) step(1,3,4)
  show ?case using 2 by (cases es) (simp_all add: advance_all_def)
qed

section \<open>Properties\<close>

text \<open>Mission periods are calendar periods: two instants get the same daily key exactly when they fall
  on the same UTC day, and the same weekly key exactly when their weeks start on the same Monday,
  also across the turn of a year.\<close>

theorem period_keys_are_periods:
  assumes "valid_time t" and "valid_time t'"
  shows "(mission_period_key ''daily'' t a b = mission_period_key ''daily'' t' a b \<longleftrightarrow>
      day_number t = day_number t') \<and>
    (mission_period_key ''weekly'' t a b = mission_period_key ''weekly'' t' a b \<longleftrightarrow>
      week_start (day_number t) = week_start (day_number t'))"
  using assms by (simp add: mission_period_key_def iso_date_eq_iff iso_week_eq_iff)

text \<open>2024-12-30 (a Monday) and 2025-01-05 share a week, 2024-12-29 does not.\<close>

theorem period_keys_are_periods_witness:
  "mission_period_key ''weekly'' (days 20087) None None = mission_period_key ''weekly'' (days 20093) None None \<and>
   mission_period_key ''weekly'' (days 20087) None None \<noteq> mission_period_key ''weekly'' (days 20086) None None \<and>
   mission_period_key ''weekly'' (days 20087) None None = ''2025-W01''"
proof -
  have "valid_time (days 20087)" "valid_time (days 20093)" "valid_time (days 20086)"
    "week_start (day_number (days 20087)) = week_start (day_number (days 20093))"
    "week_start (day_number (days 20087)) \<noteq> week_start (day_number (days 20086))"
    "mission_period_key ''weekly'' (days 20087) None None = ''2025-W01''"
    by code_simp+
  with period_keys_are_periods [of "days 20087" "days 20093" None None]
    period_keys_are_periods [of "days 20087" "days 20086" None None]
  show ?thesis by simp
qed

text \<open>Counting towards a mission: over any sequence of a fan's events in one period that the service
  handles without an exception, starting from no progress, the value is the number of events capped
  at the target, the period is completed exactly when the target is reached, and the completion
  notification of the period exists exactly then.\<close>

theorem mission_counts_to_target:
  assumes "advance_all m es s = Inr s'" and "es \<noteq> []" and "1 \<le> md_target_value m"
    and "\<forall>x \<in> set es. ev_user_id x = u"
    and "find_mission u (md_id m) p s = None"
    and "p = mission_period_key (md_recurrence m) (now s) (md_starts_at m) (md_ends_at m)"
    and "\<not> has_notification u (''mission:'' @ md_id m @ '':'' @ u @ '':'' @ p) s"
  shows "\<exists>r. find_mission u (md_id m) p s' = Some r \<and>
    mp_current_value r = min (int (length es)) (md_target_value m) \<and>
    (mp_completed_at r \<noteq> None \<longleftrightarrow> md_target_value m \<le> int (length es)) \<and>
    (has_notification u (''mission:'' @ md_id m @ '':'' @ u @ '':'' @ p) s' \<longleftrightarrow>
      md_target_value m \<le> int (length es))"
proof -
  let ?e = "hd es"
  have e: "ev_user_id ?e = u" using assms(2,4) by simp
  have "mission_at ?e m p 0 s" using assms(5) e by (simp add: mission_at_def)
  from mission_steps [OF assms(1) this assms(3,6)] assms(2,3,4,7) e show ?thesis
    by (auto simp: mission_at_def)
qed

text \<open>C24. Retries end: whatever the handlers raise, after at most as many attempts as the settings allow
  (counted from the attempts already made) the event is processed or dead-lettered.\<close>

theorem attempts_settle:
  assumes "get_event i s = Some e" and "ts \<noteq> []"
    and "engagement_event_max_attempts cfg \<le> ev_attempt_count e + int (length ts)"
  shows "\<exists>e'. get_event i (fold (attempt_at cfg msg i) ts s) = Some e' \<and> final e'"
  using assms
proof (induction ts arbitrary: s e)
  case (Cons t ts)
  from attempt_step [OF Cons.prems(1), of cfg msg t] obtain e1 where
    e1: "get_event i (attempt_at cfg msg i t s) = Some e1"
    and st: "final e1 \<or> ev_attempt_count e1 = ev_attempt_count e + 1 \<and>
      ev_attempt_count e1 < engagement_event_max_attempts cfg" by blast
  have stays: "\<exists>e'. get_event i (fold (attempt_at cfg msg i) ts s) = Some e' \<and> final e'"
    if "get_event i s = Some e" "final e" for ts s e
    using that
  proof (induction ts arbitrary: s e)
    case (Cons t ts)
    from attempt_step [OF Cons.prems(1), of cfg msg t] Cons.prems(2) Cons.IH show ?case by fastforce
  qed simp
  show ?case
  proof (cases "final e1")
    case True
    with stays [OF e1] show ?thesis by simp
  next
    case False
    with st Cons.prems(3) have "ts \<noteq> []" by auto
    with Cons.IH [OF e1] st False Cons.prems(3) show ?thesis by simp
  qed
qed simp

text \<open>A failed attempt leaves no trace but its own record: every table except the event's row is as
  before, the attempt is counted, the event is dead-lettered exactly when the attempts are used up,
  and otherwise its next attempt lies between the base and the maximal delay.\<close>

theorem failed_attempt_rolls_back:
  assumes "process_engagement_event cfg msg i s = (Some x, s')" and "get_event i s = Some e"
    and "0 < engagement_event_retry_base_seconds cfg"
    and "engagement_event_retry_base_seconds cfg \<le> engagement_event_retry_max_seconds cfg"
  shows "s' = s\<lparr>engagement_events := engagement_events s'\<rparr> \<and>
    filter (\<lambda>y. ev_id y \<noteq> i) (engagement_events s') = filter (\<lambda>y. ev_id y \<noteq> i) (engagement_events s) \<and>
    (\<exists>e'. get_event i s' = Some e' \<and> ev_attempt_count e' = ev_attempt_count e + 1 \<and>
      ev_error_code e' = Some (error_code x) \<and>
      (if engagement_event_max_attempts cfg \<le> ev_attempt_count e' then
         ev_status e' = ''dead_letter'' \<and> ev_next_attempt_at e' = None
       else ev_status e' = ''failed'' \<and> (\<exists>t. ev_next_attempt_at e' = Some t \<and>
         now s + seconds (engagement_event_retry_base_seconds cfg) \<le> t \<and>
         t \<le> now s + seconds (engagement_event_retry_max_seconds cfg))))"
proof -
  have nf: "\<not> final e" using assms(1,2) process_final [of i s e cfg msg] by auto
  from assms(1) have s': "s' = record_failure cfg msg i (ev_attempt_count e + 1) x s"
    by (cases rule: process_cases [OF assms(2) nf, of cfg msg]) simp_all
  have other: "filter (\<lambda>y. ev_id y \<noteq> i) (update_where (\<lambda>y. ev_id y = i) f es) = filter (\<lambda>y. ev_id y \<noteq> i) es"
    if "\<And>y. ev_id (f y) = ev_id y" for f es
    using that by (induction es) (simp_all add: table_simps)
  have "ev_id e = i" using assms(2) by (rule get_event_id)
  moreover note retry_delay_bounds [OF assms(3,4), of "ev_attempt_count e + 1"]
  ultimately show ?thesis using assms(2)
    by (simp add: s' record_failure_def Let_def get_set_event retry_with_def decide_retry_status seconds_def)
      (simp add: set_event_def other)
qed

text \<open>C23. An event is consumed once: after a successful attempt a second one changes nothing, and
  consuming keeps the ledger invariants of points and of levels.\<close>

theorem event_consumed_once:
  assumes "process_engagement_event cfg msg i s = (None, s')"
  shows "process_engagement_event cfg msg i s' = (None, s') \<and>
    (points_inv s \<longrightarrow> points_inv s') \<and> (levels_inv s \<longrightarrow> levels_inv s')"
proof -
  from assms obtain e where e: "get_event i s = Some e"
    by (auto simp: process_engagement_event_def split: option.splits)
  have id: "ev_id e = i" using e by (rule get_event_id)
  show ?thesis
  proof (cases "final e")
    case True
    with assms process_final [OF e, of cfg msg] show ?thesis by simp
  next
    case False
    let ?s1 = "set_event i (\<lambda>x. x\<lparr>ev_attempt_count := ev_attempt_count e + 1, ev_error_code := None,
      ev_error_message := None\<rparr>) s"
    from assms have c: "consume_event e ?s1 = Inr s'"
      by (cases rule: process_cases [OF e False, of cfg msg]) simp_all
    from consumed_event [OF this] e id obtain e' where "get_event i s' = Some e'" "ev_status e' = ''processed''"
      by (auto simp: get_set_event)
    then have "process_engagement_event cfg msg i s' = (None, s')"
      by (simp add: process_engagement_event_def)
    moreover have "points_inv s \<longrightarrow> points_inv s'"
    proof
      assume "points_inv s"
      then have "points_inv ?s1" by (simp add: set_event_def)
      with c show "points_inv s'" by (rule point_writes.consumed) (simp add: set_event_def)
    qed
    moreover have "levels_inv s \<longrightarrow> levels_inv s'"
    proof
      assume "levels_inv s"
      then have "levels_inv ?s1" by (simp add: set_event_def)
      with c show "levels_inv s'" by (rule level_writes.consumed) (simp add: set_event_def)
    qed
    ultimately show ?thesis by simp
  qed
qed

definition daily_mission :: mission_definition where
  "daily_mission = \<lparr>md_id = ''m1'', md_organization_id = None, md_artist_id = None, md_title = ''Two cards'',
     md_event_kind = ''card_collected'', md_target_value = 2, md_recurrence = ''daily'',
     md_condition_payload = [(''artistId'', JArr [JStr ''art''])],
     md_reward_payload = [(''xp'', JInt 50), (''points'', JInt 10)], md_status = ''published'',
     md_starts_at = None, md_ends_at = None\<rparr>"

definition collected :: "ident \<Rightarrow> engagement_event" where
  "collected i = \<lparr>ev_id = i, ev_user_id = ''ann'', ev_kind = ''card_collected'',
     ev_source_type = ''user_card'', ev_source_id = ''uc '' @ i, ev_payload = [(''artistId'', JStr ''art'')],
     ev_status = ''pending'', ev_processed_at = None, ev_error_code = None, ev_error_message = None,
     ev_attempt_count = 0, ev_next_attempt_at = None, ev_dead_lettered_at = None\<rparr>"

definition growth_db :: db where
  "growth_db = empty_db\<lparr>mission_definitions := [daily_mission], engagement_events := [collected ''e1'', collected ''e2'']\<rparr>"

theorem mission_counts_to_target_witness:
  "\<exists>s' r. advance_all daily_mission [collected ''e1'', collected ''e2''] growth_db = Inr s' \<and>
    find_mission ''ann'' ''m1'' ''1970-01-01'' s' = Some r \<and> mp_current_value r = 2 \<and> mp_completed_at r \<noteq> None \<and>
    balance_of ''ann'' s' = 10"
proof -
  have "case advance_all daily_mission [collected ''e1'', collected ''e2''] growth_db of Inl e \<Rightarrow> False
    | Inr s' \<Rightarrow> balance_of ''ann'' s' = 10" by code_simp
  then obtain s' where s': "advance_all daily_mission [collected ''e1'', collected ''e2''] growth_db = Inr s'"
    "balance_of ''ann'' s' = 10" by (auto simp: case_Inr_iff)
  have "mission_period_key (md_recurrence daily_mission) (now growth_db) (md_starts_at daily_mission)
      (md_ends_at daily_mission) = ''1970-01-01''" by code_simp
  from mission_counts_to_target [OF s'(1) _ _ _ _ this [symmetric], of "''ann''"] s' show ?thesis
    by (auto simp: daily_mission_def collected_def growth_db_def empty_db_def find_mission_def has_notification_def)
qed

text \<open>A mission whose reward does not exist: every attempt raises, the fifth is the last.\<close>

definition broken_db :: db where
  "broken_db = growth_db\<lparr>mission_definitions := [daily_mission\<lparr>md_event_kind := ''card_revoked'',
     md_target_value := 1, md_condition_payload := [],
     md_reward_payload := [(''rewardId'', JStr ''none'')]\<rparr>],
     engagement_events := [(collected ''e1'')\<lparr>ev_kind := ''card_revoked''\<rparr>]\<rparr>"

theorem attempts_settle_witness:
  "\<exists>e'. get_event ''e1'' (fold (attempt_at default_settings (\<lambda>_. ''raised'') ''e1'')
      [0, seconds 30, seconds 90, seconds 210, seconds 450] broken_db) = Some e' \<and> final e'"
  by (rule attempts_settle [where e = "(collected ''e1'')\<lparr>ev_kind := ''card_revoked''\<rparr>"])
    (simp_all add: get_event_def broken_db_def growth_db_def collected_def default_settings_def)

theorem failed_attempt_rolls_back_witness:
  "\<exists>s' e'. process_engagement_event default_settings (\<lambda>_. ''raised'') ''e1'' broken_db =
      (Some (AppError 409 ''REWARD_NOT_PUBLISHED''), s') \<and>
    get_event ''e1'' s' = Some e' \<and> ev_status e' = ''failed'' \<and> xp_ledger s' = xp_ledger broken_db"
proof -
  have "fst (process_engagement_event default_settings (\<lambda>_. ''raised'') ''e1'' broken_db) =
      Some (AppError 409 ''REWARD_NOT_PUBLISHED'')" by code_simp
  then obtain s' where s': "process_engagement_event default_settings (\<lambda>_. ''raised'') ''e1'' broken_db =
      (Some (AppError 409 ''REWARD_NOT_PUBLISHED''), s')" by (metis prod.collapse)
  have e: "get_event ''e1'' broken_db = Some ((collected ''e1'')\<lparr>ev_kind := ''card_revoked''\<rparr>)" by code_simp
  from failed_attempt_rolls_back [OF s' e] have
    "s' = broken_db\<lparr>engagement_events := engagement_events s'\<rparr>"
    "\<exists>e'. get_event ''e1'' s' = Some e' \<and> ev_status e' = ''failed''"
    by (auto simp: default_settings_def collected_def)
  moreover from arg_cong [OF this(1), of xp_ledger] have "xp_ledger s' = xp_ledger broken_db" by simp
  ultimately show ?thesis using s' by blast
qed

theorem event_consumed_once_witness:
  "\<exists>s'. process_engagement_event default_settings (\<lambda>_. ''raised'') ''e1'' growth_db = (None, s') \<and>
    process_engagement_event default_settings (\<lambda>_. ''raised'') ''e1'' s' = (None, s') \<and> points_inv s'"
proof -
  have "fst (process_engagement_event default_settings (\<lambda>_. ''raised'') ''e1'' growth_db) = None" by code_simp
  then obtain s' where s': "process_engagement_event default_settings (\<lambda>_. ''raised'') ''e1'' growth_db = (None, s')"
    by (metis prod.collapse)
  have "points_inv growth_db" using points_inv_empty by (simp add: growth_db_def)
  with event_consumed_once [OF s'] s' show ?thesis by blast
qed

end
