(* ===== verification/Trades.thy ===== *)
theory Trades
  imports Ownership
begin

text \<open>
  Follows, blocks and card trades between fans (\<open>backend/app/routers/social.py\<close>), with the
  operator's holds on trades (\<open>backend/app/routers/admin.py\<close>). A handler that commits
  before it raises (an expired proposal) returns the outcome beside the database it leaves.
\<close>

section \<open>Follows, blocks and visibility\<close>

definition is_fan :: "ident \<Rightarrow> db \<Rightarrow> bool" where
  "is_fan u s \<longleftrightarrow> (case get_user u s of None \<Rightarrow> False | Some x \<Rightarrow> u_role x = FAN)"

definition update_collection_visibility :: "ident \<Rightarrow> bool \<Rightarrow> db \<Rightarrow> db" where
  "update_collection_visibility u public s =
    s\<lparr>card_visibilities := upsert (\<lambda>v. cv_user_id v = u) \<lparr>cv_user_id = u, cv_public_enabled = public\<rparr>
      (\<lambda>v. v\<lparr>cv_public_enabled := public\<rparr>) (card_visibilities s)\<rparr>"

definition clash_block :: "user_block \<Rightarrow> user_block \<Rightarrow> bool" where
  "clash_block r x \<longleftrightarrow> ub_id x = ub_id r \<or>
    (ub_blocker_id x = ub_blocker_id r \<and> ub_blocked_id x = ub_blocked_id r)"

definition block_fan :: "ident \<Rightarrow> ident \<Rightarrow> db \<Rightarrow> exn + unit \<times> db" where
  "block_fan u target s =
    (if target = u then Inl (AppError 422 ''SELF_BLOCK_NOT_ALLOWED'')
     else if \<not> is_fan target s then Inl (AppError 404 ''FAN_NOT_FOUND'')
     else if list_ex (\<lambda>b. ub_blocker_id b = u \<and> ub_blocked_id b = target) (user_blocks s) then Inr ((), s)
     else
       bindE (insert_row clash_block
           \<lparr>ub_id = new_id [] s, ub_blocker_id = u, ub_blocked_id = target, ub_created_at = now s\<rparr>
           (user_blocks s)) (\<lambda>rows.
       Inr ((), (draw s)\<lparr>user_blocks := rows, follows := filter (\<lambda>f.
         \<not> (fo_follower_id f = u \<and> fo_following_id f = target \<or>
            fo_follower_id f = target \<and> fo_following_id f = u)) (follows s)\<rparr>)))"

definition unblock_fan :: "ident \<Rightarrow> ident \<Rightarrow> db \<Rightarrow> db" where
  "unblock_fan u target s =
    s\<lparr>user_blocks := filter (\<lambda>b. \<not> (ub_blocker_id b = u \<and> ub_blocked_id b = target)) (user_blocks s)\<rparr>"

definition clash_follow :: "follow \<Rightarrow> follow \<Rightarrow> bool" where
  "clash_follow r x \<longleftrightarrow> fo_id x = fo_id r \<or>
    (fo_follower_id x = fo_follower_id r \<and> fo_following_id x = fo_following_id r)"

text \<open>The result is the engagement event to enqueue, if one was recorded.\<close>

definition follow_fan :: "ident \<Rightarrow> ident \<Rightarrow> db \<Rightarrow> exn + ident option \<times> db" where
  "follow_fan u target s =
    (if target = u then Inl (AppError 422 ''SELF_FOLLOW_NOT_ALLOWED'')
     else if \<not> is_fan target s \<or> blocked_between u target s then Inl (AppError 404 ''FAN_NOT_FOUND'')
     else if list_ex (\<lambda>f. fo_follower_id f = u \<and> fo_following_id f = target) (follows s) then Inr (None, s)
     else
       let r = \<lparr>fo_id = new_id [] s, fo_follower_id = u, fo_following_id = target, fo_created_at = now s\<rparr>
       in bindE (insert_row clash_follow r (follows s)) (\<lambda>rows.
          bindE (record_engagement_event u ''fan_followed'' ''follow'' (fo_id r)
              [(''followingUserId'', JStr target)] ((draw s)\<lparr>follows := rows\<rparr>)) (\<lambda>(event, s1).
          bindE (record_analytics_event
              \<lparr>aa_event_name = ''recommendation.followed'', aa_user_id = Some u,
               aa_organization_id = None, aa_artist = None, aa_card_id = None, aa_pack_id = None,
               aa_source = Some ''fan-v1'',
               aa_dedupe_key = Some (''recommendation-follow:'' @ u @ '':'' @ target),
               aa_metadata = [(''candidateUserId'', JStr target)]\<rparr> s1) (\<lambda>(_, s2).
          Inr (Some (ev_id event), s2)))))"

definition unfollow_fan :: "ident \<Rightarrow> ident \<Rightarrow> db \<Rightarrow> db" where
  "unfollow_fan u target s =
    s\<lparr>follows := filter (\<lambda>f. \<not> (fo_follower_id f = u \<and> fo_following_id f = target)) (follows s)\<rparr>"

text \<open>Followers, followings, and owned cards that were not used up in a combination.\<close>

definition fan_counts :: "ident \<Rightarrow> db \<Rightarrow> nat \<times> nat \<times> nat" where
  "fan_counts u s =
    (count_where (\<lambda>f. fo_following_id f = u) (follows s),
     count_where (\<lambda>f. fo_follower_id f = u) (follows s),
     count_where (\<lambda>uc. uc_user_id uc = u \<and>
       \<not> list_ex (\<lambda>m. ccm_user_card_id m = uc_id uc) (card_combination_materials s)) (user_cards s))"

text \<open>Who may see a collection: the guard of \<open>public_collection\<close>.\<close>

definition collection_visible :: "ident \<Rightarrow> ident option \<Rightarrow> db \<Rightarrow> bool" where
  "collection_visible target viewer s \<longleftrightarrow>
    is_fan target s \<and>
    (viewer = Some target \<or>
      (case viewer of None \<Rightarrow> True | Some v \<Rightarrow> \<not> blocked_between v target s) \<and>
      (case find (\<lambda>v. cv_user_id v = target) (card_visibilities s) of
         None \<Rightarrow> True | Some v \<Rightarrow> cv_public_enabled v))"

section \<open>Cards of a proposal\<close>

definition trade_row :: "ident \<Rightarrow> ident \<Rightarrow> db \<Rightarrow> (user_card \<times> card_row) option" where
  "trade_row u i s =
    (case find (\<lambda>uc. uc_id uc = i \<and> uc_user_id uc = u) (user_cards s) of
       None \<Rightarrow> None
     | Some uc \<Rightarrow> (case get_card (uc_card_id uc) s of None \<Rightarrow> None | Some c \<Rightarrow> Some (uc, c)))"

definition load_trade_cards :: "ident \<Rightarrow> ident list \<Rightarrow> db \<Rightarrow> exn + (user_card \<times> card_row) list" where
  "load_trade_cards u ids s =
    (if \<not> distinct ids then Inl (AppError 422 ''DUPLICATE_TRADE_CARD'')
     else if list_ex (\<lambda>i. trade_row u i s = None) ids then Inl (AppError 404 ''USER_CARD_NOT_FOUND'')
     else Inr (map (\<lambda>i. the (trade_row u i s)) ids))"

definition trade_card_error :: "user_card \<times> card_row \<Rightarrow> db \<Rightarrow> exn option" where
  "trade_card_error row s = (case row of (uc, c) \<Rightarrow>
    if \<not> c_tradable c then Some (AppError 422 ''CARD_NOT_TRADABLE'')
    else if uc_expires_at uc \<noteq> None then Some (AppError 422 ''CARD_NOT_TRADABLE'')
    else if uc_trade_locked_at uc \<noteq> None then Some (AppError 422 ''CARD_NOT_TRADABLE'')
    else if uc_acquisition_source uc = ''combination'' then Some (AppError 422 ''CARD_NOT_TRADABLE'')
    else if list_ex (\<lambda>m. ccm_user_card_id m = uc_id uc) (card_combination_materials s)
    then Some (AppError 422 ''CARD_NOT_TRADABLE'')
    else if list_ex (\<lambda>l. tl_user_card_id l = uc_id uc) (trade_locks s)
    then Some (AppError 422 ''CARD_ALREADY_IN_TRADE'')
    else None)"

fun first_error :: "('a \<Rightarrow> exn option) \<Rightarrow> 'a list \<Rightarrow> exn + unit" where
  "first_error f [] = Inr ()"
| "first_error f (x # xs) = (case f x of Some e \<Rightarrow> Inl e | None \<Rightarrow> first_error f xs)"

definition validate_trade_cards :: "(user_card \<times> card_row) list \<Rightarrow> db \<Rightarrow> exn + unit" where
  "validate_trade_cards rows s =
    (if rows = [] then Inl (AppError 422 ''TRADE_CARDS_REQUIRED'')
     else first_error (\<lambda>row. trade_card_error row s) rows)"

section \<open>Proposing\<close>

definition clash_proposal :: "trade_proposal \<Rightarrow> trade_proposal \<Rightarrow> bool" where
  "clash_proposal r x \<longleftrightarrow> tp_id x = tp_id r"

definition clash_item :: "trade_item \<Rightarrow> trade_item \<Rightarrow> bool" where
  "clash_item r x \<longleftrightarrow> ti_id x = ti_id r \<or>
    (ti_proposal_id x = ti_proposal_id r \<and> ti_user_card_id x = ti_user_card_id r)"

definition clash_lock :: "trade_lock \<Rightarrow> trade_lock \<Rightarrow> bool" where
  "clash_lock r x \<longleftrightarrow> tl_id x = tl_id r \<or> tl_user_card_id x = tl_user_card_id r"

definition add_item :: "ident \<Rightarrow> ident \<times> string \<Rightarrow> db \<Rightarrow> exn + db" where
  "add_item pid row s = (case row of (card_id, side) \<Rightarrow>
    bindE (insert_row clash_item
        \<lparr>ti_id = new_id [] s, ti_proposal_id = pid, ti_user_card_id = card_id, ti_side = side\<rparr>
        (trade_items s)) (\<lambda>rows. Inr ((draw s)\<lparr>trade_items := rows\<rparr>)))"

definition add_lock :: "ident \<Rightarrow> ident \<times> string \<Rightarrow> db \<Rightarrow> exn + db" where
  "add_lock pid row s =
    bindE (insert_row clash_lock
        \<lparr>tl_id = new_id [] s, tl_proposal_id = pid, tl_user_card_id = fst row\<rparr>
        (trade_locks s)) (\<lambda>rows. Inr ((draw s)\<lparr>trade_locks := rows\<rparr>))"

text \<open>The proposal with its items and one lock per item, offered cards first.\<close>

definition save_proposal ::
  "ident \<Rightarrow> ident \<Rightarrow> ident list \<Rightarrow> ident list \<Rightarrow> db \<Rightarrow> exn + trade_proposal \<times> db" where
  "save_proposal u recipient offered requested s =
    (let p = \<lparr>tp_id = new_id [] s, tp_proposer_id = u, tp_recipient_id = recipient,
           tp_status = ''pending'', tp_expires_at = now s + days 7, tp_created_at = now s,
           tp_responded_at = None\<rparr>;
         rows = map (\<lambda>i. (i, ''offered'')) offered @ map (\<lambda>i. (i, ''requested'')) requested
     in bindE (insert_row clash_proposal p (trade_proposals s)) (\<lambda>ps.
        bindE (foldE (add_item (tp_id p)) rows ((draw s)\<lparr>trade_proposals := ps\<rparr>)) (\<lambda>s1.
        bindE (foldE (add_lock (tp_id p)) rows s1) (\<lambda>s2. Inr (p, s2)))))"

text \<open>
  An \<open>IntegrityError\<close> of the commit becomes \<open>CARD_ALREADY_IN_TRADE\<close>. The rows of the
  proposal are flushed before that, by the lookup of the notification, outside the \<open>try\<close>
  block; their \<open>IntegrityError\<close> is not translated.
\<close>

definition translate_conflict :: "string \<Rightarrow> exn + 'a \<Rightarrow> exn + 'a" where
  "translate_conflict code m = (case m of Inl IntegrityError \<Rightarrow> Inl (AppError 409 code) | r \<Rightarrow> r)"

definition create_trade ::
  "ident \<Rightarrow> ident \<Rightarrow> ident list \<Rightarrow> ident list \<Rightarrow> db \<Rightarrow> exn + trade_proposal \<times> db" where
  "create_trade u recipient offered requested s =
    (if recipient = u then Inl (AppError 422 ''TRADE_SELF_NOT_ALLOWED'')
     else if \<not> is_fan recipient s \<or> blocked_between u recipient s then Inl (AppError 404 ''TRADE_USER_UNAVAILABLE'')
     else if set offered \<inter> set requested \<noteq> {} then Inl (AppError 422 ''DUPLICATE_TRADE_CARD'')
     else
       bindE (load_trade_cards u offered s) (\<lambda>offered_rows.
       bindE (load_trade_cards recipient requested s) (\<lambda>requested_rows.
       bindE (validate_trade_cards offered_rows s) (\<lambda>_.
       bindE (if requested_rows = [] then Inr () else validate_trade_cards requested_rows s) (\<lambda>_.
       bindE (save_proposal u recipient offered requested s) (\<lambda>(p, s1).
       bindE (record_audit
           \<lparr>au_actor_user_id = Some u, au_action = ''trade.created'', au_entity_type = ''trade'',
            au_entity_id = tp_id p, au_organization_id = None, au_artist_id = None,
            au_details = [(''offeredUserCardIds'', JArr (map JStr offered)),
              (''requestedUserCardIds'', JArr (map JStr requested))]\<rparr> s1) (\<lambda>s2.
       bindE (translate_conflict ''CARD_ALREADY_IN_TRADE''
           (notify_user_once recipient ''trade_received'' ''trade'' (tp_id p)
             (''trade:'' @ tp_id p @ '':received'') s2)) (\<lambda>s3.
       Inr (p, s3)))))))))"

section \<open>Answering\<close>

definition set_proposal :: "ident \<Rightarrow> (trade_proposal \<Rightarrow> trade_proposal) \<Rightarrow> db \<Rightarrow> db" where
  "set_proposal i f s = s\<lparr>trade_proposals := update_where (\<lambda>p. tp_id p = i) f (trade_proposals s)\<rparr>"

definition get_proposal :: "ident \<Rightarrow> db \<Rightarrow> trade_proposal option" where
  "get_proposal i s = find (\<lambda>p. tp_id p = i) (trade_proposals s)"

text \<open>The three assignments every answer shares: status, time, and the release of the locks.\<close>

definition close_proposal :: "ident \<Rightarrow> string \<Rightarrow> db \<Rightarrow> db" where
  "close_proposal i st s =
    (set_proposal i (\<lambda>p. p\<lparr>tp_status := st, tp_responded_at := Some (now s)\<rparr>) s)
      \<lparr>trade_locks := filter (\<lambda>l. tl_proposal_id l \<noteq> i) (trade_locks s)\<rparr>"

definition expire_trade_proposal :: "trade_proposal \<Rightarrow> db \<Rightarrow> exn + bool \<times> db" where
  "expire_trade_proposal p s =
    (if tp_status p \<noteq> ''pending'' \<or> now s < tp_expires_at p then Inr (False, s)
     else
       bindE (foldE (\<lambda>u. notify_user_once u ''trade_expired'' ''trade'' (tp_id p)
           (''trade:'' @ tp_id p @ '':expired:'' @ u)) [tp_proposer_id p, tp_recipient_id p]
         (close_proposal (tp_id p) ''expired'' s)) (\<lambda>s1. Inr (True, s1)))"

datatype trade_party = Proposer | Recipient

definition pending_proposal :: "ident \<Rightarrow> ident \<Rightarrow> trade_party \<Rightarrow> db \<Rightarrow> exn + trade_proposal" where
  "pending_proposal i u party s =
    (case get_proposal i s of
       None \<Rightarrow> Inl (AppError 404 ''TRADE_NOT_FOUND'')
     | Some p \<Rightarrow>
         if (case party of Recipient \<Rightarrow> tp_recipient_id p | Proposer \<Rightarrow> tp_proposer_id p) \<noteq> u
         then Inl (AppError 403 ''TRADE_NOT_ALLOWED'')
         else if tp_status p \<noteq> ''pending'' then Inl (AppError 409 ''TRADE_NOT_PENDING'')
         else if list_ex (\<lambda>h. th_proposal_id h = tp_id p \<and> th_released_at h = None) (trade_holds s)
         then Inl (AppError 409 ''TRADE_ON_HOLD'')
         else Inr p)"

text \<open>An expired proposal is closed and committed before the handler raises.\<close>

definition with_pending_proposal ::
  "ident \<Rightarrow> ident \<Rightarrow> trade_party \<Rightarrow> (trade_proposal \<Rightarrow> db \<Rightarrow> exn + 'a \<times> db) \<Rightarrow> db \<Rightarrow> (exn + 'a) \<times> db" where
  "with_pending_proposal i u party body s =
    (case pending_proposal i u party s of
       Inl e \<Rightarrow> (Inl e, s)
     | Inr p \<Rightarrow>
         if tp_expires_at p \<le> now s then
           (case expire_trade_proposal p s of
              Inl e \<Rightarrow> (Inl e, s)
            | Inr (_, s') \<Rightarrow> (Inl (AppError 409 ''TRADE_EXPIRED''), s'))
         else run_tx (body p) s)"

definition items_of :: "ident \<Rightarrow> db \<Rightarrow> trade_item list" where
  "items_of i s = filter (\<lambda>x. ti_proposal_id x = i) (trade_items s)"

definition owner_error :: "trade_proposal \<Rightarrow> db \<Rightarrow> trade_item \<Rightarrow> exn option" where
  "owner_error p s x =
    (case get_user_card (ti_user_card_id x) s of
       None \<Rightarrow> Some KeyError
     | Some uc \<Rightarrow>
         if uc_user_id uc \<noteq> (if ti_side x = ''offered'' then tp_proposer_id p else tp_recipient_id p)
         then Some (AppError 409 ''TRADE_STATE_CONFLICT'') else None)"

text \<open>Assignment to the attributes of one card, under the unique indexes.\<close>

definition set_user_card :: "ident \<Rightarrow> (user_card \<Rightarrow> user_card) \<Rightarrow> db \<Rightarrow> exn + db" where
  "set_user_card i f s =
    (case get_user_card i s of
       None \<Rightarrow> Inr s
     | Some uc \<Rightarrow>
         if list_ex (\<lambda>x. uc_id x \<noteq> i \<and> clash_user_card (f uc) x) (user_cards s) then Inl IntegrityError
         else Inr (s\<lparr>user_cards := update_where (\<lambda>x. uc_id x = i) f (user_cards s)\<rparr>))"

definition new_owner :: "trade_proposal \<Rightarrow> trade_item \<Rightarrow> ident" where
  "new_owner p x = (if ti_side x = ''offered'' then tp_recipient_id p else tp_proposer_id p)"

definition transfer_item :: "trade_proposal \<Rightarrow> trade_item \<Rightarrow> db \<Rightarrow> exn + db" where
  "transfer_item p x s =
    (case get_user_card (ti_user_card_id x) s of
       None \<Rightarrow> Inl KeyError
     | Some uc \<Rightarrow>
         let moved = uc\<lparr>uc_user_id := new_owner p x\<rparr>
         in bindE (set_user_card (uc_id uc) (\<lambda>c. c\<lparr>uc_user_id := new_owner p x\<rparr>) s) (\<lambda>s1.
            bindE (append_ownership_ledger
                \<lparr>ow_user_card_id = uc_id uc, ow_user_id = new_owner p x, ow_card_id = uc_card_id uc,
                 ow_action = ''transfer'', ow_source_type = ''trade'',
                 ow_source_id = tp_id p @ '':'' @ uc_id uc, ow_from_user_id = Some (uc_user_id uc),
                 ow_to_user_id = Some (new_owner p x),
                 ow_metadata = [(''proposalId'', JStr (tp_id p))], ow_created_at = Some (now s)\<rparr> s1)
              (\<lambda>(_, s2). notify_followers_of_card moved s2)))"

definition trade_closed_details :: "trade_proposal \<Rightarrow> jobj" where
  "trade_closed_details p = [(''proposerId'', JStr (tp_proposer_id p)), (''recipientId'', JStr (tp_recipient_id p))]"

text \<open>The two participants' events come in the order of a Python set; here the proposer is first.\<close>

definition accept_body :: "ident \<Rightarrow> trade_proposal \<Rightarrow> db \<Rightarrow> exn + string \<times> db" where
  "accept_body u p s =
    bindE (first_error (owner_error p s) (items_of (tp_id p) s)) (\<lambda>_.
    bindE (foldE (transfer_item p) (items_of (tp_id p) s) s) (\<lambda>s1.
    bindE (record_audit
        \<lparr>au_actor_user_id = Some u, au_action = ''trade.completed'', au_entity_type = ''trade'',
         au_entity_id = tp_id p, au_organization_id = None, au_artist_id = None,
         au_details = trade_closed_details p\<rparr> (close_proposal (tp_id p) ''accepted'' s1)) (\<lambda>s2.
    bindE (notify_user_once (tp_proposer_id p) ''trade_accepted'' ''trade'' (tp_id p)
        (''trade:'' @ tp_id p @ '':proposer'') s2) (\<lambda>s3.
    bindE (notify_user_once (tp_recipient_id p) ''trade_accepted'' ''trade'' (tp_id p)
        (''trade:'' @ tp_id p @ '':recipient'') s3) (\<lambda>s4.
    bindE (foldE (\<lambda>v s. bindE (record_engagement_event v ''trade_completed'' ''trade'' (tp_id p)
          [(''tradeId'', JStr (tp_id p)),
           (''participantRole'', JStr (if v = tp_proposer_id p then ''proposer'' else ''recipient''))] s)
          (\<lambda>(_, s'). Inr s')) (remdups [tp_proposer_id p, tp_recipient_id p]) s4) (\<lambda>s5.
    Inr (''accepted'', s5)))))))"

definition accept_trade :: "ident \<Rightarrow> ident \<Rightarrow> db \<Rightarrow> (exn + string) \<times> db" where
  "accept_trade i u s =
    (case with_pending_proposal i u Recipient (accept_body u) s of
       (r, s') \<Rightarrow> (translate_conflict ''TRADE_STATE_CONFLICT'' r, s'))"

definition close_body :: "ident \<Rightarrow> string \<Rightarrow> trade_proposal \<Rightarrow> db \<Rightarrow> exn + string \<times> db" where
  "close_body u st p s =
    bindE (record_audit
        \<lparr>au_actor_user_id = Some u, au_action = ''trade.'' @ st, au_entity_type = ''trade'',
         au_entity_id = tp_id p, au_organization_id = None, au_artist_id = None,
         au_details = trade_closed_details p\<rparr> (close_proposal (tp_id p) st s)) (\<lambda>s1.
    bindE (notify_user_once (if st = ''rejected'' then tp_proposer_id p else tp_recipient_id p)
        (if st = ''rejected'' then ''trade_rejected'' else ''trade_cancelled'') ''trade'' (tp_id p)
        (''trade:'' @ tp_id p @ '':'' @ st) s1) (\<lambda>s2. Inr (st, s2)))"

definition reject_trade :: "ident \<Rightarrow> ident \<Rightarrow> db \<Rightarrow> (exn + string) \<times> db" where
  "reject_trade i u = with_pending_proposal i u Recipient (close_body u ''rejected'')"

definition cancel_trade :: "ident \<Rightarrow> ident \<Rightarrow> db \<Rightarrow> (exn + string) \<times> db" where
  "cancel_trade i u = with_pending_proposal i u Proposer (close_body u ''cancelled'')"

section \<open>Reading\<close>

definition in_box :: "string \<Rightarrow> ident \<Rightarrow> trade_proposal \<Rightarrow> bool" where
  "in_box box u p \<longleftrightarrow>
    (if box = ''sent'' then tp_proposer_id p = u
     else if box = ''received'' then tp_recipient_id p = u
     else tp_proposer_id p = u \<or> tp_recipient_id p = u)"

text \<open>Reading the inbox expires overdue proposals; the statuses shown are those after that.\<close>

definition trade_inbox :: "ident \<Rightarrow> string \<Rightarrow> string option \<Rightarrow> db \<Rightarrow> exn + ident list \<times> db" where
  "trade_inbox u box st s =
    (let ps = rev (sort_key (\<lambda>p. (tp_created_at p, tp_id p)) (filter (in_box box u) (trade_proposals s)))
     in bindE (foldE (\<lambda>p s. bindE (expire_trade_proposal p s) (\<lambda>(_, s'). Inr s')) ps s) (\<lambda>s1.
        Inr (map tp_id (filter (\<lambda>p. case st of None \<Rightarrow> True | Some x \<Rightarrow> x = [] \<or>
            (case get_proposal (tp_id p) s1 of None \<Rightarrow> False | Some q \<Rightarrow> tp_status q = x)) ps), s1)))"

definition trade_detail :: "ident \<Rightarrow> ident \<Rightarrow> db \<Rightarrow> exn + ident \<times> db" where
  "trade_detail i u s =
    (case get_proposal i s of
       None \<Rightarrow> Inl (AppError 404 ''TRADE_NOT_FOUND'')
     | Some p \<Rightarrow>
         if u \<noteq> tp_proposer_id p \<and> u \<noteq> tp_recipient_id p then Inl (AppError 403 ''TRADE_NOT_ALLOWED'')
         else bindE (expire_trade_proposal p s) (\<lambda>(_, s'). Inr (tp_id p, s')))"

section \<open>Operator holds\<close>

definition clash_hold :: "trade_hold \<Rightarrow> trade_hold \<Rightarrow> bool" where
  "clash_hold r x \<longleftrightarrow> th_id x = th_id r \<or> th_proposal_id x = th_proposal_id r"

definition hold_trade :: "ident option \<Rightarrow> ident \<Rightarrow> db \<Rightarrow> exn + unit \<times> db" where
  "hold_trade reference ticket_id s =
    (if \<not> present reference then Inl (AppError 422 ''TRADE_REFERENCE_REQUIRED'')
     else
       case get_proposal (the reference) s of
         None \<Rightarrow> Inl (AppError 404 ''TRADE_NOT_FOUND'')
       | Some p \<Rightarrow>
           if tp_status p \<noteq> ''pending'' then Inl (AppError 409 ''TRADE_NOT_PENDING'')
           else if (case find (\<lambda>h. th_proposal_id h = tp_id p) (trade_holds s) of
               None \<Rightarrow> False | Some h \<Rightarrow> th_released_at h = None) then Inl (AppError 409 ''TRADE_ALREADY_HELD'')
           else
             bindE (insert_row clash_hold
                 \<lparr>th_id = new_id ''trade_hold_'' s, th_proposal_id = tp_id p,
                  th_ticket_id = Some ticket_id, th_released_at = None\<rparr> (trade_holds s)) (\<lambda>rows.
             Inr ((), (draw s)\<lparr>trade_holds := rows\<rparr>)))"

definition release_trade :: "ident option \<Rightarrow> db \<Rightarrow> exn + unit \<times> db" where
  "release_trade reference s =
    (if \<not> present reference then Inl (AppError 422 ''TRADE_REFERENCE_REQUIRED'')
     else
       case find (\<lambda>h. th_proposal_id h = the reference \<and> th_released_at h = None) (trade_holds s) of
         None \<Rightarrow> Inl (AppError 404 ''TRADE_HOLD_NOT_FOUND'')
       | Some h \<Rightarrow> Inr ((), s\<lparr>trade_holds :=
           update_where (\<lambda>x. th_id x = th_id h) (\<lambda>x. x\<lparr>th_released_at := Some (now s)\<rparr>) (trade_holds s)\<rparr>))"


section \<open>What the operations change of the trade tables\<close>

definition trade_rows :: "db \<Rightarrow> trade_proposal list \<times> trade_item list \<times> trade_lock list \<times> trade_hold list" where
  "trade_rows s = (trade_proposals s, trade_items s, trade_locks s, trade_holds s)"

lemma trade_rows_draw [simp]: "trade_rows (draw s) = trade_rows s"
  by (simp add: trade_rows_def)

lemma trade_frame:
  "record_audit a s = Inr t \<Longrightarrow> trade_rows t = trade_rows s"
  "notify_user_once u k et ei key s = Inr t \<Longrightarrow> trade_rows t = trade_rows s"
  "notify_followers_of_card uc s = Inr t \<Longrightarrow> trade_rows t = trade_rows s"
  "append_ownership_ledger b s = Inr (e, t) \<Longrightarrow> trade_rows t = trade_rows s"
  "record_engagement_event u k et ei d s = Inr (v, t) \<Longrightarrow> trade_rows t = trade_rows s"
  "set_user_card i f s = Inr t \<Longrightarrow> trade_rows t = trade_rows s"
  by (auto simp: trade_rows_def set_user_card_def inr_simps dest!: touch)

lemma trade_card_frame:
  "record_audit a s = Inr t \<Longrightarrow> user_cards t = user_cards s"
  "notify_user_once u k et ei key s = Inr t \<Longrightarrow> user_cards t = user_cards s"
  "notify_followers_of_card uc s = Inr t \<Longrightarrow> user_cards t = user_cards s"
  "append_ownership_ledger b s = Inr (e, t) \<Longrightarrow> user_cards t = user_cards s"
  "record_engagement_event u k et ei d s = Inr (v, t) \<Longrightarrow> user_cards t = user_cards s"
  by (auto dest!: touch)

lemma user_cards_close [simp]: "user_cards (close_proposal i st s) = user_cards s"
  by (simp add: close_proposal_def set_proposal_def)

text \<open>The tables after a proposal was closed as \<open>st\<close>, at whatever instant.\<close>

definition closed_as :: "ident \<Rightarrow> string \<Rightarrow> db \<Rightarrow> db \<Rightarrow> bool" where
  "closed_as i st s s' \<longleftrightarrow> (\<exists>t. trade_rows s' = trade_rows (close_proposal i st (s\<lparr>now := t\<rparr>)))"

lemma closed_asI:
  "trade_rows s1 = trade_rows s \<Longrightarrow> trade_rows s' = trade_rows (close_proposal i st s1) \<Longrightarrow> closed_as i st s s'"
  by (auto simp: closed_as_def trade_rows_def close_proposal_def set_proposal_def intro: exI [of _ "now s1"])

lemma foldE_frame:
  "foldE f xs s = Inr t \<Longrightarrow> (\<And>x s t. f x s = Inr t \<Longrightarrow> g t = g s) \<Longrightarrow> g t = g s"
  by (erule foldE_invariant [where P = "\<lambda>t. g t = g s"]) auto

lemma transfer_item_cases:
  assumes "transfer_item p x s = Inr s'"
  obtains uc where "get_user_card (ti_user_card_id x) s = Some uc" "trade_rows s' = trade_rows s"
    "user_cards s' = update_where (\<lambda>c. uc_id c = ti_user_card_id x)
      (\<lambda>c. c\<lparr>uc_user_id := new_owner p x\<rparr>) (user_cards s)"
proof -
  from assms obtain uc where uc: "get_user_card (ti_user_card_id x) s = Some uc"
    by (auto simp: transfer_item_def split: option.splits)
  then have "uc_id uc = ti_user_card_id x" by (auto simp: get_user_card_def dest!: find_SomeD)
  with assms uc obtain s1 s2 e where
    1: "set_user_card (ti_user_card_id x) (\<lambda>c. c\<lparr>uc_user_id := new_owner p x\<rparr>) s = Inr s1"
    and 2: "append_ownership_ledger
                \<lparr>ow_user_card_id = uc_id uc, ow_user_id = new_owner p x, ow_card_id = uc_card_id uc,
                 ow_action = ''transfer'', ow_source_type = ''trade'',
                 ow_source_id = tp_id p @ '':'' @ uc_id uc, ow_from_user_id = Some (uc_user_id uc),
                 ow_to_user_id = Some (new_owner p x),
                 ow_metadata = [(''proposalId'', JStr (tp_id p))], ow_created_at = Some (now s)\<rparr> s1 = Inr (e, s2)"
    and 3: "notify_followers_of_card (uc\<lparr>uc_user_id := new_owner p x\<rparr>) s2 = Inr s'"
    unfolding transfer_item_def by (auto simp: bindE_eq_Inr Let_def)
  show ?thesis
  proof (rule that [OF uc])
    show "trade_rows s' = trade_rows s" using 1 2 3 by (simp add: trade_frame)
    show "user_cards s' = update_where (\<lambda>c. uc_id c = ti_user_card_id x)
      (\<lambda>c. c\<lparr>uc_user_id := new_owner p x\<rparr>) (user_cards s)"
      using 1 2 3 uc by (auto simp: trade_card_frame set_user_card_def split: if_splits)
  qed
qed

text \<open>Where a copy is after the items of a proposal moved.\<close>

definition moved :: "trade_proposal \<Rightarrow> trade_item list \<Rightarrow> user_card \<Rightarrow> user_card" where
  "moved p xs c = (case find (\<lambda>x. ti_user_card_id x = uc_id c) xs of
     None \<Rightarrow> c | Some x \<Rightarrow> c\<lparr>uc_user_id := new_owner p x\<rparr>)"

lemma transfers:
  assumes "foldE (transfer_item p) xs s = Inr s'" and "unique_by ti_user_card_id xs"
  shows "user_cards s' = map (moved p xs) (user_cards s) \<and> trade_rows s' = trade_rows s"
  using assms
proof (induction xs arbitrary: s)
  case (Cons x xs)
  then obtain s1 where 1: "transfer_item p x s = Inr s1" and 2: "foldE (transfer_item p) xs s1 = Inr s'"
    by (auto simp: bindE_eq_Inr)
  have u: "unique_by ti_user_card_id xs" "find (\<lambda>y. ti_user_card_id y = ti_user_card_id x) xs = None"
    using Cons.prems(2) by (auto simp: unique_by_def find_None_iff) (metis image_eqI)
  from 1 obtain uc where "trade_rows s1 = trade_rows s" and
    m: "user_cards s1 = update_where (\<lambda>c. uc_id c = ti_user_card_id x)
      (\<lambda>c. c\<lparr>uc_user_id := new_owner p x\<rparr>) (user_cards s)"
    by (rule transfer_item_cases)
  with Cons.IH [OF 2 u(1)] have r: "trade_rows s' = trade_rows s"
    and c: "user_cards s' = map (moved p xs) (user_cards s1)" by simp_all
  have "user_cards s' = map (moved p (x # xs)) (user_cards s)"
    unfolding c m update_where_def using u(2) by (auto simp: moved_def)
  with r show ?case by simp
qed (auto simp: moved_def intro!: map_idI [symmetric])


lemma first_error_Inr: "first_error f xs = Inr () \<longleftrightarrow> (\<forall>x \<in> set xs. f x = None)"
  by (induction xs) (auto split: option.splits)

lemma owner_error_None:
  "owner_error p s x = None \<longleftrightarrow> (\<exists>uc. get_user_card (ti_user_card_id x) s = Some uc \<and>
    uc_user_id uc = (if ti_side x = ''offered'' then tp_proposer_id p else tp_recipient_id p))"
  by (auto simp: owner_error_def split: option.splits)

lemma expire_cases:
  assumes "expire_trade_proposal p s = Inr (b, s')"
  shows "\<not> b \<and> s' = s \<and> (tp_status p \<noteq> ''pending'' \<or> now s < tp_expires_at p) \<or>
    b \<and> tp_status p = ''pending'' \<and> closed_as (tp_id p) ''expired'' s s'"
proof (cases "tp_status p \<noteq> ''pending'' \<or> now s < tp_expires_at p")
  case False
  with assms obtain s1 where "b" and "s1 = s'" and
    "foldE (\<lambda>u. notify_user_once u ''trade_expired'' ''trade'' (tp_id p)
           (''trade:'' @ tp_id p @ '':expired:'' @ u)) [tp_proposer_id p, tp_recipient_id p]
         (close_proposal (tp_id p) ''expired'' s) = Inr s1"
    unfolding expire_trade_proposal_def by (auto simp only: if_False bindE_eq_Inr sum.inject prod.inject)
  then have "trade_rows s' = trade_rows (close_proposal (tp_id p) ''expired'' s)"
    by (auto simp: bindE_eq_Inr trade_frame)
  with False \<open>b\<close> show ?thesis by (auto intro: closed_asI)
qed (use assms in \<open>auto simp: expire_trade_proposal_def\<close>)

text \<open>
  The contract of the three answers: they close the proposal they are given, whatever else
  they do. What it means for the guarded handler is proved once.
\<close>

locale trade_answer =
  fixes body :: "trade_proposal \<Rightarrow> db \<Rightarrow> exn + string \<times> db" and st :: string
  assumes closes: "unique_by ti_user_card_id (items_of (tp_id p) s) \<Longrightarrow> body p s = Inr (r, s') \<Longrightarrow>
    r = st \<and> closed_as (tp_id p) st s s'"
begin

lemma answered:
  assumes "with_pending_proposal i u party body s = (r, s')"
    and "unique_by ti_user_card_id (items_of i s)"
  shows "s' = s \<or> (\<exists>p. get_proposal i s = Some p \<and> tp_status p = ''pending'' \<and>
    (closed_as i st s s' \<or> closed_as i ''expired'' s s'))"
proof (cases "pending_proposal i u party s")
  case (Inr p)
  then have p: "get_proposal i s = Some p" "tp_status p = ''pending''"
    by (auto simp: pending_proposal_def split: option.splits if_splits)
  then have i: "tp_id p = i" by (auto simp: get_proposal_def dest!: find_SomeD)
  show ?thesis
  proof (cases "tp_expires_at p \<le> now s")
    case True
    with assms Inr p i show ?thesis
      by (auto simp: with_pending_proposal_def dest!: expire_cases split: sum.splits)
  next
    case False
    with assms(1) Inr have "run_tx (body p) s = (r, s')" by (simp add: with_pending_proposal_def)
    then show ?thesis
      using closes [of p s] assms(2) p i
      by (cases "body p s") (auto simp: run_tx_def)
  qed
qed (use assms in \<open>simp add: with_pending_proposal_def\<close>)

lemma settled:
  assumes "with_pending_proposal i u party body s = (Inr r, s')"
    and "unique_by ti_user_card_id (items_of i s)"
  obtains p where "get_proposal i s = Some p" "tp_id p = i" "tp_status p = ''pending''"
    "(case party of Recipient \<Rightarrow> tp_recipient_id p | Proposer \<Rightarrow> tp_proposer_id p) = u"
    "now s < tp_expires_at p"
    "\<not> list_ex (\<lambda>h. th_proposal_id h = i \<and> th_released_at h = None) (trade_holds s)"
    "body p s = Inr (r, s')" "r = st" "closed_as i st s s'"
proof -
  from assms(1) obtain p where pp: "pending_proposal i u party s = Inr p"
    and b: "run_tx (body p) s = (Inr r, s')" and t: "\<not> tp_expires_at p \<le> now s"
    by (auto simp: with_pending_proposal_def split: sum.splits if_splits)
  from pp have p: "get_proposal i s = Some p" "tp_status p = ''pending''"
    "(case party of Recipient \<Rightarrow> tp_recipient_id p | Proposer \<Rightarrow> tp_proposer_id p) = u"
    "\<not> list_ex (\<lambda>h. th_proposal_id h = tp_id p \<and> th_released_at h = None) (trade_holds s)"
    by (auto simp: pending_proposal_def split: option.splits if_splits)
  then have i: "tp_id p = i" by (auto simp: get_proposal_def dest!: find_SomeD)
  from b have "body p s = Inr (r, s')" by (auto simp: run_tx_def split: sum.splits)
  with closes [of p s r s'] assms(2) p i t show ?thesis by (intro that) auto
qed

end

lemma close_body_closes:
  assumes "close_body u st p s = Inr (r, s')"
  shows "r = st \<and> closed_as (tp_id p) st s s'"
proof -
  from assms obtain s1 where "r = st" and
    1: "record_audit
        \<lparr>au_actor_user_id = Some u, au_action = ''trade.'' @ st, au_entity_type = ''trade'',
         au_entity_id = tp_id p, au_organization_id = None, au_artist_id = None,
         au_details = trade_closed_details p\<rparr> (close_proposal (tp_id p) st s) = Inr s1"
    and 2: "notify_user_once (if st = ''rejected'' then tp_proposer_id p else tp_recipient_id p)
        (if st = ''rejected'' then ''trade_rejected'' else ''trade_cancelled'') ''trade'' (tp_id p)
        (''trade:'' @ tp_id p @ '':'' @ st) s1 = Inr s'"
    unfolding close_body_def by (auto simp only: bindE_eq_Inr sum.inject prod.inject)
  with 1 2 show ?thesis by (auto intro: closed_asI [OF refl] simp: trade_frame)
qed

lemma accept_body_cases:
  assumes "accept_body u p s = Inr (r, s')"
  obtains s1 where "\<forall>x \<in> set (items_of (tp_id p) s). owner_error p s x = None"
    "foldE (transfer_item p) (items_of (tp_id p) s) s = Inr s1"
    "trade_rows s' = trade_rows (close_proposal (tp_id p) ''accepted'' s1)"
    "user_cards s' = user_cards s1" "r = ''accepted''"
proof -
  let ?ev = "\<lambda>v s. bindE (record_engagement_event v ''trade_completed'' ''trade'' (tp_id p)
          [(''tradeId'', JStr (tp_id p)),
           (''participantRole'', JStr (if v = tp_proposer_id p then ''proposer'' else ''recipient''))] s)
          (\<lambda>(_, s'). Inr s')"
  from assms obtain x s1 s2 s3 s4 where
    0: "first_error (owner_error p s) (items_of (tp_id p) s) = Inr x"
    and 1: "foldE (transfer_item p) (items_of (tp_id p) s) s = Inr s1"
    and 2: "record_audit
        \<lparr>au_actor_user_id = Some u, au_action = ''trade.completed'', au_entity_type = ''trade'',
         au_entity_id = tp_id p, au_organization_id = None, au_artist_id = None,
         au_details = trade_closed_details p\<rparr> (close_proposal (tp_id p) ''accepted'' s1) = Inr s2"
    and 3: "notify_user_once (tp_proposer_id p) ''trade_accepted'' ''trade'' (tp_id p)
        (''trade:'' @ tp_id p @ '':proposer'') s2 = Inr s3"
    and 4: "notify_user_once (tp_recipient_id p) ''trade_accepted'' ''trade'' (tp_id p)
        (''trade:'' @ tp_id p @ '':recipient'') s3 = Inr s4"
    and 5: "foldE ?ev (remdups [tp_proposer_id p, tp_recipient_id p]) s4 = Inr s'"
    and r: "r = ''accepted''"
    unfolding accept_body_def by (auto simp only: bindE_eq_Inr sum.inject prod.inject)
  have 6: "trade_rows s' = trade_rows s4" "user_cards s' = user_cards s4"
    by (rule foldE_frame [OF 5], auto simp: bindE_eq_Inr trade_frame trade_card_frame)+
  show ?thesis
    by (rule that [OF _ 1]) (use 0 2 3 4 6 r in \<open>simp_all add: trade_frame trade_card_frame first_error_Inr\<close>)
qed

interpretation accepting: trade_answer "accept_body u" "''accepted''"
proof
  fix p s r s'
  assume u: "unique_by ti_user_card_id (items_of (tp_id p) s)" and b: "accept_body u p s = Inr (r, s')"
  from b show "r = ''accepted'' \<and> closed_as (tp_id p) ''accepted'' s s'"
  proof (cases rule: accept_body_cases)
    case (1 s1)
    with transfers [OF 1(2) u] show ?thesis by (auto intro: closed_asI)
  qed
qed

interpretation rejecting: trade_answer "close_body u ''rejected''" "''rejected''"
  by unfold_locales (rule close_body_closes)

interpretation cancelling: trade_answer "close_body u ''cancelled''" "''cancelled''"
  by unfold_locales (rule close_body_closes)


section \<open>The desk: an abstract specification\<close>

text \<open>
  What the trade desk promises, without tables: each proposal has a status and a set of
  cards. A proposal may be opened when none of its cards is in another pending proposal, and
  a pending proposal may be closed; nothing else happens.
\<close>

type_synonym desk = "ident \<Rightarrow> (string \<times> ident set) option"

definition reserved :: "desk \<Rightarrow> ident set" where
  "reserved d = \<Union> {cs. \<exists>i. d i = Some (''pending'', cs)}"

inductive desk_step :: "desk \<Rightarrow> desk \<Rightarrow> bool" where
  Open: "d i = None \<Longrightarrow> cs \<inter> reserved d = {} \<Longrightarrow> desk_step d (d(i \<mapsto> (''pending'', cs)))"
| Close: "d i = Some (''pending'', cs) \<Longrightarrow> st \<noteq> ''pending'' \<Longrightarrow> desk_step d (d(i \<mapsto> (st, cs)))"

definition item_cards :: "ident \<Rightarrow> db \<Rightarrow> ident set" where
  "item_cards i s = ti_user_card_id ` set (items_of i s)"

definition desk_of :: "db \<Rightarrow> desk" where
  "desk_of s i = map_option (\<lambda>p. (tp_status p, item_cards i s)) (get_proposal i s)"

text \<open>The tables' invariant: unique keys, and a lock for every card of a pending proposal.\<close>

definition trades_ok :: "db \<Rightarrow> bool" where
  "trades_ok s \<longleftrightarrow> unique_by tp_id (trade_proposals s) \<and>
    unique_by (\<lambda>x. (ti_proposal_id x, ti_user_card_id x)) (trade_items s) \<and>
    unique_by tl_user_card_id (trade_locks s) \<and>
    (\<forall>x \<in> set (trade_items s). \<exists>p \<in> set (trade_proposals s). tp_id p = ti_proposal_id x) \<and>
    (\<forall>p \<in> set (trade_proposals s). tp_status p = ''pending'' \<longrightarrow>
      (\<forall>x \<in> set (trade_items s). ti_proposal_id x = tp_id p \<longrightarrow>
        (\<exists>l \<in> set (trade_locks s). tl_proposal_id l = tp_id p \<and> tl_user_card_id l = ti_user_card_id x)))"

lemma trades_ok_rows: "trade_rows s = trade_rows t \<Longrightarrow> trades_ok s = trades_ok t"
  by (simp add: trades_ok_def trade_rows_def)

lemma desk_of_rows: "trade_rows s = trade_rows t \<Longrightarrow> desk_of s = desk_of t"
  by (simp add: fun_eq_iff desk_of_def get_proposal_def item_cards_def items_of_def trade_rows_def)

lemma unique_by_filter: "unique_by key xs \<Longrightarrow> unique_by key (filter P xs)"
  by (simp add: unique_by_def distinct_map_filter)

lemma trades_ok_items: "trades_ok s \<Longrightarrow> unique_by ti_user_card_id (items_of i s)"
  by (auto simp: trades_ok_def unique_by_def items_of_def distinct_map inj_on_def)

lemma close_proposal_tables:
  "trade_proposals (close_proposal i st s) = update_where (\<lambda>p. tp_id p = i)
    (\<lambda>p. p\<lparr>tp_status := st, tp_responded_at := Some (now s)\<rparr>) (trade_proposals s)"
  "trade_items (close_proposal i st s) = trade_items s"
  "trade_locks (close_proposal i st s) = filter (\<lambda>l. tl_proposal_id l \<noteq> i) (trade_locks s)"
  by (simp_all add: close_proposal_def set_proposal_def)

lemma trades_okD:
  assumes "trades_ok s"
  shows "x \<in> set (trade_items s) \<Longrightarrow> \<exists>p \<in> set (trade_proposals s). tp_id p = ti_proposal_id x"
    and "p \<in> set (trade_proposals s) \<Longrightarrow> tp_status p = ''pending'' \<Longrightarrow> x \<in> set (trade_items s) \<Longrightarrow>
      ti_proposal_id x = tp_id p \<Longrightarrow>
      \<exists>l \<in> set (trade_locks s). tl_proposal_id l = tp_id p \<and> tl_user_card_id l = ti_user_card_id x"
    and "unique_by tp_id (trade_proposals s)"
    and "unique_by (\<lambda>x. (ti_proposal_id x, ti_user_card_id x)) (trade_items s)"
    and "unique_by tl_user_card_id (trade_locks s)"
  using assms by (simp_all only: trades_ok_def)

lemma trades_ok_close:
  assumes "trades_ok s" and "st \<noteq> ''pending''"
  shows "trades_ok (close_proposal i st s)"
proof -
  define f where "f = (\<lambda>p :: trade_proposal. if tp_id p = i then p\<lparr>tp_status := st, tp_responded_at := Some (now s)\<rparr> else p)"
  have id: "tp_id (f p) = tp_id p" for p by (simp add: f_def)
  have ps: "trade_proposals (close_proposal i st s) = map f (trade_proposals s)"
    by (simp add: close_proposal_tables update_where_def f_def)
  have items: "\<exists>p \<in> f ` set (trade_proposals s). tp_id p = ti_proposal_id x"
    if x: "x \<in> set (trade_items s)" for x
  proof -
    from trades_okD(1) [OF assms(1) x] obtain p where
      "p \<in> set (trade_proposals s)" "tp_id p = ti_proposal_id x" by blast
    then show ?thesis by (intro bexI [of _ "f p"]) (simp_all add: id)
  qed
  have locks: "\<exists>l \<in> set (filter (\<lambda>l. tl_proposal_id l \<noteq> i) (trade_locks s)).
      tl_proposal_id l = tp_id p \<and> tl_user_card_id l = ti_user_card_id x"
    if "p \<in> f ` set (trade_proposals s)" "tp_status p = ''pending''" "x \<in> set (trade_items s)"
      "ti_proposal_id x = tp_id p" for p x
  proof -
    from that(1) obtain q where q: "q \<in> set (trade_proposals s)" "p = f q" by blast
    with that(2) assms(2) have n: "tp_id p \<noteq> i" and e: "p = q" by (auto simp: f_def split: if_splits)
    from trades_okD(2) [OF assms(1) q(1) _ that(3)] that(2,4) e obtain l where
      "l \<in> set (trade_locks s)" "tl_proposal_id l = tp_id p" "tl_user_card_id l = ti_user_card_id x" by blast
    with n show ?thesis by (intro bexI [of _ l]) auto
  qed
  have "unique_by tp_id (map f (trade_proposals s))"
    using trades_okD(3) [OF assms(1)] by (simp add: unique_by_def comp_def id)
  moreover have "unique_by tl_user_card_id (filter (\<lambda>l. tl_proposal_id l \<noteq> i) (trade_locks s))"
    by (rule unique_by_filter) (rule trades_okD(5) [OF assms(1)])
  moreover note trades_okD(4) [OF assms(1)]
  moreover have "\<forall>x \<in> set (trade_items s). \<exists>p \<in> f ` set (trade_proposals s). tp_id p = ti_proposal_id x"
    using items by blast
  moreover have "\<forall>p \<in> f ` set (trade_proposals s). tp_status p = ''pending'' \<longrightarrow>
      (\<forall>x \<in> set (trade_items s). ti_proposal_id x = tp_id p \<longrightarrow>
        (\<exists>l \<in> set (filter (\<lambda>l. tl_proposal_id l \<noteq> i) (trade_locks s)).
          tl_proposal_id l = tp_id p \<and> tl_user_card_id l = ti_user_card_id x))"
    by (intro ballI impI) (rule locks)
  ultimately show ?thesis
    unfolding trades_ok_def ps close_proposal_tables(2,3) set_map by (intro conjI)
qed

lemma get_proposal_id: "get_proposal i s = Some p \<Longrightarrow> tp_id p = i"
  by (auto simp: get_proposal_def dest!: find_SomeD)

lemma get_proposal_close:
  "get_proposal j (close_proposal i st s) = map_option (\<lambda>p. if j = i
    then p\<lparr>tp_status := st, tp_responded_at := Some (now s)\<rparr> else p) (get_proposal j s)"
proof -
  have "get_proposal j (close_proposal i st s) = map_option (\<lambda>p. if tp_id p = i
    then p\<lparr>tp_status := st, tp_responded_at := Some (now s)\<rparr> else p) (get_proposal j s)"
    unfolding get_proposal_def close_proposal_tables by (rule find_update_where) simp
  then show ?thesis by (cases "get_proposal j s") (auto dest: get_proposal_id)
qed

lemma desk_of_close:
  assumes "get_proposal i s = Some p"
  shows "desk_of (close_proposal i st s) = (desk_of s)(i \<mapsto> (st, item_cards i s))"
proof
  fix j
  have "item_cards j (close_proposal i st s) = item_cards j s"
    by (simp add: item_cards_def items_of_def close_proposal_tables)
  with assms show "desk_of (close_proposal i st s) j = ((desk_of s)(i \<mapsto> (st, item_cards i s))) j"
    by (cases "get_proposal j s") (auto simp: desk_of_def get_proposal_close)
qed

lemma closed_as_desk:
  assumes "closed_as i st s s'" and "trades_ok s" and "st \<noteq> ''pending''"
    and "get_proposal i s = Some p" and "tp_status p = ''pending''"
  shows "trades_ok s' \<and> desk_step (desk_of s) (desk_of s')"
proof -
  from assms(1) obtain t where t: "trade_rows s' = trade_rows (close_proposal i st (s\<lparr>now := t\<rparr>))"
    by (auto simp: closed_as_def)
  have r: "trade_rows (s\<lparr>now := t\<rparr>) = trade_rows s" by (simp add: trade_rows_def)
  have g: "get_proposal i (s\<lparr>now := t\<rparr>) = Some p" using assms(4) by (simp add: get_proposal_def)
  have "trades_ok s'"
    using trades_ok_close assms(2,3) trades_ok_rows [OF r] trades_ok_rows [OF t] by blast
  moreover have "desk_of s' = (desk_of s)(i \<mapsto> (st, item_cards i s))"
    using desk_of_close [OF g, of st] desk_of_rows [OF r] desk_of_rows [OF t]
    by (simp add: item_cards_def items_of_def)
  moreover have "desk_of s i = Some (''pending'', item_cards i s)"
    using assms(4,5) by (simp add: desk_of_def)
  ultimately show ?thesis using desk_step.Close [OF _ assms(3)] by metis
qed


text \<open>Opening.\<close>

lemma add_item_eq:
  "add_item pid (c, sd) s = Inr t \<longleftrightarrow>
    (let r = \<lparr>ti_id = new_id [] s, ti_proposal_id = pid, ti_user_card_id = c, ti_side = sd\<rparr>
     in \<not> list_ex (clash_item r) (trade_items s) \<and> t = (draw s)\<lparr>trade_items := trade_items s @ [r]\<rparr>)"
  by (auto simp: add_item_def inr_simps Let_def)

lemma add_lock_eq:
  "add_lock pid row s = Inr t \<longleftrightarrow>
    (let r = \<lparr>tl_id = new_id [] s, tl_proposal_id = pid, tl_user_card_id = fst row\<rparr>
     in \<not> list_ex (clash_lock r) (trade_locks s) \<and> t = (draw s)\<lparr>trade_locks := trade_locks s @ [r]\<rparr>)"
  by (auto simp: add_lock_def inr_simps Let_def)

lemma add_items:
  assumes "foldE (add_item pid) rows s = Inr s'"
  shows "trade_proposals s' = trade_proposals s \<and> trade_locks s' = trade_locks s \<and>
    (\<exists>xs. trade_items s' = trade_items s @ xs \<and>
      map (\<lambda>x. (ti_proposal_id x, ti_user_card_id x, ti_side x)) xs = map (\<lambda>(c, sd). (pid, c, sd)) rows) \<and>
    (unique_by (\<lambda>x. (ti_proposal_id x, ti_user_card_id x)) (trade_items s) \<longrightarrow>
     unique_by (\<lambda>x. (ti_proposal_id x, ti_user_card_id x)) (trade_items s'))"
  using assms
proof (induction rows arbitrary: s)
  case (Cons row rows)
  obtain c sd where row: "row = (c, sd)" by (cases row)
  define r where "r = \<lparr>ti_id = new_id [] s, ti_proposal_id = pid, ti_user_card_id = c, ti_side = sd\<rparr>"
  define s1 where "s1 = (draw s)\<lparr>trade_items := trade_items s @ [r]\<rparr>"
  have ins: "insert_row clash_item r (trade_items s) = Inr (trade_items s @ [r])"
    and 2: "foldE (add_item pid) rows s1 = Inr s'"
    using Cons.prems by (auto simp: row add_item_eq bindE_eq_Inr insert_row_eq_Inr r_def s1_def Let_def)
  note u = insert_row_unique [OF ins, of "\<lambda>x. (ti_proposal_id x, ti_user_card_id x)"]
  from Cons.IH [OF 2] obtain xs where "trade_items s' = trade_items s1 @ xs"
    "map (\<lambda>x. (ti_proposal_id x, ti_user_card_id x, ti_side x)) xs = map (\<lambda>(c, sd). (pid, c, sd)) rows" by blast
  then have "\<exists>xs. trade_items s' = trade_items s @ xs \<and>
      map (\<lambda>x. (ti_proposal_id x, ti_user_card_id x, ti_side x)) xs = map (\<lambda>(c, sd). (pid, c, sd)) (row # rows)"
    by (intro exI [of _ "r # xs"]) (simp add: s1_def r_def row)
  moreover have "unique_by (\<lambda>x. (ti_proposal_id x, ti_user_card_id x)) (trade_items s1)"
    if "unique_by (\<lambda>x. (ti_proposal_id x, ti_user_card_id x)) (trade_items s)"
    using u [OF that] by (simp add: s1_def clash_item_def)
  ultimately show ?case using Cons.IH [OF 2] by (simp add: s1_def)
qed simp

lemma add_locks:
  assumes "foldE (add_lock pid) rows s = Inr s'"
  shows "trade_proposals s' = trade_proposals s \<and> trade_items s' = trade_items s \<and>
    set (trade_locks s) \<subseteq> set (trade_locks s') \<and>
    (\<forall>row \<in> set rows. \<exists>l \<in> set (trade_locks s'). tl_proposal_id l = pid \<and> tl_user_card_id l = fst row) \<and>
    (\<forall>row \<in> set rows. \<forall>l \<in> set (trade_locks s). tl_user_card_id l \<noteq> fst row) \<and>
    (unique_by tl_user_card_id (trade_locks s) \<longrightarrow> unique_by tl_user_card_id (trade_locks s'))"
  using assms
proof (induction rows arbitrary: s)
  case (Cons row rows)
  define r where "r = \<lparr>tl_id = new_id [] s, tl_proposal_id = pid, tl_user_card_id = fst row\<rparr>"
  define s1 where "s1 = (draw s)\<lparr>trade_locks := trade_locks s @ [r]\<rparr>"
  have ins: "insert_row clash_lock r (trade_locks s) = Inr (trade_locks s @ [r])"
    and 2: "foldE (add_lock pid) rows s1 = Inr s'"
    using Cons.prems by (auto simp: add_lock_eq bindE_eq_Inr insert_row_eq_Inr r_def s1_def Let_def)
  have "\<forall>l \<in> set (trade_locks s). tl_user_card_id l \<noteq> fst row"
    using ins by (auto simp: inr_simps list_ex_iff clash_lock_def r_def)
  moreover have "unique_by tl_user_card_id (trade_locks s1)" if "unique_by tl_user_card_id (trade_locks s)"
    using insert_row_unique [OF ins that] by (simp add: s1_def clash_lock_def)
  moreover have "r \<in> set (trade_locks s1)" "tl_proposal_id r = pid" "tl_user_card_id r = fst row"
    by (simp_all add: s1_def r_def)
  ultimately show ?case using Cons.IH [OF 2] by (auto simp: s1_def)
qed simp

lemma save_proposal_desk:
  assumes "save_proposal u recipient offered requested s = Inr (p, s')" and "trades_ok s"
  shows "trades_ok s' \<and> desk_step (desk_of s) (desk_of s') \<and>
    desk_of s' = (desk_of s)(tp_id p \<mapsto> (''pending'', set offered \<union> set requested))"
proof -
  let ?rows = "map (\<lambda>i. (i, ''offered'')) offered @ map (\<lambda>i. (i, ''requested'')) requested"
  from assms(1) obtain ps s1 where p: "tp_status p = ''pending''"
    and 1: "insert_row clash_proposal p (trade_proposals s) = Inr ps"
    and 2: "foldE (add_item (tp_id p)) ?rows ((draw s)\<lparr>trade_proposals := ps\<rparr>) = Inr s1"
    and 3: "foldE (add_lock (tp_id p)) ?rows s1 = Inr s'"
    unfolding save_proposal_def Let_def by (auto simp only: bindE_eq_Inr sum.inject prod.inject) simp
  have ps: "ps = trade_proposals s @ [p]" and fresh: "\<And>q. q \<in> set (trade_proposals s) \<Longrightarrow> tp_id q \<noteq> tp_id p"
    using 1 by (auto simp: inr_simps list_ex_iff clash_proposal_def)
  note i = add_items [OF 2] and l = add_locks [OF 3]
  from i obtain xs where items: "trade_items s' = trade_items s @ xs"
    and xs: "map (\<lambda>x. (ti_proposal_id x, ti_user_card_id x, ti_side x)) xs = map (\<lambda>(c, sd). (tp_id p, c, sd)) ?rows"
    using l by auto
  have props: "trade_proposals s' = trade_proposals s @ [p]" using i l ps by simp
  have old: "x \<in> set (trade_items s) \<Longrightarrow> ti_proposal_id x \<noteq> tp_id p" for x
    using assms(2) fresh unfolding trades_ok_def by metis
  have "set (map (\<lambda>x. (ti_proposal_id x, ti_user_card_id x)) xs) =
      set (map (\<lambda>(a, b, c). (a, b)) (map (\<lambda>x. (ti_proposal_id x, ti_user_card_id x, ti_side x)) xs))"
    by (simp add: comp_def)
  also have "\<dots> = {tp_id p} \<times> (set offered \<union> set requested)" unfolding xs by (auto simp: image_iff)
  finally have new: "(\<lambda>x. (ti_proposal_id x, ti_user_card_id x)) ` set xs = {tp_id p} \<times> (set offered \<union> set requested)"
    by simp
  then have newp: "x \<in> set xs \<Longrightarrow> ti_proposal_id x = tp_id p \<and> ti_user_card_id x \<in> set offered \<union> set requested" for x
    by (metis (no_types, lifting) image_eqI mem_Sigma_iff singletonD)
  have cards: "ti_user_card_id ` set xs = set offered \<union> set requested"
    using arg_cong [OF new, of "image snd"] by (simp add: image_image)
  have rows: "fst ` set ?rows = set offered \<union> set requested" by (simp add: image_Un image_image)
  have lock: "c \<in> set offered \<union> set requested \<Longrightarrow>
      \<exists>k \<in> set (trade_locks s'). tl_proposal_id k = tp_id p \<and> tl_user_card_id k = c" for c
    using l unfolding rows [symmetric] by blast
  have free: "c \<in> set offered \<union> set requested \<Longrightarrow> k \<in> set (trade_locks s) \<Longrightarrow> tl_user_card_id k \<noteq> c" for c k
    using l i unfolding rows [symmetric] by auto
  have "tp_id p \<notin> tp_id ` set (trade_proposals s)" by (metis imageE fresh)
  then have "unique_by tp_id (trade_proposals s')"
    using assms(2) by (simp add: props trades_ok_def unique_by_def)
  moreover have "unique_by (\<lambda>x. (ti_proposal_id x, ti_user_card_id x)) (trade_items s')"
    using assms(2) i l by (simp add: trades_ok_def)
  moreover have "unique_by tl_user_card_id (trade_locks s')"
    using assms(2) i l by (simp add: trades_ok_def)
  moreover have "\<exists>q \<in> set (trade_proposals s'). tp_id q = ti_proposal_id x" if "x \<in> set (trade_items s')" for x
    using that assms(2) newp [of x] unfolding items props trades_ok_def by auto
  moreover have "\<exists>k \<in> set (trade_locks s'). tl_proposal_id k = tp_id q \<and> tl_user_card_id k = ti_user_card_id x"
    if "q \<in> set (trade_proposals s')" "tp_status q = ''pending''" "x \<in> set (trade_items s')"
      "ti_proposal_id x = tp_id q" for q x
  proof (cases "x \<in> set xs")
    case True
    with newp [OF True] lock that(4) show ?thesis by metis
  next
    case False
    with that(3) items have x: "x \<in> set (trade_items s)" by simp
    with old that(1,4) props have "q \<in> set (trade_proposals s)" by auto
    with x that(2,4) assms(2) obtain k where "k \<in> set (trade_locks s)" "tl_proposal_id k = tp_id q"
      "tl_user_card_id k = ti_user_card_id x" unfolding trades_ok_def by blast
    moreover have "set (trade_locks s) \<subseteq> set (trade_locks s')" using l i by simp
    ultimately show ?thesis by blast
  qed
  ultimately have ok: "trades_ok s'" unfolding trades_ok_def by blast
  have none: "get_proposal (tp_id p) s = None"
    using fresh by (auto simp: get_proposal_def find_None_iff)
  have "item_cards (tp_id p) s' = set offered \<union> set requested"
    using newp old unfolding cards [symmetric] by (auto simp: item_cards_def items_of_def items)
  moreover have "item_cards j s' = item_cards j s" if "j \<noteq> tp_id p" for j
    using newp that by (auto simp: item_cards_def items_of_def items)
  moreover have "get_proposal j s' = (if j = tp_id p then Some p else get_proposal j s)" for j
    using none by (auto simp: get_proposal_def props find_append split: option.splits)
  ultimately have desk: "desk_of s' = (desk_of s)(tp_id p \<mapsto> (''pending'', set offered \<union> set requested))"
    using p by (auto simp: fun_eq_iff desk_of_def)
  have "c \<notin> set offered \<union> set requested" if "c \<in> reserved (desk_of s)" for c
  proof -
    from that obtain j q where q: "get_proposal j s = Some q" "tp_status q = ''pending''" "c \<in> item_cards j s"
      by (auto simp: reserved_def desk_of_def)
    then have "q \<in> set (trade_proposals s)" "tp_id q = j" by (auto simp: get_proposal_def dest!: find_SomeD)
    with q assms(2) obtain k where "k \<in> set (trade_locks s)" "tl_user_card_id k = c"
      unfolding trades_ok_def item_cards_def items_of_def by fastforce
    with free show ?thesis by blast
  qed
  then have "(set offered \<union> set requested) \<inter> reserved (desk_of s) = {}" by blast
  moreover have "desk_of s (tp_id p) = None" by (simp add: desk_of_def none)
  ultimately show ?thesis using ok desk desk_step.Open by metis
qed


section \<open>The requests as steps\<close>

text \<open>
  One request, or anything else in the program: no other code writes the four tables, so
  \<open>other\<close> covers the rest of the service and the passing of time.
\<close>

inductive trade_step :: "db \<Rightarrow> db \<Rightarrow> bool" where
  create: "create_trade u recipient offered requested s = Inr (p, s') \<Longrightarrow> trade_step s s'"
| accept: "accept_trade i u s = (r, s') \<Longrightarrow> trade_step s s'"
| reject: "reject_trade i u s = (r, s') \<Longrightarrow> trade_step s s'"
| cancel: "cancel_trade i u s = (r, s') \<Longrightarrow> trade_step s s'"
| inbox: "trade_inbox u box st s = Inr (ids, s') \<Longrightarrow> trade_step s s'"
| detail: "trade_detail i u s = Inr (j, s') \<Longrightarrow> trade_step s s'"
| hold: "hold_trade reference ticket s = Inr ((), s') \<Longrightarrow> trade_step s s'"
| release: "release_trade reference s = Inr ((), s') \<Longrightarrow> trade_step s s'"
| other: "trade_rows s' = trade_rows s \<Longrightarrow> trade_step s s'"

lemma create_trade_saves:
  assumes "create_trade u recipient offered requested s = Inr (p, s')"
  obtains s1 where "save_proposal u recipient offered requested s = Inr (p, s1)"
    "trade_rows s' = trade_rows s1"
proof -
  have tr: "translate_conflict c m = Inr x \<longleftrightarrow> m = Inr x" for c and m :: "exn + db" and x
    by (auto simp: translate_conflict_def split: sum.splits exn.splits)
  from assms obtain s1 s2 where 1: "save_proposal u recipient offered requested s = Inr (p, s1)"
    and 2: "record_audit
           \<lparr>au_actor_user_id = Some u, au_action = ''trade.created'', au_entity_type = ''trade'',
            au_entity_id = tp_id p, au_organization_id = None, au_artist_id = None,
            au_details = [(''offeredUserCardIds'', JArr (map JStr offered)),
              (''requestedUserCardIds'', JArr (map JStr requested))]\<rparr> s1 = Inr s2"
    and 3: "notify_user_once recipient ''trade_received'' ''trade'' (tp_id p)
             (''trade:'' @ tp_id p @ '':received'') s2 = Inr s'"
    unfolding create_trade_def by (auto simp: bindE_eq_Inr tr split: if_splits)
  show ?thesis by (rule that [OF 1]) (use 2 3 in \<open>simp add: trade_frame\<close>)
qed

lemma hold_rows:
  "hold_trade reference ticket s = Inr (x, s') \<Longrightarrow> desk_of s' = desk_of s \<and> trades_ok s' = trades_ok s"
  "release_trade reference s = Inr (x, s') \<Longrightarrow> desk_of s' = desk_of s \<and> trades_ok s' = trades_ok s"
  by (auto simp: hold_trade_def release_trade_def inr_simps desk_of_def get_proposal_def item_cards_def
      items_of_def trades_ok_def fun_eq_iff split: if_splits)

lemma expiries_desk:
  assumes "foldE (\<lambda>p s. bindE (expire_trade_proposal p s) (\<lambda>(_, s'). Inr s')) ps s = Inr s'"
    and "trades_ok s" and "unique_by tp_id ps" and "\<forall>p \<in> set ps. get_proposal (tp_id p) s = Some p"
  shows "trades_ok s' \<and> desk_step\<^sup>*\<^sup>* (desk_of s) (desk_of s')"
  using assms
proof (induction ps arbitrary: s)
  case (Cons p ps)
  from Cons.prems(1) obtain b s1 where 1: "expire_trade_proposal p s = Inr (b, s1)"
    and 2: "foldE (\<lambda>p s. bindE (expire_trade_proposal p s) (\<lambda>(_, s'). Inr s')) ps s1 = Inr s'"
    by (auto simp: bindE_eq_Inr)
  have u: "unique_by tp_id ps" using Cons.prems(3) by (simp add: unique_by_def)
  from expire_cases [OF 1] have "s1 = s \<or> tp_status p = ''pending'' \<and> closed_as (tp_id p) ''expired'' s s1"
    by blast
  then show ?case
  proof (elim disjE conjE)
    assume "s1 = s"
    with 2 u Cons show ?thesis by simp
  next
    assume p: "tp_status p = ''pending''" and c: "closed_as (tp_id p) ''expired'' s s1"
    have g: "get_proposal (tp_id p) s = Some p" using Cons.prems(4) by simp
    have step: "trades_ok s1 \<and> desk_step (desk_of s) (desk_of s1)"
      using closed_as_desk [OF c Cons.prems(2) _ g p] by simp
    from c obtain t where "trade_rows s1 = trade_rows (close_proposal (tp_id p) ''expired'' (s\<lparr>now := t\<rparr>))"
      by (auto simp: closed_as_def)
    then have same: "get_proposal j s1 = get_proposal j s" if "j \<noteq> tp_id p" for j
      using get_proposal_close [of j "tp_id p" "''expired''" "s\<lparr>now := t\<rparr>"] that
      by (simp add: trade_rows_def get_proposal_def option.map_ident)
    have "tp_id q \<noteq> tp_id p" if "q \<in> set ps" for q
      using Cons.prems(3) that by (simp add: unique_by_def) (metis image_eqI)
    with same Cons.prems(4) have "\<forall>q \<in> set ps. get_proposal (tp_id q) s1 = Some q" by simp
    with Cons.IH [OF 2 _ u] step show ?thesis by (auto intro: converse_rtranclp_into_rtranclp)
  qed
qed simp

lemma proposal_found: "trades_ok s \<Longrightarrow> p \<in> set (trade_proposals s) \<Longrightarrow> get_proposal (tp_id p) s = Some p"
  unfolding get_proposal_def by (rule find_unique [where key = tp_id]) (auto dest: trades_okD(3))

lemma answer_desk:
  assumes "s' = s \<or> (\<exists>p. get_proposal i s = Some p \<and> tp_status p = ''pending'' \<and>
      (closed_as i st s s' \<or> closed_as i ''expired'' s s'))"
    and "trades_ok s" and "st \<noteq> ''pending''"
  shows "trades_ok s' \<and> desk_step\<^sup>*\<^sup>* (desk_of s) (desk_of s')"
  using assms closed_as_desk [OF _ assms(2)] by (auto intro: r_into_rtranclp)

lemma trade_step_desk:
  assumes "trade_step s s'" and "trades_ok s"
  shows "trades_ok s' \<and> desk_step\<^sup>*\<^sup>* (desk_of s) (desk_of s')"
  using assms
proof cases
  case (create u recipient offered requested p)
  then obtain s1 where "save_proposal u recipient offered requested s = Inr (p, s1)"
    "trade_rows s' = trade_rows s1" by (rule create_trade_saves)
  with save_proposal_desk assms(2) show ?thesis
    using trades_ok_rows desk_of_rows by (metis r_into_rtranclp)
next
  case (accept i u r)
  then obtain r1 where "with_pending_proposal i u Recipient (accept_body u) s = (r1, s')"
    by (auto simp: accept_trade_def split: prod.splits)
  from answer_desk [OF accepting.answered [OF this trades_ok_items] assms(2)] assms(2) show ?thesis by simp
next
  case (reject i u r)
  then show ?thesis
    using answer_desk [OF rejecting.answered [OF _ trades_ok_items] assms(2)] assms(2)
    by (simp add: reject_trade_def)
next
  case (cancel i u r)
  then show ?thesis
    using answer_desk [OF cancelling.answered [OF _ trades_ok_items] assms(2)] assms(2)
    by (simp add: cancel_trade_def)
next
  case (inbox u box st ids)
  let ?ps = "rev (sort_key (\<lambda>p. (tp_created_at p, tp_id p)) (filter (in_box box u) (trade_proposals s)))"
  from inbox have f: "foldE (\<lambda>p s. bindE (expire_trade_proposal p s) (\<lambda>(_, s'). Inr s')) ?ps s = Inr s'"
    by (auto simp: trade_inbox_def bindE_eq_Inr Let_def)
  have "unique_by tp_id ?ps"
    using trades_okD(3) [OF assms(2)] by (auto simp: unique_by_def distinct_map inj_on_def)
  then show ?thesis
    by (rule expiries_desk [OF f assms(2)]) (auto intro: proposal_found [OF assms(2)])
next
  case (detail i u j)
  then obtain p b where p: "get_proposal i s = Some p" and e: "expire_trade_proposal p s = Inr (b, s')"
    by (auto simp: trade_detail_def bindE_eq_Inr split: option.splits if_splits)
  from p have "tp_id p = i" by (rule get_proposal_id)
  with expire_cases [OF e] p show ?thesis
    by (intro answer_desk [OF _ assms(2), of _ i "''expired''"]) auto
next
  case (hold reference ticket)
  with hold_rows(1) assms(2) show ?thesis by simp
next
  case (release reference)
  with hold_rows(2) assms(2) show ?thesis by simp
next
  case other
  with trades_ok_rows desk_of_rows assms(2) show ?thesis by (metis rtranclp.rtrancl_refl)
qed

lemma trade_steps_desk:
  assumes "trade_step\<^sup>*\<^sup>* s s'" and "trades_ok s"
  shows "trades_ok s' \<and> desk_step\<^sup>*\<^sup>* (desk_of s) (desk_of s')"
  using assms by induction (auto dest: trade_step_desk intro: rtranclp_trans)

lemma desk_step_settled:
  "desk_step d d' \<Longrightarrow> d i = Some (st, cs) \<Longrightarrow> st \<noteq> ''pending'' \<Longrightarrow> d' i = Some (st, cs)"
  by (cases rule: desk_step.cases) auto

lemma trades_ok_disjoint:
  assumes "trades_ok s" and "desk_of s i = Some (''pending'', cs)" and "desk_of s j = Some (''pending'', ds)"
    and "i \<noteq> j"
  shows "cs \<inter> ds = {}"
proof -
  have lock: "\<exists>l \<in> set (trade_locks s). tl_proposal_id l = k \<and> tl_user_card_id l = c"
    if "desk_of s k = Some (''pending'', es)" "c \<in> es" for k c es
  proof -
    from that obtain p where p: "get_proposal k s = Some p" "tp_status p = ''pending''" "c \<in> item_cards k s"
      by (auto simp: desk_of_def)
    then obtain x where "x \<in> set (trade_items s)" "ti_proposal_id x = k" "ti_user_card_id x = c"
      by (auto simp: item_cards_def items_of_def)
    moreover from p have "p \<in> set (trade_proposals s)" "tp_id p = k"
      by (auto simp: get_proposal_def dest!: find_SomeD)
    ultimately show ?thesis using trades_okD(2) [OF assms(1)] p(2) by metis
  qed
  have "inj_on tl_user_card_id (set (trade_locks s))"
    using trades_okD(5) [OF assms(1)] by (simp add: unique_by_def distinct_map)
  then show ?thesis using lock [OF assms(2)] lock [OF assms(3)] assms(4) by (fastforce dest: inj_onD)
qed


text \<open>
  A proposal can be held once: after the hold was released, holding the pending proposal
  again violates the unique index on \<open>trade_holds.proposal_id\<close>, because the guard only
  looks at holds that are still open.
\<close>

lemma hold_after_release:
  assumes "find (\<lambda>h. th_proposal_id h = i) (trade_holds s) = Some h" and "th_released_at h = Some t"
    and "get_proposal i s = Some p" and "tp_status p = ''pending''" and "i \<noteq> []"
  shows "hold_trade (Some i) ticket s = Inl IntegrityError"
proof -
  have "tp_id p = i" using assms(3) by (rule get_proposal_id)
  moreover from assms(1) have "h \<in> set (trade_holds s)" "th_proposal_id h = i"
    by (auto dest!: find_SomeD)
  then have "insert_row clash_hold
      \<lparr>th_id = new_id ''trade_hold_'' s, th_proposal_id = i, th_ticket_id = Some ticket, th_released_at = None\<rparr>
      (trade_holds s) = Inl IntegrityError"
    by (auto simp: insert_row_def list_ex_iff clash_hold_def)
  ultimately show ?thesis using assms by (simp add: hold_trade_def)
qed

section \<open>Properties\<close>


definition a_fan :: "ident \<Rightarrow> user" where
  "a_fan i =
    \<lparr>u_id = i, u_email = None, u_username = Some i, u_password_hash = None,
     u_must_change_password = False, u_role = FAN, u_nickname = Some i, u_favorite_artist_ids = [],
     u_favorite_member_ids = [], u_onboarding_completed = True, u_notification_email_enabled = True,
     u_deleted_at = None\<rparr>"

definition a_copy :: "ident \<Rightarrow> ident \<Rightarrow> int \<Rightarrow> user_card" where
  "a_copy i owner n =
    \<lparr>uc_id = i, uc_user_id = owner, uc_card_id = ''c1'', uc_redeem_code_id = None, uc_drop_id = None,
     uc_serial_number = n, uc_acquisition_source = ''drop'', uc_acquired_at = 0, uc_expires_at = None,
     uc_trade_locked_at = None\<rparr>"

definition trade_db :: db where
  "trade_db = empty_db\<lparr>users := [a_fan ''ann'', a_fan ''bob''], cards := [drop_card],
     user_cards := [a_copy ''k1'' ''ann'' 1, a_copy ''k2'' ''bob'' 2, a_copy ''k3'' ''ann'' 3]\<rparr>"

text \<open>Ann offers her first copy for Bob's.\<close>

definition proposed_db :: db where
  "proposed_db = (case create_trade ''ann'' ''bob'' [''k1''] [''k2''] trade_db of
     Inl e \<Rightarrow> trade_db | Inr (p, s) \<Rightarrow> s)"


text \<open>C3. The trade tables refine the abstract desk: whatever the requests, their order, their outcomes
  and the rest of the program do, each of them is a sequence of openings of new proposals with
  unreserved cards and of closings of pending ones. In particular a proposal that was closed
  stays as it was closed.\<close>

theorem trades_refine_desk:
  assumes "trade_step\<^sup>*\<^sup>* s s'" and "trades_ok s"
  shows "trades_ok s' \<and> desk_step\<^sup>*\<^sup>* (desk_of s) (desk_of s') \<and>
    (desk_of s i = Some (st, cs) \<longrightarrow> st \<noteq> ''pending'' \<longrightarrow> desk_of s' i = Some (st, cs))"
proof -
  from trade_steps_desk [OF assms] have ok: "trades_ok s'" and d: "desk_step\<^sup>*\<^sup>* (desk_of s) (desk_of s')"
    by simp_all
  from d have "desk_of s i = Some (st, cs) \<longrightarrow> st \<noteq> ''pending'' \<longrightarrow> desk_of s' i = Some (st, cs)"
    by induction (auto dest: desk_step_settled)
  with ok d show ?thesis by blast
qed

lemma trades_ok_empty: "trade_proposals s = [] \<Longrightarrow> trade_items s = [] \<Longrightarrow> trade_locks s = [] \<Longrightarrow> trades_ok s"
  by (simp add: trades_ok_def unique_by_def)

lemma proposed_step: "trade_step trade_db proposed_db"
proof -
  have "\<not> isl (create_trade ''ann'' ''bob'' [''k1''] [''k2''] trade_db)" by code_simp
  then obtain p s where "create_trade ''ann'' ''bob'' [''k1''] [''k2''] trade_db = Inr (p, s)"
    by (cases "create_trade ''ann'' ''bob'' [''k1''] [''k2''] trade_db") auto
  then show ?thesis using trade_step.create by (simp add: proposed_db_def)
qed

lemma trade_db_ok: "trades_ok trade_db"
  by (rule trades_ok_empty) (simp_all add: trade_db_def empty_db_def)

theorem trades_refine_desk_witness:
  "let s = snd (cancel_trade (tp_id (hd (trade_proposals proposed_db))) ''ann'' proposed_db)
   in map tp_status (trade_proposals s) = [''cancelled''] \<and> trades_ok s \<and>
     desk_step\<^sup>*\<^sup>* (desk_of trade_db) (desk_of s)"
proof -
  let ?s = "snd (cancel_trade (tp_id (hd (trade_proposals proposed_db))) ''ann'' proposed_db)"
  have "trade_step proposed_db ?s"
    by (rule trade_step.cancel) (rule prod.collapse [symmetric])
  with proposed_step have steps: "trade_step\<^sup>*\<^sup>* trade_db ?s" by simp
  have "map tp_status (trade_proposals ?s) = [''cancelled'']" by code_simp
  with trades_refine_desk [OF steps trade_db_ok] show ?thesis unfolding Let_def by blast
qed

text \<open>C14. A card is in at most one pending proposal, in every state the program reaches from one
  without proposals.\<close>

theorem one_pending_trade_per_card:
  assumes "trade_proposals s = []" and "trade_items s = []" and "trade_locks s = []"
    and "trade_step\<^sup>*\<^sup>* s s'"
    and "desk_of s' i = Some (''pending'', cs)" and "desk_of s' j = Some (''pending'', ds)" and "i \<noteq> j"
  shows "cs \<inter> ds = {}"
  using trades_ok_disjoint [OF _ assms(5-7)] trade_steps_desk [OF assms(4) trades_ok_empty [OF assms(1-3)]]
  by blast

text \<open>A second proposal with the remaining copy.\<close>

definition twice_db :: db where
  "twice_db = (case create_trade ''bob'' ''ann'' [''k2''] [''k3''] trade_db of
     Inl e \<Rightarrow> trade_db | Inr (p, s) \<Rightarrow>
       (case create_trade ''ann'' ''bob'' [''k1''] [] s of Inl e \<Rightarrow> trade_db | Inr (q, t) \<Rightarrow> t))"

theorem one_pending_trade_per_card_witness:
  "\<exists>i j cs ds. i \<noteq> j \<and> cs \<noteq> {} \<and> ds \<noteq> {} \<and> desk_of twice_db i = Some (''pending'', cs) \<and>
    desk_of twice_db j = Some (''pending'', ds) \<and> cs \<inter> ds = {}"
proof -
  let ?p = "trade_proposals twice_db ! 0" and ?q = "trade_proposals twice_db ! 1"
  have "\<not> isl (create_trade ''bob'' ''ann'' [''k2''] [''k3''] trade_db)" by code_simp
  then obtain p s where 1: "create_trade ''bob'' ''ann'' [''k2''] [''k3''] trade_db = Inr (p, s)"
    by (cases "create_trade ''bob'' ''ann'' [''k2''] [''k3''] trade_db") auto
  have "case create_trade ''bob'' ''ann'' [''k2''] [''k3''] trade_db of Inl e \<Rightarrow> False
    | Inr (p, s) \<Rightarrow> \<not> isl (create_trade ''ann'' ''bob'' [''k1''] [] s)" by code_simp
  with 1 obtain q t where 2: "create_trade ''ann'' ''bob'' [''k1''] [] s = Inr (q, t)"
    by (cases "create_trade ''ann'' ''bob'' [''k1''] [] s") auto
  have "twice_db = t" by (simp add: twice_db_def 1 2)
  with 1 2 have steps: "trade_step\<^sup>*\<^sup>* trade_db twice_db"
    by (blast intro: trade_step.create r_into_rtranclp rtranclp_trans)
  have "tp_id ?p \<noteq> tp_id ?q" "map_option tp_status (get_proposal (tp_id ?p) twice_db) = Some ''pending''"
    "map_option tp_status (get_proposal (tp_id ?q) twice_db) = Some ''pending''"
    "items_of (tp_id ?p) twice_db \<noteq> []" "items_of (tp_id ?q) twice_db \<noteq> []" by code_simp+
  then have *: "tp_id ?p \<noteq> tp_id ?q"
    "desk_of twice_db (tp_id ?p) = Some (''pending'', item_cards (tp_id ?p) twice_db)"
    "desk_of twice_db (tp_id ?q) = Some (''pending'', item_cards (tp_id ?q) twice_db)"
    "item_cards (tp_id ?p) twice_db \<noteq> {}" "item_cards (tp_id ?q) twice_db \<noteq> {}"
    by (auto simp: desk_of_def item_cards_def)
  have "item_cards (tp_id ?p) twice_db \<inter> item_cards (tp_id ?q) twice_db = {}"
    by (rule one_pending_trade_per_card [OF _ _ _ steps *(2,3,1)]) (simp_all add: trade_db_def empty_db_def)
  with * show ?thesis by blast
qed

end
