(* ===== verification/Redeem.thy ===== *)
theory Redeem
  imports Ownership
begin

text \<open>
  Redeem codes (\<open>backend/app/services.py\<close>): the preview, which consumes nothing, and the
  redemption. The invariant \<open>codes_ok\<close> bounds the copies a code has given out by its use
  count, and that by the number of uses allowed.
\<close>

section \<open>Operations\<close>

definition find_code :: "string \<Rightarrow> db \<Rightarrow> redeem_code option" where
  "find_code v s = find (\<lambda>c. rc_code c = v) (redeem_codes s)"

definition get_drop :: "ident \<Rightarrow> db \<Rightarrow> drop_row option" where
  "get_drop i s = find (\<lambda>d. d_id d = i) (drops s)"

definition owns_code :: "ident \<Rightarrow> string \<Rightarrow> db \<Rightarrow> bool" where
  "owns_code u v s \<longleftrightarrow> list_ex (\<lambda>x. uc_user_id x = u \<and> uc_redeem_code_id x = Some v) (user_cards s)"

text \<open>The checks both operations make, in their order; they differ in the code of the limit error.\<close>

definition check_code :: "string \<Rightarrow> ident \<Rightarrow> redeem_code \<Rightarrow> db \<Rightarrow> exn + card_row \<times> drop_row" where
  "check_code limit_error u code s =
    (if rc_disabled_at code \<noteq> None then Inl (AppError 409 ''REDEEM_CODE_DISABLED'')
     else if rc_max_uses code \<le> rc_used_count code then Inl (AppError 409 limit_error)
     else if owns_code u (rc_code code) s then Inl (AppError 409 ''REDEEM_CODE_ALREADY_USED'')
     else if (case rc_expires_at code of None \<Rightarrow> False | Some t \<Rightarrow> t < now s)
     then Inl (AppError 409 ''REDEEM_CODE_EXPIRED'')
     else
       case get_card (rc_card_id code) s of
         None \<Rightarrow> Inl (AppError 409 ''CARD_NOT_PUBLISHED'')
       | Some c \<Rightarrow>
           if c_status c \<noteq> ''published'' then Inl (AppError 409 ''CARD_NOT_PUBLISHED'')
           else
             (case get_drop (rc_drop_id code) s of
                None \<Rightarrow> Inl (AppError 409 ''DROP_NOT_LIVE'')
              | Some d \<Rightarrow>
                  if d_status d \<noteq> ''live'' then Inl (AppError 409 ''DROP_NOT_LIVE'')
                  else if c_drop_id c \<noteq> Some (rc_drop_id code) then Inl (AppError 409 ''CARD_DROP_MISMATCH'')
                  else Inr (c, d)))"

definition preview_redeem :: "ident \<Rightarrow> string \<Rightarrow> db \<Rightarrow> exn + card_row" where
  "preview_redeem u v s =
    (case find_code v s of
       None \<Rightarrow> Inl (AppError 404 ''REDEEM_CODE_NOT_FOUND'')
     | Some code \<Rightarrow> bindE (check_code ''REDEEM_CODE_ALREADY_USED'' u code s) (\<lambda>(c, _). Inr c))"

definition count_use :: "string \<Rightarrow> db \<Rightarrow> db" where
  "count_use v s = s\<lparr>redeem_codes :=
    update_where (\<lambda>c. rc_code c = v) (\<lambda>c. c\<lparr>rc_used_count := rc_used_count c + 1\<rparr>) (redeem_codes s)\<rparr>"

definition redeem_grant_args :: "ident \<Rightarrow> redeem_code \<Rightarrow> string \<Rightarrow> card_row \<Rightarrow> drop_row \<Rightarrow> card_grant_args" where
  "redeem_grant_args u code source c d =
    \<lparr>cg_user_id = u, cg_card_id = c_id c, cg_source_type = ''redeem_code'', cg_source_id = rc_code code,
     cg_acquisition_source = source,
     cg_metadata = [(''dropId'', JStr (d_id d)), (''acquisitionSource'', JStr source)],
     cg_redeem_code_id = Some (rc_code code), cg_drop_id = c_drop_id c\<rparr>"

text \<open>What the request answers, with the engagement event to enqueue.\<close>

record redemption =
  re_user_card_id :: ident
  re_card_id :: ident
  re_serial_number :: int
  re_event_id :: ident

definition redeem :: "ident \<Rightarrow> string \<Rightarrow> string \<Rightarrow> db \<Rightarrow> exn + redemption \<times> db" where
  "redeem u v source s =
    (case find_code v s of
       None \<Rightarrow> Inl (AppError 404 ''REDEEM_CODE_NOT_FOUND'')
     | Some code \<Rightarrow>
       bindE (check_code (if rc_max_uses code = 0 then ''REDEEM_LIMIT_REACHED'' else ''REDEEM_CODE_ALREADY_USED'')
           u code s) (\<lambda>(c, d).
       bindE (grant_user_card (redeem_grant_args u code source c d) (count_use v s)) (\<lambda>(uc, s1).
       bindE (record_engagement_event u ''card_collected'' ''user_card'' (uc_id uc)
           [(''cardId'', JStr (c_id c)), (''artistId'', jopt (c_artist_id c)),
            (''memberId'', jopt (c_member_id c)), (''dropId'', JStr (d_id d))] s1) (\<lambda>(event, s2).
       bindE (record_audit
           \<lparr>au_actor_user_id = Some u, au_action = ''redemption.created'', au_entity_type = ''user_card'',
            au_entity_id = uc_id uc, au_organization_id = None, au_artist_id = None,
            au_details = [(''cardId'', JStr (c_id c)), (''source'', JStr source),
              (''engagementEventId'', JStr (ev_id event))]\<rparr> s2) (\<lambda>s3.
       bindE (notify_user_once u ''card_redeemed'' ''user_card'' (uc_id uc)
           (''redemption:'' @ v @ '':'' @ u) s3) (\<lambda>s4.
       Inr (\<lparr>re_user_card_id = uc_id uc, re_card_id = c_id c, re_serial_number = uc_serial_number uc,
             re_event_id = ev_id event\<rparr>, s4)))))))"

section \<open>Lemmas\<close>

lemma find_code_id: "find_code v s = Some code \<Longrightarrow> rc_code code = v"
  by (auto simp: find_code_def dest!: find_SomeD)

lemma check_code_ok:
  assumes "check_code e u code s = Inr (c, d)"
  shows "rc_disabled_at code = None" "rc_used_count code < rc_max_uses code" "\<not> owns_code u (rc_code code) s"
    "(case rc_expires_at code of None \<Rightarrow> True | Some t \<Rightarrow> now s \<le> t)"
    "get_card (rc_card_id code) s = Some c" "c_status c = ''published''"
    "get_drop (rc_drop_id code) s = Some d" "d_status d = ''live''" "c_drop_id c = Some (rc_drop_id code)"
  using assms by (auto simp: check_code_def split: if_splits option.splits)

lemma redeem_cases:
  assumes "redeem u v source s = Inr (r, s')"
  obtains code c d uc s1 where "find_code v s = Some code" "rc_code code = v"
    "check_code (if rc_max_uses code = 0 then ''REDEEM_LIMIT_REACHED'' else ''REDEEM_CODE_ALREADY_USED'')
       u code s = Inr (c, d)"
    "grant_user_card (redeem_grant_args u code source c d) (count_use v s) = Inr (uc, s1)"
    "re_user_card_id r = uc_id uc" "re_card_id r = c_id c" "re_serial_number r = uc_serial_number uc"
    "redeem_codes s' = redeem_codes s1" "user_cards s' = user_cards s1"
    "ownership_ledger s' = ownership_ledger s1"
proof -
  from assms obtain code where code: "find_code v s = Some code"
    by (auto simp: redeem_def split: option.splits)
  note r1 = assms [unfolded redeem_def code option.case]
  from r1 obtain c d uc s1 event s2 s3 where
    1: "check_code (if rc_max_uses code = 0 then ''REDEEM_LIMIT_REACHED'' else ''REDEEM_CODE_ALREADY_USED'')
       u code s = Inr (c, d)"
    and 2: "grant_user_card (redeem_grant_args u code source c d) (count_use v s) = Inr (uc, s1)"
    and 3: "record_engagement_event u ''card_collected'' ''user_card'' (uc_id uc)
           [(''cardId'', JStr (c_id c)), (''artistId'', jopt (c_artist_id c)),
            (''memberId'', jopt (c_member_id c)), (''dropId'', JStr (d_id d))] s1 = Inr (event, s2)"
    and 4: "record_audit
           \<lparr>au_actor_user_id = Some u, au_action = ''redemption.created'', au_entity_type = ''user_card'',
            au_entity_id = uc_id uc, au_organization_id = None, au_artist_id = None,
            au_details = [(''cardId'', JStr (c_id c)), (''source'', JStr source),
              (''engagementEventId'', JStr (ev_id event))]\<rparr> s2 = Inr s3"
    and 5: "notify_user_once u ''card_redeemed'' ''user_card'' (uc_id uc)
           (''redemption:'' @ v @ '':'' @ u) s3 = Inr s'"
    and r: "r = \<lparr>re_user_card_id = uc_id uc, re_card_id = c_id c, re_serial_number = uc_serial_number uc,
             re_event_id = ev_id event\<rparr>"
    by (auto simp: bindE_eq_Inr)
  from 3 4 5 have "redeem_codes s' = redeem_codes s1" "user_cards s' = user_cards s1"
    "ownership_ledger s' = ownership_ledger s1"
    by (auto dest!: touch)
  with code 1 2 r show ?thesis by (intro that [OF code find_code_id [OF code] 1 2]) simp_all
qed

lemma count_use_simps [simp]:
  "user_cards (count_use v s) = user_cards s" "ownership_ledger (count_use v s) = ownership_ledger s"
  "cards (count_use v s) = cards s" "now (count_use v s) = now s"
  by (simp_all add: count_use_def)

lemma get_user_card_count_use [simp]: "get_user_card i (count_use v s) = get_user_card i s"
  by (simp add: get_user_card_def)

lemma granted_before_count_use [simp]: "granted_before a (count_use v s) = granted_before a s"
  by (simp add: granted_before_def split: option.splits)

lemma grant_keeps_codes: "grant_user_card a s = Inr (uc, s') \<Longrightarrow> redeem_codes s' = redeem_codes s"
  by (auto dest!: touch)

text \<open>The copies that were given out for a code.\<close>

definition given :: "string \<Rightarrow> db \<Rightarrow> nat" where
  "given v s = count_where (\<lambda>x. uc_redeem_code_id x = Some v) (user_cards s)"

definition codes_ok :: "db \<Rightarrow> bool" where
  "codes_ok s \<longleftrightarrow> unique_by rc_code (redeem_codes s) \<and>
    (\<forall>c \<in> set (redeem_codes s). int (given (rc_code c) s) \<le> rc_used_count c \<and> rc_used_count c \<le> rc_max_uses c)"

lemma grant_given:
  assumes "grant_user_card a s = Inr (uc, s')"
  shows "given v s' \<le> given v s + (if cg_redeem_code_id a = Some v then 1 else 0)"
  using assms
proof (cases rule: grant_user_card_cases)
  case (New c s1 e)
  from grant_user_card_ledger(1) [OF New(6,7)] New(4) show ?thesis
    by (simp add: given_def table_simps new_user_card_def)
qed (simp add: given_def)

lemma redeem_codes_ok:
  assumes "redeem u v source s = Inr (r, s')" and "codes_ok s"
  shows "codes_ok s'"
  using assms(1)
proof (cases rule: redeem_cases)
  case (1 code c d uc s1)
  have codes: "redeem_codes s' = update_where (\<lambda>c. rc_code c = v)
      (\<lambda>c. c\<lparr>rc_used_count := rc_used_count c + 1\<rparr>) (redeem_codes s)"
    using 1(8) grant_keeps_codes [OF 1(4)] by (simp add: count_use_def)
  have given: "given w s' \<le> given w s + (if w = v then 1 else 0)" for w
    using grant_given [OF 1(4), of w] 1(2,9) by (auto simp: given_def redeem_grant_args_def)
  have below: "rc_used_count x < rc_max_uses x" if "x \<in> set (redeem_codes s)" "rc_code x = v" for x
  proof -
    from assms(2) that have "find_code v s = Some x"
      unfolding find_code_def by (intro find_unique [where key = rc_code]) (auto simp: codes_ok_def)
    with 1(1) check_code_ok(2) [OF 1(3)] show ?thesis by simp
  qed
  have "int (given (rc_code y) s') \<le> rc_used_count y \<and> rc_used_count y \<le> rc_max_uses y"
    if "y \<in> set (redeem_codes s')" for y
  proof -
    from that obtain x where x: "x \<in> set (redeem_codes s)"
      and y: "y = (if rc_code x = v then x\<lparr>rc_used_count := rc_used_count x + 1\<rparr> else x)"
      by (auto simp: codes set_update_where)
    from x assms(2) have "int (given (rc_code x) s) \<le> rc_used_count x" "rc_used_count x \<le> rc_max_uses x"
      by (simp_all add: codes_ok_def)
    with given [of "rc_code x"] below [OF x] y show ?thesis by (auto split: if_splits)
  qed
  moreover have "unique_by rc_code (redeem_codes s')"
    using assms(2) by (simp add: codes codes_ok_def unique_by_update_where)
  ultimately show ?thesis by (simp add: codes_ok_def)
qed

interpretation redemptions: service "\<lambda>(u, v, source). redeem u v source" codes_ok
  by unfold_locales (auto intro: redeem_codes_ok)

section \<open>Properties\<close>


definition live_drop :: drop_row where
  "live_drop = \<lparr>d_id = ''d1'', d_name = ''Launch'', d_status = ''live'', d_organization_id = None,
     d_artist_id = None, d_starts_at = None, d_ends_at = None\<rparr>"

definition shared_code :: redeem_code where
  "shared_code = \<lparr>rc_code = ''SUMMER'', rc_card_id = ''c1'', rc_drop_id = ''d1'', rc_expires_at = None,
     rc_used_count = 0, rc_max_uses = 3, rc_batch_id = None, rc_disabled_at = None\<rparr>"

definition redeem_db :: db where
  "redeem_db = empty_db\<lparr>cards := [drop_card\<lparr>c_drop_id := Some ''d1''\<rparr>], drops := [live_drop],
     redeem_codes := [shared_code]\<rparr>"


text \<open>C13. Codes are not overused: after any sequence of redemption requests, whatever their outcomes,
  every code has given out at most as many copies as it counts uses, and counts at most as many
  uses as it allows.\<close>

theorem codes_never_overused:
  assumes "codes_ok s" and "t = fold (\<lambda>(u, v, source) s. snd (run_tx (redeem u v source) s)) requests s"
  shows "list_all (\<lambda>c. int (given (rc_code c) t) \<le> rc_used_count c \<and> rc_used_count c \<le> rc_max_uses c)
    (redeem_codes t)"
proof -
  have "codes_ok (fold (\<lambda>a s. snd (run_tx ((\<lambda>(u, v, source). redeem u v source) a) s)) requests s)"
    by (rule redemptions.requests [OF assms(1)])
  moreover have "(\<lambda>a s. snd (run_tx ((\<lambda>(u, v, source). redeem u v source) a) s)) =
    (\<lambda>(u, v, source) s. snd (run_tx (redeem u v source) s))" by (auto simp: fun_eq_iff)
  ultimately show ?thesis using assms(2) by (simp add: codes_ok_def list_all_iff)
qed

theorem codes_never_overused_witness:
  "\<exists>t. t = fold (\<lambda>(u, v, source) s. snd (run_tx (redeem u v source) s))
      [(''ann'', ''SUMMER'', []), (''ann'', ''SUMMER'', []), (''bob'', ''SUMMER'', [])] redeem_db \<and>
    list_all (\<lambda>c. int (given (rc_code c) t) \<le> rc_used_count c \<and> rc_used_count c \<le> rc_max_uses c)
      (redeem_codes t)"
proof -
  have "codes_ok redeem_db"
    by (simp add: codes_ok_def redeem_db_def unique_by_def shared_code_def given_def count_where_def empty_db_def)
  from codes_never_overused [OF this refl] show ?thesis by blast
qed

text \<open>What a fan who traded the card away can do: the code looks unused to the check, which reads the
  fan's present copies, while the grant finds the old ledger event. The second redemption
  succeeds, uses the code up once more, and answers with a copy that belongs to somebody else;
  no copy is added.\<close>

theorem redeem_after_trade_wastes_use:
  assumes "redeem u v source s = Inr (r, s')"
    and "find (\<lambda>e. ol_user_id e = u \<and> ol_action e = ''grant'' \<and>
      ol_source_type e = ''redeem_code'' \<and> ol_source_id e = v) (ownership_ledger s) = Some e"
    and "get_user_card (ol_user_card_id e) s = Some uc" and "ol_user_card_id e \<noteq> []"
    and "uc_user_id uc \<noteq> u"
  shows "user_cards s' = user_cards s \<and> re_user_card_id r = uc_id uc \<and>
    redeem_codes s' = redeem_codes (count_use v s)"
  using assms(1)
proof (cases rule: redeem_cases)
  case (1 code c d uc1 s1)
  have "granted_before (redeem_grant_args u code source c d) (count_use v s) = Some uc"
    using assms(2-4) 1(2) by (simp add: granted_before_def redeem_grant_args_def)
  with 1(4) have "uc1 = uc" "s1 = count_use v s" by (auto simp: grant_user_card_def)
  with 1 show ?thesis by simp
qed

text \<open>Ann redeems the code and the copy moves to Bob, as a trade moves it.\<close>

definition traded_db :: db where
  "traded_db = (case redeem ''ann'' ''SUMMER'' ''redeem_code'' redeem_db of Inl e \<Rightarrow> redeem_db
     | Inr (r, s) \<Rightarrow> s\<lparr>user_cards := map (\<lambda>c. c\<lparr>uc_user_id := ''bob''\<rparr>) (user_cards s)\<rparr>)"

theorem redeem_after_trade_wastes_use_witness:
  "\<exists>r s'. redeem ''ann'' ''SUMMER'' ''redeem_code'' traded_db = Inr (r, s') \<and>
    user_cards s' = user_cards traded_db \<and> map rc_used_count (redeem_codes s') = [2]"
proof -
  have "\<not> isl (redeem ''ann'' ''SUMMER'' ''redeem_code'' traded_db)" by code_simp
  then obtain r s' where r: "redeem ''ann'' ''SUMMER'' ''redeem_code'' traded_db = Inr (r, s')"
    by (cases "redeem ''ann'' ''SUMMER'' ''redeem_code'' traded_db") auto
  let ?P = "\<lambda>e. ol_user_id e = ''ann'' \<and> ol_action e = ''grant'' \<and>
      ol_source_type e = ''redeem_code'' \<and> ol_source_id e = ''SUMMER''"
  have "case find ?P (ownership_ledger traded_db) of None \<Rightarrow> False | Some e \<Rightarrow>
    ol_user_card_id e \<noteq> [] \<and> (case get_user_card (ol_user_card_id e) traded_db of
      None \<Rightarrow> False | Some uc \<Rightarrow> uc_user_id uc \<noteq> ''ann'')" by code_simp
  then obtain e uc where "find ?P (ownership_ledger traded_db) = Some e" "ol_user_card_id e \<noteq> []"
    "get_user_card (ol_user_card_id e) traded_db = Some uc" "uc_user_id uc \<noteq> ''ann''"
    by (auto split: option.splits)
  from redeem_after_trade_wastes_use [OF r this(1,3,2,4)]
  have "user_cards s' = user_cards traded_db" "redeem_codes s' = redeem_codes (count_use ''SUMMER'' traded_db)"
    by simp_all
  moreover have "map rc_used_count (redeem_codes (count_use ''SUMMER'' traded_db)) = [2]" by code_simp
  ultimately have "map rc_used_count (redeem_codes s') = [2]" by simp
  with r \<open>user_cards s' = user_cards traded_db\<close> show ?thesis by (intro exI conjI)
qed

end
