(* ===== verification/Access.thy ===== *)
theory Access
  imports Engagement
begin

text \<open>
  Administrator permissions (\<open>backend/app/admin_access.py\<close>): the actions of each access
  level, the context a request of an administrator runs in, and the guards the handlers call
  on it.
\<close>

section \<open>Actions\<close>

definition ROOT_ACTIONS :: "string list" where
  "ROOT_ACTIONS =
    [''organizations:manage'', ''members:manage'', ''artists:manage'', ''artists:read'',
     ''artists:write'', ''cards:read'', ''cards:write'', ''cards:review'', ''cards:publish'',
     ''drops:manage'', ''events:read'', ''events:write'', ''events:submit'', ''events:review'',
     ''events:publish'', ''codes:manage'', ''codes:read'', ''codes:write'', ''users:manage'',
     ''audit:read'', ''statistics:read'', ''engagement:manage_global'',
     ''engagement:approve_global'', ''engagement:points_adjust'', ''engagement:retry'',
     ''support:read'', ''support:write'']"

definition PLATFORM_ACTIONS :: "string list" where
  "PLATFORM_ACTIONS =
    [''cards:read'', ''cards:review_platform'', ''notifications:read'', ''support:read'',
     ''support:write'', ''engagement:approve_global'', ''events:read'', ''events:review'']"

definition PARTNER_ACTIONS :: "(string \<times> string list) list" where
  "PARTNER_ACTIONS =
   [(''company_admin'',
    [''organization:read'', ''organization:manage_scoped'', ''members:manage_scoped'',
     ''artists:read'', ''artists:write'', ''cards:read'', ''cards:write'',
     ''cards:submit_review'', ''drops:read'', ''drops:write'', ''drops:submit'',
     ''events:read'', ''events:write'', ''events:submit'', ''codes:read'', ''codes:write'',
     ''engagement:write'', ''engagement:approve'', ''audit:read'', ''statistics:read'',
     ''support:read'', ''support:write'']),
    (''manager'',
    [''artists:read'', ''artists:write'', ''cards:read'', ''cards:write'',
     ''cards:submit_review'', ''drops:read'', ''drops:write'', ''drops:submit'',
     ''events:read'', ''events:write'', ''events:submit'', ''codes:read'', ''codes:write'',
     ''engagement:write'', ''audit:read'', ''statistics:read'', ''support:read'',
     ''support:write'']),
    (''editor'',
    [''artists:read'', ''artists:write'', ''cards:read'', ''cards:write'',
     ''cards:submit_review'', ''drops:read'', ''events:read'', ''events:write'',
     ''drops:write'', ''codes:read'', ''engagement:write'', ''audit:read'', ''statistics:read'',
     ''support:read'', ''support:write'']),
    (''viewer'',
    [''artists:read'', ''cards:read'', ''drops:read'', ''events:read'', ''codes:read'',
     ''audit:read'', ''statistics:read'', ''support:read''])]"

definition PARTNER_SCOPED_ACTIONS :: "string list" where
  "PARTNER_SCOPED_ACTIONS = concat (map snd PARTNER_ACTIONS) @ PLATFORM_ACTIONS"

section \<open>The context of a request\<close>

record admin_context =
  ctx_user :: user
  ctx_membership :: admin_membership
  ctx_organization :: "organization option"
  ctx_artists :: "ident list"
  ctx_actions :: "string list"

definition is_root :: "admin_context \<Rightarrow> bool" where
  "is_root c \<longleftrightarrow> am_access_level (ctx_membership c) = ''root''"

definition is_platform_operator :: "admin_context \<Rightarrow> bool" where
  "is_platform_operator c \<longleftrightarrow> am_access_level (ctx_membership c) = ''platform_operator''"

definition require_root :: "admin_context \<Rightarrow> exn + unit" where
  "require_root c = (if is_root c then Inr () else Inl (AppError 403 ''ADMIN_ROOT_REQUIRED''))"

definition require_write :: "admin_context \<Rightarrow> exn + unit" where
  "require_write c =
    (if ''cards:write'' \<in> set (ctx_actions c) then Inr () else Inl (AppError 403 ''ADMIN_WRITE_REQUIRED''))"

definition require_action :: "string \<Rightarrow> admin_context \<Rightarrow> exn + unit" where
  "require_action a c =
    (if a \<in> set (ctx_actions c) then Inr ()
     else Inl (AppError 403 (if a \<notin> set PARTNER_SCOPED_ACTIONS then ''ADMIN_ROOT_REQUIRED''
       else ''ADMIN_WRITE_REQUIRED'')))"

definition require_artist :: "ident option \<Rightarrow> admin_context \<Rightarrow> exn + ident" where
  "require_artist a c =
    (if \<not> present a then (if is_root c then Inr [] else Inl (AppError 422 ''ARTIST_REQUIRED''))
     else if \<not> is_root c \<and> the a \<notin> set (ctx_artists c) then Inl (AppError 404 ''RESOURCE_NOT_FOUND'')
     else Inr (the a))"

definition require_organization :: "ident option \<Rightarrow> admin_context \<Rightarrow> exn + unit" where
  "require_organization i c =
    (if is_root c \<or> i = None then Inr ()
     else if map_option org_id (ctx_organization c) \<noteq> i then Inl (AppError 404 ''RESOURCE_NOT_FOUND'')
     else Inr ())"

definition allowed_actions :: "string \<Rightarrow> string list" where
  "allowed_actions level =
    (if level = ''root'' then ROOT_ACTIONS
     else if level = ''platform_operator'' then PLATFORM_ACTIONS
     else case map_of PARTNER_ACTIONS level of None \<Rightarrow> [] | Some actions \<Rightarrow> actions)"

definition assigned_artists :: "admin_membership \<Rightarrow> ident \<Rightarrow> db \<Rightarrow> ident list" where
  "assigned_artists m organization_id s =
    (if am_access_level m = ''company_admin''
     then map oa_artist_id (filter (\<lambda>x. oa_organization_id x = organization_id) (organization_artists s))
     else map aa_artist_id (filter (\<lambda>x. aa_admin_user_id x = am_user_id m) (admin_artist_assignments s)))"

definition load_admin_context :: "user \<Rightarrow> db \<Rightarrow> exn + admin_context" where
  "load_admin_context u s =
    (case find (\<lambda>m. am_user_id m = u_id u) (admin_memberships s) of
       None \<Rightarrow> Inl (AppError 403 ''ADMIN_MEMBERSHIP_REQUIRED'')
     | Some m \<Rightarrow>
    if am_status m \<noteq> ''active'' then Inl (AppError 403 ''ADMIN_ACCESS_SUSPENDED'')
    else if am_access_level m = ''platform_operator'' \<and> am_organization_id m \<noteq> None
    then Inl (AppError 403 ''ADMIN_MEMBERSHIP_INVALID'')
    else
      let context = \<lparr>ctx_user = u, ctx_membership = m, ctx_organization = None, ctx_artists = [],
            ctx_actions = allowed_actions (am_access_level m)\<rparr>
      in if am_access_level m = ''platform_operator'' \<or> am_access_level m = ''root'' then Inr context
         else
           (case am_organization_id m of
              None \<Rightarrow> Inl (AppError 403 ''ADMIN_MEMBERSHIP_INVALID'')
            | Some i \<Rightarrow>
                (case find (\<lambda>g. org_id g = i) (organizations s) of
                   None \<Rightarrow> Inl (AppError 403 ''ADMIN_ACCESS_SUSPENDED'')
                 | Some g \<Rightarrow>
                     if org_status g \<noteq> ''active'' then Inl (AppError 403 ''ADMIN_ACCESS_SUSPENDED'')
                     else Inr (context\<lparr>ctx_organization := Some g, ctx_artists := assigned_artists m i s\<rparr>))))"

section \<open>Lemmas\<close>

lemma guard_Inr [inr_simps]:
  "require_action a c = Inr x \<longleftrightarrow> a \<in> set (ctx_actions c)"
  "require_write c = Inr x \<longleftrightarrow> ''cards:write'' \<in> set (ctx_actions c)"
  "require_root c = Inr x \<longleftrightarrow> is_root c"
  by (simp_all add: require_action_def require_write_def require_root_def)

text \<open>What every loaded context satisfies.\<close>

definition context_ok :: "admin_context \<Rightarrow> db \<Rightarrow> bool" where
  "context_ok c s \<longleftrightarrow>
    (let m = ctx_membership c; level = am_access_level m in
     m \<in> set (admin_memberships s) \<and> am_user_id m = u_id (ctx_user c) \<and> am_status m = ''active'' \<and>
     ctx_actions c = allowed_actions level \<and>
     (if level = ''root'' \<or> level = ''platform_operator'' then ctx_organization c = None \<and> ctx_artists c = []
      else \<exists>g \<in> set (organizations s). ctx_organization c = Some g \<and> am_organization_id m = Some (org_id g) \<and>
        org_status g = ''active'' \<and> ctx_artists c = assigned_artists m (org_id g) s))"

lemma load_admin_context_ok:
  assumes "load_admin_context u s = Inr c"
  shows "context_ok c s \<and> ctx_user c = u"
  using assms
  by (auto simp: load_admin_context_def context_ok_def Let_def dest!: find_SomeD split: option.splits if_splits)

lemma write_levels:
  "''cards:write'' \<in> set (allowed_actions level) \<longleftrightarrow>
    level \<in> {''root'', ''company_admin'', ''manager'', ''editor''}"
  by (simp add: allowed_actions_def PARTNER_ACTIONS_def ROOT_ACTIONS_def PLATFORM_ACTIONS_def)

text \<open>
  Who may ask for and decide the execution of refunds and point grants: asking needs
  \<open>support:write\<close>, deciding \<open>engagement:approve_global\<close>.
\<close>

lemma approver_levels:
  "''engagement:approve_global'' \<in> set (allowed_actions level) \<longleftrightarrow> level \<in> {''root'', ''platform_operator''}"
  by (simp add: allowed_actions_def PARTNER_ACTIONS_def ROOT_ACTIONS_def PLATFORM_ACTIONS_def)

section \<open>Properties\<close>


definition an_admin :: "ident \<Rightarrow> user" where
  "an_admin i =
    \<lparr>u_id = i, u_email = None, u_username = None, u_password_hash = None, u_must_change_password = False,
     u_role = ADMIN, u_nickname = None, u_favorite_artist_ids = [], u_favorite_member_ids = [],
     u_onboarding_completed = True, u_notification_email_enabled = False, u_deleted_at = None\<rparr>"

definition a_member :: "ident \<Rightarrow> ident option \<Rightarrow> string \<Rightarrow> admin_membership" where
  "a_member i organization level =
    \<lparr>am_user_id = i, am_organization_id = organization, am_access_level = level, am_status = ''active'',
     am_last_login_at = None\<rparr>"

text \<open>Root, a platform operator, and the editor and a viewer of one organization.\<close>

definition admin_db :: db where
  "admin_db = empty_db\<lparr>
     users := map an_admin [''root'', ''olga'', ''ed'', ''vic''],
     organizations := [\<lparr>org_id = ''org'', org_name = [], org_slug = [], org_status = ''active'',
       org_contract_starts_at = None, org_contract_ends_at = None, org_logo_asset_id = None\<rparr>],
     admin_memberships := [a_member ''root'' None ''root'', a_member ''olga'' None ''platform_operator'',
       a_member ''ed'' (Some ''org'') ''editor'', a_member ''vic'' (Some ''org'') ''viewer''],
     admin_artist_assignments := [\<lparr>aa_admin_user_id = ''ed'', aa_artist_id = ''art''\<rparr>]\<rparr>"


end
