(* ===== verification/Support.thy ===== *)
theory Support
  imports Access Trades Shop
begin

text \<open>
  The support desk (\<open>backend/app/routers/fan.py\<close>, \<open>backend/app/routers/admin.py\<close>): tickets
  and reports of fans, the operators' actions on them, and the approval requests by which
  refunds and point grants need a second administrator. Default texts the code stores
  in Korean are given in translation.
\<close>

section \<open>Tickets of fans\<close>

definition get_ticket :: "ident \<Rightarrow> db \<Rightarrow> support_ticket option" where
  "get_ticket i s = find (\<lambda>t. st_id t = i) (support_tickets s)"

definition add_ticket :: "support_ticket \<Rightarrow> db \<Rightarrow> exn + db" where
  "add_ticket t s =
    bindE (insert_row (\<lambda>r x. st_id x = st_id r) t (support_tickets s))
      (\<lambda>rows. Inr (s\<lparr>support_tickets := rows\<rparr>))"

definition add_message :: "support_message \<Rightarrow> db \<Rightarrow> exn + db" where
  "add_message m s =
    bindE (insert_row (\<lambda>r x. sm_id x = sm_id r) m (support_messages s))
      (\<lambda>rows. Inr (s\<lparr>support_messages := rows\<rparr>))"

text \<open>A ticket with its first message, and one notification to every active administrator.\<close>

definition open_ticket :: "support_ticket \<Rightarrow> string \<Rightarrow> string \<Rightarrow> string \<Rightarrow> db \<Rightarrow> exn + support_ticket \<times> db" where
  "open_ticket t body kind suffix s =
    bindE (add_ticket t (draw s)) (\<lambda>s1.
    bindE (add_message \<lparr>sm_id = new_id ''support_message_'' s1, sm_ticket_id = st_id t,
        sm_author_user_id = st_user_id t, sm_body = body, sm_created_at = now s1\<rparr> (draw s1)) (\<lambda>s2.
    bindE (foldE (\<lambda>m. notify_admin_once (am_user_id m) kind ''support_ticket'' (st_id t)
          (''support:'' @ st_id t @ suffix @ am_user_id m))
        (filter (\<lambda>m. am_status m = ''active'') (admin_memberships s2)) s2) (\<lambda>s3.
    Inr (t, s3))))"

definition create_support_ticket :: "ident \<Rightarrow> string \<Rightarrow> string \<Rightarrow> string \<Rightarrow> db \<Rightarrow> exn + support_ticket \<times> db" where
  "create_support_ticket u category subject body s =
    open_ticket
      \<lparr>st_id = new_id ''support_'' s, st_user_id = u, st_category = category,
       st_subject = py_strip subject, st_target_type = None, st_target_id = None, st_status = ''open'',
       st_assigned_admin_id = None, st_created_at = now s, st_closed_at = None\<rparr>
      (py_strip body) ''support_ticket_created'' '':created:'' s"

definition create_report :: "ident \<Rightarrow> string \<Rightarrow> string \<Rightarrow> string \<Rightarrow> string \<Rightarrow> db \<Rightarrow> exn + support_ticket \<times> db" where
  "create_report u target_type target_id reason body s =
    open_ticket
      \<lparr>st_id = new_id ''support_'' s, st_user_id = u, st_category = ''report'',
       st_subject = ''report: '' @ reason, st_target_type = Some target_type, st_target_id = Some target_id,
       st_status = ''open'', st_assigned_admin_id = None, st_created_at = now s, st_closed_at = None\<rparr>
      (''target type: '' @ target_type @ '' target id: '' @ target_id @ '' '' @ body)
      ''report_received'' '':report:'' s"

definition get_support_ticket :: "ident \<Rightarrow> ident \<Rightarrow> db \<Rightarrow> exn + support_ticket" where
  "get_support_ticket i u s =
    (case find (\<lambda>t. st_id t = i \<and> st_user_id t = u) (support_tickets s) of
       None \<Rightarrow> Inl (AppError 404 ''SUPPORT_TICKET_NOT_FOUND'')
     | Some t \<Rightarrow> Inr t)"

section \<open>Operators\<close>

definition set_ticket :: "ident \<Rightarrow> (support_ticket \<Rightarrow> support_ticket) \<Rightarrow> db \<Rightarrow> db" where
  "set_ticket i f s = s\<lparr>support_tickets := update_where (\<lambda>t. st_id t = i) f (support_tickets s)\<rparr>"

definition is_admin :: "ident \<Rightarrow> db \<Rightarrow> bool" where
  "is_admin i s \<longleftrightarrow> (case get_user i s of None \<Rightarrow> False | Some u \<Rightarrow> u_role u = ADMIN)"

definition ticket_transitions :: "(string \<times> string list) list" where
  "ticket_transitions =
    [(''open'', [''open'', ''in_progress'']),
     (''in_progress'', [''in_progress'', ''answered'', ''closed'']),
     (''answered'', [''answered'', ''in_progress'', ''closed'']),
     (''closed'', [''closed'', ''open''])]"

definition ticket_audit :: "admin_context \<Rightarrow> string \<Rightarrow> ident \<Rightarrow> jobj \<Rightarrow> audit_args" where
  "ticket_audit c action i details =
    \<lparr>au_actor_user_id = Some (u_id (ctx_user c)), au_action = action, au_entity_type = ''support_ticket'',
     au_entity_id = i, au_organization_id = None, au_artist_id = None, au_details = details\<rparr>"

definition update_admin_support_ticket ::
  "admin_context \<Rightarrow> ident \<Rightarrow> string option \<Rightarrow> ident option \<Rightarrow> db \<Rightarrow> exn + unit \<times> db" where
  "update_admin_support_ticket c i new_status assignee s =
    bindE (require_action ''support:write'' c) (\<lambda>_.
    case get_ticket i s of
      None \<Rightarrow> Inl (AppError 404 ''SUPPORT_TICKET_NOT_FOUND'')
    | Some t \<Rightarrow>
    let next = (if present new_status then the new_status else st_status t) in
    case map_of ticket_transitions (st_status t) of
      None \<Rightarrow> Inl KeyError
    | Some targets \<Rightarrow>
    if next \<notin> set targets then Inl (AppError 409 ''SUPPORT_TICKET_INVALID_TRANSITION'')
    else if st_status t = ''closed'' \<and> next \<notin> {''open'', ''closed''}
    then Inl (AppError 409 ''SUPPORT_TICKET_REOPEN_REQUIRED'')
    else
      bindE (case assignee of
          Some a \<Rightarrow> if is_admin a s then Inr (Some a) else Inl (AppError 422 ''SUPPORT_ASSIGNEE_INVALID'')
        | None \<Rightarrow> Inr (if new_status = Some ''in_progress'' \<or> new_status = Some ''answered''
            then Some (u_id (ctx_user c)) else st_assigned_admin_id t)) (\<lambda>who.
      bindE (record_audit (ticket_audit c ''support_ticket.status_changed'' (st_id t)
          [(''previousStatus'', JStr (st_status t)), (''nextStatus'', JStr next)])
        (set_ticket (st_id t) (\<lambda>t. t\<lparr>st_status := next, st_assigned_admin_id := who,
          st_closed_at := (if next = ''closed'' then Some (now s) else None)\<rparr>) s)) (\<lambda>s1.
      Inr ((), s1))))"

definition add_evidence :: "admin_context \<Rightarrow> ident \<Rightarrow> string \<Rightarrow> string option \<Rightarrow> string option \<Rightarrow> db \<Rightarrow> exn + db" where
  "add_evidence c ticket_id kind reference text s =
    bindE (insert_row (\<lambda>r x. sev_id x = sev_id r)
        \<lparr>sev_id = new_id ''evidence_'' s, sev_ticket_id = ticket_id, sev_actor_user_id = u_id (ctx_user c),
         sev_kind = kind, sev_reference_id = reference, sev_note = text, sev_created_at = now s\<rparr>
        (support_evidence_rows s)) (\<lambda>rows.
    Inr ((draw s)\<lparr>support_evidence_rows := rows\<rparr>))"

definition add_approval :: "approval_request \<Rightarrow> db \<Rightarrow> exn + db" where
  "add_approval a s =
    bindE (insert_row (\<lambda>r x. apr_id x = apr_id r) a (approval_requests s))
      (\<lambda>rows. Inr (s\<lparr>approval_requests := rows\<rparr>))"

definition new_approval ::
  "string \<Rightarrow> string \<Rightarrow> ident \<Rightarrow> ident \<Rightarrow> jobj \<Rightarrow> string option \<Rightarrow> db \<Rightarrow> approval_request" where
  "new_approval kind entity_type entity_id requester payload reason s =
    \<lparr>apr_id = new_id ''approval_'' s, apr_kind = kind, apr_entity_type = entity_type,
     apr_entity_id = entity_id, apr_requested_by = requester, apr_approved_by = None,
     apr_status = ''pending'', apr_payload = payload, apr_reason = reason, apr_created_at = now s,
     apr_decided_at = None\<rparr>"

record ticket_action =
  act_action :: string
  act_reference :: "string option"
  act_note :: "string option"
  act_amount :: "int option"

text \<open>The branches of \<open>act_on_support_ticket\<close>.\<close>

definition assign_ticket :: "admin_context \<Rightarrow> support_ticket \<Rightarrow> ticket_action \<Rightarrow> db \<Rightarrow> exn + db" where
  "assign_ticket c t a s =
    (let who = (if present (act_reference a) then the (act_reference a) else u_id (ctx_user c))
     in if \<not> is_admin who s then Inl (AppError 422 ''SUPPORT_ASSIGNEE_INVALID'')
        else add_evidence c (st_id t) ''assignment'' (Some who) (act_note a)
          (set_ticket (st_id t) (\<lambda>t. t\<lparr>st_assigned_admin_id := Some who\<rparr>) s))"

definition request_execution :: "admin_context \<Rightarrow> support_ticket \<Rightarrow> ticket_action \<Rightarrow> db \<Rightarrow> exn + db" where
  "request_execution c t a s =
    (if \<not> present (act_reference a) then Inl (AppError 422 ''ACTION_REFERENCE_REQUIRED'')
     else
       let item = new_approval (act_action a)
             (if act_action a = ''refund_order'' then ''shop_order'' else ''user'')
             (the (act_reference a)) (u_id (ctx_user c))
             [(''ticketId'', JStr (st_id t)),
              (''amount'', case act_amount a of None \<Rightarrow> JNull | Some n \<Rightarrow> JInt n)] (act_note a) s
       in bindE (add_approval item (draw s))
            (add_evidence c (st_id t) ''approval_requested'' (Some (apr_id item)) (act_note a)))"

definition moderate_collection :: "admin_context \<Rightarrow> support_ticket \<Rightarrow> ticket_action \<Rightarrow> db \<Rightarrow> exn + db" where
  "moderate_collection c t a s =
    (if st_target_type t \<noteq> Some ''user'' \<or> \<not> present (st_target_id t)
     then Inl (AppError 422 ''REPORT_TARGET_REQUIRED'')
     else
       let target = the (st_target_id t); public = (act_action a = ''restore_collection'')
       in if \<not> is_fan target s then Inl (AppError 404 ''FAN_NOT_FOUND'')
          else if public \<and> \<not> list_ex (\<lambda>v. cv_user_id v = target) (card_visibilities s)
          then Inl (AppError 404 ''COLLECTION_VISIBILITY_NOT_FOUND'')
          else
            bindE (add_evidence c (st_id t)
                (if public then ''collection_restored'' else ''collection_hidden'') (Some target)
                (if present (act_note a) then act_note a
                 else Some (if public then ''restored after review'' else ''hidden during review''))
                (update_collection_visibility target public s)) (\<lambda>s1.
            notify_user_once target ''support'' ''support_ticket'' (st_id t)
              (''support_collection_visibility:'' @ st_id t @ '':'' @
                (if public then ''restored'' else ''hidden'')) s1))"

definition ticket_branch :: "admin_context \<Rightarrow> support_ticket \<Rightarrow> ticket_action \<Rightarrow> db \<Rightarrow> exn + db" where
  "ticket_branch c t a s =
    (let action = act_action a in
     if action = ''assign'' then assign_ticket c t a s
     else if action = ''record_evidence'' then
       if \<not> present (act_reference a) \<and> \<not> present (act_note a)
       then Inl (AppError 422 ''SUPPORT_EVIDENCE_REQUIRED'')
       else add_evidence c (st_id t) ''case_note'' (act_reference a) (act_note a) s
     else if action = ''hold_trade'' then
       bindE (hold_trade (act_reference a) (st_id t) s) (\<lambda>(_, s1).
         add_evidence c (st_id t) ''trade_hold'' (act_reference a) (act_note a) s1)
     else if action = ''release_trade'' then
       bindE (release_trade (act_reference a) s) (\<lambda>(_, s1).
         add_evidence c (st_id t) ''trade_release'' (act_reference a) (act_note a) s1)
     else if action = ''refund_order'' \<or> action = ''grant_points'' then request_execution c t a s
     else if action = ''hide_collection'' \<or> action = ''restore_collection'' then moderate_collection c t a s
     else if action = ''resolve'' then
       Inr (set_ticket (st_id t) (\<lambda>t. t\<lparr>st_status := ''closed'', st_closed_at := Some (now s)\<rparr>) s)
     else Inr s)"

definition act_on_support_ticket ::
  "admin_context \<Rightarrow> ident \<Rightarrow> ticket_action \<Rightarrow> db \<Rightarrow> exn + unit \<times> db" where
  "act_on_support_ticket c i a s =
    bindE (require_action ''support:write'' c) (\<lambda>_.
    case get_ticket i s of
      None \<Rightarrow> Inl (AppError 404 ''SUPPORT_TICKET_NOT_FOUND'')
    | Some t \<Rightarrow>
    if act_action a = ''grant_points'' \<and> (act_amount a = None \<or> act_amount a = Some 0)
    then Inl (AppError 422 ''INVALID_POINT_AMOUNT'')
    else
      bindE (ticket_branch c t a s) (\<lambda>s1.
      bindE (record_audit (ticket_audit c (''support_ticket.'' @ act_action a) (st_id t)
          [(''referenceId'', jopt (act_reference a)), (''note'', jopt (act_note a))]) s1) (\<lambda>s2.
      Inr ((), s2))))"

definition reply_admin_support_ticket ::
  "admin_context \<Rightarrow> ident \<Rightarrow> string \<Rightarrow> db \<Rightarrow> exn + unit \<times> db" where
  "reply_admin_support_ticket c i body s =
    bindE (require_action ''support:write'' c) (\<lambda>_.
    case get_ticket i s of
      None \<Rightarrow> Inl (AppError 404 ''SUPPORT_TICKET_NOT_FOUND'')
    | Some t \<Rightarrow>
    if st_status t = ''closed'' then Inl (AppError 409 ''SUPPORT_TICKET_CLOSED'')
    else
      let m = \<lparr>sm_id = new_id ''support_message_'' s, sm_ticket_id = st_id t,
            sm_author_user_id = u_id (ctx_user c), sm_body = py_strip body, sm_created_at = now s\<rparr>
      in bindE (add_message m (set_ticket (st_id t) (\<lambda>t. t\<lparr>st_status := ''answered'',
            st_assigned_admin_id := Some (u_id (ctx_user c))\<rparr>) (draw s))) (\<lambda>s1.
         bindE (notify_user_once (st_user_id t) ''support_ticket_answered'' ''support_ticket'' (st_id t)
            (''support:'' @ st_id t @ '':answer:'' @ sm_id m) s1) (\<lambda>s2.
         bindE (record_audit (ticket_audit c ''support_ticket.replied'' (st_id t)
            [(''messageId'', JStr (sm_id m))]) s2) (\<lambda>s3. Inr ((), s3)))))"

end
