(* ===== verification/Approvals.thy ===== *)
theory Approvals
  imports Support
begin

text \<open>
  Dual approval (\<open>backend/app/routers/admin.py\<close>): requests for refunds, point grants and
  publications are decided by a second administrator; deciding a refund or a grant executes it.
\<close>

section \<open>Operations\<close>

definition get_approval :: "ident \<Rightarrow> db \<Rightarrow> approval_request option" where
  "get_approval i s = find (\<lambda>a. apr_id a = i) (approval_requests s)"

definition set_approval :: "ident \<Rightarrow> (approval_request \<Rightarrow> approval_request) \<Rightarrow> db \<Rightarrow> db" where
  "set_approval i f s = s\<lparr>approval_requests := update_where (\<lambda>a. apr_id a = i) f (approval_requests s)\<rparr>"

definition executes :: "string \<Rightarrow> bool" where
  "executes kind \<longleftrightarrow> kind = ''refund_order'' \<or> kind = ''grant_points''"

definition require_approval_permission :: "admin_context \<Rightarrow> string \<Rightarrow> exn + unit" where
  "require_approval_permission c kind =
    (if executes kind then require_action ''engagement:approve_global'' c else require_action ''audit:read'' c)"

definition approval_audit :: "admin_context \<Rightarrow> string \<Rightarrow> approval_request \<Rightarrow> jobj \<Rightarrow> audit_args" where
  "approval_audit c action a details =
    \<lparr>au_actor_user_id = Some (u_id (ctx_user c)), au_action = action, au_entity_type = apr_entity_type a,
     au_entity_id = apr_entity_id a, au_organization_id = None, au_artist_id = None, au_details = details\<rparr>"

text \<open>The reply to a decision: the request as it is, or as decided with what its execution did.\<close>

datatype approval_reply =
    ApprovalReplayed approval_request
  | ApprovalDecided approval_request "(ident \<times> int) option"

definition create_admin_approval ::
  "admin_context \<Rightarrow> string \<Rightarrow> string \<Rightarrow> ident \<Rightarrow> jobj \<Rightarrow> string option \<Rightarrow> db \<Rightarrow> exn + approval_reply \<times> db" where
  "create_admin_approval c kind entity_type entity_id payload reason s =
    bindE (require_action ''audit:read'' c) (\<lambda>_.
    case find (\<lambda>a. apr_kind a = kind \<and> apr_entity_type a = entity_type \<and> apr_entity_id a = entity_id \<and>
        apr_status a = ''pending'') (approval_requests s) of
      Some duplicate \<Rightarrow> Inr (ApprovalReplayed duplicate, s)
    | None \<Rightarrow>
        let item = new_approval kind entity_type entity_id (u_id (ctx_user c)) payload reason s
        in bindE (add_approval item (draw s)) (\<lambda>s1.
           bindE (record_audit (approval_audit c ''approval.requested'' item [(''kind'', JStr kind)]) s1) (\<lambda>s2.
           Inr (ApprovalDecided item None, s2))))"

definition approved_refund_args :: "approval_request \<Rightarrow> admin_context \<Rightarrow> shop_order \<Rightarrow> ident \<Rightarrow> ident \<Rightarrow> point_args" where
  "approved_refund_args a c r event_id original_id =
    \<lparr>pa_user_id = so_user_id r, pa_source_event_id = event_id,
     pa_rule_key = ''admin_shop_refund:'' @ so_id r, pa_amount = so_price_points r,
     pa_metadata = [(''orderId'', JStr (so_id r)), (''approvalId'', JStr (apr_id a)),
       (''actorId'', JStr (u_id (ctx_user c)))],
     pa_expires_at = None, pa_reversed_ledger_id = Some original_id\<rparr>"

definition execute_approved_refund :: "approval_request \<Rightarrow> admin_context \<Rightarrow> db \<Rightarrow> exn + (ident \<times> int) \<times> db" where
  "execute_approved_refund a c s =
    (case find (\<lambda>r. so_id r = apr_entity_id a) (shop_orders s) of
       None \<Rightarrow> Inl (AppError 404 ''SHOP_ORDER_NOT_FOUND'')
     | Some r \<Rightarrow>
    if so_status r \<noteq> ''completed'' \<or> \<not> present (so_point_ledger_id r)
    then Inl (AppError 409 ''SHOP_ORDER_NOT_REFUNDABLE'')
    else
      bindE (revoke_delivery (so_user_id r) r s) (\<lambda>s1.
      case get_ledger (the (so_point_ledger_id r)) s1 of
        None \<Rightarrow> Inl (AppError 409 ''SHOP_ORDER_LEDGER_INVALID'')
      | Some original \<Rightarrow>
      if 0 \<le> pl_amount original then Inl (AppError 409 ''SHOP_ORDER_LEDGER_INVALID'')
      else
        bindE (record_engagement_event (so_user_id r) ''points_refunded'' ''admin_shop_refund''
            (so_id r @ '':'' @ apr_id a)
            [(''orderId'', JStr (so_id r)), (''points'', JInt (so_price_points r)),
             (''approvalId'', JStr (apr_id a))] s1) (\<lambda>(event, s2).
        bindE (reverse_points (approved_refund_args a c r (ev_id event) (pl_id original)) s2) (\<lambda>(ledger, s3).
        let t = order_transaction (so_user_id r) ''refund'' (''approval:'' @ apr_id a) (so_price_points r)
              (pl_id ledger) s3
        in bindE (add_transaction t (draw s3)) (\<lambda>s4.
           Inr ((so_id r, pl_balance_after ledger), set_order (so_id r)
             (\<lambda>x. x\<lparr>so_status := ''refunded'', so_refund_transaction_id := Some (pt_id t),
               so_refunded_at := Some (now s4)\<rparr>) s4))))))"

definition approved_grant_args :: "approval_request \<Rightarrow> admin_context \<Rightarrow> int \<Rightarrow> ident \<Rightarrow> point_args" where
  "approved_grant_args a c amount event_id =
    \<lparr>pa_user_id = apr_entity_id a, pa_source_event_id = event_id,
     pa_rule_key = ''approved_admin_adjustment:'' @ apr_id a, pa_amount = \<bar>amount\<bar>,
     pa_metadata = [(''actorId'', JStr (u_id (ctx_user c)))], pa_expires_at = None,
     pa_reversed_ledger_id = None\<rparr>"

definition execute_approved_point_adjustment ::
  "approval_request \<Rightarrow> admin_context \<Rightarrow> db \<Rightarrow> exn + (ident \<times> int) \<times> db" where
  "execute_approved_point_adjustment a c s =
    bindE (int_or_raise (jget (apr_payload a) ''amount'')) (\<lambda>amount.
    if amount = 0 then Inl (AppError 422 ''INVALID_POINT_AMOUNT'')
    else if \<not> is_fan (apr_entity_id a) s then Inl (AppError 404 ''FAN_NOT_FOUND'')
    else
      bindE (record_engagement_event (apr_entity_id a) ''points_adjusted'' ''approved_admin_point_adjustment''
          (apr_id a) [(''amount'', JInt amount), (''approvalId'', JStr (apr_id a))] s) (\<lambda>(event, s1).
      let args = approved_grant_args a c amount (ev_id event)
      in bindE (if 0 < amount then grant_points args s1 else spend_points args s1) (\<lambda>(ledger, s2).
         bindE (add_transaction (order_transaction (apr_entity_id a) ''adjustment''
             (''approval:'' @ apr_id a) amount (pl_id ledger) s2) (draw s2)) (\<lambda>s3.
         Inr ((apr_entity_id a, pl_balance_after ledger), s3)))))"

definition execute_approval ::
  "approval_request \<Rightarrow> admin_context \<Rightarrow> db \<Rightarrow> exn + (ident \<times> int) option \<times> db" where
  "execute_approval a c s =
    (if apr_kind a = ''refund_order'' then
       bindE (execute_approved_refund a c s) (\<lambda>(x, s1). Inr (Some x, s1))
     else if apr_kind a = ''grant_points'' then
       bindE (execute_approved_point_adjustment a c s) (\<lambda>(x, s1). Inr (Some x, s1))
     else Inr (None, s))"

definition decided :: "string \<Rightarrow> admin_context \<Rightarrow> time \<Rightarrow> approval_request \<Rightarrow> approval_request" where
  "decided st c t a =
    a\<lparr>apr_status := st, apr_approved_by := Some (u_id (ctx_user c)), apr_decided_at := Some t\<rparr>"

definition approve_admin_approval :: "ident \<Rightarrow> admin_context \<Rightarrow> db \<Rightarrow> exn + approval_reply \<times> db" where
  "approve_admin_approval i c s =
    (case get_approval i s of
       None \<Rightarrow> Inl (AppError 404 ''APPROVAL_NOT_FOUND'')
     | Some a \<Rightarrow>
    bindE (require_approval_permission c (apr_kind a)) (\<lambda>_.
    if apr_status a \<noteq> ''pending'' then Inr (ApprovalReplayed a, s)
    else if apr_requested_by a = u_id (ctx_user c) then Inl (AppError 409 ''APPROVAL_SELF_APPROVAL'')
    else
      bindE (execute_approval a c s) (\<lambda>(execution, s1).
      let s2 = set_approval i (decided ''approved'' c (now s1)) s1;
          s3 = (if apr_kind a = ''product_publish''
                then set_product (apr_entity_id a) (\<lambda>p. p\<lparr>sp_status := ''published''\<rparr>) s2 else s2)
      in bindE (record_audit (approval_audit c ''approval.approved'' a [(''approvalId'', JStr (apr_id a))]) s3)
         (\<lambda>s4. Inr (ApprovalDecided (decided ''approved'' c (now s1) a) execution, s4)))))"

definition reject_admin_approval ::
  "ident \<Rightarrow> string option \<Rightarrow> admin_context \<Rightarrow> db \<Rightarrow> exn + approval_reply \<times> db" where
  "reject_admin_approval i reason c s =
    (case get_approval i s of
       None \<Rightarrow> Inl (AppError 404 ''APPROVAL_NOT_FOUND'')
     | Some a \<Rightarrow>
    bindE (require_approval_permission c (apr_kind a)) (\<lambda>_.
    if apr_status a \<noteq> ''pending'' then Inr (ApprovalReplayed a, s)
    else
      let f = (\<lambda>a. (decided ''rejected'' c (now s) a)
            \<lparr>apr_reason := (if present reason then reason else apr_reason a)\<rparr>)
      in bindE (record_audit (approval_audit c ''approval.rejected'' a [(''approvalId'', JStr (apr_id a))])
           (set_approval i f s)) (\<lambda>s1. Inr (ApprovalDecided (f a) None, s1))))"

section \<open>Lemmas\<close>

lemma approvals_frame:
  "record_audit x s = Inr t \<Longrightarrow> approval_requests t = approval_requests s"
  "record_engagement_event u k et ei d s = Inr (e, t) \<Longrightarrow> approval_requests t = approval_requests s"
  "add_transaction y s = Inr t \<Longrightarrow> approval_requests t = approval_requests s"
  "revoke_delivery u r s = Inr t \<Longrightarrow> approval_requests t = approval_requests s"
  by (auto dest!: touch)

lemma approvals_points_frame:
  "grant_points a s = Inr (l, t) \<Longrightarrow> approval_requests t = approval_requests s"
  "spend_points a s = Inr (l, t) \<Longrightarrow> approval_requests t = approval_requests s"
  "reverse_points a s = Inr (l, t) \<Longrightarrow> approval_requests t = approval_requests s"
  by (auto dest!: points_touch)

lemma clock_frame:
  "record_audit x s = Inr t \<Longrightarrow> now t = now s"
  "record_engagement_event u k et ei d s = Inr (e, t) \<Longrightarrow> now t = now s"
  "add_transaction y s = Inr t \<Longrightarrow> now t = now s"
  "revoke_delivery u r s = Inr t \<Longrightarrow> now t = now s"
  by (auto dest!: touch)

lemma clock_points_frame:
  "grant_points a s = Inr (l, t) \<Longrightarrow> now t = now s"
  "spend_points a s = Inr (l, t) \<Longrightarrow> now t = now s"
  "reverse_points a s = Inr (l, t) \<Longrightarrow> now t = now s"
  by (auto dest!: points_touch)

lemma execute_approved_refund_cases:
  assumes "execute_approved_refund a c s = Inr (x, s')"
  obtains r s1 original event s2 ledger s3 s4 where
    "find (\<lambda>r. so_id r = apr_entity_id a) (shop_orders s) = Some r" "so_status r = ''completed''"
    "revoke_delivery (so_user_id r) r s = Inr s1"
    "get_ledger (the (so_point_ledger_id r)) s1 = Some original" "pl_amount original < 0"
    "record_engagement_event (so_user_id r) ''points_refunded'' ''admin_shop_refund''
       (so_id r @ '':'' @ apr_id a) [(''orderId'', JStr (so_id r)), (''points'', JInt (so_price_points r)),
         (''approvalId'', JStr (apr_id a))] s1 = Inr (event, s2)"
    "reverse_points (approved_refund_args a c r (ev_id event) (pl_id original)) s2 = Inr (ledger, s3)"
    "add_transaction (order_transaction (so_user_id r) ''refund'' (''approval:'' @ apr_id a) (so_price_points r)
       (pl_id ledger) s3) (draw s3) = Inr s4"
    "s' = set_order (so_id r) (\<lambda>x. x\<lparr>so_status := ''refunded'',
       so_refund_transaction_id := Some (pt_id (order_transaction (so_user_id r) ''refund''
         (''approval:'' @ apr_id a) (so_price_points r) (pl_id ledger) s3)),
       so_refunded_at := Some (now s4)\<rparr>) s4"
proof -
  obtain r where r: "find (\<lambda>r. so_id r = apr_entity_id a) (shop_orders s) = Some r" "so_status r = ''completed''"
    and pl: "present (so_point_ledger_id r)"
    using assms by (auto simp: execute_approved_refund_def split: option.splits if_splits)
  then have c0: "(so_status r \<noteq> ''completed'' \<or> \<not> present (so_point_ledger_id r)) = False" by simp
  note r0 = assms [unfolded execute_approved_refund_def r(1) option.case c0 if_False]
  obtain s1 where 1: "revoke_delivery (so_user_id r) r s = Inr s1"
    using r0 by (auto simp only: bindE_eq_Inr)
  note r1 = r0 [unfolded 1 bindE_Inr]
  obtain original where 2: "get_ledger (the (so_point_ledger_id r)) s1 = Some original" "pl_amount original < 0"
    using r1 by (auto simp: option_eq_Inr split: if_splits)
  then have neg: "(0 \<le> pl_amount original) = False" by simp
  note r2 = r1 [unfolded 2(1) option.case neg if_False]
  obtain event s2 where 3: "record_engagement_event (so_user_id r) ''points_refunded'' ''admin_shop_refund''
       (so_id r @ '':'' @ apr_id a) [(''orderId'', JStr (so_id r)), (''points'', JInt (so_price_points r)),
         (''approvalId'', JStr (apr_id a))] s1 = Inr (event, s2)"
    using r2 by (auto simp only: bindE_eq_Inr)
  note r3 = r2 [unfolded 3 bindE_Inr prod.case]
  obtain ledger s3 where
    4: "reverse_points (approved_refund_args a c r (ev_id event) (pl_id original)) s2 = Inr (ledger, s3)"
    using r3 by (auto simp only: bindE_eq_Inr)
  note r4 = r3 [unfolded 4 bindE_Inr prod.case Let_def]
  from r4 obtain s4 where
    "add_transaction (order_transaction (so_user_id r) ''refund'' (''approval:'' @ apr_id a) (so_price_points r)
       (pl_id ledger) s3) (draw s3) = Inr s4"
    "s' = set_order (so_id r) (\<lambda>x. x\<lparr>so_status := ''refunded'',
       so_refund_transaction_id := Some (pt_id (order_transaction (so_user_id r) ''refund''
         (''approval:'' @ apr_id a) (so_price_points r) (pl_id ledger) s3)),
       so_refunded_at := Some (now s4)\<rparr>) s4"
    by (auto simp: inr_simps)
  then show thesis by (rule that [OF r 1 2 3 4])
qed

lemma execute_approved_point_adjustment_cases:
  assumes "execute_approved_point_adjustment a c s = Inr (x, s')"
  obtains amount event s1 ledger s2 where
    "int_or_raise (jget (apr_payload a) ''amount'') = Inr amount" "amount \<noteq> 0" "is_fan (apr_entity_id a) s"
    "record_engagement_event (apr_entity_id a) ''points_adjusted'' ''approved_admin_point_adjustment''
       (apr_id a) [(''amount'', JInt amount), (''approvalId'', JStr (apr_id a))] s = Inr (event, s1)"
    "(if 0 < amount then grant_points (approved_grant_args a c amount (ev_id event)) s1
      else spend_points (approved_grant_args a c amount (ev_id event)) s1) = Inr (ledger, s2)"
    "add_transaction (order_transaction (apr_entity_id a) ''adjustment''
       (''approval:'' @ apr_id a) amount (pl_id ledger) s2) (draw s2) = Inr s'"
proof -
  obtain amount where 1: "int_or_raise (jget (apr_payload a) ''amount'') = Inr amount"
    using assms by (auto simp: execute_approved_point_adjustment_def bindE_eq_Inr)
  note r1 = assms [unfolded execute_approved_point_adjustment_def 1 bindE_Inr]
  from r1 have 2: "amount \<noteq> 0" "is_fan (apr_entity_id a) s" by (auto split: if_splits)
  then have c: "(amount = 0) = False" "(\<not> is_fan (apr_entity_id a) s) = False" by simp_all
  note r2 = r1 [unfolded c if_False Let_def]
  from r2 obtain event s1 where 3: "record_engagement_event (apr_entity_id a) ''points_adjusted''
      ''approved_admin_point_adjustment'' (apr_id a)
      [(''amount'', JInt amount), (''approvalId'', JStr (apr_id a))] s = Inr (event, s1)"
    by (auto simp only: bindE_eq_Inr)
  note r3 = r2 [unfolded 3 bindE_Inr prod.case]
  from r3 obtain ledger s2 where
    4: "(if 0 < amount then grant_points (approved_grant_args a c amount (ev_id event)) s1
      else spend_points (approved_grant_args a c amount (ev_id event)) s1) = Inr (ledger, s2)"
    by (auto simp only: bindE_eq_Inr)
  note r4 = r3 [unfolded 4 bindE_Inr prod.case]
  then show thesis by (intro that [OF 1 2 3 4]) (auto simp: inr_simps)
qed


text \<open>The points an execution moves, to whom.\<close>

definition execution_amount :: "approval_request \<Rightarrow> db \<Rightarrow> ident \<Rightarrow> int" where
  "execution_amount a s u =
    (if apr_kind a = ''refund_order'' then
       (case find (\<lambda>r. so_id r = apr_entity_id a) (shop_orders s) of
          Some r \<Rightarrow> if so_user_id r = u then so_price_points r else 0 | None \<Rightarrow> 0)
     else if apr_kind a = ''grant_points'' \<and> apr_entity_id a = u then
       (case int_or_raise (jget (apr_payload a) ''amount'') of Inr n \<Rightarrow> n | Inl e \<Rightarrow> 0)
     else 0)"

definition execution_keys :: "approval_request \<Rightarrow> string list" where
  "execution_keys a =
    [''approved_admin_adjustment:'' @ apr_id a, ''admin_shop_refund:'' @ apr_entity_id a]"

definition unexecuted :: "approval_request \<Rightarrow> db \<Rightarrow> bool" where
  "unexecuted a s \<longleftrightarrow> \<not> list_ex (\<lambda>l. pl_rule_key l \<in> set (execution_keys a)) (point_ledger s)"

lemma unexecuted_none: "unexecuted a s \<Longrightarrow> pa_rule_key b \<in> set (execution_keys a) \<Longrightarrow> find_args b s = None"
  by (auto simp: unexecuted_def find_args_def find_ledger_def find_None_iff list_ex_iff)

lemma refund_execution:
  assumes "execute_approved_refund a c s = Inr (x, s')" and "unexecuted a s"
  shows "(points_inv s \<longrightarrow> points_inv s') \<and> approval_requests s' = approval_requests s \<and>
    (\<exists>r. find (\<lambda>r. so_id r = apr_entity_id a) (shop_orders s) = Some r \<and>
      balance_of u s' = balance_of u s + (if so_user_id r = u then so_price_points r else 0))"
  using assms(1)
proof (cases rule: execute_approved_refund_cases)
  case (1 r s1 original event s2 ledger s3 s4)
  let ?b = "approved_refund_args a c r (ev_id event) (pl_id original)"
  have pts: "point_ledger s2 = point_ledger s" "point_balances s2 = point_balances s"
    "point_ledger s' = point_ledger s3" "point_balances s' = point_balances s3"
    using 1(3,6,8,9) by (auto dest!: touch)
  have "so_id r = apr_entity_id a" using 1(1) by (auto dest!: find_SomeD)
  then have "find_args ?b s2 = None"
    using assms(2) unfolding unexecuted_def
    by (intro unexecuted_none [of a]) (simp_all add: unexecuted_def pts execution_keys_def approved_refund_args_def)
  with 1(7) have post: "posted ledger s2 s3" "pl_amount ledger = so_price_points r" "pl_user_id ledger = so_user_id r"
    by (auto elim!: reverse_points_cases simp: approved_refund_args_def)
  have "points_inv s \<longrightarrow> points_inv s'"
    using writers_keep(3) [OF 1(7)] by (simp add: pts)
  moreover have "approval_requests s' = approval_requests s"
    using 1(3,6,7,8,9) by (simp add: approvals_frame approvals_points_frame set_order_def)
  moreover have "balance_of u s' = balance_of u s + (if so_user_id r = u then so_price_points r else 0)"
    using posted_balance [OF post(1), of u] post(2,3) by (simp add: pts)
  ultimately show ?thesis using 1(1) by blast
qed

lemma adjustment_execution:
  assumes "execute_approved_point_adjustment a c s = Inr (x, s')" and "unexecuted a s"
  shows "(points_inv s \<longrightarrow> points_inv s') \<and> approval_requests s' = approval_requests s \<and>
    (\<exists>n. int_or_raise (jget (apr_payload a) ''amount'') = Inr n \<and>
      balance_of u s' = balance_of u s + (if apr_entity_id a = u then n else 0))"
  using assms(1)
proof (cases rule: execute_approved_point_adjustment_cases)
  case (1 amount event s1 ledger s2)
  let ?b = "approved_grant_args a c amount (ev_id event)"
  have pts: "point_ledger s1 = point_ledger s" "point_balances s1 = point_balances s"
    "point_ledger s' = point_ledger s2" "point_balances s' = point_balances s2"
    using 1(4,6) by (auto dest!: touch)
  have "find_args ?b s1 = None"
    using assms(2) by (intro unexecuted_none [of a]) (simp_all add: unexecuted_def pts execution_keys_def approved_grant_args_def)
  with 1(2,5) have post: "posted ledger s1 s2" "pl_amount ledger = amount" "pl_user_id ledger = apr_entity_id a"
    by (auto elim!: grant_points_cases spend_points_cases simp: approved_grant_args_def split: if_splits)
  have "points_inv s1 \<Longrightarrow> points_inv s2"
    using 1(5) writers_keep(1,2) by (metis (full_types))
  then have "points_inv s \<longrightarrow> points_inv s'" by (simp add: pts)
  moreover have "approval_requests s' = approval_requests s"
    using 1(4-6) by (auto simp: approvals_frame approvals_points_frame split: if_splits)
  moreover have "balance_of u s' = balance_of u s + (if apr_entity_id a = u then amount else 0)"
    using posted_balance [OF post(1), of u] post(2,3) by (simp add: pts)
  ultimately show ?thesis using 1(1) by blast
qed

lemma execution_effect:
  assumes "execute_approval a c s = Inr (x, s')" and "unexecuted a s"
  shows "(points_inv s \<longrightarrow> points_inv s') \<and> approval_requests s' = approval_requests s \<and>
    balance_of u s' = balance_of u s + execution_amount a s u"
proof (cases "apr_kind a = ''refund_order''")
  case True
  with assms(1) obtain y where "execute_approved_refund a c s = Inr (y, s')"
    by (auto simp: execute_approval_def bindE_eq_Inr)
  from refund_execution [OF this assms(2), of u] True show ?thesis
    by (auto simp: execution_amount_def)
next
  case refund: False
  show ?thesis
  proof (cases "apr_kind a = ''grant_points''")
    case True
    with assms(1) obtain y where "execute_approved_point_adjustment a c s = Inr (y, s')"
      by (auto simp: execute_approval_def bindE_eq_Inr)
    from adjustment_execution [OF this assms(2), of u] True show ?thesis
      by (auto simp: execution_amount_def)
  next
    case False
    with refund assms(1) show ?thesis by (simp add: execute_approval_def execution_amount_def)
  qed
qed

lemma approve_cases:
  assumes "approve_admin_approval i c s = Inr (reply, s')"
  obtains (Replayed) a where "get_approval i s = Some a" "apr_status a \<noteq> ''pending''"
      "reply = ApprovalReplayed a" "s' = s"
  | (Decided) a x s1 s3 where "get_approval i s = Some a" "apr_id a = i" "apr_status a = ''pending''"
      "require_approval_permission c (apr_kind a) = Inr ()" "apr_requested_by a \<noteq> u_id (ctx_user c)"
      "execute_approval a c s = Inr (x, s1)"
      "s3 = (if apr_kind a = ''product_publish''
        then set_product (apr_entity_id a) (\<lambda>p. p\<lparr>sp_status := ''published''\<rparr>)
          (set_approval i (decided ''approved'' c (now s1)) s1)
        else set_approval i (decided ''approved'' c (now s1)) s1)"
      "record_audit (approval_audit c ''approval.approved'' a [(''approvalId'', JStr (apr_id a))]) s3 = Inr s'"
      "reply = ApprovalDecided (decided ''approved'' c (now s1) a) x"
proof -
  from assms obtain a where a: "get_approval i s = Some a"
    by (auto simp: approve_admin_approval_def split: option.splits)
  then have id: "apr_id a = i" by (auto simp: get_approval_def dest!: find_SomeD)
  note r1 = assms [unfolded approve_admin_approval_def a option.case]
  from r1 obtain y where p: "require_approval_permission c (apr_kind a) = Inr y"
    by (auto simp only: bindE_eq_Inr)
  note r2 = r1 [unfolded p bindE_Inr]
  show thesis
  proof (cases "apr_status a = ''pending''")
    case False
    with r2 a show thesis by (auto intro: Replayed)
  next
    case True
    with r2 have n: "apr_requested_by a \<noteq> u_id (ctx_user c)" by (auto split: if_splits)
    with True r2 show thesis using a id p by (auto simp: bindE_eq_Inr Let_def intro!: Decided)
  qed
qed


lemma execution_frame:
  assumes "execute_approval a c s = Inr (x, s')"
  shows "approval_requests s' = approval_requests s \<and> now s' = now s"
proof -
  have "approval_requests s' = approval_requests s \<and> now s' = now s"
    if "execute_approved_refund a c s = Inr (y, s')" for y
    using that
  proof (cases rule: execute_approved_refund_cases)
    case (1 r s1 original event s2 ledger s3 s4)
    then show ?thesis
      by (simp add: approvals_frame approvals_points_frame clock_frame clock_points_frame set_order_def)
  qed
  moreover have "approval_requests s' = approval_requests s \<and> now s' = now s"
    if "execute_approved_point_adjustment a c s = Inr (y, s')" for y
    using that by (cases rule: execute_approved_point_adjustment_cases)
      (auto simp: approvals_frame approvals_points_frame clock_frame clock_points_frame split: if_splits)
  ultimately show ?thesis using assms by (auto simp: execute_approval_def bindE_eq_Inr split: if_splits)
qed

lemma get_set_approval:
  assumes "get_approval i s = Some a" and "\<And>x. apr_id (f x) = apr_id x"
  shows "get_approval i (set_approval i f s) = Some (f a)"
proof -
  have "apr_id a = i" using assms(1) by (auto simp: get_approval_def dest!: find_SomeD)
  moreover have "get_approval i (set_approval i f s) =
      map_option (\<lambda>x. if apr_id x = i then f x else x) (get_approval i s)"
    unfolding get_approval_def set_approval_def by (simp add: find_update_where assms(2))
  ultimately show ?thesis using assms(1) by simp
qed

lemma decided_sel [simp]:
  "apr_id (decided st c t a) = apr_id a" "apr_kind (decided st c t a) = apr_kind a"
  "apr_status (decided st c t a) = st" "apr_approved_by (decided st c t a) = Some (u_id (ctx_user c))"
  by (simp_all add: decided_def)

section \<open>Properties\<close>

text \<open>C7. Dual control: a request is approved only while pending, by an administrator who did not make
  it and whose access level may approve it (root or a platform operator for refunds and point
  grants); the approval is recorded under that administrator, and approving or rejecting the
  request again changes nothing.\<close>

theorem approval_dual_control:
  assumes "approve_admin_approval i c s = Inr (ApprovalDecided item x, s')" and "context_ok c s"
  shows "\<exists>a. get_approval i s = Some a \<and> apr_status a = ''pending'' \<and>
    apr_requested_by a \<noteq> u_id (ctx_user c) \<and>
    (\<not> executes (apr_kind a) \<or> am_access_level (ctx_membership c) \<in> {''root'', ''platform_operator''}) \<and>
    get_approval i s' = Some item \<and> item = decided ''approved'' c (now s) a \<and>
    approve_admin_approval i c2 s' \<in> {Inl (AppError 403 ''ADMIN_ROOT_REQUIRED''),
      Inl (AppError 403 ''ADMIN_WRITE_REQUIRED''), Inr (ApprovalReplayed item, s')} \<and>
    reject_admin_approval i reason c2 s' \<in> {Inl (AppError 403 ''ADMIN_ROOT_REQUIRED''),
      Inl (AppError 403 ''ADMIN_WRITE_REQUIRED''), Inr (ApprovalReplayed item, s')}"
  using assms(1)
proof (cases rule: approve_cases)
  case (Decided a x s1 s3)
  have "executes (apr_kind a) \<Longrightarrow> ''engagement:approve_global'' \<in> set (allowed_actions (am_access_level (ctx_membership c)))"
    using Decided(4) assms(2) by (auto simp: require_approval_permission_def guard_Inr context_ok_def Let_def)
  then have level: "\<not> executes (apr_kind a) \<or> am_access_level (ctx_membership c) \<in> {''root'', ''platform_operator''}"
    by (auto simp: approver_levels)
  have now: "now s1 = now s" using execution_frame [OF Decided(6)] by simp
  have item: "item = decided ''approved'' c (now s1) a" using Decided(9) by simp
  have "get_approval i s1 = Some a" using execution_frame [OF Decided(6)] Decided(1) by (simp add: get_approval_def)
  then have "get_approval i (set_approval i (decided ''approved'' c (now s1)) s1) = Some item"
    unfolding item by (rule get_set_approval) simp
  then have "get_approval i s3 = Some item"
    by (simp add: Decided(7) get_approval_def set_product_def)
  then have got: "get_approval i s' = Some item"
    using approvals_frame(1) [OF Decided(8)] by (simp add: get_approval_def)
  have "apr_status item \<noteq> ''pending''" by (simp add: item)
  then have "approve_admin_approval i c2 s' \<in> {Inl (AppError 403 ''ADMIN_ROOT_REQUIRED''),
      Inl (AppError 403 ''ADMIN_WRITE_REQUIRED''), Inr (ApprovalReplayed item, s')}"
    "reject_admin_approval i reason c2 s' \<in> {Inl (AppError 403 ''ADMIN_ROOT_REQUIRED''),
      Inl (AppError 403 ''ADMIN_WRITE_REQUIRED''), Inr (ApprovalReplayed item, s')}"
    by (simp_all add: approve_admin_approval_def reject_admin_approval_def got
        require_approval_permission_def require_action_def)
  with Decided(1,3,5) level got item now show ?thesis by simp
qed simp

text \<open>What an approval moves: approving a request that was not executed before pays a refunded
  order's price back to the fan who bought it, or moves the approved amount on the fan's
  balance, and nothing else; the point ledger stays consistent.\<close>

theorem approved_execution_exact:
  assumes "approve_admin_approval i c s = Inr (ApprovalDecided item x, s')"
    and "get_approval i s = Some a" and "unexecuted a s" and "points_inv s"
  shows "points_inv s' \<and> balance_of u s' = balance_of u s + execution_amount a s u"
  using assms(1)
proof (cases rule: approve_cases)
  case (Decided b x s1 s3)
  with assms(2) have [simp]: "b = a" by simp
  have "point_ledger s3 = point_ledger s1 \<and> point_balances s3 = point_balances s1"
    by (simp add: Decided(7) set_approval_def set_product_def)
  then have "point_ledger s' = point_ledger s1 \<and> point_balances s' = point_balances s1"
    using Decided(8) by (auto dest!: touch)
  with execution_effect [of a c s x s1 u] Decided(6) assms(3,4) show ?thesis by simp
qed simp


text \<open>A fan's ticket and the operator's request to grant 50 points, on the database of the shop.\<close>

definition desk_db :: db where
  "desk_db = shop_db\<lparr>users := a_fan ''ann'' # users admin_db,
     organizations := organizations admin_db, admin_memberships := admin_memberships admin_db,
     support_tickets := [\<lparr>st_id = ''t1'', st_user_id = ''ann'', st_category = ''order'', st_subject = [],
       st_target_type = None, st_target_id = None, st_status = ''open'', st_assigned_admin_id = None,
       st_created_at = 0, st_closed_at = None\<rparr>]\<rparr>"

definition context_of :: "ident \<Rightarrow> admin_context" where
  "context_of i = projr (load_admin_context (an_admin i) desk_db)"

definition grant_request :: ticket_action where
  "grant_request = \<lparr>act_action = ''grant_points'', act_reference = Some ''ann'', act_note = None,
     act_amount = Some 50\<rparr>"

definition requested_db :: db where
  "requested_db = snd (projr (act_on_support_ticket (context_of ''ed'') ''t1'' grant_request desk_db))"

definition request_id :: ident where
  "request_id = apr_id (hd (approval_requests requested_db))"

lemma operator_ok: "context_ok (context_of ''olga'') requested_db"
proof -
  have "load_admin_context (an_admin ''olga'') desk_db = Inr (context_of ''olga'')" by code_simp
  moreover have "admin_memberships requested_db = admin_memberships desk_db" by code_simp
  moreover have "am_access_level (ctx_membership (context_of ''olga'')) = ''platform_operator''" by code_simp
  ultimately show ?thesis using load_admin_context_ok [of "an_admin ''olga''" desk_db "context_of ''olga''"]
    by (simp add: context_ok_def Let_def)
qed

lemma operator_approves:
  obtains item x s' where
    "approve_admin_approval request_id (context_of ''olga'') requested_db = Inr (ApprovalDecided item x, s')"
proof -
  have "case approve_admin_approval request_id (context_of ''olga'') requested_db of Inl e \<Rightarrow> False
    | Inr (reply, s') \<Rightarrow> (case reply of ApprovalReplayed a \<Rightarrow> False | ApprovalDecided a x \<Rightarrow> True)" by code_simp
  then obtain reply s' where r: "approve_admin_approval request_id (context_of ''olga'') requested_db = Inr (reply, s')"
    and "case reply of ApprovalReplayed a \<Rightarrow> False | ApprovalDecided a x \<Rightarrow> True"
    by (auto simp: case_Inr_iff)
  then show thesis by (cases reply) (auto intro: that)
qed

theorem approval_dual_control_witness:
  "\<exists>item x s'. approve_admin_approval request_id (context_of ''olga'') requested_db =
      Inr (ApprovalDecided item x, s') \<and> get_approval request_id s' = Some item \<and>
    approve_admin_approval request_id (context_of ''root'') s' \<in> {Inl (AppError 403 ''ADMIN_ROOT_REQUIRED''),
      Inl (AppError 403 ''ADMIN_WRITE_REQUIRED''), Inr (ApprovalReplayed item, s')}"
proof -
  obtain item x s' where
    r: "approve_admin_approval request_id (context_of ''olga'') requested_db = Inr (ApprovalDecided item x, s')"
    by (rule operator_approves)
  from approval_dual_control [OF r operator_ok] r show ?thesis by blast
qed

theorem approved_execution_exact_witness:
  "\<exists>item x s'. approve_admin_approval request_id (context_of ''olga'') requested_db =
      Inr (ApprovalDecided item x, s') \<and> balance_of ''ann'' s' = 550"
proof -
  obtain item x s' where
    r: "approve_admin_approval request_id (context_of ''olga'') requested_db = Inr (ApprovalDecided item x, s')"
    by (rule operator_approves)
  have c: "case get_approval request_id requested_db of None \<Rightarrow> False
    | Some a \<Rightarrow> unexecuted a requested_db \<and> execution_amount a requested_db ''ann'' = 50"
    and l: "point_ledger requested_db = point_ledger wallet_db"
      "point_balances requested_db = point_balances wallet_db"
    and b: "balance_of ''ann'' requested_db = 500" by code_simp+
  from c obtain a where a: "get_approval request_id requested_db = Some a" "unexecuted a requested_db"
    "execution_amount a requested_db ''ann'' = 50" by (auto split: option.splits)
  have "points_inv requested_db" using wallet_db_inv by (simp add: l)
  from approved_execution_exact [OF r a(1,2) this, of "''ann''"] r a(3) b show ?thesis by auto
qed

text \<open>
  Requests other than refunds and grants need only \<open>audit:read\<close> on both sides, which every
  partner viewer has: two viewers publish any product, whichever artist it belongs to.
\<close>

lemma viewers_publish:
  "let vic = context_of ''vic''; vera = vic\<lparr>ctx_user := an_admin ''vera''\<rparr>;
       draft = desk_db\<lparr>shop_products := [pack_product\<lparr>sp_status := ''draft''\<rparr>]\<rparr>
   in case create_admin_approval vic ''product_publish'' ''shop_product'' ''p1'' [] None draft of
        Inl e \<Rightarrow> False
      | Inr (_, s1) \<Rightarrow>
          (case approve_admin_approval (apr_id (hd (approval_requests s1))) vera s1 of
             Inl e \<Rightarrow> False
           | Inr (_, s2) \<Rightarrow> map sp_status (shop_products s2) = [''published''])"
  by code_simp

text \<open>
  The kinds a request may name (\<open>points_adjustment\<close>, \<open>shop_refund\<close>) are not the kinds
  an approval executes (\<open>grant_points\<close>, \<open>refund_order\<close>): approving them moves nothing.
\<close>

lemma named_kinds_execute_nothing:
  "kind \<in> {''points_adjustment'', ''shop_refund'', ''product_publish'', ''odds_change''} \<Longrightarrow>
    execute_approval (a\<lparr>apr_kind := kind\<rparr>) c s = Inr (None, s)"
  by (auto simp: execute_approval_def)

end
