(* ===== verification/Combinations.thy ===== *)
theory Combinations
  imports Access Trades Shop
begin

text \<open>
  Card combinations (\<open>backend/app/routers/combinations.py\<close>): the recipe of a card pack, the
  weighted draw, and the consumption of a fan's copies for a new one. Probabilities are exact
  rationals; the draw of \<open>SystemRandom().uniform\<close> is an argument.
\<close>

section \<open>Recipes\<close>

definition get_pack :: "ident \<Rightarrow> db \<Rightarrow> card_pack option" where
  "get_pack i s = find (\<lambda>p. cp_id p = i) (card_packs s)"

definition get_recipe :: "ident \<Rightarrow> db \<Rightarrow> card_combination_recipe option" where
  "get_recipe i s = find (\<lambda>r. ccr_id r = i) (card_combination_recipes s)"

definition pack_links :: "ident \<Rightarrow> db \<Rightarrow> card_pack_card list" where
  "pack_links i s = filter (\<lambda>l. cpc_pack_id l = i \<and> cpc_enabled l) (card_pack_cards s)"

definition linked_cards :: "card_pack_card list \<Rightarrow> db \<Rightarrow> card_row list" where
  "linked_cards links s = filter (\<lambda>c. c_id c \<in> set (map cpc_card_id links)) (cards s)"

definition odds :: "card_combination_recipe \<Rightarrow> card_row list \<Rightarrow> (ident \<times> string \<times> string option \<times> rat) list" where
  "odds r cs = concat (map (\<lambda>(i, p). case find (\<lambda>c. c_id c = i) cs of
     None \<Rightarrow> [] | Some c \<Rightarrow> [(i, c_name c, c_rarity c, p)]) (ccr_probability_snapshot r))"

definition recipe_context ::
  "ident \<Rightarrow> db \<Rightarrow> exn + card_combination_recipe \<times> card_pack \<times> card_pack_card list \<times> card_row list" where
  "recipe_context i s =
    (case get_recipe i s of
       None \<Rightarrow> Inl (AppError 404 ''CARD_COMBINATION_RECIPE_NOT_FOUND'')
     | Some r \<Rightarrow>
    if ccr_status r \<noteq> ''published'' then Inl (AppError 404 ''CARD_COMBINATION_RECIPE_NOT_FOUND'')
    else if ccr_scope_type r \<noteq> ''card_pack'' then Inl (AppError 422 ''CARD_COMBINATION_SCOPE_UNSUPPORTED'')
    else
      (case get_pack (ccr_scope_id r) s of
         None \<Rightarrow> Inl (AppError 409 ''CARD_COMBINATION_PACK_UNAVAILABLE'')
       | Some pack \<Rightarrow>
           if cp_status pack \<noteq> ''published'' then Inl (AppError 409 ''CARD_COMBINATION_PACK_UNAVAILABLE'')
           else let links = pack_links (cp_id pack) s in Inr (r, pack, links, linked_cards links s)))"

definition clash_recipe :: "card_combination_recipe \<Rightarrow> card_combination_recipe \<Rightarrow> bool" where
  "clash_recipe r x \<longleftrightarrow> ccr_id x = ccr_id r \<or>
    (ccr_scope_type x = ccr_scope_type r \<and> ccr_scope_id x = ccr_scope_id r)"

record recipe_payload =
  rp_scope_type :: string
  rp_scope_id :: ident
  rp_input_quantity :: int
  rp_output_rarity_pool :: "string list"
  rp_probability_snapshot :: "(ident \<times> rat) list"

definition eligible_results :: "recipe_payload \<Rightarrow> card_row list \<Rightarrow> ident list" where
  "eligible_results p cs = map c_id (filter (\<lambda>c. c_status c = ''published'' \<and> c_issue_limit c = None \<and>
    (\<exists>x \<in> set (rp_output_rarity_pool p). c_rarity c = Some x)) cs)"

definition create_combination_recipe ::
  "admin_context \<Rightarrow> recipe_payload \<Rightarrow> db \<Rightarrow> exn + card_combination_recipe \<times> db" where
  "create_combination_recipe c p s =
    bindE (if is_root c then Inr () else require_action ''cards:write'' c) (\<lambda>_.
    bindE (require_write c) (\<lambda>_.
    case get_pack (rp_scope_id p) s of
      None \<Rightarrow> Inl (AppError 404 ''CARD_PACK_NOT_FOUND'')
    | Some pack \<Rightarrow>
    bindE (require_artist (Some (cp_artist_id pack)) c) (\<lambda>_.
    let eligible = eligible_results p (linked_cards (pack_links (cp_id pack) s) s);
        total = sum_list (map snd (rp_probability_snapshot p))
    in if \<not> list_all (\<lambda>(i, _). i \<in> set eligible) (rp_probability_snapshot p)
       then Inl (AppError 422 ''CARD_COMBINATION_RESULT_NOT_ELIGIBLE'')
       else if 1 / 1000 < \<bar>total - 100\<bar> \<or> list_ex (\<lambda>(_, v). v \<le> 0) (rp_probability_snapshot p)
       then Inl (AppError 422 ''INVALID_COMBINATION_ODDS'')
       else if list_ex (\<lambda>r. ccr_scope_type r = rp_scope_type p \<and> ccr_scope_id r = rp_scope_id p)
           (card_combination_recipes s)
       then Inl (AppError 409 ''CARD_COMBINATION_RECIPE_EXISTS'')
       else
         let r = \<lparr>ccr_id = new_id ''recipe_'' s, ccr_scope_type = rp_scope_type p,
               ccr_scope_id = rp_scope_id p, ccr_input_quantity = rp_input_quantity p,
               ccr_output_rarity_pool = rp_output_rarity_pool p,
               ccr_probability_snapshot = rp_probability_snapshot p,
               ccr_probability_version = cp_version pack @ '':combination-1'', ccr_status = ''published''\<rparr>
         in bindE (insert_row clash_recipe r (card_combination_recipes s)) (\<lambda>rows.
            bindE (record_audit
                \<lparr>au_actor_user_id = Some (u_id (ctx_user c)), au_action = ''card_combination_recipe.created'',
                 au_entity_type = ''card_combination_recipe'', au_entity_id = ccr_id r,
                 au_organization_id = am_organization_id (ctx_membership c),
                 au_artist_id = Some (cp_artist_id pack),
                 au_details = [(''scopeId'', JStr (cp_id pack)), (''inputQuantity'', JInt (ccr_input_quantity r))]\<rparr>
                ((draw s)\<lparr>card_combination_recipes := rows\<rparr>)) (\<lambda>s1. Inr (r, s1))))))"

definition get_pack_combination :: "ident \<Rightarrow> db \<Rightarrow> exn + ident \<times> (ident \<times> string \<times> string option \<times> rat) list" where
  "get_pack_combination pack_id s =
    (case find (\<lambda>r. ccr_scope_type r = ''card_pack'' \<and> ccr_scope_id r = pack_id \<and> ccr_status r = ''published'')
        (card_combination_recipes s) of
       None \<Rightarrow> Inl (AppError 404 ''CARD_COMBINATION_RECIPE_NOT_FOUND'')
     | Some r \<Rightarrow> bindE (recipe_context (ccr_id r) s) (\<lambda>(r, pack, _, cs). Inr (ccr_id r, odds r cs)))"

section \<open>Combining\<close>

definition used_as_material :: "ident list \<Rightarrow> db \<Rightarrow> bool" where
  "used_as_material ids s \<longleftrightarrow> list_ex (\<lambda>m. ccm_user_card_id m \<in> set ids) (card_combination_materials s)"

text \<open>The fan's copies among the requested ones, in table order.\<close>

definition owned_materials :: "ident \<Rightarrow> ident list \<Rightarrow> db \<Rightarrow> user_card list" where
  "owned_materials u ids s = filter (\<lambda>x. uc_id x \<in> set ids \<and> uc_user_id x = u) (user_cards s)"

definition preview_card_combination ::
  "ident \<Rightarrow> ident \<Rightarrow> ident list \<Rightarrow> db \<Rightarrow> exn + (ident \<times> string \<times> string option \<times> rat) list" where
  "preview_card_combination u recipe_id ids s =
    bindE (recipe_context recipe_id s) (\<lambda>(r, pack, links, cs).
    let materials = owned_materials u ids s
    in if int (length ids) \<noteq> ccr_input_quantity r then Inl (AppError 422 ''CARD_COMBINATION_QUANTITY_INVALID'')
       else if length materials \<noteq> length (remdups ids) \<or>
           list_ex (\<lambda>x. uc_card_id x \<notin> set (map cpc_card_id links)) materials
       then Inl (AppError 422 ''CARD_COMBINATION_SCOPE_MISMATCH'')
       else if used_as_material ids s then Inl (AppError 409 ''CARD_COMBINATION_MATERIAL_UNAVAILABLE'')
       else Inr (odds r cs))"

fun pick_key :: "rat \<Rightarrow> rat \<Rightarrow> ('k \<times> rat) list \<Rightarrow> 'k option" where
  "pick_key target cursor [] = None"
| "pick_key target cursor ((k, p) # xs) =
    (if target \<le> cursor + p then Some k else pick_key target (cursor + p) xs)"

text \<open>The first key whose cumulated weight reaches the target; the last key when none does.\<close>

definition weighted_choice :: "rat \<Rightarrow> ('k \<times> rat) list \<Rightarrow> 'k" where
  "weighted_choice target ps = (case pick_key target 0 ps of Some k \<Rightarrow> k | None \<Rightarrow> fst (last ps))"

definition clash_combination :: "card_combination \<Rightarrow> card_combination \<Rightarrow> bool" where
  "clash_combination r x \<longleftrightarrow> cc_id x = cc_id r \<or>
    (cc_idempotency_key r \<noteq> None \<and> cc_user_id x = cc_user_id r \<and> cc_idempotency_key x = cc_idempotency_key r)"

definition clash_material :: "card_combination_material \<Rightarrow> card_combination_material \<Rightarrow> bool" where
  "clash_material r x \<longleftrightarrow> ccm_id x = ccm_id r \<or> ccm_user_card_id x = ccm_user_card_id r"

definition consume_material :: "card_combination \<Rightarrow> user_card \<Rightarrow> db \<Rightarrow> exn + db" where
  "consume_material r x s =
    bindE (insert_row clash_material
        \<lparr>ccm_id = new_id ''combination_material_'' s, ccm_combination_id = cc_id r,
         ccm_user_card_id = uc_id x, ccm_card_id = uc_card_id x\<rparr> (card_combination_materials s)) (\<lambda>rows.
    bindE (append_ownership_ledger
        \<lparr>ow_user_card_id = uc_id x, ow_user_id = cc_user_id r, ow_card_id = uc_card_id x,
         ow_action = ''consume'', ow_source_type = ''card_combination'',
         ow_source_id = cc_id r @ '':'' @ uc_id x, ow_from_user_id = None, ow_to_user_id = None,
         ow_metadata = [(''recipeId'', JStr (cc_recipe_id r))], ow_created_at = None\<rparr>
        ((draw s)\<lparr>card_combination_materials := rows\<rparr>)) (\<lambda>(_, s1). Inr s1))"

definition combination_grant_args :: "card_combination \<Rightarrow> card_pack \<Rightarrow> card_grant_args" where
  "combination_grant_args r pack =
    \<lparr>cg_user_id = cc_user_id r, cg_card_id = cc_result_card_id r, cg_source_type = ''card_combination'',
     cg_source_id = cc_id r, cg_acquisition_source = ''combination'',
     cg_metadata = [(''recipeId'', JStr (cc_recipe_id r)), (''packId'', JStr (cp_id pack)),
       (''probabilityVersion'', JStr (cc_probability_version r))],
     cg_redeem_code_id = None, cg_drop_id = None\<rparr>"

text \<open>
  The writes of a combination. The name of the result is looked up among the pack's cards
  for the notification, which raises \<open>KeyError\<close> when the recipe names another card.
\<close>

definition book_combination ::
  "card_combination \<Rightarrow> card_pack \<Rightarrow> user_card list \<Rightarrow> card_row list \<Rightarrow> db \<Rightarrow> exn + card_combination \<times> db" where
  "book_combination r pack materials cs s =
    bindE (insert_row clash_combination r (card_combinations s)) (\<lambda>rows.
    bindE (foldE (consume_material r) materials ((draw s)\<lparr>card_combinations := rows\<rparr>)) (\<lambda>s1.
    bindE (grant_user_card (combination_grant_args r pack) s1) (\<lambda>(uc, s2).
    let s3 = s2\<lparr>card_combinations := update_where (\<lambda>x. cc_id x = cc_id r)
          (\<lambda>x. x\<lparr>cc_result_user_card_id := Some (uc_id uc)\<rparr>) (card_combinations s2)\<rparr>
    in bindE (record_engagement_event (cc_user_id r) ''card_combined'' ''card_combination'' (cc_id r)
          [(''combinationId'', JStr (cc_id r)), (''recipeId'', JStr (cc_recipe_id r)),
           (''packId'', JStr (cp_id pack)), (''cardId'', JStr (cc_result_card_id r)),
           (''artistId'', JStr (cp_artist_id pack))] s3) (\<lambda>(event, s4).
       if \<not> list_ex (\<lambda>c. c_id c = cc_result_card_id r) cs then Inl KeyError
       else
         bindE (notify_user_once (cc_user_id r) ''card_combined'' ''user_card'' (uc_id uc)
             (''combination:'' @ cc_id r) s4) (\<lambda>s5.
         Inr (r\<lparr>cc_result_user_card_id := Some (uc_id uc)\<rparr>, s5))))))"

definition combine_cards ::
  "ident \<Rightarrow> ident \<Rightarrow> ident list \<Rightarrow> string option \<Rightarrow> rat \<Rightarrow> db \<Rightarrow> exn + card_combination \<times> db" where
  "combine_cards u recipe_id ids header target s =
    (case (if present header
           then find (\<lambda>r. cc_user_id r = u \<and> cc_idempotency_key r = header) (card_combinations s)
           else None) of
       Some existing \<Rightarrow> Inr (existing, s)
     | None \<Rightarrow>
    bindE (recipe_context recipe_id s) (\<lambda>(r, pack, links, cs).
    let materials = owned_materials u ids s
    in if int (length ids) \<noteq> ccr_input_quantity r then Inl (AppError 422 ''CARD_COMBINATION_QUANTITY_INVALID'')
       else if \<not> distinct ids then Inl (AppError 422 ''CARD_COMBINATION_DUPLICATE_MATERIAL'')
       else if length materials \<noteq> length ids \<or>
           list_ex (\<lambda>x. uc_card_id x \<notin> set (map cpc_card_id links)) materials
       then Inl (AppError 422 ''CARD_COMBINATION_SCOPE_MISMATCH'')
       else if used_as_material ids s then Inl (AppError 409 ''CARD_COMBINATION_MATERIAL_UNAVAILABLE'')
       else
         book_combination
           \<lparr>cc_id = new_id ''combination_'' s, cc_user_id = u, cc_recipe_id = ccr_id r,
            cc_result_card_id = weighted_choice target (ccr_probability_snapshot r),
            cc_result_user_card_id = None, cc_material_user_card_ids = ids,
            cc_probability_version = ccr_probability_version r, cc_idempotency_key = header,
            cc_status = ''completed''\<rparr> pack materials cs s))"

section \<open>Lemmas\<close>

text \<open>The draw follows the weights.\<close>

lemma pick_key_nth:
  assumes "k < length ps" and "list_all (\<lambda>(_, p). 0 \<le> p) ps"
    and "c + sum_list (map snd (take k ps)) < r" and "r \<le> c + sum_list (map snd (take (Suc k) ps))"
  shows "pick_key r c ps = Some (fst (ps ! k))"
  using assms
proof (induction ps arbitrary: c k)
  case (Cons x xs)
  obtain a p where x: "x = (a, p)" by (cases x)
  show ?case
  proof (cases k)
    case 0
    with Cons.prems show ?thesis by (simp add: x)
  next
    case (Suc m)
    have "0 \<le> sum_list (map snd (take m xs))"
      using Cons.prems(2) by (intro sum_list_nonneg) (auto simp: list_all_iff x dest!: in_set_takeD)
    with Cons.prems Suc show ?thesis by (auto simp: x Cons.IH add.assoc)
  qed
qed simp

lemma weighted_choice_in: "ps \<noteq> [] \<Longrightarrow> weighted_choice r ps \<in> fst ` set ps"
proof -
  assume "ps \<noteq> []"
  have "pick_key r c ps = Some k \<Longrightarrow> k \<in> fst ` set ps" for c k
    by (induction ps arbitrary: c) (fastforce split: if_splits)+
  with \<open>ps \<noteq> []\<close> show ?thesis by (auto simp: weighted_choice_def split: option.splits)
qed


lemma consume_material_touch:
  assumes "consume_material r x s = Inr t"
  shows "\<exists>ms es n. t = s\<lparr>card_combination_materials := ms, ownership_ledger := es, drawn := n\<rparr>"
    and "uc_id x \<in> ccm_user_card_id ` set (card_combination_materials t)"
    and "set (card_combination_materials s) \<subseteq> set (card_combination_materials t)"
    and "list_all (\<lambda>e. e \<in> set (ownership_ledger s) \<or> ol_action e = ''consume'') (ownership_ledger t)"
proof -
  define m where "m = \<lparr>ccm_id = new_id ''combination_material_'' s, ccm_combination_id = cc_id r,
         ccm_user_card_id = uc_id x, ccm_card_id = uc_card_id x\<rparr>"
  from assms obtain e where t: "t = (draw ((draw s)\<lparr>card_combination_materials := card_combination_materials s @ [m]\<rparr>))
      \<lparr>ownership_ledger := ownership_ledger s @ [e]\<rparr>" and e: "ol_action e = ''consume''"
    by (auto simp: consume_material_def inr_simps append_ownership_ledger_eq m_def)
  have "t = s\<lparr>card_combination_materials := card_combination_materials t, ownership_ledger := ownership_ledger t,
      drawn := drawn t\<rparr>"
    by (simp add: t draw_def)
  then show "\<exists>ms es n. t = s\<lparr>card_combination_materials := ms, ownership_ledger := es, drawn := n\<rparr>"
    by blast
  show "uc_id x \<in> ccm_user_card_id ` set (card_combination_materials t)"
    "set (card_combination_materials s) \<subseteq> set (card_combination_materials t)"
    "list_all (\<lambda>e. e \<in> set (ownership_ledger s) \<or> ol_action e = ''consume'') (ownership_ledger t)"
    by (auto simp: t m_def e list_all_iff)
qed

lemma consume_materials:
  assumes "foldE (consume_material r) xs s = Inr t"
  shows "user_cards t = user_cards s \<and> cards t = cards s \<and>
    uc_id ` set xs \<subseteq> ccm_user_card_id ` set (card_combination_materials t) \<and>
    set (card_combination_materials s) \<subseteq> set (card_combination_materials t) \<and>
    list_all (\<lambda>e. e \<in> set (ownership_ledger s) \<or> ol_action e = ''consume'') (ownership_ledger t)"
  using assms
proof (induction xs arbitrary: s)
  case Nil
  then show ?case by (simp add: list_all_iff)
next
  case (Cons x xs)
  then obtain s1 where 1: "consume_material r x s = Inr s1" and 2: "foldE (consume_material r) xs s1 = Inr t"
    by (auto simp: bindE_eq_Inr)
  note IH = Cons.IH [OF 2] and c = consume_material_touch [OF 1]
  from c(1) have "user_cards s1 = user_cards s" "cards s1 = cards s" by auto
  moreover have "uc_id x \<in> ccm_user_card_id ` set (card_combination_materials t)"
    using c(2) IH by blast
  moreover have "list_all (\<lambda>e. e \<in> set (ownership_ledger s) \<or> ol_action e = ''consume'') (ownership_ledger t)"
    using c(4) IH by (auto simp: list_all_iff)
  ultimately show ?case using IH c(3) by auto
qed

lemma combine_cards_cases:
  assumes "combine_cards u i ids header target s = Inr (x, s')"
  obtains (Replayed) "find (\<lambda>r. cc_user_id r = u \<and> cc_idempotency_key r = header) (card_combinations s) = Some x"
      "s' = s"
  | (Combined) r pack links cs where "recipe_context i s = Inr (r, pack, links, cs)"
      "int (length ids) = ccr_input_quantity r" "distinct ids"
      "length (owned_materials u ids s) = length ids"
      "list_all (\<lambda>x. uc_card_id x \<in> set (map cpc_card_id links)) (owned_materials u ids s)"
      "\<not> used_as_material ids s"
      "book_combination
         \<lparr>cc_id = new_id ''combination_'' s, cc_user_id = u, cc_recipe_id = ccr_id r,
          cc_result_card_id = weighted_choice target (ccr_probability_snapshot r),
          cc_result_user_card_id = None, cc_material_user_card_ids = ids,
          cc_probability_version = ccr_probability_version r, cc_idempotency_key = header,
          cc_status = ''completed''\<rparr> pack (owned_materials u ids s) cs s = Inr (x, s')"
proof (cases "(if present header
      then find (\<lambda>r. cc_user_id r = u \<and> cc_idempotency_key r = header) (card_combinations s) else None)")
  case (Some y)
  with assms show thesis by (intro Replayed) (auto simp: combine_cards_def split: if_splits)
next
  case None
  note r1 = assms [unfolded combine_cards_def None option.case]
  then obtain r pack links cs where "recipe_context i s = Inr (r, pack, links, cs)"
    by (auto simp: bindE_eq_Inr)
  with r1 show thesis
    by (intro Combined) (auto simp: Let_def list_all_iff list_ex_iff split: if_splits)
qed

lemma book_combination_cases:
  assumes "book_combination r pack xs cs s = Inr (y, s')"
  obtains s0 s1 uc s2 where "user_cards s0 = user_cards s" "ownership_ledger s0 = ownership_ledger s"
    "card_combination_materials s0 = card_combination_materials s"
    "foldE (consume_material r) xs s0 = Inr s1"
    "grant_user_card (combination_grant_args r pack) s1 = Inr (uc, s2)"
    "user_cards s' = user_cards s2" "card_combination_materials s' = card_combination_materials s1"
    "y = r\<lparr>cc_result_user_card_id := Some (uc_id uc)\<rparr>" "list_ex (\<lambda>c. c_id c = cc_result_card_id r) cs"
proof -
  from assms obtain rows where 0: "insert_row clash_combination r (card_combinations s) = Inr rows"
    unfolding book_combination_def by (auto simp only: bindE_eq_Inr)
  let ?s0 = "(draw s)\<lparr>card_combinations := rows\<rparr>"
  note r0 = assms [unfolded book_combination_def 0 bindE_Inr]
  from r0 obtain s1 where 1: "foldE (consume_material r) xs ?s0 = Inr s1"
    by (auto simp only: bindE_eq_Inr)
  note r1 = r0 [unfolded 1 bindE_Inr]
  from r1 obtain uc s2 where 2: "grant_user_card (combination_grant_args r pack) s1 = Inr (uc, s2)"
    by (auto simp only: bindE_eq_Inr)
  note r2 = r1 [unfolded 2 bindE_Inr prod.case Let_def]
  let ?s3 = "s2\<lparr>card_combinations := update_where (\<lambda>x. cc_id x = cc_id r)
          (\<lambda>x. x\<lparr>cc_result_user_card_id := Some (uc_id uc)\<rparr>) (card_combinations s2)\<rparr>"
  from r2 obtain event s4 where 3: "record_engagement_event (cc_user_id r) ''card_combined'' ''card_combination'' (cc_id r)
          [(''combinationId'', JStr (cc_id r)), (''recipeId'', JStr (cc_recipe_id r)),
           (''packId'', JStr (cp_id pack)), (''cardId'', JStr (cc_result_card_id r)),
           (''artistId'', JStr (cp_artist_id pack))] ?s3 = Inr (event, s4)"
    by (auto simp only: bindE_eq_Inr)
  note r3 = r2 [unfolded 3 bindE_Inr prod.case]
  from r3 obtain m: "list_ex (\<lambda>c. c_id c = cc_result_card_id r) cs"
    and y: "y = r\<lparr>cc_result_user_card_id := Some (uc_id uc)\<rparr>"
    and 4: "notify_user_once (cc_user_id r) ''card_combined'' ''user_card'' (uc_id uc)
             (''combination:'' @ cc_id r) s4 = Inr s'"
    by (auto simp: bindE_eq_Inr split: if_splits)
  have "user_cards s' = user_cards s2" "card_combination_materials s' = card_combination_materials s2"
    using 3 4 by (auto dest!: touch)
  moreover have "card_combination_materials s2 = card_combination_materials s1"
    using 2 by (auto dest!: touch)
  ultimately show thesis by (intro that [OF _ _ _ 1 2]) (simp_all add: m y)
qed

section \<open>Properties\<close>

text \<open>C18. Combining cards: a new combination takes exactly the number of copies its published recipe
  asks for, all different, all the fan's and none used before; it gives the fan one new copy
  of the drawn card, and afterwards each of the copies is used up, so that no combination
  (by anybody) can take it again.\<close>

theorem combine_cards_exact:
  assumes "combine_cards u i ids header target s = Inr (x, s')"
    and "\<not> list_ex (\<lambda>r. cc_user_id r = u \<and> cc_idempotency_key r = header) (card_combinations s)"
    and "\<not> list_ex (\<lambda>e. ol_user_id e = u \<and> ol_action e = ''grant'' \<and> ol_source_type e = ''card_combination'' \<and>
      ol_source_id e = new_id ''combination_'' s) (ownership_ledger s)"
    and "unique_by uc_id (user_cards s)"
  shows "\<exists>r uc. get_recipe i s = Some r \<and> ccr_status r = ''published'' \<and>
    int (length ids) = ccr_input_quantity r \<and> distinct ids \<and>
    list_all (\<lambda>j. list_ex (\<lambda>c. uc_id c = j \<and> uc_user_id c = u) (user_cards s) \<and> \<not> used_as_material [j] s) ids \<and>
    user_cards s' = user_cards s @ [uc] \<and> uc_user_id uc = u \<and>
    uc_card_id uc = weighted_choice target (ccr_probability_snapshot r) \<and>
    cc_result_user_card_id x = Some (uc_id uc) \<and>
    list_all (\<lambda>j. used_as_material [j] s') ids \<and>
    (set ids \<inter> set ids2 \<noteq> {} \<longrightarrow> isl (combine_cards v i2 ids2 None target2 s'))"
  using assms(1)
proof (cases rule: combine_cards_cases)
  case Replayed
  with assms(2) show ?thesis by (auto simp: list_ex_iff dest!: find_SomeD)
next
  case (Combined r pack links cs)
  let ?r = "\<lparr>cc_id = new_id ''combination_'' s, cc_user_id = u, cc_recipe_id = ccr_id r,
          cc_result_card_id = weighted_choice target (ccr_probability_snapshot r),
          cc_result_user_card_id = None, cc_material_user_card_ids = ids,
          cc_probability_version = ccr_probability_version r, cc_idempotency_key = header,
          cc_status = ''completed''\<rparr>"
  let ?ms = "owned_materials u ids s"
  from Combined(7) obtain s0 s1 uc s2 where b: "user_cards s0 = user_cards s"
    "ownership_ledger s0 = ownership_ledger s"
    "foldE (consume_material ?r) ?ms s0 = Inr s1"
    "grant_user_card (combination_grant_args ?r pack) s1 = Inr (uc, s2)"
    "user_cards s' = user_cards s2" "card_combination_materials s' = card_combination_materials s1"
    "x = ?r\<lparr>cc_result_user_card_id := Some (uc_id uc)\<rparr>"
    by (rule book_combination_cases)
  note m = consume_materials [OF b(3)]
  have "distinct (map uc_id ?ms)"
    using assms(4) by (simp add: owned_materials_def unique_by_def distinct_map_filter)
  moreover have "set (map uc_id ?ms) \<subseteq> set ids" by (auto simp: owned_materials_def)
  ultimately have ids: "set (map uc_id ?ms) = set ids"
    using Combined(3,4) by (metis List.finite_set card_subset_eq distinct_card length_map)
  have none: "granted_before (combination_grant_args ?r pack) s1 = None"
    using assms(3) m b(2) by (fastforce simp: granted_before_def combination_grant_args_def find_None_iff
        list_ex_iff list_all_iff split: option.splits dest!: find_SomeD)
  with b(4) have uc: "uc = new_user_card (combination_grant_args ?r pack) s1"
    and cards: "user_cards s' = user_cards s @ [uc]"
    using grant_user_card_ledger(1) m b(1) by (auto elim!: grant_user_card_cases simp: b(5))
  have used: "j \<in> set ids \<Longrightarrow> used_as_material (j # js) s'" for j js
  proof -
    assume "j \<in> set ids"
    with ids m have "j \<in> ccm_user_card_id ` set (card_combination_materials s1)" by auto
    then show ?thesis by (auto simp: used_as_material_def list_ex_iff b(6))
  qed
  have owned: "list_ex (\<lambda>c. uc_id c = j \<and> uc_user_id c = u) (user_cards s)" if "j \<in> set ids" for j
  proof -
    from that ids have "j \<in> uc_id ` set ?ms" by simp
    then obtain c where "c \<in> set ?ms" "uc_id c = j" by blast
    then show ?thesis by (auto simp: owned_materials_def list_ex_iff)
  qed
  have free: "\<not> used_as_material [j] s" if "j \<in> set ids" for j
    using Combined(6) that by (auto simp: used_as_material_def list_ex_iff)
  have "isl (combine_cards v i2 ids2 None target2 s')" if shared: "set ids \<inter> set ids2 \<noteq> {}"
  proof -
    from shared obtain j where "j \<in> set ids" "j \<in> set ids2" by blast
    with used [of j "[]"] have "used_as_material ids2 s'" by (auto simp: used_as_material_def list_ex_iff)
    then show ?thesis by (auto simp: combine_cards_def bindE_def Let_def split: sum.splits)
  qed
  moreover have "get_recipe i s = Some r \<and> ccr_status r = ''published''"
    using Combined(1) by (auto simp: recipe_context_def Let_def split: option.splits if_splits)
  ultimately show ?thesis
    using Combined(2,3) owned free used cards uc b(7)
    by (auto simp: list_all_iff new_user_card_def combination_grant_args_def)
qed


definition mix_pack :: card_pack where
  "mix_pack = debut_pack\<lparr>cp_id := ''pk''\<rparr>"

definition mix_recipe :: card_combination_recipe where
  "mix_recipe = \<lparr>ccr_id = ''r1'', ccr_scope_type = ''card_pack'', ccr_scope_id = ''pk'',
     ccr_input_quantity = 2, ccr_output_rarity_pool = [''rare''],
     ccr_probability_snapshot = [(''c1'', 30), (''c2'', 70)], ccr_probability_version = ''v1:combination-1'',
     ccr_status = ''published''\<rparr>"

definition mix_link :: "ident \<Rightarrow> ident \<Rightarrow> int \<Rightarrow> card_pack_card" where
  "mix_link i c n = \<lparr>cpc_id = i, cpc_pack_id = ''pk'', cpc_card_id = c, cpc_position = n,
     cpc_probability = 50, cpc_enabled = True\<rparr>"

definition mix_db :: "db \<Rightarrow> db" where
  "mix_db s = s\<lparr>cards := [drop_card, drop_card\<lparr>c_id := ''c2''\<rparr>], card_packs := [mix_pack],
     card_pack_cards := [mix_link ''l1'' ''c1'' 0, mix_link ''l2'' ''c2'' 1],
     card_combination_recipes := [mix_recipe]\<rparr>"

theorem combine_cards_exact_witness:
  "\<exists>x s'. combine_cards ''ann'' ''r1'' [''k1'', ''k3''] (Some ''key'') 42 (mix_db trade_db) = Inr (x, s') \<and>
    cc_result_card_id x = ''c2'' \<and> used_as_material [''k1''] s' \<and>
    isl (combine_cards ''ann'' ''r1'' [''k1'', ''k2''] None 42 s')"
proof -
  have c: "case combine_cards ''ann'' ''r1'' [''k1'', ''k3''] (Some ''key'') 42 (mix_db trade_db) of
      Inl e \<Rightarrow> False | Inr (x, s') \<Rightarrow> cc_result_card_id x = ''c2''"
    and none: "card_combinations (mix_db trade_db) = []" "ownership_ledger (mix_db trade_db) = []"
    and u: "unique_by uc_id (user_cards (mix_db trade_db))" by code_simp+
  from c obtain x s' where r: "combine_cards ''ann'' ''r1'' [''k1'', ''k3''] (Some ''key'') 42 (mix_db trade_db) = Inr (x, s')"
    and x: "cc_result_card_id x = ''c2''" by (auto simp: case_Inr_iff)
  from combine_cards_exact [OF r _ _ u, of "[''k1'', ''k2'']" "''ann''" "''r1''" 42] r x show ?thesis
    by (auto simp: none)
qed

text \<open>
  The combination does not look at trade locks: Ann offers a copy to Bob, uses it up in a
  combination, and Bob's acceptance still moves the used-up copy to him.
\<close>

lemma locked_copy_combined:
  "case combine_cards ''ann'' ''r1'' [''k1'', ''k3''] None 42 (mix_db proposed_db) of
     Inl e \<Rightarrow> False
   | Inr (_, s1) \<Rightarrow>
       (case accept_trade (tp_id (hd (trade_proposals s1))) ''bob'' s1 of
          (r, s2) \<Rightarrow> \<not> isl r \<and> used_as_material [''k1''] s2 \<and>
            map uc_user_id (filter (\<lambda>c. uc_id c = ''k1'') (user_cards s2)) = [''bob''])"
  by code_simp

end
