(* ===== verification/Auth.thy ===== *)
theory Auth
  imports Access
begin

text \<open>
  Sign-in (\<open>backend/app/auth_tokens.py\<close>, \<open>backend/app/oauth.py\<close>, the magic links of
  \<open>backend/app/services.py\<close>, \<open>backend/app/routers/auth.py\<close> and
  \<open>backend/app/dependencies.py\<close>). \<open>jwt.encode\<close> and \<open>jwt.decode\<close> belong to PyJWT
  and are fields of the configuration: decoding takes the token, the secret, the audience,
  the issuer and the time, and \<open>None\<close> stands for \<open>InvalidTokenError\<close>. The digest of a
  token is \<open>sha256\<close> of its text.
\<close>

section \<open>Configuration and text\<close>

record auth_config =
  jwt_encode :: "jobj \<Rightarrow> string \<Rightarrow> string"
  jwt_decode :: "string \<Rightarrow> string \<Rightarrow> string \<Rightarrow> string \<Rightarrow> time \<Rightarrow> jobj option"
  jwt_access_secret :: string
  jwt_refresh_secret :: string
  jwt_audience :: string
  jwt_issuer :: string
  jwt_access_ttl_seconds :: int
  jwt_refresh_ttl_seconds :: int
  oauth_state_ttl_seconds :: int
  oauth_exchange_code_ttl_seconds :: int
  is_hosted :: bool

definition auth_error :: exn where
  "auth_error = AppError 401 ''AUTH_TOKEN_INVALID''"

definition auth_required :: exn where
  "auth_required = AppError 401 ''AUTH_REQUIRED''"

definition oauth_error :: exn where
  "oauth_error = AppError 502 ''SOCIAL_LOGIN_FAILED''"

definition SUPPORTED_CLIENTS :: "string list" where
  "SUPPORTED_CLIENTS = [''fan'', ''admin'', ''artist'']"

definition validate_client :: "string \<Rightarrow> exn + unit" where
  "validate_client client = (if client \<in> set SUPPORTED_CLIENTS then Inr () else Inl auth_error)"

definition token_hash :: "string \<Rightarrow> db \<Rightarrow> string" where
  "token_hash raw s = sha256 s (JStr raw)"

section \<open>Tokens\<close>

definition token_claims :: "auth_config \<Rightarrow> user \<Rightarrow> string \<Rightarrow> string \<Rightarrow> int \<Rightarrow> string \<Rightarrow> time \<Rightarrow> jobj" where
  "token_claims cfg u client typ ttl jti t =
    [(''sub'', JStr (u_id u)), (''role'', JStr (role_value (u_role u))), (''client'', JStr client),
     (''typ'', JStr typ), (''iss'', JStr (jwt_issuer cfg)), (''aud'', JStr (jwt_audience cfg)),
     (''iat'', JInt (t div seconds 1)), (''exp'', JInt ((t + seconds ttl) div seconds 1)),
     (''jti'', JStr jti)]"

definition decode_token :: "auth_config \<Rightarrow> string \<Rightarrow> string \<Rightarrow> string \<Rightarrow> string \<Rightarrow> time \<Rightarrow> exn + jobj" where
  "decode_token cfg raw secret expected_type expected_client t =
    bindE (validate_client expected_client) (\<lambda>_.
    case jwt_decode cfg raw secret (jwt_audience cfg) (jwt_issuer cfg) t of
      None \<Rightarrow> Inl auth_error
    | Some claims \<Rightarrow>
        if jget claims ''typ'' \<noteq> JStr expected_type \<or> jget claims ''client'' \<noteq> JStr expected_client
        then Inl auth_error else Inr claims)"

definition decode_access_token :: "auth_config \<Rightarrow> string \<Rightarrow> string \<Rightarrow> time \<Rightarrow> exn + jobj" where
  "decode_access_token cfg raw client = decode_token cfg raw (jwt_access_secret cfg) ''access'' client"

definition decode_refresh_token :: "auth_config \<Rightarrow> string \<Rightarrow> string \<Rightarrow> time \<Rightarrow> exn + jobj" where
  "decode_refresh_token cfg raw client = decode_token cfg raw (jwt_refresh_secret cfg) ''refresh'' client"

definition issue_access_token :: "auth_config \<Rightarrow> user \<Rightarrow> string \<Rightarrow> db \<Rightarrow> exn + string \<times> db" where
  "issue_access_token cfg u client s =
    bindE (validate_client client) (\<lambda>_.
    Inr (jwt_encode cfg (token_claims cfg u client ''access'' (jwt_access_ttl_seconds cfg) (new_id [] s) (now s))
      (jwt_access_secret cfg), draw s))"

definition clash_refresh :: "refresh_token \<Rightarrow> refresh_token \<Rightarrow> bool" where
  "clash_refresh r x \<longleftrightarrow> rt_jti x = rt_jti r \<or> rt_token_digest x = rt_token_digest r"

definition issue_refresh_token ::
  "auth_config \<Rightarrow> user \<Rightarrow> string \<Rightarrow> string option \<Rightarrow> db \<Rightarrow> exn + (string \<times> refresh_token) \<times> db" where
  "issue_refresh_token cfg u client family s =
    bindE (validate_client client) (\<lambda>_.
    let jti = new_id [] s;
        raw = jwt_encode cfg (token_claims cfg u client ''refresh'' (jwt_refresh_ttl_seconds cfg) jti (now s))
          (jwt_refresh_secret cfg);
        s1 = draw s;
        (family_id, s2) = (if present family then (the family, s1) else (new_id [] s1, draw s1));
        r = \<lparr>rt_jti = jti, rt_family_id = family_id, rt_token_digest = token_hash raw s,
          rt_user_id = u_id u, rt_client = client,
          rt_expires_at = now s + seconds (jwt_refresh_ttl_seconds cfg), rt_created_at = now s,
          rt_used_at = None, rt_revoked_at = None, rt_replaced_by_jti = None\<rparr>
    in bindE (insert_row clash_refresh r (refresh_tokens s2)) (\<lambda>rows.
       Inr ((raw, r), s2\<lparr>refresh_tokens := rows\<rparr>)))"

definition issue_token_pair ::
  "auth_config \<Rightarrow> user \<Rightarrow> string \<Rightarrow> db \<Rightarrow> exn + (string \<times> string \<times> refresh_token) \<times> db" where
  "issue_token_pair cfg u client s =
    bindE (issue_access_token cfg u client s) (\<lambda>(access, s1).
    bindE (issue_refresh_token cfg u client None s1) (\<lambda>((raw, r), s2).
    Inr ((access, raw, r), s2)))"

definition revoke_refresh_family :: "string \<Rightarrow> db \<Rightarrow> db" where
  "revoke_refresh_family family s = s\<lparr>refresh_tokens :=
    update_where (\<lambda>r. rt_family_id r = family \<and> rt_revoked_at r = None)
      (\<lambda>r. r\<lparr>rt_revoked_at := Some (now s)\<rparr>) (refresh_tokens s)\<rparr>"

definition set_refresh :: "string \<Rightarrow> (refresh_token \<Rightarrow> refresh_token) \<Rightarrow> db \<Rightarrow> db" where
  "set_refresh jti f s =
    s\<lparr>refresh_tokens := update_where (\<lambda>r. rt_jti r = jti) f (refresh_tokens s)\<rparr>"

definition find_refresh :: "json \<Rightarrow> db \<Rightarrow> refresh_token option" where
  "find_refresh jti s = (case id_text jti of None \<Rightarrow> None
     | Some j \<Rightarrow> find (\<lambda>r. rt_jti r = j) (refresh_tokens s))"

text \<open>The row a refresh token names, when its digest is the token's.\<close>

definition presented_token :: "auth_config \<Rightarrow> string \<Rightarrow> string \<Rightarrow> db \<Rightarrow> exn + jobj \<times> refresh_token" where
  "presented_token cfg raw client s =
    bindE (decode_refresh_token cfg raw client (now s)) (\<lambda>claims.
    case find_refresh (jget claims ''jti'') s of
      None \<Rightarrow> Inl auth_error
    | Some r \<Rightarrow> if rt_token_digest r \<noteq> token_hash raw s then Inl auth_error else Inr (claims, r))"

definition token_spent :: "refresh_token \<Rightarrow> bool" where
  "token_spent r \<longleftrightarrow> rt_used_at r \<noteq> None \<or> rt_replaced_by_jti r \<noteq> None"

text \<open>The exchange of an unspent token for its replacement.\<close>

definition exchange_refresh ::
  "auth_config \<Rightarrow> string \<Rightarrow> jobj \<Rightarrow> refresh_token \<Rightarrow> db \<Rightarrow> exn + (string \<times> string \<times> refresh_token) \<times> db" where
  "exchange_refresh cfg client claims r s =
    (if rt_revoked_at r \<noteq> None \<or> rt_expires_at r \<le> now s then Inl auth_error
     else if id_text (jget claims ''sub'') \<noteq> Some (rt_user_id r) \<or> rt_client r \<noteq> client then Inl auth_error
     else
       case get_user (rt_user_id r) s of
         None \<Rightarrow> Inl auth_error
       | Some u \<Rightarrow>
           if id_text (jget claims ''role'') \<noteq> Some (role_value (u_role u)) then Inl auth_error
           else
             bindE (issue_access_token cfg u client
                 (set_refresh (rt_jti r) (\<lambda>x. x\<lparr>rt_used_at := Some (now s)\<rparr>) s)) (\<lambda>(access, s1).
             bindE (issue_refresh_token cfg u client (Some (rt_family_id r)) s1) (\<lambda>((raw, new), s2).
             Inr ((access, raw, new),
               set_refresh (rt_jti r) (\<lambda>x. x\<lparr>rt_replaced_by_jti := Some (rt_jti new)\<rparr>) s2))))"

text \<open>
  Presenting a spent token revokes its family and commits that before the request fails;
  every other failure is rolled back.
\<close>

definition rotate_refresh_token ::
  "auth_config \<Rightarrow> string \<Rightarrow> string \<Rightarrow> db \<Rightarrow> (exn + string \<times> string \<times> refresh_token) \<times> db" where
  "rotate_refresh_token cfg raw client s =
    (case presented_token cfg raw client s of
       Inl e \<Rightarrow> (Inl e, s)
     | Inr (claims, r) \<Rightarrow>
         if token_spent r then (Inl auth_error, revoke_refresh_family (rt_family_id r) s)
         else run_tx (exchange_refresh cfg client claims r) s)"

section \<open>Requests\<close>

text \<open>A cookie of the client, or the legacy one.\<close>

definition pick_cookie :: "string option \<Rightarrow> string option \<Rightarrow> string option" where
  "pick_cookie scoped fallback = (if present scoped then scoped else fallback)"

definition client_cookie :: "(string \<times> string) list \<Rightarrow> string \<Rightarrow> string option" where
  "client_cookie cookies client =
    (if client \<in> set SUPPORTED_CLIENTS then map_of cookies client else None)"

definition refresh_access_token ::
  "auth_config \<Rightarrow> string option \<Rightarrow> (string \<times> string) list \<Rightarrow> string option \<Rightarrow> db
    \<Rightarrow> (exn + string \<times> string) \<times> db" where
  "refresh_access_token cfg client cookies legacy s =
    (let name = (if present client then the client else ''fan'');
         raw = pick_cookie (client_cookie cookies name) legacy
     in if \<not> present raw then (Inl auth_required, s)
        else
          case rotate_refresh_token cfg (the raw) name s of
            (Inl e, s') \<Rightarrow> (Inl e, s')
          | (Inr (access, new_raw, r), s') \<Rightarrow>
              (case (if name = ''admin''
                     then (case get_user (rt_user_id r) s' of
                             None \<Rightarrow> Inl auth_required
                           | Some u \<Rightarrow> bindE (load_admin_context u s') (\<lambda>_. Inr ()))
                     else Inr ()) of
                 Inl e \<Rightarrow> (Inl e, s)
               | Inr _ \<Rightarrow> (Inr (access, new_raw), s')))"

definition logout ::
  "auth_config \<Rightarrow> string option \<Rightarrow> string option \<Rightarrow> (string \<times> string) list \<Rightarrow> string option \<Rightarrow> db \<Rightarrow> db" where
  "logout cfg client session_token cookies legacy s =
    (let s1 = (if present session_token
               then s\<lparr>login_sessions := filter (\<lambda>x. se_token x \<noteq> the session_token) (login_sessions s)\<rparr> else s);
         raw = pick_cookie (client_cookie cookies (case client of None \<Rightarrow> [] | Some c \<Rightarrow> c)) legacy
     in if \<not> present raw then s1
        else
          case decode_refresh_token cfg (the raw) (if present client then the client else ''fan'') (now s) of
            Inl e \<Rightarrow> s1
          | Inr claims \<Rightarrow>
              (case find_refresh (jget claims ''jti'') s1 of
                 None \<Rightarrow> s1
               | Some r \<Rightarrow> revoke_refresh_family (rt_family_id r) s1))"

text \<open>The bearer of a request: \<open>partition\<close> splits the header at its first space.\<close>

definition bearer_token :: "string \<Rightarrow> string option" where
  "bearer_token authorization =
    (let scheme = takeWhile (\<lambda>c. c \<noteq> CHR '' '') authorization;
         raw = tl (dropWhile (\<lambda>c. c \<noteq> CHR '' '') authorization)
     in if py_lower scheme \<noteq> ''bearer'' \<or> raw = [] then None else Some raw)"

definition live_user :: "user option \<Rightarrow> user option" where
  "live_user x = (case x of None \<Rightarrow> None | Some u \<Rightarrow> if u_deleted_at u \<noteq> None then None else Some u)"

definition current_user ::
  "auth_config \<Rightarrow> string option \<Rightarrow> string option \<Rightarrow> string option \<Rightarrow> db \<Rightarrow> exn + user" where
  "current_user cfg client authorization session_token s =
    (if present authorization then
       (case bearer_token (the authorization) of
          None \<Rightarrow> Inl auth_error
        | Some raw \<Rightarrow>
            bindE (decode_access_token cfg raw (case client of None \<Rightarrow> [] | Some c \<Rightarrow> c) (now s)) (\<lambda>claims.
            case live_user (case id_text (jget claims ''sub'') of None \<Rightarrow> None | Some i \<Rightarrow> get_user i s) of
              None \<Rightarrow> Inl auth_error
            | Some u \<Rightarrow>
                if jget claims ''role'' \<noteq> JStr (role_value (u_role u)) then Inl auth_error else Inr u))
     else if is_hosted cfg \<or> \<not> present session_token then Inl auth_required
     else
       case live_user (case find (\<lambda>x. se_token x = the session_token) (login_sessions s) of
           None \<Rightarrow> None | Some x \<Rightarrow> get_user (se_user_id x) s) of
         None \<Rightarrow> Inl auth_required
       | Some u \<Rightarrow> Inr u)"

definition require_role :: "role \<Rightarrow> user \<Rightarrow> exn + user" where
  "require_role role u = (if u_role u \<noteq> role then Inl (AppError 403 ''FORBIDDEN'') else Inr u)"

section \<open>Magic links\<close>

definition request_magic_link :: "string \<Rightarrow> string \<Rightarrow> db \<Rightarrow> exn + string \<times> db" where
  "request_magic_link email purpose s =
    (let token = new_id [] s
     in bindE (insert_row (\<lambda>r x. ml_token_hash x = ml_token_hash r)
          \<lparr>ml_token_hash = token_hash token s, ml_email = py_lower email, ml_purpose = purpose,
           ml_expires_at = now s + minutes 15, ml_consumed_at = None\<rparr> (magic_links s)) (\<lambda>rows.
        Inr (token, (draw s)\<lparr>magic_links := rows\<rparr>)))"

definition new_fan :: "string \<Rightarrow> string option \<Rightarrow> string option \<Rightarrow> user" where
  "new_fan i email nickname =
    \<lparr>u_id = i, u_email = email, u_username = None, u_password_hash = None,
     u_must_change_password = False, u_role = FAN, u_nickname = nickname, u_favorite_artist_ids = [],
     u_favorite_member_ids = [], u_onboarding_completed = False, u_notification_email_enabled = False,
     u_deleted_at = None\<rparr>"

text \<open>
  Primary key, the unique address per role, the unique name, and the unique index on the
  lower-case nickname per role, which leaves out blank nicknames.
\<close>

definition nickname_key :: "user \<Rightarrow> string option" where
  "nickname_key u = (case u_nickname u of None \<Rightarrow> None
     | Some n \<Rightarrow> if list_all (\<lambda>c. c = CHR '' '') n then None else Some (py_lower n))"

definition clash_user :: "user \<Rightarrow> user \<Rightarrow> bool" where
  "clash_user r x \<longleftrightarrow> u_id x = u_id r \<or>
    (u_email r \<noteq> None \<and> u_email x = u_email r \<and> u_role x = u_role r) \<or>
    (u_username r \<noteq> None \<and> u_username x = u_username r) \<or>
    (nickname_key r \<noteq> None \<and> nickname_key x = nickname_key r \<and> u_role x = u_role r)"

definition add_user :: "user \<Rightarrow> db \<Rightarrow> exn + db" where
  "add_user u s = bindE (insert_row clash_user u (users s)) (\<lambda>rows. Inr (s\<lparr>users := rows\<rparr>))"

text \<open>The account of a verified address: a fan's, else the only account with it, else a new fan.\<close>

definition account_of_email :: "string \<Rightarrow> db \<Rightarrow> exn + user \<times> db" where
  "account_of_email email s =
    (let matching = filter (\<lambda>u. u_email u = Some email) (users s)
     in case find (\<lambda>u. u_role u = FAN) matching of
          Some u \<Rightarrow> Inr (u, s)
        | None \<Rightarrow>
            (case matching of
               [u] \<Rightarrow> Inr (u, s)
             | _ \<Rightarrow>
                 let u = new_fan (new_id ''user_'' s) (Some email) None
                 in bindE (add_user u (draw s)) (\<lambda>s1. Inr (u, s1))))"

definition verify_magic_link :: "auth_config \<Rightarrow> string \<Rightarrow> db \<Rightarrow> exn + (user \<times> string) \<times> db" where
  "verify_magic_link cfg token s =
    (case find (\<lambda>l. ml_token_hash l = token_hash token s) (magic_links s) of
       None \<Rightarrow> Inl (AppError 401 ''MAGIC_LINK_INVALID'')
     | Some link \<Rightarrow>
         if ml_consumed_at link \<noteq> None \<or> ml_expires_at link \<le> now s
         then Inl (AppError 401 ''MAGIC_LINK_INVALID'')
         else
           bindE (account_of_email (ml_email link) s) (\<lambda>(u, s1).
           let s2 = s1\<lparr>magic_links := update_where (\<lambda>l. ml_token_hash l = ml_token_hash link)
                 (\<lambda>l. l\<lparr>ml_consumed_at := Some (now s)\<rparr>) (magic_links s1)\<rparr>;
               session_token = new_id [] s2; s3 = draw s2
           in if is_hosted cfg then Inr ((u, session_token), s3)
              else
                bindE (insert_row (\<lambda>r x. se_token x = se_token r)
                    \<lparr>se_token = session_token, se_user_id = u_id u\<rparr> (login_sessions s3)) (\<lambda>rows.
                Inr ((u, session_token), s3\<lparr>login_sessions := rows\<rparr>))))"

text \<open>The endpoint: the link is consumed in its own transaction, before the tokens are issued.\<close>

definition verify_magic_link_endpoint ::
  "auth_config \<Rightarrow> string \<Rightarrow> string option \<Rightarrow> db \<Rightarrow> (exn + user \<times> string \<times> string) \<times> db" where
  "verify_magic_link_endpoint cfg token client s =
    (case run_tx (verify_magic_link cfg token) s of
       (Inl e, s1) \<Rightarrow> (Inl e, s1)
     | (Inr (u, _), s1) \<Rightarrow>
         run_tx (\<lambda>s. bindE (issue_token_pair cfg u (if present client then the client else ''fan'') s)
           (\<lambda>((access, raw, _), s2). Inr ((u, access, raw), s2))) s1)"

section \<open>Social sign-in\<close>

text \<open>The providers with their client id, secret and redirect address.\<close>

type_synonym oauth_clients = "(string \<times> string \<times> string \<times> string) list"

definition SUPPORTED_OAUTH_PROVIDERS :: "string list" where
  "SUPPORTED_OAUTH_PROVIDERS = [''google'', ''kakao'']"

definition ensure_provider_configured :: "oauth_clients \<Rightarrow> string \<Rightarrow> exn + string" where
  "ensure_provider_configured clients provider =
    (if provider \<notin> set SUPPORTED_OAUTH_PROVIDERS then Inl (AppError 404 ''SOCIAL_PROVIDER_NOT_FOUND'')
     else
       case map_of clients provider of
         None \<Rightarrow> Inl (AppError 503 ''SOCIAL_PROVIDER_NOT_CONFIGURED'')
       | Some (client_id, client_secret, redirect_uri) \<Rightarrow>
           if client_id = [] \<or> client_secret = [] then Inl (AppError 503 ''SOCIAL_PROVIDER_NOT_CONFIGURED'')
           else Inr redirect_uri)"

definition create_oauth_state ::
  "auth_config \<Rightarrow> oauth_clients \<Rightarrow> string \<Rightarrow> string \<Rightarrow> db \<Rightarrow> exn + string \<times> db" where
  "create_oauth_state cfg clients provider client s =
    bindE (ensure_provider_configured clients provider) (\<lambda>redirect_uri.
    let raw = new_id [] s
    in bindE (insert_row (\<lambda>r x. os_state_hash x = os_state_hash r)
         \<lparr>os_state_hash = token_hash raw s, os_provider = provider, os_client = client,
          os_redirect_uri = redirect_uri, os_expires_at = now s + seconds (oauth_state_ttl_seconds cfg),
          os_created_at = now s, os_consumed_at = None\<rparr> (oauth_states s)) (\<lambda>rows.
       Inr (raw, (draw s)\<lparr>oauth_states := rows\<rparr>)))"

definition state_matches_cookie :: "string \<Rightarrow> string option \<Rightarrow> bool" where
  "state_matches_cookie raw cookie \<longleftrightarrow> present cookie \<and> cookie = Some raw"

definition consume_oauth_state :: "string \<Rightarrow> string \<Rightarrow> db \<Rightarrow> exn + oauth_state \<times> db" where
  "consume_oauth_state provider raw s =
    (case find (\<lambda>r. os_state_hash r = token_hash raw s) (oauth_states s) of
       None \<Rightarrow> Inl (AppError 401 ''SOCIAL_STATE_INVALID'')
     | Some r \<Rightarrow>
         if os_provider r \<noteq> provider \<or> os_consumed_at r \<noteq> None \<or> os_expires_at r \<le> now s
         then Inl (AppError 401 ''SOCIAL_STATE_INVALID'')
         else Inr (r, s\<lparr>oauth_states := update_where (\<lambda>x. os_state_hash x = os_state_hash r)
           (\<lambda>x. x\<lparr>os_consumed_at := Some (now s)\<rparr>) (oauth_states s)\<rparr>))"

record oauth_profile =
  op_provider :: string
  op_subject :: string
  op_email :: "string option"
  op_nickname :: "string option"

definition json_text :: "json \<Rightarrow> string option" where
  "json_text j = (case j of JStr t \<Rightarrow> Some t | _ \<Rightarrow> None)"

definition json_object :: "json \<Rightarrow> jobj" where
  "json_object j = (case j of JObj d \<Rightarrow> d | _ \<Rightarrow> [])"

text \<open>What \<open>fetch_oauth_profile\<close> makes of the answer of the provider's user endpoint.\<close>

definition read_profile :: "string \<Rightarrow> jobj \<Rightarrow> exn + oauth_profile" where
  "read_profile provider profile =
    (let google = (provider = ''google'');
         account = json_object (jget profile ''kakao_account'');
         properties = json_object (jget profile ''properties'');
         subject = jget profile (if google then ''sub'' else ''id'');
         email = (if google then jget profile ''email'' else jget account ''email'');
         nickname = (if google then jget profile ''name'' else jget properties ''nickname'')
     in if google \<and> jget profile ''email_verified'' \<noteq> JBool True
        then Inl (AppError 422 ''SOCIAL_EMAIL_REQUIRED'')
        else if google \<and> \<not> present (json_text email) then Inl (AppError 422 ''SOCIAL_EMAIL_REQUIRED'')
        else
          case (case subject of JStr t \<Rightarrow> Some t | JInt _ \<Rightarrow> id_text subject | JBool _ \<Rightarrow> id_text subject
                | _ \<Rightarrow> None) of
            None \<Rightarrow> Inl (AppError 422 ''SOCIAL_PROFILE_INCOMPLETE'')
          | Some t \<Rightarrow> Inr \<lparr>op_provider = provider, op_subject = t,
              op_email = (if present (json_text email) then map_option py_lower (json_text email) else None),
              op_nickname = json_text nickname\<rparr>)"

definition fan_with_email :: "string option \<Rightarrow> db \<Rightarrow> user option" where
  "fan_with_email email s =
    (if present email then find (\<lambda>u. u_email u = email \<and> u_role u = FAN) (users s) else None)"

definition clash_social :: "social_account \<Rightarrow> social_account \<Rightarrow> bool" where
  "clash_social r x \<longleftrightarrow> sa_id x = sa_id r \<or> (sa_provider x = sa_provider r \<and> sa_subject x = sa_subject r)"

text \<open>Assignment to the attributes of a user, under the unique indexes.\<close>

definition set_user :: "ident \<Rightarrow> (user \<Rightarrow> user) \<Rightarrow> db \<Rightarrow> exn + db" where
  "set_user i f s =
    (case get_user i s of
       None \<Rightarrow> Inr s
     | Some u \<Rightarrow>
         if list_ex (\<lambda>x. u_id x \<noteq> i \<and> clash_user (f u) x) (users s) then Inl IntegrityError
         else Inr (s\<lparr>users := update_where (\<lambda>x. u_id x = i) f (users s)\<rparr>))"

definition fan_for_profile :: "oauth_profile \<Rightarrow> db \<Rightarrow> exn + user \<times> db" where
  "fan_for_profile p s =
    (case fan_with_email (op_email p) s of
       Some u \<Rightarrow> Inr (u, s)
     | None \<Rightarrow>
         let u = new_fan (new_id ''user_'' s) (op_email p) (op_nickname p)
         in bindE (add_user u (draw s)) (\<lambda>s1. Inr (u, s1)))"

definition social_account_id :: "oauth_profile \<Rightarrow> social_account \<Rightarrow> bool" where
  "social_account_id p a \<longleftrightarrow> sa_provider a = op_provider p \<and> sa_subject a = op_subject p"

text \<open>The user a profile is linked to, which must be a fan's.\<close>

definition linked_user :: "oauth_profile \<Rightarrow> social_account \<Rightarrow> db \<Rightarrow> exn + user \<times> db" where
  "linked_user p a s =
    (case get_user (sa_user_id a) s of
       None \<Rightarrow> Inl oauth_error
     | Some u \<Rightarrow>
         if u_role u = FAN then Inr (u, s)
         else bindE (fan_for_profile p s) (\<lambda>(v, s1). Inr (v, s1\<lparr>social_accounts :=
           update_where (social_account_id p) (\<lambda>x. x\<lparr>sa_user_id := u_id v\<rparr>) (social_accounts s1)\<rparr>)))"

definition refresh_from_profile :: "oauth_profile \<Rightarrow> user \<Rightarrow> user" where
  "refresh_from_profile p u =
    u\<lparr>u_nickname := (if present (op_nickname p) then op_nickname p else u_nickname u),
      u_email := (if present (op_email p) \<and> u_email u = None then op_email p else u_email u)\<rparr>"

definition upsert_social_user :: "oauth_profile \<Rightarrow> db \<Rightarrow> exn + user \<times> db" where
  "upsert_social_user p s =
    (case find (social_account_id p) (social_accounts s) of
       Some a \<Rightarrow>
         bindE (linked_user p a s) (\<lambda>(u, s1).
         bindE (set_user (u_id u) (refresh_from_profile p) s1) (\<lambda>s2.
         Inr (refresh_from_profile p u,
           if present (op_email p)
           then s2\<lparr>social_accounts := update_where (social_account_id p)
             (\<lambda>x. x\<lparr>sa_email := op_email p\<rparr>) (social_accounts s2)\<rparr>
           else s2)))
     | None \<Rightarrow>
         bindE (fan_for_profile p s) (\<lambda>(u, s1).
         bindE (insert_row clash_social
             \<lparr>sa_id = new_id ''social_'' s1, sa_provider = op_provider p, sa_subject = op_subject p,
              sa_user_id = u_id u, sa_email = op_email p, sa_created_at = now s1\<rparr> (social_accounts s1)) (\<lambda>rows.
         Inr (u, (draw s1)\<lparr>social_accounts := rows\<rparr>))))"

definition create_exchange_code :: "auth_config \<Rightarrow> user \<Rightarrow> string \<Rightarrow> db \<Rightarrow> exn + string \<times> db" where
  "create_exchange_code cfg u client s =
    (let raw = new_id [] s
     in bindE (insert_row (\<lambda>r x. ox_code_hash x = ox_code_hash r)
          \<lparr>ox_code_hash = token_hash raw s, ox_user_id = u_id u, ox_client = client,
           ox_expires_at = now s + seconds (oauth_exchange_code_ttl_seconds cfg), ox_created_at = now s,
           ox_consumed_at = None\<rparr> (oauth_exchange_codes s)) (\<lambda>rows.
        Inr (raw, (draw s)\<lparr>oauth_exchange_codes := rows\<rparr>)))"

text \<open>The callback; \<open>fetched\<close> is the provider's answer or the error of the exchange with it.\<close>

definition oauth_callback ::
  "auth_config \<Rightarrow> string \<Rightarrow> string \<Rightarrow> string option \<Rightarrow> exn + jobj \<Rightarrow> db \<Rightarrow> (exn + string) \<times> db" where
  "oauth_callback cfg provider raw cookie fetched s =
    (if \<not> state_matches_cookie raw cookie then (Inl (AppError 401 ''SOCIAL_STATE_INVALID''), s)
     else
       run_tx (\<lambda>s. bindE (consume_oauth_state provider raw s) (\<lambda>(row, s1).
         bindE fetched (\<lambda>answer.
         bindE (read_profile provider answer) (\<lambda>profile.
         bindE (upsert_social_user profile s1) (\<lambda>(u, s2).
         create_exchange_code cfg u (os_client row) s2))))) s)"

definition exchange_code_for_tokens ::
  "auth_config \<Rightarrow> string \<Rightarrow> string \<Rightarrow> db \<Rightarrow> exn + (string \<times> string \<times> user) \<times> db" where
  "exchange_code_for_tokens cfg raw client s =
    (case find (\<lambda>r. ox_code_hash r = token_hash raw s) (oauth_exchange_codes s) of
       None \<Rightarrow> Inl (AppError 401 ''SOCIAL_EXCHANGE_INVALID'')
     | Some r \<Rightarrow>
         if ox_client r \<noteq> client \<or> ox_consumed_at r \<noteq> None \<or> ox_expires_at r \<le> now s
         then Inl (AppError 401 ''SOCIAL_EXCHANGE_INVALID'')
         else
           case get_user (ox_user_id r) s of
             None \<Rightarrow> Inl oauth_error
           | Some u \<Rightarrow>
               bindE (issue_token_pair cfg u client (s\<lparr>oauth_exchange_codes :=
                   update_where (\<lambda>x. ox_code_hash x = ox_code_hash r)
                     (\<lambda>x. x\<lparr>ox_consumed_at := Some (now s)\<rparr>) (oauth_exchange_codes s)\<rparr>))
                 (\<lambda>((access, refresh, _), s1). Inr ((access, refresh, u), s1)))"

section \<open>The life of refresh tokens\<close>

text \<open>
  What a request may do to the table of refresh tokens: leave it, revoke a family, replace
  one live token by a new one of its family, or start a family.
\<close>

inductive token_change :: "string set \<Rightarrow> refresh_token list \<Rightarrow> refresh_token list \<Rightarrow> bool" for F where
  keep: "token_change F ts ts"
| revoke: "token_change F ts (update_where (\<lambda>r. rt_family_id r = f \<and> rt_revoked_at r = None)
    (\<lambda>r. r\<lparr>rt_revoked_at := Some t\<rparr>) ts)"
| replace: "r \<in> set ts \<Longrightarrow> rt_revoked_at r = None \<Longrightarrow> \<not> token_spent r \<Longrightarrow>
    rt_family_id new = rt_family_id r \<or> rt_family_id r = [] \<and> rt_family_id new \<in> F \<Longrightarrow>
    token_change F ts (update_where (\<lambda>x. rt_jti x = rt_jti r)
      (\<lambda>x. x\<lparr>rt_replaced_by_jti := Some (rt_jti new)\<rparr>)
      (update_where (\<lambda>x. rt_jti x = rt_jti r) (\<lambda>x. x\<lparr>rt_used_at := Some t\<rparr>) ts @ [new]))"
| start: "rt_family_id new \<in> F \<Longrightarrow> token_change F ts (ts @ [new])"

text \<open>The identifiers still to be drawn.\<close>

definition undrawn :: "db \<Rightarrow> string set" where
  "undrawn s = entropy s ` {drawn s..}"

lemma undrawn_simps [simp]:
  "undrawn (s\<lparr>refresh_tokens := ts\<rparr>) = undrawn s"
  "undrawn (s\<lparr>now := t\<rparr>) = undrawn s"
  "undrawn (s\<lparr>login_sessions := ls\<rparr>) = undrawn s"
  "undrawn (s\<lparr>magic_links := ms\<rparr>) = undrawn s"
  by (simp_all add: undrawn_def)

lemma undrawn_draw: "undrawn (draw s) \<subseteq> undrawn s"
  by (auto simp: undrawn_def draw_def)

lemma new_id_undrawn: "new_id [] s \<in> undrawn s"
  by (auto simp: new_id_def undrawn_def)

lemma presented_tokenE:
  assumes "presented_token cfg raw client s = Inr (claims, r)"
  obtains j where "jwt_decode cfg raw (jwt_refresh_secret cfg) (jwt_audience cfg) (jwt_issuer cfg) (now s)
      = Some claims" "id_text (jget claims ''jti'') = Some j"
    "find (\<lambda>r. rt_jti r = j) (refresh_tokens s) = Some r"
    "rt_token_digest r = token_hash raw s"
  using assms
  by (auto simp: presented_token_def decode_refresh_token_def decode_token_def find_refresh_def
      inr_simps split: if_splits option.splits)

lemma issue_access_tokenE:
  assumes "issue_access_token cfg u client s = Inr (a, s')"
  shows "s' = draw s"
  using assms by (auto simp: issue_access_token_def inr_simps)

lemma issue_refresh_tokenE:
  assumes "issue_refresh_token cfg u client family s = Inr ((raw, new), s')"
  obtains "refresh_tokens s' = refresh_tokens s @ [new]" "undrawn s' \<subseteq> undrawn s"
    "present family \<Longrightarrow> rt_family_id new = the family"
    "\<not> present family \<Longrightarrow> rt_family_id new \<in> undrawn s"
    "rt_user_id new = u_id u" "rt_client new = client" "rt_used_at new = None" "rt_revoked_at new = None"
    "now s' = now s" "sha256 s' = sha256 s"
proof -
  have d: "undrawn (draw (draw s)) \<subseteq> undrawn s" "new_id [] (draw s) \<in> undrawn s"
    using undrawn_draw new_id_undrawn by blast+
  show thesis
    using assms d undrawn_draw [of s] by (intro that)
      (auto simp: issue_refresh_token_def inr_simps Let_def split: if_splits)
qed

lemma set_refresh_simps [simp]:
  "refresh_tokens (set_refresh j f s) = update_where (\<lambda>r. rt_jti r = j) f (refresh_tokens s)"
  "undrawn (set_refresh j f s) = undrawn s" "now (set_refresh j f s) = now s"
  "sha256 (set_refresh j f s) = sha256 s" "users (set_refresh j f s) = users s"
  by (simp_all add: set_refresh_def)

lemma revoke_family_simps [simp]:
  "undrawn (revoke_refresh_family f s) = undrawn s"
  "sha256 (revoke_refresh_family f s) = sha256 s"
  by (simp_all add: revoke_refresh_family_def)

lemma draw_more [simp]: "now (draw s) = now s" "sha256 (draw s) = sha256 s"
  by (simp_all add: draw_def)

lemma exchange_refreshE:
  assumes "exchange_refresh cfg client claims r s = Inr ((access, raw, new), s')"
  obtains "rt_revoked_at r = None" "now s < rt_expires_at r" "rt_client r = client"
    "id_text (jget claims ''sub'') = Some (rt_user_id r)"
    "refresh_tokens s' = update_where (\<lambda>x. rt_jti x = rt_jti r)
      (\<lambda>x. x\<lparr>rt_replaced_by_jti := Some (rt_jti new)\<rparr>)
      (update_where (\<lambda>x. rt_jti x = rt_jti r) (\<lambda>x. x\<lparr>rt_used_at := Some (now s)\<rparr>) (refresh_tokens s) @ [new])"
    "undrawn s' \<subseteq> undrawn s" "sha256 s' = sha256 s"
    "rt_family_id new = rt_family_id r \<or> rt_family_id r = [] \<and> rt_family_id new \<in> undrawn s"
    "rt_user_id new = rt_user_id r" "rt_client new = client" "rt_revoked_at new = None"
proof -
  obtain u s1 s2 where g: "rt_revoked_at r = None" "\<not> rt_expires_at r \<le> now s" "rt_client r = client"
      "id_text (jget claims ''sub'') = Some (rt_user_id r)" "get_user (rt_user_id r) s = Some u"
    and a: "issue_access_token cfg u client (set_refresh (rt_jti r) (\<lambda>x. x\<lparr>rt_used_at := Some (now s)\<rparr>) s)
      = Inr (access, s1)"
    and b: "issue_refresh_token cfg u client (Some (rt_family_id r)) s1 = Inr ((raw, new), s2)"
    and c: "s' = set_refresh (rt_jti r) (\<lambda>x. x\<lparr>rt_replaced_by_jti := Some (rt_jti new)\<rparr>) s2"
    using assms by (auto simp: exchange_refresh_def inr_simps)
  note s1 = issue_access_tokenE [OF a]
  from g(5) have "u_id u = rt_user_id r" by (auto simp: get_user_def dest: find_SomeD)
  moreover have "undrawn s1 \<subseteq> undrawn s" using undrawn_draw [of "set_refresh _ _ s"] by (simp add: s1)
  moreover from b have s2: "refresh_tokens s2 = refresh_tokens s1 @ [new]" "undrawn s2 \<subseteq> undrawn s1"
      "rt_family_id new = rt_family_id r \<or> rt_family_id r = [] \<and> rt_family_id new \<in> undrawn s1"
      "rt_user_id new = u_id u" "rt_client new = client" "rt_revoked_at new = None" "sha256 s2 = sha256 s1"
    by (elim issue_refresh_tokenE; auto)+
  ultimately show thesis using g(1-4) s2
    by (intro that) (auto simp: c s1)
qed

lemma rotate_change:
  assumes "rotate_refresh_token cfg raw client s = (x, s')"
  shows "token_change (undrawn s) (refresh_tokens s) (refresh_tokens s')" (is ?C)
    and "undrawn s' \<subseteq> undrawn s" (is ?D) and "sha256 s' = sha256 s" (is ?S)
proof -
  have "?C \<and> ?D \<and> ?S"
  proof (cases "presented_token cfg raw client s")
    case (Inl e)
    with assms show ?thesis by (simp add: rotate_refresh_token_def token_change.keep)
  next
    case (Inr p)
    then obtain claims r where p: "presented_token cfg raw client s = Inr (claims, r)" by (cases p) auto
    then obtain j where j: "find (\<lambda>r. rt_jti r = j) (refresh_tokens s) = Some r" by (rule presented_tokenE)
    then have r: "r \<in> set (refresh_tokens s)" by (auto dest: find_SomeD)
    show ?thesis
    proof (cases "token_spent r")
      case True
      with assms p show ?thesis
        by (auto simp: rotate_refresh_token_def revoke_refresh_family_def token_change.revoke)
    next
      case False
      with assms p have tx: "run_tx (exchange_refresh cfg client claims r) s = (x, s')"
        by (simp add: rotate_refresh_token_def)
      show ?thesis
      proof (cases "exchange_refresh cfg client claims r s")
        case (Inl e)
        with tx show ?thesis by (auto simp: token_change.keep)
      next
        case (Inr y)
        then obtain access raw2 new s2
          where e: "exchange_refresh cfg client claims r s = Inr ((access, raw2, new), s2)"
          by (metis surj_pair)
        with tx have "s' = s2" by simp
        with e r False show ?thesis
          by (elim exchange_refreshE) (simp add: token_change.replace)
      qed
    qed
  qed
  then show ?C ?D ?S by simp_all
qed

text \<open>What a rotation that succeeds says about the token presented and its replacement.\<close>

lemma rotate_okE:
  assumes "rotate_refresh_token cfg raw client s = (Inr (access, raw2, new), s')"
  obtains claims r where "presented_token cfg raw client s = Inr (claims, r)" "\<not> token_spent r"
    "exchange_refresh cfg client claims r s = Inr ((access, raw2, new), s')"
  using assms
  by (auto simp: rotate_refresh_token_def run_tx_def split: sum.splits prod.splits if_splits)

text \<open>
  The requests that touch refresh tokens, each at its own time: the refresh endpoint, the
  logout endpoint, and a sign-in that issues a pair.
\<close>

datatype session_request =
    Refresh "string option" "(string \<times> string) list" "string option"
  | Logout "string option" "string option" "(string \<times> string) list" "string option"
  | SignIn user string

fun handle_session :: "auth_config \<Rightarrow> session_request \<Rightarrow> db \<Rightarrow> db" where
  "handle_session cfg (Refresh client cookies legacy) s = snd (refresh_access_token cfg client cookies legacy s)"
| "handle_session cfg (Logout client session_token cookies legacy) s =
    logout cfg client session_token cookies legacy s"
| "handle_session cfg (SignIn u client) s = snd (run_tx (issue_token_pair cfg u client) s)"

definition session_step :: "auth_config \<Rightarrow> time \<times> session_request \<Rightarrow> db \<Rightarrow> db" where
  "session_step cfg q s = handle_session cfg (snd q) (s\<lparr>now := fst q\<rparr>)"

definition run_sessions :: "auth_config \<Rightarrow> (time \<times> session_request) list \<Rightarrow> db \<Rightarrow> db" where
  "run_sessions cfg qs s = fold (session_step cfg) qs s"

lemma refresh_change:
  assumes "refresh_access_token cfg client cookies legacy s = (x, s')"
  shows "s' = s \<or> (\<exists>raw c y. rotate_refresh_token cfg raw c s = (y, s'))"
  using assms by (auto simp: refresh_access_token_def Let_def split: if_splits prod.splits sum.splits)

lemma logout_change:
  "token_change (undrawn s) (refresh_tokens s) (refresh_tokens (logout cfg client tok cookies legacy s))"
  "undrawn (logout cfg client tok cookies legacy s) = undrawn s"
  "sha256 (logout cfg client tok cookies legacy s) = sha256 s"
  by (auto simp: logout_def Let_def revoke_refresh_family_def intro: token_change.intros split: sum.splits option.splits)

lemma sign_in_change:
  assumes "issue_token_pair cfg u client s = Inr (x, s')"
  shows "token_change (undrawn s) (refresh_tokens s) (refresh_tokens s')" (is ?C)
    and "undrawn s' \<subseteq> undrawn s" (is ?D) and "sha256 s' = sha256 s" (is ?S)
proof -
  obtain a raw new s1 where a: "issue_access_token cfg u client s = Inr (a, s1)"
    and b: "issue_refresh_token cfg u client None s1 = Inr ((raw, new), s')"
    using assms by (auto simp: issue_token_pair_def inr_simps)
  note s1 = issue_access_tokenE [OF a]
  from b have s2: "refresh_tokens s' = refresh_tokens s1 @ [new]" "undrawn s' \<subseteq> undrawn s1"
      "rt_family_id new \<in> undrawn s1" "sha256 s' = sha256 s1"
    by (elim issue_refresh_tokenE; auto)+
  moreover have "undrawn s1 \<subseteq> undrawn s" by (simp add: s1 undrawn_draw)
  ultimately show ?C ?D ?S by (auto simp: s1 intro: token_change.start)
qed

lemma session_step_change:
  shows "token_change (undrawn s) (refresh_tokens s) (refresh_tokens (session_step cfg q s))" (is ?C)
    and "undrawn (session_step cfg q s) \<subseteq> undrawn s" (is ?D)
    and "sha256 (session_step cfg q s) = sha256 s" (is ?S)
proof -
  obtain t r where q: "q = (t, r)" by (cases q)
  let ?s = "s\<lparr>now := t\<rparr>"
  have "?C \<and> ?D \<and> ?S"
  proof (cases r)
    case (Refresh client cookies legacy)
    obtain x s' where e: "refresh_access_token cfg client cookies legacy ?s = (x, s')" by (cases "refresh_access_token cfg client cookies legacy ?s")
    from refresh_change [OF e] show ?thesis
    proof (elim disjE exE)
      assume "s' = ?s"
      with e show ?thesis by (simp add: q Refresh session_step_def token_change.keep)
    next
      fix raw c y assume "rotate_refresh_token cfg raw c ?s = (y, s')"
      from rotate_change [OF this] e show ?thesis by (simp add: q Refresh session_step_def)
    qed
  next
    case (Logout client tok cookies legacy)
    show ?thesis
      using logout_change [where s = ?s] by (simp add: q Logout session_step_def)
  next
    case (SignIn u client)
    show ?thesis
    proof (rule run_tx_cases [of "issue_token_pair cfg u client" ?s])
      fix e assume "run_tx (issue_token_pair cfg u client) ?s = (Inl e, ?s)"
      then show ?thesis by (simp add: q SignIn session_step_def token_change.keep)
    next
      fix x s' assume *: "issue_token_pair cfg u client ?s = Inr (x, s')"
        "run_tx (issue_token_pair cfg u client) ?s = (Inr x, s')"
      from sign_in_change [OF *(1)] *(2) show ?thesis by (simp add: q SignIn session_step_def)
    qed
  qed
  then show ?C ?D ?S by simp_all
qed

text \<open>A property of the token table that every change keeps is kept by any requests.\<close>

lemma run_sessions_keep:
  assumes "P (refresh_tokens s)" and "undrawn s \<subseteq> F"
    and "\<And>ts ts'. P ts \<Longrightarrow> token_change F ts ts' \<Longrightarrow> P ts'"
  shows "P (refresh_tokens (run_sessions cfg qs s))"
  using assms(1,2) unfolding run_sessions_def
proof (induction qs arbitrary: s)
  case (Cons q qs)
  have mono: "token_change F ts ts'" if "token_change (undrawn s) ts ts'" for ts ts'
    using that Cons.prems(2) by cases (auto intro: token_change.intros)
  have "P (refresh_tokens (session_step cfg q s))"
    using Cons.prems(1) mono [OF session_step_change(1)] by (rule assms(3))
  moreover have "undrawn (session_step cfg q s) \<subseteq> F"
    using session_step_change(2) Cons.prems(2) by blast
  ultimately show ?case by (simp add: Cons.IH)
qed simp

lemma run_sessions_sha [simp]: "sha256 (run_sessions cfg qs s) = sha256 s"
  unfolding run_sessions_def by (induction qs arbitrary: s) (simp_all add: session_step_change)

text \<open>Changes of the table keep a spent token spent, and a dead family dead.\<close>

definition spent_jti :: "string \<Rightarrow> refresh_token list \<Rightarrow> bool" where
  "spent_jti j ts \<longleftrightarrow> (\<exists>r. find (\<lambda>r. rt_jti r = j) ts = Some r \<and> token_spent r)"

definition dead_family :: "string \<Rightarrow> refresh_token list \<Rightarrow> bool" where
  "dead_family f ts \<longleftrightarrow> (\<forall>r \<in> set ts. rt_family_id r = f \<longrightarrow> rt_revoked_at r \<noteq> None)"

lemma spent_jti_update:
  assumes "\<And>r. P r \<Longrightarrow> rt_jti (g r) = rt_jti r" and "\<And>r. P r \<Longrightarrow> token_spent r \<Longrightarrow> token_spent (g r)"
    and "spent_jti j ts"
  shows "spent_jti j (update_where P g ts)"
proof -
  have "(rt_jti (g r) = j) = (rt_jti r = j)" if "P r" for r
    using that assms(1) by simp
  moreover from assms(3) obtain r where "find (\<lambda>r. rt_jti r = j) ts = Some r" "token_spent r"
    by (auto simp: spent_jti_def)
  ultimately have "find (\<lambda>r. rt_jti r = j) (update_where P g ts) = Some (if P r then g r else r)"
    "token_spent (if P r then g r else r)"
    using assms(2) by (simp_all add: find_update_where)
  then show ?thesis unfolding spent_jti_def by blast
qed

lemma spent_jti_snoc: "spent_jti j ts \<Longrightarrow> spent_jti j (ts @ [r])"
  by (auto simp: spent_jti_def find_append)

lemma spent_jti_kept: "spent_jti j ts \<Longrightarrow> token_change F ts ts' \<Longrightarrow> spent_jti j ts'"
  by (erule token_change.cases)
    (auto simp: token_spent_def intro!: spent_jti_update spent_jti_snoc)

lemma dead_family_kept:
  assumes "dead_family f ts" and "token_change F ts ts'" and "f \<notin> F"
  shows "dead_family f ts'"
  using assms(2,1,3)
proof cases
  case (replace r new t)
  with assms(1,3) have "rt_family_id new \<noteq> f" by (auto simp: dead_family_def)
  with assms(1) show ?thesis by (auto simp: replace(1) dead_family_def set_update_where)
qed (auto simp: dead_family_def set_update_where)

definition decode_stable :: "auth_config \<Rightarrow> bool" where
  "decode_stable cfg \<longleftrightarrow> (\<forall>raw k a i t t' c c'.
    jwt_decode cfg raw k a i t = Some c \<longrightarrow> jwt_decode cfg raw k a i t' = Some c' \<longrightarrow> c = c')"

lemma rotate_spends:
  assumes "rotate_refresh_token cfg raw client s = (Inr (access, raw2, new), s1)"
  obtains claims j where "id_text (jget claims ''jti'') = Some j" "spent_jti j (refresh_tokens s1)"
    "jwt_decode cfg raw (jwt_refresh_secret cfg) (jwt_audience cfg) (jwt_issuer cfg) (now s) = Some claims"
proof -
  obtain claims r where p: "presented_token cfg raw client s = Inr (claims, r)"
    and e: "exchange_refresh cfg client claims r s = Inr ((access, raw2, new), s1)"
    using assms by (rule rotate_okE)
  from p obtain j where j: "id_text (jget claims ''jti'') = Some j"
      "find (\<lambda>r. rt_jti r = j) (refresh_tokens s) = Some r"
      "jwt_decode cfg raw (jwt_refresh_secret cfg) (jwt_audience cfg) (jwt_issuer cfg) (now s) = Some claims"
    by (elim presented_tokenE) simp
  then have "rt_jti r = j" by (auto dest: find_SomeD)
  from e have "refresh_tokens s1 = update_where (\<lambda>x. rt_jti x = rt_jti r)
      (\<lambda>x. x\<lparr>rt_replaced_by_jti := Some (rt_jti new)\<rparr>)
      (update_where (\<lambda>x. rt_jti x = rt_jti r) (\<lambda>x. x\<lparr>rt_used_at := Some (now s)\<rparr>) (refresh_tokens s) @ [new])"
    by (elim exchange_refreshE) simp
  with j(2) \<open>rt_jti r = j\<close> have "spent_jti j (refresh_tokens s1)"
    by (simp add: spent_jti_def find_update_where find_append token_spent_def)
  with j that show thesis by blast
qed

lemma rotate_spent_fails:
  assumes "\<And>claims. jwt_decode cfg raw (jwt_refresh_secret cfg) (jwt_audience cfg) (jwt_issuer cfg) (now s)
      = Some claims \<Longrightarrow> id_text (jget claims ''jti'') = Some j"
    and "spent_jti j (refresh_tokens s)"
  shows "fst (rotate_refresh_token cfg raw client s) = Inl auth_error"
proof (cases "presented_token cfg raw client s")
  case (Inl e)
  then show ?thesis
    by (auto simp: rotate_refresh_token_def presented_token_def decode_refresh_token_def decode_token_def
        validate_client_def bindE_eq_Inl split: if_splits option.splits)
next
  case (Inr p)
  then obtain claims r where p: "presented_token cfg raw client s = Inr (claims, r)" by (cases p) auto
  then obtain j' where "jwt_decode cfg raw (jwt_refresh_secret cfg) (jwt_audience cfg) (jwt_issuer cfg) (now s)
      = Some claims" "id_text (jget claims ''jti'') = Some j'"
      "find (\<lambda>r. rt_jti r = j') (refresh_tokens s) = Some r" by (rule presented_tokenE)
  with assms have "token_spent r" by (fastforce simp: spent_jti_def)
  with p show ?thesis by (simp add: rotate_refresh_token_def)
qed

text \<open>C4. A refresh token is good for one rotation: once the backend has exchanged it for a new
  pair, presenting it again, after any refreshes, logouts and sign-ins and at any time, is
  refused with the token error.\<close>

theorem refresh_token_single_use:
  assumes "decode_stable cfg"
    and "rotate_refresh_token cfg raw client s = (Inr (access, raw2, new), s1)"
    and "s2 = (run_sessions cfg qs s1)\<lparr>now := t\<rparr>"
  shows "fst (rotate_refresh_token cfg raw client2 s2) = Inl auth_error"
proof -
  obtain claims j where j: "id_text (jget claims ''jti'') = Some j" "spent_jti j (refresh_tokens s1)"
      "jwt_decode cfg raw (jwt_refresh_secret cfg) (jwt_audience cfg) (jwt_issuer cfg) (now s) = Some claims"
    using assms(2) by (rule rotate_spends)
  from j(2) subset_refl have "spent_jti j (refresh_tokens (run_sessions cfg qs s1))"
    by (rule run_sessions_keep) (rule spent_jti_kept)
  moreover have "id_text (jget c ''jti'') = Some j"
    if "jwt_decode cfg raw (jwt_refresh_secret cfg) (jwt_audience cfg) (jwt_issuer cfg) t = Some c" for c
    using that j(1,3) assms(1) unfolding decode_stable_def by metis
  ultimately show ?thesis unfolding assms(3) by (intro rotate_spent_fails [where j = j]) simp_all
qed

text \<open>C5. Presenting a refresh token that was already exchanged ends its whole family: from then on,
  whatever refreshes, logouts and sign-ins follow, no rotation issues a token of that family
  again. Identifiers drawn later do not repeat the identifier of the family.\<close>

theorem replay_revokes_family:
  assumes "presented_token cfg raw client s = Inr (claims, r)" and "token_spent r"
    and "rt_family_id r \<notin> undrawn s"
    and "s1 = snd (rotate_refresh_token cfg raw client s)"
    and "s2 = (run_sessions cfg qs s1)\<lparr>now := t\<rparr>"
    and "rotate_refresh_token cfg raw2 client2 s2 = (Inr (access, raw3, new), s3)"
  shows "rt_family_id new \<noteq> rt_family_id r"
proof -
  let ?f = "rt_family_id r"
  have s1: "s1 = revoke_refresh_family ?f s"
    using assms(1,2) by (simp add: assms(4) rotate_refresh_token_def)
  have "dead_family ?f (refresh_tokens s1)" "undrawn s1 \<subseteq> undrawn s"
    by (auto simp: s1 dead_family_def revoke_refresh_family_def set_update_where)
  then have "dead_family ?f (refresh_tokens (run_sessions cfg qs s1))"
    by (rule run_sessions_keep) (erule (1) dead_family_kept [OF _ _ assms(3)])
  then have dead: "dead_family ?f (refresh_tokens s2)" by (simp add: assms(5))
  have "undrawn (fold (session_step cfg) qs s1) \<subseteq> undrawn s1" for s1
    by (induction qs arbitrary: s1) (simp_all, meson session_step_change(2) subset_trans)
  with \<open>undrawn s1 \<subseteq> undrawn s\<close> have "undrawn s2 \<subseteq> undrawn s"
    unfolding assms(5) run_sessions_def by auto
  moreover obtain claims' r' where p: "presented_token cfg raw2 client2 s2 = Inr (claims', r')"
    and e: "exchange_refresh cfg client2 claims' r' s2 = Inr ((access, raw3, new), s3)"
    using assms(6) by (rule rotate_okE)
  from p have "r' \<in> set (refresh_tokens s2)" by (rule presented_tokenE) (auto dest: find_SomeD)
  with dead e have "rt_family_id r' \<noteq> ?f"
    by (elim exchange_refreshE) (auto simp: dead_family_def)
  moreover from e have "rt_family_id new = rt_family_id r' \<or> rt_family_id new \<in> undrawn s2"
    by (elim exchange_refreshE) auto
  ultimately show ?thesis using assms(3) by auto
qed

section \<open>Samples\<close>

text \<open>
  A token format for the witnesses: the secret and the claims, separated by dots, checked
  for secret, audience, issuer and expiry.
\<close>

fun split_dots :: "string \<Rightarrow> string \<Rightarrow> string list" where
  "split_dots acc [] = [rev acc]"
| "split_dots acc (c # cs) = (if c = CHR ''.'' then rev acc # split_dots [] cs else split_dots (c # acc) cs)"

definition claim_text :: "jobj \<Rightarrow> string \<Rightarrow> string" where
  "claim_text c k = CHR ''.'' # (case id_text (jget c k) of None \<Rightarrow> [] | Some t \<Rightarrow> t)"

definition sample_encode :: "jobj \<Rightarrow> string \<Rightarrow> string" where
  "sample_encode c k = k @ concat (map (claim_text c)
    [''sub'', ''role'', ''client'', ''typ'', ''iss'', ''aud'', ''iat'', ''exp'', ''jti''])"

definition sample_decode :: "string \<Rightarrow> string \<Rightarrow> string \<Rightarrow> string \<Rightarrow> time \<Rightarrow> jobj option" where
  "sample_decode raw k a i t =
    (case split_dots [] raw of
       [k', sb, rl, cl, ty, is, au, ia, ex, ji] \<Rightarrow>
         if k' = k \<and> is = i \<and> au = a
           \<and> (case parse_int ex of None \<Rightarrow> False | Some x \<Rightarrow> t div seconds 1 < x)
         then Some [(''sub'', JStr sb), (''role'', JStr rl), (''client'', JStr cl), (''typ'', JStr ty),
           (''iss'', JStr is), (''aud'', JStr au), (''iat'', JStr ia), (''exp'', JStr ex), (''jti'', JStr ji)]
         else None
     | _ \<Rightarrow> None)"

definition sample_auth :: auth_config where
  "sample_auth = \<lparr>jwt_encode = sample_encode, jwt_decode = sample_decode, jwt_access_secret = ''ka'',
    jwt_refresh_secret = ''kr'', jwt_audience = ''fanfolio'', jwt_issuer = ''backend'',
    jwt_access_ttl_seconds = 5, jwt_refresh_ttl_seconds = 9, oauth_state_ttl_seconds = 600,
    oauth_exchange_code_ttl_seconds = 120, is_hosted = True\<rparr>"

definition signed_in_db :: "(string \<times> db) option" where
  "signed_in_db =
    (case issue_token_pair sample_auth (new_fan ''user_1'' None None) ''fan''
       (empty_db\<lparr>users := [new_fan ''user_1'' None None], drawn := 1,
         sha256 := (\<lambda>j. case j of JStr t \<Rightarrow> t | _ \<Rightarrow> [])\<rparr>) of
       Inl e \<Rightarrow> None | Inr ((access, raw, r), s) \<Rightarrow> Some (raw, s))"

lemma sample_decode_stable: "decode_stable sample_auth"
  unfolding decode_stable_def
  by (auto simp: sample_auth_def sample_decode_def split: list.splits if_splits)

theorem refresh_token_single_use_witness:
  "\<exists>raw s access raw2 new s1.
    rotate_refresh_token sample_auth raw ''fan'' s = (Inr (access, raw2, new), s1) \<and>
    fst (rotate_refresh_token sample_auth raw ''fan''
      ((run_sessions sample_auth [(seconds 5, Refresh None [(''fan'', raw2)] None)] s1)\<lparr>now := seconds 7\<rparr>))
      = Inl auth_error"
proof -
  have "case signed_in_db of None \<Rightarrow> False | Some (raw, s) \<Rightarrow>
    (case rotate_refresh_token sample_auth raw ''fan'' s of (Inl e, s1) \<Rightarrow> False | (Inr p, s1) \<Rightarrow> True)"
    by code_simp
  then obtain raw s access raw2 new s1
    where r: "rotate_refresh_token sample_auth raw ''fan'' s = (Inr (access, raw2, new), s1)"
    by (auto split: option.splits prod.splits sum.splits)
  from refresh_token_single_use [OF sample_decode_stable r refl] r show ?thesis by blast
qed

text \<open>A fan whose first token has been exchanged, and who signs in again after replaying it.\<close>

definition sample_token :: "string \<Rightarrow> string \<Rightarrow> refresh_token" where
  "sample_token jti raw =
    \<lparr>rt_jti = jti, rt_family_id = ''xxx'', rt_token_digest = raw, rt_user_id = ''user_1'', rt_client = ''fan'',
     rt_expires_at = seconds 9, rt_created_at = 0, rt_used_at = None, rt_revoked_at = None,
     rt_replaced_by_jti = None\<rparr>"

definition rotated_db :: db where
  "rotated_db = empty_db\<lparr>users := [new_fan ''user_1'' None None], drawn := 6,
    sha256 := (\<lambda>j. case j of JStr t \<Rightarrow> t | _ \<Rightarrow> []),
    refresh_tokens :=
      [(sample_token ''xx'' ''kr.user_1.fan.fan.refresh.backend.fanfolio.0.9.xx'')
         \<lparr>rt_used_at := Some 0, rt_replaced_by_jti := Some ''xxxxx''\<rparr>,
       sample_token ''xxxxx'' ''kr.user_1.fan.fan.refresh.backend.fanfolio.0.9.xxxxx'']\<rparr>"

lemma rotated_family: "''xxx'' \<notin> undrawn rotated_db"
proof
  assume "''xxx'' \<in> undrawn rotated_db"
  then obtain n where "6 \<le> n" "''xxx'' = replicate n (CHR ''x'')"
    by (auto simp: undrawn_def rotated_db_def empty_db_def)
  then have "length ''xxx'' = n" by (metis length_replicate)
  with \<open>6 \<le> n\<close> show False by simp
qed

theorem replay_revokes_family_witness:
  "\<exists>claims r access raw3 new s3. presented_token sample_auth
      ''kr.user_1.fan.fan.refresh.backend.fanfolio.0.9.xx'' ''fan'' rotated_db = Inr (claims, r) \<and>
    rotate_refresh_token sample_auth ''kr.user_1.fan.fan.refresh.backend.fanfolio.0.9.xxxxxxx'' ''fan''
      ((run_sessions sample_auth [(0, SignIn (new_fan ''user_1'' None None) ''fan'')]
        (snd (rotate_refresh_token sample_auth ''kr.user_1.fan.fan.refresh.backend.fanfolio.0.9.xx''
          ''fan'' rotated_db)))\<lparr>now := seconds 1\<rparr>) = (Inr (access, raw3, new), s3) \<and>
    rt_family_id new \<noteq> rt_family_id r"
proof -
  let ?raw = "''kr.user_1.fan.fan.refresh.backend.fanfolio.0.9.xx''"
  let ?raw2 = "''kr.user_1.fan.fan.refresh.backend.fanfolio.0.9.xxxxxxx''"
  let ?s2 = "(run_sessions sample_auth [(0, SignIn (new_fan ''user_1'' None None) ''fan'')]
        (snd (rotate_refresh_token sample_auth ?raw ''fan'' rotated_db)))\<lparr>now := seconds 1\<rparr>"
  have "case presented_token sample_auth ?raw ''fan'' rotated_db of Inl e \<Rightarrow> False
    | Inr (claims, r) \<Rightarrow> token_spent r \<and> rt_family_id r = ''xxx''" by code_simp
  then obtain claims r where p: "presented_token sample_auth ?raw ''fan'' rotated_db = Inr (claims, r)"
    "token_spent r" "rt_family_id r = ''xxx''" by (auto simp: case_Inr_iff)
  have "case fst (rotate_refresh_token sample_auth ?raw2 ''fan'' ?s2) of Inl e \<Rightarrow> False | Inr x \<Rightarrow> True"
    by code_simp
  then obtain access raw3 new s3
    where q: "rotate_refresh_token sample_auth ?raw2 ''fan'' ?s2 = (Inr (access, raw3, new), s3)"
    by (cases "rotate_refresh_token sample_auth ?raw2 ''fan'' ?s2") (auto split: sum.splits)
  have "rt_family_id r \<notin> undrawn rotated_db" using p(3) rotated_family by simp
  from replay_revokes_family [OF p(1,2) this refl refl q] p(1) q show ?thesis by blast
qed

section \<open>Signing in with a provider\<close>

text \<open>
  The nickname a provider reports is stored as it is. When another fan has it already, in
  any case, the unique index refuses the row, and the sign-in fails.
\<close>

lemma social_nickname_clash:
  assumes "find (social_account_id p) (social_accounts s) = None"
    and "fan_with_email (op_email p) s = None"
    and "x \<in> set (users s)" and "u_role x = FAN"
    and "op_nickname p = Some n" and "\<not> list_all (\<lambda>c. c = CHR '' '') n"
    and "u_nickname x = Some m" and "py_lower m = py_lower n" and "\<not> list_all (\<lambda>c. c = CHR '' '') m"
  shows "upsert_social_user p s = Inl IntegrityError"
proof -
  have "list_ex (clash_user (new_fan i (op_email p) (op_nickname p))) (users s)" for i
    using assms(3-9)
    by (auto simp: list_ex_iff clash_user_def new_fan_def nickname_key_def intro!: bexI [of _ x])
  with assms(1,2) show ?thesis
    by (simp add: upsert_social_user_def fan_for_profile_def add_user_def insert_row_def Let_def)
qed

end
