(* ===== verification/Effects.thy ===== *)
theory Effects
  imports Prelude
begin

text \<open>
  The effect configurations of cards (\<open>backend/app/effects.py\<close>): a small vocabulary of
  presets and interactions with bounded numbers, checked and completed before it is stored.
\<close>

section \<open>Dictionaries\<close>

text \<open>\<open>d.get(k, default)\<close>, \<open>d[k] = v\<close> and \<open>d.setdefault(k, v)\<close>.\<close>

definition jget_or :: "jobj \<Rightarrow> string \<Rightarrow> json \<Rightarrow> json" where
  "jget_or d k w = (case map_of d k of None \<Rightarrow> w | Some v \<Rightarrow> v)"

fun jset :: "string \<Rightarrow> json \<Rightarrow> jobj \<Rightarrow> jobj" where
  "jset k v [] = [(k, v)]"
| "jset k v ((k', w) # d) = (if k' = k then (k, v) # d else (k', w) # jset k v d)"

definition setdefault :: "string \<Rightarrow> json \<Rightarrow> jobj \<Rightarrow> jobj" where
  "setdefault k v d = (if map_of d k = None then d @ [(k, v)] else d)"

text \<open>Lists and dictionaries have no hash: looking them up in a set raises.\<close>

definition hashable :: "json \<Rightarrow> exn + json" where
  "hashable j = (case j of JArr _ \<Rightarrow> Inl TypeError | JObj _ \<Rightarrow> Inl TypeError | _ \<Rightarrow> Inr j)"

definition int_of_json :: "json \<Rightarrow> exn + int" where
  "int_of_json j = (case py_int j of
     Some n \<Rightarrow> Inr n
   | None \<Rightarrow> Inl (case j of JStr _ \<Rightarrow> ValueError | _ \<Rightarrow> TypeError))"

section \<open>Validation\<close>

definition invalid_config :: exn where
  "invalid_config = AppError 422 ''INVALID_EFFECT_CONFIG''"

definition ALLOWED_PRESETS :: "string list" where
  "ALLOWED_PRESETS = [''none'', ''light'', ''glow'', ''foil'', ''hologram'', ''particles'', ''motion'']"

definition LEGACY_PRESETS :: "(string \<times> string) list" where
  "LEGACY_PRESETS = [(''aurora'', ''hologram''), (''moonlight'', ''hologram''), (''stardust'', ''hologram'')]"

definition ALLOWED_INTERACTIONS :: "string list" where
  "ALLOWED_INTERACTIONS = [''static'', ''tilt'', ''lenticular'']"

definition modern_preset :: "json \<Rightarrow> json" where
  "modern_preset j = (case j of
     JStr p \<Rightarrow> (case map_of LEGACY_PRESETS p of Some q \<Rightarrow> JStr q | None \<Rightarrow> j) | _ \<Rightarrow> j)"

text \<open>\<open>HEX_COLOR\<close>\<close>

definition is_hex :: "char \<Rightarrow> bool" where
  "is_hex c \<longleftrightarrow> (let n = of_char c :: nat in
    48 \<le> n \<and> n \<le> 57 \<or> 65 \<le> n \<and> n \<le> 70 \<or> 97 \<le> n \<and> n \<le> 102)"

definition hex_color :: "string \<Rightarrow> bool" where
  "hex_color t \<longleftrightarrow> (case t of [] \<Rightarrow> False | c # cs \<Rightarrow> c = CHR ''#'' \<and> length cs = 6 \<and> list_all is_hex cs)"

definition unit_ok :: "json \<Rightarrow> bool" where
  "unit_ok j \<longleftrightarrow> (case j of JNull \<Rightarrow> True | JInt n \<Rightarrow> 0 \<le> n \<and> n \<le> 1
    | JNum q \<Rightarrow> 0 \<le> q \<and> q \<le> 1 | _ \<Rightarrow> False)"

definition particles_ok :: "json \<Rightarrow> bool" where
  "particles_ok j \<longleftrightarrow> (case j of JNull \<Rightarrow> True | JInt n \<Rightarrow> 0 \<le> n \<and> n \<le> 40 | _ \<Rightarrow> False)"

definition color_ok :: "json \<Rightarrow> bool" where
  "color_ok j \<longleftrightarrow> (case j of JNull \<Rightarrow> True | JStr t \<Rightarrow> hex_color t | _ \<Rightarrow> False)"

definition startswith :: "string \<Rightarrow> string \<Rightarrow> bool" where
  "startswith t p \<longleftrightarrow> take (length p) t = p"

definition reference_ok :: "json \<Rightarrow> bool" where
  "reference_ok j \<longleftrightarrow> (case j of JNull \<Rightarrow> True
    | JStr t \<Rightarrow> length t \<le> 200 \<and> \<not> startswith t ''data:'' \<and> \<not> startswith t ''javascript:''
    | _ \<Rightarrow> False)"

text \<open>The preset and the interaction of one side.\<close>

definition side_preset :: "jobj \<Rightarrow> json" where
  "side_preset side = jget_or side ''preset'' (jget_or side ''effectPreset'' (JStr ''none''))"

definition side_interaction :: "string \<Rightarrow> jobj \<Rightarrow> json" where
  "side_interaction name side =
    jget_or side ''interaction'' (JStr (if name = ''back'' then ''static'' else ''tilt''))"

definition values_ok :: "jobj \<Rightarrow> bool" where
  "values_ok side \<longleftrightarrow>
    list_all (\<lambda>k. unit_ok (jget side k)) [''intensity'', ''speed''] \<and>
    particles_ok (jget side ''particleCount'') \<and> color_ok (jget side ''color'') \<and>
    list_all (\<lambda>k. reference_ok (jget side k)) [''lenticularAssetId'', ''backImageAssetId'', ''imageAssetId'']"

definition check_side :: "string \<Rightarrow> json \<Rightarrow> exn + json \<times> json" where
  "check_side name side =
    (case side of
       JObj d \<Rightarrow>
         bindE (hashable (side_preset d)) (\<lambda>legacy.
         let preset = modern_preset legacy; interaction = side_interaction name d
         in if preset \<notin> JStr ` set ALLOWED_PRESETS then Inl invalid_config
            else bindE (hashable interaction) (\<lambda>interaction.
              if interaction \<notin> JStr ` set ALLOWED_INTERACTIONS then Inl invalid_config
              else if name = ''back'' \<and> interaction = JStr ''lenticular'' then Inl invalid_config
              else if \<not> values_ok d then Inl invalid_config
              else Inr (preset, interaction)))
     | _ \<Rightarrow> Inl invalid_config)"

definition fill_side :: "string \<Rightarrow> json \<times> json \<Rightarrow> jobj \<Rightarrow> jobj" where
  "fill_side name ps d =
    (case jget_or d name (JObj []) of
       JObj side \<Rightarrow> jset name (JObj (setdefault ''interaction'' (snd ps) (setdefault ''preset'' (fst ps) side))) d
     | _ \<Rightarrow> d)"

definition validate_effect_config :: "json \<Rightarrow> exn + jobj" where
  "validate_effect_config config =
    (case config of
       JObj d \<Rightarrow>
         bindE (int_of_json (jget_or d ''version'' (JInt 3))) (\<lambda>v.
         bindE (check_side ''front'' (jget_or d ''front'' (JObj []))) (\<lambda>fr.
         bindE (check_side ''back'' (jget_or d ''back'' (JObj []))) (\<lambda>bk.
         Inr (fill_side ''back'' bk (fill_side ''front'' fr (jset ''version'' (JInt v) d))))))
     | _ \<Rightarrow> Inl invalid_config)"

section \<open>The type of a stored configuration\<close>

definition side_typed :: "string \<Rightarrow> json \<Rightarrow> bool" where
  "side_typed name j \<longleftrightarrow>
    (case j of
       JObj d \<Rightarrow>
         (\<exists>p \<in> set (ALLOWED_PRESETS @ map fst LEGACY_PRESETS). map_of d ''preset'' = Some (JStr p)) \<and>
         (\<exists>i \<in> set ALLOWED_INTERACTIONS. map_of d ''interaction'' = Some (JStr i) \<and>
           \<not> (name = ''back'' \<and> i = ''lenticular'')) \<and>
         values_ok d
     | _ \<Rightarrow> False)"

definition config_typed :: "jobj \<Rightarrow> bool" where
  "config_typed d \<longleftrightarrow> (\<exists>v. map_of d ''version'' = Some (JInt v)) \<and>
    (\<exists>j. map_of d ''front'' = Some j \<and> side_typed ''front'' j) \<and>
    (\<exists>j. map_of d ''back'' = Some j \<and> side_typed ''back'' j)"

lemma map_of_jset [simp]: "map_of (jset k v d) k' = (if k' = k then Some v else map_of d k')"
  by (induction d) (auto split: if_splits)

lemma jset_same: "map_of d k = Some v \<Longrightarrow> jset k v d = d"
  by (induction d) (auto split: if_splits)

lemma map_of_setdefault [simp]:
  "map_of (setdefault k v d) k' =
    (if k' = k then Some (case map_of d k of None \<Rightarrow> v | Some w \<Rightarrow> w) else map_of d k')"
  by (auto simp: setdefault_def map_add_def split: option.splits)

lemma setdefault_same: "map_of d k = Some w \<Longrightarrow> setdefault k v d = d"
  by (simp add: setdefault_def)

lemma values_ok_setdefault:
  assumes "values_ok d" and "k = ''preset'' \<or> k = ''interaction''"
  shows "values_ok (setdefault k v d)"
proof -
  from assms(2) have "jget (setdefault k v d) x = jget d x"
    if "x \<in> {''intensity'', ''speed'', ''particleCount'', ''color'', ''lenticularAssetId'',
      ''backImageAssetId'', ''imageAssetId''}" for x
    using that by (auto simp: jget_def)
  with assms(1) show ?thesis by (simp add: values_ok_def)
qed

lemma check_sideE:
  assumes "check_side name j = Inr (p, i)"
  obtains d where "j = JObj d" "p = modern_preset (side_preset d)" "p \<in> JStr ` set ALLOWED_PRESETS"
    "i = side_interaction name d" "i \<in> JStr ` set ALLOWED_INTERACTIONS"
    "\<not> (name = ''back'' \<and> i = JStr ''lenticular'')" "values_ok d"
  using assms
  by (auto simp: check_side_def inr_simps hashable_def Let_def split: json.splits if_splits)

text \<open>A preset that maps to an allowed one is allowed or a legacy name of one.\<close>

lemma modern_preset_allowed:
  assumes "modern_preset j \<in> JStr ` set ALLOWED_PRESETS"
  shows "\<exists>p \<in> set (ALLOWED_PRESETS @ map fst LEGACY_PRESETS). j = JStr p"
proof (cases j)
  case (JStr p)
  show ?thesis
  proof (cases "map_of LEGACY_PRESETS p")
    case None
    with assms JStr show ?thesis by (auto simp: modern_preset_def)
  next
    case (Some q)
    then have "p \<in> set (map fst LEGACY_PRESETS)" by (force dest: map_of_SomeD)
    with JStr show ?thesis by auto
  qed
qed (use assms in \<open>auto simp: modern_preset_def\<close>)

lemma modern_modern: "p \<in> JStr ` set ALLOWED_PRESETS \<Longrightarrow> modern_preset p = p"
  by (auto simp: modern_preset_def ALLOWED_PRESETS_def LEGACY_PRESETS_def)

text \<open>A checked side, completed, has the type.\<close>

lemma check_side_typed:
  assumes "check_side name (jget_or d name (JObj [])) = Inr ps"
  shows "\<exists>j. map_of (fill_side name ps d) name = Some j \<and> side_typed name j"
proof -
  obtain p i where ps: "ps = (p, i)" by (cases ps)
  with assms obtain e where e: "jget_or d name (JObj []) = JObj e" "p = modern_preset (side_preset e)"
      "p \<in> JStr ` set ALLOWED_PRESETS" "i = side_interaction name e" "i \<in> JStr ` set ALLOWED_INTERACTIONS"
      "\<not> (name = ''back'' \<and> i = JStr ''lenticular'')" "values_ok e"
    by (auto elim!: check_sideE)
  let ?e = "setdefault ''interaction'' i (setdefault ''preset'' p e)"
  have "\<exists>q \<in> set (ALLOWED_PRESETS @ map fst LEGACY_PRESETS). map_of ?e ''preset'' = Some (JStr q)"
  proof (cases "map_of e ''preset''")
    case None
    with e(3) show ?thesis by auto
  next
    case (Some w)
    then have "side_preset e = w" by (simp add: side_preset_def jget_or_def)
    with e(2,3) Some show ?thesis using modern_preset_allowed [of w] by auto
  qed
  moreover have "map_of ?e ''interaction'' = Some i"
    using e(4) by (simp add: side_interaction_def jget_or_def split: option.splits)
  moreover have "values_ok ?e" using e(7) by (simp add: values_ok_setdefault)
  ultimately have "side_typed name (JObj ?e)" using e(5,6) by (auto simp: side_typed_def)
  then show ?thesis using e(1) by (simp add: fill_side_def ps)
qed

lemma fill_side_other: "k \<noteq> name \<Longrightarrow> map_of (fill_side name ps d) k = map_of d k"
  by (auto simp: fill_side_def split: json.splits)

lemma jget_or_cong: "map_of d k = map_of e k \<Longrightarrow> jget_or d k x = jget_or e k x"
  by (simp add: jget_or_def)


text \<open>Validating a typed configuration again leaves it as it is.\<close>

lemma typed_side_unchanged:
  assumes "map_of d name = Some j" and "side_typed name j"
  shows "\<exists>ps. check_side name (jget_or d name (JObj [])) = Inr ps \<and> fill_side name ps d = d"
proof -
  obtain e p i where e: "j = JObj e" "map_of e ''preset'' = Some (JStr p)"
      "p \<in> set (ALLOWED_PRESETS @ map fst LEGACY_PRESETS)"
      "map_of e ''interaction'' = Some (JStr i)" "i \<in> set ALLOWED_INTERACTIONS"
      "\<not> (name = ''back'' \<and> i = ''lenticular'')" "values_ok e"
    using assms(2) by (auto simp: side_typed_def split: json.splits)
  have "modern_preset (JStr p) \<in> JStr ` set ALLOWED_PRESETS"
    using e(3) by (auto simp: modern_preset_def ALLOWED_PRESETS_def LEGACY_PRESETS_def)
  with e assms(1) have "check_side name (jget_or d name (JObj [])) = Inr (modern_preset (JStr p), JStr i)"
    by (auto simp: check_side_def jget_or_def side_preset_def side_interaction_def hashable_def Let_def)
  moreover have "fill_side name ps d = d" for ps
    using e assms(1) by (simp add: fill_side_def jget_or_def setdefault_same jset_same)
  ultimately show ?thesis by blast
qed

lemma typed_config_unchanged:
  assumes "config_typed d"
  shows "validate_effect_config (JObj d) = Inr d"
proof -
  from assms obtain v where v: "map_of d ''version'' = Some (JInt v)" by (auto simp: config_typed_def)
  from assms obtain f b where
    "check_side ''front'' (jget_or d ''front'' (JObj [])) = Inr f" "fill_side ''front'' f d = d"
    "check_side ''back'' (jget_or d ''back'' (JObj [])) = Inr b" "fill_side ''back'' b d = d"
    using typed_side_unchanged unfolding config_typed_def by metis
  with v show ?thesis
    by (simp add: validate_effect_config_def jget_or_def int_of_json_def jset_same)
qed

text \<open>A legacy name given as the preset itself is accepted and stays in the stored side.\<close>

lemma legacy_preset_kept:
  "validate_effect_config (JObj [(''front'', JObj [(''preset'', JStr ''aurora'')])]) =
    Inr [(''front'', JObj [(''preset'', JStr ''aurora''), (''interaction'', JStr ''tilt'')]),
      (''version'', JInt 3), (''back'', JObj [(''preset'', JStr ''none''), (''interaction'', JStr ''static'')])]"
  by code_simp

definition sample_effect :: json where
  "sample_effect = JObj [(''version'', JStr ''4''),
     (''front'', JObj [(''effectPreset'', JStr ''moonlight''), (''intensity'', JNum (1/2)), (''particleCount'', JInt 40)])]"


end
