(* ===== verification/Cards.thy ===== *)
theory Cards
  imports Access Redeem Effects
begin

text \<open>
  The release of cards (\<open>backend/app/services.py\<close>, \<open>backend/app/routers/artist.py\<close>,
  \<open>backend/app/routers/admin.py\<close>): cards written in the studio and by operators, their
  effect versions and comments, the two review stages, and the drops that publish them.
  Whether the storage holds a file (\<open>storage.exists\<close>) is the argument \<open>stored\<close>.
\<close>

section \<open>Rows\<close>

definition put_card :: "card_row \<Rightarrow> db \<Rightarrow> db" where
  "put_card c s = s\<lparr>cards := update_where (\<lambda>x. c_id x = c_id c) (\<lambda>_. c) (cards s)\<rparr>"

definition add_card :: "card_row \<Rightarrow> db \<Rightarrow> exn + db" where
  "add_card c s =
    bindE (insert_row (\<lambda>r x. c_id x = c_id r) c (cards s)) (\<lambda>rows. Inr (s\<lparr>cards := rows\<rparr>))"

definition get_asset :: "ident \<Rightarrow> db \<Rightarrow> asset option" where
  "get_asset i s = find (\<lambda>a. as_id a = i) (assets s)"

definition card_not_found :: exn where
  "card_not_found = AppError 404 ''CARD_NOT_FOUND''"

definition invalid_card_status :: exn where
  "invalid_card_status = AppError 409 ''INVALID_CARD_STATUS''"

definition card_audit :: "admin_context \<Rightarrow> string \<Rightarrow> card_row \<Rightarrow> jobj \<Rightarrow> audit_args" where
  "card_audit c action cd details =
    \<lparr>au_actor_user_id = Some (u_id (ctx_user c)), au_action = action, au_entity_type = ''card'',
     au_entity_id = c_id cd, au_organization_id = am_organization_id (ctx_membership c),
     au_artist_id = c_artist_id cd, au_details = details\<rparr>"

text \<open>
  \<open>setattr(card, field, value)\<close> for a field of a request body. \<open>name\<close> and
  \<open>has_voice\<close> are the columns of the body that must not be null.
\<close>

definition text_column :: "json \<Rightarrow> string option" where
  "text_column j = (case j of JStr t \<Rightarrow> Some t | _ \<Rightarrow> None)"

definition dict_column :: "json \<Rightarrow> jobj option" where
  "dict_column j = (case j of JObj d \<Rightarrow> Some d | _ \<Rightarrow> None)"

definition set_nullable_field :: "string \<Rightarrow> json \<Rightarrow> card_row \<Rightarrow> card_row" where
  "set_nullable_field k v c =
    (if k = ''template_id'' then c\<lparr>c_template_id := text_column v\<rparr>
     else if k = ''season_name'' then c\<lparr>c_season_name := text_column v\<rparr>
     else if k = ''rarity'' then c\<lparr>c_rarity := text_column v\<rparr>
     else if k = ''image_asset_id'' then c\<lparr>c_image_asset_id := text_column v\<rparr>
     else if k = ''owner_artist_id'' then c\<lparr>c_owner_artist_id := text_column v\<rparr>
     else if k = ''artist_id'' then c\<lparr>c_artist_id := text_column v\<rparr>
     else if k = ''member_id'' then c\<lparr>c_member_id := text_column v\<rparr>
     else if k = ''signature_text'' then c\<lparr>c_signature_text := text_column v\<rparr>
     else if k = ''handwriting_asset_id'' then c\<lparr>c_handwriting_asset_id := text_column v\<rparr>
     else if k = ''voice_asset_id'' then c\<lparr>c_voice_asset_id := text_column v\<rparr>
     else if k = ''video_asset_id'' then c\<lparr>c_video_asset_id := text_column v\<rparr>
     else if k = ''design_config'' then c\<lparr>c_design_config := dict_column v\<rparr>
     else if k = ''handwriting_transform'' then c\<lparr>c_handwriting_transform := dict_column v\<rparr>
     else if k = ''issue_limit'' then c\<lparr>c_issue_limit := (case v of JInt n \<Rightarrow> Some n | _ \<Rightarrow> None)\<rparr>
     else c)"

definition set_card_field :: "string \<times> json \<Rightarrow> card_row \<Rightarrow> exn + card_row" where
  "set_card_field kv c =
    (if fst kv = ''name'' then
       (case snd kv of JStr t \<Rightarrow> Inr (c\<lparr>c_name := t\<rparr>) | _ \<Rightarrow> Inl IntegrityError)
     else if fst kv = ''has_voice'' then
       (case snd kv of JBool b \<Rightarrow> Inr (c\<lparr>c_has_voice := b\<rparr>) | _ \<Rightarrow> Inl IntegrityError)
     else Inr (set_nullable_field (fst kv) (snd kv) c))"

text \<open>A \<open>Card\<close> with the defaults of its columns.\<close>

definition blank_card :: "ident \<Rightarrow> ident option \<Rightarrow> card_row" where
  "blank_card i organization =
    \<lparr>c_id = i, c_name = [], c_status = ''draft'', c_release_policy = ''partner_only'',
     c_release_status = ''draft'', c_review_version = 0, c_is_official = True, c_artist_id = None,
     c_member_id = None, c_owner_artist_id = None, c_organization_id = organization, c_rarity = None,
     c_image_asset_id = None, c_handwriting_asset_id = None, c_voice_asset_id = None,
     c_video_asset_id = None, c_design_config = None, c_review_note = None, c_has_voice = False,
     c_issue_limit = None, c_tradable = True, c_drop_id = None, c_template_id = None,
     c_season_name = None, c_signature_text = None, c_handwriting_transform = None\<rparr>"

section \<open>Review requests\<close>

definition review_snapshot :: "card_row \<Rightarrow> jobj" where
  "review_snapshot c =
    [(''name'', JStr (c_name c)), (''rarity'', jopt (c_rarity c)), (''artistId'', jopt (c_artist_id c)),
     (''memberId'', jopt (c_member_id c)), (''imageAssetId'', jopt (c_image_asset_id c)),
     (''voiceAssetId'', jopt (c_voice_asset_id c)), (''videoAssetId'', jopt (c_video_asset_id c)),
     (''handwritingAssetId'', jopt (c_handwriting_asset_id c)),
     (''designConfig'', JObj (case c_design_config c of None \<Rightarrow> [] | Some d \<Rightarrow> d)),
     (''issueLimit'', case c_issue_limit c of None \<Rightarrow> JNull | Some n \<Rightarrow> JInt n)]"

definition required_release_policy :: "card_row \<Rightarrow> string" where
  "required_release_policy c = (if c_rarity c = Some ''Special'' then ''partner_and_platform'' else ''partner_only'')"

definition clash_review :: "card_review_request \<Rightarrow> card_review_request \<Rightarrow> bool" where
  "clash_review r x \<longleftrightarrow> rr_id x = rr_id r \<or>
    (rr_card_id x = rr_card_id r \<and> rr_version x = rr_version r \<and> rr_stage x = rr_stage r)"

definition create_review_request :: "card_row \<Rightarrow> string \<Rightarrow> db \<Rightarrow> exn + db" where
  "create_review_request c stage s =
    bindE (insert_row clash_review
        \<lparr>rr_id = new_id ''review_request_'' s, rr_card_id = c_id c, rr_version = c_review_version c,
         rr_stage = stage, rr_status = ''pending'', rr_snapshot = review_snapshot c\<rparr> (card_review_requests s))
      (\<lambda>rows. Inr ((draw s)\<lparr>card_review_requests := rows\<rparr>))"

definition active_review_request :: "card_row \<Rightarrow> string \<Rightarrow> db \<Rightarrow> card_review_request option" where
  "active_review_request c stage s =
    find (\<lambda>r. rr_card_id r = c_id c \<and> rr_version r = c_review_version c \<and> rr_stage r = stage \<and>
      rr_status r = ''pending'') (card_review_requests s)"

definition record_review_decision ::
  "card_review_request \<Rightarrow> ident \<Rightarrow> string \<Rightarrow> string option \<Rightarrow> db \<Rightarrow> exn + db" where
  "record_review_decision r reviewer decision comment s =
    bindE (insert_row (\<lambda>r x. rd_id x = rd_id r)
        \<lparr>rd_id = new_id ''review_decision_'' s, rd_request_id = rr_id r, rd_reviewer_user_id = reviewer,
         rd_decision = decision, rd_note = comment, rd_decided_at = now s\<rparr> (card_review_decisions s)) (\<lambda>rows.
    Inr ((draw s)\<lparr>card_review_decisions := rows,
      card_review_requests := update_where (\<lambda>x. rr_id x = rr_id r) (\<lambda>x. x\<lparr>rr_status := decision\<rparr>)
        (card_review_requests s)\<rparr>))"

definition partner_reviewers :: "ident \<Rightarrow> db \<Rightarrow> admin_membership list" where
  "partner_reviewers artist s =
    concat (map (\<lambda>m. map (\<lambda>_. m) (filter (\<lambda>x. Some (oa_organization_id x) = am_organization_id m \<and>
        oa_artist_id x = artist) (organization_artists s)))
      (filter (\<lambda>m. am_status m = ''active'' \<and> am_access_level m \<in> {''company_admin'', ''manager''})
        (admin_memberships s)))"

definition notify_partner_reviewers :: "card_row \<Rightarrow> db \<Rightarrow> exn + db" where
  "notify_partner_reviewers c s =
    (if \<not> present (c_artist_id c) then Inr s
     else
       foldE (\<lambda>m. notify_admin_once (am_user_id m) ''card_partner_review_requested'' ''card'' (c_id c)
           (''card:'' @ c_id c @ '':partner:'' @ show_int (c_review_version c)))
         (partner_reviewers (the (c_artist_id c)) s) s)"

definition notify_platform_reviewers :: "card_row \<Rightarrow> db \<Rightarrow> exn + db" where
  "notify_platform_reviewers c s =
    foldE (\<lambda>m. notify_admin_once (am_user_id m) ''card_platform_review_requested'' ''card'' (c_id c)
        (''card:'' @ c_id c @ '':platform:'' @ show_int (c_review_version c)))
      (filter (\<lambda>m. am_status m = ''active'' \<and> am_access_level m = ''platform_operator'')
        (admin_memberships s)) s"

text \<open>The argument is the card as the handler has changed it so far.\<close>

definition submit_card_for_release_review :: "card_row \<Rightarrow> db \<Rightarrow> exn + card_row \<times> db" where
  "submit_card_for_release_review c s =
    (let c1 = c\<lparr>c_review_version := c_review_version c + 1, c_release_policy := required_release_policy c,
           c_release_status := ''pending_partner_review'', c_status := ''pending_review''\<rparr>
     in bindE (create_review_request c1 ''partner'' (put_card c1 s)) (\<lambda>s1.
        bindE (notify_partner_reviewers c1 s1) (\<lambda>s2. Inr (c1, s2))))"

section \<open>Catalog\<close>

definition resolve_catalog_ids :: "ident option \<Rightarrow> ident option \<Rightarrow> db \<Rightarrow> exn + ident option" where
  "resolve_catalog_ids artist_id member_id s =
    (if (case artist_id of None \<Rightarrow> False | Some i \<Rightarrow> \<not> list_ex (\<lambda>a. ar_id a = i) (artists s))
     then Inl (AppError 404 ''ARTIST_NOT_FOUND'')
     else
       case member_id of
         None \<Rightarrow> Inr artist_id
       | Some i \<Rightarrow>
           (case find (\<lambda>m. mem_id m = i) (members s) of
              None \<Rightarrow> Inl (AppError 404 ''MEMBER_NOT_FOUND'')
            | Some m \<Rightarrow>
                if artist_id \<noteq> None \<and> artist_id \<noteq> Some (mem_artist_id m)
                then Inl (AppError 422 ''MEMBER_ARTIST_MISMATCH'')
                else Inr (Some (mem_artist_id m))))"

text \<open>The operators' function has the same checks.\<close>

definition resolve_admin_catalog_ids :: "ident option \<Rightarrow> ident option \<Rightarrow> db \<Rightarrow> exn + ident option" where
  "resolve_admin_catalog_ids = resolve_catalog_ids"

definition ensure_artist_catalog_access :: "ident option \<Rightarrow> user \<Rightarrow> db \<Rightarrow> exn + unit" where
  "ensure_artist_catalog_access artist_id u s =
    (case artist_id of
       None \<Rightarrow> Inr ()
     | Some i \<Rightarrow>
         (case find (\<lambda>p. arp_user_id p = u_id u) (artist_profiles s) of
            None \<Rightarrow> Inl (AppError 403 ''ARTIST_CATALOG_FORBIDDEN'')
          | Some p \<Rightarrow>
              if arp_verification_status p \<noteq> ''verified'' \<or> arp_artist_id p \<noteq> i
              then Inl (AppError 403 ''ARTIST_CATALOG_FORBIDDEN'') else Inr ()))"

section \<open>Assets of a card\<close>

definition LENTICULAR_IMAGE_CONTENT_TYPES :: "string list" where
  "LENTICULAR_IMAGE_CONTENT_TYPES = [''image/png'', ''image/jpeg'', ''image/webp'']"

definition asset_not_found :: exn where
  "asset_not_found = AppError 404 ''ASSET_NOT_FOUND''"

definition asset_not_ready :: exn where
  "asset_not_ready = AppError 409 ''ASSET_NOT_READY''"

definition lenticular_asset :: "asset \<Rightarrow> bool" where
  "lenticular_asset a \<longleftrightarrow> as_purpose a = Some ''card'' \<and>
    as_content_type a \<in> Some ` set LENTICULAR_IMAGE_CONTENT_TYPES"

text \<open>\<open>asset.processed_storage_path or asset.storage_path\<close>\<close>

definition asset_path :: "asset \<Rightarrow> string option" where
  "asset_path a = (if present (as_processed_storage_path a) then as_processed_storage_path a else as_storage_path a)"

definition asset_ready :: "(string \<Rightarrow> bool) \<Rightarrow> asset \<Rightarrow> bool" where
  "asset_ready stored a \<longleftrightarrow> present (asset_path a) \<and> stored (the (asset_path a))"

text \<open>A reference to an asset: a value that is not text names none.\<close>

definition asset_of :: "json \<Rightarrow> db \<Rightarrow> asset option" where
  "asset_of j s = (case j of JStr i \<Rightarrow> get_asset i s | _ \<Rightarrow> None)"

definition admin_owns :: "admin_context \<Rightarrow> asset \<Rightarrow> bool" where
  "admin_owns c a \<longleftrightarrow> is_root c \<or> as_owner_id a = u_id (ctx_user c)"

definition validate_admin_file :: "(string \<Rightarrow> bool) \<Rightarrow> admin_context \<Rightarrow> json \<Rightarrow> db \<Rightarrow> exn + unit" where
  "validate_admin_file stored c j s =
    (if \<not> truthy j then Inr ()
     else
       case asset_of j s of
         None \<Rightarrow> Inl asset_not_found
       | Some a \<Rightarrow>
           if \<not> admin_owns c a then Inl asset_not_found
           else if present (as_storage_path a) \<and> \<not> stored (the (as_storage_path a)) then Inl asset_not_ready
           else Inr ())"

definition validate_admin_back :: "(string \<Rightarrow> bool) \<Rightarrow> admin_context \<Rightarrow> jobj \<Rightarrow> db \<Rightarrow> exn + unit" where
  "validate_admin_back stored c design s =
    (let side = (case jget design ''back'' of JObj d \<Rightarrow> d | _ \<Rightarrow> []);
         j = (if truthy (jget side ''backImageAssetId'') then jget side ''backImageAssetId''
              else jget side ''imageAssetId'')
     in if \<not> truthy j then Inr ()
        else
          case asset_of j s of
            None \<Rightarrow> Inl asset_not_found
          | Some a \<Rightarrow>
              if as_purpose a \<noteq> Some ''card'' \<or> \<not> admin_owns c a then Inl asset_not_found
              else if \<not> asset_ready stored a then Inl asset_not_ready
              else Inr ())"

definition validate_admin_lenticular :: "(string \<Rightarrow> bool) \<Rightarrow> admin_context \<Rightarrow> json \<Rightarrow> db \<Rightarrow> exn + unit" where
  "validate_admin_lenticular stored c j s =
    (if j = JNull then Inr ()
     else if (case j of JStr i \<Rightarrow> i = [] | _ \<Rightarrow> True) then Inl (AppError 422 ''INVALID_LENTICULAR_ASSET'')
     else
       case asset_of j s of
         None \<Rightarrow> Inl asset_not_found
       | Some a \<Rightarrow>
           if \<not> admin_owns c a then Inl asset_not_found
           else if \<not> lenticular_asset a then Inl (AppError 422 ''INVALID_LENTICULAR_ASSET'')
           else if \<not> asset_ready stored a then Inl asset_not_ready
           else Inr ())"

text \<open>\<open>values\<close> are the fields of the request body that are set.\<close>

definition validate_admin_assets :: "(string \<Rightarrow> bool) \<Rightarrow> admin_context \<Rightarrow> jobj \<Rightarrow> db \<Rightarrow> exn + unit" where
  "validate_admin_assets stored c values s =
    bindE (foldE (\<lambda>k _. validate_admin_file stored c (jget values k) s)
        [''image_asset_id'', ''handwriting_asset_id'', ''voice_asset_id'', ''video_asset_id'',
         ''benefit_asset_id''] ()) (\<lambda>_.
    case jget values ''design_config'' of
      JObj design \<Rightarrow>
        if design = [] then Inr ()
        else
          (case jget design ''front'' of
             JObj fr \<Rightarrow>
               (case map_of fr ''lenticularAssetId'' of
                  None \<Rightarrow> validate_admin_back stored c design s
                | Some j \<Rightarrow> validate_admin_lenticular stored c j s)
           | _ \<Rightarrow> validate_admin_back stored c design s)
    | _ \<Rightarrow> Inr ())"

section \<open>Cards of operators\<close>

text \<open>The catalog association and the scope of a body, as create and update fix them.\<close>

definition scoped_card_values :: "admin_context \<Rightarrow> ident option \<Rightarrow> ident option \<Rightarrow> jobj \<Rightarrow> db \<Rightarrow> exn + jobj" where
  "scoped_card_values c artist member_id values s =
    bindE (if map_of values ''artist_id'' \<noteq> None \<or> map_of values ''member_id'' \<noteq> None
           then bindE (resolve_admin_catalog_ids (text_column (jget_or values ''artist_id'' (jopt artist)))
                  (text_column (jget_or values ''member_id'' (jopt member_id))) s)
                (\<lambda>i. Inr (jset ''artist_id'' (jopt i) values))
           else Inr values) (\<lambda>values1.
    if is_root c then Inr values1
    else bindE (require_artist (text_column (jget_or values1 ''artist_id'' (jopt artist))) c)
      (\<lambda>i. Inr (jset ''artist_id'' (JStr i) values1)))"

definition create_admin_card :: "(string \<Rightarrow> bool) \<Rightarrow> admin_context \<Rightarrow> jobj \<Rightarrow> db \<Rightarrow> exn + card_row \<times> db" where
  "create_admin_card stored c values s =
    bindE (require_write c) (\<lambda>_.
    bindE (validate_admin_assets stored c values s) (\<lambda>_.
    bindE (scoped_card_values c None None values s) (\<lambda>values1.
    bindE (foldE set_card_field values1
        (blank_card (new_id ''card_'' s) (am_organization_id (ctx_membership c)))) (\<lambda>cd.
    bindE (add_card cd (draw s)) (\<lambda>s1.
    bindE (record_audit (card_audit c ''card.created'' cd []) s1) (\<lambda>s2. Inr (cd, s2)))))))"

text \<open>The card of a path, in the scope of the administrator.\<close>

definition scoped_card :: "admin_context \<Rightarrow> ident \<Rightarrow> db \<Rightarrow> exn + card_row" where
  "scoped_card c i s =
    (case get_card i s of
       None \<Rightarrow> Inl card_not_found
     | Some cd \<Rightarrow>
         bindE (require_organization (c_organization_id cd) c) (\<lambda>_.
         bindE (require_artist (c_artist_id cd) c) (\<lambda>_. Inr cd)))"

definition update_admin_card ::
  "(string \<Rightarrow> bool) \<Rightarrow> admin_context \<Rightarrow> ident \<Rightarrow> jobj \<Rightarrow> db \<Rightarrow> exn + card_row \<times> db" where
  "update_admin_card stored c i values s =
    bindE (scoped_card c i s) (\<lambda>cd.
    bindE (require_write c) (\<lambda>_.
    if c_status cd = ''published'' then Inl invalid_card_status
    else
      bindE (validate_admin_assets stored c values s) (\<lambda>_.
      bindE (scoped_card_values c (c_artist_id cd) (c_member_id cd) values s) (\<lambda>values1.
      bindE (foldE set_card_field values1 cd) (\<lambda>cd1.
      bindE (record_audit (card_audit c ''card.updated'' cd1
          [(''fields'', JArr (map (\<lambda>kv. JStr (fst kv)) (sort_key fst values1)))]) (put_card cd1 s)) (\<lambda>s1.
      Inr (cd1, s1)))))))"

definition delete_admin_card :: "admin_context \<Rightarrow> ident \<Rightarrow> db \<Rightarrow> exn + unit \<times> db" where
  "delete_admin_card c i s =
    bindE (scoped_card c i s) (\<lambda>cd.
    bindE (require_write c) (\<lambda>_.
    if c_status cd \<noteq> ''draft'' \<or> c_release_status cd \<noteq> ''draft'' then Inl invalid_card_status
    else if list_ex (\<lambda>x. cpc_card_id x = i) (card_pack_cards s) then Inl (AppError 409 ''CARD_IN_USE'')
    else
      bindE (record_audit (card_audit c ''card.deleted'' cd [(''status'', JStr ''draft'')]) s) (\<lambda>s1.
      Inr ((), s1\<lparr>cards := filter (\<lambda>x. c_id x \<noteq> i) (cards s1)\<rparr>))))"

definition submit_admin_card_review :: "admin_context \<Rightarrow> ident \<Rightarrow> string option \<Rightarrow> db \<Rightarrow> exn + card_row \<times> db" where
  "submit_admin_card_review c i comment s =
    bindE (require_action ''cards:submit_review'' c) (\<lambda>_.
    bindE (scoped_card c i s) (\<lambda>cd.
    if c_status cd \<notin> {''draft'', ''changes_requested''}
      \<or> c_release_status cd \<notin> {''draft'', ''changes_requested''}
    then Inl invalid_card_status
    else
      bindE (submit_card_for_release_review (cd\<lparr>c_review_note := comment\<rparr>) s) (\<lambda>(cd1, s1).
      bindE (record_audit (card_audit c ''card.review_submitted'' cd1 [(''reviewNote'', jopt comment)]) s1) (\<lambda>s2.
      Inr (cd1, s2)))))"

text \<open>The review by a root administrator, which sets the status only.\<close>

definition review_card :: "admin_context \<Rightarrow> ident \<Rightarrow> string \<Rightarrow> string option \<Rightarrow> db \<Rightarrow> exn + card_row \<times> db" where
  "review_card c i decision comment s =
    bindE (require_root c) (\<lambda>_.
    case get_card i s of
      None \<Rightarrow> Inl card_not_found
    | Some cd \<Rightarrow>
        if c_status cd \<noteq> ''pending_review'' then Inl (AppError 409 ''INVALID_REVIEW_STATUS'')
        else
          let cd1 = cd\<lparr>c_status := (if decision = ''approve'' then ''approved'' else ''changes_requested'')\<rparr>
          in bindE (record_audit
               \<lparr>au_actor_user_id = Some (u_id (ctx_user c)),
                au_action = (if decision = ''approve'' then ''card.review_approved'' else ''card.changes_requested''),
                au_entity_type = ''card'', au_entity_id = i, au_organization_id = None, au_artist_id = None,
                au_details = (if present comment then [(''note'', jopt comment)] else [])\<rparr> (put_card cd1 s))
             (\<lambda>s1. Inr (cd1, s1)))"

definition approve_card :: "admin_context \<Rightarrow> ident \<Rightarrow> db \<Rightarrow> exn + card_row \<times> db" where
  "approve_card c i s = review_card c i ''approve'' None s"

definition release_decision_payload :: "string \<Rightarrow> string option \<Rightarrow> exn + unit" where
  "release_decision_payload decision comment =
    (if decision \<notin> {''approved'', ''changes_requested''} then Inl (AppError 422 ''INVALID_REVIEW_DECISION'')
     else if decision = ''changes_requested'' \<and> \<not> present comment
     then Inl (AppError 422 ''REVIEW_NOTE_REQUIRED'')
     else Inr ())"

text \<open>The pending request of the stage, closed with the decision.\<close>

definition decide_stage ::
  "string \<Rightarrow> card_row \<Rightarrow> ident \<Rightarrow> string \<Rightarrow> string option \<Rightarrow> db \<Rightarrow> exn + db" where
  "decide_stage stage cd reviewer decision comment s =
    (if c_release_status cd \<noteq> ''pending_'' @ stage @ ''_review'' then Inl (AppError 409 ''INVALID_REVIEW_STATUS'')
     else
       case active_review_request cd stage s of
         None \<Rightarrow> Inl (AppError 409 ''INVALID_REVIEW_STATUS'')
       | Some r \<Rightarrow> record_review_decision r reviewer decision comment s)"

definition decision_details :: "string \<Rightarrow> string option \<Rightarrow> jobj" where
  "decision_details decision comment = [(''decision'', JStr decision), (''note'', jopt comment)]"

text \<open>What the decision makes of the card.\<close>

definition stage_decided :: "string \<Rightarrow> string option \<Rightarrow> card_row \<Rightarrow> card_row" where
  "stage_decided decision comment cd =
    (if decision = ''changes_requested''
     then cd\<lparr>c_release_status := ''changes_requested'', c_status := ''changes_requested'', c_review_note := comment\<rparr>
     else cd\<lparr>c_release_status := ''approved'', c_status := ''approved''\<rparr>)"

text \<open>A card of the studio has no organization until its first partner review.\<close>

definition adopt_card :: "admin_context \<Rightarrow> card_row \<Rightarrow> card_row" where
  "adopt_card c cd =
    (case (c_organization_id cd, ctx_organization c) of
       (None, Some g) \<Rightarrow> cd\<lparr>c_organization_id := Some (org_id g)\<rparr>
     | _ \<Rightarrow> cd)"

definition partner_outcome :: "string \<Rightarrow> string option \<Rightarrow> card_row \<Rightarrow> db \<Rightarrow> exn + card_row \<times> db" where
  "partner_outcome decision comment cd s =
    (if decision \<noteq> ''changes_requested'' \<and> c_release_policy cd = ''partner_and_platform'' then
       (let cd1 = cd\<lparr>c_release_status := ''pending_platform_review'', c_status := ''pending_review''\<rparr>
        in bindE (create_review_request cd1 ''platform'' (put_card cd1 s)) (\<lambda>s1.
           bindE (notify_platform_reviewers cd1 s1) (\<lambda>s2. Inr (cd1, s2))))
     else Inr (stage_decided decision comment cd, put_card (stage_decided decision comment cd) s))"

definition decide_partner_review ::
  "admin_context \<Rightarrow> ident \<Rightarrow> string \<Rightarrow> string option \<Rightarrow> db \<Rightarrow> exn + card_row \<times> db" where
  "decide_partner_review c i decision comment s =
    (if am_access_level (ctx_membership c) \<notin> {''company_admin'', ''manager''}
     then Inl (AppError 403 ''ADMIN_PARTNER_REVIEW_REQUIRED'')
     else
       bindE (release_decision_payload decision comment) (\<lambda>_.
       bindE (scoped_card c i s) (\<lambda>cd0.
       let cd = adopt_card c cd0
       in bindE (decide_stage ''partner'' cd (u_id (ctx_user c)) decision comment (put_card cd s)) (\<lambda>s1.
          bindE (partner_outcome decision comment cd s1) (\<lambda>(cd1, s2).
          bindE (record_audit (card_audit c ''card.partner_review_decided'' cd1
              (decision_details decision comment)) s2) (\<lambda>s3.
          Inr (cd1, s3)))))))"

definition decide_platform_review ::
  "admin_context \<Rightarrow> ident \<Rightarrow> string \<Rightarrow> string option \<Rightarrow> db \<Rightarrow> exn + card_row \<times> db" where
  "decide_platform_review c i decision comment s =
    (if \<not> is_platform_operator c then Inl (AppError 403 ''ADMIN_PLATFORM_REVIEW_REQUIRED'')
     else
       bindE (release_decision_payload decision comment) (\<lambda>_.
       case get_card i s of
         None \<Rightarrow> Inl card_not_found
       | Some cd \<Rightarrow>
           bindE (decide_stage ''platform'' cd (u_id (ctx_user c)) decision comment s) (\<lambda>s1.
           let cd1 = stage_decided decision comment cd
           in bindE (record_audit ((card_audit c ''card.platform_review_decided'' cd1
                  (decision_details decision comment))\<lparr>au_organization_id := None\<rparr>) (put_card cd1 s1)) (\<lambda>s2.
              Inr (cd1, s2)))))"

section \<open>The studio\<close>

definition owned_card :: "ident \<Rightarrow> user \<Rightarrow> db \<Rightarrow> exn + card_row" where
  "owned_card i u s =
    (case get_card i s of
       None \<Rightarrow> Inl card_not_found
     | Some cd \<Rightarrow> if c_owner_artist_id cd \<noteq> Some (u_id u) then Inl card_not_found else Inr cd)"

definition owned_asset :: "ident \<Rightarrow> user \<Rightarrow> db \<Rightarrow> exn + asset" where
  "owned_asset i u s =
    (case get_asset i s of
       None \<Rightarrow> Inl asset_not_found
     | Some a \<Rightarrow> if as_owner_id a \<noteq> u_id u then Inl asset_not_found else Inr a)"

definition media_incomplete :: exn where
  "media_incomplete = AppError 409 ''CARD_MEDIA_INCOMPLETE''"

definition card_design :: "card_row \<Rightarrow> jobj" where
  "card_design cd = (case c_design_config cd of None \<Rightarrow> [] | Some d \<Rightarrow> d)"

definition ensure_ready_lenticular_asset :: "(string \<Rightarrow> bool) \<Rightarrow> card_row \<Rightarrow> user \<Rightarrow> db \<Rightarrow> exn + unit" where
  "ensure_ready_lenticular_asset stored cd u s =
    (case jget (card_design cd) ''front'' of
       JObj fr \<Rightarrow>
         if jget fr ''interaction'' \<noteq> JStr ''lenticular'' then Inr ()
         else
           (case jget fr ''lenticularAssetId'' of
              JStr i \<Rightarrow>
                if i = [] then Inl media_incomplete
                else
                  (case get_asset i s of
                     None \<Rightarrow> Inl media_incomplete
                   | Some a \<Rightarrow>
                       if as_owner_id a \<noteq> u_id u \<or> \<not> lenticular_asset a \<or> \<not> asset_ready stored a
                       then Inl media_incomplete else Inr ())
            | _ \<Rightarrow> Inl media_incomplete)
     | _ \<Rightarrow> Inr ())"

definition invalid_layers :: exn where
  "invalid_layers = AppError 422 ''INVALID_CREATIVE_LAYERS''"

definition validate_layer :: "user \<Rightarrow> db \<Rightarrow> json \<Rightarrow> exn + unit" where
  "validate_layer u s layer =
    (case layer of
       JObj d \<Rightarrow>
         (case jget d ''assetId'' of
            JNull \<Rightarrow> Inr ()
          | JStr i \<Rightarrow> if i = [] then Inl invalid_layers else bindE (owned_asset i u s) (\<lambda>_. Inr ())
          | _ \<Rightarrow> Inl invalid_layers)
     | _ \<Rightarrow> Inl invalid_layers)"

definition validate_layers :: "user \<Rightarrow> db \<Rightarrow> jobj \<Rightarrow> exn + unit" where
  "validate_layers u s design =
    (case map_of design ''creativeLayers'' of
       None \<Rightarrow> Inr ()
     | Some (JArr layers) \<Rightarrow>
         if 50 < length layers then Inl invalid_layers
         else foldE (\<lambda>layer _. validate_layer u s layer) layers ()
     | Some _ \<Rightarrow> Inl invalid_layers)"

definition validate_design_assets :: "jobj \<Rightarrow> user \<Rightarrow> db \<Rightarrow> exn + unit" where
  "validate_design_assets design u s =
    (if design = [] then Inr ()
     else
       bindE (validate_layers u s design) (\<lambda>_.
       case jget design ''front'' of
         JObj fr \<Rightarrow>
           (case map_of fr ''lenticularAssetId'' of
              None \<Rightarrow> Inr ()
            | Some JNull \<Rightarrow> Inr ()
            | Some (JStr i) \<Rightarrow>
                if i = [] then Inl (AppError 422 ''INVALID_LENTICULAR_ASSET'')
                else
                  bindE (owned_asset i u s) (\<lambda>a.
                  if lenticular_asset a then Inr () else Inl (AppError 422 ''INVALID_LENTICULAR_ASSET''))
            | Some _ \<Rightarrow> Inl (AppError 422 ''INVALID_LENTICULAR_ASSET''))
       | _ \<Rightarrow> Inr ()))"

definition dict_of :: "json \<Rightarrow> jobj" where
  "dict_of j = (case j of JObj d \<Rightarrow> d | _ \<Rightarrow> [])"

text \<open>The asset references of a body, checked when they are truthy.\<close>

definition check_owned :: "user \<Rightarrow> db \<Rightarrow> json \<Rightarrow> exn + unit" where
  "check_owned u s j =
    (case j of JStr i \<Rightarrow> if i = [] then Inr () else bindE (owned_asset i u s) (\<lambda>_. Inr ()) | _ \<Rightarrow> Inr ())"

text \<open>\<open>payload\<close> holds every field of the body.\<close>

definition create_card :: "jobj \<Rightarrow> user \<Rightarrow> db \<Rightarrow> exn + card_row \<times> db" where
  "create_card payload u s =
    bindE (case text_column (jget payload ''image_asset_id'') of
             None \<Rightarrow> Inl asset_not_found
           | Some i \<Rightarrow> bindE (owned_asset i u s) (\<lambda>_. Inr ())) (\<lambda>_.
    bindE (foldE (\<lambda>k _. check_owned u s (jget payload k))
        [''voice_asset_id'', ''video_asset_id'', ''handwriting_asset_id''] ()) (\<lambda>_.
    bindE (validate_design_assets (dict_of (jget payload ''design_config'')) u s) (\<lambda>_.
    bindE (resolve_catalog_ids (text_column (jget payload ''artist_id''))
        (text_column (jget payload ''member_id'')) s) (\<lambda>artist.
    bindE (ensure_artist_catalog_access artist u s) (\<lambda>_.
    bindE (foldE set_card_field (jset ''artist_id'' (jopt artist) payload)
        ((blank_card (new_id ''card_'' s) None)\<lparr>c_owner_artist_id := Some (u_id u)\<rparr>)) (\<lambda>cd.
    bindE (add_card cd (draw s)) (\<lambda>s1. Inr (cd, s1))))))))"

definition update_card :: "ident \<Rightarrow> jobj \<Rightarrow> user \<Rightarrow> db \<Rightarrow> exn + card_row \<times> db" where
  "update_card i values u s =
    bindE (owned_card i u s) (\<lambda>cd.
    if c_status cd \<notin> {''draft'', ''changes_requested''} then Inl invalid_card_status
    else
      bindE (if map_of values ''design_config'' \<noteq> None
             then validate_design_assets (dict_of (jget values ''design_config'')) u s else Inr ()) (\<lambda>_.
      bindE (foldE (\<lambda>k _. case jget values k of JStr a \<Rightarrow> bindE (owned_asset a u s) (\<lambda>_. Inr ()) | _ \<Rightarrow> Inr ())
          [''image_asset_id'', ''handwriting_asset_id'', ''voice_asset_id'', ''video_asset_id''] ()) (\<lambda>_.
      bindE (if map_of values ''artist_id'' \<noteq> None \<or> map_of values ''member_id'' \<noteq> None
             then
               bindE (resolve_catalog_ids (text_column (jget_or values ''artist_id'' (jopt (c_artist_id cd))))
                   (text_column (jget_or values ''member_id'' (jopt (c_member_id cd)))) s) (\<lambda>artist.
               bindE (ensure_artist_catalog_access artist u s) (\<lambda>_.
               Inr (jset ''artist_id'' (jopt artist) values)))
             else Inr values) (\<lambda>values1.
      bindE (foldE set_card_field values1 cd) (\<lambda>cd1.
      let cd2 = (if c_release_status cd1 = ''changes_requested''
                 then cd1\<lparr>c_release_status := ''draft'', c_status := ''draft''\<rparr> else cd1)
      in Inr (cd2, put_card cd2 s))))))"

text \<open>A file the card promises must be uploaded.\<close>

definition ensure_uploaded :: "ident option \<Rightarrow> user \<Rightarrow> db \<Rightarrow> exn + unit" where
  "ensure_uploaded i u s =
    (if \<not> present i then Inl media_incomplete
     else bindE (owned_asset (the i) u s) (\<lambda>a.
       if \<not> present (as_storage_path a) \<or> as_upload_completed_at a = None then Inl media_incomplete
       else Inr ()))"

definition video_enabled :: "card_row \<Rightarrow> exn + bool" where
  "video_enabled cd =
    (case jget_or (card_design cd) ''video'' (JObj []) of
       JObj d \<Rightarrow> Inr (truthy (jget d ''enabled''))
     | _ \<Rightarrow> Inl AttributeError)"

definition submit_review :: "(string \<Rightarrow> bool) \<Rightarrow> ident \<Rightarrow> string option \<Rightarrow> user \<Rightarrow> db \<Rightarrow> exn + card_row \<times> db" where
  "submit_review stored i comment u s =
    bindE (owned_card i u s) (\<lambda>cd.
    if c_status cd \<noteq> ''draft'' \<or> c_release_status cd \<notin> {''draft'', ''changes_requested''}
    then Inl invalid_card_status
    else
      bindE (if c_has_voice cd then ensure_uploaded (c_voice_asset_id cd) u s else Inr ()) (\<lambda>_.
      bindE (video_enabled cd) (\<lambda>video.
      bindE (if video then ensure_uploaded (c_video_asset_id cd) u s else Inr ()) (\<lambda>_.
      bindE (ensure_ready_lenticular_asset stored cd u s) (\<lambda>_.
      submit_card_for_release_review (cd\<lparr>c_review_note := comment\<rparr>) s)))))"

subsection \<open>Comments\<close>

definition create_card_comment ::
  "ident \<Rightarrow> string \<Rightarrow> ident option \<Rightarrow> int option \<Rightarrow> user \<Rightarrow> db \<Rightarrow> exn + card_collaboration_comment \<times> db" where
  "create_card_comment i body mention version u s =
    bindE (owned_card i u s) (\<lambda>cd.
    bindE (if \<not> present mention then Inr ()
           else
             case get_user (the mention) s of
               None \<Rightarrow> Inl (AppError 404 ''MENTION_USER_NOT_FOUND'')
             | Some m \<Rightarrow> if u_role m \<in> {ARTIST, ADMIN} then Inr ()
                 else Inl (AppError 404 ''MENTION_USER_NOT_FOUND'')) (\<lambda>_.
    let x = \<lparr>ccl_id = new_id ''comment_'' s, ccl_card_id = i, ccl_author_user_id = u_id u, ccl_body = body,
          ccl_mention_user_id = mention, ccl_status = ''open'',
          ccl_review_version = (if version \<noteq> None \<and> version \<noteq> Some 0 then version
            else if c_review_version cd = 0 then None else Some (c_review_version cd)),
          ccl_created_at = now s\<rparr>
    in bindE (insert_row (\<lambda>r x. ccl_id x = ccl_id r) x (card_collaboration_comments s)) (\<lambda>rows.
       Inr (x, (draw s)\<lparr>card_collaboration_comments := rows\<rparr>))))"

definition update_card_comment :: "ident \<Rightarrow> ident \<Rightarrow> string \<Rightarrow> user \<Rightarrow> db \<Rightarrow> exn + unit \<times> db" where
  "update_card_comment i j status u s =
    bindE (owned_card i u s) (\<lambda>_.
    case find (\<lambda>x. ccl_id x = j) (card_collaboration_comments s) of
      None \<Rightarrow> Inl (AppError 404 ''COMMENT_NOT_FOUND'')
    | Some x \<Rightarrow>
        if ccl_card_id x \<noteq> i then Inl (AppError 404 ''COMMENT_NOT_FOUND'')
        else Inr ((), s\<lparr>card_collaboration_comments :=
          update_where (\<lambda>x. ccl_id x = j) (\<lambda>x. x\<lparr>ccl_status := status\<rparr>) (card_collaboration_comments s)\<rparr>))"

subsection \<open>Effect versions\<close>

definition ensure_card_editable :: "card_row \<Rightarrow> exn + unit" where
  "ensure_card_editable cd =
    (if c_status cd \<notin> {''draft'', ''changes_requested''}
       \<or> c_release_status cd \<notin> {''draft'', ''changes_requested''}
     then Inl invalid_card_status else Inr ())"

definition put_version :: "card_effect_version \<Rightarrow> db \<Rightarrow> db" where
  "put_version v s = s\<lparr>card_effect_versions :=
    update_where (\<lambda>x. cev_id x = cev_id v) (\<lambda>_. v) (card_effect_versions s)\<rparr>"

definition version_of_card :: "ident \<Rightarrow> ident \<Rightarrow> db \<Rightarrow> exn + card_effect_version" where
  "version_of_card i j s =
    (case find (\<lambda>v. cev_id v = j) (card_effect_versions s) of
       None \<Rightarrow> Inl (AppError 404 ''EFFECT_VERSION_NOT_FOUND'')
     | Some v \<Rightarrow> if cev_card_id v \<noteq> i then Inl (AppError 404 ''EFFECT_VERSION_NOT_FOUND'') else Inr v)"

definition effect_version_or_404 :: "ident \<Rightarrow> ident \<Rightarrow> user \<Rightarrow> db \<Rightarrow> exn + card_effect_version" where
  "effect_version_or_404 i j u s = bindE (owned_card i u s) (\<lambda>_. version_of_card i j s)"

definition latest_version :: "ident \<Rightarrow> db \<Rightarrow> int" where
  "latest_version i s = foldr max (map cev_version (filter (\<lambda>v. cev_card_id v = i) (card_effect_versions s))) 0"

definition create_effect_version :: "ident \<Rightarrow> jobj \<Rightarrow> user \<Rightarrow> db \<Rightarrow> exn + card_effect_version \<times> db" where
  "create_effect_version i design u s =
    bindE (owned_card i u s) (\<lambda>cd.
    bindE (ensure_card_editable cd) (\<lambda>_.
    bindE (validate_effect_config (JObj design)) (\<lambda>config.
    bindE (validate_design_assets config u s) (\<lambda>_.
    let v = \<lparr>cev_id = new_id ''effect_'' s, cev_card_id = i, cev_version = latest_version i s + 1,
          cev_design_config = config, cev_author_user_id = u_id u, cev_status = ''draft'', cev_review_note = None,
          cev_submitted_at = None, cev_approved_at = None, cev_created_at = now s\<rparr>
    in bindE (insert_row (\<lambda>r x. cev_id x = cev_id r \<or> (cev_card_id x = cev_card_id r \<and> cev_version x = cev_version r))
         v (card_effect_versions s)) (\<lambda>rows.
       Inr (v, (draw s)\<lparr>card_effect_versions := rows\<rparr>))))))"

definition update_effect_version ::
  "ident \<Rightarrow> ident \<Rightarrow> jobj option \<Rightarrow> user \<Rightarrow> db \<Rightarrow> exn + card_effect_version \<times> db" where
  "update_effect_version i j design u s =
    bindE (owned_card i u s) (\<lambda>cd.
    bindE (ensure_card_editable cd) (\<lambda>_.
    bindE (effect_version_or_404 i j u s) (\<lambda>v.
    if cev_status v \<notin> {''draft'', ''rejected''} then Inl (AppError 409 ''EFFECT_VERSION_LOCKED'')
    else
      bindE (case design of
               None \<Rightarrow> Inr v
             | Some d \<Rightarrow>
                 bindE (validate_effect_config (JObj d)) (\<lambda>config.
                 bindE (validate_design_assets config u s) (\<lambda>_. Inr (v\<lparr>cev_design_config := config\<rparr>)))) (\<lambda>v1.
      let v2 = v1\<lparr>cev_status := ''draft'', cev_review_note := None\<rparr> in Inr (v2, put_version v2 s)))))"

definition submit_effect_version_review :: "ident \<Rightarrow> ident \<Rightarrow> user \<Rightarrow> db \<Rightarrow> exn + card_effect_version \<times> db" where
  "submit_effect_version_review i j u s =
    bindE (owned_card i u s) (\<lambda>cd.
    bindE (ensure_card_editable cd) (\<lambda>_.
    bindE (effect_version_or_404 i j u s) (\<lambda>v.
    if cev_status v \<notin> {''draft'', ''rejected''} then Inl (AppError 409 ''EFFECT_VERSION_INVALID_STATUS'')
    else
      let v1 = v\<lparr>cev_status := ''pending_review'', cev_submitted_at := Some (now s), cev_review_note := None\<rparr>
      in Inr (v1, put_version v1 s))))"

definition require_scoped_action :: "string \<Rightarrow> admin_context \<Rightarrow> exn + unit" where
  "require_scoped_action action c = (if is_root c then Inr () else require_action action c)"

definition scoped_effect_version_or_404 ::
  "admin_context \<Rightarrow> ident \<Rightarrow> ident \<Rightarrow> db \<Rightarrow> exn + card_row \<times> card_effect_version" where
  "scoped_effect_version_or_404 c i j s =
    bindE (scoped_card c i s) (\<lambda>cd. bindE (version_of_card i j s) (\<lambda>v. Inr (cd, v)))"

definition approve_effect_version :: "admin_context \<Rightarrow> ident \<Rightarrow> ident \<Rightarrow> db \<Rightarrow> exn + card_effect_version \<times> db" where
  "approve_effect_version c i j s =
    bindE (require_scoped_action ''cards:write'' c) (\<lambda>_.
    bindE (scoped_effect_version_or_404 c i j s) (\<lambda>(cd, v).
    if cev_status v \<noteq> ''pending_review'' then Inl (AppError 409 ''EFFECT_VERSION_INVALID_STATUS'')
    else
      bindE (validate_effect_config (JObj (cev_design_config v))) (\<lambda>config.
      let v1 = v\<lparr>cev_status := ''approved'', cev_approved_at := Some (now s), cev_review_note := None\<rparr>
      in Inr (v1, put_card (cd\<lparr>c_design_config := Some config\<rparr>) (put_version v1 s)))))"

definition review_effect_version ::
  "admin_context \<Rightarrow> ident \<Rightarrow> ident \<Rightarrow> string \<Rightarrow> string option \<Rightarrow> db \<Rightarrow> exn + card_effect_version \<times> db" where
  "review_effect_version c i j decision comment s =
    bindE (require_scoped_action ''cards:write'' c) (\<lambda>_.
    bindE (scoped_effect_version_or_404 c i j s) (\<lambda>(cd, v).
    if cev_status v \<noteq> ''pending_review'' then Inl (AppError 409 ''EFFECT_VERSION_INVALID_STATUS'')
    else if decision = ''approve'' then
      bindE (validate_effect_config (JObj (cev_design_config v))) (\<lambda>config.
      let v1 = v\<lparr>cev_status := ''approved'', cev_approved_at := Some (now s), cev_review_note := comment\<rparr>
      in Inr (v1, put_card (cd\<lparr>c_design_config := Some config\<rparr>) (put_version v1 s)))
    else
      let v1 = v\<lparr>cev_status := ''rejected'', cev_approved_at := None, cev_review_note := comment\<rparr>
      in Inr (v1, put_version v1 s)))"

section \<open>Drops\<close>

definition drop_error :: exn where
  "drop_error = AppError 404 ''RESOURCE_NOT_FOUND''"

definition organization_artist_or_404 :: "admin_context \<Rightarrow> ident \<Rightarrow> ident \<Rightarrow> db \<Rightarrow> exn + unit" where
  "organization_artist_or_404 c organization artist s =
    (if \<not> list_ex (\<lambda>x. oa_organization_id x = organization \<and> oa_artist_id x = artist) (organization_artists s)
     then Inl drop_error
     else if \<not> is_root c \<and> am_access_level (ctx_membership c) \<noteq> ''company_admin'' \<and> artist \<notin> set (ctx_artists c)
     then Inl drop_error
     else Inr ())"

definition scoped_drop_or_404 :: "ident \<Rightarrow> admin_context \<Rightarrow> db \<Rightarrow> exn + drop_row" where
  "scoped_drop_or_404 i c s =
    (case get_drop i s of
       None \<Rightarrow> Inl (AppError 404 ''DROP_NOT_FOUND'')
     | Some d \<Rightarrow>
         if is_root c then Inr d
         else
           (case (ctx_organization c, d_artist_id d) of
              (Some g, Some artist) \<Rightarrow>
                if d_organization_id d \<noteq> Some (org_id g) then Inl drop_error
                else bindE (organization_artist_or_404 c (org_id g) artist s) (\<lambda>_. Inr d)
            | _ \<Rightarrow> Inl drop_error))"

definition ensure_not_root_partner_drop :: "admin_context \<Rightarrow> drop_row \<Rightarrow> exn + unit" where
  "ensure_not_root_partner_drop c d =
    (if is_root c \<and> d_organization_id d \<noteq> None then Inl (AppError 403 ''ADMIN_WRITE_REQUIRED'') else Inr ())"

definition put_drop :: "drop_row \<Rightarrow> db \<Rightarrow> db" where
  "put_drop d s = s\<lparr>drops := update_where (\<lambda>x. d_id x = d_id d) (\<lambda>_. d) (drops s)\<rparr>"

definition drop_audit :: "admin_context \<Rightarrow> string \<Rightarrow> drop_row \<Rightarrow> jobj \<Rightarrow> audit_args" where
  "drop_audit c action d details =
    \<lparr>au_actor_user_id = Some (u_id (ctx_user c)), au_action = action, au_entity_type = ''drop'',
     au_entity_id = d_id d, au_organization_id = d_organization_id d, au_artist_id = d_artist_id d,
     au_details = details\<rparr>"

definition bad_window :: "time option \<Rightarrow> time option \<Rightarrow> bool" where
  "bad_window starts ends \<longleftrightarrow> (case (starts, ends) of (Some a, Some b) \<Rightarrow> b \<le> a | _ \<Rightarrow> False)"

definition create_drop ::
  "admin_context \<Rightarrow> string \<Rightarrow> ident option \<Rightarrow> ident option \<Rightarrow> time option \<Rightarrow> time option \<Rightarrow> db \<Rightarrow> exn + drop_row \<times> db" where
  "create_drop c name organization artist starts ends s =
    bindE (require_scoped_action ''drops:write'' c) (\<lambda>_.
    if bad_window starts ends then Inl (AppError 422 ''INVALID_DROP_WINDOW'')
    else
      bindE (if \<not> is_root c then
               (if artist = None then Inl (AppError 422 ''ARTIST_REQUIRED'')
                else Inr (am_organization_id (ctx_membership c)))
             else if organization \<noteq> None \<or> artist \<noteq> None then Inl (AppError 403 ''ADMIN_WRITE_REQUIRED'')
             else Inr organization) (\<lambda>organization1.
      bindE (if present organization1 \<and> present artist
             then organization_artist_or_404 c (the organization1) (the artist) s else Inr ()) (\<lambda>_.
      let d = \<lparr>d_id = new_id ''drop_'' s, d_name = name, d_status = ''draft'', d_organization_id = organization1,
            d_artist_id = artist, d_starts_at = starts, d_ends_at = ends\<rparr>
      in bindE (insert_row (\<lambda>r x. d_id x = d_id r) d (drops s)) (\<lambda>rows.
         bindE (record_audit (drop_audit c ''drop.created'' d []) ((draw s)\<lparr>drops := rows\<rparr>)) (\<lambda>s1.
         Inr (d, s1))))))"

definition link_card_to_drop :: "admin_context \<Rightarrow> ident \<Rightarrow> ident \<Rightarrow> db \<Rightarrow> exn + card_row \<times> db" where
  "link_card_to_drop c i card_id s =
    bindE (require_scoped_action ''drops:write'' c) (\<lambda>_.
    bindE (scoped_drop_or_404 i c s) (\<lambda>d.
    bindE (ensure_not_root_partner_drop c d) (\<lambda>_.
    case get_card card_id s of
      None \<Rightarrow> Inl card_not_found
    | Some cd \<Rightarrow>
        if c_artist_id cd \<noteq> d_artist_id d then Inl drop_error
        else
          bindE (if is_root c then Inr [] else require_artist (c_artist_id cd) c) (\<lambda>_.
          if c_release_status cd \<noteq> ''approved'' then Inl (AppError 409 ''CARD_RELEASE_NOT_APPROVED'')
          else
            let live = (d_status d = ''live'');
                cd1 = cd\<lparr>c_release_status := (if live then ''published'' else ''drop_ready''),
                  c_status := (if live then ''published'' else ''approved''), c_drop_id := Some (d_id d)\<rparr>
            in bindE (record_audit (drop_audit c ''drop.card_linked'' d [(''cardId'', JStr (c_id cd))])
                 (put_card cd1 s)) (\<lambda>s1. Inr (cd1, s1))))))"

definition notify_fan :: "string \<Rightarrow> user \<Rightarrow> db \<Rightarrow> exn + db" where
  "notify_fan kind fan s =
    (let r = \<lparr>n_id = new_id ''notification_'' s, n_user_id = u_id fan, n_kind = kind, n_entity_type = None,
           n_entity_id = None, n_event_key = None, n_is_read = False, n_read_at = None, n_created_at = now s\<rparr>
     in bindE (add_notification r (draw s)) (\<lambda>s1.
        if u_notification_email_enabled fan \<and> present (u_email fan)
        then add_delivery (n_id r) ''email'' (the (u_email fan)) s1 else Inr s1))"

definition notify_fans :: "string \<Rightarrow> db \<Rightarrow> exn + db" where
  "notify_fans kind s = foldE (notify_fan kind) (filter (\<lambda>u. u_role u = FAN) (users s)) s"

definition publish_linked_cards :: "ident \<Rightarrow> db \<Rightarrow> db" where
  "publish_linked_cards i s = s\<lparr>cards :=
    update_where (\<lambda>x. c_drop_id x = Some i \<and> c_release_status x = ''drop_ready'')
      (\<lambda>x. x\<lparr>c_release_status := ''published'', c_status := ''published''\<rparr>) (cards s)\<rparr>"

definition update_drop_status :: "admin_context \<Rightarrow> ident \<Rightarrow> string \<Rightarrow> db \<Rightarrow> exn + drop_row \<times> db" where
  "update_drop_status c i status s =
    bindE (require_scoped_action ''drops:write'' c) (\<lambda>_.
    bindE (scoped_drop_or_404 i c s) (\<lambda>d.
    bindE (ensure_not_root_partner_drop c d) (\<lambda>_.
    let d1 = d\<lparr>d_status := status\<rparr>; s1 = put_drop d1 s
    in if d_status d \<noteq> ''live'' \<and> status = ''live'' then
         bindE (record_audit (drop_audit c ''drop.started'' d1 [(''previousStatus'', JStr (d_status d))])
           (publish_linked_cards i s1)) (\<lambda>s2.
         bindE (notify_fans ''drop_started'' s2) (\<lambda>s3. Inr (d1, s3)))
       else Inr (d1, s1))))"

definition submit_drop :: "admin_context \<Rightarrow> ident \<Rightarrow> db \<Rightarrow> exn + drop_row \<times> db" where
  "submit_drop c i s =
    bindE (require_scoped_action ''drops:submit'' c) (\<lambda>_.
    bindE (scoped_drop_or_404 i c s) (\<lambda>d.
    if d_status d \<noteq> ''draft'' then Inl (AppError 409 ''INVALID_DROP_STATUS'')
    else
      let d1 = d\<lparr>d_status := ''pending_review''\<rparr>
      in bindE (record_audit (drop_audit c ''drop.submitted'' d1 []) (put_drop d1 s)) (\<lambda>s1. Inr (d1, s1))))"

text \<open>
  A body of the update: \<open>None\<close> for a field that is not set, and the new value, possibly
  null, otherwise.
\<close>

definition update_drop ::
  "admin_context \<Rightarrow> ident \<Rightarrow> string option option \<Rightarrow> time option option \<Rightarrow> time option option \<Rightarrow> db
    \<Rightarrow> exn + drop_row \<times> db" where
  "update_drop c i name starts ends s =
    bindE (require_scoped_action ''drops:write'' c) (\<lambda>_.
    bindE (scoped_drop_or_404 i c s) (\<lambda>d.
    let starts1 = (case starts of None \<Rightarrow> d_starts_at d | Some t \<Rightarrow> t);
        ends1 = (case ends of None \<Rightarrow> d_ends_at d | Some t \<Rightarrow> t)
    in if bad_window starts1 ends1 then Inl (AppError 422 ''INVALID_DROP_WINDOW'')
       else
         bindE (case name of None \<Rightarrow> Inr (d_name d) | Some None \<Rightarrow> Inl IntegrityError | Some (Some t) \<Rightarrow> Inr t) (\<lambda>name1.
         let d1 = d\<lparr>d_name := name1, d_starts_at := starts1, d_ends_at := ends1\<rparr>;
             fields = (if ends = None then [] else [''ends_at'']) @ (if name = None then [] else [''name''])
               @ (if starts = None then [] else [''starts_at''])
         in bindE (record_audit (drop_audit c ''drop.updated'' d1 [(''fields'', JArr (map JStr fields))])
              (put_drop d1 s)) (\<lambda>s1. Inr (d1, s1)))))"

section \<open>What a release requires\<close>

definition release_key :: "card_row \<Rightarrow> ident \<times> string \<times> string \<times> int" where
  "release_key c = (c_id c, c_release_policy c, c_release_status c, c_review_version c)"

text \<open>The stage has approved this version of the card, and the decision is on record.\<close>

definition stage_approved :: "string \<Rightarrow> ident \<Rightarrow> int \<Rightarrow> db \<Rightarrow> bool" where
  "stage_approved stage i v s \<longleftrightarrow>
    (\<exists>r \<in> set (card_review_requests s). rr_card_id r = i \<and> rr_version r = v \<and> rr_stage r = stage \<and>
      rr_status r = ''approved'' \<and>
      (\<exists>d \<in> set (card_review_decisions s). rd_request_id d = rr_id r \<and> rd_decision d = ''approved''))"

definition released :: "string set" where
  "released = {''approved'', ''drop_ready'', ''published''}"

fun key_ok :: "db \<Rightarrow> ident \<times> string \<times> string \<times> int \<Rightarrow> bool" where
  "key_ok s (i, policy, status, v) \<longleftrightarrow>
    (status = ''pending_platform_review'' \<or> status \<in> released \<longrightarrow> stage_approved ''partner'' i v s) \<and>
    (status \<in> released \<and> policy = ''partner_and_platform'' \<longrightarrow> stage_approved ''platform'' i v s)"

definition release_ok :: "db \<Rightarrow> bool" where
  "release_ok s \<longleftrightarrow> unique_by rr_id (card_review_requests s) \<and>
    (\<forall>c \<in> set (cards s). key_ok s (release_key c))"

lemma release_ok_cong:
  assumes "cards s' = cards s" and "card_review_requests s' = card_review_requests s"
    and "card_review_decisions s' = card_review_decisions s"
  shows "release_ok s' = release_ok s"
proof -
  have "key_ok s' k = key_ok s k" for k
    using assms by (cases k) (simp add: stage_approved_def)
  with assms show ?thesis by (simp add: release_ok_def)
qed

lemma release_ok_irrelevant [simp]:
  "release_ok (s\<lparr>notifications := ns\<rparr>) = release_ok s"
  "release_ok (s\<lparr>notification_deliveries := ds\<rparr>) = release_ok s"
  "release_ok (s\<lparr>audit_logs := als\<rparr>) = release_ok s"
  "release_ok (s\<lparr>drawn := n\<rparr>) = release_ok s"
  "release_ok (draw s) = release_ok s"
  "release_ok (put_version v s) = release_ok s"
  "release_ok (put_drop d s) = release_ok s"
  by (rule release_ok_cong; simp add: draw_def put_version_def put_drop_def)+

lemma record_audit_release: "record_audit a s = Inr s' \<Longrightarrow> release_ok s' = release_ok s"
  by (drule record_audit_touch) auto

lemma only_notifies_release: "only_notifies s s' \<Longrightarrow> release_ok s' = release_ok s"
  by (auto simp: only_notifies_def)

lemma notify_fans_notifies: "notify_fans kind s = Inr s' \<Longrightarrow> only_notifies s s'"
  unfolding notify_fans_def
proof (erule foldE_invariant)
  fix u t t' assume "only_notifies s t" "notify_fan kind u t = Inr t'"
  then show "only_notifies s t'"
    by (auto simp: notify_fan_def Let_def add_notification_def inr_simps
        intro: only_notifies_trans only_notifies_trans [OF only_notifies_intros(4)]
        dest!: add_delivery_notifies split: if_splits elim!: only_notifies_trans)
qed simp

lemma notify_partner_notifies: "notify_partner_reviewers c s = Inr s' \<Longrightarrow> only_notifies s s'"
  unfolding notify_partner_reviewers_def notify_admin_once_eq
  by (auto simp: inr_simps intro: only_notifies_trans notify_user_once_notifies
      elim!: foldE_invariant [where P = "only_notifies s"])

lemma notify_platform_notifies: "notify_platform_reviewers c s = Inr s' \<Longrightarrow> only_notifies s s'"
  unfolding notify_platform_reviewers_def notify_admin_once_eq
  by (auto intro: only_notifies_trans notify_user_once_notifies
      elim!: foldE_invariant [where P = "only_notifies s"])

lemmas release_steps = record_audit_release only_notifies_release [OF notify_partner_notifies]
  only_notifies_release [OF notify_platform_notifies] only_notifies_release [OF notify_fans_notifies]

lemma get_card_ok: "get_card i s = Some c \<Longrightarrow> release_ok s \<Longrightarrow> key_ok s (release_key c)"
  by (auto simp: get_card_def release_ok_def dest: find_SomeD)

lemma key_ok_cards [simp]: "key_ok (s\<lparr>cards := cs\<rparr>) k = key_ok s k"
  by (cases k) (simp add: stage_approved_def)

lemma key_ok_put [simp]: "key_ok (put_card c s) k = key_ok s k"
  by (simp add: put_card_def)

lemma put_card_ok: "release_ok s \<Longrightarrow> key_ok s (release_key c) \<Longrightarrow> release_ok (put_card c s)"
  by (auto simp: release_ok_def put_card_def set_update_where)

lemma add_card_ok: "add_card c s = Inr s' \<Longrightarrow> release_ok s \<Longrightarrow> key_ok s (release_key c) \<Longrightarrow> release_ok s'"
  by (auto simp: release_ok_def add_card_def inr_simps)

lemma set_card_fields_key: "foldE set_card_field kvs c = Inr c' \<Longrightarrow> release_key c' = release_key c"
  by (erule foldE_invariant)
    (auto simp: set_card_field_def set_nullable_field_def release_key_def split: if_splits json.splits)

text \<open>Opening a request keeps what has been approved.\<close>

lemma create_review_request_ok:
  assumes "create_review_request c stage s = Inr s'"
  shows "release_ok s \<Longrightarrow> release_ok s'" and "stage_approved g i v s \<Longrightarrow> stage_approved g i v s'"
    and "cards s' = cards s"
proof -
  obtain r where r: "card_review_requests s' = card_review_requests s @ [r]"
      "\<not> list_ex (clash_review r) (card_review_requests s)" "cards s' = cards s"
      "card_review_decisions s' = card_review_decisions s"
    using assms by (auto simp: create_review_request_def inr_simps)
  then show "cards s' = cards s" by simp
  have mono: "stage_approved g i v s \<Longrightarrow> stage_approved g i v s'" for g i v
    using r by (auto simp: stage_approved_def)
  then show "stage_approved g i v s \<Longrightarrow> stage_approved g i v s'" .
  assume ok: "release_ok s"
  have "unique_by rr_id (card_review_requests s')"
    using ok r(1,2) by (auto simp: release_ok_def unique_by_def list_ex_iff clash_review_def)
  moreover have "key_ok s' k" if "key_ok s k" for k
    using that mono by (cases k) simp
  ultimately show "release_ok s'" using ok r(3) by (auto simp: release_ok_def)
qed

text \<open>Recording a decision keeps what has been approved, and an approval adds the stage.\<close>

lemma decide_stage_ok:
  assumes "decide_stage stage c u decision comment s = Inr s'" and "release_ok s"
  shows "release_ok s'" and "decision = ''approved'' \<Longrightarrow> stage_approved stage (c_id c) (c_review_version c) s'"
    and "stage_approved g i v s \<Longrightarrow> stage_approved g i v s'" and "cards s' = cards s"
    and "c_release_status c = ''pending_'' @ stage @ ''_review''"
proof -
  obtain r where f: "active_review_request c stage s = Some r"
    and st: "c_release_status c = ''pending_'' @ stage @ ''_review''"
    and d: "record_review_decision r u decision comment s = Inr s'"
    using assms(1) by (auto simp: decide_stage_def split: if_splits option.splits)
  show "c_release_status c = ''pending_'' @ stage @ ''_review''" by (rule st)
  from f have r: "r \<in> set (card_review_requests s)" "rr_status r = ''pending''" "rr_card_id r = c_id c"
      "rr_version r = c_review_version c" "rr_stage r = stage"
    by (auto simp: active_review_request_def dest: find_SomeD)
  from d obtain x where x: "card_review_decisions s' = card_review_decisions s @ [x]" "rd_request_id x = rr_id r"
      "rd_decision x = decision" and reqs: "card_review_requests s' =
        update_where (\<lambda>x. rr_id x = rr_id r) (\<lambda>x. x\<lparr>rr_status := decision\<rparr>) (card_review_requests s)"
      and cs: "cards s' = cards s"
    by (auto simp: record_review_decision_def inr_simps)
  show "cards s' = cards s" by (rule cs)
  have inj: "y = r" if "y \<in> set (card_review_requests s)" "rr_id y = rr_id r" for y
    using that r(1) assms(2) by (auto simp: release_ok_def unique_by_def distinct_map dest: inj_onD)
  have mono: "stage_approved g i v s \<Longrightarrow> stage_approved g i v s'" for g i v
  proof -
    assume "stage_approved g i v s"
    then obtain y d where y: "y \<in> set (card_review_requests s)" "rr_card_id y = i" "rr_version y = v"
        "rr_stage y = g" "rr_status y = ''approved''" "d \<in> set (card_review_decisions s)"
        "rd_request_id d = rr_id y" "rd_decision d = ''approved''"
      by (auto simp: stage_approved_def)
    with r(2) inj have "rr_id y \<noteq> rr_id r" by force
    with y(1) have "y \<in> set (card_review_requests s')" by (force simp: reqs set_update_where)
    with y x(1) show "stage_approved g i v s'" by (auto simp: stage_approved_def)
  qed
  then show "stage_approved g i v s \<Longrightarrow> stage_approved g i v s'" .
  show "stage_approved stage (c_id c) (c_review_version c) s'" if "decision = ''approved''"
  proof -
    have "r\<lparr>rr_status := decision\<rparr> \<in> set (card_review_requests s')"
      using r(1) by (force simp: reqs set_update_where)
    with r x that show ?thesis
      unfolding stage_approved_def by (intro bexI [of _ "r\<lparr>rr_status := decision\<rparr>"]) auto
  qed
  have "unique_by rr_id (card_review_requests s')"
    using assms(2) by (auto simp: reqs release_ok_def intro: unique_by_update_where)
  moreover have "key_ok s' k" if "key_ok s k" for k
    using that mono by (cases k) simp
  ultimately show "release_ok s'" using assms(2) cs by (auto simp: release_ok_def)
qed

text \<open>Every operation keeps the invariant.\<close>

lemma draft_ok [simp]:
  "key_ok s (i, p, ''draft'', v)" "key_ok s (i, p, ''changes_requested'', v)"
  "key_ok s (i, p, ''pending_partner_review'', v)"
  by (simp_all add: released_def)

lemma same_key_ok: "key_ok s (release_key c) \<Longrightarrow> release_key c' = release_key c \<Longrightarrow> key_ok s (release_key c')"
  by simp

lemma scoped_card_get: "scoped_card c i s = Inr cd \<Longrightarrow> get_card i s = Some cd"
  by (auto simp: scoped_card_def inr_simps)

lemma owned_card_get: "owned_card i u s = Inr cd \<Longrightarrow> get_card i s = Some cd"
  by (auto simp: owned_card_def inr_simps split: if_splits)

lemma submit_for_review_ok:
  assumes "submit_card_for_release_review c s = Inr (c', s')" and "release_ok s"
  shows "release_ok s'"
proof -
  obtain s1 where k: "c_release_status c' = ''pending_partner_review''"
    and r: "create_review_request c' ''partner'' (put_card c' s) = Inr s1"
    and m: "notify_partner_reviewers c' s1 = Inr s'"
    using assms(1) by (auto simp: submit_card_for_release_review_def bindE_eq_Inr Let_def)
  have "key_ok s (release_key c')" by (simp add: release_key_def k released_def)
  with assms(2) have "release_ok s1" by (intro create_review_request_ok(1) [OF r] put_card_ok)
  with m show ?thesis by (simp add: only_notifies_release [OF notify_partner_notifies])
qed

lemma create_admin_card_ok:
  assumes "create_admin_card stored c values s = Inr (cd, s')" and "release_ok s"
  shows "release_ok s'"
proof -
  obtain values1 s1 s2 where f: "foldE set_card_field values1
        (blank_card (new_id ''card_'' s) (am_organization_id (ctx_membership c))) = Inr cd"
    and a: "add_card cd (draw s) = Inr s1" and r: "record_audit (card_audit c ''card.created'' cd []) s1 = Inr s'"
    using assms(1) unfolding create_admin_card_def by (auto simp only: bindE_eq_Inr sum.inject prod.inject)
  have "key_ok (draw s) (release_key cd)"
    using set_card_fields_key [OF f] by (simp add: release_key_def blank_card_def released_def)
  with a assms(2) have "release_ok s1" by (simp add: add_card_ok)
  with r show ?thesis by (simp add: record_audit_release)
qed

lemma update_admin_card_ok:
  assumes "update_admin_card stored c i values s = Inr (cd, s')" and "release_ok s"
  shows "release_ok s'"
proof -
  obtain cd0 values1 a where g: "scoped_card c i s = Inr cd0" and f: "foldE set_card_field values1 cd0 = Inr cd"
    and r: "record_audit a (put_card cd s) = Inr s'"
    using assms(1) unfolding update_admin_card_def
    by (auto simp only: bindE_eq_Inr if_eq_Inr sum.inject prod.inject sum.distinct)
  have "key_ok s (release_key cd)"
    using set_card_fields_key [OF f] get_card_ok [OF scoped_card_get [OF g] assms(2)] by simp
  with r assms(2) show ?thesis by (simp add: record_audit_release put_card_ok)
qed

lemma delete_admin_card_ok:
  "delete_admin_card c i s = Inr (x, s') \<Longrightarrow> release_ok s \<Longrightarrow> release_ok s'"
  by (auto simp: delete_admin_card_def inr_simps dest!: record_audit_release)
    (auto simp: release_ok_def)

lemma submit_admin_card_review_ok:
  "submit_admin_card_review c i comment s = Inr (cd, s') \<Longrightarrow> release_ok s \<Longrightarrow> release_ok s'"
  by (auto simp: submit_admin_card_review_def inr_simps release_steps dest: submit_for_review_ok)

lemma review_card_ok:
  assumes "review_card c i decision comment s = Inr (cd, s')" and "release_ok s"
  shows "release_ok s'"
proof -
  obtain cd0 a where g: "get_card i s = Some cd0" and k: "release_key cd = release_key cd0"
    and r: "record_audit a (put_card cd s) = Inr s'"
    using assms(1) unfolding review_card_def
    by (auto simp: bindE_eq_Inr Let_def release_key_def split: option.splits if_splits)
  have "key_ok s (release_key cd)" using get_card_ok [OF g assms(2)] k by simp
  with r assms(2) show ?thesis by (simp add: record_audit_release put_card_ok)
qed

lemma decide_platform_reviewE:
  assumes "decide_platform_review c i decision comment s = Inr (cd, s')"
  obtains cd0 s1 a where "get_card i s = Some cd0" "decision \<in> {''approved'', ''changes_requested''}"
    "decide_stage ''platform'' cd0 (u_id (ctx_user c)) decision comment s = Inr s1"
    "cd = stage_decided decision comment cd0" "record_audit a (put_card cd s1) = Inr s'" "is_platform_operator c"
  using assms unfolding decide_platform_review_def Let_def
  by (auto simp: bindE_eq_Inr release_decision_payload_def split: option.splits if_splits)

lemma decide_platform_review_ok:
  assumes "decide_platform_review c i decision comment s = Inr (cd, s')" and "release_ok s"
  shows "release_ok s'"
proof -
  obtain c0 s1 a where g: "get_card i s = Some c0" "decision \<in> {''approved'', ''changes_requested''}"
    and d: "decide_stage ''platform'' c0 (u_id (ctx_user c)) decision comment s = Inr s1"
    and cd: "cd = stage_decided decision comment c0" and r: "record_audit a (put_card cd s1) = Inr s'"
    using assms(1) by (rule decide_platform_reviewE)
  note st = decide_stage_ok [OF d assms(2)]
  have "key_ok s (release_key c0)" using g(1) assms(2) by (rule get_card_ok)
  with st(3,5) have "stage_approved ''partner'' (c_id c0) (c_review_version c0) s1"
    by (simp add: release_key_def)
  with st(2) g(2) have "key_ok s1 (release_key cd)"
    by (auto simp: cd stage_decided_def release_key_def released_def)
  with st(1) r show ?thesis by (simp add: record_audit_release put_card_ok)
qed

lemma adopt_card_key [simp]: "release_key (adopt_card c cd) = release_key cd"
  by (simp add: adopt_card_def release_key_def split: option.splits)

lemma release_decision_payload_Inr [inr_simps]:
  "release_decision_payload decision comment = Inr x \<longleftrightarrow>
    decision = ''approved'' \<or> decision = ''changes_requested'' \<and> present comment"
  by (auto simp: release_decision_payload_def)

lemma decide_partner_reviewE:
  assumes "decide_partner_review c i decision comment s = Inr (cd, s')"
  obtains cd0 s1 s2 a where "get_card i s = Some cd0" "decision \<in> {''approved'', ''changes_requested''}"
    "decide_stage ''partner'' (adopt_card c cd0) (u_id (ctx_user c)) decision comment
      (put_card (adopt_card c cd0) s) = Inr s1"
    "partner_outcome decision comment (adopt_card c cd0) s1 = Inr (cd, s2)" "record_audit a s2 = Inr s'"
    "am_access_level (ctx_membership c) \<in> {''company_admin'', ''manager''}"
  using assms unfolding decide_partner_review_def Let_def
  by (auto simp: bindE_eq_Inr release_decision_payload_Inr dest: scoped_card_get split: if_splits)

lemma partner_outcome_ok:
  assumes "partner_outcome decision comment cd s = Inr (cd', s')" and "release_ok s"
    and "decision \<in> {''approved'', ''changes_requested''}"
    and "decision = ''approved'' \<Longrightarrow> stage_approved ''partner'' (c_id cd) (c_review_version cd) s"
  shows "release_ok s'"
proof (cases "decision \<noteq> ''changes_requested'' \<and> c_release_policy cd = ''partner_and_platform''")
  case True
  let ?cd = "cd\<lparr>c_release_status := ''pending_platform_review'', c_status := ''pending_review''\<rparr>"
  from True assms(1) obtain s1 where r: "create_review_request ?cd ''platform'' (put_card ?cd s) = Inr s1"
    and n: "notify_platform_reviewers ?cd s1 = Inr s'"
    by (auto simp: partner_outcome_def bindE_eq_Inr Let_def)
  have "key_ok s (release_key ?cd)" using True assms(3,4) by (auto simp: release_key_def released_def)
  with assms(2) have "release_ok s1" by (intro create_review_request_ok(1) [OF r] put_card_ok)
  with n show ?thesis by (simp add: only_notifies_release [OF notify_platform_notifies])
next
  case False
  with assms(1) have "s' = put_card (stage_decided decision comment cd) s" by (auto simp: partner_outcome_def)
  moreover have "key_ok s (release_key (stage_decided decision comment cd))"
    using False assms(3,4) by (auto simp: stage_decided_def release_key_def released_def)
  ultimately show ?thesis using assms(2) by (simp add: put_card_ok)
qed

lemma decide_partner_review_ok:
  assumes "decide_partner_review c i decision comment s = Inr (cd, s')" and "release_ok s"
  shows "release_ok s'"
proof -
  obtain cd0 s1 s2 a where g: "get_card i s = Some cd0" and dec: "decision \<in> {''approved'', ''changes_requested''}"
    and d: "decide_stage ''partner'' (adopt_card c cd0) (u_id (ctx_user c)) decision comment
      (put_card (adopt_card c cd0) s) = Inr s1"
    and b: "partner_outcome decision comment (adopt_card c cd0) s1 = Inr (cd, s2)" and a: "record_audit a s2 = Inr s'"
    using assms(1) by (rule decide_partner_reviewE)
  have "release_ok (put_card (adopt_card c cd0) s)"
    using get_card_ok [OF g assms(2)] assms(2) by (simp add: put_card_ok)
  note st = decide_stage_ok [OF d this]
  from b st(1) dec st(2) have "release_ok s2" by (rule partner_outcome_ok)
  with a show ?thesis by (simp add: record_audit_release)
qed

lemma create_card_ok:
  assumes "create_card payload u s = Inr (cd, s')" and "release_ok s"
  shows "release_ok s'"
proof -
  obtain kvs where f: "foldE set_card_field kvs
        ((blank_card (new_id ''card_'' s) None)\<lparr>c_owner_artist_id := Some (u_id u)\<rparr>) = Inr cd"
    and a: "add_card cd (draw s) = Inr s'"
    using assms(1) unfolding create_card_def by (auto simp only: bindE_eq_Inr sum.inject prod.inject)
  have "key_ok (draw s) (release_key cd)"
    using set_card_fields_key [OF f] by (simp add: release_key_def blank_card_def released_def)
  with a assms(2) show ?thesis by (simp add: add_card_ok)
qed

lemma update_card_ok:
  assumes "update_card i values u s = Inr (cd, s')" and "release_ok s"
  shows "release_ok s'"
proof -
  obtain cd0 values1 cd1 where g: "owned_card i u s = Inr cd0" and f: "foldE set_card_field values1 cd0 = Inr cd1"
    and cd: "cd = (if c_release_status cd1 = ''changes_requested''
      then cd1\<lparr>c_release_status := ''draft'', c_status := ''draft''\<rparr> else cd1)" and s': "s' = put_card cd s"
    using assms(1) unfolding update_card_def Let_def
    by (auto simp only: bindE_eq_Inr if_eq_Inr sum.inject prod.inject sum.distinct)
  have "key_ok s (release_key cd1)"
    using set_card_fields_key [OF f] get_card_ok [OF owned_card_get [OF g] assms(2)] by simp
  then have "key_ok s (release_key cd)" by (auto simp: cd release_key_def released_def)
  with assms(2) show ?thesis by (simp add: s' put_card_ok)
qed

lemma submit_review_ok:
  assumes "submit_review stored i comment u s = Inr (cd, s')" and "release_ok s"
  shows "release_ok s'"
proof -
  obtain cd0 where "submit_card_for_release_review cd0 s = Inr (cd, s')"
    using assms(1) unfolding submit_review_def
    by (auto simp only: bindE_eq_Inr if_eq_Inr sum.distinct)
  then show ?thesis using assms(2) by (rule submit_for_review_ok)
qed

lemma scoped_version_get: "scoped_effect_version_or_404 c i j s = Inr (cd, v) \<Longrightarrow> get_card i s = Some cd"
  by (auto simp: scoped_effect_version_or_404_def inr_simps dest: scoped_card_get)

lemma apply_effect_ok:
  assumes "get_card i s = Some cd" and "release_ok s"
  shows "release_ok (put_card (cd\<lparr>c_design_config := d\<rparr>) (put_version v s))"
proof -
  have "release_key (cd\<lparr>c_design_config := d\<rparr>) = release_key cd" by (simp add: release_key_def)
  moreover have "key_ok (put_version v s) k = key_ok s k" for k
    by (cases k) (simp add: stage_approved_def put_version_def)
  ultimately show ?thesis using get_card_ok [OF assms] assms(2) by (simp add: put_card_ok)
qed

lemma approve_effect_version_ok:
  assumes "approve_effect_version c i j s = Inr (v, s')" and "release_ok s"
  shows "release_ok s'"
  using assms unfolding approve_effect_version_def Let_def
  by (auto simp: bindE_eq_Inr dest: scoped_version_get intro: apply_effect_ok split: if_splits)

lemma review_effect_version_ok:
  assumes "review_effect_version c i j decision comment s = Inr (v, s')" and "release_ok s"
  shows "release_ok s'"
  using assms unfolding review_effect_version_def Let_def
  by (auto simp: bindE_eq_Inr dest: scoped_version_get intro: apply_effect_ok split: if_splits)

lemma key_ok_released: "key_ok s (i, p, st, v) \<Longrightarrow> st \<in> released \<Longrightarrow> st' \<in> released \<Longrightarrow> key_ok s (i, p, st', v)"
  by (auto simp: released_def)

lemma link_card_to_drop_ok:
  assumes "link_card_to_drop c i j s = Inr (cd, s')" and "release_ok s"
  shows "release_ok s'"
proof -
  obtain cd0 live a where g: "get_card j s = Some cd0" "c_release_status cd0 = ''approved''"
    and k: "release_key cd = (c_id cd0, c_release_policy cd0, (if live then ''published'' else ''drop_ready''),
      c_review_version cd0)"
    and a: "record_audit a (put_card cd s) = Inr s'"
    using assms(1) unfolding link_card_to_drop_def Let_def
    by (auto simp: bindE_eq_Inr release_key_def split: option.splits if_splits)
  have "release_key cd0 = (c_id cd0, c_release_policy cd0, ''approved'', c_review_version cd0)"
    by (simp add: release_key_def g(2))
  with get_card_ok [OF g(1) assms(2)] have "key_ok s (release_key cd)"
    unfolding k by (auto intro: key_ok_released simp: released_def simp del: key_ok.simps)
  with a assms(2) show ?thesis by (simp add: record_audit_release put_card_ok)
qed

lemma publish_linked_ok:
  assumes "release_ok s"
  shows "release_ok (publish_linked_cards i s)"
proof -
  let ?f = "\<lambda>x. x\<lparr>c_release_status := ''published'', c_status := ''published''\<rparr>"
  have "key_ok s (release_key (?f x))" if "x \<in> set (cards s)" "c_release_status x = ''drop_ready''" for x
  proof -
    from assms that(1) have "key_ok s (release_key x)" by (simp add: release_ok_def)
    moreover have "release_key (?f x) = (c_id x, c_release_policy x, ''published'', c_review_version x)"
      "release_key x = (c_id x, c_release_policy x, ''drop_ready'', c_review_version x)"
      using that(2) by (simp_all add: release_key_def)
    ultimately show ?thesis by (auto intro: key_ok_released simp: released_def simp del: key_ok.simps)
  qed
  with assms show ?thesis
    unfolding release_ok_def publish_linked_cards_def by (auto simp: set_update_where simp del: key_ok.simps)
qed

lemma update_drop_status_ok:
  assumes "update_drop_status c i status s = Inr (d, s')" and "release_ok s"
  shows "release_ok s'"
  using assms unfolding update_drop_status_def Let_def
  by (auto simp: bindE_eq_Inr record_audit_release only_notifies_release [OF notify_fans_notifies]
      intro!: publish_linked_ok split: if_splits)

text \<open>The requests that touch cards, review requests or decisions.\<close>

datatype release_request =
    CreateAdminCard "string \<Rightarrow> bool" admin_context jobj
  | UpdateAdminCard "string \<Rightarrow> bool" admin_context ident jobj
  | DeleteAdminCard admin_context ident
  | SubmitAdminCard admin_context ident "string option"
  | ReviewCard admin_context ident string "string option"
  | PartnerReview admin_context ident string "string option"
  | PlatformReview admin_context ident string "string option"
  | CreateCard jobj user
  | UpdateCard ident jobj user
  | SubmitCard "string \<Rightarrow> bool" ident "string option" user
  | ApproveEffect admin_context ident ident
  | ReviewEffect admin_context ident ident string "string option"
  | LinkCard admin_context ident ident
  | DropStatus admin_context ident string

definition drop_result :: "exn + 'a \<times> db \<Rightarrow> exn + unit \<times> db" where
  "drop_result m = bindE m (\<lambda>p. Inr ((), snd p))"

fun handle_release :: "release_request \<Rightarrow> db \<Rightarrow> exn + unit \<times> db" where
  "handle_release (CreateAdminCard stored c values) s = drop_result (create_admin_card stored c values s)"
| "handle_release (UpdateAdminCard stored c i values) s = drop_result (update_admin_card stored c i values s)"
| "handle_release (DeleteAdminCard c i) s = drop_result (delete_admin_card c i s)"
| "handle_release (SubmitAdminCard c i comment) s = drop_result (submit_admin_card_review c i comment s)"
| "handle_release (ReviewCard c i decision comment) s = drop_result (review_card c i decision comment s)"
| "handle_release (PartnerReview c i decision comment) s = drop_result (decide_partner_review c i decision comment s)"
| "handle_release (PlatformReview c i decision comment) s = drop_result (decide_platform_review c i decision comment s)"
| "handle_release (CreateCard payload u) s = drop_result (create_card payload u s)"
| "handle_release (UpdateCard i values u) s = drop_result (update_card i values u s)"
| "handle_release (SubmitCard stored i comment u) s = drop_result (submit_review stored i comment u s)"
| "handle_release (ApproveEffect c i j) s = drop_result (approve_effect_version c i j s)"
| "handle_release (ReviewEffect c i j decision comment) s = drop_result (review_effect_version c i j decision comment s)"
| "handle_release (LinkCard c i j) s = drop_result (link_card_to_drop c i j s)"
| "handle_release (DropStatus c i status) s = drop_result (update_drop_status c i status s)"

lemma drop_result_Inr: "drop_result m = Inr (u, s') \<longleftrightarrow> (\<exists>x. m = Inr (x, s'))"
  by (auto simp: drop_result_def bindE_eq_Inr)

lemma handle_release_keeps: "handle_release q s = Inr (x, s') \<Longrightarrow> release_ok s \<Longrightarrow> release_ok s'"
  by (cases q)
    (simp_all add: drop_result_Inr,
      blast intro: create_admin_card_ok, blast intro: update_admin_card_ok, blast intro: delete_admin_card_ok,
      blast intro: submit_admin_card_review_ok, blast intro: review_card_ok, blast intro: decide_partner_review_ok,
      blast intro: decide_platform_review_ok, blast intro: create_card_ok, blast intro: update_card_ok,
      blast intro: submit_review_ok, blast intro: approve_effect_version_ok, blast intro: review_effect_version_ok,
      blast intro: link_card_to_drop_ok, blast intro: update_drop_status_ok)

interpretation release_desk: service handle_release release_ok
  by unfold_locales (rule handle_release_keeps)


section \<open>Samples\<close>

definition sample_context :: "ident \<Rightarrow> string \<Rightarrow> admin_context" where
  "sample_context i level =
    \<lparr>ctx_user = an_admin i,
     ctx_membership = a_member i (if level = ''manager'' then Some ''org'' else None) level,
     ctx_organization = (if level = ''manager''
       then Some \<lparr>org_id = ''org'', org_name = [], org_slug = [], org_status = ''active'',
       org_contract_starts_at = None, org_contract_ends_at = None, org_logo_asset_id = None\<rparr> else None),
     ctx_artists = (if level = ''manager'' then [''art''] else []), ctx_actions = allowed_actions level\<rparr>"

definition studio_card :: card_row where
  "studio_card = (blank_card ''c1'' (Some ''org''))\<lparr>c_name := ''Debut'', c_artist_id := Some ''art'',
     c_rarity := Some ''Special'', c_owner_artist_id := Some ''ivy''\<rparr>"

definition studio_db :: db where
  "studio_db = empty_db\<lparr>cards := [studio_card], drawn := 1,
     organization_artists := [\<lparr>oa_organization_id = ''org'', oa_artist_id = ''art''\<rparr>],
     drops := [\<lparr>d_id = ''d1'', d_name = [], d_status = ''live'', d_organization_id = Some ''org'',
       d_artist_id = Some ''art'', d_starts_at = None, d_ends_at = None\<rparr>]\<rparr>"

definition reviews :: "release_request list" where
  "reviews =
    [SubmitAdminCard (sample_context ''mia'' ''manager'') ''c1'' None,
     PartnerReview (sample_context ''mia'' ''manager'') ''c1'' ''approved'' None,
     PlatformReview (sample_context ''olga'' ''platform_operator'') ''c1'' ''approved'' None]"

definition run_release :: "release_request list \<Rightarrow> db \<Rightarrow> db" where
  "run_release qs s = fold (\<lambda>q s. snd (run_tx (handle_release q) s)) qs s"


text \<open>
  What was reviewed need not be what is published: an operator may edit an approved card,
  which keeps its approval and goes out with a name no reviewer has seen.
\<close>

lemma edited_after_approval:
  "let s = run_release (reviews @
       [UpdateAdminCard (\<lambda>_. True) (sample_context ''mia'' ''manager'') ''c1'' [(''name'', JStr ''Other'')],
        LinkCard (sample_context ''mia'' ''manager'') ''d1'' ''c1'']) studio_db
   in list_ex (\<lambda>c. c_release_status c = ''published'' \<and> c_name c = ''Other'') (cards s) \<and>
      list_all (\<lambda>r. jget (rr_snapshot r) ''name'' = JStr ''Debut'') (card_review_requests s)"
  by code_simp

text \<open>
  A root administrator who asks for changes reopens the card for its author while the
  partner review stays pending, so the partner approves a card that was edited meanwhile.
\<close>

lemma edited_under_review:
  "let s = run_release
       [SubmitAdminCard (sample_context ''mia'' ''manager'') ''c1'' None,
        ReviewCard (sample_context ''root'' ''root'') ''c1'' ''request_changes'' None,
        UpdateCard ''c1'' [(''name'', JStr ''Other'')] (an_admin ''ivy''),
        PartnerReview (sample_context ''mia'' ''manager'') ''c1'' ''approved'' None] studio_db
   in list_ex (\<lambda>c. c_release_status c = ''pending_platform_review'' \<and> c_name c = ''Other'') (cards s) \<and>
      list_ex (\<lambda>r. rr_status r = ''approved'' \<and> jget (rr_snapshot r) ''name'' = JStr ''Debut'')
        (card_review_requests s)"
  by code_simp

end
