(* ===== verification/Events.thy ===== *)
theory Events
  imports Cards
begin

text \<open>
  Managed events (\<open>backend/app/event_services.py\<close>, \<open>backend/app/routers/events.py\<close>): the
  editorial workflow, what fans see of an event, comments, applications and the draw of
  winners, and the notifications when an event starts or its applications close. Left out
  are the check-in passes and the columns that only hold display text or order lists.
\<close>

section \<open>Rules\<close>

definition EVENT_TYPES :: "string list" where
  "EVENT_TYPES = [''announcement'', ''comment'', ''card_drop'', ''card'', ''fan_mission'', ''external'']"

definition WORKFLOW_STATUSES :: "string list" where
  "WORKFLOW_STATUSES = [''draft'', ''pending_review'', ''changes_requested'', ''approved'', ''scheduled'',
     ''published'', ''ended'']"

definition public_event_status :: "string \<Rightarrow> time \<Rightarrow> time option \<Rightarrow> time \<Rightarrow> string option" where
  "public_event_status workflow starts ends t =
    (if workflow = ''ended'' \<or> (case ends of None \<Rightarrow> False | Some e \<Rightarrow> e \<le> t) then Some ''ended''
     else if workflow \<in> {''scheduled'', ''published''}
     then Some (if starts \<le> t then ''active'' else ''upcoming'')
     else None)"

text \<open>
  \<open>urlparse(url).scheme\<close>: leading blanks and control characters are dropped, tabs and
  line breaks removed, and the letters before the first colon lowered when they form a
  scheme. The checks of the host that follow in \<open>urlsplit\<close> are left out.
\<close>

definition scheme_char :: "char \<Rightarrow> bool" where
  "scheme_char c \<longleftrightarrow> (let n = of_char c :: nat in
    48 \<le> n \<and> n \<le> 57 \<or> 65 \<le> n \<and> n \<le> 90 \<or> 97 \<le> n \<and> n \<le> 122 \<or> c \<in> {CHR ''+'', CHR ''-'', CHR ''.''})"

definition is_letter :: "char \<Rightarrow> bool" where
  "is_letter c \<longleftrightarrow> (let n = of_char c :: nat in 65 \<le> n \<and> n \<le> 90 \<or> 97 \<le> n \<and> n \<le> 122)"

definition url_scheme :: "string \<Rightarrow> string" where
  "url_scheme url =
    (let u = filter (\<lambda>c. of_char c \<notin> {9, 10, 13 :: nat}) (dropWhile (\<lambda>c. of_char c \<le> (32 :: nat)) url);
         scheme = takeWhile (\<lambda>c. c \<noteq> CHR '':'') u
     in if scheme \<noteq> u \<and> scheme \<noteq> [] \<and> is_letter (hd scheme) \<and> list_all scheme_char scheme
        then py_lower scheme else [])"

text \<open>The targets are rows, true when they are there; a text is true when it is not empty.\<close>

definition validate_event_links ::
  "string \<Rightarrow> drop_row option \<Rightarrow> card_row option \<Rightarrow> achievement_definition option \<Rightarrow> string option \<Rightarrow> exn + unit" where
  "validate_event_links typ d cd ach url =
    (if typ \<notin> set EVENT_TYPES then Inl (AppError 422 ''EVENT_TYPE_INVALID'')
     else if typ \<in> {''announcement'', ''comment''} then
       (if d \<noteq> None \<or> cd \<noteq> None \<or> ach \<noteq> None \<or> present url then Inl (AppError 422 ''EVENT_LINK_INVALID'')
        else Inr ())
     else if (if typ = ''card_drop'' then d = None else if typ = ''card'' then cd = None
              else if typ = ''fan_mission'' then ach = None else url = None)
       \<or> length (filter id [d \<noteq> None, cd \<noteq> None, ach \<noteq> None, url \<noteq> None]) \<noteq> 1
     then Inl (AppError 422 ''EVENT_LINK_INVALID'')
     else if typ = ''external'' \<and> (case url of None \<Rightarrow> True | Some u \<Rightarrow> url_scheme u \<noteq> ''https'')
     then Inl (AppError 422 ''EVENT_URL_INVALID'')
     else Inr ())"

definition allowed_targets :: "string \<Rightarrow> string list" where
  "allowed_targets current =
    (case map_of
       [(''draft'', [''pending_review'']), (''changes_requested'', [''pending_review'']),
        (''pending_review'', [''changes_requested'', ''approved'']), (''approved'', [''scheduled'', ''published'']),
        (''scheduled'', [''published'', ''ended'']), (''published'', [''ended'']), (''ended'', [])] current of
       None \<Rightarrow> [] | Some targets \<Rightarrow> targets)"

definition validate_transition :: "string \<Rightarrow> string \<Rightarrow> exn + unit" where
  "validate_transition current target =
    (if target \<in> set (allowed_targets current) then Inr () else Inl (AppError 409 ''EVENT_TRANSITION_INVALID''))"

definition validate_event_asset :: "ident \<Rightarrow> db \<Rightarrow> exn + asset" where
  "validate_event_asset i s =
    (case get_asset i s of
       None \<Rightarrow> Inl (AppError 422 ''EVENT_ASSET_INVALID'')
     | Some a \<Rightarrow>
         if as_purpose a \<noteq> Some ''event_banner'' \<or> as_upload_completed_at a = None
           \<or> as_content_type a \<notin> {Some ''image/png'', Some ''image/jpeg'', Some ''image/webp''}
         then Inl (AppError 422 ''EVENT_ASSET_INVALID'') else Inr a)"

text \<open>A reference, looked up when it is not empty.\<close>

definition linked :: "(ident \<Rightarrow> db \<Rightarrow> 'a option) \<Rightarrow> ident option \<Rightarrow> db \<Rightarrow> 'a option" where
  "linked look i s = (if present i then look (the i) s else None)"

definition get_achievement :: "ident \<Rightarrow> db \<Rightarrow> achievement_definition option" where
  "get_achievement i s = find (\<lambda>a. ad_id a = i) (achievement_definitions s)"

definition validate_event_connections :: "event_row \<Rightarrow> db \<Rightarrow> exn + unit" where
  "validate_event_connections e s =
    (let d = linked get_drop (e_drop_id e) s; cd = linked get_card (e_card_id e) s;
         ach = linked get_achievement (e_achievement_id e) s
     in bindE (validate_event_links (e_event_type e) d cd ach (e_external_url e)) (\<lambda>_.
        if e_event_type e = ''card_drop'' \<and> (case d of None \<Rightarrow> True | Some x \<Rightarrow> d_status x \<notin> {''scheduled'', ''live''})
        then Inl (AppError 422 ''EVENT_DROP_NOT_READY'')
        else if e_event_type e = ''card'' \<and> (case cd of None \<Rightarrow> True | Some x \<Rightarrow> c_release_status x \<noteq> ''published'')
        then Inl (AppError 422 ''EVENT_CARD_NOT_READY'')
        else if e_event_type e = ''fan_mission'' \<and> (case ach of None \<Rightarrow> True | Some x \<Rightarrow> ad_status x \<noteq> ''published'')
        then Inl (AppError 422 ''EVENT_MISSION_NOT_READY'')
        else Inr ()))"

definition event_in_scope :: "admin_context \<Rightarrow> event_row \<Rightarrow> bool" where
  "event_in_scope c e \<longleftrightarrow> is_root c \<or> is_platform_operator c \<or>
    (case ctx_organization c of
       None \<Rightarrow> False
     | Some g \<Rightarrow> e_organization_id e = Some (org_id g) \<and>
         (am_access_level (ctx_membership c) = ''company_admin'' \<or> e_artist_id e \<in> Some ` set (ctx_artists c)))"

section \<open>Notifications\<close>

definition put_event :: "event_row \<Rightarrow> db \<Rightarrow> db" where
  "put_event e s = s\<lparr>events := update_where (\<lambda>x. e_id x = e_id e) (\<lambda>_. e) (events s)\<rparr>"

text \<open>One notification to a user under its key, without a delivery; the count of those added.\<close>

definition announce :: "ident \<Rightarrow> ident \<Rightarrow> string \<Rightarrow> ident \<Rightarrow> string \<Rightarrow> nat \<times> db \<Rightarrow> exn + nat \<times> db" where
  "announce i u kind event_id key cs =
    (if has_notification u key (snd cs) then Inr cs
     else bindE (add_notification (new_notification i u kind ''event'' event_id key (snd cs)) (snd cs))
       (\<lambda>s1. Inr (Suc (fst cs), s1)))"

definition create_event_notification :: "event_row \<Rightarrow> nat \<times> db \<Rightarrow> exn + nat \<times> db" where
  "create_event_notification e cs =
    (if e_notification_sent_at e \<noteq> None then Inr cs
     else
       bindE (foldE (\<lambda>u. announce (''notification_event_'' @ e_id e @ ''_'' @ u_id u) (u_id u) ''event_started''
             (e_id e) (''event_started:'' @ e_id e))
           (filter (\<lambda>u. u_role u = FAN) (users (snd cs))) cs) (\<lambda>(n, s1).
       Inr (n, put_event (e\<lparr>e_notification_sent_at := Some (now s1)\<rparr>) s1)))"

definition deadline_near :: "event_row \<Rightarrow> time \<Rightarrow> bool" where
  "deadline_near e t \<longleftrightarrow> (case e_application_ends_at e of None \<Rightarrow> False
     | Some d \<Rightarrow> t < d \<and> d \<le> t + seconds (24 * 3600))"

definition remind_applicants :: "event_row \<Rightarrow> nat \<times> db \<Rightarrow> exn + nat \<times> db" where
  "remind_applicants e cs =
    foldE (\<lambda>a. announce (''notification_event_deadline_'' @ e_id e @ ''_'' @ ea_user_id a) (ea_user_id a)
        ''event_application_deadline'' (e_id e) (''event_application_deadline:'' @ e_id e @ '':'' @ ea_user_id a))
      (filter (\<lambda>a. ea_event_id a = e_id e \<and> ea_status a = ''submitted'') (event_applications (snd cs))) cs"

definition is_open :: "event_row \<Rightarrow> bool" where
  "is_open e \<longleftrightarrow> e_workflow_status e \<in> {''scheduled'', ''published''}"

text \<open>The count, and the state of the session; the code commits it when the count is positive.\<close>

definition reconcile_due_event_notifications :: "db \<Rightarrow> exn + nat \<times> db" where
  "reconcile_due_event_notifications s =
    bindE (foldE create_event_notification
        (filter (\<lambda>e. is_open e \<and> e_starts_at e \<le> now s \<and> e_notification_sent_at e = None) (events s)) (0, s))
      (\<lambda>cs. foldE remind_applicants (filter (\<lambda>e. is_open e \<and> deadline_near e (now s)) (events (snd cs))) cs)"

section \<open>Events for fans\<close>

definition find_managed_event :: "ident \<Rightarrow> db \<Rightarrow> event_row option" where
  "find_managed_event i s = find (\<lambda>e. e_id e = i) (events s)"

definition event_not_found :: exn where
  "event_not_found = AppError 404 ''EVENT_NOT_FOUND''"

definition event_status :: "event_row \<Rightarrow> time \<Rightarrow> string option" where
  "event_status e t = public_event_status (e_workflow_status e) (e_starts_at e) (e_ends_at e) t"

definition require_public_event :: "ident \<Rightarrow> db \<Rightarrow> exn + event_row" where
  "require_public_event i s =
    (case find_managed_event i s of
       None \<Rightarrow> Inl event_not_found
     | Some e \<Rightarrow> if \<not> is_open e \<or> event_status e (now s) = None then Inl event_not_found else Inr e)"

definition public_filter :: "string \<Rightarrow> time \<Rightarrow> event_row \<Rightarrow> bool" where
  "public_filter status t e \<longleftrightarrow>
    (if status = ''active'' then e_starts_at e \<le> t \<and> (case e_ends_at e of None \<Rightarrow> True | Some x \<Rightarrow> t < x)
     else if status = ''upcoming'' then t < e_starts_at e
     else (case e_ends_at e of None \<Rightarrow> False | Some x \<Rightarrow> x \<le> t))"

text \<open>The state of a request after the notifications were reconciled and before it goes on.\<close>

definition with_reconciled :: "(db \<Rightarrow> exn + 'a \<times> db) \<Rightarrow> db \<Rightarrow> (exn + 'a) \<times> db" where
  "with_reconciled rest s =
    (case reconcile_due_event_notifications s of
       Inl e \<Rightarrow> (Inl e, s)
     | Inr (n, s1) \<Rightarrow>
         (case rest s1 of
            Inl e \<Rightarrow> (Inl e, if 0 < n then s1 else s)
          | Inr (a, s2) \<Rightarrow> (Inr a, s2)))"

definition event_analytics :: "string \<Rightarrow> ident \<Rightarrow> event_row \<Rightarrow> string \<Rightarrow> string \<Rightarrow> jobj \<Rightarrow> analytics_args" where
  "event_analytics name u e source dedupe metadata =
    \<lparr>aa_event_name = name, aa_user_id = Some u, aa_organization_id = e_organization_id e,
     aa_artist = e_artist_id e, aa_card_id = None, aa_pack_id = None, aa_source = Some source,
     aa_dedupe_key = Some dedupe, aa_metadata = metadata\<rparr>"

definition get_fan_event :: "ident \<Rightarrow> ident \<Rightarrow> db \<Rightarrow> (exn + event_row) \<times> db" where
  "get_fan_event i u s =
    (case require_public_event i s of
       Inl x \<Rightarrow> (Inl x, s)
     | Inr e \<Rightarrow>
         with_reconciled (\<lambda>s1.
           bindE (record_analytics_event (event_analytics ''product.detail_viewed'' u e ''event_detail''
               (''event-detail:'' @ u @ '':'' @ i) [(''surface'', JStr ''fan_event'')]) s1) (\<lambda>(_, s2).
           Inr (e, s2))) s)"

definition list_event_comments :: "ident \<Rightarrow> ident \<Rightarrow> db \<Rightarrow> exn + event_comment list" where
  "list_event_comments i u s =
    bindE (require_public_event i s) (\<lambda>e.
    Inr (take 50 (rev (sort_key ec_created_at (filter (\<lambda>x. ec_event_id x = i \<and>
        (ec_status x = ''approved'' \<or> ec_user_id x = u) \<and> get_user (ec_user_id x) s \<noteq> None)
      (event_comments s))))))"

definition event_payload :: "event_row \<Rightarrow> jobj" where
  "event_payload e = [(''eventId'', JStr (e_id e)), (''organizationId'', jopt (e_organization_id e)),
     (''artistId'', jopt (e_artist_id e))]"

definition create_event_comment :: "ident \<Rightarrow> string \<Rightarrow> ident \<Rightarrow> db \<Rightarrow> exn + event_comment \<times> db" where
  "create_event_comment i text u s =
    bindE (require_public_event i s) (\<lambda>e.
    if e_event_type e \<noteq> ''comment'' then Inl (AppError 409 ''EVENT_COMMENT_UNAVAILABLE'')
    else if event_status e (now s) \<noteq> Some ''active'' then Inl (AppError 409 ''EVENT_COMMENT_CLOSED'')
    else if py_strip text = [] then Inl (AppError 422 ''COMMENT_BODY_REQUIRED'')
    else
      let x = \<lparr>ec_id = new_id ''comment_'' s, ec_event_id = i, ec_user_id = u, ec_body = py_strip text,
            ec_status = ''pending'', ec_created_at = now s\<rparr>
      in bindE (insert_row (\<lambda>r x. ec_id x = ec_id r) x (event_comments s)) (\<lambda>rows.
         bindE (record_engagement_event u ''event_commented'' ''event_comment'' (ec_id x) (event_payload e)
             ((draw s)\<lparr>event_comments := rows\<rparr>)) (\<lambda>(_, s1).
         Inr (x, s1))))"

subsection \<open>Applications\<close>

definition submitted :: "ident \<Rightarrow> event_application \<Rightarrow> bool" where
  "submitted i a \<longleftrightarrow> ea_event_id a = i \<and> ea_status a = ''submitted''"

definition application_status :: "event_row \<Rightarrow> ident \<Rightarrow> db \<Rightarrow> string" where
  "application_status e u s =
    (let window_start = (case e_application_starts_at e of None \<Rightarrow> e_starts_at e | Some t \<Rightarrow> t);
         window_end = (case e_application_ends_at e of None \<Rightarrow> e_ends_at e | Some t \<Rightarrow> Some t)
     in if list_ex (\<lambda>a. submitted (e_id e) a \<and> ea_user_id a = u) (event_applications s) then ''applied''
        else if now s < window_start then ''upcoming''
        else if (case window_end of None \<Rightarrow> False | Some t \<Rightarrow> t < now s) then ''closed''
        else if (case e_participant_limit e of None \<Rightarrow> False
               | Some n \<Rightarrow> n \<noteq> 0 \<and> n \<le> int (count_where (submitted (e_id e)) (event_applications s)))
        then ''full''
        else ''available'')"

definition clash_application :: "event_application \<Rightarrow> event_application \<Rightarrow> bool" where
  "clash_application r x \<longleftrightarrow> ea_id x = ea_id r \<or> (ea_event_id x = ea_event_id r \<and> ea_user_id x = ea_user_id r)"

text \<open>
  The application is written by the flush before the lookup of the engagement event, so
  a violation of its unique constraint is raised there, outside the \<open>try\<close> around the commit.
\<close>

definition apply_to_event :: "ident \<Rightarrow> ident \<Rightarrow> db \<Rightarrow> exn + event_application \<times> db" where
  "apply_to_event i u s =
    bindE (require_public_event i s) (\<lambda>e.
    case find (\<lambda>a. submitted i a \<and> ea_user_id a = u) (event_applications s) of
      Some a \<Rightarrow> Inr (a, s)
    | None \<Rightarrow>
        if application_status e u s \<noteq> ''available'' then Inl (AppError 409 ''EVENT_APPLICATION_UNAVAILABLE'')
        else
          let metadata = [(''conversion'', JStr ''event_application''), (''eventId'', JStr i)]
          in bindE (record_analytics_event (event_analytics ''conversion.started'' u e ''event_application''
                 (''event-application-attempt:'' @ i @ '':'' @ u) metadata) s) (\<lambda>(_, s1).
             let a = \<lparr>ea_id = new_id ''application_'' s1, ea_event_id = i, ea_user_id = u,
                   ea_status = ''submitted'', ea_check_in_token_hash = None, ea_check_in_token_issued_at = None,
                   ea_checked_in_at = None, ea_checked_in_by = None, ea_created_at = now s1\<rparr>
             in bindE (insert_row clash_application a (event_applications s1)) (\<lambda>rows.
                bindE (record_engagement_event u ''event_applied'' ''event_application'' (ea_id a) (event_payload e)
                    ((draw s1)\<lparr>event_applications := rows\<rparr>)) (\<lambda>(_, s2).
                bindE (record_analytics_event (event_analytics ''conversion.completed'' u e ''event_application''
                    (''event-application:'' @ ea_id a) metadata) s2) (\<lambda>(_, s3).
                bindE (announce (''notification_event_application_'' @ i @ ''_'' @ u) u ''event_application_submitted''
                    i (''event_application_submitted:'' @ i @ '':'' @ u) (0, s3)) (\<lambda>(_, s4).
                Inr (a, s4)))))))"

section \<open>Events for administrators\<close>

text \<open>The body of a creation or an update; both send every field.\<close>

record event_body =
  eb_organization_id :: "ident option"
  eb_artist_id :: "ident option"
  eb_title :: string
  eb_hero_asset_id :: ident
  eb_event_type :: string
  eb_starts_at :: time
  eb_ends_at :: "time option"
  eb_participant_limit :: "int option"
  eb_application_starts_at :: "time option"
  eb_application_ends_at :: "time option"
  eb_drop_id :: "ident option"
  eb_card_id :: "ident option"
  eb_achievement_id :: "ident option"
  eb_external_url :: "string option"
  eb_related_card_ids :: "ident list"
  eb_featured :: bool
  eb_priority :: int

text \<open>The validator of the body (\<open>schemas.py\<close>); a body that fails it is answered by 422.\<close>

definition valid_event_body :: "event_body \<Rightarrow> bool" where
  "valid_event_body b \<longleftrightarrow>
    (let links = [(''card_drop'', eb_drop_id b), (''card'', eb_card_id b), (''fan_mission'', eb_achievement_id b),
           (''external'', eb_external_url b)];
         selected = filter present (map snd links)
     in distinct (eb_related_card_ids b) \<and>
        (case eb_ends_at b of None \<Rightarrow> True | Some t \<Rightarrow> eb_starts_at b < t) \<and>
        (case (eb_application_starts_at b, eb_application_ends_at b) of (Some x, Some y) \<Rightarrow> x < y | _ \<Rightarrow> True) \<and>
        (if eb_event_type b \<in> {''announcement'', ''comment''} then selected = []
         else (case map_of links (eb_event_type b) of None \<Rightarrow> False | Some v \<Rightarrow> v \<noteq> None) \<and> length selected = 1) \<and>
        (case eb_external_url b of None \<Rightarrow> True | Some u \<Rightarrow> startswith (py_lower u) ''https://''))"

definition set_event_body :: "event_body \<Rightarrow> event_row \<Rightarrow> event_row" where
  "set_event_body b e =
    e\<lparr>e_title := eb_title b, e_hero_asset_id := eb_hero_asset_id b, e_event_type := eb_event_type b,
      e_starts_at := eb_starts_at b, e_ends_at := eb_ends_at b, e_participant_limit := eb_participant_limit b,
      e_application_starts_at := eb_application_starts_at b, e_application_ends_at := eb_application_ends_at b,
      e_drop_id := eb_drop_id b, e_card_id := eb_card_id b, e_achievement_id := eb_achievement_id b,
      e_external_url := eb_external_url b, e_featured := eb_featured b\<rparr>"

text \<open>Only a root administrator sets the priority.\<close>

definition set_priority :: "admin_context \<Rightarrow> event_body \<Rightarrow> event_row \<Rightarrow> event_row" where
  "set_priority c b e = (if is_root c then e\<lparr>e_priority := eb_priority b\<rparr> else e)"

definition validate_related_cards :: "admin_context \<Rightarrow> ident list \<Rightarrow> db \<Rightarrow> exn + unit" where
  "validate_related_cards c ids s =
    (let found = filter (\<lambda>x. c_id x \<in> set ids) (cards s)
     in if length found \<noteq> length ids then Inl (AppError 422 ''EVENT_RELATED_CARD_INVALID'')
        else if \<not> is_root c \<and> \<not> list_all (\<lambda>x. c_artist_id x \<in> Some ` set (ctx_artists c)) found
        then Inl (AppError 404 ''RESOURCE_NOT_FOUND'')
        else Inr ())"

definition clash_related :: "event_related_card \<Rightarrow> event_related_card \<Rightarrow> bool" where
  "clash_related r x \<longleftrightarrow> erc_id x = erc_id r \<or>
    (erc_event_id x = erc_event_id r \<and> (erc_card_id x = erc_card_id r \<or> erc_position x = erc_position r))"

text \<open>
  The old rows are marked for deletion and the new ones added; the flush of the session
  sends the insertions first, so the old rows are still there when the new ones arrive.
\<close>

definition add_related_card :: "event_row \<Rightarrow> nat \<times> ident \<Rightarrow> db \<Rightarrow> exn + db" where
  "add_related_card e pc s =
    bindE (insert_row clash_related \<lparr>erc_id = new_id ''event_related_'' s, erc_event_id = e_id e,
        erc_card_id = snd pc, erc_position = int (fst pc)\<rparr> (event_related_cards s))
      (\<lambda>rows. Inr ((draw s)\<lparr>event_related_cards := rows\<rparr>))"

definition replace_related_cards :: "event_row \<Rightarrow> ident list \<Rightarrow> db \<Rightarrow> exn + db" where
  "replace_related_cards e ids s =
    (let old = map erc_id (filter (\<lambda>x. erc_event_id x = e_id e) (event_related_cards s))
     in bindE (foldE (add_related_card e) (zip [0..<length ids] ids) s) (\<lambda>s1.
        Inr (s1\<lparr>event_related_cards := filter (\<lambda>x. erc_id x \<notin> set old) (event_related_cards s1)\<rparr>)))"

definition event_audit :: "admin_context \<Rightarrow> string \<Rightarrow> event_row \<Rightarrow> jobj \<Rightarrow> audit_args" where
  "event_audit c action e details =
    \<lparr>au_actor_user_id = Some (u_id (ctx_user c)), au_action = action, au_entity_type = ''event'',
     au_entity_id = e_id e, au_organization_id = None, au_artist_id = None, au_details = details\<rparr>"

definition event_organization :: "admin_context \<Rightarrow> event_body \<Rightarrow> exn + ident option" where
  "event_organization c b =
    (if \<not> is_root c then
       (case ctx_organization c of
          None \<Rightarrow> Inl (AppError 404 ''RESOURCE_NOT_FOUND'')
        | Some g \<Rightarrow>
            if eb_organization_id b \<notin> {None, Some (org_id g)} then Inl (AppError 404 ''RESOURCE_NOT_FOUND'')
            else bindE (require_artist (eb_artist_id b) c) (\<lambda>_. Inr (Some (org_id g))))
     else if eb_organization_id b = None \<and> eb_artist_id b \<noteq> None
     then Inl (AppError 422 ''EVENT_SCOPE_INVALID'')
     else Inr (eb_organization_id b))"

definition new_managed_event :: "ident \<Rightarrow> ident option \<Rightarrow> ident option \<Rightarrow> ident \<Rightarrow> event_row" where
  "new_managed_event i organization artist creator =
    \<lparr>e_id = i, e_organization_id = organization, e_artist_id = artist, e_title = [], e_hero_asset_id = [],
     e_event_type = ''announcement'', e_workflow_status = ''draft'', e_starts_at = 0, e_ends_at = None,
     e_participant_limit = None, e_application_starts_at = None, e_application_ends_at = None, e_drop_id = None,
     e_card_id = None, e_achievement_id = None, e_external_url = None, e_review_note = None,
     e_created_by = creator, e_reviewed_by = None, e_published_at = None, e_notification_sent_at = None,
     e_featured = False, e_priority = 0\<rparr>"

definition admin_create_event :: "event_body \<Rightarrow> admin_context \<Rightarrow> db \<Rightarrow> exn + event_row \<times> db" where
  "admin_create_event b c s =
    bindE (require_action ''events:write'' c) (\<lambda>_.
    bindE (event_organization c b) (\<lambda>organization.
    bindE (validate_event_asset (eb_hero_asset_id b) s) (\<lambda>_.
    bindE (validate_related_cards c (eb_related_card_ids b) s) (\<lambda>_.
    let e = set_priority c b (set_event_body b
          (new_managed_event (new_id ''event_'' s) organization (eb_artist_id b) (u_id (ctx_user c))))
    in bindE (insert_row (\<lambda>r x. e_id x = e_id r) e (events s)) (\<lambda>rows.
       bindE (replace_related_cards e (eb_related_card_ids b) ((draw s)\<lparr>events := rows\<rparr>)) (\<lambda>s1.
       bindE (record_audit ((event_audit c ''event.created'' e [])
           \<lparr>au_organization_id := e_organization_id e, au_artist_id := e_artist_id e\<rparr>) s1) (\<lambda>s2.
       Inr (e, s2))))))))"

text \<open>The event of a path, in the scope of the administrator.\<close>

definition scoped_event :: "ident \<Rightarrow> admin_context \<Rightarrow> db \<Rightarrow> exn + event_row" where
  "scoped_event i c s =
    (case find_managed_event i s of
       None \<Rightarrow> Inl event_not_found
     | Some e \<Rightarrow> if event_in_scope c e then Inr e else Inl event_not_found)"

definition admin_get_event :: "ident \<Rightarrow> admin_context \<Rightarrow> db \<Rightarrow> exn + event_row" where
  "admin_get_event i c s = bindE (require_action ''events:read'' c) (\<lambda>_. scoped_event i c s)"

definition admin_update_event :: "ident \<Rightarrow> event_body \<Rightarrow> admin_context \<Rightarrow> db \<Rightarrow> exn + event_row \<times> db" where
  "admin_update_event i b c s =
    bindE (require_action ''events:write'' c) (\<lambda>_.
    bindE (scoped_event i c s) (\<lambda>e.
    if e_workflow_status e = ''ended'' then Inl (AppError 409 ''EVENT_EDIT_LOCKED'')
    else
      bindE (validate_related_cards c (eb_related_card_ids b) s) (\<lambda>_.
      let e1 = set_priority c b (set_event_body b e)
      in bindE (replace_related_cards e1 (eb_related_card_ids b) (put_event e1 s)) (\<lambda>s1.
         bindE (validate_event_asset (e_hero_asset_id e1) s1) (\<lambda>_.
         bindE (record_audit (event_audit c ''event.updated'' e1
             [(''workflowStatus'', JStr (e_workflow_status e1))]) s1) (\<lambda>s2.
         Inr (e1, s2)))))))"

definition admin_submit_event :: "ident \<Rightarrow> admin_context \<Rightarrow> db \<Rightarrow> exn + event_row \<times> db" where
  "admin_submit_event i c s =
    bindE (require_action ''events:submit'' c) (\<lambda>_.
    bindE (scoped_event i c s) (\<lambda>e.
    bindE (validate_transition (e_workflow_status e) ''pending_review'') (\<lambda>_.
    bindE (validate_event_asset (e_hero_asset_id e) s) (\<lambda>_.
    bindE (validate_event_connections e s) (\<lambda>_.
    let e1 = e\<lparr>e_workflow_status := ''pending_review''\<rparr>
    in bindE (record_audit (event_audit c ''event.submitted'' e1 []) (put_event e1 s)) (\<lambda>s1. Inr (e1, s1)))))))"

definition review_target :: "string \<Rightarrow> string" where
  "review_target decision = (if decision = ''approve'' then ''approved'' else ''changes_requested'')"

definition admin_review_event ::
  "ident \<Rightarrow> string \<Rightarrow> string option \<Rightarrow> admin_context \<Rightarrow> db \<Rightarrow> exn + event_row \<times> db" where
  "admin_review_event i decision comment c s =
    bindE (require_action ''events:review'' c) (\<lambda>_.
    bindE (scoped_event i c s) (\<lambda>e.
    let target = review_target decision
    in bindE (validate_transition (e_workflow_status e) target) (\<lambda>_.
       bindE (if target = ''approved'' then validate_event_connections e s else Inr ()) (\<lambda>_.
       let e1 = e\<lparr>e_workflow_status := target, e_reviewed_by := Some (u_id (ctx_user c)), e_review_note := comment\<rparr>
       in bindE (record_audit (event_audit c ''event.reviewed'' e1
              [(''decision'', JStr decision), (''note'', jopt comment)]) (put_event e1 s)) (\<lambda>s1. Inr (e1, s1))))))"

definition publish_target :: "event_row \<Rightarrow> time \<Rightarrow> string" where
  "publish_target e t = (if e_starts_at e \<le> t then ''published'' else ''scheduled'')"

definition admin_publish_event :: "ident \<Rightarrow> admin_context \<Rightarrow> db \<Rightarrow> exn + event_row \<times> db" where
  "admin_publish_event i c s =
    bindE (require_action ''events:publish'' c) (\<lambda>_.
    bindE (scoped_event i c s) (\<lambda>e.
    let target = publish_target e (now s)
    in bindE (validate_transition (e_workflow_status e) target) (\<lambda>_.
       let e1 = e\<lparr>e_workflow_status := target,
             e_published_at := (if e_published_at e = None then Some (now s) else e_published_at e)\<rparr>
       in bindE (record_audit (event_audit c ''event.published'' e1 [(''workflowStatus'', JStr target)])
            (put_event e1 s)) (\<lambda>s1. Inr (e1, s1)))))"

definition admin_end_event :: "ident \<Rightarrow> admin_context \<Rightarrow> db \<Rightarrow> exn + event_row \<times> db" where
  "admin_end_event i c s =
    bindE (require_action ''events:publish'' c) (\<lambda>_.
    bindE (scoped_event i c s) (\<lambda>e.
    bindE (validate_transition (e_workflow_status e) ''ended'') (\<lambda>_.
    let e1 = e\<lparr>e_workflow_status := ''ended''\<rparr>
    in bindE (record_audit (event_audit c ''event.ended'' e1 []) (put_event e1 s)) (\<lambda>s1. Inr (e1, s1)))))"

definition admin_delete_event :: "ident \<Rightarrow> admin_context \<Rightarrow> db \<Rightarrow> exn + event_row \<times> db" where
  "admin_delete_event i c s =
    bindE (require_action ''events:write'' c) (\<lambda>_.
    bindE (scoped_event i c s) (\<lambda>e.
    if e_published_at e \<noteq> None then Inl (AppError 409 ''EVENT_DELETE_LOCKED'')
    else
      bindE (record_audit (event_audit c ''event.deleted'' e []) s) (\<lambda>s1.
      Inr (e, s1\<lparr>events := filter (\<lambda>x. e_id x \<noteq> i) (events s1)\<rparr>))))"

definition admin_review_event_comment ::
  "ident \<Rightarrow> ident \<Rightarrow> string \<Rightarrow> string option \<Rightarrow> admin_context \<Rightarrow> db \<Rightarrow> exn + event_comment \<times> db" where
  "admin_review_event_comment i j status comment c s =
    bindE (require_action ''events:write'' c) (\<lambda>_.
    case (find_managed_event i s, find (\<lambda>x. ec_id x = j) (event_comments s)) of
      (Some e, Some x) \<Rightarrow>
        if ec_event_id x \<noteq> i \<or> \<not> event_in_scope c e then Inl (AppError 404 ''COMMENT_NOT_FOUND'')
        else
          let x1 = x\<lparr>ec_status := status\<rparr>
          in bindE (record_audit
               \<lparr>au_actor_user_id = Some (u_id (ctx_user c)), au_action = ''event.comment_'' @ status,
                au_entity_type = ''event_comment'', au_entity_id = j, au_organization_id = e_organization_id e,
                au_artist_id = e_artist_id e,
                au_details = (''eventId'', JStr i) # (if present comment then [(''note'', jopt comment)] else [])\<rparr>
               (s\<lparr>event_comments := update_where (\<lambda>y. ec_id y = j) (\<lambda>_. x1) (event_comments s)\<rparr>)) (\<lambda>s1.
             Inr (x1, s1))
    | _ \<Rightarrow> Inl (AppError 404 ''COMMENT_NOT_FOUND''))"

text \<open>
  \<open>picks\<close> is what \<open>SystemRandom().sample\<close> draws: distinct positions in the list of
  candidates, as many as asked for.
\<close>

definition winner_count :: "int \<Rightarrow> 'a list \<Rightarrow> nat" where
  "winner_count wanted candidates = nat (min wanted (int (length candidates)))"

definition admin_draw_event_winners ::
  "ident \<Rightarrow> int \<Rightarrow> nat list \<Rightarrow> admin_context \<Rightarrow> db \<Rightarrow> exn + ident list \<times> db" where
  "admin_draw_event_winners i wanted picks c s =
    bindE (require_action ''events:write'' c) (\<lambda>_.
    bindE (scoped_event i c s) (\<lambda>e.
    let candidates = filter (submitted i) (event_applications s)
    in if candidates = [] then Inl (AppError 409 ''EVENT_DRAW_EMPTY'')
       else
         let n = winner_count wanted candidates; winners = map (\<lambda>k. ea_id (candidates ! k)) (take n picks)
         in bindE (record_audit (event_audit c ''event.winners_drawn'' e [(''winnerCount'', JInt (int n))])
              (s\<lparr>event_applications := update_where (submitted i)
                 (\<lambda>a. a\<lparr>ea_status := (if ea_id a \<in> set winners then ''winner'' else ''not_selected'')\<rparr>)
                 (event_applications s)\<rparr>)) (\<lambda>s1.
            Inr (winners, s1))))"

section \<open>The workflow\<close>

text \<open>What holds of an event in each stage of its workflow.\<close>

definition event_ok :: "event_row \<Rightarrow> bool" where
  "event_ok e \<longleftrightarrow> e_workflow_status e \<in> set WORKFLOW_STATUSES \<and>
    (e_workflow_status e \<in> {''approved'', ''scheduled'', ''published'', ''ended''} \<longrightarrow> e_reviewed_by e \<noteq> None) \<and>
    (e_workflow_status e \<in> {''scheduled'', ''published'', ''ended''} \<longleftrightarrow> e_published_at e \<noteq> None)"

definition events_ok :: "db \<Rightarrow> bool" where
  "events_ok s \<longleftrightarrow> unique_by e_id (events s) \<and> (\<forall>e \<in> set (events s). event_ok e)"

lemma validate_transition_Inr [inr_simps]:
  "validate_transition current target = Inr x \<longleftrightarrow>
    (current, target) \<in> {(''draft'', ''pending_review''), (''changes_requested'', ''pending_review''),
      (''pending_review'', ''changes_requested''), (''pending_review'', ''approved''),
      (''approved'', ''scheduled''), (''approved'', ''published''), (''scheduled'', ''published''),
      (''scheduled'', ''ended''), (''published'', ''ended'')}"
  by (auto simp: validate_transition_def allowed_targets_def split: if_splits)

lemma events_ok_irrelevant [simp]:
  "events_ok (s\<lparr>notifications := ns\<rparr>) = events_ok s"
  "events_ok (s\<lparr>notification_deliveries := nds\<rparr>) = events_ok s"
  "events_ok (s\<lparr>audit_logs := als\<rparr>) = events_ok s"
  "events_ok (s\<lparr>drawn := n\<rparr>) = events_ok s"
  "events_ok (s\<lparr>now := t\<rparr>) = events_ok s"
  "events_ok (draw s) = events_ok s"
  "events_ok (s\<lparr>event_comments := ecs\<rparr>) = events_ok s"
  "events_ok (s\<lparr>event_applications := eas\<rparr>) = events_ok s"
  "events_ok (s\<lparr>event_related_cards := ercs\<rparr>) = events_ok s"
  "events_ok (s\<lparr>engagement_events := evs\<rparr>) = events_ok s"
  "events_ok (s\<lparr>analytics_events := aes\<rparr>) = events_ok s"
  by (simp_all add: events_ok_def draw_def)

lemma find_managed_ok: "find_managed_event i s = Some e \<Longrightarrow> events_ok s \<Longrightarrow> event_ok e \<and> e_id e = i"
  by (auto simp: find_managed_event_def events_ok_def dest: find_SomeD)

lemma put_event_ok: "events_ok s \<Longrightarrow> event_ok e \<Longrightarrow> events_ok (put_event e s)"
  by (auto simp: events_ok_def put_event_def set_update_where intro: unique_by_update_where)

lemma record_audit_events: "record_audit a s = Inr s' \<Longrightarrow> events_ok s' = events_ok s"
  by (drule record_audit_touch) auto

lemma related_events:
  assumes "replace_related_cards e ids s = Inr s'"
  shows "events_ok s' = events_ok s"
proof -
  obtain s1 old where f: "foldE (add_related_card e) (zip [0..<length ids] ids) s = Inr s1"
    and s': "s' = s1\<lparr>event_related_cards := filter (\<lambda>x. erc_id x \<notin> set old) (event_related_cards s1)\<rparr>"
    using assms unfolding replace_related_cards_def Let_def by (auto simp only: bindE_eq_Inr sum.inject)
  have "events_ok s1 = events_ok s"
    using f by (rule foldE_invariant [where P = "\<lambda>t. events_ok t = events_ok s"])
      (auto simp: add_related_card_def bindE_eq_Inr)
  then show ?thesis by (simp add: s')
qed

lemma announce_events: "announce i u k ei key cs = Inr cs' \<Longrightarrow> events_ok (snd cs') = events_ok (snd cs)"
  by (auto simp: announce_def add_notification_def bindE_eq_Inr split: if_splits)

lemma announce_all_events:
  assumes "foldE (\<lambda>u. announce (f u) (g u) k i (key u)) us cs = Inr cs'"
  shows "events_ok (snd cs') = events_ok (snd cs)"
  using assms by (rule foldE_invariant [where P = "\<lambda>x. events_ok (snd x) = events_ok (snd cs)"])
    (simp_all add: announce_events)

lemma create_event_notification_events:
  assumes "create_event_notification e cs = Inr cs'" and "events_ok (snd cs)" and "event_ok e"
  shows "events_ok (snd cs')"
proof (cases "e_notification_sent_at e = None")
  case True
  with assms(1) obtain n s1 where f: "foldE (\<lambda>u. announce (''notification_event_'' @ e_id e @ ''_'' @ u_id u)
        (u_id u) ''event_started'' (e_id e) (''event_started:'' @ e_id e))
        (filter (\<lambda>u. u_role u = FAN) (users (snd cs))) cs = Inr (n, s1)"
    and cs': "cs' = (n, put_event (e\<lparr>e_notification_sent_at := Some (now s1)\<rparr>) s1)"
    unfolding create_event_notification_def
    by (auto simp only: bindE_eq_Inr sum.inject not_True_eq_False if_False simp_thms split_paired_all prod.case)
  have "event_ok (e\<lparr>e_notification_sent_at := Some (now s1)\<rparr>) = event_ok e" by (simp add: event_ok_def)
  with assms(3) announce_all_events [OF f] assms(2) show ?thesis by (simp add: cs' put_event_ok)
next
  case False
  with assms(1,2) show ?thesis by (simp add: create_event_notification_def)
qed

lemma reconcile_events:
  assumes "reconcile_due_event_notifications s = Inr (n, s')" and "events_ok s"
  shows "events_ok s'"
proof -
  obtain cs where f: "foldE create_event_notification
      (filter (\<lambda>e. is_open e \<and> e_starts_at e \<le> now s \<and> e_notification_sent_at e = None) (events s)) (0, s) = Inr cs"
    and g: "foldE remind_applicants (filter (\<lambda>e. is_open e \<and> deadline_near e (now s)) (events (snd cs))) cs = Inr (n, s')"
    using assms(1) unfolding reconcile_due_event_notifications_def by (auto simp only: bindE_eq_Inr)
  from f have "events_ok (snd cs)"
    by (rule foldE_invariant)
      (use assms(2) in \<open>auto simp: events_ok_def [of s] intro: create_event_notification_events\<close>)
  with g have "events_ok (snd (n, s'))"
    by (rule foldE_invariant) (simp add: remind_applicants_def announce_all_events)
  then show ?thesis by simp
qed

text \<open>Each request keeps the invariant.\<close>

lemma with_reconciled_keeps:
  assumes "with_reconciled rest s = (r, s')" and "events_ok s"
    and "\<And>s1 a s2. rest s1 = Inr (a, s2) \<Longrightarrow> events_ok s1 \<Longrightarrow> events_ok s2"
  shows "events_ok s'"
proof (cases "reconcile_due_event_notifications s")
  case (Inl e)
  with assms(1,2) show ?thesis by (auto simp: with_reconciled_def)
next
  case (Inr p)
  then obtain n s1 where p: "reconcile_due_event_notifications s = Inr (n, s1)" by (cases p) auto
  from reconcile_events [OF p assms(2)] have "events_ok s1" .
  with p assms show ?thesis
    by (cases "rest s1") (auto simp: with_reconciled_def split: if_splits)
qed

lemma analytics_events_keep: "record_analytics_event a s = Inr (x, s') \<Longrightarrow> events_ok s' = events_ok s"
  by (drule record_analytics_event_touch) auto

lemma engagement_events_keep: "record_engagement_event u k st si p s = Inr (x, s') \<Longrightarrow> events_ok s' = events_ok s"
  by (drule record_engagement_event_touch) auto

lemma get_fan_event_ok: "get_fan_event i u s = (r, s') \<Longrightarrow> events_ok s \<Longrightarrow> events_ok s'"
  unfolding get_fan_event_def
  by (cases "require_public_event i s")
    (auto simp: bindE_eq_Inr elim!: with_reconciled_keeps dest!: analytics_events_keep)

lemma create_event_comment_ok: "create_event_comment i t u s = Inr (x, s') \<Longrightarrow> events_ok s \<Longrightarrow> events_ok s'"
  unfolding create_event_comment_def Let_def
  by (auto simp: bindE_eq_Inr split: if_splits dest!: engagement_events_keep)

lemma apply_to_eventE:
  assumes "apply_to_event i u s = Inr (a, s')"
  obtains (Known) e where "require_public_event i s = Inr e" "s' = s"
    "find (\<lambda>a. submitted i a \<and> ea_user_id a = u) (event_applications s) = Some a"
  | (New) e s1 s2 s3 n x1 x2 x3 an1 an2 rows where "require_public_event i s = Inr e"
    "find (\<lambda>a. submitted i a \<and> ea_user_id a = u) (event_applications s) = None"
    "application_status e u s = ''available''" "record_analytics_event an1 s = Inr (x1, s1)"
    "insert_row clash_application a (event_applications s1) = Inr rows"
    "ea_event_id a = i" "ea_user_id a = u" "ea_status a = ''submitted''"
    "record_engagement_event u ''event_applied'' ''event_application'' (ea_id a) (event_payload e)
      ((draw s1)\<lparr>event_applications := rows\<rparr>) = Inr (x2, s2)"
    "record_analytics_event an2 s2 = Inr (x3, s3)"
    "announce (''notification_event_application_'' @ i @ ''_'' @ u) u ''event_application_submitted''
      i (''event_application_submitted:'' @ i @ '':'' @ u) (0, s3) = Inr (n, s')"
proof -
  obtain e where e: "require_public_event i s = Inr e"
    using assms unfolding apply_to_event_def by (auto simp only: bindE_eq_Inr)
  show thesis
  proof (cases "find (\<lambda>a. submitted i a \<and> ea_user_id a = u) (event_applications s)")
    case (Some b)
    with assms e show thesis unfolding apply_to_event_def by (intro Known) auto
  next
    case None
    let ?m = "[(''conversion'', JStr ''event_application''), (''eventId'', JStr i)]"
    from assms e None have av: "application_status e u s = ''available''"
      unfolding apply_to_event_def by (auto split: if_splits)
    with assms e None show thesis unfolding apply_to_event_def Let_def
      by (auto simp only: bindE_Inr option.case if_False simp_thms bindE_eq_Inr split_paired_all prod.case
          sum.inject prod.inject if_True) (rule New [OF e None av]; (assumption | simp))
  qed
qed

lemma apply_to_event_ok: "apply_to_event i u s = Inr (a, s') \<Longrightarrow> events_ok s \<Longrightarrow> events_ok s'"
  by (erule apply_to_eventE)
    (auto dest!: announce_events analytics_events_keep engagement_events_keep)

lemma event_ok_body [simp]: "event_ok (set_event_body b e) = event_ok e" "e_id (set_event_body b e) = e_id e"
  by (simp_all add: event_ok_def set_event_body_def)

lemma event_ok_priority [simp]: "event_ok (set_priority c b e) = event_ok e" "e_id (set_priority c b e) = e_id e"
  by (simp_all add: event_ok_def set_priority_def)

lemma scoped_event_ok: "scoped_event i c s = Inr e \<Longrightarrow> events_ok s \<Longrightarrow> event_ok e \<and> e_id e = i"
  by (auto simp: scoped_event_def dest: find_managed_ok split: option.splits if_splits)

lemma admin_create_event_ok:
  assumes "admin_create_event b c s = Inr (e, s')" and "events_ok s"
  shows "events_ok s'"
proof -
  obtain org rows s1 a where e: "e = set_priority c b (set_event_body b
      (new_managed_event (new_id ''event_'' s) org (eb_artist_id b) (u_id (ctx_user c))))"
    and r: "insert_row (\<lambda>r x. e_id x = e_id r) e (events s) = Inr rows"
    and s1: "replace_related_cards e (eb_related_card_ids b) ((draw s)\<lparr>events := rows\<rparr>) = Inr s1"
    and a: "record_audit a s1 = Inr s'"
    using assms(1) unfolding admin_create_event_def Let_def by (auto simp only: bindE_eq_Inr sum.inject prod.inject)
  have "event_ok e" by (simp add: e) (simp add: new_managed_event_def event_ok_def WORKFLOW_STATUSES_def)
  with r assms(2) have "events_ok ((draw s)\<lparr>events := rows\<rparr>)"
    by (auto simp: inr_simps events_ok_def unique_by_def list_ex_iff)
  with related_events [OF s1] record_audit_events [OF a] show ?thesis by simp
qed

lemma admin_update_event_ok:
  assumes "admin_update_event i b c s = Inr (e, s')" and "events_ok s"
  shows "events_ok s'"
proof -
  obtain e0 s1 a where g: "scoped_event i c s = Inr e0" and e: "e = set_priority c b (set_event_body b e0)"
    and s1: "replace_related_cards e (eb_related_card_ids b) (put_event e s) = Inr s1"
    and a: "record_audit a s1 = Inr s'"
    using assms(1) unfolding admin_update_event_def Let_def
    by (auto simp only: bindE_eq_Inr if_eq_Inr sum.inject prod.inject sum.distinct)
  from scoped_event_ok [OF g assms(2)] have "event_ok e" by (simp add: e)
  with assms(2) related_events [OF s1] record_audit_events [OF a] show ?thesis by (simp add: put_event_ok)
qed

lemma admin_submit_event_ok:
  assumes "admin_submit_event i c s = Inr (e, s')" and "events_ok s"
  shows "events_ok s'"
proof -
  obtain e0 a u where g: "scoped_event i c s = Inr e0" and v: "validate_transition (e_workflow_status e0) ''pending_review'' = Inr u"
    and e: "e = e0\<lparr>e_workflow_status := ''pending_review''\<rparr>" and a: "record_audit a (put_event e s) = Inr s'"
    using assms(1) unfolding admin_submit_event_def Let_def by (auto simp only: bindE_eq_Inr sum.inject prod.inject)
  from scoped_event_ok [OF g assms(2)] v have "event_ok e"
    by (auto simp: e inr_simps event_ok_def WORKFLOW_STATUSES_def)
  with assms(2) record_audit_events [OF a] show ?thesis by (simp add: put_event_ok)
qed

lemma admin_review_event_ok:
  assumes "admin_review_event i decision comment c s = Inr (e, s')" and "events_ok s"
  shows "events_ok s'"
proof -
  let ?target = "review_target decision"
  obtain e0 a u where g: "scoped_event i c s = Inr e0" and v: "validate_transition (e_workflow_status e0) ?target = Inr u"
    and e: "e = e0\<lparr>e_workflow_status := ?target, e_reviewed_by := Some (u_id (ctx_user c)), e_review_note := comment\<rparr>"
    and a: "record_audit a (put_event e s) = Inr s'"
    using assms(1) unfolding admin_review_event_def Let_def
    by (auto simp only: bindE_eq_Inr sum.inject prod.inject)
  from scoped_event_ok [OF g assms(2)] v have "event_ok e"
    by (auto simp: e review_target_def inr_simps event_ok_def WORKFLOW_STATUSES_def split: if_splits)
  with assms(2) record_audit_events [OF a] show ?thesis by (simp add: put_event_ok)
qed

lemma admin_publish_event_ok:
  assumes "admin_publish_event i c s = Inr (e, s')" and "events_ok s"
  shows "events_ok s'"
proof -
  obtain e0 a u where g: "scoped_event i c s = Inr e0" and v: "validate_transition (e_workflow_status e0) (publish_target e0 (now s)) = Inr u"
    and e: "e = e0\<lparr>e_workflow_status := publish_target e0 (now s),
      e_published_at := (if e_published_at e0 = None then Some (now s) else e_published_at e0)\<rparr>"
    and a: "record_audit a (put_event e s) = Inr s'"
    using assms(1) unfolding admin_publish_event_def Let_def
    by (auto simp only: bindE_eq_Inr sum.inject prod.inject)
  from scoped_event_ok [OF g assms(2)] v have "event_ok e"
    by (auto simp: e publish_target_def inr_simps event_ok_def WORKFLOW_STATUSES_def split: if_splits)
  with assms(2) record_audit_events [OF a] show ?thesis by (simp add: put_event_ok)
qed

lemma admin_end_event_ok:
  assumes "admin_end_event i c s = Inr (e, s')" and "events_ok s"
  shows "events_ok s'"
proof -
  obtain e0 a u where g: "scoped_event i c s = Inr e0" and v: "validate_transition (e_workflow_status e0) ''ended'' = Inr u"
    and e: "e = e0\<lparr>e_workflow_status := ''ended''\<rparr>" and a: "record_audit a (put_event e s) = Inr s'"
    using assms(1) unfolding admin_end_event_def Let_def by (auto simp only: bindE_eq_Inr sum.inject prod.inject)
  from scoped_event_ok [OF g assms(2)] v have "event_ok e"
    by (auto simp: e inr_simps event_ok_def WORKFLOW_STATUSES_def)
  with assms(2) record_audit_events [OF a] show ?thesis by (simp add: put_event_ok)
qed

lemma admin_delete_event_ok:
  assumes "admin_delete_event i c s = Inr (e, s')" and "events_ok s"
  shows "events_ok s'"
proof -
  obtain a s1 where a: "record_audit a s = Inr s1" and s': "s' = s1\<lparr>events := filter (\<lambda>x. e_id x \<noteq> i) (events s1)\<rparr>"
    using assms(1) unfolding admin_delete_event_def by (auto simp: bindE_eq_Inr split: if_splits)
  have "events_ok s1" using a assms(2) by (simp add: record_audit_events)
  then show ?thesis by (auto simp: s' events_ok_def unique_by_def intro: distinct_map_filter)
qed

lemma admin_review_event_comment_ok:
  assumes "admin_review_event_comment i j status comment c s = Inr (x, s')" and "events_ok s"
  shows "events_ok s'"
  using assms unfolding admin_review_event_comment_def Let_def
  by (auto simp: bindE_eq_Inr dest!: record_audit_events split: option.splits if_splits)

lemma admin_draw_event_winners_ok:
  assumes "admin_draw_event_winners i wanted picks c s = Inr (x, s')" and "events_ok s"
  shows "events_ok s'"
  using assms unfolding admin_draw_event_winners_def Let_def
  by (auto simp: bindE_eq_Inr dest!: record_audit_events split: if_splits)

text \<open>Every request about events, each at its own time; a failed one is rolled back.\<close>

datatype event_request =
    CreateEvent event_body admin_context
  | UpdateEvent ident event_body admin_context
  | SubmitEvent ident admin_context
  | ReviewEvent ident string "string option" admin_context
  | PublishEvent ident admin_context
  | EndEvent ident admin_context
  | DeleteEvent ident admin_context
  | ReviewComment ident ident string "string option" admin_context
  | DrawWinners ident int "nat list" admin_context
  | ViewEvent ident ident
  | CommentEvent ident string ident
  | ApplyEvent ident ident

fun handle_event :: "event_request \<Rightarrow> db \<Rightarrow> db" where
  "handle_event (CreateEvent b c) s = snd (run_tx (admin_create_event b c) s)"
| "handle_event (UpdateEvent i b c) s = snd (run_tx (admin_update_event i b c) s)"
| "handle_event (SubmitEvent i c) s = snd (run_tx (admin_submit_event i c) s)"
| "handle_event (ReviewEvent i d n c) s = snd (run_tx (admin_review_event i d n c) s)"
| "handle_event (PublishEvent i c) s = snd (run_tx (admin_publish_event i c) s)"
| "handle_event (EndEvent i c) s = snd (run_tx (admin_end_event i c) s)"
| "handle_event (DeleteEvent i c) s = snd (run_tx (admin_delete_event i c) s)"
| "handle_event (ReviewComment i j st n c) s = snd (run_tx (admin_review_event_comment i j st n c) s)"
| "handle_event (DrawWinners i w p c) s = snd (run_tx (admin_draw_event_winners i w p c) s)"
| "handle_event (ViewEvent i u) s = snd (get_fan_event i u s)"
| "handle_event (CommentEvent i t u) s = snd (run_tx (create_event_comment i t u) s)"
| "handle_event (ApplyEvent i u) s = snd (run_tx (apply_to_event i u) s)"

definition run_events :: "(time \<times> event_request) list \<Rightarrow> db \<Rightarrow> db" where
  "run_events qs s = fold (\<lambda>q s. handle_event (snd q) (s\<lparr>now := fst q\<rparr>)) qs s"

lemma run_tx_keeps: "(\<And>a s'. m s = Inr (a, s') \<Longrightarrow> events_ok s') \<Longrightarrow> events_ok s \<Longrightarrow> events_ok (snd (run_tx m s))"
  by (rule run_tx_cases [of m s]) auto

lemma handle_event_ok:
  assumes "events_ok s"
  shows "events_ok (handle_event q s)"
proof (cases q)
  case (ViewEvent i u)
  then show ?thesis using get_fan_event_ok [of i u s] assms by (cases "get_fan_event i u s") auto
qed (simp_all, (rule run_tx_keeps [OF _ assms], elim admin_create_event_ok admin_update_event_ok
  admin_submit_event_ok admin_review_event_ok admin_publish_event_ok admin_end_event_ok admin_delete_event_ok
  admin_review_event_comment_ok admin_draw_event_winners_ok create_event_comment_ok apply_to_event_ok, rule assms)+)

lemma run_events_ok: "events_ok s \<Longrightarrow> events_ok (run_events qs s)"
  unfolding run_events_def by (induction qs arbitrary: s) (simp_all add: handle_event_ok)

text \<open>C8. What fans see has been reviewed: after any requests about events at any times, starting without
  events, an event that is shown to fans has a reviewer and a publication instant on record, and
  no administrator can delete it.\<close>

theorem open_events_reviewed:
  assumes "events s = []" and "s' = run_events qs s" and "require_public_event i s' = Inr e"
  shows "e_reviewed_by e \<noteq> None \<and> e_published_at e \<noteq> None \<and>
    (\<forall>c x. admin_delete_event i c s' \<noteq> Inr x)"
proof -
  have "events_ok s" using assms(1) by (simp add: events_ok_def unique_by_def)
  then have "events_ok s'" unfolding assms(2) by (rule run_events_ok)
  moreover from assms(3) have f: "find_managed_event i s' = Some e" "is_open e"
    by (auto simp: require_public_event_def split: option.splits if_splits)
  ultimately have "event_ok e" by (auto dest: find_managed_ok)
  with f(2) have p: "e_reviewed_by e \<noteq> None" "e_published_at e \<noteq> None"
    by (auto simp: event_ok_def is_open_def)
  moreover have "admin_delete_event i c s' \<noteq> Inr x" for c x
    using f(1) p(2) by (auto simp: admin_delete_event_def scoped_event_def bindE_eq_Inr split: if_splits)
  ultimately show ?thesis by blast
qed

section \<open>The way to the end\<close>

text \<open>Audit entries can be written: the identifiers to come are new.\<close>

definition audit_fresh :: "db \<Rightarrow> bool" where
  "audit_fresh s \<longleftrightarrow> inj (entropy s) \<and>
    (\<forall>l \<in> set (audit_logs s). \<forall>n \<ge> drawn s. al_id l \<noteq> ''audit_'' @ entropy s n)"

definition ready :: "ident \<Rightarrow> db \<Rightarrow> event_row \<Rightarrow> bool" where
  "ready i s e \<longleftrightarrow> find_managed_event i s = Some e \<and> audit_fresh s \<and>
    (\<exists>a. validate_event_asset (e_hero_asset_id e) s = Inr a) \<and> validate_event_connections e s = Inr ()"

lemma record_audit_fresh:
  assumes "audit_fresh s"
  obtains s' al where "record_audit a s = Inr s'" "audit_fresh s'" "s' = s\<lparr>audit_logs := al, drawn := Suc (drawn s)\<rparr>"
proof -
  let ?r = "\<lparr>al_id = new_id ''audit_'' s, al_actor_user_id = au_actor_user_id a,
    al_action = au_action a, al_entity_type = au_entity_type a, al_entity_id = au_entity_id a,
    al_organization_id = au_organization_id a, al_artist_id = au_artist_id a, al_details = au_details a,
    al_created_at = now s\<rparr>"
  let ?s = "s\<lparr>audit_logs := audit_logs s @ [?r], drawn := Suc (drawn s)\<rparr>"
  have "\<not> list_ex (\<lambda>x. al_id x = new_id ''audit_'' s) (audit_logs s)"
    using assms by (auto simp: audit_fresh_def list_ex_iff new_id_def)
  then have "record_audit a s = Inr ?s" by (simp add: record_audit_def insert_row_def draw_def)
  moreover have "audit_fresh ?s"
    using assms by (auto simp: audit_fresh_def new_id_def dest: injD)
  ultimately show thesis by (rule that) simp
qed

lemma ready_step:
  assumes "ready i s e" and "e_id e1 = e_id e" and "e_hero_asset_id e1 = e_hero_asset_id e"
    and "e_event_type e1 = e_event_type e" and "e_drop_id e1 = e_drop_id e" and "e_card_id e1 = e_card_id e"
    and "e_achievement_id e1 = e_achievement_id e" and "e_external_url e1 = e_external_url e"
  obtains s' where "record_audit a (put_event e1 s) = Inr s'" "ready i s' e1" "now s' = now s"
proof -
  have "audit_fresh (put_event e1 s)" using assms(1) by (simp add: ready_def audit_fresh_def put_event_def)
  then obtain s' al where r: "record_audit a (put_event e1 s) = Inr s'" "audit_fresh s'"
      "s' = (put_event e1 s)\<lparr>audit_logs := al, drawn := Suc (drawn (put_event e1 s))\<rparr>"
    by (rule record_audit_fresh)
  from assms(1,2) have f: "find (\<lambda>x. e_id x = i) (events s) = Some e" "e_id e = i" "e_id e1 = i"
    by (auto simp: ready_def find_managed_event_def dest: find_SomeD)
  have "find_managed_event i s' = Some e1"
    using f by (simp add: r(3) find_managed_event_def put_event_def find_set_where)
  moreover have look: "linked get_drop x s' = linked get_drop x s" "linked get_card x s' = linked get_card x s"
      "linked get_achievement x s' = linked get_achievement x s" for x
    by (simp_all add: r(3) put_event_def linked_def get_drop_def get_card_def get_achievement_def)
  have "validate_event_connections e1 s' = validate_event_connections e s"
    unfolding validate_event_connections_def assms(4-8) look ..
  moreover have "validate_event_asset (e_hero_asset_id e1) s' = validate_event_asset (e_hero_asset_id e) s"
    by (simp add: validate_event_asset_def r(3) put_event_def get_asset_def assms)
  ultimately have "ready i s' e1" using assms(1) r(2) by (simp add: ready_def)
  moreover have "now s' = now s" by (simp add: r(3) put_event_def)
  ultimately show thesis by (rule that [OF r(1)])
qed

definition full_root :: "admin_context \<Rightarrow> bool" where
  "full_root c \<longleftrightarrow> is_root c \<and> ctx_actions c = ROOT_ACTIONS"

lemma full_root_may:
  assumes "full_root c" and "a \<in> {''events:submit'', ''events:review'', ''events:publish''}"
  shows "require_action a c = Inr ()"
  using assms by (auto simp: full_root_def require_action_def ROOT_ACTIONS_def)

lemma ready_scoped: "ready i s e \<Longrightarrow> full_root c \<Longrightarrow> scoped_event i c s = Inr e"
  by (simp add: ready_def full_root_def scoped_event_def event_in_scope_def)

text \<open>Each stage has a request that leads on.\<close>

lemma submit_moves:
  assumes "ready i s e" and "full_root c" and "e_workflow_status e \<in> {''draft'', ''changes_requested''}"
  shows "\<exists>e'. ready i (handle_event (SubmitEvent i c) s) e' \<and> e_workflow_status e' = ''pending_review''"
proof -
  let ?e = "e\<lparr>e_workflow_status := ''pending_review''\<rparr>"
  obtain s' where "record_audit (event_audit c ''event.submitted'' ?e []) (put_event ?e s) = Inr s'" "ready i s' ?e"
    by (rule ready_step [OF assms(1), where ?e1.0 = ?e and a = "event_audit c ''event.submitted'' ?e []"]) simp_all
  moreover have "validate_transition (e_workflow_status e) ''pending_review'' = Inr ()"
    using assms(3) by (auto simp: inr_simps)
  ultimately have "admin_submit_event i c s = Inr (?e, s')"
    using assms by (auto simp: admin_submit_event_def full_root_may ready_scoped) (auto simp: ready_def)
  with \<open>ready i s' ?e\<close> show ?thesis by (intro exI [of _ ?e]) simp
qed

lemma approve_moves:
  assumes "ready i s e" and "full_root c" and "e_workflow_status e = ''pending_review''"
  shows "\<exists>e'. ready i (handle_event (ReviewEvent i ''approve'' None c) s) e' \<and> e_workflow_status e' = ''approved''"
proof -
  let ?e = "e\<lparr>e_workflow_status := ''approved'', e_reviewed_by := Some (u_id (ctx_user c)), e_review_note := None\<rparr>"
  obtain s' where "record_audit (event_audit c ''event.reviewed'' ?e [(''decision'', JStr ''approve''), (''note'', jopt None)])
      (put_event ?e s) = Inr s'" "ready i s' ?e"
    by (rule ready_step [OF assms(1), where ?e1.0 = ?e and a = "event_audit c ''event.reviewed'' ?e [(''decision'', JStr ''approve''), (''note'', jopt None)]"]) simp_all
  moreover have "validate_transition (e_workflow_status e) ''approved'' = Inr ()"
    using assms(3) by (auto simp: inr_simps)
  ultimately have "admin_review_event i ''approve'' None c s = Inr (?e, s')"
    using assms by (auto simp: admin_review_event_def review_target_def full_root_may ready_scoped) (auto simp: ready_def)
  with \<open>ready i s' ?e\<close> show ?thesis by (intro exI [of _ ?e]) simp
qed

lemma publish_moves:
  assumes "ready i s e" and "full_root c" and "e_workflow_status e = ''approved''"
  shows "\<exists>e'. ready i (handle_event (PublishEvent i c) s) e' \<and> e_workflow_status e' \<in> {''scheduled'', ''published''}"
proof -
  let ?t = "publish_target e (now s)"
  let ?e = "e\<lparr>e_workflow_status := ?t, e_published_at := (if e_published_at e = None then Some (now s) else e_published_at e)\<rparr>"
  obtain s' where "record_audit (event_audit c ''event.published'' ?e [(''workflowStatus'', JStr ?t)]) (put_event ?e s) = Inr s'"
      "ready i s' ?e"
    by (rule ready_step [OF assms(1), where ?e1.0 = ?e and a = "event_audit c ''event.published'' ?e [(''workflowStatus'', JStr ?t)]"]) simp_all
  moreover have "validate_transition (e_workflow_status e) ?t = Inr ()"
    using assms(3) by (auto simp: inr_simps publish_target_def)
  ultimately have "admin_publish_event i c s = Inr (?e, s')"
    using assms by (auto simp: admin_publish_event_def full_root_may ready_scoped)
  with \<open>ready i s' ?e\<close> show ?thesis by (intro exI [of _ ?e]) (simp add: publish_target_def)
qed

lemma end_moves:
  assumes "ready i s e" and "full_root c" and "e_workflow_status e \<in> {''scheduled'', ''published''}"
  shows "\<exists>e'. ready i (handle_event (EndEvent i c) s) e' \<and> e_workflow_status e' = ''ended''"
proof -
  let ?e = "e\<lparr>e_workflow_status := ''ended''\<rparr>"
  obtain s' where "record_audit (event_audit c ''event.ended'' ?e []) (put_event ?e s) = Inr s'" "ready i s' ?e"
    by (rule ready_step [OF assms(1), where ?e1.0 = ?e and a = "event_audit c ''event.ended'' ?e []"]) simp_all
  moreover have "validate_transition (e_workflow_status e) ''ended'' = Inr ()"
    using assms(3) by (auto simp: inr_simps)
  ultimately have "admin_end_event i c s = Inr (?e, s')"
    using assms by (auto simp: admin_end_event_def full_root_may ready_scoped)
  with \<open>ready i s' ?e\<close> show ?thesis by (intro exI [of _ ?e]) simp
qed

text \<open>How many requests are left to the end of the workflow.\<close>

definition stages_left :: "string \<Rightarrow> nat" where
  "stages_left status =
    (if status \<in> {''draft'', ''changes_requested''} then 4 else if status = ''pending_review'' then 3
     else if status = ''approved'' then 2 else if status = ''ended'' then 0 else 1)"

lemma leads_on:
  assumes "ready i s e" and "full_root c" and "e_workflow_status e \<in> set WORKFLOW_STATUSES"
    and "e_workflow_status e \<noteq> ''ended''"
  obtains q e' where "ready i (handle_event q s) e'" "e_workflow_status e' \<in> set WORKFLOW_STATUSES"
    "stages_left (e_workflow_status e) = Suc (stages_left (e_workflow_status e'))"
proof -
  consider "e_workflow_status e \<in> {''draft'', ''changes_requested''}" | "e_workflow_status e = ''pending_review''"
    | "e_workflow_status e = ''approved''" | "e_workflow_status e \<in> {''scheduled'', ''published''}"
    using assms(3,4) by (auto simp: WORKFLOW_STATUSES_def)
  then show thesis
  proof cases
    case 1
    from submit_moves [OF assms(1,2) 1] obtain e' where "ready i (handle_event (SubmitEvent i c) s) e'"
      "e_workflow_status e' = ''pending_review''" by blast
    with 1 show ?thesis by (intro that [of "SubmitEvent i c" e']) (auto simp: stages_left_def WORKFLOW_STATUSES_def)
  next
    case 2
    from approve_moves [OF assms(1,2) 2] obtain e' where "ready i (handle_event (ReviewEvent i ''approve'' None c) s) e'"
      "e_workflow_status e' = ''approved''" by blast
    with 2 show ?thesis by (intro that [of "ReviewEvent i ''approve'' None c" e']) (auto simp: stages_left_def WORKFLOW_STATUSES_def)
  next
    case 3
    from publish_moves [OF assms(1,2) 3] obtain e' where "ready i (handle_event (PublishEvent i c) s) e'"
      "e_workflow_status e' = ''scheduled'' \<or> e_workflow_status e' = ''published''" by blast
    with 3 show ?thesis by (intro that [of "PublishEvent i c" e']) (auto simp: stages_left_def WORKFLOW_STATUSES_def)
  next
    case 4
    from end_moves [OF assms(1,2) 4] obtain e' where "ready i (handle_event (EndEvent i c) s) e'"
      "e_workflow_status e' = ''ended''" by blast
    with 4 show ?thesis by (intro that [of "EndEvent i c" e']) (auto simp: stages_left_def WORKFLOW_STATUSES_def)
  qed
qed


section \<open>Places\<close>

text \<open>The requests that leave the events as they are.\<close>

fun leaves_events :: "event_request \<Rightarrow> bool" where
  "leaves_events (ApplyEvent i u) = True"
| "leaves_events (CommentEvent i t u) = True"
| "leaves_events (ReviewComment i j st n c) = True"
| "leaves_events (DrawWinners i w p c) = True"
| "leaves_events _ = False"

definition places_ok :: "ident \<Rightarrow> event_row \<Rightarrow> int \<Rightarrow> db \<Rightarrow> bool" where
  "places_ok i e n s \<longleftrightarrow> find_managed_event i s = Some e \<and> int (count_where (submitted i) (event_applications s)) \<le> n"

lemma places_ok_cong:
  "events s' = events s \<Longrightarrow> event_applications s' = event_applications s \<Longrightarrow> places_ok i e n s' = places_ok i e n s"
  by (simp add: places_ok_def find_managed_event_def)

lemma places_ok_now: "places_ok i e n (s\<lparr>now := t\<rparr>) = places_ok i e n s"
  by (rule places_ok_cong) simp_all

lemma analytics_places: "record_analytics_event a s = Inr (x, s') \<Longrightarrow> events s' = events s \<and> event_applications s' = event_applications s"
  by (drule record_analytics_event_touch) auto

lemma engagement_places:
  "record_engagement_event u k st si p s = Inr (x, s') \<Longrightarrow> events s' = events s \<and> event_applications s' = event_applications s"
  by (drule record_engagement_event_touch) auto

lemma audit_places: "record_audit a s = Inr s' \<Longrightarrow> events s' = events s \<and> event_applications s' = event_applications s"
  by (drule record_audit_touch) auto

lemma announce_places:
  "announce j u k ei key cs = Inr cs' \<Longrightarrow> events (snd cs') = events (snd cs) \<and>
    event_applications (snd cs') = event_applications (snd cs)"
  by (auto simp: announce_def add_notification_def bindE_eq_Inr split: if_splits)

lemma available_has_place:
  assumes "application_status e u s = ''available''" and "e_participant_limit e = Some n" and "0 < n"
  shows "int (count_where (submitted (e_id e)) (event_applications s)) < n"
  using assms by (auto simp: application_status_def Let_def split: if_splits)

lemma apply_places:
  assumes "apply_to_event j u s = Inr (a, s')" and "places_ok i e n s"
    and "e_participant_limit e = Some n" and "0 < n"
  shows "places_ok i e n s'"
  using assms(1)
proof (cases rule: apply_to_eventE)
  case (Known e')
  with assms(2) show ?thesis by simp
next
  case (New e' s1 s2 s3 m x1 x2 x3 an1 an2 rows)
  from New(5) have rows: "rows = event_applications s1 @ [a]" by (simp add: inr_simps)
  from analytics_places [OF New(4)] engagement_places [OF New(9)] analytics_places [OF New(10)]
    announce_places [OF New(11)] rows
  have s': "events s' = events s" "event_applications s' = event_applications s @ [a]" by simp_all
  have "int (count_where (submitted i) (event_applications s @ [a])) \<le> n"
  proof (cases "j = i")
    case True
    from New(1) have "find_managed_event j s = Some e'"
      by (auto simp: require_public_event_def split: option.splits if_splits)
    with assms(2) True have "e' = e" "e_id e = i"
      by (auto simp: places_ok_def find_managed_event_def dest: find_SomeD)
    with available_has_place [OF _ assms(3,4)] New(3) have
      "int (count_where (submitted i) (event_applications s)) < n" by auto
    then show ?thesis by (simp add: table_simps)
  next
    case False
    with New(6) assms(2) show ?thesis by (simp add: table_simps submitted_def places_ok_def)
  qed
  with assms(2) s' show ?thesis by (simp add: places_ok_def find_managed_event_def)
qed

lemma draw_places:
  assumes "admin_draw_event_winners j w p c s = Inr (x, s')" and "places_ok i e n s" and "0 < n"
  shows "places_ok i e n s'"
proof -
  obtain a f where f: "\<And>r. ea_event_id (f r) = ea_event_id r" "\<And>r. ea_status (f r) \<noteq> ''submitted''"
    and r: "record_audit a (s\<lparr>event_applications := update_where (submitted j) f (event_applications s)\<rparr>) = Inr s'"
  proof -
    let ?f = "\<lambda>W a. a\<lparr>ea_status := (if ea_id a \<in> W then ''winner'' else ''not_selected'')\<rparr>"
    obtain a W where "record_audit a (s\<lparr>event_applications := update_where (submitted j) (?f W) (event_applications s)\<rparr>) = Inr s'"
      using assms(1) unfolding admin_draw_event_winners_def Let_def
      by (auto simp only: bindE_eq_Inr if_eq_Inr sum.inject prod.inject sum.distinct)
    then show thesis by (rule that [rotated 2]) simp_all
  qed
  have "count_where (submitted i) (update_where (submitted j) f xs) \<le> count_where (submitted i) xs" for xs
    using f by (induction xs) (auto simp: table_simps submitted_def)
  from this [of "event_applications s"] assms(2) audit_places [OF r] show ?thesis
    by (auto simp: places_ok_def find_managed_event_def)
qed

lemma comment_places:
  "create_event_comment j t u s = Inr (x, s') \<Longrightarrow> places_ok i e n s' = places_ok i e n s"
  unfolding create_event_comment_def Let_def
  by (auto simp: bindE_eq_Inr split: if_splits intro!: places_ok_cong dest!: engagement_places)

lemma review_comment_places:
  "admin_review_event_comment j k st t c s = Inr (x, s') \<Longrightarrow> places_ok i e n s' = places_ok i e n s"
  unfolding admin_review_event_comment_def Let_def
  by (auto simp: bindE_eq_Inr split: if_splits option.splits intro!: places_ok_cong dest!: audit_places)

lemma run_tx_inv: "(\<And>a s'. m s = Inr (a, s') \<Longrightarrow> P s') \<Longrightarrow> P s \<Longrightarrow> P (snd (run_tx m s))"
  by (rule run_tx_cases [of m s]) auto

lemma handle_event_places:
  assumes "leaves_events q" and "places_ok i e n s" and "e_participant_limit e = Some n" and "0 < n"
  shows "places_ok i e n (handle_event q s)"
proof (cases q)
  case (ApplyEvent j u)
  show ?thesis unfolding ApplyEvent handle_event.simps
    by (rule run_tx_inv [where P = "places_ok i e n"]) (erule apply_places [OF _ assms(2-4)], rule assms(2))
next
  case (CommentEvent j t u)
  show ?thesis unfolding CommentEvent handle_event.simps
    by (rule run_tx_inv [where P = "places_ok i e n"]) (simp_all only: comment_places assms(2))
next
  case (ReviewComment j k st t c)
  show ?thesis unfolding ReviewComment handle_event.simps
    by (rule run_tx_inv [where P = "places_ok i e n"]) (simp_all only: review_comment_places assms(2))
next
  case (DrawWinners j w p c)
  show ?thesis unfolding DrawWinners handle_event.simps
    by (rule run_tx_inv [where P = "places_ok i e n"]) (erule draw_places [OF _ assms(2,4)], rule assms(2))
qed (use assms(1) in simp_all)

text \<open>Places are limited: for an event with a participant limit, after any applications of fans, draws,
  comments and their moderation at any times, no more applications await the draw than the
  limit allows, if that was so before.\<close>

theorem applications_within_limit:
  assumes "find_managed_event i s = Some e" and "e_participant_limit e = Some n" and "0 < n"
    and "int (count_where (submitted i) (event_applications s)) \<le> n"
    and "\<forall>q \<in> set qs. leaves_events (snd q)"
  shows "int (count_where (submitted i) (event_applications (run_events qs s))) \<le> n"
proof -
  have "places_ok i e n s" using assms(1,4) by (simp add: places_ok_def)
  with assms(5) have "places_ok i e n (run_events qs s)" unfolding run_events_def
  proof (induction qs arbitrary: s)
    case (Cons q qs)
    have "places_ok i e n (handle_event (snd q) (s\<lparr>now := fst q\<rparr>))"
      using Cons.prems assms(2,3) by (intro handle_event_places) (simp_all add: places_ok_now)
    with Cons show ?case by simp
  qed simp
  then show ?thesis by (simp add: places_ok_def)
qed

section \<open>Samples\<close>

definition sample_root :: admin_context where
  "sample_root = \<lparr>ctx_user = an_admin ''root'', ctx_membership = a_member ''root'' None ''root'',
     ctx_organization = None, ctx_artists = [], ctx_actions = ROOT_ACTIONS\<rparr>"

definition banner :: asset where
  "banner = \<lparr>as_id = ''b1'', as_owner_id = ''root'', as_file_name = None, as_content_type = Some ''image/png'',
     as_purpose = Some ''event_banner'', as_upload_expires_at = None, as_upload_completed_at = Some 0,
     as_storage_path = Some ''b'', as_processed_storage_path = None, as_content_sha256 = None, as_transform = None\<rparr>"

definition sample_body :: event_body where
  "sample_body = \<lparr>eb_organization_id = None, eb_artist_id = None, eb_title = ''Live'', eb_hero_asset_id = ''b1'',
     eb_event_type = ''announcement'', eb_starts_at = 0, eb_ends_at = None, eb_participant_limit = Some 1,
     eb_application_starts_at = None, eb_application_ends_at = None, eb_drop_id = None, eb_card_id = None,
     eb_achievement_id = None, eb_external_url = None, eb_related_card_ids = [],
     eb_featured = False, eb_priority = 0\<rparr>"

definition event_db :: db where
  "event_db = empty_db\<lparr>assets := [banner], users := [(an_admin ''ann'')\<lparr>u_role := FAN\<rparr>, (an_admin ''bob'')\<lparr>u_role := FAN\<rparr>], drawn := 1\<rparr>"

text \<open>The identifier of the first event that is created there.\<close>

definition first_event :: ident where
  "first_event = ''event_x''"

definition to_published :: "(time \<times> event_request) list" where
  "to_published =
    [(0, CreateEvent sample_body sample_root), (0, SubmitEvent first_event sample_root),
     (0, ReviewEvent first_event ''approve'' None sample_root), (0, PublishEvent first_event sample_root)]"

theorem open_events_reviewed_witness:
  "\<exists>e. require_public_event first_event (run_events to_published event_db) = Inr e \<and> e_reviewed_by e \<noteq> None"
proof -
  have "case require_public_event first_event (run_events to_published event_db) of Inl e \<Rightarrow> False | Inr e \<Rightarrow> True"
    by code_simp
  then obtain e where e: "require_public_event first_event (run_events to_published event_db) = Inr e"
    by (auto simp: case_Inr_iff)
  have "events event_db = []" by (simp add: event_db_def empty_db_def)
  from open_events_reviewed [OF this refl e] e show ?thesis by blast
qed

theorem applications_within_limit_witness:
  "int (count_where (submitted first_event) (event_applications
    (run_events [(1, ApplyEvent first_event ''ann''), (2, ApplyEvent first_event ''bob'')]
      (run_events to_published event_db)))) \<le> 1"
proof -
  let ?s = "run_events to_published event_db"
  have "case find_managed_event first_event ?s of None \<Rightarrow> False | Some e \<Rightarrow> e_participant_limit e = Some 1"
    by code_simp
  then obtain e where e: "find_managed_event first_event ?s = Some e" "e_participant_limit e = Some 1"
    by (auto split: option.splits)
  have n: "int (count_where (submitted first_event) (event_applications ?s)) \<le> 1" by code_simp
  show ?thesis
    by (rule applications_within_limit [OF e _ n]) simp_all
qed

text \<open>The first of the two gets the place.\<close>

lemma one_place_taken:
  "map ea_user_id (event_applications
    (run_events [(1, ApplyEvent first_event ''ann''), (2, ApplyEvent first_event ''bob'')]
      (run_events to_published event_db))) = [''ann'']"
  by code_simp

text \<open>
  The limit counts the applications that await a draw: after a draw the places are free
  again, and with them the event takes on more participants than its limit.
\<close>

lemma draw_reopens_places:
  "map (\<lambda>a. (ea_user_id a, ea_status a)) (event_applications
    (run_events [(1, ApplyEvent first_event ''ann''), (2, DrawWinners first_event 1 [0] sample_root),
        (3, ApplyEvent first_event ''bob'')]
      (run_events to_published event_db))) = [(''ann'', ''winner''), (''bob'', ''submitted'')]"
  by code_simp

text \<open>A fan who applies again after the draw meets the unique constraint outside the handler's \<open>try\<close>.\<close>

lemma winner_applies_again:
  "case apply_to_event first_event ''ann''
    (run_events [(1, ApplyEvent first_event ''ann''), (2, DrawWinners first_event 1 [0] sample_root)]
      (run_events to_published event_db)) of Inl x \<Rightarrow> x = IntegrityError | Inr r \<Rightarrow> False"
  by code_simp

text \<open>
  The related cards of an event cannot be replaced: the new first row meets the old one at
  position 0.
\<close>

lemma related_cards_stuck:
  assumes "x \<in> set (event_related_cards s)" and "erc_event_id x = e_id e" and "erc_position x = 0"
  shows "replace_related_cards e (i # ids) s = Inl IntegrityError"
proof -
  have "insert_row clash_related \<lparr>erc_id = new_id ''event_related_'' s, erc_event_id = e_id e, erc_card_id = i,
      erc_position = 0\<rparr> (event_related_cards s) = Inl IntegrityError"
    using assms by (auto simp: insert_row_def list_ex_iff clash_related_def)
  then show ?thesis
    by (simp add: replace_related_cards_def add_related_card_def upt_conv_Cons del: upt_Suc)
qed

text \<open>
  What was reviewed need not be what is shown: the connection and the type of a published
  event may be changed without a new review.
\<close>

lemma published_event_edited:
  "case require_public_event first_event
    (run_events [(1, UpdateEvent first_event (sample_body\<lparr>eb_event_type := ''external'',
        eb_external_url := Some ''https://x''\<rparr>) sample_root)] (run_events to_published event_db)) of
     Inl e \<Rightarrow> False | Inr e \<Rightarrow> e_event_type e = ''external''"
  by code_simp

text \<open>A draft whose banner is uploaded.\<close>

definition draft :: event_row where
  "draft = set_event_body sample_body (new_managed_event first_event None None ''root'')"

definition draft_db :: db where
  "draft_db = event_db\<lparr>events := [draft]\<rparr>"

lemma draft_ready: "ready first_event draft_db draft"
proof -
  have "inj (entropy draft_db)"
    by (rule injI, drule arg_cong [of _ _ length]) (simp add: draft_db_def event_db_def empty_db_def)
  then have "audit_fresh draft_db" by (simp add: audit_fresh_def draft_db_def event_db_def empty_db_def)
  moreover have "find_managed_event first_event draft_db = Some draft"
    by (simp add: find_managed_event_def draft_db_def draft_def set_event_body_def new_managed_event_def)
  moreover have "case validate_event_asset (e_hero_asset_id draft) draft_db of Inl x \<Rightarrow> False | Inr a \<Rightarrow> True" by code_simp
  moreover have "validate_event_connections draft draft_db = Inr ()" by code_simp
  ultimately show ?thesis by (auto simp: ready_def case_Inr_iff)
qed


end
