(* ===== verification/Outbox.thy ===== *)
theory Outbox
  imports Access Retry
begin

text \<open>
  The delivery outbox (\<open>backend/app/notification_delivery.py\<close>): a worker claims a delivery in
  one transaction, calls the provider outside of any, and writes the outcome in a third step.
  What the provider answers is an argument. The operations that queue deliveries are in
  \<open>Engagement\<close>.
\<close>

section \<open>One delivery\<close>

text \<open>
  The provider accepts, refuses with an error (\<open>MailDeliveryError\<close>, \<open>PushDeliveryError\<close>,
  which may be permanent, \<open>OSError\<close>), or the worker ends with another exception.
\<close>

datatype outcome = Delivered | Refused bool string | Crashed

definition find_delivery :: "ident \<Rightarrow> db \<Rightarrow> notification_delivery option" where
  "find_delivery i s = find (\<lambda>d. nd_id d = i) (notification_deliveries s)"

definition put_delivery :: "notification_delivery \<Rightarrow> db \<Rightarrow> db" where
  "put_delivery d s = s\<lparr>notification_deliveries :=
    update_where (\<lambda>x. nd_id x = nd_id d) (\<lambda>_. d) (notification_deliveries s)\<rparr>"

definition settled :: "notification_delivery \<Rightarrow> bool" where
  "settled d \<longleftrightarrow> nd_status d \<in> {''sent'', ''dead_letter''}"

definition claim_delivery :: "ident \<Rightarrow> db \<Rightarrow> notification_delivery option \<times> db" where
  "claim_delivery i s =
    (case find_delivery i s of
       None \<Rightarrow> (None, s)
     | Some d \<Rightarrow>
         if settled d then (None, s)
         else if \<not> list_ex (\<lambda>n. n_id n = nd_notification_id d) (notifications s)
         then (None, put_delivery (d\<lparr>nd_status := ''dead_letter'',
           nd_last_error := Some ''notification_not_found''\<rparr>) s)
         else
           let d1 = d\<lparr>nd_status := ''sending'', nd_attempt_count := nd_attempt_count d + 1\<rparr>
           in (Some d1, put_delivery d1 s))"

text \<open>Mail errors are never permanent, and push is only simulated outside of the mode \<open>fcm\<close>.\<close>

definition provider_answer :: "string \<Rightarrow> string \<Rightarrow> outcome \<Rightarrow> outcome" where
  "provider_answer mode channel answer =
    (if channel = ''email'' then (case answer of Refused p e \<Rightarrow> Refused False e | _ \<Rightarrow> answer)
     else if mode = ''fcm'' then answer
     else Delivered)"

definition disable_device :: "string \<Rightarrow> db \<Rightarrow> db" where
  "disable_device token s =
    s\<lparr>push_devices := update_where (\<lambda>d. pd_token d = token) (\<lambda>d. d\<lparr>pd_enabled := False\<rparr>) (push_devices s)\<rparr>"

text \<open>What is written after the call; \<open>d\<close> is the delivery as it was claimed.\<close>

definition settle_delivery :: "settings \<Rightarrow> notification_delivery \<Rightarrow> outcome \<Rightarrow> db \<Rightarrow> db" where
  "settle_delivery cfg d answer s =
    (case (answer, find_delivery (nd_id d) s) of
       (Delivered, Some x) \<Rightarrow>
         put_delivery (x\<lparr>nd_status := ''sent'', nd_sent_at := Some (now s), nd_next_attempt_at := None,
           nd_last_error := None\<rparr>) s
     | (Refused permanent e, Some x) \<Rightarrow>
         let decision = retry_with cfg (nd_attempt_count d) (now s);
             s1 = put_delivery (x\<lparr>nd_status := (if permanent then ''dead_letter'' else rd_status decision),
               nd_next_attempt_at := (if permanent then None else rd_next_attempt_at decision),
               nd_last_error := Some (take 500 e)\<rparr>) s
         in if permanent then disable_device (nd_destination d) s1 else s1
     | _ \<Rightarrow> s)"

text \<open>The call returns at a later time, \<open>t\<close>.\<close>

definition process_notification_delivery ::
  "settings \<Rightarrow> string \<Rightarrow> outcome \<Rightarrow> time \<Rightarrow> ident \<Rightarrow> db \<Rightarrow> db" where
  "process_notification_delivery cfg mode answer t i s =
    (case claim_delivery i s of
       (None, s1) \<Rightarrow> s1
     | (Some d, s1) \<Rightarrow>
         settle_delivery cfg d (provider_answer mode (nd_channel d) answer) (s1\<lparr>now := t\<rparr>))"

section \<open>The queue\<close>

definition due :: "time \<Rightarrow> notification_delivery \<Rightarrow> bool" where
  "due t d \<longleftrightarrow> nd_status d \<in> {''pending'', ''failed''} \<and>
    (case nd_next_attempt_at d of None \<Rightarrow> True | Some a \<Rightarrow> a \<le> t)"

definition due_deliveries :: "nat \<Rightarrow> db \<Rightarrow> ident list" where
  "due_deliveries limit s =
    map nd_id (take limit (sort_key nd_created_at (filter (due (now s)) (notification_deliveries s))))"

text \<open>\<open>answers\<close> gives for each delivery what its provider answers, and when.\<close>

definition process_due_notification_deliveries ::
  "settings \<Rightarrow> string \<Rightarrow> (ident \<Rightarrow> outcome \<times> time) \<Rightarrow> nat \<Rightarrow> db \<Rightarrow> nat \<times> db" where
  "process_due_notification_deliveries cfg mode answers limit s =
    (let ids = due_deliveries limit s
     in (length ids,
         fold (\<lambda>i. process_notification_delivery cfg mode (fst (answers i)) (snd (answers i)) i) ids s))"

section \<open>Operators\<close>

definition retry_notification_delivery :: "ident \<Rightarrow> admin_context \<Rightarrow> db \<Rightarrow> exn + notification_delivery \<times> db" where
  "retry_notification_delivery i c s =
    bindE (require_action ''engagement:retry'' c) (\<lambda>_.
    case find_delivery i s of
      None \<Rightarrow> Inl (AppError 404 ''DELIVERY_NOT_FOUND'')
    | Some d \<Rightarrow>
        if nd_status d \<notin> {''failed'', ''retry'', ''dead_letter''} then Inl (AppError 409 ''DELIVERY_NOT_RETRYABLE'')
        else
          let d1 = d\<lparr>nd_status := ''pending'', nd_next_attempt_at := None, nd_last_error := None, nd_sent_at := None\<rparr>
          in bindE (record_audit
               \<lparr>au_actor_user_id = Some (u_id (ctx_user c)), au_action = ''notification_delivery.retried'',
                au_entity_type = ''notification_delivery'', au_entity_id = i, au_organization_id = None,
                au_artist_id = None, au_details = [(''channel'', JStr (nd_channel d))]\<rparr> (put_delivery d1 s))
             (\<lambda>s1. Inr (d1, s1)))"

section \<open>Every delivery is processed finitely often\<close>

text \<open>
  A step of a worker: some delivery that is due is processed, at any time and with any answer.
  Identifiers are a primary key.
\<close>

inductive outbox_step :: "settings \<Rightarrow> db \<Rightarrow> db \<Rightarrow> bool" for cfg where
  process: "unique_by nd_id (notification_deliveries s) \<Longrightarrow> find_delivery i s = Some d \<Longrightarrow> due t0 d \<Longrightarrow>
    outbox_step cfg s (process_notification_delivery cfg mode answer t i (s\<lparr>now := t0\<rparr>))"

inductive_cases outbox_stepE: "outbox_step cfg s t"

text \<open>How often a delivery may still be attempted; nothing is due that is settled or being sent.\<close>

definition attempts_left :: "settings \<Rightarrow> notification_delivery \<Rightarrow> nat" where
  "attempts_left cfg d =
    (if nd_status d \<in> {''pending'', ''failed''}
     then Suc (nat (engagement_event_max_attempts cfg - nd_attempt_count d)) else 0)"

definition outbox_work :: "settings \<Rightarrow> db \<Rightarrow> nat" where
  "outbox_work cfg s = sum_list (map (attempts_left cfg) (notification_deliveries s))"

lemma find_delivery_now [simp]: "find_delivery i (s\<lparr>now := t\<rparr>) = find_delivery i s"
  by (simp add: find_delivery_def)

lemma deliveries_put [simp]:
  "notification_deliveries (put_delivery d s) =
    update_where (\<lambda>x. nd_id x = nd_id d) (\<lambda>_. d) (notification_deliveries s)"
  by (simp add: put_delivery_def)

lemma find_put_delivery [simp]:
  "find_delivery i s = Some x \<Longrightarrow> nd_id d = i \<Longrightarrow> find_delivery i (put_delivery d s) = Some d"
  by (auto simp: find_delivery_def dest: find_SomeD intro!: find_set_where)

lemma work_replaced:
  assumes "unique_by nd_id ds" and "find (\<lambda>d. nd_id d = i) ds = Some d" and "nd_id d' = i" and "f d' < (f d :: nat)"
  shows "sum_list (map f (update_where (\<lambda>x. nd_id x = i) (\<lambda>_. d') ds)) < sum_list (map f ds)"
  using assms(1,2)
proof (induction ds)
  case (Cons x ds)
  show ?case
  proof (cases "nd_id x = i")
    case True
    with Cons.prems have "update_where (\<lambda>x. nd_id x = i) (\<lambda>_. d') ds = ds"
      by (intro update_where_id) (metis distinct.simps(2) imageI list.set_map list.simps(9) unique_by_def)
    with True Cons.prems(2) assms(4) show ?thesis by (simp add: table_simps)
  next
    case False
    with Cons show ?thesis by (simp add: table_simps unique_by_def)
  qed
qed simp

lemma update_twice: "update_where (\<lambda>x. nd_id x = i) (\<lambda>_. d) (update_where (\<lambda>x. nd_id x = i) (\<lambda>_. c) ds) =
    update_where (\<lambda>x. nd_id x = i) (\<lambda>_. d) ds" if "nd_id c = i"
  using that by (induction ds) (simp_all add: table_simps)

text \<open>Whatever the answer, processing replaces the row by one with less work left.\<close>

lemma process_replaces:
  assumes "find_delivery i s = Some d" and st: "nd_status d \<in> {''pending'', ''failed''}"
  shows "\<exists>d'. notification_deliveries (process_notification_delivery cfg mode answer t i s) =
      update_where (\<lambda>x. nd_id x = i) (\<lambda>_. d') (notification_deliveries s) \<and> nd_id d' = i \<and>
      attempts_left cfg d' < attempts_left cfg d"
proof -
  have i: "nd_id d = i" using assms(1) by (auto simp: find_delivery_def dest: find_SomeD)
  have ns: "\<not> settled d" and left: "0 < attempts_left cfg d" using st by (auto simp: settled_def attempts_left_def)
  let ?d = "d\<lparr>nd_status := ''sending'', nd_attempt_count := nd_attempt_count d + 1\<rparr>"
  let ?answer = "provider_answer mode (nd_channel d) answer"
  let ?retry = "retry_with cfg (nd_attempt_count d + 1) t"
  have r: "rd_status ?retry = (if engagement_event_max_attempts cfg \<le> nd_attempt_count d + 1 then ''dead_letter'' else ''failed'')"
    by (simp add: retry_with_def decide_retry_status)
  show ?thesis
  proof (cases "list_ex (\<lambda>n. n_id n = nd_notification_id d) (notifications s)")
    case False
    with assms(1) i ns left show ?thesis
      by (intro exI [of _ "d\<lparr>nd_status := ''dead_letter'', nd_last_error := Some ''notification_not_found''\<rparr>"])
        (simp add: process_notification_delivery_def claim_delivery_def attempts_left_def settled_def)
  next
    case True
    then have p: "process_notification_delivery cfg mode answer t i s =
        settle_delivery cfg ?d ?answer ((put_delivery ?d s)\<lparr>now := t\<rparr>)"
      using assms(1) ns by (simp add: process_notification_delivery_def claim_delivery_def Let_def)
    have f: "find_delivery i ((put_delivery ?d s)\<lparr>now := t\<rparr>) = Some ?d" using assms(1) i by simp
    show ?thesis
    proof (cases ?answer)
      case Delivered
      with assms(1) i ns left show ?thesis
        by (intro exI [of _ "?d\<lparr>nd_status := ''sent'', nd_sent_at := Some t, nd_next_attempt_at := None,
            nd_last_error := None\<rparr>"])
          (simp add: p settle_delivery_def f update_twice attempts_left_def settled_def)
    next
      case (Refused permanent e)
      let ?e = "?d\<lparr>nd_status := (if permanent then ''dead_letter'' else rd_status ?retry),
        nd_next_attempt_at := (if permanent then None else rd_next_attempt_at ?retry), nd_last_error := Some (take 500 e)\<rparr>"
      from Refused assms i ns st show ?thesis
        by (intro exI [of _ ?e])
          (simp add: p settle_delivery_def f update_twice Let_def disable_device_def attempts_left_def settled_def r)
    next
      case Crashed
      with assms(1) i ns left show ?thesis
        by (intro exI [of _ ?d]) (simp add: p settle_delivery_def attempts_left_def settled_def)
    qed
  qed
qed

lemma outbox_step_work: "outbox_step cfg s t \<Longrightarrow> outbox_work cfg t < outbox_work cfg s"
proof (elim outbox_stepE)
  fix i d mode answer t1 t0
  assume t: "t = process_notification_delivery cfg mode answer t1 i (s\<lparr>now := t0\<rparr>)"
    and u: "unique_by nd_id (notification_deliveries s)" and f: "find_delivery i s = Some d"
    and "due t0 d"
  then have st: "nd_status d \<in> {''pending'', ''failed''}" by (simp add: due_def)
  have "find_delivery i (s\<lparr>now := t0\<rparr>) = Some d" using f by simp
  from process_replaces [OF this st, of cfg mode answer t1] obtain d' where
    d': "notification_deliveries t = update_where (\<lambda>x. nd_id x = i) (\<lambda>_. d') (notification_deliveries s)"
      "nd_id d' = i" "attempts_left cfg d' < attempts_left cfg d"
    unfolding t [symmetric] by auto
  with work_replaced [OF u, of i d d' "attempts_left cfg"] f show ?thesis
    by (simp add: outbox_work_def find_delivery_def)
qed

text \<open>C32. The outbox drains: processing deliveries ends, whatever the providers answer and even when
  workers crash. There is no infinite sequence of attempts on the deliveries that are queued.\<close>

theorem outbox_drains: "wf {(t, s). outbox_step cfg s t}"
  by (rule wf_subset [OF wf_measure [of "outbox_work cfg"]]) (auto dest: outbox_step_work)

text \<open>
  Every answer other than a crash settles the delivery or leaves it to be retried, and after
  the last attempt it is settled.
\<close>

lemma answered_settles:
  assumes "find_delivery i s = Some d" and "\<not> settled d" and "answer \<noteq> Crashed"
    and "engagement_event_max_attempts cfg \<le> nd_attempt_count d + 1"
  shows "\<exists>d'. find_delivery i (process_notification_delivery cfg mode answer t i s) = Some d' \<and> settled d'"
proof -
  have i: "nd_id d = i" using assms(1) by (auto simp: find_delivery_def dest: find_SomeD)
  have a: "provider_answer mode (nd_channel d) answer \<noteq> Crashed"
    using assms(3) by (auto simp: provider_answer_def split: outcome.splits)
  have f: "find_delivery i (put_delivery d1 s') = Some d1" if "find_delivery i s' = Some x" "nd_id d1 = i" for d1 s' x
    using that by simp
  have g: "find_delivery i (disable_device k s') = find_delivery i s'" for k s'
    by (simp add: find_delivery_def disable_device_def)
  from a assms(1,2,4) i show ?thesis
    by (cases "provider_answer mode (nd_channel d) answer")
      (auto simp: process_notification_delivery_def claim_delivery_def settle_delivery_def Let_def g settled_def
        retry_with_def decide_retry_status)
qed

text \<open>
  A worker that ends with an exception the code does not catch leaves its delivery in the
  status \<open>sending\<close>. The queue never looks at it again, and operators cannot retry it.
\<close>

lemma crashed_delivery_lost:
  assumes "find_delivery i s = Some d" and "\<not> settled d"
    and "list_ex (\<lambda>n. n_id n = nd_notification_id d) (notifications s)" and "nd_channel d = ''email''"
  shows "\<exists>d'. find_delivery i (process_notification_delivery cfg mode Crashed t i s) = Some d' \<and> \<not> due t' d' \<and>
    retry_notification_delivery i c (process_notification_delivery cfg mode Crashed t i s) \<in>
      {Inl (AppError 409 ''DELIVERY_NOT_RETRYABLE''), Inl (AppError 403 ''ADMIN_ROOT_REQUIRED''),
       Inl (AppError 403 ''ADMIN_WRITE_REQUIRED'')}"
proof -
  have "nd_id d = i" using assms(1) by (auto simp: find_delivery_def dest: find_SomeD)
  with assms show ?thesis
    by (simp add: process_notification_delivery_def claim_delivery_def settle_delivery_def provider_answer_def due_def
        Let_def retry_notification_delivery_def require_action_def)
qed

text \<open>
  A retry by an operator keeps the number of attempts: a delivery that used them up is
  dead-lettered by its next failure.
\<close>

lemma retried_once_more:
  assumes "find_delivery i s = Some d" and "nd_status d = ''dead_letter''"
    and "engagement_event_max_attempts cfg \<le> nd_attempt_count d"
    and "retry_notification_delivery i c s = Inr (d1, s1)"
  shows "\<exists>d2. find_delivery i (process_notification_delivery cfg mode (Refused p e) t i s1) = Some d2 \<and> settled d2"
proof -
  have i: "nd_id d = i" using assms(1) by (auto simp: find_delivery_def dest: find_SomeD)
  from assms(1,2,4) have d1: "d1 = d\<lparr>nd_status := ''pending'', nd_next_attempt_at := None, nd_last_error := None, nd_sent_at := None\<rparr>"
    and r: "record_audit \<lparr>au_actor_user_id = Some (u_id (ctx_user c)), au_action = ''notification_delivery.retried'',
      au_entity_type = ''notification_delivery'', au_entity_id = i, au_organization_id = None,
      au_artist_id = None, au_details = [(''channel'', JStr (nd_channel d))]\<rparr> (put_delivery d1 s) = Inr s1"
    by (auto simp: retry_notification_delivery_def inr_simps Let_def)
  have "find_delivery i s1 = Some d1"
    using r assms(1) i by (auto simp: d1 find_delivery_def dest!: record_audit_touch intro!: find_set_where)
  then show ?thesis
    by (rule answered_settles) (use assms(3) in \<open>simp_all add: d1 settled_def\<close>)
qed

end
