(* ===== verification/Signing.thy ===== *)
theory Signing
  imports Schema
begin

text \<open>
  Signed tokens (\<open>backend/app/event_checkin.py\<close>, \<open>backend/app/download_signing.py\<close>): a flat
  JSON object in URL-safe base64 without padding, a dot, and the signature of that text. HMAC
  is a parameter; base64 and JSON are written out. Bytes are characters.
\<close>

section \<open>Base64\<close>

definition b64_digit :: "nat \<Rightarrow> char" where
  "b64_digit n = char_of (if n < 26 then 65 + n else if n < 52 then 71 + n else if n < 62 then n - 4
     else if n = 62 then 45 else 95)"

text \<open>\<open>urlsafe_b64decode\<close> reads both alphabets: it replaces \<open>-\<close> and \<open>_\<close> before decoding.\<close>

definition b64_value :: "char \<Rightarrow> nat option" where
  "b64_value c = (let n = of_char c :: nat in
     if 65 \<le> n \<and> n \<le> 90 then Some (n - 65) else if 97 \<le> n \<and> n \<le> 122 then Some (n - 71)
     else if 48 \<le> n \<and> n \<le> 57 then Some (n + 4) else if n = 43 \<or> n = 45 then Some 62
     else if n = 47 \<or> n = 95 then Some 63 else None)"

fun b64_padded :: "string \<Rightarrow> string" where
  "b64_padded [] = []"
| "b64_padded [a] =
    (let x = of_char a :: nat in [b64_digit (x div 4), b64_digit (x mod 4 * 16), CHR ''='', CHR ''=''])"
| "b64_padded [a, b] =
    (let x = of_char a :: nat; y = of_char b :: nat
     in [b64_digit (x div 4), b64_digit (x mod 4 * 16 + y div 16), b64_digit (y mod 16 * 4), CHR ''=''])"
| "b64_padded (a # b # c # cs) =
    (let x = of_char a :: nat; y = of_char b :: nat; z = of_char c :: nat
     in b64_digit (x div 4) # b64_digit (x mod 4 * 16 + y div 16) # b64_digit (y mod 16 * 4 + z div 64) #
       b64_digit (z mod 64) # b64_padded cs)"

definition encode :: "string \<Rightarrow> string" where
  "encode bytes = rev (dropWhile (\<lambda>c. c = CHR ''='') (rev (b64_padded bytes)))"

text \<open>
  \<open>binascii.a2b_base64\<close> with \<open>strict_mode=False\<close>: foreign characters are skipped, and a padding
  that completes a group ends the text. \<open>q\<close> counts the digits of the group, \<open>l\<close> holds the bits left
  over and \<open>p\<close> the padding seen.
\<close>

fun a2b_base64 :: "nat \<Rightarrow> nat \<Rightarrow> nat \<Rightarrow> string \<Rightarrow> string option" where
  "a2b_base64 q l p [] = (if q = 0 then Some [] else None)"
| "a2b_base64 q l p (c # cs) =
    (if c = CHR ''='' then
       (if 2 \<le> q then (if 4 \<le> q + Suc p then Some [] else a2b_base64 q l (Suc p) cs) else a2b_base64 q l p cs)
     else case b64_value c of
       None \<Rightarrow> a2b_base64 q l p cs
     | Some v \<Rightarrow>
         if q = 0 then a2b_base64 1 v 0 cs
         else if q = 1 then map_option ((#) (char_of (4 * l + v div 16))) (a2b_base64 2 (v mod 16) 0 cs)
         else if q = 2 then map_option ((#) (char_of (16 * l + v div 4))) (a2b_base64 3 (v mod 4) 0 cs)
         else map_option ((#) (char_of (64 * l + v))) (a2b_base64 0 0 0 cs))"

definition ascii :: "string \<Rightarrow> bool" where
  "ascii = list_all (\<lambda>c. of_char c < (128 :: nat))"

definition decode :: "string \<Rightarrow> string option" where
  "decode text =
    (if ascii text then a2b_base64 0 0 0 (text @ replicate ((4 - length text mod 4) mod 4) (CHR ''='')) else None)"

section \<open>Flat JSON objects\<close>

datatype claim = Text string | Number int

type_synonym claims = "(string \<times> claim) list"

definition hex_digit :: "nat \<Rightarrow> char" where
  "hex_digit n = char_of (if n < 10 then 48 + n else 87 + n)"

definition hex_value :: "char \<Rightarrow> nat option" where
  "hex_value c = (let n = of_char c :: nat in
     if 48 \<le> n \<and> n \<le> 57 then Some (n - 48) else if 97 \<le> n \<and> n \<le> 102 then Some (n - 87)
     else if 65 \<le> n \<and> n \<le> 70 then Some (n - 55) else None)"

text \<open>What \<open>json.dumps\<close> writes for a character, with \<open>ensure_ascii\<close>.\<close>

definition short_escapes :: "(char \<times> char) list" where
  "short_escapes = [(CHR ''\"'', CHR ''\"''), (CHR 0x5C, CHR 0x5C), (CHR 0x0A, CHR ''n''), (CHR 0x0D, CHR ''r''),
     (CHR 0x09, CHR ''t''), (CHR 0x08, CHR ''b''), (CHR 0x0C, CHR ''f'')]"

definition printable :: "char \<Rightarrow> bool" where
  "printable c \<longleftrightarrow> 32 \<le> (of_char c :: nat) \<and> (of_char c :: nat) \<le> 126"

definition escaped :: "char \<Rightarrow> string" where
  "escaped c =
    (case map_of short_escapes c of
       Some e \<Rightarrow> [CHR 0x5C, e]
     | None \<Rightarrow>
         if printable c then [c]
         else CHR 0x5C # ''u00'' @ [hex_digit (of_char c div 16), hex_digit (of_char c mod 16)])"

definition quoted :: "string \<Rightarrow> string" where
  "quoted t = CHR ''\"'' # concat (map escaped t) @ [CHR ''\"'']"

definition dump_claim :: "claim \<Rightarrow> string" where
  "dump_claim v = (case v of Text t \<Rightarrow> quoted t | Number n \<Rightarrow> show_int n)"

fun dump_members :: "claims \<Rightarrow> string" where
  "dump_members [] = []"
| "dump_members [(k, v)] = quoted k @ CHR '':'' # dump_claim v"
| "dump_members ((k, v) # d) = quoted k @ CHR '':'' # dump_claim v @ CHR '','' # dump_members d"

definition dumps :: "claims \<Rightarrow> string" where
  "dumps d = CHR ''{'' # dump_members d @ [CHR ''}'']"

text \<open>
  \<open>json.loads\<close> on such objects. Other documents count as malformed here: blanks, fractions,
  literals, nested values, and texts beyond Latin-1 are never written into a token, so a
  token that holds them has no signature.
\<close>

fun read_text :: "string \<Rightarrow> (string \<times> string) option" where
  "read_text [] = None"
| "read_text (c # cs) =
    (if c = CHR ''\"'' then Some ([], cs)
     else if c = CHR 0x5C then
       (case cs of
          [] \<Rightarrow> None
        | e # ds \<Rightarrow>
            if e = CHR ''u'' then
              (case ds of
                 a # b # x # y # es \<Rightarrow>
                   (case (hex_value a, hex_value b, hex_value x, hex_value y) of
                      (Some 0, Some 0, Some n, Some m) \<Rightarrow>
                        map_option (\<lambda>(t, r). (char_of (16 * n + m) # t, r)) (read_text es)
                    | _ \<Rightarrow> None)
               | _ \<Rightarrow> None)
            else
              (case map_of ((CHR ''/'', CHR ''/'') # map (\<lambda>(a, b). (b, a)) short_escapes) e of
                 None \<Rightarrow> None
               | Some a \<Rightarrow> map_option (\<lambda>(t, r). (a # t, r)) (read_text ds)))
     else if printable c then map_option (\<lambda>(t, r). (c # t, r)) (read_text cs)
     else None)"

definition is_digit :: "char \<Rightarrow> bool" where
  "is_digit c \<longleftrightarrow> digit_of c \<noteq> None"

definition read_nat :: "string \<Rightarrow> (nat \<times> string) option" where
  "read_nat cs =
    (let ds = takeWhile is_digit cs
     in if 1 < length ds \<and> hd ds = CHR ''0'' then None
        else map_option (\<lambda>n. (n, dropWhile is_digit cs)) (parse_digits False 0 ds))"

definition read_claim :: "string \<Rightarrow> (claim \<times> string) option" where
  "read_claim cs =
    (case cs of
       [] \<Rightarrow> None
     | c # ds \<Rightarrow>
         if c = CHR ''\"'' then map_option (\<lambda>(t, r). (Text t, r)) (read_text ds)
         else if c = CHR ''-'' then map_option (\<lambda>(n, r). (Number (- int n), r)) (read_nat ds)
         else map_option (\<lambda>(n, r). (Number (int n), r)) (read_nat cs))"

definition read_member :: "string \<Rightarrow> ((string \<times> claim) \<times> string) option" where
  "read_member cs =
    (if cs = [] \<or> hd cs \<noteq> CHR ''\"'' then None
     else case read_text (tl cs) of
       Some (k, c # es) \<Rightarrow>
         if c = CHR '':'' then map_option (\<lambda>(v, r). ((k, v), r)) (read_claim es) else None
     | _ \<Rightarrow> None)"

text \<open>A member takes a character at least, so the length of the text bounds their number.\<close>

fun read_members :: "nat \<Rightarrow> string \<Rightarrow> claims option" where
  "read_members 0 cs = None"
| "read_members (Suc n) cs =
    (case read_member cs of
       Some (m, c # r) \<Rightarrow>
         if c = CHR ''}'' then (if r = [] then Some [m] else None)
         else if c = CHR '','' then map_option ((#) m) (read_members n r)
         else None
     | _ \<Rightarrow> None)"

definition loads :: "string \<Rightarrow> claims option" where
  "loads cs =
    (if cs = [] \<or> hd cs \<noteq> CHR ''{'' then None
     else if tl cs = ''}'' then Some [] else read_members (length cs) (tl cs))"

text \<open>The later of two members with one name counts.\<close>

definition claim_of :: "claims \<Rightarrow> string \<Rightarrow> claim option" where
  "claim_of d k = map_of (rev d) k"

section \<open>Reading back what was written\<close>

lemma of_char_less [simp]: "of_char c < (256 :: nat)"
  by (simp add: of_char_def)

lemma code_of_digit: "n < 64 \<Longrightarrow> of_char (b64_digit n) =
    (if n < 26 then 65 + n else if n < 52 then 71 + n else if n < 62 then n - 4 else if n = 62 then 45 else 95)"
  by (simp add: b64_digit_def)

lemma b64_value_digit [simp]: "n < 64 \<Longrightarrow> b64_value (b64_digit n) = Some n"
  by (auto simp: b64_value_def code_of_digit Let_def)

lemma b64_digit_plain [simp]:
  assumes "n < 64"
  shows "b64_digit n \<noteq> CHR ''=''" "b64_digit n \<noteq> CHR ''.''" "of_char (b64_digit n) < (128 :: nat)"
proof -
  have "of_char (b64_digit n) \<noteq> (of_char (CHR ''='') :: nat)" "of_char (b64_digit n) \<noteq> (of_char (CHR ''.'') :: nat)"
    using assms by (auto simp: code_of_digit)
  then show "b64_digit n \<noteq> CHR ''=''" "b64_digit n \<noteq> CHR ''.''" by auto
  show "of_char (b64_digit n) < (128 :: nat)" using assms by (auto simp: code_of_digit)
qed

lemmas b64_digit_other [simp] = b64_digit_plain(1,2) [symmetric]

text \<open>The digits of the text without padding, and how much padding completes it.\<close>

fun b64_digits :: "string \<Rightarrow> string" where
  "b64_digits [] = []"
| "b64_digits [a] = (let x = of_char a :: nat in [b64_digit (x div 4), b64_digit (x mod 4 * 16)])"
| "b64_digits [a, b] =
    (let x = of_char a :: nat; y = of_char b :: nat
     in [b64_digit (x div 4), b64_digit (x mod 4 * 16 + y div 16), b64_digit (y mod 16 * 4)])"
| "b64_digits (a # b # c # cs) =
    (let x = of_char a :: nat; y = of_char b :: nat; z = of_char c :: nat
     in b64_digit (x div 4) # b64_digit (x mod 4 * 16 + y div 16) # b64_digit (y mod 16 * 4 + z div 64) #
       b64_digit (z mod 64) # b64_digits cs)"

lemma sextets [simp]:
  fixes x y :: nat
  shows "x < 256 \<Longrightarrow> x div 4 < 64" "x mod 4 * 16 < 64" "y < 256 \<Longrightarrow> x mod 4 * 16 + y div 16 < 64"
    "x mod 16 * 4 < 64" "y < 256 \<Longrightarrow> x mod 16 * 4 + y div 64 < 64"
proof -
  have m: "x mod 4 < 4" "x mod 16 < 16" by simp_all
  show "x < 256 \<Longrightarrow> x div 4 < 64" by (simp add: less_mult_imp_div_less)
  from m show "x mod 4 * 16 < 64" "x mod 16 * 4 < 64" by linarith+
  show "y < 256 \<Longrightarrow> x mod 4 * 16 + y div 16 < 64" using m(1) less_mult_imp_div_less [of y 16 16] by simp
  show "y < 256 \<Longrightarrow> x mod 16 * 4 + y div 64 < 64" using m(2) less_mult_imp_div_less [of y 4 64] by simp
qed

lemma octets [simp]:
  fixes y :: nat
  assumes "y < 256"
  shows "y div 16 div 16 = 0" "y div 64 div 4 = 0"
    "16 * (y div 16 mod 16) + y mod 16 = y" "64 * (y div 64 mod 4) + y mod 64 = y"
proof -
  have "y div 16 < 16" "y div 64 < 4" using assms by (simp_all add: less_mult_imp_div_less)
  then show "y div 16 div 16 = 0" "y div 64 div 4 = 0"
    "16 * (y div 16 mod 16) + y mod 16 = y" "64 * (y div 64 mod 4) + y mod 64 = y" by simp_all
qed

lemma padded_digits: "b64_padded bs = b64_digits bs @ replicate ((4 - length (b64_digits bs) mod 4) mod 4) (CHR ''='')"
  by (induction bs rule: b64_digits.induct) (simp_all add: Let_def numeral_2_eq_2)

lemma digits_plain: "CHR ''='' \<notin> set (b64_digits bs) \<and> CHR ''.'' \<notin> set (b64_digits bs) \<and> ascii (b64_digits bs)"
  by (induction bs rule: b64_digits.induct) (simp_all add: Let_def ascii_def)

lemma dropWhile_replicate: "dropWhile (\<lambda>c. c = a) (replicate n a @ xs) = dropWhile (\<lambda>c. c = a) xs"
  by (induction n) simp_all

lemma encode_digits: "encode bs = b64_digits bs"
proof -
  have "b64_digits bs \<noteq> [] \<Longrightarrow> last (b64_digits bs) \<noteq> CHR ''=''"
    using digits_plain [of bs] last_in_set by metis
  then have "dropWhile (\<lambda>c. c = CHR ''='') (rev (b64_digits bs)) = rev (b64_digits bs)"
    by (auto simp: dropWhile_eq_self_iff hd_rev)
  then show ?thesis by (simp add: encode_def padded_digits dropWhile_replicate)
qed

lemma a2b_padded: "a2b_base64 0 0 0 (b64_padded bs) = Some bs"
  by (induction bs rule: b64_padded.induct) (simp_all add: Let_def)

lemma decode_encode [simp]: "decode (encode bs) = Some bs"
  using a2b_padded [of bs] digits_plain [of bs] by (simp add: decode_def encode_digits padded_digits)

lemma map_of_escapes: "map_of short_escapes c = Some e \<Longrightarrow>
    map_of ((CHR ''/'', CHR ''/'') # map (\<lambda>(a, b). (b, a)) short_escapes) e = Some c \<and> e \<noteq> CHR ''u''"
  by (auto simp: short_escapes_def split: if_splits)

lemma hex_value_digit [simp]:
  assumes "n < 16"
  shows "hex_value (hex_digit n) = Some n"
proof -
  have "of_char (hex_digit n) = (if n < 10 then 48 + n else 87 + n)" using assms by (simp add: hex_digit_def)
  with assms show ?thesis by (auto simp: hex_value_def Let_def)
qed

lemma hex_value_0 [simp]: "hex_value (CHR ''0'') = Some 0"
  by (simp add: hex_value_def)

lemma read_escaped: "read_text (escaped c @ cs) = map_option (\<lambda>(t, r). (c # t, r)) (read_text cs)"
proof (cases "map_of short_escapes c")
  case (Some e)
  with map_of_escapes [OF Some] show ?thesis by (simp add: escaped_def)
next
  case None
  then have "c \<noteq> CHR ''\"''" "c \<noteq> CHR 0x5C" by (auto simp: short_escapes_def)
  moreover have "of_char c div 16 < (16 :: nat)" by (simp add: less_mult_imp_div_less)
  ultimately show ?thesis using None by (cases "printable c") (simp_all add: escaped_def)
qed

lemma read_quoted [simp]: "read_text (concat (map escaped t) @ CHR ''\"'' # cs) = Some (t, cs)"
  by (induction t) (simp_all add: read_escaped del: read_text.simps(2), simp)

text \<open>Decimal digits; a number that is not zero starts with another digit than \<open>0\<close>.\<close>

lemma digit_of_digit [simp]: "k < 10 \<Longrightarrow> digit_of (char_of (48 + k)) = Some k"
  by (simp add: digit_of_def)

lemma parse_digits_append:
  "list_all is_digit ds \<Longrightarrow> parse_digits True acc ds = Some n \<Longrightarrow> digit_of c = Some k \<Longrightarrow>
    parse_digits True acc (ds @ [c]) = Some (10 * n + k)"
  by (induction ds arbitrary: acc) (auto simp: is_digit_def)

lemma show_nat_digits: "list_all is_digit (show_nat n)"
proof (induction n rule: show_nat.induct)
  case (1 n)
  moreover have "is_digit (char_of (48 + k))" if "k < 10" for k :: nat using that by (simp add: is_digit_def)
  ultimately show ?case by (subst show_nat.simps) simp
qed

lemma parse_show_nat: "parse_digits False 0 (show_nat n) = Some n"
proof (induction n rule: show_nat.induct)
  case (1 n)
  show ?case
  proof (cases "n < 10")
    case True
    then show ?thesis by (subst show_nat.simps) simp
  next
    case False
    with 1 have "parse_digits False 0 (show_nat (n div 10)) = Some (n div 10)" by simp
    moreover obtain c cs where c: "show_nat (n div 10) = c # cs" by (cases "show_nat (n div 10)") auto
    moreover have "list_all is_digit (c # cs)" using show_nat_digits [of "n div 10"] c by simp
    ultimately have "parse_digits False 0 (show_nat (n div 10) @ [char_of (48 + n mod 10)]) = Some (10 * (n div 10) + n mod 10)"
      using parse_digits_append [of cs _ "n div 10" "char_of (48 + n mod 10)" "n mod 10"] by (auto simp: is_digit_def)
    with False show ?thesis by (subst show_nat.simps) simp
  qed
qed

lemma show_nat_leading: "n = 0 \<or> hd (show_nat n) \<noteq> CHR ''0''"
proof (induction n rule: show_nat.induct)
  case (1 n)
  show ?case
  proof (cases "n < 10")
    case True
    have "of_char (char_of (48 + n) :: char) \<noteq> (of_char (CHR ''0'') :: nat)" if "n \<noteq> 0" using that True by simp
    with True show ?thesis by (subst show_nat.simps) (auto simp del: of_char_of)
  next
    case False
    with 1 have "hd (show_nat (n div 10)) \<noteq> CHR ''0''" by (auto simp: div_eq_0_iff)
    with False show ?thesis by (subst show_nat.simps) (simp add: hd_append)
  qed
qed

lemma takeWhile_digits:
  "list_all is_digit ds \<Longrightarrow> cs = [] \<or> \<not> is_digit (hd cs) \<Longrightarrow> takeWhile is_digit (ds @ cs) = ds \<and> dropWhile is_digit (ds @ cs) = cs"
  by (induction ds) (cases cs, simp_all)

lemma read_show_nat: "cs = [] \<or> \<not> is_digit (hd cs) \<Longrightarrow> read_nat (show_nat n @ cs) = Some (n, cs)"
proof -
  assume cs: "cs = [] \<or> \<not> is_digit (hd cs)"
  have "show_nat 0 = ''0''" by code_simp
  then have "\<not> (1 < length (show_nat n) \<and> hd (show_nat n) = CHR ''0'')"
    using show_nat_leading [of n] by (cases "n = 0") auto
  then show ?thesis
    using takeWhile_digits [OF show_nat_digits cs] by (simp add: read_nat_def parse_show_nat Let_def)
qed

lemma show_nat_hd: "is_digit (hd (show_nat n))"
  using show_nat_digits [of n] by (cases "show_nat n") simp_all

lemma read_dumped_claim:
  assumes "cs = [] \<or> \<not> is_digit (hd cs)"
  shows "read_claim (dump_claim v @ cs) = Some (v, cs)"
proof (cases v)
  case (Text t)
  then show ?thesis by (simp add: dump_claim_def quoted_def read_claim_def)
next
  case (Number n)
  have d: "\<not> is_digit (CHR ''\"'')" "\<not> is_digit (CHR ''-'')" by (simp_all add: is_digit_def digit_of_def)
  obtain c ds where c: "show_nat (nat n) = c # ds" by (cases "show_nat (nat n)") auto
  with show_nat_hd [of "nat n"] d have "c \<noteq> CHR ''\"''" "c \<noteq> CHR ''-''" by auto
  with Number c read_show_nat [OF assms, of "nat n"] read_show_nat [OF assms, of "nat (- n)"] show ?thesis
    by (simp add: dump_claim_def show_int_def read_claim_def)
qed

lemma read_dumped_member:
  "cs = [] \<or> \<not> is_digit (hd cs) \<Longrightarrow> read_member (quoted k @ CHR '':'' # dump_claim v @ cs) = Some ((k, v), cs)"
  by (simp add: read_member_def quoted_def read_dumped_claim)

lemma not_digit [simp]: "\<not> is_digit (CHR '','')" "\<not> is_digit (CHR ''}'')"
  by (simp_all add: is_digit_def digit_of_def)

lemma read_dumped_members:
  "d \<noteq> [] \<Longrightarrow> length d \<le> n \<Longrightarrow> read_members n (dump_members d @ ''}'') = Some d"
proof (induction d arbitrary: n rule: dump_members.induct)
  case (2 k v)
  then obtain m where "n = Suc m" by (cases n) simp_all
  then show ?case by (simp add: read_dumped_member)
next
  case (3 k v m d)
  then obtain i where "n = Suc i" by (cases n) simp_all
  with 3 show ?case by (cases m) (simp add: read_dumped_member)
qed simp

lemma dump_members_length: "length d \<le> length (dump_members d)"
  by (induction d rule: dump_members.induct) (simp_all add: quoted_def)

lemma loads_dumps: "loads (dumps d) = Some d"
proof (cases "d = []")
  case False
  then have "dump_members d \<noteq> []" using dump_members_length [of d] by auto
  with False read_dumped_members [of d "Suc (Suc (length (dump_members d)))"] dump_members_length [of d] show ?thesis
    by (simp add: loads_def dumps_def)
qed (simp add: loads_def dumps_def)

section \<open>Tokens\<close>

text \<open>\<open>download_signing_secret\<close> and \<open>download_url_ttl_seconds\<close>, and HMAC-SHA256 of a secret and a text.\<close>

record signing =
  secret :: string
  url_ttl :: int
  mac :: "string \<Rightarrow> string \<Rightarrow> string"

definition signature :: "signing \<Rightarrow> string \<Rightarrow> string" where
  "signature cfg payload = encode (mac cfg (secret cfg) payload)"

definition signed :: "signing \<Rightarrow> claims \<Rightarrow> string" where
  "signed cfg d = (let payload = encode (dumps d) in payload @ CHR ''.'' # signature cfg payload)"

text \<open>
  The part both verifiers share: \<open>None\<close> stands for the exceptions they turn into the answer
  that the token is invalid. A payload or signature that is not ASCII raises one of them.
\<close>

definition read_signed :: "signing \<Rightarrow> string \<Rightarrow> claims option" where
  "read_signed cfg token =
    (let payload = takeWhile (\<lambda>c. c \<noteq> CHR ''.'') token; rest = dropWhile (\<lambda>c. c \<noteq> CHR ''.'') token
     in if rest = [] \<or> \<not> ascii payload \<or> tl rest \<noteq> signature cfg payload then None
        else case decode payload of None \<Rightarrow> None | Some text \<Rightarrow> loads text)"

definition claim_int :: "claims \<Rightarrow> string \<Rightarrow> int option" where
  "claim_int d k = (case claim_of d k of
     None \<Rightarrow> None | Some (Number n) \<Rightarrow> Some n | Some (Text t) \<Rightarrow> parse_int t)"

definition claim_true :: "claims \<Rightarrow> string \<Rightarrow> bool" where
  "claim_true d k = (case claim_of d k of
     None \<Rightarrow> False | Some (Number n) \<Rightarrow> n \<noteq> 0 | Some (Text t) \<Rightarrow> t \<noteq> [])"

definition create_check_in_token :: "signing \<Rightarrow> ident \<Rightarrow> ident \<Rightarrow> int \<Rightarrow> string" where
  "create_check_in_token cfg event_id application_id expires_at =
    signed cfg [(''eventId'', Text event_id), (''applicationId'', Text application_id), (''exp'', Number expires_at)]"

definition verify_check_in_token :: "signing \<Rightarrow> time \<Rightarrow> string \<Rightarrow> exn + claims" where
  "verify_check_in_token cfg t token =
    (case read_signed cfg token of
       None \<Rightarrow> Inl (AppError 401 ''EVENT_CHECKIN_INVALID'')
     | Some d \<Rightarrow>
         case claim_int d ''exp'' of
           None \<Rightarrow> Inl (AppError 401 ''EVENT_CHECKIN_INVALID'')
         | Some e \<Rightarrow>
             if e \<le> t div seconds 1 then Inl (AppError 401 ''EVENT_CHECKIN_EXPIRED'')
             else if \<not> claim_true d ''eventId'' \<or> \<not> claim_true d ''applicationId''
             then Inl (AppError 401 ''EVENT_CHECKIN_INVALID'')
             else Inr d)"

definition create_download_token :: "signing \<Rightarrow> ident \<Rightarrow> ident \<Rightarrow> ident \<Rightarrow> time \<Rightarrow> string" where
  "create_download_token cfg user_id campaign_id asset_id t =
    signed cfg [(''userId'', Text user_id), (''campaignId'', Text campaign_id), (''assetId'', Text asset_id),
      (''exp'', Number (t div seconds 1 + url_ttl cfg))]"

definition verify_download_token :: "signing \<Rightarrow> time \<Rightarrow> string \<Rightarrow> exn + claims" where
  "verify_download_token cfg t token =
    (case read_signed cfg token of
       None \<Rightarrow> Inl (AppError 401 ''SIGNED_URL_INVALID'')
     | Some d \<Rightarrow>
         case claim_int d ''exp'' of
           None \<Rightarrow> Inl (AppError 401 ''SIGNED_URL_INVALID'')
         | Some e \<Rightarrow>
             if e \<le> t div seconds 1 then Inl (AppError 401 ''SIGNED_URL_EXPIRED'') else Inr d)"

definition download_url :: "signing \<Rightarrow> ident \<Rightarrow> ident \<Rightarrow> ident \<Rightarrow> time \<Rightarrow> string" where
  "download_url cfg user_id campaign_id asset_id t =
    ''/api/me/collection/benefits/'' @ campaign_id @ ''/download?token='' @
      create_download_token cfg user_id campaign_id asset_id t"

definition check_in_token_hash :: "string \<Rightarrow> db \<Rightarrow> string" where
  "check_in_token_hash token s = sha256 s (JStr token)"

lemma read_signed_signed [simp]: "read_signed cfg (signed cfg d) = Some d"
proof -
  have plain: "list_all (\<lambda>c. c \<noteq> CHR ''.'') (encode (dumps d))" and "ascii (encode (dumps d))"
    using digits_plain [of "dumps d"] by (auto simp: encode_digits list_all_iff)
  have "takeWhile (\<lambda>c. c \<noteq> CHR ''.'') (xs @ CHR ''.'' # ys) = xs \<and> dropWhile (\<lambda>c. c \<noteq> CHR ''.'') (xs @ CHR ''.'' # ys) = CHR ''.'' # ys"
    if "list_all (\<lambda>c. c \<noteq> CHR ''.'') xs" for xs ys using that by (induction xs) simp_all
  from this [OF plain] \<open>ascii (encode (dumps d))\<close> show ?thesis
    by (simp add: read_signed_def signed_def Let_def loads_dumps)
qed

lemma check_in_token_claims:
  "verify_check_in_token cfg t (create_check_in_token cfg event_id application_id expires_at) =
    (if expires_at \<le> t div seconds 1 then Inl (AppError 401 ''EVENT_CHECKIN_EXPIRED'')
     else if event_id = [] \<or> application_id = [] then Inl (AppError 401 ''EVENT_CHECKIN_INVALID'')
     else Inr [(''eventId'', Text event_id), (''applicationId'', Text application_id), (''exp'', Number expires_at)])"
  by (simp add: verify_check_in_token_def create_check_in_token_def claim_int_def claim_true_def claim_of_def)

text \<open>
  An accepted token ends with the signature of what stands before the dot: whoever does not
  know the secret has to find a value of the HMAC.
\<close>

lemma accepted_is_signed:
  assumes "verify_check_in_token cfg t token = Inr d \<or> verify_download_token cfg t token = Inr d"
  shows "\<exists>payload body. token = payload @ CHR ''.'' # signature cfg payload \<and> decode payload = Some body \<and>
    loads body = Some d"
proof -
  let ?payload = "takeWhile (\<lambda>c. c \<noteq> CHR ''.'') token"
  let ?rest = "dropWhile (\<lambda>c. c \<noteq> CHR ''.'') token"
  from assms have "read_signed cfg token = Some d"
    by (auto simp: verify_check_in_token_def verify_download_token_def split: option.splits if_splits)
  then obtain body where "?rest \<noteq> []" "tl ?rest = signature cfg ?payload" "decode ?payload = Some body" "loads body = Some d"
    by (auto simp: read_signed_def Let_def split: if_splits option.splits)
  moreover from this(1) have "hd ?rest = CHR ''.''" using hd_dropWhile [of _ token] by blast
  ultimately have "?rest = CHR ''.'' # signature cfg ?payload" by (metis list.collapse)
  then have "token = ?payload @ CHR ''.'' # signature cfg ?payload" by (metis takeWhile_dropWhile_id)
  with \<open>decode ?payload = Some body\<close> \<open>loads body = Some d\<close> show ?thesis by blast
qed

text \<open>
  Both kinds of token are signed with one secret and without a purpose: a check-in pass
  passes the signature check of downloads. What stops it are the claims it lacks.
\<close>

lemma check_in_pass_signs_downloads:
  "t div seconds 1 < expires_at \<Longrightarrow>
    \<exists>d. verify_download_token cfg t (create_check_in_token cfg event_id application_id expires_at) = Inr d \<and>
      claim_of d ''campaignId'' = None"
  by (simp add: verify_download_token_def create_check_in_token_def claim_int_def claim_of_def)

end
