(* ===== verification/CheckIn.thy ===== *)
theory CheckIn
  imports Signing Events
begin

text \<open>
  What signed tokens are for: the check-in at events (\<open>backend/app/routers/events.py\<close>) and the
  download of the benefit of a completed collection (\<open>backend/app/routers/fan.py\<close>).
\<close>

section \<open>Check-in\<close>

definition get_application :: "ident \<Rightarrow> db \<Rightarrow> event_application option" where
  "get_application i s = find (\<lambda>a. ea_id a = i) (event_applications s)"

definition put_application :: "event_application \<Rightarrow> db \<Rightarrow> db" where
  "put_application a s = s\<lparr>event_applications := update_where (\<lambda>x. ea_id x = ea_id a) (\<lambda>_. a) (event_applications s)\<rparr>"

definition pass_expires_at :: "event_row \<Rightarrow> time \<Rightarrow> int" where
  "pass_expires_at e t = ((case e_ends_at e of None \<Rightarrow> t + days 1 | Some x \<Rightarrow> x) + days 1) div seconds 1"

text \<open>The pass, until when it is valid, and whether its holder is checked in.\<close>

definition get_event_check_in_pass :: "signing \<Rightarrow> ident \<Rightarrow> ident \<Rightarrow> db \<Rightarrow> exn + (string \<times> int \<times> bool) \<times> db" where
  "get_event_check_in_pass cfg i u s =
    (case find (\<lambda>a. ea_id a = i \<and> ea_user_id a = u) (event_applications s) of
       None \<Rightarrow> Inl (AppError 404 ''EVENT_APPLICATION_NOT_FOUND'')
     | Some a \<Rightarrow>
         case find_managed_event (ea_event_id a) s of
           None \<Rightarrow> Inl (AppError 404 ''EVENT_APPLICATION_NOT_FOUND'')
         | Some e \<Rightarrow>
             if ea_status a \<notin> {''submitted'', ''winner''} then Inl (AppError 409 ''EVENT_CHECKIN_UNAVAILABLE'')
             else
               let expires = pass_expires_at e (now s);
                   token = create_check_in_token cfg (e_id e) (ea_id a) expires;
                   answer = (token, expires, ea_checked_in_at a \<noteq> None)
               in case ea_check_in_token_hash a of
                    None \<Rightarrow> Inr (answer, put_application (a\<lparr>ea_check_in_token_hash := Some (check_in_token_hash token s),
                      ea_check_in_token_issued_at := Some (now s)\<rparr>) s)
                  | Some h \<Rightarrow>
                      if h \<noteq> check_in_token_hash token s then Inl (AppError 409 ''EVENT_CHECKIN_PASS_ROTATED'')
                      else Inr (answer, s))"

definition claimed_application :: "claims \<Rightarrow> db \<Rightarrow> event_application option" where
  "claimed_application d s = (case claim_of d ''applicationId'' of Some (Text i) \<Rightarrow> get_application i s | _ \<Rightarrow> None)"

text \<open>
  Whether the application was checked in before, and when. A request is one step here, so the
  row that was read is the row that is updated.
\<close>

definition admin_check_in_event_application ::
  "signing \<Rightarrow> ident \<Rightarrow> string \<Rightarrow> admin_context \<Rightarrow> db \<Rightarrow> exn + (bool \<times> time) \<times> db" where
  "admin_check_in_event_application cfg i token c s =
    bindE (require_action ''events:write'' c) (\<lambda>_.
    bindE (scoped_event i c s) (\<lambda>e.
    bindE (verify_check_in_token cfg (now s) token) (\<lambda>d.
    if claim_of d ''eventId'' \<noteq> Some (Text (e_id e)) then Inl (AppError 422 ''EVENT_CHECKIN_WRONG_EVENT'')
    else case claimed_application d s of
      None \<Rightarrow> Inl (AppError 422 ''EVENT_CHECKIN_INVALID'')
    | Some a \<Rightarrow>
        if ea_event_id a \<noteq> e_id e then Inl (AppError 422 ''EVENT_CHECKIN_INVALID'')
        else if ea_check_in_token_hash a \<noteq> Some (check_in_token_hash token s)
        then Inl (AppError 401 ''EVENT_CHECKIN_INVALID'')
        else if ea_status a \<notin> {''submitted'', ''winner''} then Inl (AppError 409 ''EVENT_CHECKIN_UNAVAILABLE'')
        else if now s < e_starts_at e then Inl (AppError 409 ''EVENT_CHECKIN_NOT_OPEN'')
        else if (case e_ends_at e of None \<Rightarrow> False | Some x \<Rightarrow> x + days 1 < now s)
        then Inl (AppError 409 ''EVENT_CHECKIN_CLOSED'')
        else case ea_checked_in_at a of
          Some t \<Rightarrow> Inr ((True, t), s)
        | None \<Rightarrow>
            bindE (record_audit
                \<lparr>au_actor_user_id = Some (u_id (ctx_user c)), au_action = ''event.application_checked_in'',
                 au_entity_type = ''event_application'', au_entity_id = ea_id a,
                 au_organization_id = e_organization_id e, au_artist_id = e_artist_id e,
                 au_details = [(''eventId'', JStr (e_id e))]\<rparr>
                (put_application (a\<lparr>ea_checked_in_at := Some (now s), ea_checked_in_by := Some (u_id (ctx_user c))\<rparr>) s))
              (\<lambda>s1. Inr ((False, now s), s1)))))"

section \<open>Benefits of collections\<close>

definition get_campaign :: "ident \<Rightarrow> db \<Rightarrow> collection_campaign option" where
  "get_campaign i s = find (\<lambda>c. cca_id c = i) (collection_campaigns s)"

definition find_benefit_claim :: "ident \<Rightarrow> ident \<Rightarrow> db \<Rightarrow> collection_benefit_claim option" where
  "find_benefit_claim u i s = find (\<lambda>c. cbc_user_id c = u \<and> cbc_campaign_id c = i) (collection_benefit_claims s)"

definition owned_card_ids :: "ident \<Rightarrow> db \<Rightarrow> ident list" where
  "owned_card_ids u s = map uc_card_id (filter (\<lambda>c. uc_user_id c = u) (user_cards s))"

definition clash_benefit_claim :: "collection_benefit_claim \<Rightarrow> collection_benefit_claim \<Rightarrow> bool" where
  "clash_benefit_claim r x \<longleftrightarrow> cbc_id x = cbc_id r \<or>
    (cbc_user_id x = cbc_user_id r \<and> cbc_campaign_id x = cbc_campaign_id r)"

definition save_benefit_claim :: "collection_benefit_claim \<Rightarrow> db \<Rightarrow> exn + db" where
  "save_benefit_claim r s =
    (case bindE (insert_row clash_benefit_claim r (collection_benefit_claims s)) (\<lambda>rows.
       record_audit
         \<lparr>au_actor_user_id = Some (cbc_user_id r), au_action = ''collection_benefit.claimed'',
          au_entity_type = ''collection_campaign'', au_entity_id = cbc_campaign_id r,
          au_organization_id = None, au_artist_id = None,
          au_details = [(''userId'', JStr (cbc_user_id r)), (''claimId'', JStr (cbc_id r))]\<rparr>
         ((draw s)\<lparr>collection_benefit_claims := rows\<rparr>)) of
       Inl _ \<Rightarrow> Inl (AppError 409 ''BENEFIT_ALREADY_CLAIMED'')
     | Inr s1 \<Rightarrow> Inr s1)"

text \<open>The claim, and the link to the file when the campaign has one.\<close>

definition claim_collection_benefit ::
  "signing \<Rightarrow> ident \<Rightarrow> ident \<Rightarrow> db \<Rightarrow> exn + (collection_benefit_claim \<times> string option) \<times> db" where
  "claim_collection_benefit cfg i u s =
    (case get_campaign i s of
       None \<Rightarrow> Inl (AppError 404 ''CAMPAIGN_NOT_FOUND'')
     | Some g \<Rightarrow>
         if cca_status g \<noteq> ''active'' then Inl (AppError 409 ''CAMPAIGN_NOT_ACTIVE'')
         else if find_benefit_claim u (cca_id g) s \<noteq> None then Inl (AppError 409 ''BENEFIT_ALREADY_CLAIMED'')
         else if \<not> list_all (\<lambda>x. x \<in> set (owned_card_ids u s)) (cca_required_card_ids g)
         then Inl (AppError 409 ''BENEFIT_NOT_UNLOCKED'')
         else
           let r = \<lparr>cbc_id = new_id ''claim_'' s, cbc_user_id = u, cbc_campaign_id = cca_id g, cbc_claimed_at = now s\<rparr>
           in bindE (save_benefit_claim r s) (\<lambda>s1.
              Inr ((r, if present (cca_benefit_asset_id g)
                then Some (download_url cfg u (cca_id g) (the (cca_benefit_asset_id g)) (now s)) else None), s1)))"

text \<open>The user a request acts for: the one the token names, otherwise the one signed in.\<close>

definition download_user :: "claims option \<Rightarrow> ident option \<Rightarrow> exn + ident" where
  "download_user d user =
    (case (case d of None \<Rightarrow> user | Some d \<Rightarrow> (case claim_of d ''userId'' of Some (Text u) \<Rightarrow> Some u | _ \<Rightarrow> None)) of
       None \<Rightarrow> Inl (AppError 401 ''AUTH_REQUIRED'')
     | Some u \<Rightarrow>
         if u = [] then Inl (AppError 401 ''AUTH_REQUIRED'')
         else if user \<noteq> None \<and> user \<noteq> Some u then Inl (AppError 403 ''SIGNED_URL_USER_MISMATCH'')
         else Inr u)"

definition benefit_file :: "(string \<Rightarrow> bool) \<Rightarrow> collection_campaign \<Rightarrow> db \<Rightarrow> exn + asset" where
  "benefit_file stored g s =
    (if \<not> present (cca_benefit_asset_id g) then Inl (AppError 404 ''BENEFIT_ASSET_NOT_FOUND'')
     else case get_asset (the (cca_benefit_asset_id g)) s of
       None \<Rightarrow> Inl (AppError 404 ''BENEFIT_ASSET_NOT_READY'')
     | Some a \<Rightarrow>
         if \<not> present (as_storage_path a) \<or> \<not> stored (the (as_storage_path a))
         then Inl (AppError 404 ''BENEFIT_ASSET_NOT_READY'') else Inr a)"

definition download_collection_benefit ::
  "signing \<Rightarrow> (string \<Rightarrow> bool) \<Rightarrow> ident \<Rightarrow> ident option \<Rightarrow> string option \<Rightarrow> db \<Rightarrow> exn + asset \<times> db" where
  "download_collection_benefit cfg stored i user token s =
    bindE (if present token then bindE (verify_download_token cfg (now s) (the token)) (\<lambda>d. Inr (Some d)) else Inr None) (\<lambda>d.
    if d \<noteq> None \<and> claim_of (the d) ''campaignId'' \<noteq> Some (Text i) then Inl (AppError 401 ''SIGNED_URL_INVALID'')
    else bindE (download_user d user) (\<lambda>u.
    case get_campaign i s of
      None \<Rightarrow> Inl (AppError 404 ''CAMPAIGN_NOT_FOUND'')
    | Some g \<Rightarrow>
        if d \<noteq> None \<and> claim_of (the d) ''assetId'' \<noteq> map_option Text (cca_benefit_asset_id g)
        then Inl (AppError 401 ''SIGNED_URL_INVALID'')
        else case find_benefit_claim u (cca_id g) s of
          None \<Rightarrow> Inl (AppError 403 ''BENEFIT_NOT_CLAIMED'')
        | Some r \<Rightarrow>
            bindE (benefit_file stored g s) (\<lambda>a.
            bindE (record_audit
                \<lparr>au_actor_user_id = Some u, au_action = ''collection_benefit.downloaded'',
                 au_entity_type = ''collection_campaign'', au_entity_id = cca_id g,
                 au_organization_id = None, au_artist_id = None,
                 au_details = [(''claimId'', JStr (cbc_id r)), (''assetId'', JStr (as_id a))]\<rparr> s)
              (\<lambda>s1. Inr (a, s1)))))"

section \<open>A pass admits its holder once\<close>

lemma get_application_simps [simp]:
  "get_application i (s\<lparr>now := t\<rparr>) = get_application i s"
  "get_application i (s\<lparr>audit_logs := al, drawn := n\<rparr>) = get_application i s"
  by (simp_all add: get_application_def)

lemma get_put_application:
  "get_application i s = Some a \<Longrightarrow> ea_id b = i \<Longrightarrow> get_application i (put_application b s) = Some b"
  by (auto simp: get_application_def put_application_def dest: find_SomeD intro!: find_set_where)

lemma put_application_frame [simp]:
  "find_managed_event n (put_application b s) = find_managed_event n s"
  "check_in_token_hash token (put_application b s) = check_in_token_hash token s"
  "audit_logs (put_application b s) = audit_logs s" "entropy (put_application b s) = entropy s"
  "drawn (put_application b s) = drawn s" "now (put_application b s) = now s"
  by (simp_all add: put_application_def find_managed_event_def check_in_token_hash_def)

text \<open>While the pass of an application is valid, only the first presentation changes anything.\<close>

definition valid_pass :: "signing \<Rightarrow> string \<Rightarrow> int \<Rightarrow> event_row \<Rightarrow> event_application \<Rightarrow> admin_context \<Rightarrow> db \<Rightarrow> bool" where
  "valid_pass cfg token expires e a c s \<longleftrightarrow>
    token = create_check_in_token cfg (e_id e) (ea_id a) expires \<and>
    ea_check_in_token_hash a = Some (check_in_token_hash token s) \<and> ea_status a \<in> {''submitted'', ''winner''} \<and>
    ea_event_id a = e_id e \<and> e_id e \<noteq> [] \<and> ea_id a \<noteq> [] \<and>
    find_managed_event (e_id e) s = Some e \<and> get_application (ea_id a) s = Some a \<and>
    require_action ''events:write'' c = Inr () \<and> event_in_scope c e \<and>
    (case e_ends_at e of None \<Rightarrow> True | Some x \<Rightarrow> seconds expires \<le> x + days 1)"

lemma before_expiry: "t < seconds e \<Longrightarrow> \<not> e \<le> t div seconds 1"
  by (simp add: seconds_def)

lemma valid_pass_checks_in:
  assumes "valid_pass cfg token expires e a c s" and "e_starts_at e \<le> now s" and "now s < seconds expires"
  shows "admin_check_in_event_application cfg (e_id e) token c s =
    (case ea_checked_in_at a of
       Some t \<Rightarrow> Inr ((True, t), s)
     | None \<Rightarrow>
         bindE (record_audit
             \<lparr>au_actor_user_id = Some (u_id (ctx_user c)), au_action = ''event.application_checked_in'',
              au_entity_type = ''event_application'', au_entity_id = ea_id a,
              au_organization_id = e_organization_id e, au_artist_id = e_artist_id e,
              au_details = [(''eventId'', JStr (e_id e))]\<rparr>
             (put_application (a\<lparr>ea_checked_in_at := Some (now s), ea_checked_in_by := Some (u_id (ctx_user c))\<rparr>) s))
           (\<lambda>s1. Inr ((False, now s), s1)))"
  using assms before_expiry [OF assms(3)]
  by (auto simp: valid_pass_def admin_check_in_event_application_def scoped_event_def check_in_token_claims claim_of_def
      claimed_application_def split: option.splits)

lemma fetched_pass:
  assumes "get_event_check_in_pass cfg i u s = Inr ((token, expires, b), s1)"
    and "get_application i s = Some a" and "unique_by ea_id (event_applications s)"
    and "find_managed_event (ea_event_id a) s = Some e" and "ea_event_id a \<noteq> []" and "i \<noteq> []"
    and "require_action ''events:write'' c = Inr ()" and "event_in_scope c e"
  shows "\<exists>a1. valid_pass cfg token expires e a1 c s1 \<and> ea_id a1 = i \<and> ea_user_id a1 = u \<and>
    ea_checked_in_at a1 = ea_checked_in_at a \<and> b = (ea_checked_in_at a \<noteq> None) \<and> s1 \<in> {s, put_application a1 s}"
proof -
  let ?P = "\<lambda>x. ea_id x = i \<and> ea_user_id x = u"
  have i: "ea_id a = i" and e: "e_id e = ea_event_id a"
    using assms(2,4) by (auto simp: get_application_def find_managed_event_def dest: find_SomeD)
  from assms(1) obtain x where x: "find ?P (event_applications s) = Some x"
    by (auto simp: get_event_check_in_pass_def option_eq_Inr)
  then have "x \<in> set (event_applications s)" "ea_id x = i" "ea_user_id x = u" by (auto dest: find_SomeD)
  moreover have "a \<in> set (event_applications s)" using assms(2) by (auto simp: get_application_def dest: find_SomeD)
  ultimately have "x = a" using assms(3) i by (auto simp: unique_by_def distinct_map inj_on_def)
  with x \<open>ea_user_id x = u\<close> have x: "find ?P (event_applications s) = Some a" and u: "ea_user_id a = u" by simp_all
  define expiry where "expiry = pass_expires_at e (now s)"
  define pass where "pass = create_check_in_token cfg (e_id e) (ea_id a) expiry"
  have within: "case e_ends_at e of None \<Rightarrow> True | Some x \<Rightarrow> seconds expiry \<le> x + days 1"
    by (auto simp: expiry_def pass_expires_at_def seconds_def days_def split: option.splits)
  from assms(1) have st: "ea_status a \<in> {''submitted'', ''winner''}"
    by (simp add: get_event_check_in_pass_def x assms(4) split: if_splits)
  show ?thesis
  proof (cases "ea_check_in_token_hash a")
    case None
    let ?a = "a\<lparr>ea_check_in_token_hash := Some (check_in_token_hash pass s), ea_check_in_token_issued_at := Some (now s)\<rparr>"
    from assms(1) st None have r: "token = pass" "expires = expiry" "b = (ea_checked_in_at a \<noteq> None)" "s1 = put_application ?a s"
      by (auto simp: get_event_check_in_pass_def x assms(4) Let_def expiry_def pass_def)
    have "get_application i s1 = Some ?a" using assms(2) i by (simp add: r(4) get_put_application)
    with assms(4-8) st within r i u e show ?thesis
      by (intro exI [of _ ?a]) (simp add: valid_pass_def pass_def)
  next
    case (Some h)
    from assms(1) st Some have r: "token = pass" "expires = expiry" "b = (ea_checked_in_at a \<noteq> None)" "s1 = s"
        "h = check_in_token_hash pass s"
      by (auto simp: get_event_check_in_pass_def x assms(4) Let_def expiry_def pass_def split: if_splits)
    with Some assms(2,4-8) st within i u e show ?thesis
      by (intro exI [of _ a]) (simp add: valid_pass_def pass_def)
  qed
qed

text \<open>C30. A pass that a fan fetched for an application admits its holder exactly once: until it
  expires, presenting it at the event, to an administrator in charge, records the check-in with its
  time and administrator; presenting it again changes nothing and reports the first check-in.\<close>

theorem check_in_pass_admits_once:
  assumes "get_event_check_in_pass cfg i u s = Inr ((token, expires, False), s1)"
    and "get_application i s = Some a" and "unique_by ea_id (event_applications s)" and "audit_fresh s"
    and "find_managed_event (ea_event_id a) s = Some e" and "ea_event_id a \<noteq> []" and "i \<noteq> []"
    and "require_action ''events:write'' c = Inr ()" and "event_in_scope c e"
    and "e_starts_at e \<le> t" and "t < seconds expires"
  shows "\<exists>s2 b. admin_check_in_event_application cfg (ea_event_id a) token c (s1\<lparr>now := t\<rparr>) = Inr ((False, t), s2) \<and>
    get_application i s2 = Some b \<and> ea_user_id b = u \<and> ea_checked_in_at b = Some t \<and>
    ea_checked_in_by b = Some (u_id (ctx_user c)) \<and>
    (\<forall>r. t \<le> r \<and> r < seconds expires \<longrightarrow>
      admin_check_in_event_application cfg (ea_event_id a) token c (s2\<lparr>now := r\<rparr>) = Inr ((True, t), s2\<lparr>now := r\<rparr>))"
proof -
  from fetched_pass [OF assms(1,2,3,5-9)] obtain a1 where
    p: "valid_pass cfg token expires e a1 c s1" "ea_id a1 = i" "ea_user_id a1 = u" "ea_checked_in_at a1 = None"
      "s1 \<in> {s, put_application a1 s}" by auto
  have n: "ea_event_id a = e_id e" using assms(5) by (auto simp: find_managed_event_def dest: find_SomeD)
  let ?b = "a1\<lparr>ea_checked_in_at := Some t, ea_checked_in_by := Some (u_id (ctx_user c))\<rparr>"
  let ?s = "put_application ?b (s1\<lparr>now := t\<rparr>)"
  have "valid_pass cfg token expires e a1 c (s1\<lparr>now := t\<rparr>)"
    using p(1) by (simp add: valid_pass_def find_managed_event_def check_in_token_hash_def)
  note first = valid_pass_checks_in [OF this]
  have "audit_fresh ?s" using assms(4) p(5) by (auto simp: audit_fresh_def)
  then obtain s2 al where
    "record_audit \<lparr>au_actor_user_id = Some (u_id (ctx_user c)), au_action = ''event.application_checked_in'',
       au_entity_type = ''event_application'', au_entity_id = ea_id a1,
       au_organization_id = e_organization_id e, au_artist_id = e_artist_id e,
       au_details = [(''eventId'', JStr (e_id e))]\<rparr> ?s = Inr s2"
    and s2: "s2 = ?s\<lparr>audit_logs := al, drawn := Suc (drawn ?s)\<rparr>"
    by (rule record_audit_fresh)
  then have s2: "admin_check_in_event_application cfg (e_id e) token c (s1\<lparr>now := t\<rparr>) = Inr ((False, t), s2)"
      "s2 = ?s\<lparr>audit_logs := al, drawn := Suc (drawn ?s)\<rparr>"
    using first assms(10,11) p(4) by simp_all
  have b: "get_application i s2 = Some ?b"
    using p(1,2) by (simp add: s2(2) valid_pass_def get_put_application)
  have "valid_pass cfg token expires e ?b c (s2\<lparr>now := r\<rparr>)" for r
    using p(1,2) b by (simp add: valid_pass_def s2(2) find_managed_event_def check_in_token_hash_def put_application_def
        get_application_def)
  note again = valid_pass_checks_in [OF this]
  have "admin_check_in_event_application cfg (e_id e) token c (s2\<lparr>now := r\<rparr>) = Inr ((True, t), s2\<lparr>now := r\<rparr>)"
    if "t \<le> r" "r < seconds expires" for r
    using again [of r] that assms(10) by simp
  with s2(1) b p(3) n show ?thesis by (intro exI [of _ s2] exI [of _ ?b]) simp
qed

definition sample_signing :: signing where
  "sample_signing = \<lparr>secret = ''k'', url_ttl = 300, mac = (\<lambda>k m. k @ m)\<rparr>"

definition an_application :: event_application where
  "an_application = \<lparr>ea_id = ''a1'', ea_event_id = first_event, ea_user_id = ''ann'', ea_status = ''submitted'',
     ea_check_in_token_hash = None, ea_check_in_token_issued_at = None, ea_checked_in_at = None,
     ea_checked_in_by = None, ea_created_at = 0\<rparr>"

definition check_in_db :: db where
  "check_in_db = event_db\<lparr>events := [draft\<lparr>e_ends_at := Some 10\<rparr>], event_applications := [an_application]\<rparr>"

text \<open>The pass was fetched at instant 0 and is presented at instant 5.\<close>

theorem check_in_pass_admits_once_witness:
  "\<exists>token expires s1 s2. get_event_check_in_pass sample_signing ''a1'' ''ann'' check_in_db = Inr ((token, expires, False), s1) \<and>
    admin_check_in_event_application sample_signing first_event token sample_root (s1\<lparr>now := 5\<rparr>) = Inr ((False, 5), s2)"
proof -
  let ?e = "draft\<lparr>e_ends_at := Some 10\<rparr>"
  have e: "find_managed_event first_event check_in_db = Some ?e"
    by (simp add: check_in_db_def find_managed_event_def draft_def set_event_body_def new_managed_event_def)
  have f: "find (\<lambda>x. ea_id x = ''a1'' \<and> ea_user_id x = ''ann'') (event_applications check_in_db) = Some an_application"
    "get_application ''a1'' check_in_db = Some an_application"
    by (simp_all add: check_in_db_def an_application_def get_application_def)
  have a: "ea_event_id an_application = first_event" "ea_status an_application = ''submitted''"
    "ea_check_in_token_hash an_application = None" "ea_checked_in_at an_application = None"
    by (simp_all add: an_application_def)
  have "inj (entropy check_in_db)"
    by (rule injI, drule arg_cong [of _ _ length]) (simp add: check_in_db_def event_db_def empty_db_def)
  then have fresh: "audit_fresh check_in_db" by (simp add: audit_fresh_def check_in_db_def event_db_def empty_db_def)
  have u: "unique_by ea_id (event_applications check_in_db)" by (simp add: check_in_db_def unique_by_def)
  have x: "(5 :: int) < seconds (pass_expires_at ?e (now check_in_db))"
    by (simp add: pass_expires_at_def seconds_def days_def)
  have c: "require_action ''events:write'' sample_root = Inr ()" "event_in_scope sample_root ?e"
    by (simp_all add: sample_root_def require_action_def ROOT_ACTIONS_def event_in_scope_def is_root_def a_member_def)
  have s: "e_starts_at ?e \<le> 5" by (simp add: draft_def set_event_body_def sample_body_def)
  obtain token s1 where p: "get_event_check_in_pass sample_signing ''a1'' ''ann'' check_in_db =
      Inr ((token, pass_expires_at ?e (now check_in_db), False), s1)"
    by (simp add: get_event_check_in_pass_def f a e Let_def)
  have "first_event \<noteq> []" by (simp add: first_event_def)
  with check_in_pass_admits_once [OF p f(2) u fresh, of ?e sample_root 5] e a c s x p show ?thesis by simp metis
qed

text \<open>
  The pass of an event without an end depends on the time it is fetched. Fetched again a
  second later it has another hash than the one that was stored, and the fan is told that the
  schedule changed.
\<close>

lemma open_pass_fetched_once:
  assumes "get_event_check_in_pass cfg i u s = Inr ((token, expires, b), s1)"
    and "find (\<lambda>a. ea_id a = i \<and> ea_user_id a = u) (event_applications s) = Some a"
    and "find_managed_event (ea_event_id a) s = Some e" and "e_ends_at e = None" and "ea_check_in_token_hash a = None"
    and "inj (\<lambda>token. sha256 s (JStr token))" and "1000000 \<le> t"
  shows "get_event_check_in_pass cfg i u (s1\<lparr>now := now s + t\<rparr>) = Inl (AppError 409 ''EVENT_CHECKIN_PASS_ROTATED'')"
proof -
  let ?token = "\<lambda>r. create_check_in_token cfg (e_id e) (ea_id a) (pass_expires_at e r)"
  let ?a = "a\<lparr>ea_check_in_token_hash := Some (check_in_token_hash (?token (now s)) s), ea_check_in_token_issued_at := Some (now s)\<rparr>"
  have i: "ea_id a = i" "ea_user_id a = u" using assms(2) by (auto dest: find_SomeD)
  from assms(1-5) have st: "ea_status a \<in> {''submitted'', ''winner''}" and s1: "s1 = put_application ?a s"
    by (auto simp: get_event_check_in_pass_def Let_def split: if_splits)
  have "pass_expires_at e (now s) \<noteq> pass_expires_at e (now s + t)"
    using assms(4,7) by (simp add: pass_expires_at_def seconds_def days_def)
  then have "?token (now s) \<noteq> ?token (now s + t)"
    using read_signed_signed unfolding create_check_in_token_def by (metis claim.inject(2) list.inject option.inject prod.inject)
  then have "check_in_token_hash (?token (now s)) s \<noteq> check_in_token_hash (?token (now s + t)) s"
    using assms(6) by (auto simp: check_in_token_hash_def dest: injD)
  moreover have "find (\<lambda>a. ea_id a = i \<and> ea_user_id a = u) (event_applications (s1\<lparr>now := now s + t\<rparr>)) = Some ?a"
    using assms(2) i by (simp add: s1 put_application_def find_set_where)
  moreover have "find_managed_event (ea_event_id a) (s1\<lparr>now := now s + t\<rparr>) = Some e"
    using assms(3) by (simp add: s1 find_managed_event_def put_application_def)
  ultimately show ?thesis
    using st by (simp add: get_event_check_in_pass_def Let_def s1 check_in_token_hash_def put_application_def)
qed

end
