(* ===== verification/RateLimits.thy ===== *)
theory RateLimits
  imports Prelude
begin

text \<open>
  Rate limits of endpoints that invite abuse (\<open>backend/app/rate_limit.py\<close>). The window in
  memory is modelled as it is. Redis is a service: what its script answers (the number of
  the request in its window, or nothing when it cannot be reached) is an argument.
\<close>

section \<open>The limiter\<close>

definition rate_limited :: exn where
  "rate_limited = AppError 429 ''RATE_LIMITED''"

type_synonym windows = "string \<Rightarrow> time list"

text \<open>The table keeps the pruned window even when the request is refused.\<close>

definition enforce_memory_limit :: "string \<Rightarrow> nat \<Rightarrow> int \<Rightarrow> time \<Rightarrow> windows \<Rightarrow> (exn + unit) \<times> windows" where
  "enforce_memory_limit key limit window t w =
    (let timestamps = filter (\<lambda>x. t - seconds window < x) (w key)
     in if limit \<le> length timestamps then (Inl rate_limited, w(key := timestamps))
        else (Inr (), w(key := timestamps @ [t])))"

definition enforce_redis_limit :: "nat option \<Rightarrow> nat \<Rightarrow> exn + unit" where
  "enforce_redis_limit answer limit =
    (case answer of
       None \<Rightarrow> Inl (AppError 503 ''RATE_LIMITER_UNAVAILABLE'')
     | Some n \<Rightarrow> if n \<le> limit then Inr () else Inl rate_limited)"

definition enforce_rate_limit ::
  "string \<Rightarrow> nat option \<Rightarrow> string \<Rightarrow> nat \<Rightarrow> int \<Rightarrow> time \<Rightarrow> windows \<Rightarrow> (exn + unit) \<times> windows" where
  "enforce_rate_limit backend answer key limit window t w =
    (if backend = ''redis'' then (enforce_redis_limit answer limit, w)
     else enforce_memory_limit key limit window t w)"

section \<open>No window holds more than the limit\<close>

text \<open>A request of some endpoint: its time, key, limit and window.\<close>

type_synonym request = "time \<times> string \<times> nat \<times> int"

text \<open>When the requests of one key were let through.\<close>

fun accepted :: "string \<Rightarrow> request list \<Rightarrow> windows \<Rightarrow> time list" where
  "accepted k [] w = []"
| "accepted k ((t, key, limit, window) # qs) w =
    (case enforce_memory_limit key limit window t w of
       (r, w') \<Rightarrow> (if key = k \<and> r = Inr () then [t] else []) @ accepted k qs w')"

definition in_window :: "time \<Rightarrow> int \<Rightarrow> time \<Rightarrow> bool" where
  "in_window x window a \<longleftrightarrow> x < a \<and> a \<le> x + seconds window"

text \<open>
  \<open>acc\<close> is what was accepted so far: the window of the key holds everything accepted after
  some instant \<open>c\<close>, and \<open>c\<close> has left every window that is still to come.
\<close>

definition tracks :: "string \<Rightarrow> nat \<Rightarrow> int \<Rightarrow> time \<Rightarrow> time list \<Rightarrow> windows \<Rightarrow> bool" where
  "tracks k limit window t acc w \<longleftrightarrow>
    (\<exists>c \<le> t - seconds window. w k = filter (\<lambda>x. c < x) acc) \<and>
    (\<forall>x. count_where (in_window x window) acc \<le> limit)"

lemma count_where_mono: "(\<And>x. x \<in> set xs \<Longrightarrow> P x \<Longrightarrow> Q x) \<Longrightarrow> count_where P xs \<le> count_where Q xs"
  by (induction xs) (auto simp: table_simps le_SucI)

lemma tracks_step:
  assumes "tracks k limit window t0 acc w" and "t0 \<le> t" and "0 < window"
    and "enforce_memory_limit k limit window t w = (r, w')"
  shows "tracks k limit window t (acc @ (if r = Inr () then [t] else [])) w'"
proof -
  from assms(1) obtain c where c: "c \<le> t0 - seconds window" "w k = filter (\<lambda>x. c < x) acc"
    and n: "\<And>x. count_where (in_window x window) acc \<le> limit" by (auto simp: tracks_def)
  let ?new = "\<lambda>x. t - seconds window < x"
  have f: "filter ?new (w k) = filter ?new acc"
    using c(1) assms(2) by (auto simp: c(2) intro!: filter_cong)
  show ?thesis
  proof (cases "limit \<le> length (filter ?new (w k))")
    case True
    with assms(4) f have "r \<noteq> Inr ()" "w' k = filter ?new acc"
      by (auto simp: enforce_memory_limit_def Let_def rate_limited_def)
    with n show ?thesis by (auto simp: tracks_def)
  next
    case False
    then have l: "count_where ?new acc < limit" by (simp add: f count_where_def)
    have "count_where (in_window x window) (acc @ [t]) \<le> limit" for x
    proof (cases "in_window x window t")
      case True
      then have "count_where (in_window x window) acc \<le> count_where ?new acc"
        by (intro count_where_mono) (auto simp: in_window_def)
      with l True show ?thesis by (simp add: table_simps)
    qed (use n in \<open>simp add: table_simps\<close>)
    moreover have "w' k = filter ?new acc @ [t]" "r = Inr ()"
      using assms(4) False f by (auto simp: enforce_memory_limit_def Let_def)
    moreover have "?new t" using assms(3) by (simp add: seconds_def)
    ultimately show ?thesis by (auto simp: tracks_def)
  qed
qed

lemma tracks_other:
  "tracks k limit window t0 acc w \<Longrightarrow> t0 \<le> t \<Longrightarrow> w' k = w k \<Longrightarrow> tracks k limit window t acc w'"
  by (auto simp: tracks_def) (metis diff_right_mono order_trans)

lemma accepted_tracks:
  assumes "tracks k limit window t0 acc w" and "sorted (t0 # map fst qs)" and "0 < window"
    and "\<forall>(t, key, l, n) \<in> set qs. key = k \<longrightarrow> l = limit \<and> n = window"
  shows "\<forall>x. count_where (in_window x window) (acc @ accepted k qs w) \<le> limit"
  using assms
proof (induction qs arbitrary: t0 acc w)
  case Nil
  then show ?case by (simp add: tracks_def)
next
  case (Cons q qs)
  obtain t key l n where q: "q = (t, key, l, n)" by (cases q)
  obtain r w' where e: "enforce_memory_limit key l n t w = (r, w')" by (cases "enforce_memory_limit key l n t w")
  let ?acc = "acc @ (if key = k \<and> r = Inr () then [t] else [])"
  have "tracks k limit window t ?acc w'"
  proof (cases "key = k")
    case True
    with tracks_step [OF Cons.prems(1), of t r w'] Cons.prems(2-4) e show ?thesis by (simp add: q)
  next
    case False
    then have "w' k = w k" using e by (auto simp: enforce_memory_limit_def Let_def split: if_splits)
    with False tracks_other [OF Cons.prems(1)] Cons.prems(2) show ?thesis by (simp add: q)
  qed
  from Cons.IH [OF this] Cons.prems(2-4) show ?case by (simp add: q e)
qed



text \<open>With Redis a request passes when its number in the window is within the limit.\<close>

lemma redis_limit:
  "fst (enforce_rate_limit ''redis'' answer k limit window t w) = Inr () \<longleftrightarrow> (\<exists>n. answer = Some n \<and> n \<le> limit)"
  by (auto simp: enforce_rate_limit_def enforce_redis_limit_def rate_limited_def split: option.splits)

end
