(* ===== verification/Accounts.thy ===== *)
theory Accounts
  imports Auth Signing RateLimits
begin

text \<open>
  Passwords and accounts (\<open>backend/app/passwords.py\<close>, \<open>backend/app/routers/auth.py\<close>,
  \<open>backend/app/routers/admin.py\<close>): sign-up, sign-in under the rate limit, password changes and
  resets, and the accounts administrators create. The key derivation scrypt is a parameter.
\<close>

section \<open>Password hashes\<close>

text \<open>
  \<open>hashlib.scrypt\<close> of a password, a salt, the costs \<open>n\<close>, \<open>r\<close>, \<open>p\<close> and a length; nothing where it
  raises.
\<close>

type_synonym kdf = "string \<Rightarrow> string \<Rightarrow> int \<Rightarrow> int \<Rightarrow> int \<Rightarrow> nat \<Rightarrow> string option"

definition hash_password :: "kdf \<Rightarrow> string \<Rightarrow> db \<Rightarrow> exn + string \<times> db" where
  "hash_password kdf password s =
    (let salt = entropy s (drawn s)
     in case kdf password salt 16384 8 1 32 of
          None \<Rightarrow> Inl ValueError
        | Some digest \<Rightarrow> Inr (''scrypt$16384$8$1$'' @ b64_padded salt @ CHR ''$'' # b64_padded digest, draw s))"

text \<open>\<open>text.split(d, n)\<close>: at most \<open>n\<close> cuts.\<close>

fun split_at_most :: "nat \<Rightarrow> char \<Rightarrow> string \<Rightarrow> string list" where
  "split_at_most 0 d t = [t]"
| "split_at_most (Suc n) d t =
    (if d \<in> set t then takeWhile (\<lambda>c. c \<noteq> d) t # split_at_most n d (tl (dropWhile (\<lambda>c. c \<noteq> d) t)) else [t])"

definition decode_padded :: "string \<Rightarrow> string option" where
  "decode_padded t = (if ascii t then a2b_base64 0 0 0 t else None)"

definition verify_password :: "kdf \<Rightarrow> string \<Rightarrow> string option \<Rightarrow> bool" where
  "verify_password kdf password encoded =
    (case split_at_most 5 (CHR ''$'') (case encoded of None \<Rightarrow> [] | Some t \<Rightarrow> t) of
       [algorithm, n, r, p, salt, digest] \<Rightarrow>
         if algorithm \<noteq> ''scrypt'' then False
         else
           (case (decode_padded salt, decode_padded digest, parse_int n, parse_int r, parse_int p) of
              (Some salt, Some expected, Some n, Some r, Some p) \<Rightarrow>
                kdf password salt n r p (length expected) = Some expected
            | _ \<Rightarrow> False)
     | _ \<Rightarrow> False)"

section \<open>Sign-in under the rate limit\<close>

text \<open>The limiter a request meets: the backend, what Redis answers, and the monotonic clock.\<close>

type_synonym gate = "string \<times> nat option \<times> time"

definition limited ::
  "gate \<Rightarrow> string \<Rightarrow> nat \<Rightarrow> int \<Rightarrow> (db \<Rightarrow> (exn + 'a) \<times> db) \<Rightarrow> windows \<times> db \<Rightarrow> (exn + 'a) \<times> windows \<times> db" where
  "limited g key limit window f ws =
    (case enforce_rate_limit (fst g) (fst (snd g)) key limit window (snd (snd g)) (fst ws) of
       (Inl e, w) \<Rightarrow> (Inl e, w, snd ws)
     | (Inr _, w) \<Rightarrow> (case f (snd ws) of (r, s) \<Rightarrow> (r, w, s)))"

text \<open>The client header must be absent or name the client of the endpoint.\<close>

definition client_required :: "string option \<Rightarrow> string \<Rightarrow> exn \<Rightarrow> ('w \<Rightarrow> (exn + 'a) \<times> 'w) \<Rightarrow> 'w \<Rightarrow> (exn + 'a) \<times> 'w" where
  "client_required client expected e f w = (if client \<notin> {None, Some expected} then (Inl e, w) else f w)"

definition invalid_credentials :: exn where
  "invalid_credentials = AppError 401 ''INVALID_CREDENTIALS''"

definition account_with_email :: "string \<Rightarrow> role \<Rightarrow> db \<Rightarrow> user option" where
  "account_with_email email role s = find (\<lambda>u. u_email u = Some email \<and> u_role u = role) (users s)"

definition account_with_username :: "string \<Rightarrow> role \<Rightarrow> db \<Rightarrow> user option" where
  "account_with_username name role s = find (\<lambda>u. u_username u = Some name \<and> u_role u = role) (users s)"

definition sign_up :: "auth_config \<Rightarrow> kdf \<Rightarrow> string \<Rightarrow> string \<Rightarrow> db \<Rightarrow> exn + (user \<times> string \<times> string) \<times> db" where
  "sign_up cfg kdf email password s =
    (if account_with_email email FAN s \<noteq> None then Inl (AppError 409 ''EMAIL_ALREADY_REGISTERED'')
     else
       let i = new_id ''user_'' s
       in bindE (hash_password kdf password (draw s)) (\<lambda>(h, s1).
          let u = (new_fan i (Some email) None)\<lparr>u_password_hash := Some h\<rparr>
          in bindE (add_user u s1) (\<lambda>s2.
             bindE (issue_token_pair cfg u ''fan'' s2) (\<lambda>((access, raw, _), s3).
             Inr ((u, access, raw), s3)))))"

definition fan_password_signup ::
  "gate \<Rightarrow> auth_config \<Rightarrow> kdf \<Rightarrow> string option \<Rightarrow> string \<Rightarrow> string \<Rightarrow> string \<Rightarrow> windows \<times> db
    \<Rightarrow> (exn + user \<times> string \<times> string) \<times> windows \<times> db" where
  "fan_password_signup g cfg kdf client host email password =
    client_required client ''fan'' (AppError 403 ''FAN_CLIENT_REQUIRED'')
      (limited g (''fan-signup:'' @ py_lower email @ '':'' @ host) 5 (15 * 60)
        (run_tx (sign_up cfg kdf (py_lower email) password)))"

text \<open>What the three password sign-ins share: the account, its password, and a pair of tokens.\<close>

definition sign_in ::
  "auth_config \<Rightarrow> kdf \<Rightarrow> string \<Rightarrow> user option \<Rightarrow> string \<Rightarrow> db \<Rightarrow> exn + (user \<times> string \<times> string) \<times> db" where
  "sign_in cfg kdf client account password s =
    (case account of
       None \<Rightarrow> Inl invalid_credentials
     | Some u \<Rightarrow>
         if \<not> verify_password kdf password (u_password_hash u) then Inl invalid_credentials
         else
           bindE (if client = ''admin'' then bindE (load_admin_context u s) (\<lambda>_. Inr ()) else Inr ()) (\<lambda>_.
           bindE (issue_token_pair cfg u client s) (\<lambda>((access, raw, _), s1). Inr ((u, access, raw), s1))))"

definition fan_password_login ::
  "gate \<Rightarrow> auth_config \<Rightarrow> kdf \<Rightarrow> string option \<Rightarrow> string \<Rightarrow> string \<Rightarrow> string \<Rightarrow> windows \<times> db
    \<Rightarrow> (exn + user \<times> string \<times> string) \<times> windows \<times> db" where
  "fan_password_login g cfg kdf client host email password =
    client_required client ''fan'' (AppError 403 ''FAN_CLIENT_REQUIRED'')
      (limited g (''fan-password:'' @ py_lower email @ '':'' @ host) 5 (15 * 60)
        (run_tx (\<lambda>s. sign_in cfg kdf ''fan'' (account_with_email (py_lower email) FAN s) password s)))"

definition artist_password_login ::
  "gate \<Rightarrow> auth_config \<Rightarrow> kdf \<Rightarrow> string option \<Rightarrow> string \<Rightarrow> string \<Rightarrow> string \<Rightarrow> windows \<times> db
    \<Rightarrow> (exn + user \<times> string \<times> string) \<times> windows \<times> db" where
  "artist_password_login g cfg kdf client host username password =
    client_required client ''artist'' (AppError 403 ''ARTIST_CLIENT_REQUIRED'')
      (limited g (''artist-password:'' @ py_lower username @ '':'' @ host) 5 (15 * 60)
        (run_tx (\<lambda>s. sign_in cfg kdf ''artist'' (account_with_username (py_lower username) ARTIST s) password s)))"

definition admin_password_login ::
  "gate \<Rightarrow> auth_config \<Rightarrow> kdf \<Rightarrow> string option \<Rightarrow> string \<Rightarrow> string \<Rightarrow> string \<Rightarrow> windows \<times> db
    \<Rightarrow> (exn + user \<times> string \<times> string) \<times> windows \<times> db" where
  "admin_password_login g cfg kdf client host email password =
    client_required client ''admin'' (AppError 403 ''ADMIN_CLIENT_REQUIRED'')
      (limited g (''admin-password:'' @ py_lower email @ '':'' @ host) 5 (15 * 60)
        (run_tx (\<lambda>s. sign_in cfg kdf ''admin'' (account_with_email (py_lower email) ADMIN s) password s)))"

section \<open>Links by mail\<close>

text \<open>The link is committed before it is sent; \<open>mailed\<close> says whether the mail went out.\<close>

definition mail_link :: "bool \<Rightarrow> exn \<Rightarrow> string \<Rightarrow> string \<Rightarrow> db \<Rightarrow> (exn + unit) \<times> db" where
  "mail_link mailed e email purpose s =
    (case run_tx (request_magic_link email purpose) s of
       (Inl x, s1) \<Rightarrow> (Inl x, s1)
     | (Inr token, s1) \<Rightarrow> (if mailed then Inr () else Inl e, s1))"

definition request_magic_link_endpoint ::
  "gate \<Rightarrow> bool \<Rightarrow> string \<Rightarrow> string \<Rightarrow> string \<Rightarrow> windows \<times> db \<Rightarrow> (exn + unit) \<times> windows \<times> db" where
  "request_magic_link_endpoint g mailed host email purpose =
    limited g (''magic-link:'' @ py_lower email @ '':'' @ host) 5 (15 * 60)
      (mail_link mailed (AppError 503 ''MAGIC_LINK_DELIVERY_FAILED'') (py_lower email) purpose)"

definition request_fan_password_reset ::
  "gate \<Rightarrow> bool \<Rightarrow> string \<Rightarrow> string \<Rightarrow> windows \<times> db \<Rightarrow> (exn + unit) \<times> windows \<times> db" where
  "request_fan_password_reset g mailed host email =
    limited g (''fan-password-reset:'' @ py_lower email @ '':'' @ host) 5 (15 * 60)
      (\<lambda>s. case account_with_email (py_lower email) FAN s of
         None \<Rightarrow> (Inr (), s)
       | Some u \<Rightarrow>
           if present (u_password_hash u)
           then mail_link mailed (AppError 503 ''PASSWORD_RESET_DELIVERY_FAILED'') (py_lower email) ''reset_password'' s
           else (Inr (), s))"

definition set_password :: "ident \<Rightarrow> string \<Rightarrow> db \<Rightarrow> db" where
  "set_password i h s = s\<lparr>users := update_where (\<lambda>u. u_id u = i) (\<lambda>u. u\<lparr>u_password_hash := Some h\<rparr>) (users s)\<rparr>"

definition confirm_fan_password_reset :: "kdf \<Rightarrow> string \<Rightarrow> string \<Rightarrow> db \<Rightarrow> exn + unit \<times> db" where
  "confirm_fan_password_reset kdf token new_password s =
    (let invalid = AppError 401 ''PASSWORD_RESET_INVALID''
     in case find (\<lambda>l. ml_token_hash l = token_hash token s) (magic_links s) of
       None \<Rightarrow> Inl invalid
     | Some link \<Rightarrow>
         if ml_purpose link \<noteq> ''reset_password'' \<or> ml_consumed_at link \<noteq> None \<or> ml_expires_at link \<le> now s then Inl invalid
         else
           case account_with_email (ml_email link) FAN s of
             None \<Rightarrow> Inl invalid
           | Some u \<Rightarrow>
               bindE (hash_password kdf new_password s) (\<lambda>(h, s1).
               Inr ((), (set_password (u_id u) h s1)\<lparr>magic_links := update_where (\<lambda>l. ml_token_hash l = ml_token_hash link)
                 (\<lambda>l. l\<lparr>ml_consumed_at := Some (now s)\<rparr>) (magic_links s1)\<rparr>)))"

section \<open>Changing passwords\<close>

definition change_password :: "kdf \<Rightarrow> (user \<Rightarrow> user) \<Rightarrow> user \<Rightarrow> string \<Rightarrow> string \<Rightarrow> db \<Rightarrow> exn + unit \<times> db" where
  "change_password kdf f u current new_password s =
    (if \<not> verify_password kdf current (u_password_hash u) then Inl invalid_credentials
     else if current = new_password then Inl (AppError 422 ''PASSWORD_UNCHANGED'')
     else bindE (hash_password kdf new_password s) (\<lambda>(h, s1).
       Inr ((), s1\<lparr>users := update_where (\<lambda>x. u_id x = u_id u) (\<lambda>x. f (x\<lparr>u_password_hash := Some h\<rparr>)) (users s1)\<rparr>)))"

definition change_fan_password :: "kdf \<Rightarrow> user \<Rightarrow> string \<Rightarrow> string \<Rightarrow> db \<Rightarrow> exn + unit \<times> db" where
  "change_fan_password kdf u current new_password s =
    (if \<not> present (u_password_hash u) then Inl (AppError 409 ''PASSWORD_NOT_CONFIGURED'')
     else change_password kdf id u current new_password s)"

definition change_admin_password :: "kdf \<Rightarrow> admin_context \<Rightarrow> string \<Rightarrow> string \<Rightarrow> db \<Rightarrow> exn + unit \<times> db" where
  "change_admin_password kdf c = change_password kdf (\<lambda>x. x\<lparr>u_must_change_password := False\<rparr>) (ctx_user c)"

definition change_artist_password :: "kdf \<Rightarrow> user \<Rightarrow> string \<Rightarrow> string \<Rightarrow> db \<Rightarrow> exn + unit \<times> db" where
  "change_artist_password kdf = change_password kdf (\<lambda>x. x\<lparr>u_must_change_password := False\<rparr>)"

section \<open>Accounts that administrators manage\<close>

definition account_audit :: "admin_context \<Rightarrow> string \<Rightarrow> string \<Rightarrow> ident \<Rightarrow> jobj \<Rightarrow> audit_args" where
  "account_audit c action entity i details =
    \<lparr>au_actor_user_id = Some (u_id (ctx_user c)), au_action = action, au_entity_type = entity, au_entity_id = i,
     au_organization_id = None, au_artist_id = None, au_details = details\<rparr>"

definition update_user_role :: "ident \<Rightarrow> role \<Rightarrow> admin_context \<Rightarrow> db \<Rightarrow> exn + user \<times> db" where
  "update_user_role i new_role c s =
    bindE (require_root c) (\<lambda>_.
    if i = u_id (ctx_user c) then Inl (AppError 409 ''CANNOT_CHANGE_OWN_ROLE'')
    else case get_user i s of
      None \<Rightarrow> Inl (AppError 404 ''USER_NOT_FOUND'')
    | Some u \<Rightarrow>
        if u_role u = ADMIN \<and> new_role \<noteq> ADMIN \<and> count_where (\<lambda>x. u_role x = ADMIN) (users s) = 1
        then Inl (AppError 409 ''LAST_ADMIN_REQUIRED'')
        else
          bindE (set_user i (\<lambda>x. x\<lparr>u_role := new_role\<rparr>) s) (\<lambda>s1.
          bindE (record_audit (account_audit c ''user.role_changed'' ''user'' i
            [(''previousRole'', JStr (role_value (u_role u))), (''newRole'', JStr (role_value new_role))]) s1) (\<lambda>s2.
          Inr (u\<lparr>u_role := new_role\<rparr>, s2))))"

text \<open>The account with its temporary password, which is shown once and stored as its hash.\<close>

definition create_artist_account :: "kdf \<Rightarrow> string \<Rightarrow> string \<Rightarrow> admin_context \<Rightarrow> db \<Rightarrow> exn + (user \<times> string) \<times> db" where
  "create_artist_account kdf username display_name c s =
    bindE (require_root c) (\<lambda>_.
    let name = py_lower username; temporary = new_id [] s; s1 = draw s; i = new_id ''artist_'' s1
    in if list_ex (\<lambda>u. u_username u = Some name) (users s) then Inl (AppError 409 ''USERNAME_TAKEN'')
       else
         bindE (hash_password kdf temporary (draw s1)) (\<lambda>(h, s2).
         let u = (new_fan i None (Some display_name))\<lparr>u_username := Some name, u_role := ARTIST,
               u_password_hash := Some h, u_must_change_password := True\<rparr>
         in bindE (add_user u s2) (\<lambda>s3.
            bindE (record_audit (account_audit c ''artist_account.created'' ''user'' i [(''username'', JStr name)]) s3) (\<lambda>s4.
            Inr ((u, temporary), s4)))))"

definition revoke_client_tokens :: "ident \<Rightarrow> string \<Rightarrow> db \<Rightarrow> db" where
  "revoke_client_tokens i client s = s\<lparr>refresh_tokens :=
    update_where (\<lambda>r. rt_user_id r = i \<and> rt_client r = client \<and> rt_revoked_at r = None)
      (\<lambda>r. r\<lparr>rt_revoked_at := Some (now s)\<rparr>) (refresh_tokens s)\<rparr>"

text \<open>A new temporary password for an account, which ends its sessions with one client.\<close>

definition new_temporary_password :: "kdf \<Rightarrow> string \<Rightarrow> ident \<Rightarrow> db \<Rightarrow> exn + string \<times> db" where
  "new_temporary_password kdf client i s =
    (let temporary = new_id [] s
     in bindE (hash_password kdf temporary (draw s)) (\<lambda>(h, s1).
        Inr (temporary, revoke_client_tokens i client (s1\<lparr>users := update_where (\<lambda>u. u_id u = i)
          (\<lambda>u. u\<lparr>u_password_hash := Some h, u_must_change_password := True\<rparr>) (users s1)\<rparr>))))"

definition reset_artist_account_password :: "kdf \<Rightarrow> ident \<Rightarrow> admin_context \<Rightarrow> db \<Rightarrow> exn + string \<times> db" where
  "reset_artist_account_password kdf i c s =
    bindE (require_root c) (\<lambda>_.
    case get_user i s of
      None \<Rightarrow> Inl (AppError 404 ''ARTIST_ACCOUNT_NOT_FOUND'')
    | Some u \<Rightarrow>
        if u_role u \<noteq> ARTIST then Inl (AppError 404 ''ARTIST_ACCOUNT_NOT_FOUND'')
        else
          bindE (new_temporary_password kdf ''artist'' i s) (\<lambda>(temporary, s1).
          bindE (record_audit (account_audit c ''artist_account.password_reset'' ''user'' i
            [(''username'', jopt (u_username u))]) s1) (\<lambda>s2. Inr (temporary, s2))))"

text \<open>A new administrator with a temporary password: the account and its membership.\<close>

definition new_admin ::
  "kdf \<Rightarrow> string \<Rightarrow> string \<Rightarrow> ident option \<Rightarrow> string \<Rightarrow> db \<Rightarrow> exn + (user \<times> string) \<times> db" where
  "new_admin kdf mail display_name organization level s =
    (let temporary = new_id [] s; s1 = draw s; i = new_id ''admin_'' s1
     in bindE (hash_password kdf temporary (draw s1)) (\<lambda>(h, s2).
        let u = (new_fan i (Some mail) (Some display_name))\<lparr>u_role := ADMIN,
              u_password_hash := Some h, u_must_change_password := True\<rparr>
        in bindE (add_user u s2) (\<lambda>s3.
           bindE (insert_row (\<lambda>r x. am_user_id x = am_user_id r)
             \<lparr>am_user_id = i, am_organization_id = organization, am_access_level = level,
              am_status = ''active'', am_last_login_at = None\<rparr> (admin_memberships s3)) (\<lambda>rows.
           Inr ((u, temporary), s3\<lparr>admin_memberships := rows\<rparr>)))))"

definition create_admin_account :: "kdf \<Rightarrow> string \<Rightarrow> string \<Rightarrow> admin_context \<Rightarrow> db \<Rightarrow> exn + (user \<times> string) \<times> db" where
  "create_admin_account kdf email display_name c s =
    bindE (require_root c) (\<lambda>_.
    if account_with_email (py_lower email) ADMIN s \<noteq> None then Inl (AppError 409 ''EMAIL_TAKEN'')
    else
      bindE (new_admin kdf (py_lower email) display_name None ''root'' s) (\<lambda>((u, temporary), s1).
      bindE (record_audit (account_audit c ''admin_account.created'' ''user'' (u_id u)
        [(''email'', JStr (py_lower email))]) s1) (\<lambda>s2. Inr ((u, temporary), s2))))"

definition review_artist_profile :: "ident \<Rightarrow> ident \<Rightarrow> string \<Rightarrow> admin_context \<Rightarrow> db \<Rightarrow> exn + artist_profile \<times> db" where
  "review_artist_profile i artist_id status c s =
    bindE (require_root c) (\<lambda>_.
    case get_user i s of
      None \<Rightarrow> Inl (AppError 404 ''USER_NOT_FOUND'')
    | Some u \<Rightarrow>
        if u_role u \<noteq> ARTIST then Inl (AppError 409 ''USER_NOT_ARTIST'')
        else if \<not> list_ex (\<lambda>a. ar_id a = artist_id) (artists s) then Inl (AppError 404 ''ARTIST_NOT_FOUND'')
        else
          let old = find (\<lambda>p. arp_user_id p = i) (artist_profiles s);
              previous = (case old of None \<Rightarrow> ''pending'' | Some p \<Rightarrow> arp_verification_status p);
              row = \<lparr>arp_user_id = i, arp_artist_id = artist_id, arp_verification_status = status\<rparr>
          in bindE (record_audit (account_audit c ''artist_profile.reviewed'' ''artist_profile'' i
               [(''previousStatus'', JStr previous), (''newStatus'', JStr status), (''artistId'', JStr artist_id)])
               (s\<lparr>artist_profiles := upsert (\<lambda>p. arp_user_id p = i) row (\<lambda>_. row) (artist_profiles s)\<rparr>)) (\<lambda>s1.
             Inr (row, s1)))"

section \<open>A password opens what it closed\<close>

lemma split_hit: "d \<notin> set a \<Longrightarrow> split_at_most (Suc n) d (a @ d # b) = a # split_at_most n d b"
  by (induction a) auto

lemma split_miss: "d \<notin> set a \<Longrightarrow> split_at_most n d a = [a]"
  by (cases n) simp_all

lemma padded_plain: "CHR ''$'' \<notin> set (b64_padded bs)" "ascii (b64_padded bs)"
proof -
  have d: "b64_digit n \<noteq> CHR ''$''" if "n < 64" for n
  proof -
    have "of_char (b64_digit n) \<noteq> (of_char (CHR ''$'') :: nat)" using that by (auto simp: code_of_digit)
    then show ?thesis by auto
  qed
  have "CHR ''$'' \<notin> set (b64_digits bs)"
    by (induction bs rule: b64_digits.induct) (simp_all add: Let_def d d [symmetric])
  then show "CHR ''$'' \<notin> set (b64_padded bs)" by (auto simp: padded_digits)
  show "ascii (b64_padded bs)" using digits_plain [of bs] by (auto simp: padded_digits ascii_def list_all_iff)
qed

lemma decode_padded_padded [simp]: "decode_padded (b64_padded bs) = Some bs"
  by (simp add: decode_padded_def padded_plain a2b_padded)

text \<open>A password passes exactly when it derives the same key from the salt that was drawn.\<close>

lemma verify_hash:
  assumes "hash_password kdf password s = Inr (h, s1)"
    and "\<And>d. kdf password (entropy s (drawn s)) 16384 8 1 32 = Some d \<Longrightarrow> length d = 32"
  shows "verify_password kdf p (Some h) \<longleftrightarrow>
    kdf p (entropy s (drawn s)) 16384 8 1 32 = kdf password (entropy s (drawn s)) 16384 8 1 32"
proof -
  let ?salt = "entropy s (drawn s)"
  from assms(1) obtain d where d: "kdf password ?salt 16384 8 1 32 = Some d"
    and h: "h = ''scrypt$16384$8$1$'' @ b64_padded ?salt @ CHR ''$'' # b64_padded d"
    by (auto simp: hash_password_def Let_def split: option.splits)
  have parts: "h = ''scrypt'' @ CHR ''$'' # (''16384'' @ CHR ''$'' # (''8'' @ CHR ''$'' # (''1'' @ CHR ''$'' #
      (b64_padded ?salt @ CHR ''$'' # b64_padded d))))" by (simp add: h)
  have "split_at_most (Suc (Suc (Suc (Suc (Suc 0))))) (CHR ''$'') h =
      [''scrypt'', ''16384'', ''8'', ''1'', b64_padded ?salt, b64_padded d]"
    unfolding parts by ((subst split_hit, simp add: padded_plain)+) simp
  then have "split_at_most 5 (CHR ''$'') h = [''scrypt'', ''16384'', ''8'', ''1'', b64_padded ?salt, b64_padded d]"
    using arg_cong [of 5 "Suc (Suc (Suc (Suc (Suc 0))))" "\<lambda>n. split_at_most n (CHR ''$'') h"] by simp
  moreover have "parse_int ''16384'' = Some 16384" "parse_int ''8'' = Some 8" "parse_int ''1'' = Some 1" by code_simp+
  moreover have "length d = 32" using assms(2) d by blast
  ultimately show ?thesis by (simp add: verify_password_def d)
qed

lemma limited_open:
  "enforce_rate_limit (fst g) (fst (snd g)) key limit window (snd (snd g)) w = (Inr (), w') \<Longrightarrow>
    limited g key limit window f (w, s) = (fst (f s), w', snd (f s))"
  by (simp add: limited_def split: prod.splits)

lemma hash_password_frame:
  "hash_password kdf password s = Inr (h, s1) \<Longrightarrow> s1 = draw s"
  by (auto simp: hash_password_def Let_def split: option.splits)

lemma issue_pair_users:
  "issue_token_pair cfg u client s = Inr (r, s1) \<Longrightarrow> users s1 = users s"
  by (auto simp: issue_token_pair_def issue_access_token_def issue_refresh_token_def inr_simps Let_def draw_def
      split: prod.splits if_splits)

text \<open>What a sign-up leaves behind: the new row, with the hash of the password under the salt it drew.\<close>

lemma sign_up_row:
  assumes "sign_up cfg kdf email password s = Inr ((u, access, raw), s1)"
  obtains h where "hash_password kdf password (draw s) = Inr (h, draw (draw s))" "u_password_hash u = Some h"
    "account_with_email email FAN s1 = Some u"
proof -
  let ?u = "\<lambda>h. (new_fan (new_id ''user_'' s) (Some email) None)\<lparr>u_password_hash := Some h\<rparr>"
  from assms obtain h s0 s2 r where none: "account_with_email email FAN s = None"
    and h: "hash_password kdf password (draw s) = Inr (h, s0)" and a: "add_user (?u h) s0 = Inr s2"
    and i: "issue_token_pair cfg (?u h) ''fan'' s2 = Inr ((access, raw, r), s1)" and u: "u = ?u h"
    unfolding sign_up_def Let_def
    by (auto simp: inr_simps split: if_splits prod.splits)
  from h have s0: "s0 = draw (draw s)" by (rule hash_password_frame)
  from a s0 have "users s2 = users s @ [?u h]" by (auto simp: add_user_def inr_simps)
  with none i have "account_with_email email FAN s1 = Some (?u h)"
    by (auto simp: account_with_email_def find_append issue_pair_users new_fan_def)
  with h s0 u that show thesis by simp
qed

text \<open>C27. Passwords: after a fan signed up with an address and a password, a sign-in with that address
  that the rate limit lets through issues tokens for that account exactly when the password
  derives the same key from the salt that was drawn; any other password is refused and changes
  nothing.\<close>

theorem signup_login_roundtrip:
  assumes "fan_password_signup g cfg kdf client host email password (w, s) = (Inr (u, access, raw), w1, s1)"
    and "\<And>d. kdf password (entropy s (Suc (drawn s))) 16384 8 1 32 = Some d \<Longrightarrow> length d = 32"
    and "client' \<in> {None, Some ''fan''}"
    and "enforce_rate_limit (fst g') (fst (snd g')) (''fan-password:'' @ py_lower email @ '':'' @ host') 5 (15 * 60)
      (snd (snd g')) w1 = (Inr (), w2)"
  shows "fan_password_login g' cfg kdf client' host' email p (w1, s1) =
    (if kdf p (entropy s (Suc (drawn s))) 16384 8 1 32 = kdf password (entropy s (Suc (drawn s))) 16384 8 1 32
     then let r = run_tx (\<lambda>s. bindE (issue_token_pair cfg u ''fan'' s) (\<lambda>((access, raw, _), s'). Inr ((u, access, raw), s'))) s1
       in (fst r, w2, snd r)
     else (Inl (AppError 401 ''INVALID_CREDENTIALS''), w2, s1))"
proof -
  from assms(1) have "run_tx (sign_up cfg kdf (py_lower email) password) s = (Inr (u, access, raw), s1)"
    by (auto simp: fan_password_signup_def client_required_def limited_def split: if_splits sum.splits prod.splits)
  then have "sign_up cfg kdf (py_lower email) password s = Inr ((u, access, raw), s1)"
    by (auto simp: run_tx_def split: sum.splits prod.splits)
  then obtain h where h: "hash_password kdf password (draw s) = Inr (h, draw (draw s))" "u_password_hash u = Some h"
    and u: "account_with_email (py_lower email) FAN s1 = Some u" by (rule sign_up_row)
  have e: "entropy (draw s) (drawn (draw s)) = entropy s (Suc (drawn s))" by (simp add: draw_def)
  have "verify_password kdf p (Some h) \<longleftrightarrow>
      kdf p (entropy s (Suc (drawn s))) 16384 8 1 32 = kdf password (entropy s (Suc (drawn s))) 16384 8 1 32"
    using verify_hash [OF h(1), of p] assms(2) unfolding e by blast
  moreover have "fan_password_login g' cfg kdf client' host' email p (w1, s1) =
      (let r = run_tx (\<lambda>s. sign_in cfg kdf ''fan'' (account_with_email (py_lower email) FAN s) p s) s1
       in (fst r, w2, snd r))"
    using assms(3) unfolding fan_password_login_def client_required_def limited_open [OF assms(4)] Let_def by auto
  ultimately show ?thesis
    using h(2) u by (simp add: sign_in_def run_tx_def invalid_credentials_def Let_def)
qed

text \<open>A fan signs up and in; the key of a password is the password, padded.\<close>

definition sample_kdf :: kdf where
  "sample_kdf password salt n r p len = Some (take 32 (password @ replicate 32 (CHR '' '')))"

theorem signup_login_roundtrip_witness:
  "\<exists>u access raw w1 s1 w2 s2. fan_password_signup (''memory'', None, 0) sample_auth sample_kdf None ''host'' ''a@b.c'' ''secret12''
      ((\<lambda>_. []), empty_db) = (Inr (u, access, raw), w1, s1) \<and>
    fan_password_login (''memory'', None, 5) sample_auth sample_kdf None ''host'' ''a@b.c'' ''other123'' (w1, s1) =
      (Inl (AppError 401 ''INVALID_CREDENTIALS''), w2, s2)"
proof -
  let ?up = "fan_password_signup (''memory'', None, 0) sample_auth sample_kdf None ''host'' ''a@b.c'' ''secret12''
    ((\<lambda>_. []), empty_db)"
  have l: "py_lower ''a@b.c'' = ''a@b.c''" by code_simp
  have "\<exists>u access raw s1. ?up = (Inr (u, access, raw), (\<lambda>_. [])(''fan-signup:a@b.c:host'' := [0]), s1)"
    by (simp add: fan_password_signup_def client_required_def limited_def enforce_rate_limit_def
        enforce_memory_limit_def l run_tx_def sign_up_def hash_password_def sample_kdf_def account_with_email_def
        add_user_def insert_row_def issue_token_pair_def issue_access_token_def issue_refresh_token_def
        validate_client_def SUPPORTED_CLIENTS_def draw_def empty_db_def Let_def seconds_def)
  then obtain u access raw w1 s1 where up: "?up = (Inr (u, access, raw), w1, s1)"
    and w: "w1 = (\<lambda>_. [])(''fan-signup:a@b.c:host'' := [0])" by blast
  let ?g = "(''memory'', None, 5) :: gate"
  obtain w2 where lim: "enforce_rate_limit (fst ?g) (fst (snd ?g))
      (''fan-password:'' @ py_lower ''a@b.c'' @ '':'' @ ''host'') 5 (15 * 60) (snd (snd ?g)) w1 = (Inr (), w2)"
    by (simp add: w l enforce_rate_limit_def enforce_memory_limit_def)
  have k: "length d = 32" if "sample_kdf ''secret12'' t 16384 8 1 32 = Some d" for d t
    using that by (auto simp: sample_kdf_def)
  have n: "sample_kdf ''other123'' t 16384 8 1 32 \<noteq> sample_kdf ''secret12'' t 16384 8 1 32" for t
    by (simp add: sample_kdf_def)
  show ?thesis
    using up signup_login_roundtrip [where client' = None and p = "''other123''", OF up k _ lim] n by auto
qed

section \<open>Sessions and links around passwords\<close>

text \<open>
  A new temporary password ends the sessions of the account with that client, and opens the
  account; a changed or reset password leaves every session alive.
\<close>

lemma revoked_by_client:
  assumes "r \<in> set (refresh_tokens (revoke_client_tokens i client s))" and "rt_user_id r = i" and "rt_client r = client"
  shows "rt_revoked_at r \<noteq> None"
proof -
  from assms(1) have "(\<exists>x. r = x\<lparr>rt_revoked_at := Some (now s)\<rparr>) \<or>
      (rt_client r = client \<longrightarrow> rt_user_id r = i \<longrightarrow> (\<exists>y. rt_revoked_at r = Some y))"
    by (simp add: revoke_client_tokens_def set_update_where image_iff) blast
  with assms(2,3) show ?thesis by (elim disjE exE) simp_all
qed

lemma temporary_password_ends_sessions:
  assumes "new_temporary_password kdf client i s = Inr (temporary, s1)" and "r \<in> set (refresh_tokens s1)"
    and "rt_user_id r = i" and "rt_client r = client"
  shows "rt_revoked_at r \<noteq> None"
proof -
  from assms(1) have "\<exists>s2. s1 = revoke_client_tokens i client s2"
    by (auto simp: new_temporary_password_def Let_def bindE_eq_Inr)
  with assms(2-4) show ?thesis by (metis revoked_by_client)
qed

lemma password_changes_keep_sessions:
  "change_password kdf f u current new_password s = Inr (x, s1) \<Longrightarrow> refresh_tokens s1 = refresh_tokens s"
  "confirm_fan_password_reset kdf token new_password s = Inr (x, s1) \<Longrightarrow> refresh_tokens s1 = refresh_tokens s"
  by (auto simp: change_password_def confirm_fan_password_reset_def set_password_def inr_simps Let_def draw_def
      dest!: hash_password_frame split: if_splits)

text \<open>The link of a reset also signs in: the purpose of a link is not looked at there.\<close>

lemma reset_link_signs_in:
  assumes "find (\<lambda>l. ml_token_hash l = token_hash token s) (magic_links s) = Some link"
    and "ml_purpose link = ''reset_password''" and "ml_consumed_at link = None" and "now s < ml_expires_at link"
    and "account_of_email (ml_email link) s = Inr (u, s)" and "is_hosted cfg"
  shows "\<exists>session_token s1. verify_magic_link cfg token s = Inr ((u, session_token), s1)"
  using assms by (simp add: verify_magic_link_def Let_def)

text \<open>
  Display names are nicknames, which are unique per role: an administrator with the display
  name of another cannot be created, and the clash is not answered as a conflict.
\<close>

lemma same_display_name:
  assumes "is_root c" and "account_with_email (py_lower email) ADMIN s = None"
    and "hash_password kdf (new_id [] s) (draw (draw s)) = Inr (h, s1)"
    and "x \<in> set (users s)" and "u_role x = ADMIN" and "u_nickname x = Some display_name"
    and "\<not> list_all (\<lambda>ch. ch = CHR '' '') display_name"
  shows "create_admin_account kdf email display_name c s = Inl IntegrityError"
proof -
  have "users s1 = users s" using hash_password_frame [OF assms(3)] by (simp add: draw_def)
  moreover have "nickname_key x = Some (py_lower display_name)" using assms(6,7) by (simp add: nickname_key_def)
  ultimately show ?thesis
    using assms by (auto simp: create_admin_account_def new_admin_def require_root_def Let_def add_user_def insert_row_def
        list_ex_iff clash_user_def nickname_key_def new_fan_def)
qed

text \<open>
  The check that an administrator remains cannot fail: the one who asks is another one.
\<close>

lemma no_app_error: "set_user i f s \<noteq> Inl (AppError n e)" "record_audit a s \<noteq> Inl (AppError n e)"
  by (auto simp: set_user_def record_audit_def insert_row_def split: option.splits)

lemma another_admin_remains:
  assumes "ctx_user c \<in> set (users s)" and "u_role (ctx_user c) = ADMIN"
  shows "update_user_role i new_role c s \<noteq> Inl (AppError 409 ''LAST_ADMIN_REQUIRED'')"
proof
  assume l: "update_user_role i new_role c s = Inl (AppError 409 ''LAST_ADMIN_REQUIRED'')"
  let ?A = "\<lambda>x. u_role x = ADMIN"
  from l obtain u where u: "u \<in> set (users s)" "?A u" "u_id u \<noteq> u_id (ctx_user c)" "count_where ?A (users s) = 1"
    by (auto simp: update_user_role_def bindE_eq_Inl require_root_def get_user_def no_app_error split: if_splits option.splits
        dest: find_SomeD)
  then obtain us vs where "users s = us @ u # vs" by (auto dest: split_list)
  moreover from this u(2,4) have "count_where ?A us = 0" "count_where ?A vs = 0" by (simp_all add: table_simps)
  ultimately have "\<forall>x \<in> set (users s). ?A x \<longrightarrow> x = u" using count_where_pos [of ?A us] count_where_pos [of ?A vs] by auto
  with assms u(3) show False by blast
qed

end
