(* ===== verification/Partners.thy ===== *)
theory Partners
  imports Accounts
begin

text \<open>
  Partner organizations, their administrators and the artists assigned to them
  (\<open>backend/app/routers/admin_partners.py\<close>). Contact data and display names of members are left
  out, except that a display name is also the nickname of the account. The listing of
  organizations, which only searches and pages, is left out.
\<close>

section \<open>Guards\<close>

definition resource_not_found :: exn where
  "resource_not_found = AppError 404 ''RESOURCE_NOT_FOUND''"

definition organization_or_404 :: "ident \<Rightarrow> db \<Rightarrow> exn + organization" where
  "organization_or_404 i s =
    (case find (\<lambda>g. org_id g = i) (organizations s) of None \<Rightarrow> Inl resource_not_found | Some g \<Rightarrow> Inr g)"

definition require_organization_read :: "admin_context \<Rightarrow> ident \<Rightarrow> db \<Rightarrow> exn + organization" where
  "require_organization_read c i s =
    (if is_root c then organization_or_404 i s
     else case ctx_organization c of
       None \<Rightarrow> Inl resource_not_found
     | Some g \<Rightarrow>
         if org_id g \<noteq> i then Inl resource_not_found
         else bindE (require_action ''organization:read'' c) (\<lambda>_. Inr g))"

definition require_member_management :: "admin_context \<Rightarrow> ident \<Rightarrow> db \<Rightarrow> exn + unit" where
  "require_member_management c i s =
    bindE (require_organization_read c i s) (\<lambda>_.
    if is_root c then Inr () else require_action ''members:manage_scoped'' c)"

text \<open>Company administrators neither make nor touch their peers.\<close>

definition require_subordinate_role :: "admin_context \<Rightarrow> string option \<Rightarrow> string option \<Rightarrow> exn + unit" where
  "require_subordinate_role c level target =
    (if is_root c then Inr ()
     else if level = Some ''company_admin'' \<or> target = Some ''company_admin''
     then Inl (AppError 403 ''ADMIN_WRITE_REQUIRED'') else Inr ())"

definition validated_logo_asset :: "(string \<Rightarrow> bool) \<Rightarrow> ident option \<Rightarrow> ident \<Rightarrow> db \<Rightarrow> exn + unit" where
  "validated_logo_asset stored i owner s =
    (case i of
       None \<Rightarrow> Inr ()
     | Some i \<Rightarrow>
         case find (\<lambda>a. as_id a = i) (assets s) of
           None \<Rightarrow> Inl (AppError 422 ''INVALID_LOGO_ASSET'')
         | Some a \<Rightarrow>
             if as_owner_id a \<noteq> owner \<or> as_purpose a \<noteq> Some ''organization_logo''
               \<or> as_content_type a \<notin> {Some ''image/png'', Some ''image/jpeg'', Some ''image/webp''}
             then Inl (AppError 422 ''INVALID_LOGO_ASSET'')
             else if as_upload_completed_at a = None \<or> as_storage_path a = None \<or> \<not> stored (the (as_storage_path a))
             then Inl (AppError 409 ''ASSET_NOT_READY'') else Inr ())"

definition organization_artist_ids :: "ident \<Rightarrow> db \<Rightarrow> ident list" where
  "organization_artist_ids i s = map oa_artist_id (filter (\<lambda>x. oa_organization_id x = i) (organization_artists s))"

definition organization_members :: "ident \<Rightarrow> db \<Rightarrow> admin_membership list" where
  "organization_members i s = filter (\<lambda>m. am_organization_id m = Some i) (admin_memberships s)"

text \<open>Members, artists, and cards of the artists.\<close>

definition organization_data :: "organization \<Rightarrow> db \<Rightarrow> organization \<times> nat \<times> nat \<times> nat" where
  "organization_data g s =
    (g, length (organization_members (org_id g) s), length (organization_artist_ids (org_id g) s),
     sum_list (map (\<lambda>i. count_where (\<lambda>c. c_artist_id c = Some i) (cards s)) (organization_artist_ids (org_id g) s)))"

definition member_or_404 :: "ident \<Rightarrow> ident \<Rightarrow> db \<Rightarrow> exn + user \<times> admin_membership" where
  "member_or_404 g i s =
    (case find (\<lambda>m. am_user_id m = i) (admin_memberships s) of
       None \<Rightarrow> Inl resource_not_found
     | Some m \<Rightarrow>
         if am_organization_id m \<noteq> Some g then Inl resource_not_found
         else case get_user i s of
           None \<Rightarrow> Inl resource_not_found
         | Some u \<Rightarrow> if u_role u \<noteq> ADMIN then Inl resource_not_found else Inr (u, m))"

text \<open>The artists assigned to a member, by name; and the answer about a member.\<close>

definition assigned_artist_list :: "ident \<Rightarrow> db \<Rightarrow> artist list" where
  "assigned_artist_list i s =
    sort_key ar_name (concat (map (\<lambda>a. filter (\<lambda>x. ar_id x = aa_artist_id a) (artists s))
      (filter (\<lambda>a. aa_admin_user_id a = i) (admin_artist_assignments s))))"

definition member_data :: "user \<Rightarrow> admin_membership \<Rightarrow> db \<Rightarrow> user \<times> admin_membership \<times> artist list" where
  "member_data u m s = (u, m, assigned_artist_list (u_id u) s)"

definition validate_contract_window :: "time option \<Rightarrow> time option \<Rightarrow> exn + unit" where
  "validate_contract_window starts ends =
    (case (starts, ends) of
       (Some a, Some b) \<Rightarrow> if b \<le> a then Inl (AppError 422 ''INVALID_CONTRACT_WINDOW'') else Inr ()
     | _ \<Rightarrow> Inr ())"

text \<open>\<open>list(dict.fromkeys(xs))\<close>: the first of equal entries stays.\<close>

definition dedup :: "'a list \<Rightarrow> 'a list" where
  "dedup xs = rev (remdups (rev xs))"

definition validate_artist_subset :: "ident \<Rightarrow> ident list \<Rightarrow> db \<Rightarrow> exn + ident list" where
  "validate_artist_subset g ids s =
    (if set ids \<subseteq> set (organization_artist_ids g s) then Inr (dedup ids)
     else Inl (AppError 409 ''ARTIST_OUTSIDE_ORGANIZATION''))"

section \<open>Organizations\<close>

record organization_body =
  ob_name :: string
  ob_slug :: string
  ob_contract_starts_at :: "time option"
  ob_contract_ends_at :: "time option"
  ob_logo_asset_id :: "ident option"

definition organization_audit :: "admin_context \<Rightarrow> string \<Rightarrow> string \<Rightarrow> ident \<Rightarrow> ident \<Rightarrow> jobj \<Rightarrow> audit_args" where
  "organization_audit c action entity i g details =
    \<lparr>au_actor_user_id = Some (u_id (ctx_user c)), au_action = action, au_entity_type = entity, au_entity_id = i,
     au_organization_id = Some g, au_artist_id = None, au_details = details\<rparr>"

definition clash_organization :: "organization \<Rightarrow> organization \<Rightarrow> bool" where
  "clash_organization r x \<longleftrightarrow> org_id x = org_id r \<or> org_slug x = org_slug r"

definition create_organization :: "(string \<Rightarrow> bool) \<Rightarrow> organization_body \<Rightarrow> admin_context \<Rightarrow> db \<Rightarrow> exn + organization \<times> db" where
  "create_organization stored b c s =
    bindE (require_root c) (\<lambda>_.
    if list_ex (\<lambda>g. org_slug g = ob_slug b) (organizations s) then Inl (AppError 409 ''ORGANIZATION_SLUG_TAKEN'')
    else
      bindE (validate_contract_window (ob_contract_starts_at b) (ob_contract_ends_at b)) (\<lambda>_.
      bindE (validated_logo_asset stored (ob_logo_asset_id b) (u_id (ctx_user c)) s) (\<lambda>_.
      let g = \<lparr>org_id = new_id ''org_'' s, org_name = ob_name b, org_slug = ob_slug b, org_status = ''active'',
            org_contract_starts_at = ob_contract_starts_at b, org_contract_ends_at = ob_contract_ends_at b,
            org_logo_asset_id = ob_logo_asset_id b\<rparr>
      in bindE (insert_row clash_organization g (organizations s)) (\<lambda>rows.
         bindE (record_audit (organization_audit c ''organization.created'' ''organization'' (org_id g) (org_id g)
           [(''slug'', JStr (org_slug g))]) ((draw s)\<lparr>organizations := rows\<rparr>)) (\<lambda>s1.
         Inr (g, s1))))))"

definition get_organization :: "ident \<Rightarrow> admin_context \<Rightarrow> db \<Rightarrow> exn + (organization \<times> nat \<times> nat \<times> nat) \<times> artist list" where
  "get_organization i c s =
    bindE (require_organization_read c i s) (\<lambda>g.
    Inr (organization_data g s,
      sort_key ar_name (filter (\<lambda>a. ar_id a \<in> set (organization_artist_ids (org_id g) s)) (artists s))))"

text \<open>The fields that were sent; a null is sent as \<open>Some None\<close>.\<close>

record organization_update =
  ou_name :: "string option option"
  ou_slug :: "string option option"
  ou_status :: "string option option"
  ou_contract_starts_at :: "time option option"
  ou_contract_ends_at :: "time option option"
  ou_logo_asset_id :: "ident option option"

definition sent :: "'a option \<Rightarrow> 'a \<Rightarrow> 'a" where
  "sent field old = (case field of None \<Rightarrow> old | Some v \<Rightarrow> v)"

text \<open>A null in a column that may not be null is refused by the database.\<close>

definition sent_text :: "string option option \<Rightarrow> string \<Rightarrow> exn + string" where
  "sent_text field old = (case field of None \<Rightarrow> Inr old | Some None \<Rightarrow> Inl IntegrityError | Some (Some v) \<Rightarrow> Inr v)"

definition organization_fields :: "organization_update \<Rightarrow> string list" where
  "organization_fields b = map fst (filter snd
     [(''contract_ends_at'', ou_contract_ends_at b \<noteq> None), (''contract_starts_at'', ou_contract_starts_at b \<noteq> None),
      (''logo_asset_id'', ou_logo_asset_id b \<noteq> None), (''name'', ou_name b \<noteq> None), (''slug'', ou_slug b \<noteq> None),
      (''status'', ou_status b \<noteq> None)])"

definition update_organization ::
  "(string \<Rightarrow> bool) \<Rightarrow> ident \<Rightarrow> organization_update \<Rightarrow> admin_context \<Rightarrow> db \<Rightarrow> exn + organization \<times> db" where
  "update_organization stored i b c s =
    bindE (require_root c) (\<lambda>_.
    bindE (organization_or_404 i s) (\<lambda>g.
    if (case ou_slug b of Some (Some slug) \<Rightarrow> slug \<noteq> [] \<and> slug \<noteq> org_slug g \<and>
          list_ex (\<lambda>x. org_slug x = slug) (organizations s) | _ \<Rightarrow> False)
    then Inl (AppError 409 ''ORGANIZATION_SLUG_TAKEN'')
    else
      bindE (validate_contract_window (sent (ou_contract_starts_at b) (org_contract_starts_at g))
        (sent (ou_contract_ends_at b) (org_contract_ends_at g))) (\<lambda>_.
      bindE (case ou_logo_asset_id b of None \<Rightarrow> Inr ()
             | Some a \<Rightarrow> validated_logo_asset stored a (u_id (ctx_user c)) s) (\<lambda>_.
      bindE (sent_text (ou_name b) (org_name g)) (\<lambda>name.
      bindE (sent_text (ou_slug b) (org_slug g)) (\<lambda>slug.
      bindE (sent_text (ou_status b) (org_status g)) (\<lambda>st.
      let g1 = g\<lparr>org_name := name, org_slug := slug, org_status := st,
            org_contract_starts_at := sent (ou_contract_starts_at b) (org_contract_starts_at g),
            org_contract_ends_at := sent (ou_contract_ends_at b) (org_contract_ends_at g),
            org_logo_asset_id := sent (ou_logo_asset_id b) (org_logo_asset_id g)\<rparr>
      in bindE (record_audit (organization_audit c ''organization.updated'' ''organization'' i i
           [(''fields'', JArr (map JStr (organization_fields b)))])
           (s\<lparr>organizations := update_where (\<lambda>x. org_id x = i) (\<lambda>_. g1) (organizations s)\<rparr>)) (\<lambda>s1.
         Inr (g1, s1)))))))))"

definition set_organization_artists :: "ident \<Rightarrow> ident list \<Rightarrow> admin_context \<Rightarrow> db \<Rightarrow> exn + ident list \<times> db" where
  "set_organization_artists i ids c s =
    bindE (require_root c) (\<lambda>_.
    bindE (organization_or_404 i s) (\<lambda>g.
    let ids = dedup ids
    in if \<not> set ids \<subseteq> ar_id ` set (artists s) then Inl resource_not_found
       else
         let removed = filter (\<lambda>a. a \<notin> set ids) (organization_artist_ids i s);
             member_ids = map am_user_id (organization_members i s);
             s1 = s\<lparr>admin_artist_assignments := filter (\<lambda>a. \<not> (aa_admin_user_id a \<in> set member_ids \<and>
                   aa_artist_id a \<in> set removed)) (admin_artist_assignments s),
                 organization_artists := filter (\<lambda>x. oa_organization_id x \<noteq> i) (organization_artists s) @
                   map (\<lambda>a. \<lparr>oa_organization_id = i, oa_artist_id = a\<rparr>) ids\<rparr>
         in bindE (record_audit (organization_audit c ''organization.artists_updated'' ''organization'' i i
              [(''artistIds'', JArr (map JStr ids)), (''removedArtistIds'', JArr (map JStr (sort (remdups removed))))]) s1)
              (\<lambda>s2. Inr (ids, s2))))"

section \<open>Members\<close>

record member_body =
  mb_email :: string
  mb_display_name :: string
  mb_access_level :: string
  mb_artist_ids :: "ident list"

definition list_organization_members ::
  "ident \<Rightarrow> admin_context \<Rightarrow> db \<Rightarrow> exn + (user \<times> admin_membership \<times> artist list) list" where
  "list_organization_members g c s =
    bindE (require_organization_read c g s) (\<lambda>_.
    Inr (map (\<lambda>(u, m). member_data u m s)
      (concat (map (\<lambda>m. map (\<lambda>u. (u, m)) (filter (\<lambda>u. u_id u = am_user_id m) (users s)))
        (sort_key am_status (organization_members g s))))))"

definition assign_artists :: "ident \<Rightarrow> ident list \<Rightarrow> db \<Rightarrow> exn + db" where
  "assign_artists i = foldE (\<lambda>a s.
    bindE (insert_row (\<lambda>r x. aa_admin_user_id x = aa_admin_user_id r \<and> aa_artist_id x = aa_artist_id r)
        \<lparr>aa_admin_user_id = i, aa_artist_id = a\<rparr> (admin_artist_assignments s))
      (\<lambda>rows. Inr (s\<lparr>admin_artist_assignments := rows\<rparr>)))"

definition create_organization_member ::
  "kdf \<Rightarrow> ident \<Rightarrow> member_body \<Rightarrow> admin_context \<Rightarrow> db \<Rightarrow> exn + (user \<times> string) \<times> db" where
  "create_organization_member kdf g b c s =
    bindE (require_member_management c g s) (\<lambda>_.
    bindE (require_subordinate_role c (Some (mb_access_level b)) None) (\<lambda>_.
    if account_with_email (py_lower (mb_email b)) ADMIN s \<noteq> None then Inl (AppError 409 ''EMAIL_TAKEN'')
    else
      bindE (validate_artist_subset g (mb_artist_ids b) s) (\<lambda>ids.
      bindE (new_admin kdf (py_lower (mb_email b)) (mb_display_name b) (Some g) (mb_access_level b) s)
        (\<lambda>((u, temporary), s1).
      bindE (assign_artists (u_id u) ids s1) (\<lambda>s2.
      bindE (record_audit (organization_audit c ''organization.member_created'' ''admin_membership'' (u_id u) g
        [(''accessLevel'', JStr (mb_access_level b)), (''artistIds'', JArr (map JStr ids))]) s2) (\<lambda>s3.
      Inr ((u, temporary), s3)))))))"

definition revoke_member_sessions :: "ident \<Rightarrow> db \<Rightarrow> db" where
  "revoke_member_sessions i s =
    s\<lparr>refresh_tokens := update_where (\<lambda>r. rt_user_id r = i \<and> rt_revoked_at r = None)
        (\<lambda>r. r\<lparr>rt_revoked_at := Some (now s)\<rparr>) (refresh_tokens s),
      login_sessions := filter (\<lambda>x. se_user_id x \<noteq> i) (login_sessions s)\<rparr>"

record member_update =
  mu_display_name :: "string option option"
  mu_access_level :: "string option option"
  mu_status :: "string option option"

definition put_membership :: "admin_membership \<Rightarrow> db \<Rightarrow> db" where
  "put_membership m s =
    s\<lparr>admin_memberships := update_where (\<lambda>x. am_user_id x = am_user_id m) (\<lambda>_. m) (admin_memberships s)\<rparr>"

definition update_organization_member ::
  "ident \<Rightarrow> ident \<Rightarrow> member_update \<Rightarrow> admin_context \<Rightarrow> db \<Rightarrow> exn + admin_membership \<times> db" where
  "update_organization_member g i b c s =
    bindE (require_member_management c g s) (\<lambda>_.
    bindE (member_or_404 g i s) (\<lambda>(u, m).
    bindE (require_subordinate_role c (sent (mu_access_level b) None) (Some (am_access_level m))) (\<lambda>_.
    bindE (sent_text (mu_access_level b) (am_access_level m)) (\<lambda>level.
    bindE (sent_text (mu_status b) (am_status m)) (\<lambda>st.
    bindE (case mu_display_name b of
             None \<Rightarrow> Inr s
           | Some None \<Rightarrow> Inl IntegrityError
           | Some (Some n) \<Rightarrow> set_user i (\<lambda>u. u\<lparr>u_nickname := Some n\<rparr>) s) (\<lambda>s1.
    let m1 = m\<lparr>am_access_level := level, am_status := st\<rparr>;
        s2 = put_membership m1 s1;
        s3 = (if level \<noteq> am_access_level m \<or> st \<noteq> am_status m then revoke_member_sessions i s2 else s2)
    in bindE (record_audit (organization_audit c ''organization.member_updated'' ''admin_membership'' i g
         [(''fields'', JArr (map JStr (map fst (filter snd [(''access_level'', mu_access_level b \<noteq> None),
            (''display_name'', mu_display_name b \<noteq> None), (''status'', mu_status b \<noteq> None)]))))]) s3)
         (\<lambda>s4. Inr (m1, s4))))))))"

definition reset_organization_member_password ::
  "kdf \<Rightarrow> ident \<Rightarrow> ident \<Rightarrow> admin_context \<Rightarrow> db \<Rightarrow> exn + string \<times> db" where
  "reset_organization_member_password kdf g i c s =
    bindE (require_member_management c g s) (\<lambda>_.
    bindE (member_or_404 g i s) (\<lambda>(u, m).
    bindE (require_subordinate_role c None (Some (am_access_level m))) (\<lambda>_.
    let temporary = new_id [] s
    in bindE (hash_password kdf temporary (draw s)) (\<lambda>(h, s1).
       let s2 = s1\<lparr>users := update_where (\<lambda>u. u_id u = i)
             (\<lambda>u. u\<lparr>u_password_hash := Some h, u_must_change_password := True\<rparr>) (users s1)\<rparr>
       in bindE (record_audit (organization_audit c ''organization.member_password_reset'' ''admin_membership'' i g
            [(''accessLevel'', JStr (am_access_level m))]) (revoke_member_sessions i s2))
          (\<lambda>s3. Inr (temporary, s3))))))"

definition set_member_artists :: "ident \<Rightarrow> ident \<Rightarrow> ident list \<Rightarrow> admin_context \<Rightarrow> db \<Rightarrow> exn + ident list \<times> db" where
  "set_member_artists g i ids c s =
    bindE (require_member_management c g s) (\<lambda>_.
    bindE (member_or_404 g i s) (\<lambda>(u, m).
    bindE (require_subordinate_role c None (Some (am_access_level m))) (\<lambda>_.
    bindE (validate_artist_subset g ids s) (\<lambda>ids.
    bindE (assign_artists i ids (s\<lparr>admin_artist_assignments :=
      filter (\<lambda>a. aa_admin_user_id a \<noteq> i) (admin_artist_assignments s)\<rparr>)) (\<lambda>s1.
    bindE (record_audit (organization_audit c ''organization.member_artists_updated'' ''admin_membership'' i g
      [(''artistIds'', JArr (map JStr ids))]) s1) (\<lambda>s2.
    Inr (ids, s2)))))))"

section \<open>Requests\<close>

datatype partner_request =
    CreateOrganization "string \<Rightarrow> bool" organization_body admin_context
  | UpdateOrganization "string \<Rightarrow> bool" ident organization_update admin_context
  | SetOrganizationArtists ident "ident list" admin_context
  | CreateMember kdf ident member_body admin_context
  | UpdateMember ident ident member_update admin_context
  | ResetMemberPassword kdf ident ident admin_context
  | SetMemberArtists ident ident "ident list" admin_context

definition partner_op :: "partner_request \<Rightarrow> db \<Rightarrow> exn + unit \<times> db" where
  "partner_op q s =
    (case q of
       CreateOrganization stored b c \<Rightarrow> bindE (create_organization stored b c s) (\<lambda>(_, s1). Inr ((), s1))
     | UpdateOrganization stored i b c \<Rightarrow> bindE (update_organization stored i b c s) (\<lambda>(_, s1). Inr ((), s1))
     | SetOrganizationArtists i ids c \<Rightarrow> bindE (set_organization_artists i ids c s) (\<lambda>(_, s1). Inr ((), s1))
     | CreateMember kdf g b c \<Rightarrow> bindE (create_organization_member kdf g b c s) (\<lambda>(_, s1). Inr ((), s1))
     | UpdateMember g i b c \<Rightarrow> bindE (update_organization_member g i b c s) (\<lambda>(_, s1). Inr ((), s1))
     | ResetMemberPassword kdf g i c \<Rightarrow> bindE (reset_organization_member_password kdf g i c s) (\<lambda>(_, s1). Inr ((), s1))
     | SetMemberArtists g i ids c \<Rightarrow> bindE (set_member_artists g i ids c s) (\<lambda>(_, s1). Inr ((), s1)))"

section \<open>Assignments stay within the contract\<close>

text \<open>The organization represents the artist.\<close>

definition represents :: "db \<Rightarrow> ident \<Rightarrow> ident \<Rightarrow> bool" where
  "represents s g a \<longleftrightarrow> a \<in> set (organization_artist_ids g s)"

definition may_work_for :: "db \<Rightarrow> ident \<Rightarrow> ident \<Rightarrow> bool" where
  "may_work_for s i a \<longleftrightarrow> (\<exists>m \<in> set (admin_memberships s). am_user_id m = i \<and>
    (\<exists>g. am_organization_id m = Some g \<and> represents s g a))"

definition assignments_ok :: "db \<Rightarrow> bool" where
  "assignments_ok s \<longleftrightarrow> unique_by am_user_id (admin_memberships s) \<and>
    (\<forall>x \<in> set (admin_artist_assignments s). may_work_for s (aa_admin_user_id x) (aa_artist_id x))"

text \<open>The three tables the invariant is about; most statements leave them alone.\<close>

definition contract :: "db \<Rightarrow> admin_membership list \<times> admin_artist_assignment list \<times> organization_artist list" where
  "contract s = (admin_memberships s, admin_artist_assignments s, organization_artists s)"

lemma contract_ok: "contract s' = contract s \<Longrightarrow> assignments_ok s \<Longrightarrow> assignments_ok s'"
  by (simp add: contract_def assignments_ok_def may_work_for_def represents_def organization_artist_ids_def)

lemma record_audit_contract: "record_audit a s = Inr s' \<Longrightarrow> contract s' = contract s"
  by (auto simp: contract_def dest!: record_audit_touch)

lemma contract_keep [simp]:
  "contract (s\<lparr>organizations := gs\<rparr>) = contract s" "contract (s\<lparr>users := us\<rparr>) = contract s"
  "contract (draw s) = contract s" "contract (revoke_member_sessions i s) = contract s"
  by (simp_all add: contract_def draw_def revoke_member_sessions_def)

lemma set_user_contract: "set_user i f s = Inr s' \<Longrightarrow> contract s' = contract s"
  by (auto simp: set_user_def contract_def split: option.splits if_splits)

lemma add_user_contract: "add_user u s = Inr s' \<Longrightarrow> contract s' = contract s"
  by (auto simp: add_user_def inr_simps)

lemma hash_password_contract: "hash_password kdf p s = Inr (h, s') \<Longrightarrow> contract s' = contract s"
  by (auto dest: hash_password_frame)

lemma assign_artists_eq:
  "assign_artists i ids s = Inr s' \<Longrightarrow>
    s' = s\<lparr>admin_artist_assignments := admin_artist_assignments s @ map (\<lambda>a. \<lparr>aa_admin_user_id = i, aa_artist_id = a\<rparr>) ids\<rparr>"
  unfolding assign_artists_def
proof (induction ids arbitrary: s)
  case (Cons a ids)
  then obtain s1 where "s1 = s\<lparr>admin_artist_assignments := admin_artist_assignments s @ [\<lparr>aa_admin_user_id = i, aa_artist_id = a\<rparr>]\<rparr>"
    and "foldE (\<lambda>a s. bindE (insert_row (\<lambda>r x. aa_admin_user_id x = aa_admin_user_id r \<and> aa_artist_id x = aa_artist_id r)
        \<lparr>aa_admin_user_id = i, aa_artist_id = a\<rparr> (admin_artist_assignments s))
      (\<lambda>rows. Inr (s\<lparr>admin_artist_assignments := rows\<rparr>))) ids s1 = Inr s'"
    by (auto simp: inr_simps)
  with Cons.IH [of s1] show ?case by simp
qed simp

lemma set_dedup [simp]: "set (dedup xs) = set xs"
  by (simp add: dedup_def)

text \<open>How each change of the tables affects who may work for whom.\<close>

lemma may_work_for_assignments [simp]:
  "may_work_for (s\<lparr>admin_artist_assignments := al\<rparr>) i a = may_work_for s i a"
  by (simp add: may_work_for_def represents_def organization_artist_ids_def)

lemma may_work_for_members:
  "(\<And>m. m \<in> set (admin_memberships s) \<Longrightarrow> \<exists>m' \<in> set ms. am_user_id m' = am_user_id m \<and> am_organization_id m' = am_organization_id m) \<Longrightarrow>
    may_work_for s i a \<Longrightarrow> may_work_for (s\<lparr>admin_memberships := ms\<rparr>) i a"
  by (fastforce simp: may_work_for_def represents_def organization_artist_ids_def)

lemma assigned_ok:
  assumes "assignments_ok s" and "\<And>a. a \<in> set ids \<Longrightarrow> may_work_for s i a"
    and "set old \<subseteq> set (admin_artist_assignments s)"
  shows "assignments_ok (s\<lparr>admin_artist_assignments := old @ map (\<lambda>a. \<lparr>aa_admin_user_id = i, aa_artist_id = a\<rparr>) ids\<rparr>)"
proof -
  have "may_work_for s (aa_admin_user_id x) (aa_artist_id x)"
    if "x \<in> set old \<union> (\<lambda>a. \<lparr>aa_admin_user_id = i, aa_artist_id = a\<rparr>) ` set ids" for x
    using that assms by (elim UnE imageE) (auto simp: assignments_ok_def)
  with assms(1) show ?thesis by (simp add: assignments_ok_def)
qed

lemma members_ok:
  assumes "assignments_ok s" and "unique_by am_user_id ms"
    and "\<And>m. m \<in> set (admin_memberships s) \<Longrightarrow> \<exists>m' \<in> set ms. am_user_id m' = am_user_id m \<and> am_organization_id m' = am_organization_id m"
  shows "assignments_ok (s\<lparr>admin_memberships := ms\<rparr>)"
  using assms(1,2) may_work_for_members [OF assms(3)] by (simp add: assignments_ok_def)

lemma represents_replaced:
  "represents (s\<lparr>admin_artist_assignments := al,
      organization_artists := filter (\<lambda>x. oa_organization_id x \<noteq> i) (organization_artists s) @
        map (\<lambda>a. \<lparr>oa_organization_id = i, oa_artist_id = a\<rparr>) ids\<rparr>) g a \<longleftrightarrow>
    (if g = i then a \<in> set ids else represents s g a)"
  by (auto simp: represents_def organization_artist_ids_def filter_map comp_def filter_empty_conv)

lemma set_organization_artists_ok:
  assumes "set_organization_artists i ids c s = Inr (r, s')" and "assignments_ok s"
  shows "assignments_ok s'"
proof -
  let ?removed = "filter (\<lambda>a. a \<notin> set (dedup ids)) (organization_artist_ids i s)"
  let ?members = "map am_user_id (organization_members i s)"
  let ?kept = "filter (\<lambda>a. \<not> (aa_admin_user_id a \<in> set ?members \<and> aa_artist_id a \<in> set ?removed)) (admin_artist_assignments s)"
  define s1 where "s1 = s\<lparr>admin_artist_assignments := ?kept,
    organization_artists := filter (\<lambda>x. oa_organization_id x \<noteq> i) (organization_artists s) @
      map (\<lambda>a. \<lparr>oa_organization_id = i, oa_artist_id = a\<rparr>) (dedup ids)\<rparr>"
  from assms(1) obtain l where "record_audit l s1 = Inr s'"
    unfolding set_organization_artists_def Let_def s1_def
    by (auto simp only: bindE_eq_Inr if_eq_Inr sum.inject prod.inject sum.distinct)
  then have c: "contract s' = contract s1" by (rule record_audit_contract)
  have r: "represents s1 g a \<longleftrightarrow> (if g = i then a \<in> set ids else represents s g a)" for g a
    by (simp only: s1_def represents_replaced set_dedup)
  have t: "admin_memberships s1 = admin_memberships s" "admin_artist_assignments s1 = ?kept" by (simp_all add: s1_def)
  have "may_work_for s1 (aa_admin_user_id x) (aa_artist_id x)" if x: "x \<in> set ?kept" for x
  proof -
    from x assms(2) have "may_work_for s (aa_admin_user_id x) (aa_artist_id x)" by (simp add: assignments_ok_def)
    then obtain m g where m: "m \<in> set (admin_memberships s)" "am_user_id m = aa_admin_user_id x"
      "am_organization_id m = Some g" "represents s g (aa_artist_id x)" by (auto simp: may_work_for_def)
    have "represents s1 g (aa_artist_id x)"
    proof (cases "g = i")
      case True
      have "aa_admin_user_id x \<in> set ?members" using m(1-3) True by (force simp: organization_members_def)
      with x have "aa_artist_id x \<notin> set ?removed" by simp
      with m(4) True have "aa_artist_id x \<in> set ids" by (simp add: represents_def)
      with True show ?thesis by (simp add: r)
    qed (use m(4) in \<open>simp add: r\<close>)
    with m(1-3) show ?thesis unfolding may_work_for_def t(1) by blast
  qed
  with assms(2) have "assignments_ok s1" unfolding assignments_ok_def t by blast
  with c show ?thesis by (rule contract_ok)
qed

lemma create_member_ok:
  assumes "create_organization_member kdf g b c s = Inr (r, s')" and "assignments_ok s"
  shows "assignments_ok s'"
proof -
  from assms(1) obtain ids u p s1 s2 l where v: "validate_artist_subset g (mb_artist_ids b) s = Inr ids"
    and n: "new_admin kdf (py_lower (mb_email b)) (mb_display_name b) (Some g) (mb_access_level b) s = Inr ((u, p), s1)"
    and a: "assign_artists (u_id u) ids s1 = Inr s2" and l: "record_audit l s2 = Inr s'"
    unfolding create_organization_member_def
    by (auto simp: bindE_eq_Inr if_eq_Inr split: if_splits)
  let ?m = "\<lparr>am_user_id = u_id u, am_organization_id = Some g, am_access_level = mb_access_level b,
    am_status = ''active'', am_last_login_at = None\<rparr>"
  from n obtain s3 where m: "\<not> list_ex (\<lambda>x. am_user_id x = u_id u) (admin_memberships s3)"
    and s1: "s1 = s3\<lparr>admin_memberships := admin_memberships s3 @ [?m]\<rparr>" and "contract s3 = contract s"
    unfolding new_admin_def Let_def
    by (auto simp: bindE_eq_Inr insert_row_eq_Inr new_fan_def dest!: hash_password_contract add_user_contract)
  from this(3) assms(2) have ok3: "assignments_ok s3" by (rule contract_ok)
  from \<open>contract s3 = contract s\<close> have same: "organization_artists s3 = organization_artists s" by (simp add: contract_def)
  have "assignments_ok s1"
    unfolding s1 by (rule members_ok [OF ok3]) (use ok3 m in \<open>auto simp: unique_by_def assignments_ok_def list_ex_iff\<close>)
  moreover have "may_work_for s1 (u_id u) x" if "x \<in> set ids" for x
  proof -
    from v that have "represents s g x" by (auto simp: validate_artist_subset_def represents_def if_eq_Inr)
    then have "represents s1 g x" using same by (simp add: represents_def organization_artist_ids_def s1)
    with m show ?thesis by (auto simp: may_work_for_def s1)
  qed
  ultimately have "assignments_ok s2" unfolding assign_artists_eq [OF a] by (rule assigned_ok) auto
  with record_audit_contract [OF l] show ?thesis by (rule contract_ok)
qed

lemma set_member_artists_ok:
  assumes "set_member_artists g i ids c s = Inr (r, s')" and "assignments_ok s"
  shows "assignments_ok s'"
proof -
  let ?s = "s\<lparr>admin_artist_assignments := filter (\<lambda>a. aa_admin_user_id a \<noteq> i) (admin_artist_assignments s)\<rparr>"
  from assms(1) obtain u m ids' s1 l where m: "member_or_404 g i s = Inr (u, m)"
    and v: "validate_artist_subset g ids s = Inr ids'" and a: "assign_artists i ids' ?s = Inr s1"
    and l: "record_audit l s1 = Inr s'"
    unfolding set_member_artists_def by (auto simp: bindE_eq_Inr)
  from m have "m \<in> set (admin_memberships s)" "am_user_id m = i" "am_organization_id m = Some g"
    by (auto simp: member_or_404_def option_eq_Inr if_eq_Inr dest!: find_SomeD)
  moreover have "represents s g x" if "x \<in> set ids'" for x
    using v that by (auto simp: validate_artist_subset_def represents_def if_eq_Inr)
  ultimately have "may_work_for s i x" if "x \<in> set ids'" for x
    using that unfolding may_work_for_def by blast
  with assigned_ok [OF assms(2), of ids' i "admin_artist_assignments ?s"]
  have "assignments_ok s1" by (auto simp: assign_artists_eq [OF a])
  with record_audit_contract [OF l] show ?thesis by (rule contract_ok)
qed

lemma put_membership_ok:
  assumes "assignments_ok s" and "find (\<lambda>x. am_user_id x = am_user_id m) (admin_memberships s) = Some m0"
    and "am_organization_id m = am_organization_id m0"
  shows "assignments_ok (put_membership m s)"
proof -
  let ?ms = "update_where (\<lambda>x. am_user_id x = am_user_id m) (\<lambda>_. m) (admin_memberships s)"
  from assms(1) have u: "unique_by am_user_id (admin_memberships s)" by (simp add: assignments_ok_def)
  have "unique_by am_user_id ?ms" using u by (rule unique_by_update_where) simp
  moreover have "\<exists>m' \<in> set ?ms. am_user_id m' = am_user_id x \<and> am_organization_id m' = am_organization_id x"
    if "x \<in> set (admin_memberships s)" for x
  proof (cases "am_user_id x = am_user_id m")
    case True
    from assms(2) have "m0 \<in> set (admin_memberships s)" "am_user_id m0 = am_user_id m" by (auto dest: find_SomeD)
    with u that True have "x = m0" by (auto simp: unique_by_def distinct_map inj_on_def)
    with True assms(3) that show ?thesis by (force simp: set_update_where)
  qed (use that in \<open>force simp: set_update_where\<close>)
  ultimately show ?thesis unfolding put_membership_def by (rule members_ok [OF assms(1)])
qed

lemma update_member_ok:
  assumes "update_organization_member g i b c s = Inr (r, s')" and "assignments_ok s"
  shows "assignments_ok s'"
proof -
  from assms(1) obtain u m level st s1 l where m: "member_or_404 g i s = Inr (u, m)"
    and n: "(case mu_display_name b of None \<Rightarrow> Inr s | Some None \<Rightarrow> Inl IntegrityError
      | Some (Some n) \<Rightarrow> set_user i (\<lambda>u. u\<lparr>u_nickname := Some n\<rparr>) s) = Inr s1"
    and l: "record_audit l (if level \<noteq> am_access_level m \<or> st \<noteq> am_status m
        then revoke_member_sessions i (put_membership (m\<lparr>am_access_level := level, am_status := st\<rparr>) s1)
        else put_membership (m\<lparr>am_access_level := level, am_status := st\<rparr>) s1) = Inr s'"
    unfolding update_organization_member_def Let_def bindE_eq_Inr split_paired_Ex prod.case by blast
  let ?m = "m\<lparr>am_access_level := level, am_status := st\<rparr>"
  from n have c: "contract s1 = contract s" by (auto split: option.splits dest: set_user_contract)
  then have "admin_memberships s1 = admin_memberships s" by (simp add: contract_def)
  with m have f: "find (\<lambda>x. am_user_id x = am_user_id ?m) (admin_memberships s1) = Some m"
    by (auto simp: member_or_404_def option_eq_Inr if_eq_Inr dest: find_SomeD)
  from c assms(2) have "assignments_ok s1" by (rule contract_ok)
  then have "assignments_ok (put_membership ?m s1)" by (rule put_membership_ok [OF _ f]) simp
  with record_audit_contract [OF l] show ?thesis
    by (intro contract_ok [of s' "put_membership ?m s1"]) (simp_all split: if_splits)
qed

lemma other_requests_ok:
  "create_organization stored ob c s = Inr (g, s') \<Longrightarrow> contract s' = contract s"
  "update_organization stored i ou c s = Inr (g, s') \<Longrightarrow> contract s' = contract s"
  by (auto simp: create_organization_def update_organization_def bindE_eq_Inr if_eq_Inr Let_def
      dest!: record_audit_contract)

lemma reset_password_ok:
  "reset_organization_member_password kdf g i c s = Inr (p, s') \<Longrightarrow> contract s' = contract s"
  by (auto simp: reset_organization_member_password_def bindE_eq_Inr Let_def
      dest!: record_audit_contract hash_password_contract)

interpretation partner: service partner_op assignments_ok
proof
  fix q s r s'
  assume "partner_op q s = Inr (r, s')" and ok: "assignments_ok s"
  then show "assignments_ok s'"
  proof (cases q)
    case (CreateOrganization stored b c)
    with \<open>partner_op q s = Inr (r, s')\<close> have "contract s' = contract s"
      by (auto simp: partner_op_def bindE_eq_Inr dest: other_requests_ok)
    with ok show ?thesis by (blast intro: contract_ok)
  next
    case (UpdateOrganization stored i b c)
    with \<open>partner_op q s = Inr (r, s')\<close> have "contract s' = contract s"
      by (auto simp: partner_op_def bindE_eq_Inr dest: other_requests_ok)
    with ok show ?thesis by (blast intro: contract_ok)
  next
    case (ResetMemberPassword kdf g i c)
    with \<open>partner_op q s = Inr (r, s')\<close> have "contract s' = contract s"
      by (auto simp: partner_op_def bindE_eq_Inr dest: reset_password_ok)
    with ok show ?thesis by (blast intro: contract_ok)
  qed (auto simp: partner_op_def bindE_eq_Inr intro: set_organization_artists_ok create_member_ok update_member_ok
      set_member_artists_ok)
qed

definition run_partners :: "partner_request list \<Rightarrow> db \<Rightarrow> db" where
  "run_partners qs s = fold (\<lambda>q s. snd (run_tx (partner_op q) s)) qs s"

text \<open>C25. Administrators of a partner stay within its contract: whatever requests about organizations,
  their artists, members and assignments were made, and however they ended, an administrator of
  an organization only gets artists that the organization represents.\<close>

theorem partners_stay_in_contract:
  assumes "assignments_ok s" and "load_admin_context u (run_partners qs s) = Inr c"
    and "ctx_organization c = Some g" and "a \<in> set (ctx_artists c)"
  shows "list_ex (\<lambda>x. oa_organization_id x = org_id g \<and> oa_artist_id x = a) (organization_artists (run_partners qs s))"
proof -
  let ?s = "run_partners qs s"
  from assms(1) have ok: "assignments_ok ?s" unfolding run_partners_def by (rule partner.requests)
  from assms(2,3) have m: "ctx_membership c \<in> set (admin_memberships ?s)" "am_user_id (ctx_membership c) = u_id u"
    "am_organization_id (ctx_membership c) = Some (org_id g)" "ctx_artists c = assigned_artists (ctx_membership c) (org_id g) ?s"
    using load_admin_context_ok [OF assms(2)] by (auto simp: context_ok_def Let_def split: if_splits)
  have "represents ?s (org_id g) a"
  proof (cases "am_access_level (ctx_membership c) = ''company_admin''")
    case True
    with assms(4) m(4) show ?thesis by (simp add: assigned_artists_def represents_def organization_artist_ids_def)
  next
    case False
    with assms(4) m(2,4) have "may_work_for ?s (u_id u) a"
      using ok by (auto simp: assigned_artists_def assignments_ok_def)
    then obtain m' h where m': "m' \<in> set (admin_memberships ?s)" "am_user_id m' = u_id u"
      "am_organization_id m' = Some h" "represents ?s h a" by (auto simp: may_work_for_def)
    with m(1,2) ok have "m' = ctx_membership c" by (auto simp: assignments_ok_def unique_by_def distinct_map inj_on_def)
    with m' m(3) show ?thesis by simp
  qed
  then show ?thesis by (auto simp: represents_def organization_artist_ids_def list_ex_iff)
qed

section \<open>Company administrators make no peers\<close>

fun requester :: "partner_request \<Rightarrow> admin_context" where
  "requester (CreateOrganization stored b c) = c"
| "requester (UpdateOrganization stored i b c) = c"
| "requester (SetOrganizationArtists i ids c) = c"
| "requester (CreateMember kdf g b c) = c"
| "requester (UpdateMember g i b c) = c"
| "requester (ResetMemberPassword kdf g i c) = c"
| "requester (SetMemberArtists g i ids c) = c"

text \<open>The levels a body may name (\<open>OrganizationMemberCreate\<close>, \<open>OrganizationMemberUpdate\<close>).\<close>

definition MEMBER_LEVELS :: "string list" where
  "MEMBER_LEVELS = [''company_admin'', ''manager'', ''editor'', ''viewer'']"

definition valid_levels :: "partner_request \<Rightarrow> bool" where
  "valid_levels q \<longleftrightarrow>
    (case q of
       CreateMember kdf g b c \<Rightarrow> mb_access_level b \<in> set MEMBER_LEVELS
     | UpdateMember g i b c \<Rightarrow> (case mu_access_level b of Some (Some l) \<Rightarrow> l \<in> set MEMBER_LEVELS | _ \<Rightarrow> True)
     | _ \<Rightarrow> True)"

text \<open>The check constraints of the table, and its primary key.\<close>

definition memberships_valid :: "db \<Rightarrow> bool" where
  "memberships_valid s \<longleftrightarrow> unique_by am_user_id (admin_memberships s) \<and>
    (\<forall>m \<in> set (admin_memberships s). am_organization_id m \<noteq> None \<longrightarrow> am_access_level m \<in> set MEMBER_LEVELS)"

definition subordinate :: "ident \<Rightarrow> admin_membership \<Rightarrow> bool" where
  "subordinate g m \<longleftrightarrow> am_organization_id m = Some g \<and> am_access_level m \<in> set MEMBER_LEVELS - {''company_admin''}"

lemma read_scope: "require_organization_read c i s = Inr g \<Longrightarrow> \<not> is_root c \<Longrightarrow> ctx_organization c = Some g \<and> org_id g = i"
  by (auto simp: require_organization_read_def option_eq_Inr if_eq_Inr bindE_eq_Inr)

lemma management_scope:
  "require_member_management c i s = Inr x \<Longrightarrow> \<not> is_root c \<Longrightarrow> ctx_organization c = Some g \<Longrightarrow> i = org_id g"
  by (auto simp: require_member_management_def bindE_eq_Inr dest: read_scope)

lemma subordinate_role: "require_subordinate_role c l t = Inr x \<Longrightarrow> \<not> is_root c \<Longrightarrow> l \<noteq> Some ''company_admin'' \<and> t \<noteq> Some ''company_admin''"
  by (auto simp: require_subordinate_role_def if_eq_Inr)

lemma filter_update_where: "(\<And>x. x \<in> set xs \<Longrightarrow> Q x \<Longrightarrow> \<not> P x \<and> \<not> P (f x)) \<Longrightarrow> filter P (update_where Q f xs) = filter P xs"
  by (induction xs) (simp_all add: table_simps)

text \<open>C26. Company administrators cannot raise anyone: a request of an administrator who is not root
  leaves every membership as it is, except those of managers, editors and viewers of the own
  organization, and these stay managers, editors or viewers.\<close>

theorem no_peer_administrators:
  assumes "partner_op q s = Inr (r, s')" and "\<not> is_root (requester q)" and "ctx_organization (requester q) = Some g"
    and "valid_levels q" and "memberships_valid s"
  shows "filter (\<lambda>m. \<not> subordinate (org_id g) m) (admin_memberships s') =
    filter (\<lambda>m. \<not> subordinate (org_id g) m) (admin_memberships s)"
proof (cases q)
  case (CreateMember kdf i b c)
  with assms(1) obtain x where "create_organization_member kdf i b c s = Inr (x, s')"
    by (auto simp: partner_op_def bindE_eq_Inr)
  then obtain ids u p s1 s2 l where v: "require_member_management c i s = Inr ()"
      "require_subordinate_role c (Some (mb_access_level b)) None = Inr ()"
    and n: "new_admin kdf (py_lower (mb_email b)) (mb_display_name b) (Some i) (mb_access_level b) s = Inr ((u, p), s1)"
    and a: "assign_artists (u_id u) ids s1 = Inr s2" and l: "record_audit l s2 = Inr s'"
    unfolding create_organization_member_def by (auto simp: bindE_eq_Inr if_eq_Inr split: if_splits)
  have i: "i = org_id g" using management_scope [OF v(1)] assms(2,3) CreateMember by simp
  have "mb_access_level b \<in> set MEMBER_LEVELS - {''company_admin''}"
    using assms(2,4) subordinate_role [OF v(2)] CreateMember by (simp add: valid_levels_def)
  then have "subordinate (org_id g) \<lparr>am_user_id = u_id u, am_organization_id = Some i, am_access_level = mb_access_level b,
      am_status = ''active'', am_last_login_at = None\<rparr>" by (simp add: subordinate_def i)
  moreover from n obtain s3 where "contract s3 = contract s"
    and "s1 = s3\<lparr>admin_memberships := admin_memberships s3 @ [\<lparr>am_user_id = u_id u, am_organization_id = Some i,
      am_access_level = mb_access_level b, am_status = ''active'', am_last_login_at = None\<rparr>]\<rparr>"
    unfolding new_admin_def Let_def
    by (auto simp: bindE_eq_Inr insert_row_eq_Inr new_fan_def dest!: hash_password_contract add_user_contract)
  moreover have "admin_memberships s' = admin_memberships s1"
    using record_audit_contract [OF l] assign_artists_eq [OF a] by (simp add: contract_def)
  ultimately show ?thesis by (simp add: contract_def)
next
  case (UpdateMember i j b c)
  with assms(1) obtain x where "update_organization_member i j b c s = Inr (x, s')"
    by (auto simp: partner_op_def bindE_eq_Inr)
  then obtain u m level st s1 l where v: "require_member_management c i s = Inr ()" "member_or_404 i j s = Inr (u, m)"
      "require_subordinate_role c (sent (mu_access_level b) None) (Some (am_access_level m)) = Inr ()"
      "sent_text (mu_access_level b) (am_access_level m) = Inr level"
    and n: "(case mu_display_name b of None \<Rightarrow> Inr s | Some None \<Rightarrow> Inl IntegrityError
      | Some (Some n) \<Rightarrow> set_user j (\<lambda>u. u\<lparr>u_nickname := Some n\<rparr>) s) = Inr s1"
    and l: "record_audit l (if level \<noteq> am_access_level m \<or> st \<noteq> am_status m
        then revoke_member_sessions j (put_membership (m\<lparr>am_access_level := level, am_status := st\<rparr>) s1)
        else put_membership (m\<lparr>am_access_level := level, am_status := st\<rparr>) s1) = Inr s'"
    unfolding update_organization_member_def Let_def bindE_eq_Inr split_paired_Ex prod.case by auto
  have i: "i = org_id g" using management_scope [OF v(1)] assms(2,3) UpdateMember by simp
  have m: "m \<in> set (admin_memberships s)" "am_organization_id m = Some i" "am_user_id m = j"
    using v(2) by (auto simp: member_or_404_def option_eq_Inr if_eq_Inr dest: find_SomeD)
  have "am_access_level m \<in> set MEMBER_LEVELS" using m assms(5) by (simp add: memberships_valid_def)
  then have sub: "subordinate (org_id g) m" "subordinate (org_id g) (m\<lparr>am_access_level := level, am_status := st\<rparr>)"
    using assms(2,4) subordinate_role [OF v(3)] v(4) UpdateMember m(2) i
    by (auto simp: subordinate_def valid_levels_def sent_text_def sent_def split: option.splits)
  have "contract s1 = contract s" using n by (auto split: option.splits dest: set_user_contract)
  then have "admin_memberships s' = update_where (\<lambda>x. am_user_id x = j)
      (\<lambda>_. m\<lparr>am_access_level := level, am_status := st\<rparr>) (admin_memberships s)"
    using record_audit_contract [OF l] m(3)
    by (auto simp: contract_def put_membership_def revoke_member_sessions_def split: if_splits)
  moreover have "x = m" if "x \<in> set (admin_memberships s)" "am_user_id x = j" for x
    using that m assms(5) by (auto simp: memberships_valid_def unique_by_def distinct_map inj_on_def)
  ultimately show ?thesis using sub by (auto intro: filter_update_where)
next
  case (SetMemberArtists i j ids c)
  then show ?thesis
    using assms(1) by (auto simp: partner_op_def set_member_artists_def bindE_eq_Inr contract_def
        dest!: record_audit_contract assign_artists_eq)
next
  case (ResetMemberPassword kdf i j c)
  with assms(1) have "contract s' = contract s" by (auto simp: partner_op_def bindE_eq_Inr dest: reset_password_ok)
  then show ?thesis by (simp add: contract_def)
qed (use assms(1,2) in \<open>auto simp: partner_op_def create_organization_def update_organization_def
      set_organization_artists_def bindE_eq_Inr require_root_def\<close>)

text \<open>A company administrator assigns an artist to the editor, and makes the viewer an editor.\<close>

definition partner_db :: db where
  "partner_db = admin_db\<lparr>artists := [\<lparr>ar_id = ''art'', ar_name = ''A''\<rparr>, \<lparr>ar_id = ''bea'', ar_name = ''B''\<rparr>],
     organization_artists := [\<lparr>oa_organization_id = ''org'', oa_artist_id = ''art''\<rparr>,
       \<lparr>oa_organization_id = ''org'', oa_artist_id = ''bea''\<rparr>]\<rparr>"

definition a_company_admin :: admin_context where
  "a_company_admin = \<lparr>ctx_user = an_admin ''cara'', ctx_membership = a_member ''cara'' (Some ''org'') ''company_admin'',
     ctx_organization = Some \<lparr>org_id = ''org'', org_name = [], org_slug = [], org_status = ''active'',
       org_contract_starts_at = None, org_contract_ends_at = None, org_logo_asset_id = None\<rparr>,
     ctx_artists = [''art'', ''bea''], ctx_actions = allowed_actions ''company_admin''\<rparr>"

definition assign_bea :: partner_request where
  "assign_bea = SetMemberArtists ''org'' ''ed'' [''bea''] a_company_admin"

theorem partners_stay_in_contract_witness:
  "\<exists>c (g :: organization). load_admin_context (an_admin ''ed'') (run_partners [assign_bea] partner_db) = Inr c \<and> ctx_artists c = [''bea''] \<and>
    list_ex (\<lambda>x. oa_organization_id x = org_id g \<and> oa_artist_id x = ''bea'') (organization_artists (run_partners [assign_bea] partner_db))"
proof -
  have ok: "assignments_ok partner_db"
    by (simp add: assignments_ok_def partner_db_def admin_db_def a_member_def unique_by_def may_work_for_def
        represents_def organization_artist_ids_def)
  have "case load_admin_context (an_admin ''ed'') (run_partners [assign_bea] partner_db) of
      Inl e \<Rightarrow> False | Inr c \<Rightarrow> ctx_artists c = [''bea''] \<and> (case ctx_organization c of None \<Rightarrow> False | Some g \<Rightarrow> True)" by code_simp
  then obtain c g where c: "load_admin_context (an_admin ''ed'') (run_partners [assign_bea] partner_db) = Inr c"
    "ctx_organization c = Some g" "ctx_artists c = [''bea'']" by (auto simp: case_Inr_iff split: option.splits)
  from partners_stay_in_contract [OF ok c(1,2), of "''bea''"] c have
    "list_ex (\<lambda>x. oa_organization_id x = org_id g \<and> oa_artist_id x = ''bea'') (organization_artists (run_partners [assign_bea] partner_db))"
    by simp
  with c show ?thesis by (intro exI [of _ c] exI [of _ g]) simp
qed

definition promote_viewer :: partner_request where
  "promote_viewer = UpdateMember ''org'' ''vic'' \<lparr>mu_display_name = None, mu_access_level = Some (Some ''editor''), mu_status = None\<rparr>
     a_company_admin"

theorem no_peer_administrators_witness:
  "\<exists>r s'. partner_op promote_viewer partner_db = Inr (r, s') \<and>
    map am_access_level (filter (\<lambda>m. am_user_id m = ''vic'') (admin_memberships s')) = [''editor''] \<and>
    filter (\<lambda>m. \<not> subordinate ''org'' m) (admin_memberships s') = filter (\<lambda>m. \<not> subordinate ''org'' m) (admin_memberships partner_db)"
proof -
  have "case partner_op promote_viewer partner_db of Inl e \<Rightarrow> False
    | Inr (r, s') \<Rightarrow> map am_access_level (filter (\<lambda>m. am_user_id m = ''vic'') (admin_memberships s')) = [''editor'']" by code_simp
  then obtain r s' where s': "partner_op promote_viewer partner_db = Inr (r, s')"
    "map am_access_level (filter (\<lambda>m. am_user_id m = ''vic'') (admin_memberships s')) = [''editor'']"
    by (auto simp: case_Inr_iff)
  let ?g = "\<lparr>org_id = ''org'', org_name = [], org_slug = [], org_status = ''active'',
       org_contract_starts_at = None, org_contract_ends_at = None, org_logo_asset_id = None\<rparr> :: organization"
  have "\<not> is_root (requester promote_viewer)" "ctx_organization (requester promote_viewer) = Some ?g"
    by (simp_all add: promote_viewer_def a_company_admin_def is_root_def a_member_def)
  moreover have "valid_levels promote_viewer" by code_simp
  moreover have "memberships_valid partner_db"
    by (simp add: memberships_valid_def partner_db_def admin_db_def a_member_def unique_by_def MEMBER_LEVELS_def)
  ultimately show ?thesis using no_peer_administrators [OF s'(1)] s' by simp
qed

text \<open>
  Suspending a member or changing its level ends all of its sessions; a null for a column that
  may not be null passes the validation of the body and ends in a server error.
\<close>

lemma suspended_member_signed_out:
  assumes "r \<in> set (refresh_tokens (revoke_member_sessions i s))" and "rt_user_id r = i"
  shows "rt_revoked_at r \<noteq> None"
proof -
  from assms(1) have "(\<exists>x. r = x\<lparr>rt_revoked_at := Some (now s)\<rparr>) \<or> (rt_user_id r = i \<longrightarrow> (\<exists>y. rt_revoked_at r = Some y))"
    by (simp add: revoke_member_sessions_def set_update_where image_iff) blast
  with assms(2) show ?thesis by (elim disjE exE) simp_all
qed

lemma null_name_unanswered:
  assumes "is_root c" and "organization_or_404 i s = Inr g" and "ou_name b = Some None" and "ou_slug b = None"
    and "ou_contract_starts_at b = None" and "ou_contract_ends_at b = None" and "ou_logo_asset_id b = None"
    and "validate_contract_window (org_contract_starts_at g) (org_contract_ends_at g) = Inr ()"
  shows "update_organization stored i b c s = Inl IntegrityError"
  using assms by (simp add: update_organization_def require_root_def sent_def sent_text_def)

end
