(* ===== verification/Privacy.thy ===== *)
theory Privacy
  imports Accounts
begin

text \<open>
  What a fan may do with the own account (\<open>backend/app/routers/fan.py\<close>): consents, the export of
  personal data, the deletion of the account, the profile, preferences, push devices and the
  inbox of notifications.
\<close>

section \<open>Listings\<close>

text \<open>\<open>order_by(x.created_at, x.id)\<close> and the same with both columns descending.\<close>

definition oldest :: "('r \<Rightarrow> time) \<Rightarrow> ('r \<Rightarrow> ident) \<Rightarrow> 'r list \<Rightarrow> 'r list" where
  "oldest stamp i = sort_key (\<lambda>r. (stamp r, i r))"

definition newest :: "('r \<Rightarrow> time) \<Rightarrow> ('r \<Rightarrow> ident) \<Rightarrow> 'r list \<Rightarrow> 'r list" where
  "newest stamp i rows = rev (oldest stamp i rows)"

lemma set_oldest [simp]: "set (oldest stamp i rows) = set rows"
  and set_newest [simp]: "set (newest stamp i rows) = set rows"
  by (simp_all add: oldest_def newest_def)

section \<open>Consents and the export\<close>

definition list_consent_history :: "ident \<Rightarrow> db \<Rightarrow> consent_record list" where
  "list_consent_history u s =
    oldest con_created_at con_id (filter (\<lambda>r. con_user_id r = Some u) (consent_records s))"

definition record_consent ::
  "string \<Rightarrow> string \<Rightarrow> bool \<Rightarrow> string \<Rightarrow> ident \<Rightarrow> db \<Rightarrow> exn + consent_record \<times> db" where
  "record_consent policy_key policy_version granted source u s =
    (let r = \<lparr>con_id = new_id ''consent_'' s, con_user_id = Some u, con_policy_key = policy_key,
       con_policy_version = policy_version, con_granted = granted, con_source = source,
       con_created_at = now s\<rparr>
     in bindE (insert_row (\<lambda>r x. con_id x = con_id r) r (consent_records s)) (\<lambda>rows.
        Inr (r, (draw s)\<lparr>consent_records := rows\<rparr>)))"

text \<open>The portable data of a fan: the profile without credentials, and what belongs to it.\<close>

record fan_profile =
  fp_id :: ident
  fp_email :: "string option"
  fp_nickname :: "string option"
  fp_role :: string
  fp_favorite_artist_ids :: "string list"
  fp_favorite_member_ids :: "string list"
  fp_onboarding_completed :: bool
  fp_notification_email_enabled :: bool

record personal_data =
  px_profile :: fan_profile
  px_collection :: "(ident \<times> ident \<times> int \<times> string \<times> time) list"
  px_orders :: "(ident \<times> ident \<times> string \<times> int \<times> string \<times> time) list"
  px_points :: "(ident \<times> string \<times> int \<times> time) list"
  px_tickets :: "(ident \<times> string \<times> string \<times> string \<times> time) list"
  px_notifications :: "(ident \<times> string \<times> bool \<times> time) list"
  px_consents :: "consent_record list"

definition profile_of :: "user \<Rightarrow> fan_profile" where
  "profile_of u =
    \<lparr>fp_id = u_id u, fp_email = u_email u, fp_nickname = u_nickname u, fp_role = role_value (u_role u),
     fp_favorite_artist_ids = u_favorite_artist_ids u, fp_favorite_member_ids = u_favorite_member_ids u,
     fp_onboarding_completed = u_onboarding_completed u,
     fp_notification_email_enabled = u_notification_email_enabled u\<rparr>"

text \<open>
  The export sorts by the instant only; rows of one instant come in the order of the table,
  which is one of the orders the database may choose.
\<close>

definition export_personal_data :: "user \<Rightarrow> db \<Rightarrow> personal_data" where
  "export_personal_data u s =
    \<lparr>px_profile = profile_of u,
     px_collection = map (\<lambda>c. (uc_id c, uc_card_id c, uc_serial_number c, uc_acquisition_source c, uc_acquired_at c))
       (sort_key uc_acquired_at (filter (\<lambda>c. uc_user_id c = u_id u) (user_cards s))),
     px_orders = map (\<lambda>o'. (so_id o', so_product_id o', so_product_name o', so_price_points o', so_status o', so_created_at o'))
       (sort_key so_created_at (filter (\<lambda>o'. so_user_id o' = u_id u) (shop_orders s))),
     px_points = map (\<lambda>p. (pl_id p, pl_transaction_type p, pl_amount p, pl_created_at p))
       (sort_key pl_created_at (filter (\<lambda>p. pl_user_id p = u_id u) (point_ledger s))),
     px_tickets = map (\<lambda>t. (st_id t, st_category t, st_subject t, st_status t, st_created_at t))
       (sort_key st_created_at (filter (\<lambda>t. st_user_id t = u_id u) (support_tickets s))),
     px_notifications = map (\<lambda>n. (n_id n, n_kind n, n_is_read n, n_created_at n))
       (sort_key n_created_at (filter (\<lambda>n. n_user_id n = u_id u) (notifications s))),
     px_consents = list_consent_history (u_id u) s\<rparr>"

section \<open>Deletion of the account\<close>

text \<open>The Korean name every deleted account gets, in ASCII here.\<close>

definition DELETED_NICKNAME :: string where
  "DELETED_NICKNAME = ''(deleted user)''"

definition anonymous :: "time \<Rightarrow> user \<Rightarrow> user" where
  "anonymous t u =
    u\<lparr>u_email := None, u_username := None, u_password_hash := None, u_must_change_password := False,
      u_nickname := Some DELETED_NICKNAME, u_favorite_artist_ids := [], u_favorite_member_ids := [],
      u_onboarding_completed := False, u_notification_email_enabled := False, u_deleted_at := Some t\<rparr>"

text \<open>The sessions end, the refresh tokens are revoked and the devices are switched off.\<close>

definition sign_out_everywhere :: "ident \<Rightarrow> db \<Rightarrow> db" where
  "sign_out_everywhere u s =
    s\<lparr>login_sessions := filter (\<lambda>x. se_user_id x \<noteq> u) (login_sessions s),
      refresh_tokens := update_where (\<lambda>r. rt_user_id r = u \<and> rt_revoked_at r = None)
        (\<lambda>r. r\<lparr>rt_revoked_at := Some (now s)\<rparr>) (refresh_tokens s),
      push_devices := update_where (\<lambda>d. pd_user_id d = u) (\<lambda>d. d\<lparr>pd_enabled := False\<rparr>) (push_devices s)\<rparr>"

definition delete_account :: "string \<Rightarrow> ident \<Rightarrow> db \<Rightarrow> exn + unit \<times> db" where
  "delete_account confirmation u s =
    (if confirmation \<noteq> ''DELETE MY ACCOUNT'' then Inl (AppError 422 ''INVALID_ACCOUNT_DELETION_CONFIRMATION'')
     else
       bindE (set_user u (anonymous (now s)) s) (\<lambda>s1.
       bindE (record_audit
           \<lparr>au_actor_user_id = None, au_action = ''account.deleted'', au_entity_type = ''user'',
            au_entity_id = u, au_organization_id = None, au_artist_id = None,
            au_details = [(''reason'', JStr ''self_service'')]\<rparr>
           (sign_out_everywhere u s1)) (\<lambda>s2. Inr ((), s2))))"

section \<open>Profile and preferences\<close>

record profile_body =
  pr_nickname :: string
  pr_favorite_artist_ids :: "ident list"
  pr_favorite_member_ids :: "ident list"

definition validate_favorites :: "ident list \<Rightarrow> ident list \<Rightarrow> db \<Rightarrow> exn + unit" where
  "validate_favorites artist_ids member_ids s =
    (if artist_ids \<noteq> [] \<and> set (filter (\<lambda>i. i \<in> set artist_ids) (map ar_id (artists s))) \<noteq> set artist_ids
     then Inl (AppError 422 ''INVALID_FAVORITE_ARTIST'')
     else if member_ids = [] then Inr ()
     else
       let rows = filter (\<lambda>m. mem_id m \<in> set member_ids) (members s)
       in if length rows \<noteq> length (remdups member_ids) then Inl (AppError 422 ''INVALID_FAVORITE_MEMBER'')
          else if list_ex (\<lambda>m. mem_artist_id m \<notin> set artist_ids) rows
          then Inl (AppError 422 ''FAVORITE_MEMBER_ARTIST_MISMATCH'')
          else Inr ())"

definition nickname_taken :: "ident \<Rightarrow> string \<Rightarrow> db \<Rightarrow> bool" where
  "nickname_taken u nickname s \<longleftrightarrow>
    list_ex (\<lambda>x. u_role x = FAN \<and> u_id x \<noteq> u \<and> map_option py_lower (u_nickname x) = Some (py_lower nickname)) (users s)"

definition update_profile :: "profile_body \<Rightarrow> ident \<Rightarrow> db \<Rightarrow> exn + unit \<times> db" where
  "update_profile b u s =
    (let nickname = py_strip (pr_nickname b)
     in if nickname = [] then Inl (AppError 422 ''INVALID_NICKNAME'')
        else if nickname_taken u nickname s then Inl (AppError 409 ''NICKNAME_ALREADY_TAKEN'')
        else
          bindE (validate_favorites (pr_favorite_artist_ids b) (pr_favorite_member_ids b) s) (\<lambda>_.
          bindE (set_user u (\<lambda>x. x\<lparr>u_nickname := Some nickname,
              u_favorite_artist_ids := pr_favorite_artist_ids b,
              u_favorite_member_ids := pr_favorite_member_ids b, u_onboarding_completed := True\<rparr>) s) (\<lambda>s1.
          Inr ((), s1))))"

definition update_notification_preferences :: "bool \<Rightarrow> ident \<Rightarrow> db \<Rightarrow> exn + bool \<times> db" where
  "update_notification_preferences enabled u s =
    bindE (set_user u (\<lambda>x. x\<lparr>u_notification_email_enabled := enabled\<rparr>) s) (\<lambda>s1. Inr (enabled, s1))"

text \<open>The counters of the own account: favourites and follows, followers, points.\<close>

definition me :: "user \<Rightarrow> db \<Rightarrow> nat \<times> nat \<times> int \<times> bool" where
  "me u s =
    (length (u_favorite_artist_ids u) + length (u_favorite_member_ids u) +
       count_where (\<lambda>f. fo_follower_id f = u_id u) (follows s),
     count_where (\<lambda>f. fo_following_id f = u_id u) (follows s),
     (case find (\<lambda>b. pb_user_id b = u_id u) (point_balances s) of None \<Rightarrow> 0 | Some b \<Rightarrow> pb_balance b),
     present (u_password_hash u))"

section \<open>Push devices\<close>

definition find_device :: "string \<Rightarrow> db \<Rightarrow> push_device option" where
  "find_device token s = find (\<lambda>d. pd_token d = token) (push_devices s)"

definition put_device :: "push_device \<Rightarrow> db \<Rightarrow> db" where
  "put_device d s = s\<lparr>push_devices := update_where (\<lambda>x. pd_id x = pd_id d) (\<lambda>_. d) (push_devices s)\<rparr>"

definition clash_device :: "push_device \<Rightarrow> push_device \<Rightarrow> bool" where
  "clash_device r x \<longleftrightarrow> pd_id x = pd_id r \<or> pd_token x = pd_token r"

definition list_push_devices :: "ident \<Rightarrow> db \<Rightarrow> push_device list" where
  "list_push_devices u s =
    newest pd_last_seen_at pd_id (filter (\<lambda>d. pd_user_id d = u \<and> pd_enabled d) (push_devices s))"

definition register_push_device :: "string \<Rightarrow> string \<Rightarrow> ident \<Rightarrow> db \<Rightarrow> exn + push_device \<times> db" where
  "register_push_device token platform u s =
    (case find_device token s of
       Some d \<Rightarrow>
         if pd_user_id d \<noteq> u then Inl (AppError 409 ''PUSH_DEVICE_OWNED_BY_ANOTHER_USER'')
         else
           let d' = d\<lparr>pd_platform := platform, pd_enabled := True, pd_last_seen_at := now s\<rparr>
           in Inr (d', put_device d' s)
     | None \<Rightarrow>
         let d = \<lparr>pd_id = new_id ''push_device_'' s, pd_user_id = u, pd_token = token,
           pd_platform = platform, pd_enabled = True, pd_last_seen_at = now s\<rparr>
         in bindE (insert_row clash_device d (push_devices s)) (\<lambda>rows.
            Inr (d, (draw s)\<lparr>push_devices := rows\<rparr>)))"

definition unregister_push_device :: "ident \<Rightarrow> ident \<Rightarrow> db \<Rightarrow> exn + ident \<times> db" where
  "unregister_push_device i u s =
    (case find (\<lambda>d. pd_id d = i \<and> pd_user_id d = u) (push_devices s) of
       None \<Rightarrow> Inl (AppError 404 ''PUSH_DEVICE_NOT_FOUND'')
     | Some d \<Rightarrow> Inr (pd_id d, put_device (d\<lparr>pd_enabled := False\<rparr>) s))"

definition unregister_push_device_by_token :: "string \<Rightarrow> ident \<Rightarrow> db \<Rightarrow> exn + ident option \<times> db" where
  "unregister_push_device_by_token token u s =
    (case find (\<lambda>d. pd_token d = token \<and> pd_user_id d = u) (push_devices s) of
       None \<Rightarrow> Inr (None, s)
     | Some d \<Rightarrow> Inr (Some (pd_id d), put_device (d\<lparr>pd_enabled := False\<rparr>) s))"

section \<open>The inbox\<close>

text \<open>The artist of the entity a notification is about, when the entity has one.\<close>

definition artist_in :: "('r \<Rightarrow> ident) \<Rightarrow> ('r \<Rightarrow> ident option) \<Rightarrow> 'r list \<Rightarrow> ident \<Rightarrow> ident option" where
  "artist_in key artist rows i = (case find (\<lambda>r. key r = i) rows of None \<Rightarrow> None | Some r \<Rightarrow> artist r)"

definition tier_artist :: "ident \<Rightarrow> db \<Rightarrow> ident option" where
  "tier_artist i s = (case find (\<lambda>t. pti_id t = i) (pass_tiers s) of None \<Rightarrow> None
     | Some t \<Rightarrow> artist_in ps_id ps_artist_id (pass_seasons s) (pti_season_id t))"

definition grant_artist :: "ident \<Rightarrow> db \<Rightarrow> ident option" where
  "grant_artist i s = (case find (\<lambda>g. rg_id g = i) (reward_grants s) of None \<Rightarrow> None
     | Some g \<Rightarrow> artist_in rw_id rw_artist_id (reward_catalog s) (rg_reward_id g))"

definition entity_artist :: "string \<Rightarrow> ident \<Rightarrow> db \<Rightarrow> ident option" where
  "entity_artist entity_type i s =
    (if entity_type = ''event'' then artist_in e_id e_artist_id (events s) i
     else if entity_type = ''pass_season'' then artist_in ps_id ps_artist_id (pass_seasons s) i
     else if entity_type = ''pass_tier'' then tier_artist i s
     else if entity_type = ''reward_grant'' then grant_artist i s
     else if entity_type = ''card'' then artist_in c_id c_artist_id (cards s) i
     else if entity_type = ''drop'' then artist_in d_id d_artist_id (drops s) i
     else None)"

definition notification_artist :: "notification \<Rightarrow> db \<Rightarrow> ident option" where
  "notification_artist r s =
    (if present (n_entity_type r) \<and> present (n_entity_id r)
     then let a = entity_artist (the (n_entity_type r)) (the (n_entity_id r)) s
       in if present a then a else None
     else None)"

definition notification_artist_ids :: "notification list \<Rightarrow> db \<Rightarrow> (ident \<times> ident) list" where
  "notification_artist_ids rows s =
    concat (map (\<lambda>r. case notification_artist r s of None \<Rightarrow> [] | Some a \<Rightarrow> [(n_id r, a)]) rows)"

text \<open>The notifications of a fan, newest first, each with the artist and its name.\<close>

definition artist_name :: "ident option \<Rightarrow> db \<Rightarrow> string option" where
  "artist_name a s = (case a of None \<Rightarrow> None
     | Some i \<Rightarrow> map_option ar_name (find (\<lambda>x. ar_id x = i) (artists s)))"

definition inbox_item :: "(ident \<times> ident) list \<Rightarrow> db \<Rightarrow> notification \<Rightarrow> notification \<times> ident option \<times> string option" where
  "inbox_item ids s r = (let a = map_of ids (n_id r) in (r, a, artist_name a s))"

definition notification_list :: "ident \<Rightarrow> db \<Rightarrow> (notification \<times> ident option \<times> string option) list" where
  "notification_list u s =
    (let rows = newest n_created_at n_id (filter (\<lambda>r. n_user_id r = u) (notifications s))
     in map (inbox_item (notification_artist_ids rows s) s) rows)"

text \<open>
  The stream looks at the unread notifications every 15 seconds and sends those it has not sent
  before; \<open>seen\<close> is its state, and each look sees the database of its time.
\<close>

definition stream_step ::
  "ident \<Rightarrow> ident list \<Rightarrow> db \<Rightarrow> (notification \<times> ident option \<times> string option) list \<times> ident list" where
  "stream_step u seen s =
    (let rows = oldest n_created_at n_id (filter (\<lambda>r. n_user_id r = u \<and> \<not> n_is_read r) (notifications s));
         ids = notification_artist_ids rows s;
         fresh = filter (\<lambda>r. n_id r \<notin> set seen) rows
     in (map (inbox_item ids s) fresh, seen @ map n_id fresh))"

fun notification_stream ::
  "ident \<Rightarrow> ident list \<Rightarrow> db list \<Rightarrow> (notification \<times> ident option \<times> string option) list list" where
  "notification_stream u seen [] = []"
| "notification_stream u seen (s # ss) =
    (let (sent, seen') = stream_step u seen s in sent # notification_stream u seen' ss)"

definition unread :: "ident \<Rightarrow> notification \<Rightarrow> bool" where
  "unread u r \<longleftrightarrow> n_user_id r = u \<and> \<not> n_is_read r"

definition unread_notification_count :: "ident \<Rightarrow> db \<Rightarrow> nat" where
  "unread_notification_count u s = count_where (unread u) (notifications s)"

definition read_all_notifications :: "ident \<Rightarrow> db \<Rightarrow> nat \<times> db" where
  "read_all_notifications u s =
    (count_where (unread u) (notifications s),
     s\<lparr>notifications := update_where (unread u) (\<lambda>r. r\<lparr>n_is_read := True, n_read_at := Some (now s)\<rparr>) (notifications s)\<rparr>)"

definition read_notification :: "ident \<Rightarrow> bool \<Rightarrow> ident \<Rightarrow> db \<Rightarrow> exn + notification \<times> db" where
  "read_notification i was_read u s =
    (case find (\<lambda>r. n_id r = i \<and> n_user_id r = u) (notifications s) of
       None \<Rightarrow> Inl (AppError 404 ''NOTIFICATION_NOT_FOUND'')
     | Some r \<Rightarrow>
         let r' = r\<lparr>n_is_read := was_read, n_read_at := (if was_read then Some (now s) else None)\<rparr>
         in Inr (r', s\<lparr>notifications := update_where (\<lambda>x. n_id x = n_id r) (\<lambda>_. r') (notifications s)\<rparr>))"

section \<open>Analytics of the fan site\<close>

record analytics_body =
  ab_event_name :: string
  ab_artist_id :: "ident option"
  ab_card_id :: "ident option"
  ab_pack_id :: "ident option"
  ab_source :: "string option"
  ab_dedupe_key :: "string option"
  ab_metadata :: jobj

text \<open>The event, and whether it was recorded before.\<close>

definition create_analytics_event :: "analytics_body \<Rightarrow> ident \<Rightarrow> db \<Rightarrow> exn + (analytics_event \<times> bool) \<times> db" where
  "create_analytics_event b u s =
    (if present (ab_artist_id b) \<and> find (\<lambda>a. Some (ar_id a) = ab_artist_id b) (artists s) = None
     then Inl (AppError 404 ''ARTIST_NOT_FOUND'')
     else
       let key = (if present (ab_dedupe_key b) then Some (''fan:'' @ u @ '':'' @ the (ab_dedupe_key b)) else None);
           replayed = (key \<noteq> None \<and> list_ex (\<lambda>e. ae_dedupe_key e = key) (analytics_events s))
       in bindE (record_analytics_event
             \<lparr>aa_event_name = ab_event_name b, aa_user_id = Some u, aa_organization_id = None,
              aa_artist = ab_artist_id b, aa_card_id = ab_card_id b, aa_pack_id = ab_pack_id b,
              aa_source = ab_source b, aa_dedupe_key = key, aa_metadata = ab_metadata b\<rparr> s) (\<lambda>(e, s1).
          Inr ((e, replayed), s1)))"

definition my_event_applications :: "ident \<Rightarrow> db \<Rightarrow> (event_application \<times> event_row) list" where
  "my_event_applications u s =
    concat (map (\<lambda>a. case find (\<lambda>e. e_id e = ea_event_id a) (events s) of None \<Rightarrow> [] | Some e \<Rightarrow> [(a, e)])
      (newest ea_created_at ea_id (filter (\<lambda>a. ea_user_id a = u) (event_applications s))))"

section \<open>What the deletion of an account leaves\<close>

lemma issue_refresh_users: "issue_refresh_token cfg u c f s = Inr (x, s') \<Longrightarrow> users s' = users s"
  by (auto simp: issue_refresh_token_def inr_simps Let_def split: if_splits)

lemma issue_pair_keeps_users: "issue_token_pair cfg u c s = Inr (x, s') \<Longrightarrow> users s' = users s"
  by (auto simp: issue_token_pair_def inr_simps dest!: issue_access_tokenE issue_refresh_users)

lemma exchange_refresh_users:
  assumes "exchange_refresh cfg client claims r s = Inr (x, s')"
  shows "users s' = users s"
proof -
  from assms obtain v access raw new s1 s2 where
    a: "issue_access_token cfg v client (set_refresh (rt_jti r) (\<lambda>x. x\<lparr>rt_used_at := Some (now s)\<rparr>) s) = Inr (access, s1)"
    and b: "issue_refresh_token cfg v client (Some (rt_family_id r)) s1 = Inr ((raw, new), s2)"
    and s': "s' = set_refresh (rt_jti r) (\<lambda>x. x\<lparr>rt_replaced_by_jti := Some (rt_jti new)\<rparr>) s2"
    by (auto simp: exchange_refresh_def inr_simps)
  show ?thesis using issue_access_tokenE [OF a] issue_refresh_users [OF b]
    by (simp add: s' set_refresh_def)
qed

lemma rotate_refresh_users: "rotate_refresh_token cfg raw c s = (x, s') \<Longrightarrow> users s' = users s"
  by (auto simp: rotate_refresh_token_def run_tx_def revoke_refresh_family_def dest!: exchange_refresh_users
      split: sum.splits prod.splits if_splits)

lemma logout_users [simp]: "users (logout cfg client tok cookies legacy s) = users s"
  by (simp add: logout_def Let_def revoke_refresh_family_def split: sum.split option.split)

lemma session_step_users [simp]: "users (session_step cfg q s) = users s"
proof (cases "snd q")
  case (Refresh client cookies legacy)
  obtain x s' where e: "refresh_access_token cfg client cookies legacy (s\<lparr>now := fst q\<rparr>) = (x, s')" by fastforce
  from refresh_change [OF e] have "users s' = users s"
    by (elim disjE exE) (auto dest: rotate_refresh_users)
  with e show ?thesis by (simp add: session_step_def Refresh)
next
  case (SignIn u client)
  then show ?thesis
    by (auto simp: session_step_def run_tx_def dest!: issue_pair_keeps_users split: sum.split)
qed (simp add: session_step_def)

lemma run_sessions_users [simp]: "users (run_sessions cfg qs s) = users s"
  unfolding run_sessions_def by (induction qs arbitrary: s) simp_all

lemma get_userD: "get_user i s = Some u \<Longrightarrow> u \<in> set (users s) \<and> u_id u = i"
  by (auto simp: get_user_def dest: find_SomeD)

lemma current_user_live:
  assumes "current_user cfg client authorization token s = Inr v"
  shows "v \<in> set (users s) \<and> u_deleted_at v = None"
  using assms
  by (auto simp: current_user_def live_user_def inr_simps dest: get_userD split: if_splits option.splits)

text \<open>What assigning to the columns of a user does to the table.\<close>

lemma set_user_users:
  assumes "set_user i f s = Inr s'"
  shows "users s' = update_where (\<lambda>x. u_id x = i) f (users s)"
proof (cases "get_user i s")
  case None
  then have "update_where (\<lambda>x. u_id x = i) f (users s) = users s"
    by (intro update_where_id) (auto simp: get_user_def find_None_iff)
  with None assms show ?thesis by (simp add: set_user_def)
qed (use assms in \<open>auto simp: set_user_def split: if_splits\<close>)

lemma ball_update_where: "(\<forall>x \<in> set (update_where P f xs). Q x) \<longleftrightarrow> (\<forall>x \<in> set xs. if P x then Q (f x) else Q x)"
  by (auto simp: set_update_where)

lemma set_user_only: "set_user i f s = Inr s' \<Longrightarrow> s' = s\<lparr>users := users s'\<rparr>"
  by (auto simp: set_user_def split: option.splits if_splits)

lemma delete_accountE:
  assumes "delete_account confirmation u s = Inr ((), s')"
  obtains s1 s2 where "set_user u (anonymous (now s)) s = Inr s1" "s2 = sign_out_everywhere u s1"
    "users s' = users s2" "refresh_tokens s' = refresh_tokens s2" "login_sessions s' = login_sessions s2"
    "push_devices s' = push_devices s2"
proof -
  from assms obtain s1 a where 1: "set_user u (anonymous (now s)) s = Inr s1"
    and 2: "record_audit a (sign_out_everywhere u s1) = Inr s'"
    by (auto simp: delete_account_def inr_simps)
  show thesis by (rule that [OF 1 refl]) (use record_audit_touch [OF 2] in auto)
qed


definition leaving_fan :: user where
  "leaving_fan = (new_fan ''user_1'' (Some ''fan@x'') (Some ''Fan''))\<lparr>u_password_hash := Some ''h''\<rparr>"

definition leaving_db :: db where
  "leaving_db = empty_db\<lparr>users := [leaving_fan], login_sessions := [\<lparr>se_token = ''t'', se_user_id = ''user_1''\<rparr>],
    refresh_tokens := [sample_token ''j'' ''raw'']\<rparr>"

definition left_db :: db where
  "left_db = (case delete_account ''DELETE MY ACCOUNT'' ''user_1'' leaving_db of Inl e \<Rightarrow> leaving_db | Inr (_, s) \<Rightarrow> s)"

lemma left_db: "delete_account ''DELETE MY ACCOUNT'' ''user_1'' leaving_db = Inr ((), left_db)"
  by (simp add: left_db_def delete_account_def leaving_db_def leaving_fan_def set_user_def get_user_def
      record_audit_def insert_row_def empty_db_def sign_out_everywhere_def)


text \<open>
  Every deleted account gets the same nickname, which is unique among fans: while one deleted
  account is kept, the deletion of another one ends in an unhandled exception.
\<close>

theorem second_deletion_fails:
  assumes "get_user u s = Some v" and "x \<in> set (users s)" and "u_id x \<noteq> u" and "u_role x = u_role v"
    and "u_nickname x = Some DELETED_NICKNAME" and "confirmation = ''DELETE MY ACCOUNT''"
  shows "delete_account confirmation u s = Inl IntegrityError"
proof -
  have "clash_user (anonymous (now s) v) x"
    using assms(4,5) by (simp add: clash_user_def nickname_key_def anonymous_def DELETED_NICKNAME_def)
  with assms(2,3) have "list_ex (\<lambda>x. u_id x \<noteq> u \<and> clash_user (anonymous (now s) v) x) (users s)"
    by (auto simp: list_ex_iff)
  with assms(1,6) show ?thesis by (simp add: delete_account_def set_user_def)
qed

text \<open>
  The link to a social account is kept: signing in with it again is not refused, and writes the
  address and the name the provider sends back into the row that was made anonymous.
\<close>

theorem social_sign_in_restores_identity:
  assumes "find (social_account_id p) (social_accounts s) = Some a" and "get_user (sa_user_id a) s = Some u"
    and "u_role u = FAN" and "u_email u = None" and "present (op_email p)" and "present (op_nickname p)"
    and "upsert_social_user p s = Inr (v, s')"
  shows "\<exists>w \<in> set (users s'). u_id w = u_id u \<and> u_email w = op_email p \<and> u_nickname w = op_nickname p \<and>
    u_deleted_at w = u_deleted_at u"
proof -
  from assms(2) have u: "u \<in> set (users s)" "u_id u = sa_user_id a" by (auto dest: get_userD)
  from assms obtain s2 where set: "set_user (u_id u) (refresh_from_profile p) s = Inr s2" and s': "users s' = users s2"
    by (auto simp: upsert_social_user_def linked_user_def inr_simps)
  have "refresh_from_profile p u \<in> set (users s')"
    using u by (auto simp: s' set_user_users [OF set] set_update_where)
  moreover have "u_id (refresh_from_profile p u) = u_id u \<and> u_email (refresh_from_profile p u) = op_email p \<and>
      u_nickname (refresh_from_profile p u) = op_nickname p \<and> u_deleted_at (refresh_from_profile p u) = u_deleted_at u"
    using assms(4-6) by (simp add: refresh_from_profile_def)
  ultimately show ?thesis by blast
qed

text \<open>A device of a deleted account stays taken: no other account can register it.\<close>

theorem device_stays_taken:
  assumes "find_device token s = Some d" and "pd_user_id d = w" and "delete_account confirmation w s = Inr ((), s')"
    and "w \<noteq> u"
  shows "register_push_device token platform u s' = Inl (AppError 409 ''PUSH_DEVICE_OWNED_BY_ANOTHER_USER'')"
proof -
  obtain s1 s2 where set: "set_user w (anonymous (now s)) s = Inr s1" and s2: "s2 = sign_out_everywhere w s1"
    and ds: "push_devices s' = push_devices s2"
    using assms(3) by (rule delete_accountE)
  have "push_devices s1 = push_devices s" by (subst set_user_only [OF set]) simp
  moreover have "\<exists>d'. find (\<lambda>d. pd_token d = token) (update_where (\<lambda>d. pd_user_id d = w) (\<lambda>d. d\<lparr>pd_enabled := False\<rparr>) ds) = Some d' \<and>
      pd_user_id d' = pd_user_id d" if "find (\<lambda>d. pd_token d = token) ds = Some d" for ds
    using that by (induction ds) (auto simp: update_where_def split: if_splits)
  ultimately obtain d' where "find_device token s' = Some d'" "pd_user_id d' = w"
    using assms(1,2) by (auto simp: find_device_def ds s2 sign_out_everywhere_def)
  with assms(4) show ?thesis by (simp add: register_push_device_def)
qed

section \<open>Names stay unique\<close>

text \<open>What the unique indexes of the table of users say.\<close>

definition users_apart :: "user list \<Rightarrow> bool" where
  "users_apart us \<longleftrightarrow> (\<forall>x \<in> set us. \<forall>y \<in> set us. u_id x \<noteq> u_id y \<longrightarrow> \<not> clash_user x y)"

lemma nickname_free:
  assumes "\<not> nickname_taken u n s" and "x \<in> set (users s)" and "u_id x \<noteq> u" and "u_role x = FAN"
    and "u_nickname w = Some n" and "nickname_key w \<noteq> None"
  shows "nickname_key x \<noteq> nickname_key w"
  using assms by (auto simp: nickname_taken_def nickname_key_def list_ex_iff split: option.splits if_splits)

lemma clash_user_sym: "clash_user x y \<Longrightarrow> clash_user y x"
  by (auto simp: clash_user_def)

text \<open>Assigning to a user without a clash keeps the users apart.\<close>

lemma set_user_apart:
  assumes "set_user u f s = Inr s'" and "users_apart (users s)" and "\<And>x. u_id (f x) = u_id x"
    and "\<And>x y. u_id x = u_id y \<Longrightarrow> x \<in> set (users s) \<Longrightarrow> y \<in> set (users s) \<Longrightarrow> x = y"
  shows "users_apart (users s')"
proof (cases "get_user u s")
  case None
  with assms(1,2) show ?thesis by (simp add: set_user_def)
next
  case (Some v)
  from Some have v: "v \<in> set (users s)" "u_id v = u" by (auto dest: get_userD)
  from Some assms(1) have free: "\<not> clash_user (f v) x" if "x \<in> set (users s)" "u_id x \<noteq> u" for x
    using that by (auto simp: set_user_def list_ex_iff split: if_splits)
  have row: "z \<in> set (users s) \<and> u_id z \<noteq> u \<or> z = f v" if "z \<in> set (users s')" for z
  proof -
    from that obtain x where x: "x \<in> set (users s)" and z: "z = (if u_id x = u then f x else x)"
      unfolding set_user_users [OF assms(1)] set_update_where by blast
    show ?thesis
    proof (cases "u_id x = u")
      case True
      with x v have "x = v" by (intro assms(4)) simp_all
      with True z show ?thesis by simp
    qed (use x z in simp)
  qed
  show ?thesis
    unfolding users_apart_def
  proof (intro ballI impI)
    fix x y assume "x \<in> set (users s')" "y \<in> set (users s')" and d: "u_id x \<noteq> u_id y"
    with row [of x] row [of y] consider "x \<in> set (users s)" "y \<in> set (users s)"
      | "x = f v" "y \<in> set (users s)" "u_id y \<noteq> u" | "y = f v" "x \<in> set (users s)" "u_id x \<noteq> u" by blast
    then show "\<not> clash_user x y"
    proof cases
      case 1
      with d assms(2) show ?thesis unfolding users_apart_def by blast
    next
      case 2
      with free [of y] show ?thesis by simp
    next
      case 3
      with free [of x] clash_user_sym [of x y] show ?thesis by blast
    qed
  qed
qed


definition two_fans_db :: db where
  "two_fans_db = empty_db\<lparr>users := [new_fan ''user_1'' None (Some ''Ann''), new_fan ''user_2'' None (Some ''Bob'')],
    artists := [\<lparr>ar_id = ''artist_1'', ar_name = ''A''\<rparr>]\<rparr>"


section \<open>The stream and the read marks\<close>

definition sent_ids :: "(notification \<times> ident option \<times> string option) list \<Rightarrow> ident list" where
  "sent_ids items = map (\<lambda>x. n_id (fst x)) items"

lemma sent_ids_simps [simp]: "sent_ids [] = []" "sent_ids (xs @ ys) = sent_ids xs @ sent_ids ys"
  by (simp_all add: sent_ids_def)

lemma stream_step_ids:
  assumes "unique_by n_id (notifications s)" and "stream_step u seen s = (sent, seen')"
  shows "distinct (sent_ids sent)"
    and "set (sent_ids sent) = {n_id r | r. r \<in> set (notifications s) \<and> unread u r} - set seen"
    and "seen' = seen @ sent_ids sent"
proof -
  let ?rows = "oldest n_created_at n_id (filter (\<lambda>r. n_user_id r = u \<and> \<not> n_is_read r) (notifications s))"
  let ?fresh = "filter (\<lambda>r. n_id r \<notin> set seen) ?rows"
  have sent: "sent = map (inbox_item (notification_artist_ids ?rows s) s) ?fresh"
    and seen': "seen' = seen @ map n_id ?fresh"
    using assms(2) by (auto simp: stream_step_def Let_def)
  have ids: "sent_ids sent = map n_id ?fresh"
    by (simp add: sent sent_ids_def inbox_item_def Let_def)
  have "distinct (map n_id (filter (\<lambda>r. n_user_id r = u \<and> \<not> n_is_read r) (notifications s)))"
    using assms(1) by (auto simp: unique_by_def intro: distinct_map_filter)
  then have "distinct (map n_id ?rows)"
    by (simp add: oldest_def distinct_map)
  then show "distinct (sent_ids sent)" unfolding ids by (rule distinct_map_filter)
  show "set (sent_ids sent) = {n_id r | r. r \<in> set (notifications s) \<and> unread u r} - set seen"
    unfolding ids by (auto simp: unread_def)
  show "seen' = seen @ sent_ids sent" by (simp add: seen' ids)
qed

lemma stream_ids:
  assumes "\<forall>s \<in> set ss. unique_by n_id (notifications s)"
  shows "distinct (sent_ids (concat (notification_stream u seen ss))) \<and>
    set (sent_ids (concat (notification_stream u seen ss))) =
      {n_id r | s r. s \<in> set ss \<and> r \<in> set (notifications s) \<and> unread u r} - set seen"
  using assms
proof (induction ss arbitrary: seen)
  case (Cons s ss)
  obtain sent seen' where step: "stream_step u seen s = (sent, seen')" by fastforce
  note ids = stream_step_ids [OF _ step]
  have "unique_by n_id (notifications s)" "\<forall>s \<in> set ss. unique_by n_id (notifications s)"
    using Cons.prems by simp_all
  note ids = ids [OF this(1)] and IH = Cons.IH [OF this(2), of seen']
  from IH ids show ?case
    by (auto simp: step Let_def)
qed simp_all

text \<open>The stream of a fan sends every notification exactly once: whatever is written between
  its looks at the inbox, no notification is sent twice, and what is sent is exactly what one of
  the looks saw unread.\<close>

theorem stream_sends_once:
  assumes "\<forall>s \<in> set ss. unique_by n_id (notifications s)"
  shows "distinct (sent_ids (concat (notification_stream u [] ss))) \<and>
    (i \<in> set (sent_ids (concat (notification_stream u [] ss))) \<longleftrightarrow>
      (\<exists>s \<in> set ss. \<exists>r \<in> set (notifications s). unread u r \<and> n_id r = i))"
proof -
  have "i \<in> {n_id r | s r. s \<in> set ss \<and> r \<in> set (notifications s) \<and> unread u r} - set [] \<longleftrightarrow>
      (\<exists>s \<in> set ss. \<exists>r \<in> set (notifications s). unread u r \<and> n_id r = i)" by auto
  with stream_ids [OF assms, of u "[]"] show ?thesis by simp
qed

definition inbox_row :: "ident \<Rightarrow> time \<Rightarrow> notification" where
  "inbox_row i t = \<lparr>n_id = i, n_user_id = ''user_1'', n_kind = ''k'', n_entity_type = None, n_entity_id = None,
     n_event_key = None, n_is_read = False, n_read_at = None, n_created_at = t\<rparr>"

theorem stream_sends_once_witness:
  "distinct (sent_ids (concat (notification_stream ''user_1'' []
     [empty_db\<lparr>notifications := [inbox_row ''b'' 2, inbox_row ''a'' 1]\<rparr>,
      empty_db\<lparr>notifications := [inbox_row ''b'' 2, inbox_row ''c'' 3]\<rparr>]))) \<and>
   ''c'' \<in> set (sent_ids (concat (notification_stream ''user_1'' []
     [empty_db\<lparr>notifications := [inbox_row ''b'' 2, inbox_row ''a'' 1]\<rparr>,
      empty_db\<lparr>notifications := [inbox_row ''b'' 2, inbox_row ''c'' 3]\<rparr>])))"
proof -
  let ?ss = "[empty_db\<lparr>notifications := [inbox_row ''b'' 2, inbox_row ''a'' 1]\<rparr>,
      empty_db\<lparr>notifications := [inbox_row ''b'' 2, inbox_row ''c'' 3]\<rparr>]"
  have "\<forall>s \<in> set ?ss. unique_by n_id (notifications s)"
    by (simp add: unique_by_def inbox_row_def)
  from stream_sends_once [OF this, of "''user_1''" "''c''"] show ?thesis
    by (simp add: inbox_row_def unread_def)
qed

text \<open>Marking everything as read answers how many were unread and leaves none of them.\<close>

theorem read_all_clears:
  assumes "read_all_notifications u s = (n, s')"
  shows "n = unread_notification_count u s \<and> unread_notification_count u s' = 0 \<and>
    filter (\<lambda>r. n_user_id r \<noteq> u) (notifications s') = filter (\<lambda>r. n_user_id r \<noteq> u) (notifications s)"
proof -
  have "count_where (unread u) (update_where (unread u) (\<lambda>r. r\<lparr>n_is_read := True, n_read_at := x\<rparr>) rows) = 0" for x rows
    by (auto simp: count_where_def update_where_def unread_def filter_empty_conv)
  moreover have "filter (\<lambda>r. n_user_id r \<noteq> u) (update_where (unread u) (\<lambda>r. r\<lparr>n_is_read := True, n_read_at := x\<rparr>) rows) =
      filter (\<lambda>r. n_user_id r \<noteq> u) rows" for x rows
    by (induction rows) (simp_all add: update_where_def unread_def)
  ultimately show ?thesis
    using assms by (auto simp: read_all_notifications_def unread_notification_count_def)
qed

end
