(* ===== verification/Collection.thy ===== *)
theory Collection
  imports Privacy Redeem CheckIn Combinations Trades Shop "HOL-Library.Multiset"
begin

text \<open>
  The collection of a fan (\<open>backend/app/routers/fan.py\<close>): which cards the catalog shows, the
  redemption of codes under the rate limit, the owned copies, wishes and likes, collection
  goals, and the media of cards.
\<close>

section \<open>What the catalog shows\<close>

text \<open>
  A card of the studio is shown once it is published in a live drop; operational cards and
  cards from before the release workflow are shown at once.
\<close>

definition catalog_release_visible :: "card_row \<Rightarrow> db \<Rightarrow> bool" where
  "catalog_release_visible c s \<longleftrightarrow>
    c_owner_artist_id c = None \<or> (c_review_version c = 0 \<and> c_drop_id c = None) \<or>
    (c_release_status c = ''published'' \<and>
     (case c_drop_id c of None \<Rightarrow> False
      | Some i \<Rightarrow> (case get_drop i s of None \<Rightarrow> False | Some d \<Rightarrow> d_status d = ''live'')))"

definition card_is_visible_to_fans :: "card_row \<Rightarrow> db \<Rightarrow> bool" where
  "card_is_visible_to_fans c s =
    (if c_owner_artist_id c = None then True
     else if c_review_version c = 0 \<and> c_drop_id c = None then True
     else if c_release_status c \<noteq> ''published'' \<or> c_drop_id c = None then False
     else (case get_drop (the (c_drop_id c)) s of None \<Rightarrow> False | Some d \<Rightarrow> d_status d = ''live''))"

definition in_catalog :: "card_row \<Rightarrow> db \<Rightarrow> bool" where
  "in_catalog c s \<longleftrightarrow> c_status c = ''published'' \<and> c_is_official c \<and> catalog_release_visible c s"

section \<open>Redeeming codes\<close>

text \<open>\<open>str.upper\<close> on ASCII; codes hold no other letters.\<close>

definition py_upper :: "string \<Rightarrow> string" where
  "py_upper = map (\<lambda>c. let n = of_char c :: nat in if 97 \<le> n \<and> n \<le> 122 then char_of (n - 32) else c)"

definition normalized_code :: "string \<Rightarrow> string" where
  "normalized_code code = py_upper (py_strip code)"

definition redemption_preview :: "gate \<Rightarrow> string \<Rightarrow> string \<Rightarrow> ident \<Rightarrow> windows \<times> db \<Rightarrow> (exn + card_row) \<times> windows \<times> db" where
  "redemption_preview g host code u =
    limited g (''redemption-preview:'' @ u @ '':'' @ host) 20 60
      (\<lambda>s. (preview_redeem u (normalized_code code) s, s))"

definition redemption_event ::
  "string \<Rightarrow> ident \<Rightarrow> card_row option \<Rightarrow> ident option \<Rightarrow> string \<Rightarrow> string option \<Rightarrow> jobj \<Rightarrow> analytics_args" where
  "redemption_event name u c card_id source key metadata =
    \<lparr>aa_event_name = name, aa_user_id = Some u,
     aa_organization_id = (case c of None \<Rightarrow> None | Some c \<Rightarrow> c_organization_id c),
     aa_artist = (case c of None \<Rightarrow> None | Some c \<Rightarrow> c_artist_id c), aa_card_id = card_id, aa_pack_id = None,
     aa_source = Some source, aa_dedupe_key = key, aa_metadata = metadata\<rparr>"

definition code_card :: "string \<Rightarrow> db \<Rightarrow> card_row option" where
  "code_card v s = (case find_code v s of None \<Rightarrow> None | Some code \<Rightarrow> get_card (rc_card_id code) s)"

text \<open>
  \<open>redeem\<close> commits its own transaction. A refusal is recorded and committed before it is
  raised again; after a success two more events are recorded in a transaction of their own.
\<close>

definition record_refusal :: "ident \<Rightarrow> string \<Rightarrow> string \<Rightarrow> exn \<Rightarrow> db \<Rightarrow> (exn + redemption) \<times> db" where
  "record_refusal u v source e s =
    (case e of
       AppError n code \<Rightarrow>
         (case record_analytics_event (redemption_event ''redemption.failed'' u (code_card v s)
             (map_option c_id (code_card v s)) source None [(''errorCode'', JStr code)]) s of
            Inl x \<Rightarrow> (Inl x, s)
          | Inr (_, s1) \<Rightarrow> (Inl e, s1))
     | _ \<Rightarrow> (Inl e, s))"

definition record_redemption :: "ident \<Rightarrow> string \<Rightarrow> string \<Rightarrow> redemption \<Rightarrow> db \<Rightarrow> exn + redemption \<times> db" where
  "record_redemption u v source r s =
    (let event = (\<lambda>name key. redemption_event name u (get_card (re_card_id r) s) (Some (re_card_id r)) source
           (Some (key @ u @ '':'' @ v)) [(''userCardId'', JStr (re_user_card_id r))])
     in bindE (record_analytics_event (event ''redemption.recognized'' ''redemption-recognized:'') s) (\<lambda>(_, s1).
        bindE (record_analytics_event (event ''redemption.succeeded'' ''redemption-succeeded:'') s1) (\<lambda>(_, s2).
        Inr (r, s2))))"

definition redeem_and_record :: "ident \<Rightarrow> string \<Rightarrow> string \<Rightarrow> db \<Rightarrow> (exn + redemption) \<times> db" where
  "redeem_and_record u v source s =
    (case redeem u v source s of
       Inl e \<Rightarrow> record_refusal u v source e s
     | Inr (r, s1) \<Rightarrow> run_tx (record_redemption u v source r) s1)"

definition create_redemption ::
  "gate \<Rightarrow> string \<Rightarrow> string \<Rightarrow> string \<Rightarrow> ident \<Rightarrow> windows \<times> db \<Rightarrow> (exn + redemption) \<times> windows \<times> db" where
  "create_redemption g host code source u =
    limited g (''redemption:'' @ u @ '':'' @ host) 10 60 (redeem_and_record u (normalized_code code) source)"

section \<open>The owned copies\<close>

definition combined_copy :: "ident \<Rightarrow> db \<Rightarrow> bool" where
  "combined_copy i s \<longleftrightarrow> list_ex (\<lambda>m. ccm_user_card_id m = i) (card_combination_materials s)"

definition offered_in_trade :: "ident \<Rightarrow> db \<Rightarrow> bool" where
  "offered_in_trade i s \<longleftrightarrow> list_ex (\<lambda>l. tl_user_card_id l = i \<and>
    list_ex (\<lambda>p. tp_id p = tl_proposal_id l \<and> tp_status p = ''pending'') (trade_proposals s)) (trade_locks s)"

definition shown_tradable :: "user_card \<Rightarrow> card_row \<Rightarrow> db \<Rightarrow> bool" where
  "shown_tradable uc c s \<longleftrightarrow> c_tradable c \<and> uc_expires_at uc = None \<and> uc_trade_locked_at uc = None \<and>
    \<not> offered_in_trade (uc_id uc) s \<and> uc_acquisition_source uc \<noteq> ''combination''"

text \<open>
  \<open>round(x / y * 100)\<close>: the nearest integer, ties to even. The quotient is exact here; in
  doubles it can differ only where it is a tie.
\<close>

definition py_round_percent :: "nat \<Rightarrow> nat \<Rightarrow> nat" where
  "py_round_percent x y =
    (let q = 100 * x div y; r = 100 * x mod y
     in if 2 * r < y then q else if y < 2 * r then q + 1 else if even q then q else q + 1)"

text \<open>The copies with their card and whether they can be traded, their number, and the share of nine slots.\<close>

definition collection :: "ident \<Rightarrow> db \<Rightarrow> (user_card \<times> card_row \<times> bool) list \<times> nat \<times> nat" where
  "collection u s =
    (let rows = concat (map (\<lambda>uc. case get_card (uc_card_id uc) s of None \<Rightarrow> [] | Some c \<Rightarrow> [(uc, c, shown_tradable uc c s)])
           (filter (\<lambda>uc. uc_user_id uc = u \<and> \<not> combined_copy (uc_id uc) s) (user_cards s)))
     in (rows, length rows, py_round_percent (length rows) 9))"

definition card_acquisition_history :: "ident \<Rightarrow> ident \<Rightarrow> db \<Rightarrow> exn + ownership_event list" where
  "card_acquisition_history i u s =
    (if find (\<lambda>c. uc_id c = i \<and> uc_user_id c = u) (user_cards s) = None then Inl (AppError 404 ''USER_CARD_NOT_FOUND'')
     else Inr (newest ol_created_at ol_id (filter (\<lambda>e. ol_user_card_id e = i) (ownership_ledger s))))"

section \<open>Wishes and likes\<close>

definition wishlist :: "ident \<Rightarrow> db \<Rightarrow> ident list" where
  "wishlist u s = map fw_card_id (newest fw_created_at fw_id (filter (\<lambda>w. fw_user_id w = u) (fan_wishlist_items s)))"

definition clash_wish :: "fan_wishlist_item \<Rightarrow> fan_wishlist_item \<Rightarrow> bool" where
  "clash_wish r x \<longleftrightarrow> fw_id x = fw_id r \<or> (fw_user_id x = fw_user_id r \<and> fw_card_id x = fw_card_id r)"

definition add_wishlist :: "ident \<Rightarrow> ident \<Rightarrow> db \<Rightarrow> exn + unit \<times> db" where
  "add_wishlist i u s =
    (case get_card i s of
       None \<Rightarrow> Inl (AppError 404 ''CARD_NOT_AVAILABLE'')
     | Some c \<Rightarrow>
         if \<not> in_catalog c s then Inl (AppError 404 ''CARD_NOT_AVAILABLE'')
         else if list_ex (\<lambda>w. fw_user_id w = u \<and> fw_card_id w = i) (fan_wishlist_items s) then Inr ((), s)
         else
           bindE (insert_row clash_wish
               \<lparr>fw_id = new_id ''wishlist_'' s, fw_user_id = u, fw_card_id = i, fw_created_at = now s\<rparr>
               (fan_wishlist_items s)) (\<lambda>rows.
           bindE (record_analytics_event
               \<lparr>aa_event_name = ''product.engaged'', aa_user_id = Some u, aa_organization_id = None,
                aa_artist = c_artist_id c, aa_card_id = Some (c_id c), aa_pack_id = None,
                aa_source = Some ''wishlist'', aa_dedupe_key = Some (''wishlist:'' @ u @ '':'' @ c_id c),
                aa_metadata = [(''action'', JStr ''save''), (''surface'', JStr ''collection'')]\<rparr>
               ((draw s)\<lparr>fan_wishlist_items := rows\<rparr>)) (\<lambda>(_, s1).
           Inr ((), s1))))"

definition remove_wishlist :: "ident \<Rightarrow> ident \<Rightarrow> db \<Rightarrow> db" where
  "remove_wishlist i u s =
    (case find (\<lambda>w. fw_user_id w = u \<and> fw_card_id w = i) (fan_wishlist_items s) of
       None \<Rightarrow> s
     | Some w \<Rightarrow> s\<lparr>fan_wishlist_items := filter (\<lambda>x. fw_id x \<noteq> fw_id w) (fan_wishlist_items s)\<rparr>)"

definition public_event_for_like :: "ident \<Rightarrow> db \<Rightarrow> exn + event_row" where
  "public_event_for_like i s =
    (case find (\<lambda>e. e_id e = i) (events s) of
       None \<Rightarrow> Inl (AppError 404 ''EVENT_NOT_FOUND'')
     | Some e \<Rightarrow>
         if e_workflow_status e \<notin> {''scheduled'', ''published''} \<or> now s < e_starts_at e \<or>
            (case e_ends_at e of None \<Rightarrow> False | Some t \<Rightarrow> t \<le> now s)
         then Inl (AppError 404 ''EVENT_NOT_FOUND'') else Inr e)"

definition event_likes_of :: "ident \<Rightarrow> db \<Rightarrow> ident list" where
  "event_likes_of u s =
    map el_event_id (newest el_created_at el_id (filter (\<lambda>l. el_user_id l = u \<and>
      list_ex (\<lambda>e. e_id e = el_event_id l \<and> e_workflow_status e \<in> {''scheduled'', ''published''}) (events s)) (event_likes s)))"

definition clash_like :: "event_like \<Rightarrow> event_like \<Rightarrow> bool" where
  "clash_like r x \<longleftrightarrow> el_id x = el_id r \<or> (el_user_id x = el_user_id r \<and> el_event_id x = el_event_id r)"

definition add_event_like :: "ident \<Rightarrow> ident \<Rightarrow> db \<Rightarrow> exn + unit \<times> db" where
  "add_event_like i u s =
    bindE (public_event_for_like i s) (\<lambda>_.
    if list_ex (\<lambda>l. el_user_id l = u \<and> el_event_id l = i) (event_likes s) then Inr ((), s)
    else bindE (insert_row clash_like
        \<lparr>el_id = new_id ''event-like_'' s, el_user_id = u, el_event_id = i, el_created_at = now s\<rparr> (event_likes s))
      (\<lambda>rows. Inr ((), (draw s)\<lparr>event_likes := rows\<rparr>)))"

definition remove_event_like :: "ident \<Rightarrow> ident \<Rightarrow> db \<Rightarrow> db" where
  "remove_event_like i u s =
    s\<lparr>event_likes := filter (\<lambda>l. \<not> (el_user_id l = u \<and> el_event_id l = i)) (event_likes s)\<rparr>"

section \<open>Collection goals\<close>

record goal_view =
  gv_goal :: collection_goal
  gv_owned_count :: nat
  gv_completion_rate :: nat

text \<open>The different cards of the pack the fan holds a copy of that was not used up.\<close>

definition pack_card_ids :: "ident \<Rightarrow> db \<Rightarrow> ident list" where
  "pack_card_ids p s = map cpc_card_id (filter (\<lambda>l. cpc_pack_id l = p \<and> cpc_enabled l) (card_pack_cards s))"

definition goal_owned :: "ident \<Rightarrow> ident \<Rightarrow> db \<Rightarrow> nat" where
  "goal_owned u p s = length (remdups (map uc_card_id (filter (\<lambda>uc. uc_user_id uc = u \<and>
    uc_card_id uc \<in> set (pack_card_ids p s) \<and> \<not> combined_copy (uc_id uc) s) (user_cards s))))"

definition completion_rate :: "nat \<Rightarrow> int \<Rightarrow> nat" where
  "completion_rate owned target = (if target = 0 then 0 else min 100 (py_round_percent owned (nat target)))"

definition put_goal :: "collection_goal \<Rightarrow> db \<Rightarrow> db" where
  "put_goal g s = s\<lparr>collection_goals := update_where (\<lambda>x. cgo_id x = cgo_id g) (\<lambda>_. g) (collection_goals s)\<rparr>"

text \<open>The goal is completed, announced once, and the growth event is recorded.\<close>

definition complete_goal :: "collection_goal \<Rightarrow> card_pack \<Rightarrow> ident \<Rightarrow> db \<Rightarrow> exn + collection_goal \<times> db" where
  "complete_goal g p u s =
    (let g' = g\<lparr>cgo_completed_at := Some (now s)\<rparr>
     in bindE (record_engagement_event u ''collection_goal_completed'' ''collection_goal'' (cgo_id g)
           [(''collectionGoalId'', JStr (cgo_id g)), (''packId'', JStr (cp_id p)), (''artistId'', JStr (cp_artist_id p)),
            (''organizationId'', jopt (cp_organization_id p))] (put_goal g' s)) (\<lambda>(_, s1).
        bindE (notify_user_once u ''collection_goal_completed'' ''collection_goal'' (cgo_id g)
           (''collection-goal-completed:'' @ cgo_id g) s1) (\<lambda>s2.
        Inr (g', s2))))"

definition collection_goal_data :: "collection_goal \<Rightarrow> ident \<Rightarrow> db \<Rightarrow> exn + goal_view \<times> db" where
  "collection_goal_data g u s =
    (case find (\<lambda>p. cp_id p = cgo_pack_id g) (card_packs s) of
       None \<Rightarrow> Inl (AppError 404 ''CARD_PACK_NOT_FOUND'')
     | Some p \<Rightarrow>
         let owned = goal_owned u (cp_id p) s; rate = completion_rate owned (cgo_target_count g)
         in bindE (if rate = 100 \<and> cgo_completed_at g = None then complete_goal g p u s else Inr (g, s)) (\<lambda>(g', s1).
            Inr (\<lparr>gv_goal = g', gv_owned_count = owned, gv_completion_rate = rate\<rparr>, s1)))"

fun goals_data :: "collection_goal list \<Rightarrow> ident \<Rightarrow> db \<Rightarrow> exn + goal_view list \<times> db" where
  "goals_data [] u s = Inr ([], s)"
| "goals_data (g # gs) u s =
    bindE (collection_goal_data g u s) (\<lambda>(v, s1).
    bindE (goals_data gs u s1) (\<lambda>(vs, s2). Inr (v # vs, s2)))"

definition collection_goals_of :: "ident \<Rightarrow> db \<Rightarrow> exn + goal_view list \<times> db" where
  "collection_goals_of u s =
    goals_data (newest cgo_created_at cgo_id (filter (\<lambda>g. cgo_user_id g = u) (collection_goals s))) u s"

definition clash_goal :: "collection_goal \<Rightarrow> collection_goal \<Rightarrow> bool" where
  "clash_goal r x \<longleftrightarrow> cgo_id x = cgo_id r \<or> (cgo_user_id x = cgo_user_id r \<and> cgo_pack_id x = cgo_pack_id r)"

definition save_goal :: "ident \<Rightarrow> ident \<Rightarrow> int \<Rightarrow> db \<Rightarrow> exn + collection_goal \<times> db" where
  "save_goal u p target s =
    (case find (\<lambda>g. cgo_user_id g = u \<and> cgo_pack_id g = p) (collection_goals s) of
       Some g \<Rightarrow> let g' = g\<lparr>cgo_target_count := target, cgo_completed_at := None\<rparr> in Inr (g', put_goal g' s)
     | None \<Rightarrow>
         let g = \<lparr>cgo_id = new_id ''collection_goal_'' s, cgo_user_id = u, cgo_pack_id = p,
           cgo_target_count = target, cgo_completed_at = None, cgo_created_at = now s\<rparr>
         in bindE (insert_row clash_goal g (collection_goals s)) (\<lambda>rows.
            Inr (g, (draw s)\<lparr>collection_goals := rows\<rparr>)))"

definition create_collection_goal :: "ident \<Rightarrow> int option \<Rightarrow> ident \<Rightarrow> db \<Rightarrow> exn + goal_view \<times> db" where
  "create_collection_goal p requested u s =
    (case find_pack p s of
       None \<Rightarrow> Inl (AppError 404 ''CARD_PACK_NOT_FOUND'')
     | Some pack \<Rightarrow>
         let available = int (length (pack_card_ids (cp_id pack) s));
             target = (case requested of None \<Rightarrow> available | Some n \<Rightarrow> if n = 0 then available else n)
         in if available < target then Inl (AppError 422 ''INVALID_COLLECTION_GOAL'')
            else bindE (save_goal u (cp_id pack) target s) (\<lambda>(g, s1). collection_goal_data g u s1))"

definition delete_collection_goal :: "ident \<Rightarrow> ident \<Rightarrow> db \<Rightarrow> bool \<times> db" where
  "delete_collection_goal i u s =
    (case find (\<lambda>g. cgo_id g = i \<and> cgo_user_id g = u) (collection_goals s) of
       None \<Rightarrow> (False, s)
     | Some g \<Rightarrow> (True, s\<lparr>collection_goals := filter (\<lambda>x. cgo_id x \<noteq> cgo_id g) (collection_goals s)\<rparr>))"

section \<open>The public catalog\<close>

text \<open>The published packs with the cards a fan can draw; the newest first.\<close>

definition catalog_card_packs :: "ident option \<Rightarrow> db \<Rightarrow> (card_pack \<times> (card_pack_card \<times> card_row) list) list" where
  "catalog_card_packs artist s =
    map (\<lambda>p. (p, pack_rows (cp_id p) s))
      (sort_key (\<lambda>p. (case cp_published_at p of None \<Rightarrow> (0, 0) | Some t \<Rightarrow> (1 :: int, - t), cp_id p))
        (filter (\<lambda>p. cp_status p = ''published'' \<and> (\<not> present artist \<or> artist = Some (cp_artist_id p))) (card_packs s)))"

text \<open>The rows of a pack and the sum of their probabilities, which the code rounds to six digits.\<close>

definition catalog_card_pack_odds :: "ident \<Rightarrow> db \<Rightarrow> exn + (card_pack_card \<times> card_row) list \<times> rat" where
  "catalog_card_pack_odds i s =
    (case find_pack i s of
       None \<Rightarrow> Inl (AppError 404 ''CARD_PACK_NOT_FOUND'')
     | Some p \<Rightarrow> let rows = pack_rows (cp_id p) s in Inr (rows, sum_list (map (\<lambda>(l, _). cpc_probability l) rows)))"

text \<open>\<open>LIKE\<close>: a percent sign stands for any text, an underscore for one character.\<close>

fun like :: "string \<Rightarrow> string \<Rightarrow> bool" where
  "like [] t = (t = [])"
| "like (p # ps) t =
    (if p = CHR ''%'' then like ps t \<or> (case t of [] \<Rightarrow> False | _ # cs \<Rightarrow> like (p # ps) cs)
     else case t of [] \<Rightarrow> False | c # cs \<Rightarrow> (p = CHR ''_'' \<or> p = c) \<and> like ps cs)"

definition ilike :: "string \<Rightarrow> string option \<Rightarrow> bool" where
  "ilike pattern text = (case text of None \<Rightarrow> False | Some t \<Rightarrow> like (py_lower pattern) (py_lower t))"

definition artist_of_card :: "card_row \<Rightarrow> db \<Rightarrow> artist option" where
  "artist_of_card c s = (case c_artist_id c of None \<Rightarrow> None | Some i \<Rightarrow> find (\<lambda>a. ar_id a = i) (artists s))"

definition member_of_card :: "card_row \<Rightarrow> db \<Rightarrow> member_row option" where
  "member_of_card c s = (case c_member_id c of None \<Rightarrow> None | Some i \<Rightarrow> find (\<lambda>m. mem_id m = i) (members s))"

definition recommendation_score :: "user \<Rightarrow> card_row \<Rightarrow> int" where
  "recommendation_score u c =
    (if c_member_id c \<in> Some ` set (u_favorite_member_ids u) then 3
     else if c_artist_id c \<in> Some ` set (u_favorite_artist_ids u) then 2 else 0)"

definition rarity_score :: "card_row \<Rightarrow> int" where
  "rarity_score c =
    (if c_rarity c = Some ''Special'' then 4 else if c_rarity c = Some ''SR'' then 3
     else if c_rarity c = Some ''R'' then 2 else if c_rarity c = Some ''N'' then 1 else 0)"

text \<open>Null names come last, as PostgreSQL sorts them.\<close>

definition catalog_order :: "string \<Rightarrow> user \<Rightarrow> db \<Rightarrow> card_row \<Rightarrow> int \<times> (bool \<times> string) \<times> string \<times> string" where
  "catalog_order order u s c =
    (let a = (case artist_of_card c s of None \<Rightarrow> (True, []) | Some a \<Rightarrow> (False, ar_name a))
     in if order = ''name'' then (0, (False, []), c_name c, c_id c)
        else if order = ''rarity'' then (- rarity_score c, a, c_name c, c_id c)
        else (- recommendation_score u c, a, c_name c, c_id c))"

record catalog_query =
  cq_artist_id :: "ident option"
  cq_member_id :: "ident option"
  cq_text :: "string option"
  cq_page :: nat
  cq_page_size :: nat
  cq_sort :: string

definition catalog_matches :: "catalog_query \<Rightarrow> db \<Rightarrow> card_row list" where
  "catalog_matches q s =
    filter (\<lambda>c. in_catalog c s \<and>
      (\<not> present (cq_artist_id q) \<or> c_artist_id c = cq_artist_id q) \<and>
      (\<not> present (cq_member_id q) \<or> c_member_id c = cq_member_id q) \<and>
      (\<not> present (cq_text q) \<or>
        (let pattern = ''%'' @ the (cq_text q) @ ''%''
         in ilike pattern (Some (c_name c)) \<or> ilike pattern (map_option ar_name (artist_of_card c s)) \<or>
            ilike pattern (map_option mem_name (member_of_card c s))))) (cards s)"

text \<open>One page and the number of all matches.\<close>

definition catalog :: "catalog_query \<Rightarrow> user \<Rightarrow> db \<Rightarrow> card_row list \<times> nat" where
  "catalog q u s =
    (let rows = catalog_matches q s
     in (take (cq_page_size q) (drop ((cq_page q - 1) * cq_page_size q) (sort_key (catalog_order (cq_sort q) u s) rows)),
         length rows))"

definition catalog_artists :: "db \<Rightarrow> artist list" where
  "catalog_artists s = sort_key ar_name (artists s)"

definition catalog_members :: "ident option \<Rightarrow> db \<Rightarrow> member_row list" where
  "catalog_members artist s =
    sort_key mem_name (filter (\<lambda>m. if present artist then Some (mem_artist_id m) = artist
      else list_ex (\<lambda>c. in_catalog c s \<and> c_artist_id c = Some (mem_artist_id m)) (cards s)) (members s))"

section \<open>A copy and its media\<close>

definition missing_media :: exn where
  "missing_media = AppError 404 []"

text \<open>\<open>storage_response\<close>: a plain 404 without an application code when the file is gone.\<close>

definition storage_response :: "(string \<Rightarrow> bool) \<Rightarrow> string \<Rightarrow> exn + string" where
  "storage_response stored path = (if stored path then Inr path else Inl missing_media)"

definition media_path :: "ident option \<Rightarrow> db \<Rightarrow> string option" where
  "media_path i s =
    (if \<not> present i then None
     else case get_asset (the i) s of None \<Rightarrow> None
       | Some a \<Rightarrow> if present (asset_path a) then asset_path a else None)"

definition own_copy :: "ident \<Rightarrow> ident \<Rightarrow> db \<Rightarrow> (user_card \<times> card_row) option" where
  "own_copy i u s =
    (case find (\<lambda>uc. uc_id uc = i \<and> uc_user_id uc = u) (user_cards s) of None \<Rightarrow> None
     | Some uc \<Rightarrow> map_option (\<lambda>c. (uc, c)) (get_card (uc_card_id uc) s))"

definition front_lenticular :: "jobj option \<Rightarrow> ident option" where
  "front_lenticular config =
    (case jget (case config of None \<Rightarrow> [] | Some d \<Rightarrow> d) ''front'' of
       JObj front \<Rightarrow> (case jget front ''lenticularAssetId'' of JStr i \<Rightarrow> Some i | _ \<Rightarrow> None)
     | _ \<Rightarrow> None)"

text \<open>
  The newest approved effect version is what fans see; a card without effect versions shows its
  own configuration, a card with unapproved ones only shows none.
\<close>

definition approved_effect :: "ident \<Rightarrow> db \<Rightarrow> card_effect_version option" where
  "approved_effect i s =
    (case sort_key (\<lambda>v. - cev_version v)
        (filter (\<lambda>v. cev_card_id v = i \<and> cev_status v = ''approved'') (card_effect_versions s)) of
       [] \<Rightarrow> None | v # _ \<Rightarrow> Some v)"

definition public_design_config :: "card_row \<Rightarrow> db \<Rightarrow> jobj option" where
  "public_design_config c s =
    (if list_ex (\<lambda>v. cev_card_id v = c_id c) (card_effect_versions s)
     then map_option cev_design_config (approved_effect (c_id c) s) else c_design_config c)"

definition lenticular_path :: "(string \<Rightarrow> bool) \<Rightarrow> ident option \<Rightarrow> db \<Rightarrow> string option" where
  "lenticular_path stored i s =
    (case i of None \<Rightarrow> None
     | Some i \<Rightarrow> (case get_asset i s of None \<Rightarrow> None
         | Some a \<Rightarrow> if lenticular_asset a \<and> asset_ready stored a then asset_path a else None))"

record card_view =
  cw_copy :: user_card
  cw_card :: card_row
  cw_design_config :: "jobj option"
  cw_probability_version :: json
  cw_probability :: json
  cw_handwriting :: bool
  cw_voice :: bool
  cw_video :: bool
  cw_lenticular :: bool
  cw_drop_name :: "string option"

definition grant_metadata :: "ident \<Rightarrow> db \<Rightarrow> jobj option" where
  "grant_metadata i s =
    (case newest ol_created_at ol_id (filter (\<lambda>e. ol_user_card_id e = i \<and> ol_action e = ''grant'') (ownership_ledger s)) of
       [] \<Rightarrow> Some [] | e # _ \<Rightarrow> ol_metadata_json e)"

definition copy_view :: "(string \<Rightarrow> bool) \<Rightarrow> user_card \<Rightarrow> card_row \<Rightarrow> jobj \<Rightarrow> db \<Rightarrow> card_view" where
  "copy_view stored uc c metadata s =
    \<lparr>cw_copy = uc, cw_card = c, cw_design_config = public_design_config c s,
     cw_probability_version = jget metadata ''probabilityVersion'', cw_probability = jget metadata ''probability'',
     cw_handwriting = (media_path (c_handwriting_asset_id c) s \<noteq> None),
     cw_voice = (media_path (c_voice_asset_id c) s \<noteq> None),
     cw_video = (media_path (c_video_asset_id c) s \<noteq> None),
     cw_lenticular = (lenticular_path stored (front_lenticular (public_design_config c s)) s \<noteq> None),
     cw_drop_name = (case uc_drop_id uc of None \<Rightarrow> None | Some d \<Rightarrow> map_option d_name (get_drop d s))\<rparr>"

text \<open>
  The view is recorded and committed before the answer is put together; a grant event whose
  metadata is null ends the request with an exception after that.
\<close>

definition view_event :: "user_card \<Rightarrow> card_row \<Rightarrow> ident \<Rightarrow> analytics_args" where
  "view_event uc c u =
    \<lparr>aa_event_name = ''collection.card_viewed'', aa_user_id = Some u,
     aa_organization_id = c_organization_id c, aa_artist = c_artist_id c, aa_card_id = Some (c_id c),
     aa_pack_id = None, aa_source = Some ''card_detail'',
     aa_dedupe_key = Some (''collection-card-viewed:'' @ u @ '':'' @ uc_id uc),
     aa_metadata = [(''userCardId'', JStr (uc_id uc))]\<rparr>"

definition card_detail :: "(string \<Rightarrow> bool) \<Rightarrow> ident \<Rightarrow> ident \<Rightarrow> db \<Rightarrow> (exn + card_view) \<times> db" where
  "card_detail stored i u s =
    (case own_copy i u s of
       None \<Rightarrow> (Inl (AppError 404 ''USER_CARD_NOT_FOUND''), s)
     | Some (uc, c) \<Rightarrow>
         (case record_analytics_event (view_event uc c u) s of
            Inl e \<Rightarrow> (Inl e, s)
          | Inr (_, s1) \<Rightarrow>
              (case grant_metadata (uc_id uc) s of
                 None \<Rightarrow> (Inl AttributeError, s1)
               | Some metadata \<Rightarrow> (Inr (copy_view stored uc c metadata s), s1))))"

text \<open>What the routes of handwriting, voice and video share: the fan owns the copy, the file is there.\<close>

definition own_media ::
  "(card_row \<Rightarrow> ident option) \<Rightarrow> string \<Rightarrow> string \<Rightarrow> (string \<Rightarrow> bool) \<Rightarrow> ident \<Rightarrow> ident \<Rightarrow> db \<Rightarrow> exn + string" where
  "own_media column not_found not_ready stored i u s =
    (case own_copy i u s of
       None \<Rightarrow> Inl (AppError 404 not_found)
     | Some (uc, c) \<Rightarrow>
         if \<not> present (column c) then Inl (AppError 404 not_found)
         else case media_path (column c) s of
           None \<Rightarrow> Inl (AppError 404 not_ready)
         | Some path \<Rightarrow> storage_response stored path)"

definition card_handwriting :: "(string \<Rightarrow> bool) \<Rightarrow> ident \<Rightarrow> ident \<Rightarrow> db \<Rightarrow> exn + string" where
  "card_handwriting = own_media c_handwriting_asset_id ''HANDWRITING_NOT_FOUND'' ''HANDWRITING_NOT_READY''"

definition card_voice :: "(string \<Rightarrow> bool) \<Rightarrow> ident \<Rightarrow> ident \<Rightarrow> db \<Rightarrow> exn + string" where
  "card_voice = own_media c_voice_asset_id ''VOICE_NOT_FOUND'' ''VOICE_NOT_READY''"

definition card_video :: "(string \<Rightarrow> bool) \<Rightarrow> ident \<Rightarrow> ident \<Rightarrow> db \<Rightarrow> exn + string" where
  "card_video = own_media c_video_asset_id ''VIDEO_NOT_FOUND'' ''VIDEO_NOT_READY''"

text \<open>The lenticular route reads the card's own configuration, whatever effect version is approved.\<close>

definition card_lenticular :: "(string \<Rightarrow> bool) \<Rightarrow> ident \<Rightarrow> ident \<Rightarrow> db \<Rightarrow> exn + string" where
  "card_lenticular stored i u s =
    (case own_copy i u s of
       None \<Rightarrow> Inl (AppError 404 ''LENTICULAR_NOT_FOUND'')
     | Some (uc, c) \<Rightarrow>
         (case front_lenticular (c_design_config c) of
            None \<Rightarrow> Inl (AppError 404 ''LENTICULAR_NOT_FOUND'')
          | Some i \<Rightarrow>
              (case get_asset i s of
                 None \<Rightarrow> Inl (AppError 404 ''LENTICULAR_NOT_FOUND'')
               | Some a \<Rightarrow>
                   if \<not> lenticular_asset a then Inl (AppError 404 ''LENTICULAR_NOT_FOUND'')
                   else if \<not> asset_ready stored a then Inl (AppError 404 ''LENTICULAR_NOT_READY'')
                   else storage_response stored (the (asset_path a)))))"

definition card_image :: "(string \<Rightarrow> bool) \<Rightarrow> ident \<Rightarrow> db \<Rightarrow> exn + string" where
  "card_image stored i s =
    (case get_card i s of
       None \<Rightarrow> Inl (AppError 404 ''CARD_IMAGE_NOT_FOUND'')
     | Some c \<Rightarrow>
         if c_status c \<noteq> ''published'' \<or> \<not> present (c_image_asset_id c) \<or> \<not> card_is_visible_to_fans c s
         then Inl (AppError 404 ''CARD_IMAGE_NOT_FOUND'')
         else case get_asset (the (c_image_asset_id c)) s of
           None \<Rightarrow> Inl (AppError 404 ''CARD_IMAGE_NOT_READY'')
         | Some a \<Rightarrow>
             if \<not> present (as_storage_path a) then Inl (AppError 404 ''CARD_IMAGE_NOT_READY'')
             else storage_response stored (the (as_storage_path a)))"

definition reward_image :: "(string \<Rightarrow> bool) \<Rightarrow> ident \<Rightarrow> db \<Rightarrow> exn + string" where
  "reward_image stored i s =
    (case find (\<lambda>r. rw_id r = i) (reward_catalog s) of
       None \<Rightarrow> Inl (AppError 404 ''REWARD_IMAGE_NOT_FOUND'')
     | Some r \<Rightarrow>
         (case (if truthy (jget (rw_metadata r) ''imageAssetId'') then asset_of (jget (rw_metadata r) ''imageAssetId'') s else None) of
            None \<Rightarrow> Inl (AppError 404 ''REWARD_IMAGE_NOT_FOUND'')
          | Some a \<Rightarrow>
              if rw_status r \<noteq> ''published'' \<or> as_purpose a \<noteq> Some ''reward_image'' \<or> \<not> present (as_storage_path a)
              then Inl (AppError 404 ''REWARD_IMAGE_NOT_FOUND'')
              else storage_response stored (the (as_storage_path a))))"

section \<open>Benefits of collections\<close>

text \<open>
  With active campaigns their progress is listed; the required cards of a campaign are never
  empty, its creation checks that. Otherwise the catalog is grouped by artist and season.
\<close>

record benefit_view =
  bf_campaign_id :: "ident option"
  bf_artist_id :: "ident option"
  bf_season_name :: string
  bf_required_count :: nat
  bf_owned_count :: nat
  bf_completion_rate :: nat
  bf_unlocked :: bool
  bf_claimed_at :: "time option"
  bf_claimable :: bool
  bf_download_url :: "string option"

definition DEFAULT_SEASON :: string where
  "DEFAULT_SEASON = ''(default collection)''"

definition text_or :: "string option \<Rightarrow> string \<Rightarrow> string" where
  "text_or x y = (if present x then the x else y)"

definition campaign_view :: "signing \<Rightarrow> ident \<Rightarrow> db \<Rightarrow> collection_campaign \<Rightarrow> benefit_view" where
  "campaign_view cfg u s g =
    (let owned = count_where (\<lambda>i. i \<in> set (owned_card_ids u s)) (cca_required_card_ids g);
         complete = list_all (\<lambda>i. i \<in> set (owned_card_ids u s)) (cca_required_card_ids g);
         claim = find_benefit_claim u (cca_id g) s
     in \<lparr>bf_campaign_id = Some (cca_id g), bf_artist_id = cca_artist_id g,
         bf_season_name = text_or (cca_season_name g) DEFAULT_SEASON,
         bf_required_count = length (cca_required_card_ids g), bf_owned_count = owned,
         bf_completion_rate = py_round_percent owned (length (cca_required_card_ids g)),
         bf_unlocked = complete, bf_claimed_at = map_option cbc_claimed_at claim,
         bf_claimable = (complete \<and> claim = None),
         bf_download_url = (if claim \<noteq> None \<and> present (cca_benefit_asset_id g)
           then Some (download_url cfg u (cca_id g) (the (cca_benefit_asset_id g)) (now s)) else None)\<rparr>)"

definition group_key :: "card_row \<Rightarrow> string \<times> string" where
  "group_key c = (text_or (c_artist_id c) ''fanfolio'', text_or (c_season_name c) DEFAULT_SEASON)"

definition group_view :: "ident \<Rightarrow> db \<Rightarrow> card_row list \<Rightarrow> string \<times> string \<Rightarrow> benefit_view" where
  "group_view u s rows key =
    (let ids = map c_id (filter (\<lambda>c. group_key c = key) rows);
         owned = count_where (\<lambda>i. i \<in> set (owned_card_ids u s)) ids
     in \<lparr>bf_campaign_id = None,
         bf_artist_id = (case find (\<lambda>c. group_key c = key) rows of None \<Rightarrow> None | Some c \<Rightarrow> c_artist_id c),
         bf_season_name = snd key, bf_required_count = length ids, bf_owned_count = owned,
         bf_completion_rate = py_round_percent owned (length ids), bf_unlocked = (owned = length ids),
         bf_claimed_at = None, bf_claimable = False, bf_download_url = None\<rparr>)"

text \<open>Groups in the order their first card comes in.\<close>

definition first_keys :: "'a list \<Rightarrow> 'a list" where
  "first_keys ks = rev (remdups (rev ks))"

definition collection_benefits :: "signing \<Rightarrow> ident \<Rightarrow> db \<Rightarrow> benefit_view list" where
  "collection_benefits cfg u s =
    (let campaigns = filter (\<lambda>g. cca_status g = ''active'') (collection_campaigns s)
     in if campaigns \<noteq> [] then map (campaign_view cfg u s) campaigns
        else let rows = sort_key (\<lambda>c. (text_or (c_artist_id c) [], text_or (c_season_name c) [], c_id c))
               (filter (\<lambda>c. in_catalog c s) (cards s))
             in map (group_view u s rows) (first_keys (map group_key rows)))"

section \<open>Only released cards are shown\<close>

text \<open>The filter of the listings and the check of the image route agree.\<close>

lemma visible_iff: "card_is_visible_to_fans c s = catalog_release_visible c s"
  by (cases "c_drop_id c") (auto simp: card_is_visible_to_fans_def catalog_release_visible_def)



section \<open>Pages\<close>

lemma pages_of: "concat (map (\<lambda>p. take n (drop ((p - 1) * n) xs)) [1..<Suc k]) = take (k * n) xs"
proof (induction k)
  case (Suc k)
  have "take (k * n) xs @ take n (drop (k * n) xs) = take (Suc k * n) xs"
    by (simp add: take_add [symmetric] add.commute)
  with Suc show ?case by simp
qed simp


definition first_page :: catalog_query where
  "first_page = \<lparr>cq_artist_id = None, cq_member_id = None, cq_text = Some ''de'', cq_page = 1,
    cq_page_size = 1, cq_sort = ''name''\<rparr>"

definition shown_db :: db where
  "shown_db = empty_db\<lparr>cards := [studio_card\<lparr>c_owner_artist_id := None, c_status := ''published'', c_is_official := True\<rparr>]\<rparr>"


section \<open>What the collection promises\<close>

text \<open>The collection tells the truth about trading: as long as only pending proposals hold
  locks, a copy is shown as tradable exactly when a proposal may offer it.\<close>

theorem shown_tradable_exact:
  assumes "\<forall>l \<in> set (trade_locks s). \<exists>p \<in> set (trade_proposals s). tp_id p = tl_proposal_id l \<and> tp_status p = ''pending''"
    and "(uc, c, b) \<in> set (fst (collection u s))"
  shows "b \<longleftrightarrow> trade_card_error (uc, c) s = None"
proof -
  from assms(2) have b: "b = shown_tradable uc c s" and copy: "\<not> combined_copy (uc_id uc) s"
    by (auto simp: collection_def Let_def split: option.splits)
  have "offered_in_trade (uc_id uc) s \<longleftrightarrow> list_ex (\<lambda>l. tl_user_card_id l = uc_id uc) (trade_locks s)"
    using assms(1) by (auto simp: offered_in_trade_def list_ex_iff)
  with b copy show ?thesis by (auto simp: shown_tradable_def trade_card_error_def combined_copy_def)
qed

theorem shown_tradable_exact_witness:
  "length (fst (collection ''ann'' trade_db)) > 0 \<and>
   (\<forall>(uc, c, b) \<in> set (fst (collection ''ann'' trade_db)). b \<longleftrightarrow> trade_card_error (uc, c) trade_db = None)"
proof
  show "length (fst (collection ''ann'' trade_db)) > 0" by code_simp
  have "\<forall>l \<in> set (trade_locks trade_db). \<exists>p \<in> set (trade_proposals trade_db). tp_id p = tl_proposal_id l \<and> tp_status p = ''pending''"
    by (simp add: trade_db_def empty_db_def)
  from shown_tradable_exact [OF this]
  show "\<forall>(uc, c, b) \<in> set (fst (collection ''ann'' trade_db)). b \<longleftrightarrow> trade_card_error (uc, c) trade_db = None" by blast
qed

section \<open>When a goal is reached\<close>

lemma py_round_percent_hundred:
  assumes "0 < y" and "y < 200"
  shows "min 100 (py_round_percent x y) = 100 \<longleftrightarrow> y \<le> x"
proof
  assume "y \<le> x"
  then have "100 * y div y \<le> 100 * x div y" by (intro div_le_mono) simp
  then have "100 \<le> 100 * x div y" using assms(1) by simp
  then show "min 100 (py_round_percent x y) = 100" by (simp add: py_round_percent_def Let_def)
next
  assume hundred: "min 100 (py_round_percent x y) = 100"
  obtain q r where q: "q = 100 * x div y" and r: "r = 100 * x mod y" by blast
  have eq: "y * q + r = 100 * x" by (simp add: q r)
  show "y \<le> x"
  proof (rule ccontr)
    assume "\<not> y \<le> x"
    then have x: "100 * x + 100 \<le> 100 * y" by simp
    have "q < 100"
    proof (rule ccontr)
      assume "\<not> q < 100"
      then have "y * 100 \<le> y * q" by (intro mult_le_mono2) simp
      with eq x show False by simp
    qed
    with hundred have "q = 99" "y \<le> 2 * r"
      by (auto simp: py_round_percent_def Let_def min_def q [symmetric] r [symmetric] split: if_splits)
    with eq x assms(2) show False by simp
  qed
qed

lemma complete_goal_data:
  assumes "complete_goal g p u s = Inr (g', s')"
  shows "cgo_completed_at g' = Some (now s) \<and> has_notification u (''collection-goal-completed:'' @ cgo_id g) s'"
  using assms by (auto simp: complete_goal_def Let_def inr_simps dest: notify_user_once_known)

text \<open>A collection goal is met exactly when the fan has enough cards: looking at a goal of
  fewer than 200 cards marks it completed if and only if it was before or the fan now holds as
  many different cards of the pack as the goal asks for, and the fan is told when it is.\<close>

theorem goal_completes_exactly:
  assumes "collection_goal_data g u s = Inr (v, s')" and "0 < cgo_target_count g" and "cgo_target_count g < 200"
  shows "(cgo_completed_at (gv_goal v) \<noteq> None \<longleftrightarrow>
      cgo_completed_at g \<noteq> None \<or> cgo_target_count g \<le> int (goal_owned u (cgo_pack_id g) s)) \<and>
    (cgo_completed_at g = None \<and> cgo_completed_at (gv_goal v) \<noteq> None \<longrightarrow>
      has_notification u (''collection-goal-completed:'' @ cgo_id g) s')"
proof -
  let ?owned = "goal_owned u (cgo_pack_id g) s"
  from assms(1) obtain p where p: "cp_id p = cgo_pack_id g"
    and d: "(if completion_rate ?owned (cgo_target_count g) = 100 \<and> cgo_completed_at g = None
      then complete_goal g p u s else Inr (g, s)) = Inr (gv_goal v, s')"
    by (auto simp: collection_goal_data_def Let_def inr_simps dest!: find_SomeD)
  have "completion_rate ?owned (cgo_target_count g) = 100 \<longleftrightarrow> cgo_target_count g \<le> int ?owned"
    using assms(2,3) py_round_percent_hundred [of "nat (cgo_target_count g)" ?owned]
    by (simp add: completion_rate_def) linarith
  with d show ?thesis by (auto split: if_splits dest: complete_goal_data)
qed

definition goal_row :: collection_goal where
  "goal_row = \<lparr>cgo_id = ''g'', cgo_user_id = ''ann'', cgo_pack_id = ''p'', cgo_target_count = 1,
    cgo_completed_at = None, cgo_created_at = 0\<rparr>"

definition goal_db :: db where
  "goal_db = trade_db\<lparr>now := 7, card_packs := [\<lparr>cp_id = ''p'', cp_organization_id = None, cp_artist_id = ''a'', cp_name = [],
      cp_version = ''1'', cp_status = ''published'', cp_published_at = None\<rparr>],
    card_pack_cards := [\<lparr>cpc_id = ''l'', cpc_pack_id = ''p'', cpc_card_id = c_id drop_card, cpc_position = 0,
      cpc_probability = 100, cpc_enabled = True\<rparr>], collection_goals := [goal_row]\<rparr>"

theorem goal_completes_exactly_witness:
  "\<exists>v s'. collection_goal_data goal_row ''ann'' goal_db = Inr (v, s') \<and> cgo_completed_at (gv_goal v) \<noteq> None \<and>
    has_notification ''ann'' ''collection-goal-completed:g'' s'"
proof -
  have "case collection_goal_data goal_row ''ann'' goal_db of Inl e \<Rightarrow> False | Inr (v, s') \<Rightarrow> True" by code_simp
  then obtain v s' where r: "collection_goal_data goal_row ''ann'' goal_db = Inr (v, s')" by (auto simp: case_Inr_iff)
  have "goal_owned ''ann'' ''p'' goal_db = 1" by code_simp
  with goal_completes_exactly [OF r] r show ?thesis by (simp add: goal_row_def)
qed

text \<open>
  For larger goals the rounding of the rate completes them early: 199 of 200 cards are enough.
\<close>

theorem large_goal_completes_early: "completion_rate 199 200 = 100" "completion_rate 398 400 = 100"
  by (simp_all add: completion_rate_def py_round_percent_def)

text \<open>
  The view of a copy reads the approved effect version, the route of the lenticular image the
  card's own configuration: the view offers an image the route does not serve.
\<close>

definition effect_db :: db where
  "effect_db = trade_db\<lparr>
    card_effect_versions := [\<lparr>cev_id = ''v'', cev_card_id = c_id drop_card, cev_version = 1,
      cev_design_config = [(''front'', JObj [(''lenticularAssetId'', JStr ''a'')])], cev_author_user_id = ''x'',
      cev_status = ''approved'', cev_review_note = None, cev_submitted_at = None, cev_approved_at = None, cev_created_at = 0\<rparr>],
    assets := [\<lparr>as_id = ''a'', as_owner_id = ''x'', as_file_name = None, as_content_type = Some ''image/png'',
      as_purpose = Some ''card'', as_upload_expires_at = None, as_upload_completed_at = None,
      as_storage_path = Some ''f'', as_processed_storage_path = None, as_content_sha256 = None, as_transform = None\<rparr>]\<rparr>"

theorem offered_lenticular_not_served:
  "case card_detail (\<lambda>_. True) ''k1'' ''ann'' effect_db of (Inl e, s) \<Rightarrow> False | (Inr v, s) \<Rightarrow> cw_lenticular v"
  "case card_lenticular (\<lambda>_. True) ''k1'' ''ann'' effect_db of
     Inl (AppError n code) \<Rightarrow> n = 404 \<and> code = ''LENTICULAR_NOT_FOUND'' | _ \<Rightarrow> False"
  by code_simp+

end
