(* ===== verification/Wallet.thy ===== *)
theory Wallet
  imports Collection Pass Progress
begin

text \<open>
  What fans read about points, orders, missions and progress, and the requests around them
  (\<open>backend/app/routers/fan.py\<close>, \<open>fan_progression_data\<close> of \<open>backend/app/services.py\<close>).
\<close>

section \<open>Shop\<close>

definition product_artist :: "shop_product \<Rightarrow> db \<Rightarrow> artist option" where
  "product_artist p s = (case sp_artist_id p of None \<Rightarrow> None | Some i \<Rightarrow> find (\<lambda>a. ar_id a = i) (artists s))"

definition product_pack :: "shop_product \<Rightarrow> db \<Rightarrow> card_pack option" where
  "product_pack p s = (case sp_card_pack_id p of None \<Rightarrow> None | Some i \<Rightarrow> find (\<lambda>x. cp_id x = i) (card_packs s))"

text \<open>A product on sale with its artist, which must exist, and its pack; in the order of the table.\<close>

definition catalog_shop_products ::
  "ident option \<Rightarrow> string option \<Rightarrow> db \<Rightarrow> (shop_product \<times> artist \<times> card_pack option) list" where
  "catalog_shop_products artist product_type s =
    concat (map (\<lambda>p. case product_artist p s of None \<Rightarrow> [] | Some a \<Rightarrow> [(p, a, product_pack p s)])
      (filter (\<lambda>p. shop_product_is_sellable p (now s) \<and> (\<not> present artist \<or> sp_artist_id p = artist) \<and>
        (\<not> present product_type \<or> Some (sp_product_type p) = product_type)) (shop_products s)))"

definition catalog_shop_product :: "ident \<Rightarrow> db \<Rightarrow> exn + shop_product \<times> artist \<times> card_pack option" where
  "catalog_shop_product i s =
    (case get_product i s of
       None \<Rightarrow> Inl (AppError 404 ''SHOP_PRODUCT_NOT_FOUND'')
     | Some p \<Rightarrow>
         (case product_artist p s of
            None \<Rightarrow> Inl (AppError 404 ''SHOP_PRODUCT_NOT_FOUND'')
          | Some a \<Rightarrow>
              if \<not> shop_product_is_sellable p (now s) then Inl (AppError 404 ''SHOP_PRODUCT_NOT_FOUND'')
              else Inr (p, a, product_pack p s)))"

definition shop_orders_of :: "ident \<Rightarrow> db \<Rightarrow> shop_order list" where
  "shop_orders_of u s = take 100 (newest so_created_at so_id (filter (\<lambda>x. so_user_id x = u) (shop_orders s)))"

section \<open>Points\<close>

definition points_of :: "ident \<Rightarrow> db \<Rightarrow> int \<times> point_ledger_row list" where
  "points_of u s = (balance_of u s, take 100 (newest pl_created_at pl_id (filter (\<lambda>r. pl_user_id r = u) (point_ledger s))))"

text \<open>The rewards that can be exchanged, with their costs; a cost that is no number is skipped.\<close>

definition point_exchanges :: "db \<Rightarrow> (reward \<times> int) list" where
  "point_exchanges s =
    concat (map (\<lambda>r. case py_int_or_0 (jget (rw_metadata r) ''pointCost'') of
        None \<Rightarrow> [] | Some cost \<Rightarrow> if cost \<le> 0 then [] else [(r, cost)])
      (sort_key (\<lambda>r. (rw_name r, rw_id r)) (filter (\<lambda>r. rw_status r = ''published'') (reward_catalog s))))"

definition exchange_points_catalog_item :: "ident \<Rightarrow> ident \<Rightarrow> string option \<Rightarrow> db \<Rightarrow> exn + exchange_response \<times> db" where
  "exchange_points_catalog_item i u header s = exchange_points u i header s"

text \<open>The packages on offer; the defaults are stored when there are none.\<close>

definition point_charge_catalog :: "db \<Rightarrow> point_charge_package list \<times> db" where
  "point_charge_catalog s =
    (let (rows, s1) = ensure_point_charge_packages s
     in (filter (\<lambda>p. pp_status p = ''active'' \<and>
          (case pp_scheduled_publish_at p of None \<Rightarrow> True | Some t \<Rightarrow> t \<le> now s)) rows, s1))"

definition point_charges_of :: "ident \<Rightarrow> db \<Rightarrow> point_charge list" where
  "point_charges_of u s = take 100 (newest pc_created_at pc_id (filter (\<lambda>c. pc_user_id c = u) (point_charges s)))"

text \<open>The charge, the balance after it, and whether the key was used before.\<close>

definition create_fan_point_charge ::
  "bool \<Rightarrow> bool \<Rightarrow> ident \<Rightarrow> string \<Rightarrow> string \<Rightarrow> ident \<Rightarrow> db \<Rightarrow> exn + (point_charge \<times> int \<times> bool) \<times> db" where
  "create_fan_point_charge hosted sandbox package_id payment_method header u s =
    (if hosted \<and> \<not> sandbox then Inl (AppError 403 ''POINT_CHARGE_SANDBOX_DISABLED'')
     else
       let key = py_strip header; existing = find_charge_by_key u key s
       in if key = [] then Inl (AppError 422 ''IDEMPOTENCY_KEY_REQUIRED'')
          else if (case existing of None \<Rightarrow> False
            | Some c \<Rightarrow> pc_package_id c \<noteq> package_id \<or> pc_payment_method c \<noteq> payment_method)
          then Inl (AppError 409 ''IDEMPOTENCY_KEY_REUSED'')
          else bindE (create_point_charge u package_id payment_method key s) (\<lambda>(c, s1).
            Inr ((c, balance_of u s1, existing \<noteq> None), s1)))"

definition refund_fan_point_charge :: "ident \<Rightarrow> string option \<Rightarrow> ident \<Rightarrow> db \<Rightarrow> exn + (point_charge \<times> int) \<times> db" where
  "refund_fan_point_charge charge_id header u s =
    (if \<not> present header \<or> py_strip (the header) = [] then Inl (AppError 422 ''IDEMPOTENCY_KEY_REQUIRED'')
     else bindE (refund_point_charge u charge_id (py_strip (the header)) s) (\<lambda>(c, s1).
       Inr ((c, balance_of u s1), s1)))"

section \<open>Missions\<close>

record mission_item =
  mi_mission :: mission_definition
  mi_period_key :: string
  mi_progress :: "mission_progress_row option"
  mi_claimable :: bool

definition mission_rule :: "ident \<Rightarrow> string \<Rightarrow> string" where
  "mission_rule i period = ''mission:'' @ i @ '':'' @ period"

definition open_grant :: "ident \<Rightarrow> string \<Rightarrow> db \<Rightarrow> reward_grant option" where
  "open_grant u rule s = find (\<lambda>g. rg_user_id g = u \<and> rg_rule_key g = rule \<and> rg_claimed_at g = None \<and>
    rg_revoked_at g = None) (reward_grants s)"

definition ready_to_claim :: "mission_progress_row option \<Rightarrow> reward_grant option \<Rightarrow> bool" where
  "ready_to_claim p g \<longleftrightarrow>
    (case p of None \<Rightarrow> False | Some p \<Rightarrow> mp_completed_at p \<noteq> None \<and> mp_claimed_at p = None) \<and> g \<noteq> None"

text \<open>An earlier period that was completed and never claimed: the latest completed one first.\<close>

definition historical_progress :: "ident \<Rightarrow> ident \<Rightarrow> string \<Rightarrow> db \<Rightarrow> mission_progress_row option" where
  "historical_progress u i period s =
    find (\<lambda>p. open_grant u (mission_rule i (mp_period_key p)) s \<noteq> None)
      (sort_key (\<lambda>p. (case mp_completed_at p of None \<Rightarrow> 0 | Some t \<Rightarrow> - t, mp_id p))
        (filter (\<lambda>p. mp_user_id p = u \<and> mp_mission_id p = i \<and> mp_completed_at p \<noteq> None \<and>
          mp_claimed_at p = None \<and> mp_period_key p \<noteq> period) (mission_progress s)))"

definition mission_view :: "ident \<Rightarrow> db \<Rightarrow> mission_definition \<Rightarrow> mission_item" where
  "mission_view u s m =
    (let period = mission_period_key (md_recurrence m) (now s) (md_starts_at m) (md_ends_at m);
         current = find (\<lambda>p. mp_user_id p = u \<and> mp_mission_id p = md_id m \<and> mp_period_key p = period) (mission_progress s);
         grant = open_grant u (mission_rule (md_id m) period) s
     in if ready_to_claim current grant
        then \<lparr>mi_mission = m, mi_period_key = period, mi_progress = current, mi_claimable = True\<rparr>
        else case historical_progress u (md_id m) period s of
          Some p \<Rightarrow> \<lparr>mi_mission = m, mi_period_key = mp_period_key p, mi_progress = Some p, mi_claimable = True\<rparr>
        | None \<Rightarrow> \<lparr>mi_mission = m, mi_period_key = period, mi_progress = current, mi_claimable = False\<rparr>)"

definition mission_completed :: "mission_item \<Rightarrow> bool" where
  "mission_completed x \<longleftrightarrow> (case mi_progress x of None \<Rightarrow> False | Some p \<Rightarrow> mp_completed_at p \<noteq> None)"

text \<open>The missions of a filter, in the order of the table.\<close>

definition missions :: "string option \<Rightarrow> ident \<Rightarrow> db \<Rightarrow> mission_item list" where
  "missions status_filter u s =
    filter (\<lambda>x. \<not> (status_filter = Some ''completed'' \<and> \<not> mission_completed x) \<and>
        \<not> (status_filter = Some ''active'' \<and> mission_completed x \<and> \<not> mi_claimable x))
      (map (mission_view u s) (filter (\<lambda>m. md_status m = ''published'' \<and>
        (if status_filter = Some ''ended'' then (case md_ends_at m of None \<Rightarrow> False | Some t \<Rightarrow> t < now s)
         else (case md_starts_at m of None \<Rightarrow> True | Some t \<Rightarrow> t \<le> now s) \<and>
           (case md_ends_at m of None \<Rightarrow> True | Some t \<Rightarrow> now s \<le> t))) (mission_definitions s)))"

text \<open>The grants are claimed one by one, each in a transaction of its own.\<close>

fun claim_grants :: "ident \<Rightarrow> ident list \<Rightarrow> db \<Rightarrow> (exn + jobj list) \<times> db" where
  "claim_grants u [] s = (Inr [], s)"
| "claim_grants u (i # is) s =
    (case claim_reward_grant u i s of
       Inl e \<Rightarrow> (Inl e, s)
     | Inr (d, s1) \<Rightarrow>
         (case claim_grants u is s1 of
            (Inl e, s2) \<Rightarrow> (Inl e, s2)
          | (Inr ds, s2) \<Rightarrow> (Inr (d # ds), s2)))"

definition mission_grants :: "ident \<Rightarrow> ident \<Rightarrow> db \<Rightarrow> reward_grant list" where
  "mission_grants i u s = filter (\<lambda>g. rg_user_id g = u \<and> like (''mission:'' @ i @ '':%'') (rg_rule_key g) \<and>
    rg_claimed_at g = None \<and> rg_revoked_at g = None) (reward_grants s)"

definition mark_claimed :: "ident \<Rightarrow> ident \<Rightarrow> db \<Rightarrow> db" where
  "mark_claimed i u s = s\<lparr>mission_progress := update_where
    (\<lambda>p. mp_user_id p = u \<and> mp_mission_id p = i \<and> mp_completed_at p \<noteq> None \<and> mp_claimed_at p = None)
    (\<lambda>p. p\<lparr>mp_claimed_at := Some (now s)\<rparr>) (mission_progress s)\<rparr>"

definition claim_mission_rewards :: "ident \<Rightarrow> ident \<Rightarrow> db \<Rightarrow> (exn + jobj list) \<times> db" where
  "claim_mission_rewards i u s =
    (if find (\<lambda>m. md_id m = i) (mission_definitions s) = None then (Inl (AppError 404 ''MISSION_NOT_FOUND''), s)
     else if mission_grants i u s = [] then (Inl (AppError 409 ''MISSION_REWARD_NOT_READY''), s)
     else case claim_grants u (map rg_id (mission_grants i u s)) s of
       (Inl e, s1) \<Rightarrow> (Inl e, s1)
     | (Inr ds, s1) \<Rightarrow> (Inr ds, mark_claimed i u s1))"

section \<open>Progress\<close>

record progression_view =
  pv_level :: int
  pv_total_xp :: int
  pv_achievements :: "(ident \<times> int \<times> int \<times> time option) list"
  pv_claimable :: "jobj list"
  pv_claimed :: "jobj list"
  pv_seasons :: "season_view list"
  pv_equipment :: equipment_payload
  pv_events :: "(string \<times> ident option \<times> string) list"

definition in_reward_scope :: "ident option \<Rightarrow> bool \<Rightarrow> reward_grant \<Rightarrow> reward \<Rightarrow> db \<Rightarrow> bool" where
  "in_reward_scope artist global_scope g r s \<longleftrightarrow>
    (if global_scope then rw_artist_id r = None \<or>
       list_ex (\<lambda>e. ev_id e = rg_source_event_id g \<and> ev_source_type e = ''pass_tier'' \<and>
         list_ex (\<lambda>t. pti_id t = ev_source_id e \<and>
           list_ex (\<lambda>p. ps_id p = pti_season_id t \<and> ps_artist_id p = None) (pass_seasons s)) (pass_tiers s)) (engagement_events s)
     else case artist of None \<Rightarrow> True | Some a \<Rightarrow> rw_artist_id r = Some a)"

definition granted_rewards :: "ident \<Rightarrow> ident option \<Rightarrow> bool \<Rightarrow> bool \<Rightarrow> db \<Rightarrow> (reward_grant \<times> reward) list" where
  "granted_rewards u artist global_scope claimed s =
    concat (map (\<lambda>g. case find (\<lambda>r. rw_id r = rg_reward_id g \<and> rw_status r = ''published'') (reward_catalog s) of
        None \<Rightarrow> [] | Some r \<Rightarrow> if in_reward_scope artist global_scope g r s then [(g, r)] else [])
      (sort_key (\<lambda>g. (if claimed then (case rg_claimed_at g of None \<Rightarrow> 0 | Some t \<Rightarrow> t) else 0, rg_granted_at g, rg_id g))
        (filter (\<lambda>g. rg_user_id g = u \<and> (rg_claimed_at g \<noteq> None) = claimed \<and> rg_revoked_at g = None) (reward_grants s))))"

definition achievement_item :: "ident \<Rightarrow> db \<Rightarrow> achievement_definition \<Rightarrow> ident \<times> int \<times> int \<times> time option" where
  "achievement_item u s d =
    (case find (\<lambda>p. ap_user_id p = u \<and> ap_achievement_id p = ad_id d) (achievement_progress s) of
       None \<Rightarrow> (ad_id d, ad_target_value d, 0, None)
     | Some p \<Rightarrow> (ad_id d, ad_target_value d, ap_current_value p, ap_completed_at p))"

text \<open>Reading the pass refreshes its progress, so the view writes.\<close>

definition fan_progression_data ::
  "ident \<Rightarrow> ident option \<Rightarrow> bool \<Rightarrow> db \<Rightarrow> exn + progression_view \<times> db" where
  "fan_progression_data u artist global_scope s =
    (let xp = scoped_user_xp u artist None None s;
         definitions = filter (\<lambda>d. ad_status d = ''published'' \<and>
           (if global_scope then ad_artist_id d = None
            else case artist of None \<Rightarrow> True | Some a \<Rightarrow> ad_artist_id d = Some a)) (achievement_definitions s)
     in bindE (fan_pass_data u artist global_scope s) (\<lambda>(seasons, s1).
        Inr (\<lparr>pv_level = level_for_total_xp xp s, pv_total_xp = xp,
          pv_achievements = map (achievement_item u s) definitions,
          pv_claimable = map (\<lambda>(g, r). reward_grant_data g r) (granted_rewards u artist global_scope False s),
          pv_claimed = map (\<lambda>(g, r). reward_grant_data g r) (granted_rewards u artist global_scope True s),
          pv_seasons = seasons, pv_equipment = equipment_data u s1,
          pv_events = map (\<lambda>e. (ev_kind e, if ev_source_type e = ''user_card'' then Some (ev_source_id e) else None, ev_status e))
            (sort_key ev_id (filter (\<lambda>e. ev_user_id e = u) (engagement_events s)))\<rparr>, s1)))"

section \<open>Claiming what is claimable\<close>

lemma like_itself: "like (p @ ''%'') (p @ t)"
proof (induction p)
  case Nil
  show ?case by (induction t) simp_all
qed simp

text \<open>What the list of missions offers can be claimed: for a mission that is shown as claimable
  there is an unclaimed grant of it, so claiming is never refused because the mission is unknown
  or nothing is ready.\<close>

theorem claimable_mission_accepted:
  assumes "x \<in> set (missions f u s)" and "mi_claimable x"
  shows "mission_grants (md_id (mi_mission x)) u s \<noteq> [] \<and>
    fst (claim_mission_rewards (md_id (mi_mission x)) u s) \<noteq> Inl (AppError 404 ''MISSION_NOT_FOUND'') \<and>
    fst (claim_mission_rewards (md_id (mi_mission x)) u s) \<noteq> Inl (AppError 409 ''MISSION_REWARD_NOT_READY'')"
proof -
  from assms(1) obtain m where m: "m \<in> set (mission_definitions s)" and x: "x = mission_view u s m"
    by (auto simp: missions_def)
  obtain period where g: "open_grant u (mission_rule (md_id m) period) s \<noteq> None" and mm: "mi_mission x = m"
    using assms(2) by (auto simp: x mission_view_def Let_def ready_to_claim_def historical_progress_def
      dest!: find_SomeD split: if_splits option.splits)
  then obtain g where "open_grant u (mission_rule (md_id m) period) s = Some g" by blast
  then have "g \<in> set (mission_grants (md_id m) u s)"
    using like_itself [of "''mission:'' @ md_id m @ '':''" period]
    by (auto simp: open_grant_def mission_grants_def mission_rule_def dest!: find_SomeD)
  then have ne: "mission_grants (md_id m) u s \<noteq> []" by (auto simp: filter_empty_conv)
  have found: "find (\<lambda>y. md_id y = md_id m) (mission_definitions s) \<noteq> None"
    using m by (auto simp: find_None_iff)
  have err: "fst (claim_grants u is s) = Inl e \<Longrightarrow> e \<noteq> AppError 404 ''MISSION_NOT_FOUND'' \<and> e \<noteq> AppError 409 ''MISSION_REWARD_NOT_READY''"
    for "is" s e
  proof (induction "is" arbitrary: s)
    case (Cons i "is")
    show ?case
    proof (cases "claim_reward_grant u i s")
      case (Inl e')
      then have "e' = AppError 404 ''REWARD_GRANT_NOT_FOUND'' \<or> e' = IntegrityError"
        by (auto simp: claim_reward_grant_def Let_def bindE_eq_Inl add_notification_def insert_row_def
          split: option.splits if_splits)
      with Inl Cons.prems show ?thesis by auto
    next
      case (Inr p)
      then obtain d s1 where p: "claim_reward_grant u i s = Inr (d, s1)" by (cases p) auto
      with Cons.prems have "fst (claim_grants u is s1) = Inl e" by (auto split: prod.splits sum.splits)
      then show ?thesis by (rule Cons.IH)
    qed
  qed simp
  have "fst (claim_mission_rewards (md_id m) u s) = Inl e \<Longrightarrow> \<exists>is. fst (claim_grants u is s) = Inl e" for e
    using ne found by (auto simp: claim_mission_rewards_def split: if_splits prod.splits sum.splits) (metis fst_conv)+
  with err ne show ?thesis unfolding mm by blast
qed

definition mission_db :: db where
  "mission_db = (reward_db None)\<lparr>mission_definitions := [daily_mission\<lparr>md_recurrence := ''once''\<rparr>],
    mission_progress := [\<lparr>mp_id = ''p1'', mp_user_id = ''ann'', mp_mission_id = md_id daily_mission,
      mp_period_key = mission_period_key ''once'' 0 (md_starts_at daily_mission) (md_ends_at daily_mission), mp_current_value = 1,
      mp_completed_at = Some 0, mp_claimed_at = None\<rparr>],
    reward_grants := [\<lparr>rg_id = ''g1'', rg_user_id = ''ann'', rg_reward_id = ''r1'', rg_source_event_id = ''e'',
      rg_rule_key = mission_rule (md_id daily_mission)
        (mission_period_key ''once'' 0 (md_starts_at daily_mission) (md_ends_at daily_mission)),
      rg_granted_at = 0, rg_claimed_at = None, rg_revoked_at = None\<rparr>]\<rparr>"

theorem claimable_mission_accepted_witness:
  "\<exists>x \<in> set (missions None ''ann'' mission_db). mi_claimable x \<and> mission_grants (md_id (mi_mission x)) ''ann'' mission_db \<noteq> []"
proof -
  have "case missions None ''ann'' mission_db of [] \<Rightarrow> False | x # _ \<Rightarrow> mi_claimable x" by code_simp
  then obtain x where x: "x \<in> set (missions None ''ann'' mission_db)" "mi_claimable x"
    by (cases "missions None ''ann'' mission_db") auto
  with claimable_mission_accepted [OF x] show ?thesis by blast
qed

text \<open>What claiming one grant does to the grants: it is claimed, the others keep their state.\<close>

lemma claim_reward_grant_rows:
  assumes "claim_reward_grant u i s = Inr (d, s')" and "g' \<in> set (reward_grants s')"
  obtains g where "g \<in> set (reward_grants s)" "rg_id g' = rg_id g" "rg_user_id g' = rg_user_id g"
    "rg_rule_key g' = rg_rule_key g" "rg_revoked_at g' = rg_revoked_at g"
    "rg_claimed_at g \<noteq> None \<Longrightarrow> rg_claimed_at g' \<noteq> None"
    "unique_by rg_id (reward_grants s) \<Longrightarrow> rg_id g = i \<Longrightarrow> rg_claimed_at g' \<noteq> None"
proof -
  from assms(1) obtain grant r where l: "locked_reward_grant_with_catalog u i s = Some (grant, r)"
    by (auto simp: claim_reward_grant_def inr_simps)
  then have grant: "grant \<in> set (reward_grants s)" "rg_id grant = i"
    by (auto simp: locked_reward_grant_with_catalog_def dest!: find_SomeD split: option.splits if_splits)
  have uniq: "g = grant" if "unique_by rg_id (reward_grants s)" "g \<in> set (reward_grants s)" "rg_id g = i" for g
    using that grant by (auto simp: unique_by_def distinct_map inj_on_def)
  show thesis
  proof (cases "rg_claimed_at grant")
    case None
    with assms(1) l have "reward_grants s' = update_where (\<lambda>g. rg_id g = i) (\<lambda>g. g\<lparr>rg_claimed_at := Some (now s)\<rparr>) (reward_grants s)"
      by (auto simp: claim_reward_grant_def inr_simps Let_def set_grant_def grant dest!: touch)
    with assms(2) have "g' \<in> (\<lambda>g. if rg_id g = i then g\<lparr>rg_claimed_at := Some (now s)\<rparr> else g) ` set (reward_grants s)"
      by (simp only: set_update_where)
    then obtain g where g: "g \<in> set (reward_grants s)"
      and g': "g' = (if rg_id g = i then g\<lparr>rg_claimed_at := Some (now s)\<rparr> else g)" by blast
    show ?thesis by (rule that [OF g]) (simp_all add: g')
  next
    case (Some t)
    with assms(1) l have "s' = s" by (simp add: claim_reward_grant_def)
    with assms(2) have g: "g' \<in> set (reward_grants s)" by simp
    show ?thesis by (rule that [OF g]) (use uniq [OF _ g] Some in auto)
  qed
qed

lemma claim_reward_grant_ids:
  assumes "claim_reward_grant u i s = Inr (d, s')"
  shows "map rg_id (reward_grants s') = map rg_id (reward_grants s) \<and> mission_definitions s' = mission_definitions s"
proof -
  from assms obtain grant r where l: "locked_reward_grant_with_catalog u i s = Some (grant, r)"
    by (auto simp: claim_reward_grant_def inr_simps)
  then show ?thesis
    using assms by (cases "rg_claimed_at grant")
      (auto simp: claim_reward_grant_def inr_simps Let_def set_grant_def map_update_where dest!: touch)
qed

lemma claim_grants_definitions:
  "claim_grants u is s = (Inr ds, s') \<Longrightarrow> mission_definitions s' = mission_definitions s"
proof (induction "is" arbitrary: s ds)
  case (Cons i "is")
  then obtain d s1 ds1 where 1: "claim_reward_grant u i s = Inr (d, s1)" and 2: "claim_grants u is s1 = (Inr ds1, s')"
    by (auto split: sum.splits prod.splits)
  from Cons.IH [OF 2] claim_reward_grant_ids [OF 1] show ?case by simp
qed simp

lemma claim_grants_rows:
  assumes "claim_grants u is s = (Inr ds, s')" and "unique_by rg_id (reward_grants s)" and "g' \<in> set (reward_grants s')"
  shows "\<exists>g \<in> set (reward_grants s). rg_id g' = rg_id g \<and>
    rg_user_id g' = rg_user_id g \<and> rg_rule_key g' = rg_rule_key g \<and> rg_revoked_at g' = rg_revoked_at g \<and>
    (rg_claimed_at g \<noteq> None \<or> rg_id g \<in> set is \<longrightarrow> rg_claimed_at g' \<noteq> None)"
  using assms
proof (induction "is" arbitrary: s ds)
  case Nil
  then show ?case by auto
next
  case (Cons i "is")
  then obtain d s1 ds1 where 1: "claim_reward_grant u i s = Inr (d, s1)" and 2: "claim_grants u is s1 = (Inr ds1, s')"
    by (auto split: sum.splits prod.splits)
  note ids = claim_reward_grant_ids [OF 1]
  with Cons.prems(2) have "unique_by rg_id (reward_grants s1)" by (simp add: unique_by_def)
  from Cons.IH [OF 2 this Cons.prems(3)] obtain g1 where g1: "g1 \<in> set (reward_grants s1)" "rg_id g' = rg_id g1"
    "rg_user_id g' = rg_user_id g1" "rg_rule_key g' = rg_rule_key g1" "rg_revoked_at g' = rg_revoked_at g1"
    "rg_claimed_at g1 \<noteq> None \<or> rg_id g1 \<in> set is \<longrightarrow> rg_claimed_at g' \<noteq> None"
    by blast
  from claim_reward_grant_rows [OF 1 g1(1)] obtain g where "g \<in> set (reward_grants s)" "rg_id g1 = rg_id g"
    "rg_user_id g1 = rg_user_id g" "rg_rule_key g1 = rg_rule_key g" "rg_revoked_at g1 = rg_revoked_at g"
    "rg_claimed_at g \<noteq> None \<Longrightarrow> rg_claimed_at g1 \<noteq> None" "rg_id g = i \<Longrightarrow> rg_claimed_at g1 \<noteq> None"
    using Cons.prems(2) by metis
  with g1 show ?case by (intro bexI [of _ g]) auto
qed

text \<open>C36. A mission pays once: after its rewards were claimed, no unclaimed grant of it is left, no
  completed period of it is left unclaimed, and claiming again is refused.\<close>

theorem mission_claimed_once:
  assumes "claim_mission_rewards i u s = (Inr ds, s')" and "unique_by rg_id (reward_grants s)"
  shows "mission_grants i u s' = [] \<and> ds \<noteq> [] \<and>
    (\<forall>p \<in> set (mission_progress s'). mp_user_id p = u \<and> mp_mission_id p = i \<and> mp_completed_at p \<noteq> None \<longrightarrow> mp_claimed_at p \<noteq> None) \<and>
    claim_mission_rewards i u s' = (Inl (AppError 409 ''MISSION_REWARD_NOT_READY''), s')"
proof -
  let ?is = "map rg_id (mission_grants i u s)"
  from assms(1) obtain s1 where ne: "mission_grants i u s \<noteq> []" and m: "find (\<lambda>m. md_id m = i) (mission_definitions s) \<noteq> None"
    and c: "claim_grants u ?is s = (Inr ds, s1)" and s': "s' = mark_claimed i u s1"
    by (auto simp: claim_mission_rewards_def split: if_splits sum.splits prod.splits)
  have rows: "reward_grants s' = reward_grants s1" "mission_definitions s' = mission_definitions s1"
    by (simp_all add: s' mark_claimed_def)
  have left: "mission_grants i u s' = []"
  proof -
    have False if g': "g' \<in> set (mission_grants i u s')" for g'
    proof -
      from g' have g1: "g' \<in> set (reward_grants s1)" by (simp add: mission_grants_def rows)
      from claim_grants_rows [OF c assms(2) g1] g' show False
        by (auto simp: mission_grants_def)
    qed
    then show ?thesis by (cases "mission_grants i u s'") auto
  qed
  have "ds \<noteq> []" using c ne by (cases "mission_grants i u s") (auto split: sum.splits prod.splits)
  moreover have "\<forall>p \<in> set (mission_progress s'). mp_user_id p = u \<and> mp_mission_id p = i \<and> mp_completed_at p \<noteq> None \<longrightarrow> mp_claimed_at p \<noteq> None"
    by (auto simp: s' mark_claimed_def ball_update_where)
  moreover have "claim_mission_rewards i u s' = (Inl (AppError 409 ''MISSION_REWARD_NOT_READY''), s')"
    using m left claim_grants_definitions [OF c] by (simp add: claim_mission_rewards_def rows)
  ultimately show ?thesis using left by blast
qed

theorem mission_claimed_once_witness:
  "\<exists>ds s'. claim_mission_rewards (md_id daily_mission) ''ann'' mission_db = (Inr ds, s') \<and> ds \<noteq> [] \<and>
    claim_mission_rewards (md_id daily_mission) ''ann'' s' = (Inl (AppError 409 ''MISSION_REWARD_NOT_READY''), s')"
proof -
  have "case claim_mission_rewards (md_id daily_mission) ''ann'' mission_db of (Inl e, s) \<Rightarrow> False | (Inr ds, s) \<Rightarrow> True"
    by code_simp
  then obtain ds s' where r: "claim_mission_rewards (md_id daily_mission) ''ann'' mission_db = (Inr ds, s')"
    by (auto split: prod.splits sum.splits)
  moreover have "unique_by rg_id (reward_grants mission_db)" by (simp add: mission_db_def unique_by_def)
  ultimately show ?thesis using mission_claimed_once [OF r] by blast
qed

text \<open>
  Each grant is claimed in a transaction of its own: when the reward of a later one was
  withdrawn, the request fails although an earlier grant was claimed, and the mission stays
  unclaimed for good.
\<close>

definition withdrawn_db :: db where
  "withdrawn_db = mission_db\<lparr>reward_grants := reward_grants mission_db @
    [(hd (reward_grants mission_db))\<lparr>rg_id := ''g2'', rg_reward_id := ''gone''\<rparr>]\<rparr>"

theorem claim_stops_half_way:
  "case claim_mission_rewards (md_id daily_mission) ''ann'' withdrawn_db of
     (Inl e, s) \<Rightarrow> list_ex (\<lambda>g. rg_id g = ''g1'' \<and> rg_claimed_at g \<noteq> None) (reward_grants s) \<and>
       list_all (\<lambda>p. mp_claimed_at p = None) (mission_progress s)
   | (Inr ds, s) \<Rightarrow> False"
  by code_simp

end
