(* ===== verification/GrowthDesk.thy ===== *)
theory GrowthDesk
  imports Wallet Partners Cards
begin

text \<open>
  The desk where operators prepare what fans grow with (\<open>backend/app/routers/admin.py\<close>):
  achievements, missions, level policies, rewards and pass seasons with their scopes and
  reviews, the adjustment of points and the retry of growth events.
\<close>

section \<open>Scopes and rights\<close>

definition not_visible :: exn where
  "not_visible = AppError 404 ''RESOURCE_NOT_FOUND''"

definition write_required :: exn where
  "write_required = AppError 403 ''ADMIN_WRITE_REQUIRED''"

definition require_engagement_write :: "admin_context \<Rightarrow> exn + unit" where
  "require_engagement_write c =
    (if ''engagement:write'' \<notin> set (ctx_actions c) \<and> ''engagement:manage_global'' \<notin> set (ctx_actions c)
     then Inl write_required else Inr ())"

definition require_engagement_approve :: "admin_context \<Rightarrow> exn + unit" where
  "require_engagement_approve c =
    (if ''engagement:approve'' \<notin> set (ctx_actions c) \<and> ''engagement:approve_global'' \<notin> set (ctx_actions c)
     then Inl write_required else Inr ())"

definition require_engagement_scope ::
  "admin_context \<Rightarrow> ident option \<Rightarrow> ident option \<Rightarrow> db \<Rightarrow> exn + ident option \<times> ident option" where
  "require_engagement_scope c organization artist s =
    (if is_root c \<or> is_platform_operator c then
       (case (organization, artist) of
          (None, None) \<Rightarrow> Inr (None, None)
        | (Some i, Some a) \<Rightarrow> bindE (organization_artist_or_404 c i a s) (\<lambda>_. Inr (organization, artist))
        | _ \<Rightarrow> Inl (AppError 422 ''ENGAGEMENT_SCOPE_REQUIRED''))
     else
       case ctx_organization c of
         None \<Rightarrow> Inl not_visible
       | Some g \<Rightarrow>
           if organization \<noteq> None \<and> organization \<noteq> Some (org_id g) then Inl not_visible
           else case artist of
             None \<Rightarrow>
               if am_access_level (ctx_membership c) = ''company_admin'' then Inr (Some (org_id g), None)
               else Inl (AppError 422 ''ARTIST_REQUIRED'')
           | Some a \<Rightarrow> bindE (organization_artist_or_404 c (org_id g) a s) (\<lambda>_. Inr (Some (org_id g), artist)))"

text \<open>What the three visibility checks share: the scope of the row.\<close>

definition content_visible :: "admin_context \<Rightarrow> ident option \<Rightarrow> ident option \<Rightarrow> exn + unit" where
  "content_visible c organization artist =
    (if is_root c \<or> is_platform_operator c then Inr ()
     else if ctx_organization c = None \<or> organization \<noteq> map_option org_id (ctx_organization c) then Inl not_visible
     else if am_access_level (ctx_membership c) = ''company_admin'' then Inr ()
     else if artist = None \<or> the artist \<notin> set (ctx_artists c) then Inl not_visible
     else Inr ())"

definition ensure_achievement_visible :: "admin_context \<Rightarrow> achievement_definition \<Rightarrow> exn + unit" where
  "ensure_achievement_visible c a = content_visible c (ad_organization_id a) (ad_artist_id a)"

definition ensure_mission_visible :: "admin_context \<Rightarrow> mission_definition \<Rightarrow> exn + unit" where
  "ensure_mission_visible c m = content_visible c (md_organization_id m) (md_artist_id m)"

definition ensure_pass_season_visible :: "admin_context \<Rightarrow> pass_season \<Rightarrow> exn + unit" where
  "ensure_pass_season_visible c p = content_visible c (ps_organization_id p) (ps_artist_id p)"

definition scope_approver :: "admin_context \<Rightarrow> ident option \<Rightarrow> exn + unit" where
  "scope_approver c organization =
    (if is_root c \<or> is_platform_operator c then Inr ()
     else if organization = None then
       (if ''engagement:approve_global'' \<notin> set (ctx_actions c) then Inl write_required else Inr ())
     else if am_access_level (ctx_membership c) \<noteq> ''company_admin'' then Inl write_required
     else Inr ())"

definition ensure_engagement_approver_scope :: "admin_context \<Rightarrow> achievement_definition \<Rightarrow> exn + unit" where
  "ensure_engagement_approver_scope c a = scope_approver c (ad_organization_id a)"

definition ensure_pass_season_approver_scope :: "admin_context \<Rightarrow> pass_season \<Rightarrow> exn + unit" where
  "ensure_pass_season_approver_scope c p = scope_approver c (ps_organization_id p)"

definition validate_reward_scope :: "ident list \<Rightarrow> ident option \<Rightarrow> ident option \<Rightarrow> db \<Rightarrow> exn + unit" where
  "validate_reward_scope ids organization artist s =
    (if ids = [] then Inr ()
     else if artist = None \<and> list_ex (\<lambda>r. rw_id r \<in> set ids \<and> rw_artist_id r \<noteq> None) (reward_catalog s)
     then Inl (AppError 422 ''GLOBAL_REWARD_REQUIRED'')
     else if set (map rw_id (filter (\<lambda>r. rw_id r \<in> set ids \<and> rw_organization_id r = organization \<and>
         rw_artist_id r = artist) (reward_catalog s))) \<noteq> set ids
     then Inl not_visible else Inr ())"

text \<open>What a listing shows, by the organization and the artist of a row.\<close>

definition engagement_scope_filter :: "admin_context \<Rightarrow> ident option \<Rightarrow> ident option \<Rightarrow> bool" where
  "engagement_scope_filter c organization artist \<longleftrightarrow>
    (if is_root c then True
     else if is_platform_operator c then organization = None
     else case ctx_organization c of
       None \<Rightarrow> False
     | Some g \<Rightarrow> organization = Some (org_id g) \<and>
         (am_access_level (ctx_membership c) = ''company_admin'' \<or> artist \<in> Some ` set (ctx_artists c)))"

definition content_audit ::
  "admin_context \<Rightarrow> string \<Rightarrow> string \<Rightarrow> ident \<Rightarrow> ident option \<Rightarrow> ident option \<Rightarrow> jobj \<Rightarrow> audit_args" where
  "content_audit c action entity i organization artist details =
    \<lparr>au_actor_user_id = Some (u_id (ctx_user c)), au_action = action, au_entity_type = entity, au_entity_id = i,
     au_organization_id = organization, au_artist_id = artist, au_details = details\<rparr>"

definition status_change :: "string \<Rightarrow> string \<Rightarrow> jobj" where
  "status_change before after = [(''previousStatus'', JStr before), (''nextStatus'', JStr after)]"

section \<open>Achievements\<close>

definition put_achievement :: "achievement_definition \<Rightarrow> db \<Rightarrow> db" where
  "put_achievement a s = s\<lparr>achievement_definitions :=
    update_where (\<lambda>x. ad_id x = ad_id a) (\<lambda>_. a) (achievement_definitions s)\<rparr>"

definition achievement_audit :: "admin_context \<Rightarrow> string \<Rightarrow> achievement_definition \<Rightarrow> jobj \<Rightarrow> audit_args" where
  "achievement_audit c action a details =
    content_audit c action ''achievement'' (ad_id a) (ad_organization_id a) (ad_artist_id a) details"

definition list_admin_achievements :: "admin_context \<Rightarrow> db \<Rightarrow> achievement_definition list" where
  "list_admin_achievements c s =
    filter (\<lambda>a. engagement_scope_filter c (ad_organization_id a) (ad_artist_id a)) (achievement_definitions s)"

text \<open>The body, with the condition payload its validation has completed.\<close>

record achievement_body =
  acb_organization_id :: "ident option"
  acb_artist_id :: "ident option"
  acb_member_id :: "ident option"
  acb_condition_type :: string
  acb_target_value :: int
  acb_condition_payload :: jobj
  acb_reward_ids :: "ident list"
  acb_xp_bonus :: int
  acb_starts_at :: "time option"
  acb_ends_at :: "time option"

definition with_key :: "jobj \<Rightarrow> string \<Rightarrow> json \<Rightarrow> jobj" where
  "with_key d k v = (if k \<in> fst ` set d then map (\<lambda>(x, w). (x, if x = k then v else w)) d else d @ [(k, v)])"

text \<open>The validation of the body: metadata is merged, the condition and the period are checked.\<close>

definition include_condition_metadata :: "achievement_body \<Rightarrow> achievement_body option" where
  "include_condition_metadata b =
    (let p1 = (case acb_member_id b of None \<Rightarrow> acb_condition_payload b
           | Some m \<Rightarrow> with_key (acb_condition_payload b) ''memberId'' (JStr m));
         p2 = (case acb_reward_ids b of [] \<Rightarrow> p1
           | r # rs \<Rightarrow> with_key (with_key p1 ''rewardIds'' (JArr (map JStr (r # rs)))) ''rewardId'' (JStr r));
         p3 = (if acb_xp_bonus b \<noteq> 0 then with_key p2 ''xpBonus'' (JInt (acb_xp_bonus b)) else p2)
     in if acb_condition_type b = ''specific_card'' \<and> \<not> truthy (jget p3 ''cardId'') then None
        else if acb_condition_type b = ''drop_participation'' \<and> \<not> truthy (jget p3 ''dropId'') then None
        else if bad_window (acb_starts_at b) (acb_ends_at b) then None
        else Some (b\<lparr>acb_condition_payload := p3\<rparr>))"

definition create_achievement :: "achievement_body \<Rightarrow> admin_context \<Rightarrow> db \<Rightarrow> exn + achievement_definition \<times> db" where
  "create_achievement b c s =
    bindE (require_engagement_write c) (\<lambda>_.
    bindE (require_engagement_scope c (acb_organization_id b) (acb_artist_id b) s) (\<lambda>(organization, artist).
    bindE (validate_reward_scope (acb_reward_ids b) organization artist s) (\<lambda>_.
    let a = \<lparr>ad_id = new_id ''achievement_'' s, ad_organization_id = organization, ad_artist_id = artist,
          ad_condition_type = acb_condition_type b, ad_target_value = acb_target_value b,
          ad_condition_payload = acb_condition_payload b,
          ad_reward_rule_key = (case acb_reward_ids b of [] \<Rightarrow> None | r # _ \<Rightarrow> Some r),
          ad_status = ''draft'', ad_starts_at = acb_starts_at b, ad_ends_at = acb_ends_at b\<rparr>
    in bindE (insert_row (\<lambda>r x. ad_id x = ad_id r) a (achievement_definitions s)) (\<lambda>rows.
       bindE (record_audit (achievement_audit c ''achievement.created'' a [])
         ((draw s)\<lparr>achievement_definitions := rows\<rparr>)) (\<lambda>s1. Inr (a, s1))))))"

definition scoped_achievement_or_404 :: "ident \<Rightarrow> admin_context \<Rightarrow> db \<Rightarrow> exn + achievement_definition" where
  "scoped_achievement_or_404 i c s =
    (case get_achievement i s of None \<Rightarrow> Inl not_visible
     | Some a \<Rightarrow> bindE (ensure_achievement_visible c a) (\<lambda>_. Inr a))"

definition transition_achievement_status ::
  "string \<Rightarrow> string \<Rightarrow> string \<Rightarrow> ident \<Rightarrow> admin_context \<Rightarrow> db \<Rightarrow> exn + achievement_definition \<times> db" where
  "transition_achievement_status required next' action i c s =
    bindE (scoped_achievement_or_404 i c s) (\<lambda>a.
    if ad_status a \<noteq> required then Inl (AppError 409 ''INVALID_ACHIEVEMENT_STATUS'')
    else
      let a1 = a\<lparr>ad_status := next'\<rparr>
      in bindE (record_audit (achievement_audit c action a1 (status_change required next')) (put_achievement a1 s)) (\<lambda>s1.
         Inr (a1, s1)))"

definition submit_achievement_review :: "ident \<Rightarrow> admin_context \<Rightarrow> db \<Rightarrow> exn + achievement_definition \<times> db" where
  "submit_achievement_review i c s =
    bindE (require_engagement_write c) (\<lambda>_.
    transition_achievement_status ''draft'' ''pending_review'' ''achievement.submitted'' i c s)"

text \<open>What approval and disabling share; the visibility is checked before the right.\<close>

definition decide_achievement ::
  "string \<Rightarrow> string \<Rightarrow> string \<Rightarrow> ident \<Rightarrow> admin_context \<Rightarrow> db \<Rightarrow> exn + achievement_definition \<times> db" where
  "decide_achievement required next' action i c s =
    bindE (case get_achievement i s of None \<Rightarrow> Inr () | Some a \<Rightarrow> ensure_achievement_visible c a) (\<lambda>_.
    bindE (require_engagement_approve c) (\<lambda>_.
    case get_achievement i s of
      None \<Rightarrow> Inl not_visible
    | Some a \<Rightarrow>
        bindE (ensure_engagement_approver_scope c a) (\<lambda>_.
        if ad_status a \<noteq> required then Inl (AppError 409 ''INVALID_ACHIEVEMENT_STATUS'')
        else
          let a1 = a\<lparr>ad_status := next'\<rparr>
          in bindE (record_audit (achievement_audit c action a1 (status_change required next')) (put_achievement a1 s)) (\<lambda>s1.
             Inr (a1, s1)))))"

definition approve_achievement :: "ident \<Rightarrow> admin_context \<Rightarrow> db \<Rightarrow> exn + achievement_definition \<times> db" where
  "approve_achievement = decide_achievement ''pending_review'' ''published'' ''achievement.published''"

definition disable_achievement :: "ident \<Rightarrow> admin_context \<Rightarrow> db \<Rightarrow> exn + achievement_definition \<times> db" where
  "disable_achievement = decide_achievement ''published'' ''disabled'' ''achievement.disabled''"

section \<open>Missions\<close>

definition put_mission :: "mission_definition \<Rightarrow> db \<Rightarrow> db" where
  "put_mission m s = s\<lparr>mission_definitions := update_where (\<lambda>x. md_id x = md_id m) (\<lambda>_. m) (mission_definitions s)\<rparr>"

definition get_mission :: "ident \<Rightarrow> db \<Rightarrow> mission_definition option" where
  "get_mission i s = find (\<lambda>m. md_id m = i) (mission_definitions s)"

definition mission_audit :: "admin_context \<Rightarrow> string \<Rightarrow> mission_definition \<Rightarrow> jobj \<Rightarrow> audit_args" where
  "mission_audit c action m details =
    content_audit c action ''mission'' (md_id m) (md_organization_id m) (md_artist_id m) details"

definition list_admin_missions :: "admin_context \<Rightarrow> db \<Rightarrow> mission_definition list" where
  "list_admin_missions c s =
    sort_key (\<lambda>m. (md_title m, md_id m))
      (filter (\<lambda>m. engagement_scope_filter c (md_organization_id m) (md_artist_id m)) (mission_definitions s))"

record mission_body =
  mib_organization_id :: "ident option"
  mib_artist_id :: "ident option"
  mib_title :: string
  mib_event_kind :: string
  mib_target_value :: int
  mib_recurrence :: string
  mib_condition_payload :: jobj
  mib_reward_payload :: jobj
  mib_starts_at :: "time option"
  mib_ends_at :: "time option"

text \<open>A body whose period ends before it starts is refused before the handler runs.\<close>

definition validate_period :: "time option \<Rightarrow> time option \<Rightarrow> bool" where
  "validate_period starts ends \<longleftrightarrow> \<not> bad_window starts ends"

definition create_mission :: "mission_body \<Rightarrow> admin_context \<Rightarrow> db \<Rightarrow> exn + mission_definition \<times> db" where
  "create_mission b c s =
    bindE (require_engagement_write c) (\<lambda>_.
    bindE (require_engagement_scope c (mib_organization_id b) (mib_artist_id b) s) (\<lambda>(organization, artist).
    let m = \<lparr>md_id = new_id ''mission_'' s, md_organization_id = organization, md_artist_id = artist,
          md_title = mib_title b, md_event_kind = mib_event_kind b, md_target_value = mib_target_value b,
          md_recurrence = mib_recurrence b, md_condition_payload = mib_condition_payload b,
          md_reward_payload = mib_reward_payload b, md_status = ''draft'',
          md_starts_at = mib_starts_at b, md_ends_at = mib_ends_at b\<rparr>
    in bindE (insert_row (\<lambda>r x. md_id x = md_id r) m (mission_definitions s)) (\<lambda>rows.
       bindE (record_audit (mission_audit c ''mission.created'' m
           [(''eventKind'', JStr (md_event_kind m)), (''recurrence'', JStr (md_recurrence m))])
         ((draw s)\<lparr>mission_definitions := rows\<rparr>)) (\<lambda>s1. Inr (m, s1)))))"

text \<open>An update names the fields to change; a field may be null.\<close>

record mission_update =
  mu_organization_id :: "ident option option"
  mu_artist_id :: "ident option option"
  mu_title :: "string option option"
  mu_event_kind :: "string option option"
  mu_target_value :: "int option option"
  mu_recurrence :: "string option option"
  mu_condition_payload :: "jobj option option"
  mu_reward_payload :: "jobj option option"
  mu_starts_at :: "time option option"
  mu_ends_at :: "time option option"

text \<open>
  A null is refused in a column that may not be null. In a JSON column it is stored as the JSON
  null, which every reader takes for an empty object.
\<close>

definition sent_column :: "'a option option \<Rightarrow> 'a \<Rightarrow> exn + 'a" where
  "sent_column field old = (case field of None \<Rightarrow> Inr old | Some None \<Rightarrow> Inl IntegrityError | Some (Some v) \<Rightarrow> Inr v)"

definition sent_json :: "jobj option option \<Rightarrow> jobj \<Rightarrow> jobj" where
  "sent_json field old = (case field of None \<Rightarrow> old | Some None \<Rightarrow> [] | Some (Some v) \<Rightarrow> v)"

definition set_mission_fields :: "mission_update \<Rightarrow> mission_definition \<Rightarrow> exn + mission_definition" where
  "set_mission_fields b m =
    bindE (sent_column (mu_title b) (md_title m)) (\<lambda>title.
    bindE (sent_column (mu_event_kind b) (md_event_kind m)) (\<lambda>event_kind.
    bindE (sent_column (mu_target_value b) (md_target_value m)) (\<lambda>target.
    bindE (sent_column (mu_recurrence b) (md_recurrence m)) (\<lambda>recurrence.
    Inr (m\<lparr>md_title := title, md_event_kind := event_kind, md_target_value := target,
           md_recurrence := recurrence,
           md_condition_payload := sent_json (mu_condition_payload b) (md_condition_payload m),
           md_reward_payload := sent_json (mu_reward_payload b) (md_reward_payload m),
           md_starts_at := sent (mu_starts_at b) (md_starts_at m),
           md_ends_at := sent (mu_ends_at b) (md_ends_at m)\<rparr>)))))"

definition mission_scope :: "mission_update \<Rightarrow> mission_definition \<Rightarrow> admin_context \<Rightarrow> db \<Rightarrow> exn + mission_definition" where
  "mission_scope b m c s =
    (if mu_organization_id b = None \<and> mu_artist_id b = None then Inr m
     else bindE (require_engagement_scope c (sent (mu_organization_id b) (md_organization_id m))
         (sent (mu_artist_id b) (md_artist_id m)) s) (\<lambda>(organization, artist).
       Inr (m\<lparr>md_organization_id := organization, md_artist_id := artist\<rparr>)))"

definition visible_mission :: "ident \<Rightarrow> admin_context \<Rightarrow> db \<Rightarrow> exn + mission_definition" where
  "visible_mission i c s =
    (case get_mission i s of None \<Rightarrow> Inl not_visible
     | Some m \<Rightarrow> bindE (ensure_mission_visible c m) (\<lambda>_. Inr m))"

definition update_mission :: "ident \<Rightarrow> mission_update \<Rightarrow> admin_context \<Rightarrow> db \<Rightarrow> exn + mission_definition \<times> db" where
  "update_mission i b c s =
    bindE (require_engagement_write c) (\<lambda>_.
    bindE (visible_mission i c s) (\<lambda>m.
    if md_status m \<noteq> ''draft'' then Inl (AppError 409 ''MISSION_EDIT_LOCKED'')
    else
      bindE (mission_scope b m c s) (\<lambda>m1.
      bindE (set_mission_fields b m1) (\<lambda>m2.
      bindE (record_audit (mission_audit c ''mission.updated'' m2 [(''status'', JStr (md_status m2))])
        (put_mission m2 s)) (\<lambda>s1. Inr (m2, s1))))))"

text \<open>What the transitions share once the rights are checked: the status and the audit entry.\<close>

definition move_mission :: "string \<Rightarrow> string \<Rightarrow> string \<Rightarrow> mission_definition \<Rightarrow> admin_context \<Rightarrow> db \<Rightarrow> exn + mission_definition \<times> db" where
  "move_mission required next' action m c s =
    (if md_status m \<noteq> required then Inl (AppError 409 ''INVALID_MISSION_STATUS'')
     else
       let m1 = m\<lparr>md_status := next'\<rparr>
       in bindE (record_audit (mission_audit c action m1 (status_change required next')) (put_mission m1 s)) (\<lambda>s1.
          Inr (m1, s1)))"

definition transition_mission_status ::
  "string \<Rightarrow> string \<Rightarrow> string \<Rightarrow> ident \<Rightarrow> admin_context \<Rightarrow> db \<Rightarrow> exn + mission_definition \<times> db" where
  "transition_mission_status required next' action i c s =
    bindE (visible_mission i c s) (\<lambda>m. move_mission required next' action m c s)"

definition submit_mission_review :: "ident \<Rightarrow> admin_context \<Rightarrow> db \<Rightarrow> exn + mission_definition \<times> db" where
  "submit_mission_review i c s =
    bindE (require_engagement_write c) (\<lambda>_.
    transition_mission_status ''draft'' ''pending_review'' ''mission.submitted'' i c s)"

definition mission_approver :: "admin_context \<Rightarrow> mission_definition \<Rightarrow> exn + unit" where
  "mission_approver c m =
    (if md_organization_id m = None
     then (if \<not> is_root c \<and> ''engagement:approve_global'' \<notin> set (ctx_actions c) then Inl write_required else Inr ())
     else if \<not> is_root c \<and> \<not> is_platform_operator c \<and> am_access_level (ctx_membership c) \<noteq> ''company_admin''
     then Inl write_required else Inr ())"

definition decide_mission ::
  "string \<Rightarrow> string \<Rightarrow> string \<Rightarrow> ident \<Rightarrow> admin_context \<Rightarrow> db \<Rightarrow> exn + mission_definition \<times> db" where
  "decide_mission required next' action i c s =
    bindE (visible_mission i c s) (\<lambda>m.
    bindE (require_engagement_approve c) (\<lambda>_.
    bindE (mission_approver c m) (\<lambda>_.
    move_mission required next' action m c s)))"

definition approve_mission :: "ident \<Rightarrow> admin_context \<Rightarrow> db \<Rightarrow> exn + mission_definition \<times> db" where
  "approve_mission = decide_mission ''pending_review'' ''published'' ''mission.published''"

definition disable_mission :: "ident \<Rightarrow> admin_context \<Rightarrow> db \<Rightarrow> exn + mission_definition \<times> db" where
  "disable_mission = decide_mission ''published'' ''disabled'' ''mission.disabled''"

section \<open>Level policies\<close>

definition policy_thresholds :: "ident \<Rightarrow> db \<Rightarrow> level_threshold list" where
  "policy_thresholds i s = filter (\<lambda>t. lt_policy_version_id t = i) (level_thresholds s)"

definition level_policy_data :: "level_policy_version \<Rightarrow> db \<Rightarrow> level_policy_version \<times> level_threshold list" where
  "level_policy_data p s = (p, sort_key lt_level (policy_thresholds (lp_id p) s))"

text \<open>The listing comes in the order of the table here.\<close>

definition list_level_policies :: "admin_context \<Rightarrow> db \<Rightarrow> exn + (level_policy_version \<times> level_threshold list) list" where
  "list_level_policies c s =
    bindE (require_action ''engagement:manage_global'' c) (\<lambda>_.
    Inr (map (\<lambda>p. level_policy_data p s) (level_policy_versions s)))"

text \<open>The body: the levels with their XP, in ascending order without repetition.\<close>

record policy_body =
  plb_thresholds :: "(int \<times> int) list"
  plb_effective_at :: "time option"

definition validate_thresholds :: "policy_body \<Rightarrow> bool" where
  "validate_thresholds b \<longleftrightarrow>
    (let levels = map fst (plb_thresholds b) in distinct levels \<and> sort levels = levels)"

definition clash_threshold :: "level_threshold \<Rightarrow> level_threshold \<Rightarrow> bool" where
  "clash_threshold r x \<longleftrightarrow> lt_id x = lt_id r \<or>
    (lt_policy_version_id x = lt_policy_version_id r \<and> lt_level x = lt_level r)"

definition add_threshold :: "ident \<Rightarrow> int \<times> int \<Rightarrow> db \<Rightarrow> exn + db" where
  "add_threshold i lx s =
    bindE (insert_row clash_threshold
        \<lparr>lt_id = new_id ''level_threshold_'' s, lt_policy_version_id = i, lt_level = fst lx, lt_required_xp = snd lx\<rparr>
        (level_thresholds s)) (\<lambda>rows. Inr ((draw s)\<lparr>level_thresholds := rows\<rparr>))"

definition policy_audit :: "admin_context \<Rightarrow> string \<Rightarrow> ident \<Rightarrow> nat \<Rightarrow> audit_args" where
  "policy_audit c action i n = content_audit c action ''level_policy'' i None None [(''thresholdCount'', JInt (int n))]"

definition create_level_policy ::
  "policy_body \<Rightarrow> admin_context \<Rightarrow> db \<Rightarrow> exn + (level_policy_version \<times> level_threshold list) \<times> db" where
  "create_level_policy b c s =
    bindE (require_action ''engagement:manage_global'' c) (\<lambda>_.
    let p = \<lparr>lp_id = new_id ''level_policy_'' s, lp_status = ''draft'', lp_is_active = False,
          lp_effective_at = plb_effective_at b\<rparr>
    in bindE (insert_row (\<lambda>r x. lp_id x = lp_id r) p (level_policy_versions s)) (\<lambda>rows.
       bindE (foldE (add_threshold (lp_id p)) (plb_thresholds b) ((draw s)\<lparr>level_policy_versions := rows\<rparr>)) (\<lambda>s1.
       bindE (record_audit (policy_audit c ''level_policy.created'' (lp_id p) (length (plb_thresholds b))) s1) (\<lambda>s2.
       Inr (level_policy_data p s2, s2)))))"

text \<open>The policies that were active are switched off, whenever the new one takes effect.\<close>

definition activate_policy :: "level_policy_version \<Rightarrow> db \<Rightarrow> level_policy_version \<times> db" where
  "activate_policy p s =
    (let p1 = p\<lparr>lp_status := ''published'', lp_is_active := True,
           lp_effective_at := (case lp_effective_at p of None \<Rightarrow> Some (now s) | Some t \<Rightarrow> Some t)\<rparr>
     in (p1, s\<lparr>level_policy_versions := update_where (\<lambda>x. lp_id x = lp_id p) (\<lambda>_. p1)
          (update_where lp_is_active (\<lambda>x. x\<lparr>lp_is_active := False\<rparr>) (level_policy_versions s))\<rparr>))"

definition publish_level_policy ::
  "ident \<Rightarrow> admin_context \<Rightarrow> db \<Rightarrow> exn + (level_policy_version \<times> level_threshold list) \<times> db" where
  "publish_level_policy i c s =
    bindE (require_action ''engagement:manage_global'' c) (\<lambda>_.
    case find (\<lambda>p. lp_id p = i) (level_policy_versions s) of
      None \<Rightarrow> Inl not_visible
    | Some p \<Rightarrow>
        if lp_status p \<noteq> ''draft'' then Inl (AppError 409 ''INVALID_LEVEL_POLICY_STATUS'')
        else if policy_thresholds i s = [] then Inl (AppError 409 ''LEVEL_POLICY_EMPTY'')
        else
          let (p1, s1) = activate_policy p s
          in bindE (record_audit (policy_audit c ''level_policy.published'' i (length (policy_thresholds i s))) s1) (\<lambda>s2.
             Inr (level_policy_data p1 s2, s2)))"

section \<open>Points and growth events\<close>

text \<open>The amount, the balance after it, and whether the key was used before; without a key one is made.\<close>

definition adjust_fan_points ::
  "ident \<Rightarrow> int \<Rightarrow> string \<Rightarrow> string option \<Rightarrow> admin_context \<Rightarrow> db \<Rightarrow> exn + (int \<times> int \<times> bool) \<times> db" where
  "adjust_fan_points i amount reason key c s =
    bindE (require_action ''engagement:points_adjust'' c) (\<lambda>_.
    if get_user i s = None then Inl (AppError 404 ''USER_NOT_FOUND'')
    else
      let (k, s0) = (if present key then (the key, s) else (new_id [] s, draw s))
      in bindE (adjust_points i amount (Some reason) (u_id (ctx_user c)) k s0) (\<lambda>((ledger, replayed), s1).
         if replayed then Inr ((amount, pl_balance_after ledger, True), s1)
         else
           bindE (record_audit (content_audit c ''points.adjusted'' ''user'' i None None
               [(''amount'', JInt amount), (''reason'', JStr reason), (''ledgerId'', JStr (pl_id ledger))]) s1) (\<lambda>s2.
           Inr ((amount, pl_balance_after ledger, False), s2))))"

definition list_engagement_events :: "string option \<Rightarrow> admin_context \<Rightarrow> db \<Rightarrow> exn + engagement_event list" where
  "list_engagement_events status_filter c s =
    bindE (require_action ''engagement:retry'' c) (\<lambda>_.
    Inr (take 100 (rev (sort_key ev_id
      (filter (\<lambda>e. present status_filter \<longrightarrow> Some (ev_status e) = status_filter) (engagement_events s))))))"

definition retry_engagement_event :: "ident \<Rightarrow> admin_context \<Rightarrow> db \<Rightarrow> exn + engagement_event \<times> db" where
  "retry_engagement_event i c s =
    bindE (require_action ''engagement:retry'' c) (\<lambda>_.
    case find (\<lambda>e. ev_id e = i) (engagement_events s) of
      None \<Rightarrow> Inl (AppError 404 ''ENGAGEMENT_EVENT_NOT_FOUND'')
    | Some e \<Rightarrow>
        if ev_status e \<noteq> ''failed'' then Inl (AppError 409 ''INVALID_ENGAGEMENT_STATUS'')
        else
          let e1 = e\<lparr>ev_status := ''pending'', ev_error_code := None, ev_error_message := None\<rparr>
          in bindE (record_audit (content_audit c ''engagement_event.retried'' ''engagement_event'' i None None
               [(''previousStatus'', JStr ''failed'')])
               (s\<lparr>engagement_events := update_where (\<lambda>x. ev_id x = i) (\<lambda>_. e1) (engagement_events s)\<rparr>)) (\<lambda>s1.
             Inr (e1, s1)))"

section \<open>Rewards\<close>

definition list_admin_rewards :: "admin_context \<Rightarrow> db \<Rightarrow> reward list" where
  "list_admin_rewards c s =
    sort_key (\<lambda>r. (rw_name r, rw_id r))
      (filter (\<lambda>r. engagement_scope_filter c (rw_organization_id r) (rw_artist_id r)) (reward_catalog s))"

record reward_body =
  rwb_name :: string
  rwb_reward_type :: string
  rwb_organization_id :: "ident option"
  rwb_artist_id :: "ident option"
  rwb_metadata :: jobj

definition named_pack :: "jobj \<Rightarrow> db \<Rightarrow> card_pack option" where
  "named_pack d s =
    (case (if truthy (jget d ''cardPackId'') then id_text (jget d ''cardPackId'') else None) of
       None \<Rightarrow> None
     | Some i \<Rightarrow> if py_strip i = [] then None else find (\<lambda>p. cp_id p = py_strip i) (card_packs s))"

definition reward_metadata :: "reward_body \<Rightarrow> ident option \<Rightarrow> db \<Rightarrow> exn + jobj" where
  "reward_metadata b artist s =
    (if rwb_reward_type b \<noteq> ''card_pack'' then Inr (rwb_metadata b)
     else case named_pack (rwb_metadata b) s of
       None \<Rightarrow> Inl (AppError 409 ''CARD_PACK_NOT_PUBLISHED'')
     | Some p \<Rightarrow>
         if cp_status p \<noteq> ''published'' then Inl (AppError 409 ''CARD_PACK_NOT_PUBLISHED'')
         else if artist \<noteq> None \<and> Some (cp_artist_id p) \<noteq> artist then Inl not_visible
         else Inr (with_key (rwb_metadata b) ''cardPackId'' (JStr (cp_id p))))"

definition create_admin_reward :: "reward_body \<Rightarrow> admin_context \<Rightarrow> db \<Rightarrow> exn + reward \<times> db" where
  "create_admin_reward b c s =
    bindE (require_engagement_write c) (\<lambda>_.
    bindE (require_engagement_scope c (rwb_organization_id b) (rwb_artist_id b) s) (\<lambda>(organization, artist).
    bindE (reward_metadata b artist s) (\<lambda>metadata.
    let r = \<lparr>rw_id = new_id ''reward_'' s, rw_organization_id = organization, rw_artist_id = artist,
          rw_reward_type = rwb_reward_type b, rw_name = rwb_name b, rw_metadata = metadata, rw_status = ''published''\<rparr>
    in bindE (insert_row (\<lambda>r x. rw_id x = rw_id r) r (reward_catalog s)) (\<lambda>rows.
       bindE (record_audit (content_audit c ''reward.created'' ''reward'' (rw_id r) organization artist
           [(''rewardType'', JStr (rw_reward_type r))]) ((draw s)\<lparr>reward_catalog := rows\<rparr>)) (\<lambda>s1. Inr (r, s1))))))"

definition admin_reward_image :: "(string \<Rightarrow> bool) \<Rightarrow> ident \<Rightarrow> admin_context \<Rightarrow> db \<Rightarrow> exn + string" where
  "admin_reward_image stored i c s =
    (case find (\<lambda>r. rw_id r = i \<and> engagement_scope_filter c (rw_organization_id r) (rw_artist_id r)) (reward_catalog s) of
       None \<Rightarrow> Inl (AppError 404 ''REWARD_IMAGE_NOT_FOUND'')
     | Some r \<Rightarrow>
         (case (if truthy (jget (rw_metadata r) ''imageAssetId'') then asset_of (jget (rw_metadata r) ''imageAssetId'') s else None) of
            None \<Rightarrow> Inl (AppError 404 ''REWARD_IMAGE_NOT_FOUND'')
          | Some a \<Rightarrow>
              if as_purpose a \<noteq> Some ''reward_image'' \<or> \<not> present (as_storage_path a)
              then Inl (AppError 404 ''REWARD_IMAGE_NOT_FOUND'')
              else storage_response stored (the (as_storage_path a))))"

section \<open>Pass seasons\<close>

definition pass_season_data :: "pass_season \<Rightarrow> db \<Rightarrow> pass_season \<times> pass_tier list" where
  "pass_season_data p s =
    (p, sort_key (\<lambda>t. (pti_tier t, pti_id t)) (filter (\<lambda>t. pti_season_id t = ps_id p) (pass_tiers s)))"

definition list_admin_pass_seasons :: "admin_context \<Rightarrow> db \<Rightarrow> (pass_season \<times> pass_tier list) list" where
  "list_admin_pass_seasons c s =
    map (\<lambda>p. pass_season_data p s) (sort_key (\<lambda>p. (ps_title p, ps_id p))
      (filter (\<lambda>p. engagement_scope_filter c (ps_organization_id p) (ps_artist_id p)) (pass_seasons s)))"

record tier_body =
  tb_tier :: int
  tb_required_xp :: int
  tb_reward_id :: "ident option"
  tb_premium_reward_id :: "ident option"

record season_body =
  psb_title :: string
  psb_description :: "string option"
  psb_organization_id :: "ident option"
  psb_artist_id :: "ident option"
  psb_starts_at :: "time option"
  psb_ends_at :: "time option"
  psb_premium_enabled :: bool
  psb_premium_price_points :: "int option"
  psb_tiers :: "tier_body list"

text \<open>What creation and update check: the price, the scope, and every reward a tier names.\<close>

definition premium_price_ok :: "season_body \<Rightarrow> bool" where
  "premium_price_ok b \<longleftrightarrow> psb_premium_enabled b \<longrightarrow>
    (case psb_premium_price_points b of None \<Rightarrow> False | Some p \<Rightarrow> 0 < p)"

definition tier_rewards :: "season_body \<Rightarrow> ident list" where
  "tier_rewards b = concat (map (\<lambda>t. map the (filter present [tb_reward_id t, tb_premium_reward_id t])) (psb_tiers b))"

definition season_scope :: "season_body \<Rightarrow> admin_context \<Rightarrow> db \<Rightarrow> exn + ident option \<times> ident option" where
  "season_scope b c s =
    bindE (require_engagement_scope c (psb_organization_id b) (psb_artist_id b) s) (\<lambda>(organization, artist).
    bindE (validate_reward_scope (tier_rewards b) organization artist s) (\<lambda>_. Inr (organization, artist)))"

definition set_season_fields :: "season_body \<Rightarrow> ident option \<Rightarrow> ident option \<Rightarrow> pass_season \<Rightarrow> pass_season" where
  "set_season_fields b organization artist p =
    p\<lparr>ps_organization_id := organization, ps_artist_id := artist, ps_title := psb_title b,
      ps_description := psb_description b, ps_starts_at := psb_starts_at b, ps_ends_at := psb_ends_at b,
      ps_is_paid := psb_premium_enabled b, ps_premium_enabled := psb_premium_enabled b,
      ps_premium_price_points := (if psb_premium_enabled b then psb_premium_price_points b else None)\<rparr>"

definition add_tier :: "ident \<Rightarrow> tier_body \<Rightarrow> db \<Rightarrow> exn + db" where
  "add_tier i t s =
    bindE (insert_row (\<lambda>r x. pti_id x = pti_id r)
        \<lparr>pti_id = new_id ''pass_tier_'' s, pti_season_id = i, pti_tier = tb_tier t, pti_required_xp = tb_required_xp t,
         pti_reward_id = tb_reward_id t, pti_premium_reward_id = tb_premium_reward_id t\<rparr>
        (pass_tiers s)) (\<lambda>rows. Inr ((draw s)\<lparr>pass_tiers := rows\<rparr>))"

definition season_audit :: "admin_context \<Rightarrow> string \<Rightarrow> pass_season \<Rightarrow> jobj \<Rightarrow> audit_args" where
  "season_audit c action p details =
    content_audit c action ''pass_season'' (ps_id p) (ps_organization_id p) (ps_artist_id p) details"

definition season_details :: "pass_season \<Rightarrow> season_body \<Rightarrow> jobj" where
  "season_details p b =
    [(''isPaid'', JBool (ps_is_paid p)),
     (''premiumPricePoints'', case ps_premium_price_points p of None \<Rightarrow> JNull | Some n \<Rightarrow> JInt n),
     (''tierCount'', JInt (int (length (psb_tiers b))))]"

definition create_pass_season ::
  "season_body \<Rightarrow> admin_context \<Rightarrow> db \<Rightarrow> exn + (pass_season \<times> pass_tier list) \<times> db" where
  "create_pass_season b c s =
    bindE (require_engagement_write c) (\<lambda>_.
    if \<not> premium_price_ok b then Inl (AppError 422 ''PREMIUM_PRICE_REQUIRED'')
    else
      bindE (season_scope b c s) (\<lambda>(organization, artist).
      let p = set_season_fields b organization artist
            \<lparr>ps_id = new_id ''pass_season_'' s, ps_organization_id = None, ps_artist_id = None, ps_title = [],
             ps_description = None, ps_status = ''draft'', ps_is_paid = False, ps_premium_enabled = False,
             ps_premium_price_points = None, ps_starts_at = None, ps_ends_at = None\<rparr>
      in bindE (insert_row (\<lambda>r x. ps_id x = ps_id r) p (pass_seasons s)) (\<lambda>rows.
         bindE (foldE (add_tier (ps_id p)) (psb_tiers b) ((draw s)\<lparr>pass_seasons := rows\<rparr>)) (\<lambda>s1.
         bindE (record_audit (season_audit c ''pass_season.created'' p (season_details p b)) s1) (\<lambda>s2.
         Inr (pass_season_data p s2, s2))))))"

definition put_season :: "pass_season \<Rightarrow> db \<Rightarrow> db" where
  "put_season p s = s\<lparr>pass_seasons := update_where (\<lambda>x. ps_id x = ps_id p) (\<lambda>_. p) (pass_seasons s)\<rparr>"

definition desk_season :: "ident \<Rightarrow> db \<Rightarrow> pass_season option" where
  "desk_season i s = find (\<lambda>p. ps_id p = i) (pass_seasons s)"

definition scoped_pass_season_or_404 :: "ident \<Rightarrow> admin_context \<Rightarrow> db \<Rightarrow> exn + pass_season" where
  "scoped_pass_season_or_404 i c s =
    (case desk_season i s of None \<Rightarrow> Inl not_visible
     | Some p \<Rightarrow> bindE (ensure_pass_season_visible c p) (\<lambda>_. Inr p))"

text \<open>The tiers are deleted and written again under new identifiers; the status does not matter.\<close>

definition replace_tiers :: "season_body \<Rightarrow> pass_season \<Rightarrow> db \<Rightarrow> exn + db" where
  "replace_tiers b p s =
    foldE (add_tier (ps_id p)) (psb_tiers b)
      ((put_season p s)\<lparr>pass_tiers := filter (\<lambda>t. pti_season_id t \<noteq> ps_id p) (pass_tiers s)\<rparr>)"

definition update_pass_season ::
  "ident \<Rightarrow> season_body \<Rightarrow> admin_context \<Rightarrow> db \<Rightarrow> exn + (pass_season \<times> pass_tier list) \<times> db" where
  "update_pass_season i b c s =
    bindE (require_engagement_write c) (\<lambda>_.
    if \<not> premium_price_ok b then Inl (AppError 422 ''PREMIUM_PRICE_REQUIRED'')
    else
      bindE (scoped_pass_season_or_404 i c s) (\<lambda>p.
      bindE (season_scope b c s) (\<lambda>(organization, artist).
      let p1 = set_season_fields b organization artist p
      in bindE (replace_tiers b p1 s) (\<lambda>s1.
         bindE (record_audit (season_audit c ''pass_season.updated'' p1 (season_details p1 b)) s1) (\<lambda>s2.
         Inr (pass_season_data p1 s2, s2))))))"

definition move_season ::
  "string \<Rightarrow> string \<Rightarrow> string \<Rightarrow> pass_season \<Rightarrow> admin_context \<Rightarrow> db \<Rightarrow> exn + (pass_season \<times> pass_tier list) \<times> db" where
  "move_season required next' action p c s =
    (if ps_status p \<noteq> required then Inl (AppError 409 ''INVALID_PASS_SEASON_STATUS'')
     else
       let p1 = p\<lparr>ps_status := next'\<rparr>
       in bindE (record_audit (season_audit c action p1 (status_change required next' @ [(''isPaid'', JBool (ps_is_paid p))]))
            (put_season p1 s)) (\<lambda>s1. Inr (pass_season_data p1 s1, s1)))"

definition transition_pass_season_status ::
  "string \<Rightarrow> string \<Rightarrow> string \<Rightarrow> ident \<Rightarrow> admin_context \<Rightarrow> db \<Rightarrow> exn + (pass_season \<times> pass_tier list) \<times> db" where
  "transition_pass_season_status required next' action i c s =
    bindE (scoped_pass_season_or_404 i c s) (\<lambda>p. move_season required next' action p c s)"

definition submit_pass_season_review ::
  "ident \<Rightarrow> admin_context \<Rightarrow> db \<Rightarrow> exn + (pass_season \<times> pass_tier list) \<times> db" where
  "submit_pass_season_review i c s =
    bindE (require_engagement_write c) (\<lambda>_.
    transition_pass_season_status ''draft'' ''pending_review'' ''pass_season.submitted'' i c s)"

definition approve_pass_season ::
  "ident \<Rightarrow> admin_context \<Rightarrow> db \<Rightarrow> exn + (pass_season \<times> pass_tier list) \<times> db" where
  "approve_pass_season i c s =
    bindE (case desk_season i s of None \<Rightarrow> Inr () | Some p \<Rightarrow> ensure_pass_season_visible c p) (\<lambda>_.
    bindE (require_engagement_approve c) (\<lambda>_.
    case desk_season i s of
      None \<Rightarrow> Inl not_visible
    | Some p \<Rightarrow>
        bindE (ensure_pass_season_approver_scope c p) (\<lambda>_.
        move_season ''pending_review'' ''published'' ''pass_season.published'' p c s)))"

end
