(* ===== verification/GrowthReviews.thy ===== *)
theory GrowthReviews
  imports GrowthDesk
begin

text \<open>
  What the desk of growth promises: nothing is published without a submission and a publication
  in the audit log, and a mission that was submitted is the mission that is published.
\<close>

section \<open>Requests\<close>

datatype desk_request =
    CreateAchievement achievement_body admin_context
  | SubmitAchievement ident admin_context
  | ApproveAchievement ident admin_context
  | DisableAchievement ident admin_context
  | CreateMission mission_body admin_context
  | UpdateMission ident mission_update admin_context
  | SubmitMission ident admin_context
  | ApproveMission ident admin_context
  | DisableMission ident admin_context
  | CreateSeason season_body admin_context
  | UpdateSeason ident season_body admin_context
  | SubmitSeason ident admin_context
  | ApproveSeason ident admin_context
  | CreatePolicy policy_body admin_context
  | PublishPolicy ident admin_context
  | CreateReward reward_body admin_context
  | AdjustPoints ident int string "string option" admin_context
  | RetryEvent ident admin_context

definition desk_op :: "desk_request \<Rightarrow> db \<Rightarrow> exn + unit \<times> db" where
  "desk_op q s =
    (case q of
       CreateAchievement b c \<Rightarrow> bindE (create_achievement b c s) (\<lambda>(_, s1). Inr ((), s1))
     | SubmitAchievement i c \<Rightarrow> bindE (submit_achievement_review i c s) (\<lambda>(_, s1). Inr ((), s1))
     | ApproveAchievement i c \<Rightarrow> bindE (approve_achievement i c s) (\<lambda>(_, s1). Inr ((), s1))
     | DisableAchievement i c \<Rightarrow> bindE (disable_achievement i c s) (\<lambda>(_, s1). Inr ((), s1))
     | CreateMission b c \<Rightarrow> bindE (create_mission b c s) (\<lambda>(_, s1). Inr ((), s1))
     | UpdateMission i b c \<Rightarrow> bindE (update_mission i b c s) (\<lambda>(_, s1). Inr ((), s1))
     | SubmitMission i c \<Rightarrow> bindE (submit_mission_review i c s) (\<lambda>(_, s1). Inr ((), s1))
     | ApproveMission i c \<Rightarrow> bindE (approve_mission i c s) (\<lambda>(_, s1). Inr ((), s1))
     | DisableMission i c \<Rightarrow> bindE (disable_mission i c s) (\<lambda>(_, s1). Inr ((), s1))
     | CreateSeason b c \<Rightarrow> bindE (create_pass_season b c s) (\<lambda>(_, s1). Inr ((), s1))
     | UpdateSeason i b c \<Rightarrow> bindE (update_pass_season i b c s) (\<lambda>(_, s1). Inr ((), s1))
     | SubmitSeason i c \<Rightarrow> bindE (submit_pass_season_review i c s) (\<lambda>(_, s1). Inr ((), s1))
     | ApproveSeason i c \<Rightarrow> bindE (approve_pass_season i c s) (\<lambda>(_, s1). Inr ((), s1))
     | CreatePolicy b c \<Rightarrow> bindE (create_level_policy b c s) (\<lambda>(_, s1). Inr ((), s1))
     | PublishPolicy i c \<Rightarrow> bindE (publish_level_policy i c s) (\<lambda>(_, s1). Inr ((), s1))
     | CreateReward b c \<Rightarrow> bindE (create_admin_reward b c s) (\<lambda>(_, s1). Inr ((), s1))
     | AdjustPoints i n r k c \<Rightarrow> bindE (adjust_fan_points i n r k c s) (\<lambda>(_, s1). Inr ((), s1))
     | RetryEvent i c \<Rightarrow> bindE (retry_engagement_event i c s) (\<lambda>(_, s1). Inr ((), s1)))"

definition run_desk :: "desk_request list \<Rightarrow> db \<Rightarrow> db" where
  "run_desk qs s = fold (\<lambda>q s. snd (run_tx (desk_op q) s)) qs s"

section \<open>The audit trail\<close>

definition logged :: "string \<Rightarrow> ident \<Rightarrow> db \<Rightarrow> bool" where
  "logged action i s \<longleftrightarrow>
    list_ex (\<lambda>l. al_action l = action \<and> al_entity_id l = i \<and> al_actor_user_id l \<noteq> None) (audit_logs s)"

definition reviewed :: "string \<Rightarrow> db \<Rightarrow> ident \<times> string \<Rightarrow> bool" where
  "reviewed kind s row \<longleftrightarrow>
    (snd row \<in> {''pending_review'', ''published'', ''disabled''} \<longrightarrow> logged (kind @ ''.submitted'') (fst row) s) \<and>
    (snd row \<in> {''published'', ''disabled''} \<longrightarrow> logged (kind @ ''.published'') (fst row) s)"

definition achievement_rows :: "db \<Rightarrow> (ident \<times> string) list" where
  "achievement_rows s = map (\<lambda>a. (ad_id a, ad_status a)) (achievement_definitions s)"

definition mission_rows :: "db \<Rightarrow> (ident \<times> string) list" where
  "mission_rows s = map (\<lambda>m. (md_id m, md_status m)) (mission_definitions s)"

definition season_rows :: "db \<Rightarrow> (ident \<times> string) list" where
  "season_rows s = map (\<lambda>p. (ps_id p, ps_status p)) (pass_seasons s)"

definition growth_reviewed :: "db \<Rightarrow> bool" where
  "growth_reviewed s \<longleftrightarrow>
    list_all (reviewed ''achievement'' s) (achievement_rows s) \<and>
    list_all (reviewed ''mission'' s) (mission_rows s) \<and>
    list_all (reviewed ''pass_season'' s) (season_rows s)"

text \<open>
  How a request may change one of the three tables: a draft is added or written again, or a row
  moves on one step, and the step is in the log.
\<close>

definition stepped :: "string \<Rightarrow> (ident \<times> string) list \<Rightarrow> (ident \<times> string) list \<Rightarrow> db \<Rightarrow> bool" where
  "stepped kind rows rows' s' \<longleftrightarrow>
    (\<forall>(i, st) \<in> set rows'. (i, st) \<in> set rows \<or> st = ''draft'' \<or>
      (st = ''pending_review'' \<and> logged (kind @ ''.submitted'') i s') \<or>
      (st = ''published'' \<and> (i, ''pending_review'') \<in> set rows \<and> logged (kind @ ''.published'') i s') \<or>
      (st = ''disabled'' \<and> (i, ''published'') \<in> set rows))"

definition log_grows :: "db \<Rightarrow> db \<Rightarrow> bool" where
  "log_grows s s' \<longleftrightarrow> (\<exists>ls. audit_logs s' = audit_logs s @ ls)"

lemma logged_grows: "log_grows s s' \<Longrightarrow> logged action i s \<Longrightarrow> logged action i s'"
  by (auto simp: log_grows_def logged_def)

lemma stepped_reviewed:
  assumes "stepped kind rows rows' s'" and "log_grows s s'" and "list_all (reviewed kind s) rows"
  shows "list_all (reviewed kind s') rows'"
  unfolding list_all_iff
proof
  fix r assume r: "r \<in> set rows'"
  obtain i st where [simp]: "r = (i, st)" by fastforce
  have old: "reviewed kind s' (i, st')" if "(i, st') \<in> set rows" for st'
    using that assms(3) logged_grows [OF assms(2)] by (auto simp: list_all_iff reviewed_def)
  from r assms(1) consider "(i, st) \<in> set rows" | "st = ''draft''"
    | "st = ''pending_review''" "logged (kind @ ''.submitted'') i s'"
    | "st = ''published''" "(i, ''pending_review'') \<in> set rows" "logged (kind @ ''.published'') i s'"
    | "st = ''disabled''" "(i, ''published'') \<in> set rows"
    unfolding stepped_def by fastforce
  then show "reviewed kind s' r"
    by cases (use old in \<open>auto simp: reviewed_def\<close>)
qed

lemma stepped_same [simp]: "stepped kind rows rows s'"
  by (auto simp: stepped_def)

lemma record_audit_log:
  "record_audit a s = Inr s' \<Longrightarrow> log_grows s s' \<and>
    (au_actor_user_id a \<noteq> None \<longrightarrow> logged (au_action a) (au_entity_id a) s')"
  by (auto simp: record_audit_def inr_simps log_grows_def logged_def)

lemma log_grows_cong: "log_grows s1 s' \<Longrightarrow> audit_logs s1 = audit_logs s \<Longrightarrow> log_grows s s'"
  by (simp add: log_grows_def)

section \<open>Every request steps\<close>

definition desk_steps :: "db \<Rightarrow> db \<Rightarrow> bool" where
  "desk_steps s s' \<longleftrightarrow> log_grows s s' \<and>
    stepped ''achievement'' (achievement_rows s) (achievement_rows s') s' \<and>
    stepped ''mission'' (mission_rows s) (mission_rows s') s' \<and>
    stepped ''pass_season'' (season_rows s) (season_rows s') s'"

lemma desk_steps_keep: "desk_steps s s' \<Longrightarrow> growth_reviewed s \<Longrightarrow> growth_reviewed s'"
  by (auto simp: desk_steps_def growth_reviewed_def intro: stepped_reviewed)

text \<open>A request that only writes other tables, then an entry of the log.\<close>

lemma audited_steps:
  assumes "record_audit a s1 = Inr s'" and "audit_logs s1 = audit_logs s"
    and "stepped ''achievement'' (achievement_rows s) (achievement_rows s1) s'"
    and "stepped ''mission'' (mission_rows s) (mission_rows s1) s'"
    and "stepped ''pass_season'' (season_rows s) (season_rows s1) s'"
  shows "desk_steps s s'"
  using record_audit_log [OF assms(1)] record_audit_touch [OF assms(1)] assms(2-)
  by (auto simp: desk_steps_def achievement_rows_def mission_rows_def season_rows_def intro: log_grows_cong)

lemma stepped_drafts:
  assumes "set rows' \<subseteq> insert (i, ''draft'') (set rows)"
  shows "stepped kind rows rows' s'"
  using assms by (auto simp: stepped_def)

lemma stepped_move:
  assumes "set rows' \<subseteq> insert (i, st') (set rows)" and "(i, st) \<in> set rows"
    and "(st' = ''pending_review'' \<and> logged (kind @ ''.submitted'') i s') \<or>
      (st' = ''published'' \<and> st = ''pending_review'' \<and> logged (kind @ ''.published'') i s') \<or>
      (st' = ''disabled'' \<and> st = ''published'')"
  shows "stepped kind rows rows' s'"
  using assms by (auto simp: stepped_def)

lemma rows_put:
  "set (map (\<lambda>x. (key x, stat x)) (update_where (\<lambda>x. key x = key a) (\<lambda>_. a) xs)) \<subseteq>
    insert (key a, stat a) (set (map (\<lambda>x. (key x, stat x)) xs))"
  by (auto simp: set_update_where)

lemma content_audit_sel [simp]:
  "au_actor_user_id (content_audit c action entity i g a d) = Some (u_id (ctx_user c))"
  "au_action (content_audit c action entity i g a d) = action"
  "au_entity_id (content_audit c action entity i g a d) = i"
  by (simp_all add: content_audit_def)

lemma desk_tables [simp]:
  "mission_rows (put_achievement a s) = mission_rows s" "season_rows (put_achievement a s) = season_rows s"
  "achievement_rows (put_mission m s) = achievement_rows s" "season_rows (put_mission m s) = season_rows s"
  "achievement_rows (put_season p s) = achievement_rows s" "mission_rows (put_season p s) = mission_rows s"
  "audit_logs (put_achievement a s) = audit_logs s" "audit_logs (put_mission m s) = audit_logs s"
  "audit_logs (put_season p s) = audit_logs s"
  by (simp_all add: put_achievement_def put_mission_def put_season_def achievement_rows_def mission_rows_def season_rows_def)

subsection \<open>Achievements\<close>

lemma get_achievement_row: "get_achievement i s = Some a \<Longrightarrow> (i, ad_status a) \<in> set (achievement_rows s) \<and> ad_id a = i"
  by (auto simp: get_achievement_def achievement_rows_def dest!: find_SomeD)

lemma scoped_achievement: "scoped_achievement_or_404 i c s = Inr a \<Longrightarrow> get_achievement i s = Some a"
  by (auto simp: scoped_achievement_or_404_def inr_simps)

lemma achievement_moves:
  assumes "record_audit (achievement_audit c action (a\<lparr>ad_status := st\<rparr>) d) (put_achievement (a\<lparr>ad_status := st\<rparr>) s) = Inr s'"
    and "get_achievement i s = Some a"
    and "(st = ''pending_review'' \<and> action = ''achievement.submitted'') \<or>
      (st = ''published'' \<and> ad_status a = ''pending_review'' \<and> action = ''achievement.published'') \<or>
      (st = ''disabled'' \<and> ad_status a = ''published'')"
  shows "desk_steps s s'"
proof (rule audited_steps [OF assms(1)])
  let ?a = "a\<lparr>ad_status := st\<rparr>"
  from get_achievement_row [OF assms(2)] have a: "(i, ad_status a) \<in> set (achievement_rows s)" "ad_id a = i" by auto
  have "set (achievement_rows (put_achievement ?a s)) \<subseteq> insert (i, st) (set (achievement_rows s))"
    using rows_put [of ad_id ad_status ?a "achievement_definitions s"] a(2)
    by (simp add: achievement_rows_def put_achievement_def)
  moreover have "logged action i s'" using record_audit_log [OF assms(1)] a(2) by (simp add: achievement_audit_def)
  moreover have "(st = ''pending_review'' \<and> logged (''achievement'' @ ''.submitted'') i s') \<or>
      (st = ''published'' \<and> ad_status a = ''pending_review'' \<and> logged (''achievement'' @ ''.published'') i s') \<or>
      (st = ''disabled'' \<and> ad_status a = ''published'')"
    using assms(3) calculation(2) by (elim disjE conjE) (simp_all only: append.simps simp_thms)
  ultimately show "stepped ''achievement'' (achievement_rows s) (achievement_rows (put_achievement ?a s)) s'"
    using a(1) by (blast intro: stepped_move)
qed (simp_all only: desk_tables stepped_same)

lemma achievement_requests:
  "submit_achievement_review i c s = Inr (x, s') \<Longrightarrow> desk_steps s s'"
  "approve_achievement i c s = Inr (x, s') \<Longrightarrow> desk_steps s s'"
  "disable_achievement i c s = Inr (x, s') \<Longrightarrow> desk_steps s s'"
  by (auto simp: submit_achievement_review_def transition_achievement_status_def approve_achievement_def
      disable_achievement_def decide_achievement_def Let_def inr_simps dest!: scoped_achievement
      intro!: achievement_moves)

lemma create_achievement_steps:
  assumes "create_achievement b c s = Inr (x, s')"
  shows "desk_steps s s'"
proof -
  from assms obtain a d s1 where r: "record_audit (achievement_audit c ''achievement.created'' a d) s1 = Inr s'"
    and s1: "s1 = (draw s)\<lparr>achievement_definitions := achievement_definitions s @ [a]\<rparr>" "ad_status a = ''draft''"
    unfolding create_achievement_def Let_def bindE_eq_Inr insert_row_eq_Inr split_paired_Ex prod.case by auto
  show ?thesis
    by (rule audited_steps [OF r])
      (auto simp: s1 achievement_rows_def mission_rows_def season_rows_def draw_def intro!: stepped_drafts [where i = "ad_id a"])
qed

subsection \<open>Missions\<close>

lemma get_mission_row: "get_mission i s = Some m \<Longrightarrow> (i, md_status m) \<in> set (mission_rows s) \<and> md_id m = i"
  by (auto simp: get_mission_def mission_rows_def dest!: find_SomeD)

lemma visible_mission_get: "visible_mission i c s = Inr m \<Longrightarrow> get_mission i s = Some m"
  by (auto simp: visible_mission_def inr_simps)

lemma put_mission_rows:
  "set (mission_rows (put_mission m s)) \<subseteq> insert (md_id m, md_status m) (set (mission_rows s))"
  using rows_put [of md_id md_status m "mission_definitions s"] by (simp add: mission_rows_def put_mission_def)

lemma mission_moves:
  assumes "move_mission req st action m c s = Inr (x, s')" and "get_mission i s = Some m"
    and "(st = ''pending_review'' \<and> action = ''mission.submitted'') \<or>
      (st = ''published'' \<and> req = ''pending_review'' \<and> action = ''mission.published'') \<or>
      (st = ''disabled'' \<and> req = ''published'')"
  shows "desk_steps s s'"
proof -
  let ?m = "m\<lparr>md_status := st\<rparr>"
  from assms(1) obtain d where r: "record_audit (mission_audit c action ?m d) (put_mission ?m s) = Inr s'"
    and req: "md_status m = req"
    by (auto simp: move_mission_def Let_def inr_simps)
  from get_mission_row [OF assms(2)] have m: "(i, md_status m) \<in> set (mission_rows s)" "md_id m = i" by auto
  have sub: "set (mission_rows (put_mission ?m s)) \<subseteq> insert (i, st) (set (mission_rows s))"
    using put_mission_rows [of ?m s] m(2) by simp
  have log: "logged action i s'" using record_audit_log [OF r] m(2) by (simp add: mission_audit_def)
  have "(st = ''pending_review'' \<and> logged (''mission'' @ ''.submitted'') i s') \<or>
      (st = ''published'' \<and> md_status m = ''pending_review'' \<and> logged (''mission'' @ ''.published'') i s') \<or>
      (st = ''disabled'' \<and> md_status m = ''published'')"
    using assms(3) log req by (elim disjE conjE) (simp_all only: append.simps simp_thms)
  then have "stepped ''mission'' (mission_rows s) (mission_rows (put_mission ?m s)) s'"
    using m(1) sub by (blast intro: stepped_move)
  then show ?thesis by (intro audited_steps [OF r]) (simp_all only: desk_tables stepped_same)
qed

lemma mission_requests:
  "submit_mission_review i c s = Inr (x, s') \<Longrightarrow> desk_steps s s'"
  "approve_mission i c s = Inr (x, s') \<Longrightarrow> desk_steps s s'"
  "disable_mission i c s = Inr (x, s') \<Longrightarrow> desk_steps s s'"
  by (auto simp: submit_mission_review_def transition_mission_status_def approve_mission_def
      disable_mission_def decide_mission_def bindE_eq_Inr dest!: visible_mission_get
      intro: mission_moves)

lemma create_mission_steps:
  assumes "create_mission b c s = Inr (x, s')"
  shows "desk_steps s s'"
proof -
  from assms obtain m d s1 where r: "record_audit (mission_audit c ''mission.created'' m d) s1 = Inr s'"
    and s1: "s1 = (draw s)\<lparr>mission_definitions := mission_definitions s @ [m]\<rparr>" "md_status m = ''draft''"
    unfolding create_mission_def Let_def bindE_eq_Inr insert_row_eq_Inr split_paired_Ex prod.case by auto
  show ?thesis
    by (rule audited_steps [OF r])
      (auto simp: s1 achievement_rows_def mission_rows_def season_rows_def draw_def intro!: stepped_drafts [where i = "md_id m"])
qed

lemma mission_fields_kept:
  "mission_scope b m c s = Inr m1 \<Longrightarrow> md_id m1 = md_id m \<and> md_status m1 = md_status m"
  "set_mission_fields b m1 = Inr m2 \<Longrightarrow> md_id m2 = md_id m1 \<and> md_status m2 = md_status m1"
  by (auto simp: mission_scope_def set_mission_fields_def bindE_eq_Inr split: if_splits)

lemma update_missionE:
  assumes "update_mission i b c s = Inr (x, s')"
  obtains m m2 d where "get_mission i s = Some m" "md_status m = ''draft''" "md_id m2 = i" "md_status m2 = ''draft''"
    "record_audit (mission_audit c ''mission.updated'' m2 d) (put_mission m2 s) = Inr s'"
proof -
  from assms obtain m m1 m2 d where m: "visible_mission i c s = Inr m" "md_status m = ''draft''"
    and f: "mission_scope b m c s = Inr m1" "set_mission_fields b m1 = Inr m2"
    and r: "record_audit (mission_audit c ''mission.updated'' m2 d) (put_mission m2 s) = Inr s'"
    by (auto simp: update_mission_def bindE_eq_Inr if_eq_Inr)
  show thesis
    using that [OF visible_mission_get [OF m(1)] m(2) _ _ r] mission_fields_kept(1) [OF f(1)] mission_fields_kept(2) [OF f(2)]
      m(2) get_mission_row [OF visible_mission_get [OF m(1)]] by simp
qed

lemma update_mission_steps:
  assumes "update_mission i b c s = Inr (x, s')"
  shows "desk_steps s s'"
  using assms
proof (rule update_missionE)
  fix m m2 d
  assume m2: "md_id m2 = i" "md_status m2 = ''draft''"
    and r: "record_audit (mission_audit c ''mission.updated'' m2 d) (put_mission m2 s) = Inr s'"
  have "stepped ''mission'' (mission_rows s) (mission_rows (put_mission m2 s)) s'"
    using put_mission_rows [of m2 s] m2 by (intro stepped_drafts) simp
  then show ?thesis by (intro audited_steps [OF r]) (simp_all only: desk_tables stepped_same)
qed

subsection \<open>Seasons and the other requests\<close>

lemma get_season_row: "desk_season i s = Some p \<Longrightarrow> (i, ps_status p) \<in> set (season_rows s) \<and> ps_id p = i"
  by (auto simp: desk_season_def season_rows_def dest!: find_SomeD)

lemma scoped_season_get: "scoped_pass_season_or_404 i c s = Inr p \<Longrightarrow> desk_season i s = Some p"
  by (auto simp: scoped_pass_season_or_404_def inr_simps)

lemma put_season_rows:
  "set (season_rows (put_season p s)) \<subseteq> insert (ps_id p, ps_status p) (set (season_rows s))"
  using rows_put [of ps_id ps_status p "pass_seasons s"] by (simp add: season_rows_def put_season_def)

lemma season_moves:
  assumes "move_season req st action p c s = Inr (x, s')" and "desk_season i s = Some p"
    and "(st = ''pending_review'' \<and> action = ''pass_season.submitted'') \<or>
      (st = ''published'' \<and> req = ''pending_review'' \<and> action = ''pass_season.published'')"
  shows "desk_steps s s'"
proof -
  let ?p = "p\<lparr>ps_status := st\<rparr>"
  from assms(1) obtain d where r: "record_audit (season_audit c action ?p d) (put_season ?p s) = Inr s'"
    and req: "ps_status p = req"
    by (auto simp: move_season_def Let_def inr_simps)
  from get_season_row [OF assms(2)] have p: "(i, ps_status p) \<in> set (season_rows s)" "ps_id p = i" by auto
  have sub: "set (season_rows (put_season ?p s)) \<subseteq> insert (i, st) (set (season_rows s))"
    using put_season_rows [of ?p s] p(2) by simp
  have log: "logged action i s'" using record_audit_log [OF r] p(2) by (simp add: season_audit_def)
  have "(st = ''pending_review'' \<and> logged (''pass_season'' @ ''.submitted'') i s') \<or>
      (st = ''published'' \<and> ps_status p = ''pending_review'' \<and> logged (''pass_season'' @ ''.published'') i s') \<or>
      (st = ''disabled'' \<and> ps_status p = ''published'')"
    using assms(3) log req by (elim disjE conjE) (simp_all only: append.simps simp_thms)
  then have "stepped ''pass_season'' (season_rows s) (season_rows (put_season ?p s)) s'"
    using p(1) sub by (blast intro: stepped_move)
  then show ?thesis by (intro audited_steps [OF r]) (simp_all only: desk_tables stepped_same)
qed

lemma season_requests:
  "submit_pass_season_review i c s = Inr (x, s') \<Longrightarrow> desk_steps s s'"
  "approve_pass_season i c s = Inr (x, s') \<Longrightarrow> desk_steps s s'"
  by (auto simp: submit_pass_season_review_def transition_pass_season_status_def approve_pass_season_def
      bindE_eq_Inr option_eq_Inr dest!: scoped_season_get intro: season_moves)

definition same_growth :: "db \<Rightarrow> db \<Rightarrow> bool" where
  "same_growth s s1 \<longleftrightarrow> audit_logs s1 = audit_logs s \<and> achievement_definitions s1 = achievement_definitions s \<and>
    mission_definitions s1 = mission_definitions s \<and> pass_seasons s1 = pass_seasons s"

lemma same_growth_refl [simp]: "same_growth s s"
  and same_growth_trans: "same_growth s s1 \<Longrightarrow> same_growth s1 s2 \<Longrightarrow> same_growth s s2"
  by (simp_all add: same_growth_def)

lemma same_growth_fold:
  assumes "\<And>x s s'. f x s = Inr s' \<Longrightarrow> same_growth s s'"
  shows "foldE f xs s = Inr s' \<Longrightarrow> same_growth s s'"
  by (rule foldE_invariant [where P = "same_growth s"]) (auto intro: assms same_growth_trans)

lemma same_growth_steps:
  assumes "record_audit a s1 = Inr s'" and "same_growth s s1"
  shows "desk_steps s s'"
  using assms(2) by (intro audited_steps [OF assms(1)])
    (simp_all add: same_growth_def achievement_rows_def mission_rows_def season_rows_def)

lemma add_tiers_same: "foldE (add_tier i) ts s = Inr s' \<Longrightarrow> same_growth s s'"
  by (rule same_growth_fold) (auto simp: add_tier_def bindE_eq_Inr same_growth_def draw_def)

lemma add_thresholds_same: "foldE (add_threshold i) ts s = Inr s' \<Longrightarrow> same_growth s s'"
  by (rule same_growth_fold) (auto simp: add_threshold_def bindE_eq_Inr same_growth_def draw_def)

lemma written_season_steps:
  assumes "record_audit a s2 = Inr s'" and "same_growth s1 s2" and "audit_logs s1 = audit_logs s"
    and "achievement_rows s1 = achievement_rows s" and "mission_rows s1 = mission_rows s"
    and "stepped ''pass_season'' (season_rows s) (season_rows s1) s'"
  shows "desk_steps s s'"
  using assms(2-) by (intro audited_steps [OF assms(1)])
    (simp_all add: same_growth_def achievement_rows_def mission_rows_def season_rows_def)

lemma create_pass_season_steps:
  assumes "create_pass_season b c s = Inr (x, s')"
  shows "desk_steps s s'"
proof -
  from assms obtain organization artist p s1 s2 a where
    p: "p = set_season_fields b organization artist
            \<lparr>ps_id = new_id ''pass_season_'' s, ps_organization_id = None, ps_artist_id = None, ps_title = [],
             ps_description = None, ps_status = ''draft'', ps_is_paid = False, ps_premium_enabled = False,
             ps_premium_price_points = None, ps_starts_at = None, ps_ends_at = None\<rparr>"
    and s1: "s1 = (draw s)\<lparr>pass_seasons := pass_seasons s @ [p]\<rparr>"
    and t: "foldE (add_tier (ps_id p)) (psb_tiers b) s1 = Inr s2" and r: "record_audit a s2 = Inr s'"
    unfolding create_pass_season_def Let_def if_eq_Inr bindE_eq_Inr insert_row_eq_Inr split_paired_Ex prod.case by blast
  have "ps_status p = ''draft''" by (simp add: p set_season_fields_def)
  then show ?thesis
    by (intro written_season_steps [OF r add_tiers_same [OF t]])
      (auto simp: s1 achievement_rows_def mission_rows_def season_rows_def draw_def intro!: stepped_drafts [where i = "ps_id p"])
qed

lemma update_pass_season_steps:
  assumes "update_pass_season i b c s = Inr (x, s')"
  shows "desk_steps s s'"
proof -
  from assms obtain organization artist p p1 s2 a where p: "scoped_pass_season_or_404 i c s = Inr p"
    and p1: "p1 = set_season_fields b organization artist p"
    and t: "replace_tiers b p1 s = Inr s2" and r: "record_audit a s2 = Inr s'"
    unfolding update_pass_season_def Let_def if_eq_Inr bindE_eq_Inr split_paired_Ex prod.case by blast
  have k: "ps_id p1 = i" "ps_status p1 = ps_status p" "(i, ps_status p) \<in> set (season_rows s)"
    using get_season_row [OF scoped_season_get [OF p]] by (simp_all add: p1 set_season_fields_def)
  have "set (season_rows (put_season p1 s)) \<subseteq> set (season_rows s)"
    using put_season_rows [of p1 s] k by auto
  then have "stepped ''pass_season'' (season_rows s) (season_rows (put_season p1 s)) s'"
    by (auto simp: stepped_def)
  then show ?thesis
    by (intro written_season_steps [OF r add_tiers_same [OF t [unfolded replace_tiers_def]]])
      (simp_all add: achievement_rows_def mission_rows_def season_rows_def put_season_def)
qed

lemma adjust_points_same:
  assumes "adjust_points u n r a k s = Inr (x, s')"
  shows "same_growth s s'"
proof (cases x)
  case (Pair l replayed)
  with assms have "adjust_points u n r a k s = Inr ((l, replayed), s')" by simp
  then show ?thesis
  proof (cases rule: adjust_points_cases)
    case Replayed
    then show ?thesis by simp
  next
    case (Applied s1)
    have "same_growth s s1"
      using Applied by (auto simp: apply_adjustment_def Let_def bindE_eq_Inr same_growth_def split: if_splits
          dest!: record_engagement_event_touch points_touch)
    moreover have "same_growth s1 s'" using Applied by (auto simp: same_growth_def dest!: save_adjustment_touch)
    ultimately show ?thesis by (rule same_growth_trans)
  qed
qed

lemma same_growth_no_log: "same_growth s s' \<Longrightarrow> desk_steps s s'"
  by (simp add: desk_steps_def same_growth_def achievement_rows_def mission_rows_def season_rows_def log_grows_def)

lemma adjust_fan_points_change:
  assumes "adjust_fan_points i n r k c s = Inr (x, s')"
  obtains s1 where "same_growth s s1" "s' = s1 \<or> (\<exists>au. record_audit au s1 = Inr s')"
proof -
  from assms obtain l replayed s1 where
    a: "adjust_points i n (Some r) (u_id (ctx_user c)) (fst (if present k then (the k, s) else (new_id [] s, draw s)))
      (snd (if present k then (the k, s) else (new_id [] s, draw s))) = Inr ((l, replayed), s1)"
    and r: "s' = s1 \<or> (\<exists>au. record_audit au s1 = Inr s')"
    unfolding adjust_fan_points_def Let_def bindE_eq_Inr if_eq_Inr split_paired_Ex prod.case
    by (auto simp: case_prod_beta bindE_eq_Inr if_eq_Inr)
  have "same_growth s (snd (if present k then (the k, s) else (new_id [] s, draw s)))"
    by (simp add: same_growth_def draw_def)
  from that [OF same_growth_trans [OF this adjust_points_same [OF a]] r] show thesis .
qed

lemma adjust_fan_points_steps: "adjust_fan_points i n r k c s = Inr (x, s') \<Longrightarrow> desk_steps s s'"
  by (erule adjust_fan_points_change) (auto intro: same_growth_steps same_growth_no_log)

lemma other_requests_steps:
  "create_level_policy b c s = Inr (x, s') \<Longrightarrow> desk_steps s s'"
  "publish_level_policy i c s = Inr (x, s') \<Longrightarrow> desk_steps s s'"
  "create_admin_reward rb c s = Inr (y, s') \<Longrightarrow> desk_steps s s'"
  "retry_engagement_event i c s = Inr (z, s') \<Longrightarrow> desk_steps s s'"
proof -
  assume "create_level_policy b c s = Inr (x, s')"
  then obtain p s1 s2 a where s1: "s1 = (draw s)\<lparr>level_policy_versions := level_policy_versions s @ [p]\<rparr>"
    and t: "foldE (add_threshold (lp_id p)) (plb_thresholds b) s1 = Inr s2" and r: "record_audit a s2 = Inr s'"
    unfolding create_level_policy_def Let_def bindE_eq_Inr insert_row_eq_Inr split_paired_Ex prod.case by blast
  have "same_growth s s1" by (simp add: s1 same_growth_def draw_def)
  from same_growth_steps [OF r same_growth_trans [OF this add_thresholds_same [OF t]]] show "desk_steps s s'" .
next
  assume "publish_level_policy i c s = Inr (x, s')"
  then show "desk_steps s s'"
    by (auto simp: publish_level_policy_def activate_policy_def Let_def bindE_eq_Inr option_eq_Inr if_eq_Inr same_growth_def
        intro: same_growth_steps)
next
  assume "create_admin_reward rb c s = Inr (y, s')"
  then show "desk_steps s s'"
    by (auto simp: create_admin_reward_def Let_def bindE_eq_Inr same_growth_def draw_def
        intro: same_growth_steps)
next
  assume "retry_engagement_event i c s = Inr (z, s')"
  then show "desk_steps s s'"
    by (auto simp: retry_engagement_event_def Let_def bindE_eq_Inr option_eq_Inr if_eq_Inr same_growth_def
        intro: same_growth_steps)
qed

section \<open>What the desk promises\<close>

lemma desk_op_steps: "desk_op q s = Inr (r, s') \<Longrightarrow> desk_steps s s'"
  by (cases q) (auto simp: desk_op_def bindE_eq_Inr intro: achievement_requests mission_requests season_requests
      create_achievement_steps create_mission_steps update_mission_steps create_pass_season_steps
      update_pass_season_steps other_requests_steps adjust_fan_points_steps)

interpretation desk: service desk_op growth_reviewed
  by unfold_locales (blast intro: desk_steps_keep desk_op_steps)

text \<open>C11. What fans grow with is reviewed: whatever operators ask of the desk, and however their
  requests end, every achievement, mission and season that waits for its review, is published
  or was disabled has an entry of its submission in the audit log, and from its publication on
  an entry of that too, both by a named administrator.\<close>

theorem growth_content_reviewed:
  assumes "growth_reviewed s" and "s' = run_desk qs s"
  shows "(\<forall>a \<in> set (achievement_definitions s'). reviewed ''achievement'' s' (ad_id a, ad_status a)) \<and>
    (\<forall>m \<in> set (mission_definitions s'). reviewed ''mission'' s' (md_id m, md_status m)) \<and>
    (\<forall>p \<in> set (pass_seasons s'). reviewed ''pass_season'' s' (ps_id p, ps_status p))"
proof -
  have "growth_reviewed s'" using desk.requests [OF assms(1)] assms(2) by (simp add: run_desk_def)
  then show ?thesis
    by (auto simp: growth_reviewed_def list_all_iff achievement_rows_def mission_rows_def season_rows_def)
qed

text \<open>The mission under an identifier is the given one, but for its status, and is past its draft.\<close>

definition frozen_as :: "ident \<Rightarrow> mission_definition \<Rightarrow> db \<Rightarrow> bool" where
  "frozen_as i m s \<longleftrightarrow>
    (\<exists>m'. get_mission i s = Some m' \<and> m' = m\<lparr>md_status := md_status m'\<rparr> \<and> md_status m' \<noteq> ''draft'')"

lemma frozen_cong: "mission_definitions s' = mission_definitions s \<Longrightarrow> frozen_as i m s \<Longrightarrow> frozen_as i m s'"
  by (simp add: frozen_as_def get_mission_def)

lemma frozen_audit: "record_audit a s = Inr s' \<Longrightarrow> frozen_as i m s \<Longrightarrow> frozen_as i m s'"
  using record_audit_touch [of a s s'] by (auto intro: frozen_cong)

lemma frozen_same: "same_growth s s' \<Longrightarrow> frozen_as i m s \<Longrightarrow> frozen_as i m s'"
  by (auto simp: same_growth_def intro: frozen_cong)

lemma get_put_mission:
  assumes "get_mission j s = Some n" and "md_id n' = j"
  shows "get_mission i (put_mission n' s) = (if i = j then Some n' else get_mission i s)"
proof (cases "i = j")
  case True
  then show ?thesis using assms by (auto simp: get_mission_def put_mission_def intro: find_set_where dest: find_SomeD)
next
  case False
  then have "find (\<lambda>m. md_id m = i) (update_where (\<lambda>x. md_id x = j) (\<lambda>_. n') xs) = find (\<lambda>m. md_id m = i) xs" for xs
    using assms(2) by (induction xs) (auto simp: table_simps)
  with False show ?thesis using assms(2) by (simp add: get_mission_def put_mission_def)
qed

lemma frozen_put:
  assumes "get_mission j s = Some n" and "frozen_as i m s"
    and "md_status n = ''draft'' \<or> n' = n\<lparr>md_status := st\<rparr> \<and> st \<noteq> ''draft''"
    and "md_id n' = j"
  shows "frozen_as i m (put_mission n' s)"
proof (cases "i = j")
  case True
  with assms(1,2) have n: "n = m\<lparr>md_status := md_status n\<rparr>" "md_status n \<noteq> ''draft''" by (auto simp: frozen_as_def)
  then have "n\<lparr>md_status := st\<rparr> = m\<lparr>md_status := st\<rparr>"
    by (cases n, cases m) simp
  then have n': "n' = m\<lparr>md_status := md_status n'\<rparr>" "md_status n' \<noteq> ''draft''" using assms(3) n(2) by auto
  have "get_mission i (put_mission n' s) = Some n'" using get_put_mission [OF assms(1,4), of i] True by simp
  then show ?thesis unfolding frozen_as_def by (intro exI [of _ n'] conjI n')
next
  case False
  then show ?thesis using assms(2) by (simp add: frozen_as_def get_put_mission [OF assms(1,4)])
qed

lemma frozen_move:
  assumes "move_mission req st action n c s = Inr (x, s')" and "get_mission j s = Some n"
    and "st \<noteq> ''draft''" and "frozen_as i m s"
  shows "frozen_as i m s'"
proof -
  from assms(1) obtain d where r: "record_audit (mission_audit c action (n\<lparr>md_status := st\<rparr>) d)
      (put_mission (n\<lparr>md_status := st\<rparr>) s) = Inr s'"
    by (auto simp: move_mission_def Let_def inr_simps)
  have "md_id n = j" using get_mission_row [OF assms(2)] by simp
  then show ?thesis using assms(3) by (intro frozen_audit [OF r] frozen_put [OF assms(2,4)]) auto
qed

lemma frozen_requests:
  "submit_mission_review j c s = Inr (x, s') \<Longrightarrow> frozen_as i m s \<Longrightarrow> frozen_as i m s'"
  "approve_mission j c s = Inr (x, s') \<Longrightarrow> frozen_as i m s \<Longrightarrow> frozen_as i m s'"
  "disable_mission j c s = Inr (x, s') \<Longrightarrow> frozen_as i m s \<Longrightarrow> frozen_as i m s'"
  by (auto simp: submit_mission_review_def transition_mission_status_def approve_mission_def
      disable_mission_def decide_mission_def bindE_eq_Inr dest!: visible_mission_get elim!: frozen_move)

lemma frozen_update:
  assumes "update_mission j b c s = Inr (x, s')" and "frozen_as i m s"
  shows "frozen_as i m s'"
  using assms(1)
proof (rule update_missionE)
  fix n n2 d
  assume n: "get_mission j s = Some n" "md_status n = ''draft''" "md_id n2 = j"
    and r: "record_audit (mission_audit c ''mission.updated'' n2 d) (put_mission n2 s) = Inr s'"
  show ?thesis using n by (intro frozen_audit [OF r] frozen_put [OF n(1) assms(2)]) auto
qed

lemma frozen_create:
  assumes "create_mission b c s = Inr (x, s')" and "frozen_as i m s"
  shows "frozen_as i m s'"
proof -
  from assms(1) obtain n a s1 where r: "record_audit a s1 = Inr s'"
    and s1: "s1 = (draw s)\<lparr>mission_definitions := mission_definitions s @ [n]\<rparr>"
    unfolding create_mission_def Let_def bindE_eq_Inr insert_row_eq_Inr split_paired_Ex prod.case by blast
  have "frozen_as i m s1" using assms(2) by (auto simp: frozen_as_def get_mission_def s1 find_append_hit)
  then show ?thesis by (rule frozen_audit [OF r])
qed

text \<open>The other requests leave the missions alone.\<close>

lemma frozen_others:
  "create_achievement ab c s = Inr (x1, s') \<Longrightarrow> mission_definitions s' = mission_definitions s"
  "submit_achievement_review j c s = Inr (x1, s') \<Longrightarrow> mission_definitions s' = mission_definitions s"
  "approve_achievement j c s = Inr (x1, s') \<Longrightarrow> mission_definitions s' = mission_definitions s"
  "disable_achievement j c s = Inr (x1, s') \<Longrightarrow> mission_definitions s' = mission_definitions s"
  "submit_pass_season_review j c s = Inr (x2, s') \<Longrightarrow> mission_definitions s' = mission_definitions s"
  "approve_pass_season j c s = Inr (x2, s') \<Longrightarrow> mission_definitions s' = mission_definitions s"
  "publish_level_policy j c s = Inr (x3, s') \<Longrightarrow> mission_definitions s' = mission_definitions s"
  "create_admin_reward rb c s = Inr (x4, s') \<Longrightarrow> mission_definitions s' = mission_definitions s"
  "retry_engagement_event j c s = Inr (x5, s') \<Longrightarrow> mission_definitions s' = mission_definitions s"
  by (auto simp: create_achievement_def submit_achievement_review_def transition_achievement_status_def
      approve_achievement_def disable_achievement_def decide_achievement_def put_achievement_def
      submit_pass_season_review_def transition_pass_season_status_def approve_pass_season_def move_season_def put_season_def
      publish_level_policy_def activate_policy_def create_admin_reward_def retry_engagement_event_def draw_def Let_def
      bindE_eq_Inr option_eq_Inr if_eq_Inr dest!: record_audit_touch)

lemma frozen_adjusted: "adjust_fan_points j n r k c s = Inr (x, s') \<Longrightarrow> frozen_as i m s \<Longrightarrow> frozen_as i m s'"
  by (erule adjust_fan_points_change) (auto intro: frozen_same frozen_audit)

lemma frozen_step: "desk_op q s = Inr (r, s') \<Longrightarrow> frozen_as i m s \<Longrightarrow> frozen_as i m s'"
proof (cases q)
  case (CreateSeason b c)
  assume "desk_op q s = Inr (r, s')" and f: "frozen_as i m s"
  then obtain p s1 s2 a where s1: "s1 = (draw s)\<lparr>pass_seasons := pass_seasons s @ [p]\<rparr>"
    and t: "foldE (add_tier (ps_id p)) (psb_tiers b) s1 = Inr s2" and au: "record_audit a s2 = Inr s'"
    unfolding CreateSeason desk_op_def desk_request.case create_pass_season_def Let_def if_eq_Inr bindE_eq_Inr
      insert_row_eq_Inr split_paired_Ex prod.case by blast
  have "frozen_as i m s1" using f by (rule frozen_cong [rotated]) (simp add: s1 draw_def)
  then show ?thesis by (intro frozen_audit [OF au] frozen_same [OF add_tiers_same [OF t]])
next
  case (UpdateSeason j b c)
  assume "desk_op q s = Inr (r, s')" and f: "frozen_as i m s"
  then obtain p1 s2 a where t: "replace_tiers b p1 s = Inr s2" and au: "record_audit a s2 = Inr s'"
    unfolding UpdateSeason desk_op_def desk_request.case update_pass_season_def Let_def if_eq_Inr bindE_eq_Inr
      split_paired_Ex prod.case by blast
  have "frozen_as i m ((put_season p1 s)\<lparr>pass_tiers := filter (\<lambda>t. pti_season_id t \<noteq> ps_id p1) (pass_tiers s)\<rparr>)"
    using f by (rule frozen_cong [rotated]) (simp add: put_season_def)
  then show ?thesis by (intro frozen_audit [OF au] frozen_same [OF add_tiers_same [OF t [unfolded replace_tiers_def]]])
next
  case (CreatePolicy b c)
  assume "desk_op q s = Inr (r, s')" and f: "frozen_as i m s"
  then obtain p s1 s2 a where s1: "s1 = (draw s)\<lparr>level_policy_versions := level_policy_versions s @ [p]\<rparr>"
    and t: "foldE (add_threshold (lp_id p)) (plb_thresholds b) s1 = Inr s2" and au: "record_audit a s2 = Inr s'"
    unfolding CreatePolicy desk_op_def desk_request.case create_level_policy_def Let_def bindE_eq_Inr
      insert_row_eq_Inr split_paired_Ex prod.case by blast
  have "frozen_as i m s1" using f by (rule frozen_cong [rotated]) (simp add: s1 draw_def)
  then show ?thesis by (intro frozen_audit [OF au] frozen_same [OF add_thresholds_same [OF t]])
next
  case (AdjustPoints j n rs k c)
  assume "desk_op q s = Inr (r, s')" and f: "frozen_as i m s"
  then obtain x where "adjust_fan_points j n rs k c s = Inr (x, s')"
    by (auto simp: AdjustPoints desk_op_def bindE_eq_Inr)
  then show ?thesis using f by (rule frozen_adjusted)
qed (auto simp: desk_op_def bindE_eq_Inr elim: frozen_requests frozen_update frozen_create
    dest: frozen_others intro: frozen_cong)

interpretation frozen: service desk_op "frozen_as i m" for i m
  by unfold_locales (blast intro: frozen_step)

text \<open>C12. A mission that was submitted stays as it was submitted: whatever operators ask of the desk
  afterwards, its scope, its goal, its period and its reward do not change any more, only its
  status does, and it does not become a draft again. What is published and paid is what was
  reviewed.\<close>

theorem submitted_missions_frozen:
  assumes "get_mission i s = Some m" and "md_status m \<noteq> ''draft''"
  shows "\<exists>m'. get_mission i (run_desk qs s) = Some m' \<and> m' = m\<lparr>md_status := md_status m'\<rparr> \<and>
    md_status m' \<noteq> ''draft''"
proof -
  have "frozen_as i m s" using assms by (simp add: frozen_as_def)
  from frozen.requests [OF this, of qs] show ?thesis unfolding frozen_as_def run_desk_def .
qed

definition growth_desk_db :: db where
  "growth_desk_db = empty_db\<lparr>mission_definitions := [daily_mission\<lparr>md_status := ''draft''\<rparr>]\<rparr>"

definition a_root :: admin_context where
  "a_root = sample_context ''rob'' ''root''"

definition double_reward :: mission_update where
  "double_reward = \<lparr>mu_organization_id = None, mu_artist_id = None, mu_title = None, mu_event_kind = None,
     mu_target_value = Some (Some 1), mu_recurrence = None, mu_condition_payload = None,
     mu_reward_payload = Some (Some [(''points'', JInt 9)]), mu_starts_at = None, mu_ends_at = None\<rparr>"

definition submitted_db :: db where
  "submitted_db = run_desk [UpdateMission ''m1'' double_reward a_root, SubmitMission ''m1'' a_root] growth_desk_db"

theorem growth_content_reviewed_witness:
  "growth_reviewed growth_desk_db \<and> \<not> logged ''mission.submitted'' ''m1'' growth_desk_db \<and> logged ''mission.submitted'' ''m1'' submitted_db"
proof -
  have ok: "growth_reviewed growth_desk_db"
    by (simp add: growth_reviewed_def achievement_rows_def mission_rows_def season_rows_def growth_desk_db_def empty_db_def reviewed_def)
  have "list_ex (\<lambda>m. md_id m = ''m1'' \<and> md_status m = ''pending_review'') (mission_definitions submitted_db)" by code_simp
  then obtain m where "m \<in> set (mission_definitions submitted_db)" "md_id m = ''m1''" "md_status m = ''pending_review''"
    by (auto simp: list_ex_iff)
  with growth_content_reviewed [OF ok submitted_db_def] have "logged ''mission.submitted'' ''m1'' submitted_db"
    by (auto simp: reviewed_def)
  with ok show ?thesis by (simp add: logged_def growth_desk_db_def empty_db_def)
qed

theorem submitted_missions_frozen_witness:
  "\<exists>m'. get_mission ''m1'' (run_desk [UpdateMission ''m1'' (double_reward\<lparr>mu_target_value := Some (Some 7)\<rparr>) a_root,
      ApproveMission ''m1'' a_root] submitted_db) = Some m' \<and>
    md_target_value m' = 1 \<and> md_status m' = ''published''"
proof -
  let ?qs = "[UpdateMission ''m1'' (double_reward\<lparr>mu_target_value := Some (Some 7)\<rparr>) a_root, ApproveMission ''m1'' a_root]"
  have "case get_mission ''m1'' submitted_db of None \<Rightarrow> False | Some m \<Rightarrow> md_status m \<noteq> ''draft'' \<and> md_target_value m = 1" by code_simp
  then obtain m where m: "get_mission ''m1'' submitted_db = Some m" "md_status m \<noteq> ''draft''" "md_target_value m = 1"
    by (auto split: option.splits)
  obtain m' where m': "get_mission ''m1'' (run_desk ?qs submitted_db) = Some m'" "m' = m\<lparr>md_status := md_status m'\<rparr>"
    using submitted_missions_frozen [OF m(1,2), of ?qs] by blast
  have "md_target_value m' = md_target_value (m\<lparr>md_status := md_status m'\<rparr>)" by (rule arg_cong [OF m'(2)])
  then have "md_target_value m' = 1" using m(3) by simp
  moreover have "case get_mission ''m1'' (run_desk ?qs submitted_db) of None \<Rightarrow> False | Some m \<Rightarrow> md_status m = ''published''" by code_simp
  ultimately show ?thesis using m'(1) by simp
qed

section \<open>What the desk does not prevent\<close>

text \<open>
  Publishing a policy that takes effect later switches the current policy off at once: until then
  every fan gets the level of the built-in rule.
\<close>

theorem future_policy_suspends_levels:
  assumes "publish_level_policy i c s = Inr (x, s')" and "lp_effective_at (fst x) = Some t" and "now s < t"
  shows "level_for_total_xp xp s' = max 1 (xp div 100 + 1)"
proof -
  from assms(1) obtain p a where r: "record_audit a (snd (activate_policy p s)) = Inr s'"
    and x: "fst x = fst (activate_policy p s)"
    by (auto simp: publish_level_policy_def bindE_eq_Inr option_eq_Inr if_eq_Inr level_policy_data_def case_prod_beta)
  obtain p1 s1 where s1: "activate_policy p s = (p1, s1)" by fastforce
  with r x have r: "record_audit a s1 = Inr s'" and x: "fst x = p1" by simp_all
  obtain al n where s': "s' = s1\<lparr>audit_logs := al, drawn := n\<rparr>" using record_audit_touch [OF r] by blast
  have "\<not> (lp_is_active q \<and> (case lp_effective_at q of None \<Rightarrow> True | Some t \<Rightarrow> t \<le> now s'))"
    if "q \<in> set (level_policy_versions s')" for q
    using that s1 assms(2,3) x by (auto simp: s' activate_policy_def Let_def set_update_where)
  then have "active_policy s' = None"
    by (auto simp: active_policy_def filter_empty_conv split: list.split)
  then show ?thesis by (simp add: level_for_total_xp_def)
qed

text \<open>
  A published season can be updated without a review, and its tiers get new identifiers: what a fan
  claimed before can be claimed again.
\<close>

definition same_season :: season_body where
  "same_season = \<lparr>psb_title = ''Debut'', psb_description = None, psb_organization_id = None, psb_artist_id = None,
     psb_starts_at = ps_starts_at debut_season, psb_ends_at = ps_ends_at debut_season,
     psb_premium_enabled = True, psb_premium_price_points = Some 200,
     psb_tiers = [\<lparr>tb_tier = 1, tb_required_xp = pti_required_xp first_tier, tb_reward_id = pti_reward_id first_tier,
       tb_premium_reward_id = None\<rparr>]\<rparr>"

theorem updated_season_claimed_again:
  "case claim_pass_tier ''ann'' ''t1'' ''free'' claimed_db of
     Inl e \<Rightarrow> e = AppError 409 ''PASS_TIER_ALREADY_CLAIMED'' | Inr _ \<Rightarrow> False"
  "case update_pass_season ''s1'' same_season a_root claimed_db of Inl e \<Rightarrow> False
   | Inr ((p, ts), s') \<Rightarrow> ps_status p = ''published'' \<and> \<not> isl (claim_pass_tier ''ann'' (pti_id (hd ts)) ''free'' s')"
  by code_simp+

text \<open>The rewards of achievements and seasons must belong to the scope; the reward of a mission is not looked at.\<close>

theorem mission_reward_unchecked:
  "isl (create_mission (b\<lparr>mib_reward_payload := payload\<rparr>) c s) = isl (create_mission b c s)"
  by (auto simp: create_mission_def Let_def record_audit_def insert_row_def mission_audit_def content_audit_def bindE_def draw_def new_id_def
      split: sum.splits prod.splits)

end
