(* ===== verification/ShopDesk.thy ===== *)
theory ShopDesk
  imports GrowthDesk
begin

text \<open>
  The desk where operators prepare what fans buy and collect
  (\<open>backend/app/routers/admin.py\<close>): card packs with their odds, the packages of points, the
  products of the shop, collection campaigns, and the batches of redeem codes.
\<close>

section \<open>Card packs\<close>

record pack_card_body =
  pcb_card_id :: ident
  pcb_position :: int
  pcb_probability :: rat
  pcb_enabled :: bool

record pack_body =
  pkb_artist_id :: ident
  pkb_name :: string
  pkb_version :: string
  pkb_cards :: "pack_card_body list"

definition find_artist :: "ident \<Rightarrow> db \<Rightarrow> artist option" where
  "find_artist i s = find (\<lambda>a. ar_id a = i) (artists s)"

definition desk_pack :: "ident \<Rightarrow> db \<Rightarrow> card_pack option" where
  "desk_pack i s = find (\<lambda>p. cp_id p = i) (card_packs s)"

text \<open>The sum of the odds, exact here; the code adds doubles and allows for a thousandth.\<close>

definition odds_ok :: "rat \<Rightarrow> bool" where
  "odds_ok q \<longleftrightarrow> \<not> 1 / 1000 < \<bar>q - 100\<bar>"

definition listed_cards :: "pack_body \<Rightarrow> db \<Rightarrow> card_row list" where
  "listed_cards b s = filter (\<lambda>c. c_id c \<in> set (map pcb_card_id (pkb_cards b))) (cards s)"

definition validate_card_pack_input :: "pack_body \<Rightarrow> db \<Rightarrow> exn + unit" where
  "validate_card_pack_input b s =
    (if \<not> distinct (map pcb_card_id (pkb_cards b)) then Inl (AppError 422 ''DUPLICATE_PACK_CARD'')
     else if pkb_cards b \<noteq> [] \<and> \<not> odds_ok (sum_list (map pcb_probability (filter pcb_enabled (pkb_cards b))))
     then Inl (AppError 422 ''INVALID_PACK_ODDS'')
     else if length (listed_cards b s) \<noteq> length (pkb_cards b) then Inl (AppError 404 ''CARD_NOT_FOUND'')
     else if list_ex (\<lambda>c. c_status c \<noteq> ''published'') (listed_cards b s)
     then Inl (AppError 422 ''PACK_CARDS_NOT_PUBLISHED'') else Inr ())"

definition same_artist :: "pack_body \<Rightarrow> ident \<Rightarrow> db \<Rightarrow> exn + unit" where
  "same_artist b artist s =
    (if list_ex (\<lambda>c. c_artist_id c \<noteq> Some artist) (listed_cards b s)
     then Inl (AppError 422 ''PACK_ARTIST_MISMATCH'') else Inr ())"

definition pack_key :: "card_pack \<Rightarrow> ident \<times> string \<times> string" where
  "pack_key p = (cp_artist_id p, cp_name p, cp_version p)"

definition clash_pack :: "card_pack \<Rightarrow> card_pack \<Rightarrow> bool" where
  "clash_pack r x \<longleftrightarrow> cp_id x = cp_id r \<or> pack_key x = pack_key r"

definition clash_link :: "card_pack_card \<Rightarrow> card_pack_card \<Rightarrow> bool" where
  "clash_link r x \<longleftrightarrow> cpc_id x = cpc_id r \<or> (cpc_pack_id x = cpc_pack_id r \<and> cpc_card_id x = cpc_card_id r)"

definition add_link :: "ident \<Rightarrow> pack_card_body \<Rightarrow> db \<Rightarrow> exn + db" where
  "add_link i x s =
    bindE (insert_row clash_link
        \<lparr>cpc_id = new_id ''pack_card_'' s, cpc_pack_id = i, cpc_card_id = pcb_card_id x,
         cpc_position = pcb_position x, cpc_probability = pcb_probability x, cpc_enabled = pcb_enabled x\<rparr>
        (card_pack_cards s)) (\<lambda>rows. Inr ((draw s)\<lparr>card_pack_cards := rows\<rparr>))"

definition pack_audit :: "admin_context \<Rightarrow> string \<Rightarrow> card_pack \<Rightarrow> jobj \<Rightarrow> audit_args" where
  "pack_audit c action p details =
    content_audit c action ''card_pack'' (cp_id p) (am_organization_id (ctx_membership c)) (Some (cp_artist_id p)) details"

definition card_count :: "pack_body \<Rightarrow> jobj" where
  "card_count b = [(''cardCount'', JInt (int (length (pkb_cards b))))]"

definition all_links :: "ident \<Rightarrow> db \<Rightarrow> card_pack_card list" where
  "all_links i s = filter (\<lambda>l. cpc_pack_id l = i) (card_pack_cards s)"

definition create_card_pack :: "pack_body \<Rightarrow> admin_context \<Rightarrow> db \<Rightarrow> exn + card_pack \<times> db" where
  "create_card_pack b c s =
    bindE (require_scoped_action ''cards:write'' c) (\<lambda>_.
    bindE (require_write c) (\<lambda>_.
    bindE (validate_card_pack_input b s) (\<lambda>_.
    if find_artist (pkb_artist_id b) s = None then Inl (AppError 404 ''ARTIST_NOT_FOUND'')
    else
      bindE (if is_root c then Inr [] else require_artist (Some (pkb_artist_id b)) c) (\<lambda>_.
      bindE (same_artist b (pkb_artist_id b) s) (\<lambda>_.
      let p = \<lparr>cp_id = new_id ''pack_'' s, cp_organization_id = am_organization_id (ctx_membership c),
            cp_artist_id = pkb_artist_id b, cp_name = pkb_name b, cp_version = pkb_version b,
            cp_status = ''draft'', cp_published_at = None\<rparr>
      in bindE (insert_row clash_pack p (card_packs s)) (\<lambda>rows.
         bindE (foldE (add_link (cp_id p)) (pkb_cards b) ((draw s)\<lparr>card_packs := rows\<rparr>)) (\<lambda>s1.
         bindE (record_audit (pack_audit c ''card_pack.created'' p (card_count b)) s1) (\<lambda>s2.
         Inr (p, s2)))))))))"

text \<open>What the handlers of one pack share: the pack must exist and lie in the scope.\<close>

definition scoped_pack :: "ident \<Rightarrow> admin_context \<Rightarrow> db \<Rightarrow> exn + card_pack" where
  "scoped_pack i c s =
    (case desk_pack i s of
       None \<Rightarrow> Inl (AppError 404 ''CARD_PACK_NOT_FOUND'')
     | Some p \<Rightarrow>
         bindE (require_organization (cp_organization_id p) c) (\<lambda>_.
         bindE (require_artist (Some (cp_artist_id p)) c) (\<lambda>_. Inr p)))"

definition put_pack :: "card_pack \<Rightarrow> db \<Rightarrow> exn + db" where
  "put_pack p s =
    (if list_ex (\<lambda>x. cp_id x \<noteq> cp_id p \<and> pack_key x = pack_key p) (card_packs s) then Inl IntegrityError
     else Inr (s\<lparr>card_packs := update_where (\<lambda>x. cp_id x = cp_id p) (\<lambda>_. p) (card_packs s)\<rparr>))"

text \<open>A pack that is not published is written again, with all its cards.\<close>

definition update_card_pack :: "ident \<Rightarrow> pack_body \<Rightarrow> admin_context \<Rightarrow> db \<Rightarrow> exn + card_pack \<times> db" where
  "update_card_pack i b c s =
    bindE (require_scoped_action ''cards:write'' c) (\<lambda>_.
    bindE (require_write c) (\<lambda>_.
    bindE (scoped_pack i c s) (\<lambda>p.
    if cp_status p = ''published'' then Inl (AppError 409 ''PUBLISHED_PACK_IMMUTABLE'')
    else
      bindE (validate_card_pack_input b s) (\<lambda>_.
      if pkb_artist_id b \<noteq> cp_artist_id p then Inl (AppError 422 ''PACK_ARTIST_IMMUTABLE'')
      else
        bindE (same_artist b (cp_artist_id p) s) (\<lambda>_.
        let p1 = p\<lparr>cp_name := pkb_name b, cp_version := pkb_version b\<rparr>
        in bindE (put_pack p1 s) (\<lambda>s1.
           bindE (foldE (add_link (cp_id p)) (pkb_cards b)
               (s1\<lparr>card_pack_cards := filter (\<lambda>l. cpc_pack_id l \<noteq> cp_id p) (card_pack_cards s1)\<rparr>)) (\<lambda>s2.
           bindE (record_audit (pack_audit c ''card_pack.updated'' p1 (card_count b)) s2) (\<lambda>s3.
           Inr (p1, s3)))))))))"

definition card_pack_detail ::
  "ident \<Rightarrow> admin_context \<Rightarrow> db \<Rightarrow> exn + card_pack \<times> (card_pack_card \<times> card_row) list" where
  "card_pack_detail i c s =
    bindE (require_scoped_action ''cards:read'' c) (\<lambda>_.
    bindE (scoped_pack i c s) (\<lambda>p.
    Inr (p, concat (map (\<lambda>l. case get_card (cpc_card_id l) s of None \<Rightarrow> [] | Some cd \<Rightarrow> [(l, cd)])
      (sort_key (\<lambda>l. (cpc_position l, cpc_id l)) (all_links (cp_id p) s))))))"

definition enabled_total :: "card_pack_card list \<Rightarrow> rat" where
  "enabled_total links = sum_list (map cpc_probability (filter cpc_enabled links))"

definition publish_card_pack :: "ident \<Rightarrow> admin_context \<Rightarrow> db \<Rightarrow> exn + card_pack \<times> db" where
  "publish_card_pack i c s =
    bindE (require_scoped_action ''cards:write'' c) (\<lambda>_.
    bindE (require_write c) (\<lambda>_.
    bindE (scoped_pack i c s) (\<lambda>p.
    let links = all_links (cp_id p) s
    in if links = [] \<or> \<not> odds_ok (enabled_total links) then Inl (AppError 422 ''INVALID_PACK_ODDS'')
       else if list_ex (\<lambda>cd. c_id cd \<in> set (map cpc_card_id (filter cpc_enabled links)) \<and>
           c_status cd \<noteq> ''published'') (cards s)
       then Inl (AppError 422 ''PACK_CARDS_NOT_PUBLISHED'')
       else
         let p1 = p\<lparr>cp_status := ''published'', cp_published_at := Some (now s)\<rparr>
         in bindE (put_pack p1 s) (\<lambda>s1.
            bindE (record_audit (pack_audit c ''card_pack.published'' p1 []) s1) (\<lambda>s2. Inr (p1, s2))))))"

section \<open>Packages of points\<close>

definition admin_point_charge_packages :: "admin_context \<Rightarrow> db \<Rightarrow> exn + point_charge_package list \<times> db" where
  "admin_point_charge_packages c s =
    bindE (require_action ''engagement:points_adjust'' c) (\<lambda>_. Inr (ensure_point_charge_packages s))"

record package_body =
  ppb_id :: ident
  ppb_points :: int
  ppb_price_won :: int
  ppb_label :: string
  ppb_sort_order :: int
  ppb_scheduled_publish_at :: "time option"

definition package_audit :: "admin_context \<Rightarrow> string \<Rightarrow> ident \<Rightarrow> audit_args" where
  "package_audit c action i = content_audit c action ''point_charge_package'' i None None []"

definition create_admin_point_charge_package ::
  "package_body \<Rightarrow> admin_context \<Rightarrow> db \<Rightarrow> exn + point_charge_package \<times> db" where
  "create_admin_point_charge_package b c s =
    bindE (require_action ''engagement:points_adjust'' c) (\<lambda>_.
    let p = \<lparr>pp_id = ppb_id b, pp_points = ppb_points b, pp_price_won = ppb_price_won b, pp_label = ppb_label b,
          pp_status = ''active'', pp_sort_order = ppb_sort_order b,
          pp_scheduled_publish_at = ppb_scheduled_publish_at b\<rparr>
    in if list_ex (\<lambda>x. pp_id x = ppb_id b) (point_charge_packages s) then Inl (AppError 409 ''POINT_PACKAGE_EXISTS'')
       else
         bindE (record_audit (package_audit c ''point_charge_package.created'' (pp_id p))
           (s\<lparr>point_charge_packages := point_charge_packages s @ [p]\<rparr>)) (\<lambda>s1. Inr (p, s1)))"

record package_update =
  ppu_points :: "int option option"
  ppu_price_won :: "int option option"
  ppu_label :: "string option option"
  ppu_status :: "string option option"
  ppu_sort_order :: "int option option"
  ppu_scheduled_publish_at :: "time option option"

definition set_package_fields :: "package_update \<Rightarrow> point_charge_package \<Rightarrow> exn + point_charge_package" where
  "set_package_fields b p =
    bindE (sent_column (ppu_points b) (pp_points p)) (\<lambda>points.
    bindE (sent_column (ppu_price_won b) (pp_price_won p)) (\<lambda>price.
    bindE (sent_column (ppu_label b) (pp_label p)) (\<lambda>label.
    bindE (sent_column (ppu_status b) (pp_status p)) (\<lambda>st.
    bindE (sent_column (ppu_sort_order b) (pp_sort_order p)) (\<lambda>ord.
    Inr (p\<lparr>pp_points := points, pp_price_won := price, pp_label := label, pp_status := st,
      pp_sort_order := ord, pp_scheduled_publish_at := sent (ppu_scheduled_publish_at b) (pp_scheduled_publish_at p)\<rparr>))))))"

definition update_admin_point_charge_package ::
  "ident \<Rightarrow> package_update \<Rightarrow> admin_context \<Rightarrow> db \<Rightarrow> exn + point_charge_package \<times> db" where
  "update_admin_point_charge_package i b c s =
    bindE (require_action ''engagement:points_adjust'' c) (\<lambda>_.
    case find (\<lambda>p. pp_id p = i) (point_charge_packages s) of
      None \<Rightarrow> Inl (AppError 404 ''POINT_PACKAGE_NOT_FOUND'')
    | Some p \<Rightarrow>
        bindE (set_package_fields b p) (\<lambda>p1.
        bindE (record_audit (package_audit c ''point_charge_package.updated'' i)
          (s\<lparr>point_charge_packages := update_where (\<lambda>x. pp_id x = i) (\<lambda>_. p1) (point_charge_packages s)\<rparr>)) (\<lambda>s1.
        Inr (p1, s1))))"

text \<open>The newest charges with the fan; charges of one instant come in the order of the table.\<close>

definition admin_point_charges :: "admin_context \<Rightarrow> db \<Rightarrow> exn + (point_charge \<times> user) list" where
  "admin_point_charges c s =
    bindE (require_action ''engagement:points_adjust'' c) (\<lambda>_.
    Inr (take 200 (concat (map (\<lambda>x. case get_user (pc_user_id x) s of None \<Rightarrow> [] | Some u \<Rightarrow> [(x, u)])
      (sort_key (\<lambda>x. - pc_created_at x) (point_charges s))))))"

section \<open>Products of the shop\<close>

record product_body =
  spb_artist_id :: ident
  spb_product_type :: string
  spb_card_pack_id :: "ident option"
  spb_name :: string
  spb_description :: "string option"
  spb_fulfillment :: jobj
  spb_price_points :: int
  spb_starts_at :: "time option"
  spb_ends_at :: "time option"
  spb_inventory_limit :: "int option"
  spb_per_user_limit :: "int option"
  spb_scheduled_publish_at :: "time option"
  spb_exposure_slot :: string

text \<open>A product with its artist and its pack.\<close>

definition admin_shop_product_row :: "ident \<Rightarrow> db \<Rightarrow> exn + shop_product \<times> artist \<times> card_pack option" where
  "admin_shop_product_row i s =
    (case get_product i s of
       None \<Rightarrow> Inl (AppError 404 ''SHOP_PRODUCT_NOT_FOUND'')
     | Some p \<Rightarrow>
         (case product_artist p s of
            None \<Rightarrow> Inl (AppError 404 ''SHOP_PRODUCT_NOT_FOUND'')
          | Some a \<Rightarrow> Inr (p, a, product_pack p s)))"

text \<open>The reward a product delivers: \<open>str(fulfillment.get("rewardId") or "")\<close>.\<close>

definition fulfilled_reward :: "jobj \<Rightarrow> db \<Rightarrow> reward option" where
  "fulfilled_reward d s =
    (case (if truthy (jget d ''rewardId'') then id_text (jget d ''rewardId'') else None) of
       None \<Rightarrow> None
     | Some i \<Rightarrow> find (\<lambda>r. rw_id r = i) (reward_catalog s))"

definition reward_on_offer :: "jobj \<Rightarrow> db \<Rightarrow> exn + unit" where
  "reward_on_offer d s =
    (case fulfilled_reward d s of
       None \<Rightarrow> Inl (AppError 422 ''SHOP_REWARD_INVALID'')
     | Some r \<Rightarrow> if rw_status r \<noteq> ''published'' then Inl (AppError 422 ''SHOP_REWARD_INVALID'') else Inr ())"

definition validate_shop_product_payload :: "product_body \<Rightarrow> admin_context \<Rightarrow> db \<Rightarrow> exn + artist \<times> card_pack option" where
  "validate_shop_product_payload b c s =
    (case find_artist (spb_artist_id b) s of
       None \<Rightarrow> Inl (AppError 404 ''ARTIST_NOT_FOUND'')
     | Some a \<Rightarrow>
         bindE (require_artist (Some (spb_artist_id b)) c) (\<lambda>_.
         if spb_product_type b = ''card_pack'' then
           (if \<not> present (spb_card_pack_id b) then Inl (AppError 422 ''SHOP_PRODUCT_LINK_REQUIRED'')
            else case desk_pack (the (spb_card_pack_id b)) s of
              None \<Rightarrow> Inl (AppError 422 ''SHOP_CARD_PACK_INVALID'')
            | Some p \<Rightarrow>
                if cp_artist_id p \<noteq> spb_artist_id b \<or> cp_status p \<noteq> ''published''
                then Inl (AppError 422 ''SHOP_CARD_PACK_INVALID'') else Inr (a, Some p))
         else bindE (reward_on_offer (spb_fulfillment b) s) (\<lambda>_. Inr (a, None))))"

definition admin_shop_products :: "admin_context \<Rightarrow> db \<Rightarrow> exn + (shop_product \<times> artist \<times> card_pack option) list" where
  "admin_shop_products c s =
    bindE (require_action ''cards:read'' c) (\<lambda>_.
    Inr (concat (map (\<lambda>p. case product_artist p s of None \<Rightarrow> [] | Some a \<Rightarrow> [(p, a, product_pack p s)])
      (filter (\<lambda>p. is_root c \<or> sp_artist_id p \<in> Some ` set (ctx_artists c)) (shop_products s)))))"

definition create_admin_shop_product :: "product_body \<Rightarrow> admin_context \<Rightarrow> db \<Rightarrow> exn + shop_product \<times> db" where
  "create_admin_shop_product b c s =
    bindE (require_action ''cards:write'' c) (\<lambda>_.
    bindE (validate_shop_product_payload b c s) (\<lambda>_.
    let p = \<lparr>sp_id = new_id ''shop_product_'' s, sp_artist_id = Some (spb_artist_id b),
          sp_product_type = spb_product_type b, sp_card_pack_id = spb_card_pack_id b, sp_name = spb_name b,
          sp_description = spb_description b, sp_fulfillment = spb_fulfillment b,
          sp_price_points = spb_price_points b, sp_status = ''draft'', sp_starts_at = spb_starts_at b,
          sp_ends_at = spb_ends_at b, sp_inventory_limit = spb_inventory_limit b, sp_sold_count = 0,
          sp_per_user_limit = spb_per_user_limit b, sp_scheduled_publish_at = spb_scheduled_publish_at b,
          sp_exposure_slot = spb_exposure_slot b\<rparr>
    in bindE (insert_row (\<lambda>r x. sp_id x = sp_id r) p (shop_products s)) (\<lambda>rows.
       Inr (p, (draw s)\<lparr>shop_products := rows\<rparr>))))"

definition scoped_product :: "ident \<Rightarrow> admin_context \<Rightarrow> db \<Rightarrow> exn + shop_product \<times> artist \<times> card_pack option" where
  "scoped_product i c s =
    bindE (admin_shop_product_row i s) (\<lambda>(p, a, k).
    bindE (require_artist (sp_artist_id p) c) (\<lambda>_. Inr (p, a, k)))"

definition get_admin_shop_product :: "ident \<Rightarrow> admin_context \<Rightarrow> db \<Rightarrow> exn + shop_product \<times> artist \<times> card_pack option" where
  "get_admin_shop_product i c s =
    bindE (require_action ''cards:read'' c) (\<lambda>_. scoped_product i c s)"

definition put_product :: "shop_product \<Rightarrow> db \<Rightarrow> db" where
  "put_product p s = s\<lparr>shop_products := update_where (\<lambda>x. sp_id x = sp_id p) (\<lambda>_. p) (shop_products s)\<rparr>"

text \<open>An update sets the fields that are given and not null, the status among them.\<close>

record product_update =
  spu_name :: "string option"
  spu_description :: "string option"
  spu_fulfillment :: "jobj option"
  spu_price_points :: "int option"
  spu_starts_at :: "time option"
  spu_ends_at :: "time option"
  spu_status :: "string option"
  spu_inventory_limit :: "int option"
  spu_per_user_limit :: "int option"
  spu_scheduled_publish_at :: "time option"
  spu_exposure_slot :: "string option"

definition or_old :: "'a option \<Rightarrow> 'a option \<Rightarrow> 'a option" where
  "or_old field old = (case field of None \<Rightarrow> old | Some v \<Rightarrow> Some v)"

definition set_product_fields :: "product_update \<Rightarrow> shop_product \<Rightarrow> shop_product" where
  "set_product_fields b p =
    p\<lparr>sp_name := sent (spu_name b) (sp_name p), sp_description := or_old (spu_description b) (sp_description p),
      sp_fulfillment := sent (spu_fulfillment b) (sp_fulfillment p),
      sp_price_points := sent (spu_price_points b) (sp_price_points p),
      sp_starts_at := or_old (spu_starts_at b) (sp_starts_at p), sp_ends_at := or_old (spu_ends_at b) (sp_ends_at p),
      sp_status := sent (spu_status b) (sp_status p),
      sp_inventory_limit := or_old (spu_inventory_limit b) (sp_inventory_limit p),
      sp_per_user_limit := or_old (spu_per_user_limit b) (sp_per_user_limit p),
      sp_scheduled_publish_at := or_old (spu_scheduled_publish_at b) (sp_scheduled_publish_at p),
      sp_exposure_slot := sent (spu_exposure_slot b) (sp_exposure_slot p)\<rparr>"

definition update_admin_shop_product :: "ident \<Rightarrow> product_update \<Rightarrow> admin_context \<Rightarrow> db \<Rightarrow> exn + shop_product \<times> db" where
  "update_admin_shop_product i b c s =
    bindE (require_action ''cards:write'' c) (\<lambda>_.
    bindE (scoped_product i c s) (\<lambda>(p, a, k).
    let p1 = set_product_fields b p in Inr (p1, put_product p1 s)))"

definition publish_admin_shop_product :: "ident \<Rightarrow> admin_context \<Rightarrow> db \<Rightarrow> exn + shop_product \<times> db" where
  "publish_admin_shop_product i c s =
    bindE (require_action ''cards:write'' c) (\<lambda>_.
    bindE (scoped_product i c s) (\<lambda>(p, a, k).
    bindE (if sp_product_type p = ''card_pack''
           then (if (case k of None \<Rightarrow> True | Some k \<Rightarrow> cp_status k \<noteq> ''published'')
                 then Inl (AppError 422 ''SHOP_CARD_PACK_INVALID'') else Inr ())
           else reward_on_offer (sp_fulfillment p) s) (\<lambda>_.
    let p1 = p\<lparr>sp_status := ''published''\<rparr> in Inr (p1, put_product p1 s))))"

section \<open>Collection campaigns\<close>

definition validate_campaign_cards :: "ident list \<Rightarrow> db \<Rightarrow> exn + unit" where
  "validate_campaign_cards ids s =
    (if \<not> distinct ids then Inl (AppError 422 ''DUPLICATE_CAMPAIGN_CARD'')
     else if length (filter (\<lambda>c. c_id c \<in> set ids) (cards s)) \<noteq> length ids then Inl (AppError 404 ''CARD_NOT_FOUND'')
     else Inr ())"

text \<open>By status; the names are not modelled.\<close>

definition list_collection_campaigns :: "admin_context \<Rightarrow> db \<Rightarrow> exn + collection_campaign list" where
  "list_collection_campaigns c s =
    bindE (require_root c) (\<lambda>_. Inr (sort_key cca_status (collection_campaigns s)))"

record campaign_body =
  cab_artist_id :: "ident option"
  cab_season_name :: "string option"
  cab_required_card_ids :: "ident list"
  cab_benefit_asset_id :: "ident option"
  cab_status :: string

definition campaign_audit :: "admin_context \<Rightarrow> string \<Rightarrow> ident \<Rightarrow> jobj \<Rightarrow> audit_args" where
  "campaign_audit c action i details = content_audit c action ''collection_campaign'' i None None details"

definition benefit_values :: "ident option \<Rightarrow> jobj" where
  "benefit_values i = [(''benefit_asset_id'', jopt i)]"

definition create_collection_campaign ::
  "(string \<Rightarrow> bool) \<Rightarrow> campaign_body \<Rightarrow> admin_context \<Rightarrow> db \<Rightarrow> exn + collection_campaign \<times> db" where
  "create_collection_campaign stored b c s =
    bindE (require_root c) (\<lambda>_.
    bindE (validate_campaign_cards (cab_required_card_ids b) s) (\<lambda>_.
    bindE (validate_admin_assets stored c (benefit_values (cab_benefit_asset_id b)) s) (\<lambda>_.
    let g = \<lparr>cca_id = new_id ''campaign_'' s, cca_artist_id = cab_artist_id b, cca_season_name = cab_season_name b,
          cca_required_card_ids = cab_required_card_ids b, cca_benefit_asset_id = cab_benefit_asset_id b,
          cca_status = cab_status b\<rparr>
    in bindE (insert_row (\<lambda>r x. cca_id x = cca_id r) g (collection_campaigns s)) (\<lambda>rows.
       bindE (record_audit (campaign_audit c ''collection_campaign.created'' (cca_id g) [])
         ((draw s)\<lparr>collection_campaigns := rows\<rparr>)) (\<lambda>s1. Inr (g, s1))))))"

record campaign_update =
  cau_artist_id :: "ident option option"
  cau_season_name :: "string option option"
  cau_required_card_ids :: "ident list option option"
  cau_benefit_asset_id :: "ident option option"
  cau_status :: "string option option"

text \<open>\<open>sorted(values)\<close>: the fields that were sent, by name; texts are not among them here.\<close>

definition campaign_fields :: "campaign_update \<Rightarrow> string list" where
  "campaign_fields b = map fst (filter snd
    [(''artist_id'', cau_artist_id b \<noteq> None), (''benefit_asset_id'', cau_benefit_asset_id b \<noteq> None),
     (''required_card_ids'', cau_required_card_ids b \<noteq> None), (''season_name'', cau_season_name b \<noteq> None),
     (''status'', cau_status b \<noteq> None)])"

text \<open>A null for the cards has no length: the check raises.\<close>

definition sent_campaign_cards :: "campaign_update \<Rightarrow> collection_campaign \<Rightarrow> db \<Rightarrow> exn + ident list" where
  "sent_campaign_cards b g s =
    (case cau_required_card_ids b of
       None \<Rightarrow> Inr (cca_required_card_ids g)
     | Some None \<Rightarrow> Inl TypeError
     | Some (Some ids) \<Rightarrow> bindE (validate_campaign_cards ids s) (\<lambda>_. Inr ids))"

definition update_collection_campaign ::
  "(string \<Rightarrow> bool) \<Rightarrow> ident \<Rightarrow> campaign_update \<Rightarrow> admin_context \<Rightarrow> db \<Rightarrow> exn + collection_campaign \<times> db" where
  "update_collection_campaign stored i b c s =
    bindE (require_root c) (\<lambda>_.
    case get_campaign i s of
      None \<Rightarrow> Inl (AppError 404 ''CAMPAIGN_NOT_FOUND'')
    | Some g \<Rightarrow>
        bindE (sent_campaign_cards b g s) (\<lambda>ids.
        bindE (validate_admin_assets stored c (benefit_values (sent (cau_benefit_asset_id b) None)) s) (\<lambda>_.
        bindE (sent_column (cau_status b) (cca_status g)) (\<lambda>st.
        let g1 = g\<lparr>cca_artist_id := sent (cau_artist_id b) (cca_artist_id g),
              cca_season_name := sent (cau_season_name b) (cca_season_name g), cca_required_card_ids := ids,
              cca_benefit_asset_id := sent (cau_benefit_asset_id b) (cca_benefit_asset_id g), cca_status := st\<rparr>
        in bindE (record_audit (campaign_audit c ''collection_campaign.updated'' i
               [(''fields'', JArr (map JStr (campaign_fields b)))])
             (s\<lparr>collection_campaigns := update_where (\<lambda>x. cca_id x = i) (\<lambda>_. g1) (collection_campaigns s)\<rparr>)) (\<lambda>s1.
           Inr (g1, s1))))))"

section \<open>Redeem codes\<close>

definition scoped_code_batch_or_404 :: "ident \<Rightarrow> admin_context \<Rightarrow> db \<Rightarrow> exn + redeem_code_batch" where
  "scoped_code_batch_or_404 i c s =
    (case find (\<lambda>b. rcb_id b = i) (redeem_code_batches s) of
       None \<Rightarrow> Inl (AppError 404 ''BATCH_NOT_FOUND'')
     | Some b \<Rightarrow> bindE (scoped_drop_or_404 (rcb_drop_id b) c s) (\<lambda>_. Inr b))"

definition scoped_redeem_code_or_404 :: "string \<Rightarrow> admin_context \<Rightarrow> db \<Rightarrow> exn + redeem_code \<times> drop_row" where
  "scoped_redeem_code_or_404 v c s =
    (case find_code v s of
       None \<Rightarrow> Inl (AppError 404 ''REDEEM_CODE_NOT_FOUND'')
     | Some code \<Rightarrow> bindE (scoped_drop_or_404 (rc_drop_id code) c s) (\<lambda>d. Inr (code, d)))"

text \<open>
  The body of a batch: \<open>cbb_expiry\<close> is the time \<open>datetime.fromisoformat\<close> reads from its text,
  \<open>None\<close> when it reads none.
\<close>

record batch_body =
  cbb_drop_id :: ident
  cbb_card_id :: ident
  cbb_quantity :: nat
  cbb_max_uses_per_code :: int
  cbb_expires_at :: string
  cbb_expiry :: "time option"
  cbb_prefix :: string

definition batch_card :: "batch_body \<Rightarrow> drop_row \<Rightarrow> admin_context \<Rightarrow> db \<Rightarrow> exn + card_row" where
  "batch_card b d c s =
    (case get_card (cbb_card_id b) s of
       None \<Rightarrow> Inl (AppError 404 ''CARD_NOT_FOUND'')
     | Some cd \<Rightarrow>
         if \<not> is_root c \<and> c_artist_id cd \<noteq> d_artist_id d then Inl not_visible
         else if d_status d \<noteq> ''live'' then Inl (AppError 409 ''DROP_NOT_LIVE'')
         else if c_owner_artist_id cd \<noteq> None \<and>
           (c_release_status cd \<notin> {''drop_ready'', ''published''} \<or> c_drop_id cd \<noteq> Some (d_id d))
         then Inl (AppError 409 ''CARD_NOT_LINKED_TO_DROP'')
         else if c_status cd \<noteq> ''published'' then Inl (AppError 409 ''CARD_NOT_PUBLISHED'')
         else Inr cd)"

text \<open>A code is the prefix as it was given and random digits in upper case.\<close>

definition new_code :: "string \<Rightarrow> db \<Rightarrow> string" where
  "new_code pre s = pre @ ''-'' @ py_upper (new_id [] s)"

definition add_code :: "batch_body \<Rightarrow> ident \<Rightarrow> time \<Rightarrow> nat \<Rightarrow> db \<Rightarrow> exn + db" where
  "add_code b i expiry n s =
    bindE (insert_row (\<lambda>r x. rc_code x = rc_code r)
        \<lparr>rc_code = new_code (cbb_prefix b) s, rc_card_id = cbb_card_id b, rc_drop_id = cbb_drop_id b,
         rc_expires_at = Some expiry, rc_used_count = 0, rc_max_uses = cbb_max_uses_per_code b,
         rc_batch_id = Some i, rc_disabled_at = None\<rparr>
        (redeem_codes s)) (\<lambda>rows. Inr ((draw s)\<lparr>redeem_codes := rows\<rparr>))"

definition code_batch :: "batch_body \<Rightarrow> admin_context \<Rightarrow> db \<Rightarrow> exn + redeem_code_batch \<times> db" where
  "code_batch b c s =
    bindE (require_scoped_action ''codes:write'' c) (\<lambda>_.
    bindE (scoped_drop_or_404 (cbb_drop_id b) c s) (\<lambda>d.
    bindE (ensure_not_root_partner_drop c d) (\<lambda>_.
    bindE (batch_card b d c s) (\<lambda>cd.
    case cbb_expiry b of
      None \<Rightarrow> Inl (AppError 422 ''INVALID_EXPIRY'')
    | Some expiry \<Rightarrow>
        let r = \<lparr>rcb_id = new_id ''batch_'' s, rcb_drop_id = cbb_drop_id b, rcb_card_id = cbb_card_id b,
              rcb_quantity = int (cbb_quantity b), rcb_max_uses_per_code = cbb_max_uses_per_code b,
              rcb_expires_at = cbb_expires_at b, rcb_prefix = cbb_prefix b\<rparr>
        in bindE (insert_row (\<lambda>r x. rcb_id x = rcb_id r) r (redeem_code_batches s)) (\<lambda>rows.
           bindE (foldE (add_code b (rcb_id r) expiry) [0..<cbb_quantity b] ((draw s)\<lparr>redeem_code_batches := rows\<rparr>)) (\<lambda>s1.
           bindE (record_audit (content_audit c ''redeem_code_batch.created'' ''redeem_code_batch'' (rcb_id r)
               (d_organization_id d) (d_artist_id d)
               [(''quantity'', JInt (int (cbb_quantity b))), (''cardId'', JStr (c_id cd))]) s1) (\<lambda>s2.
           Inr (r, s2))))))))"

definition redeem_code_status :: "redeem_code \<Rightarrow> time \<Rightarrow> string" where
  "redeem_code_status code t =
    (if rc_disabled_at code \<noteq> None then ''disabled''
     else if (case rc_expires_at code of None \<Rightarrow> False | Some e \<Rightarrow> e \<le> t) then ''expired''
     else if rc_max_uses code \<le> rc_used_count code then ''exhausted'' else ''active'')"

definition batch_codes :: "ident \<Rightarrow> db \<Rightarrow> redeem_code list" where
  "batch_codes i s = sort_key rc_code (filter (\<lambda>x. rc_batch_id x = Some i) (redeem_codes s))"

definition export_code_batch :: "ident \<Rightarrow> admin_context \<Rightarrow> db \<Rightarrow> exn + redeem_code_batch \<times> redeem_code list" where
  "export_code_batch i c s =
    bindE (require_scoped_action ''codes:read'' c) (\<lambda>_.
    bindE (scoped_code_batch_or_404 i c s) (\<lambda>b. Inr (b, batch_codes i s)))"

text \<open>One page of the codes with a status, and the number of all of them.\<close>

definition list_redeem_codes ::
  "ident \<Rightarrow> string option \<Rightarrow> nat \<Rightarrow> nat \<Rightarrow> admin_context \<Rightarrow> db \<Rightarrow> exn + redeem_code list \<times> nat" where
  "list_redeem_codes i code_status limit offset c s =
    bindE (require_scoped_action ''codes:read'' c) (\<lambda>_.
    bindE (scoped_code_batch_or_404 i c s) (\<lambda>_.
    if code_status \<notin> {None, Some ''active'', Some ''disabled'', Some ''expired'', Some ''exhausted''}
    then Inl (AppError 422 ''INVALID_CODE_STATUS'')
    else
      let rows = filter (\<lambda>x. code_status = None \<or> Some (redeem_code_status x (now s)) = code_status) (batch_codes i s)
      in Inr (take limit (drop offset rows), length rows)))"

text \<open>The texts of the QR codes.\<close>

definition redeem_code_qr :: "string \<Rightarrow> admin_context \<Rightarrow> db \<Rightarrow> exn + string" where
  "redeem_code_qr v c s =
    bindE (require_scoped_action ''codes:read'' c) (\<lambda>_.
    bindE (scoped_redeem_code_or_404 v c s) (\<lambda>(code, _). Inr (rc_code code)))"

definition redeem_code_batch_qr_zip :: "ident \<Rightarrow> admin_context \<Rightarrow> db \<Rightarrow> exn + string list" where
  "redeem_code_batch_qr_zip i c s =
    bindE (require_scoped_action ''codes:read'' c) (\<lambda>_.
    bindE (scoped_code_batch_or_404 i c s) (\<lambda>_. Inr (map rc_code (batch_codes i s))))"

definition set_code_status :: "string \<Rightarrow> time \<Rightarrow> redeem_code \<Rightarrow> redeem_code" where
  "set_code_status st t code =
    (if st = ''disabled'' then code\<lparr>rc_disabled_at := Some t\<rparr>
     else if st = ''expired'' then code\<lparr>rc_disabled_at := None, rc_expires_at := Some t\<rparr>
     else code\<lparr>rc_disabled_at := None\<rparr>)"

definition update_redeem_code :: "string \<Rightarrow> string \<Rightarrow> admin_context \<Rightarrow> db \<Rightarrow> exn + (string \<times> string) \<times> db" where
  "update_redeem_code v st c s =
    bindE (require_scoped_action ''codes:write'' c) (\<lambda>_.
    bindE (scoped_redeem_code_or_404 v c s) (\<lambda>(code, d).
    let code1 = set_code_status st (now s) code
    in bindE (record_audit (content_audit c ''redeem_code.status_changed'' ''redeem_code'' v (d_organization_id d) (d_artist_id d)
           [(''status'', JStr st)])
         (s\<lparr>redeem_codes := update_where (\<lambda>x. rc_code x = v) (\<lambda>_. code1) (redeem_codes s)\<rparr>)) (\<lambda>s1.
       Inr ((v, redeem_code_status code1 (now s)), s1))))"

section \<open>Published packs keep their odds\<close>

datatype shop_request =
    CreatePack pack_body admin_context
  | UpdatePack ident pack_body admin_context
  | PublishPack ident admin_context
  | CreateProduct product_body admin_context
  | UpdateProduct ident product_update admin_context
  | PublishProduct ident admin_context

definition shop_op :: "shop_request \<Rightarrow> db \<Rightarrow> exn + unit \<times> db" where
  "shop_op q s =
    (case q of
       CreatePack b c \<Rightarrow> bindE (create_card_pack b c s) (\<lambda>(_, s1). Inr ((), s1))
     | UpdatePack i b c \<Rightarrow> bindE (update_card_pack i b c s) (\<lambda>(_, s1). Inr ((), s1))
     | PublishPack i c \<Rightarrow> bindE (publish_card_pack i c s) (\<lambda>(_, s1). Inr ((), s1))
     | CreateProduct b c \<Rightarrow> bindE (create_admin_shop_product b c s) (\<lambda>(_, s1). Inr ((), s1))
     | UpdateProduct i b c \<Rightarrow> bindE (update_admin_shop_product i b c s) (\<lambda>(_, s1). Inr ((), s1))
     | PublishProduct i c \<Rightarrow> bindE (publish_admin_shop_product i c s) (\<lambda>(_, s1). Inr ((), s1)))"

definition run_shop :: "shop_request list \<Rightarrow> db \<Rightarrow> db" where
  "run_shop qs s = fold (\<lambda>q s. snd (run_tx (shop_op q) s)) qs s"

definition on_sale :: "ident \<Rightarrow> db \<Rightarrow> bool" where
  "on_sale i s \<longleftrightarrow> (case desk_pack i s of None \<Rightarrow> False | Some p \<Rightarrow> cp_status p = ''published'')"

definition odds_published :: "db \<Rightarrow> bool" where
  "odds_published s \<longleftrightarrow> (\<forall>i. on_sale i s \<longrightarrow> all_links i s \<noteq> [] \<and> odds_ok (enabled_total (all_links i s)))"

definition sealed :: "ident \<Rightarrow> card_pack_card list \<Rightarrow> db \<Rightarrow> bool" where
  "sealed i ls s \<longleftrightarrow> on_sale i s \<and> all_links i s = ls"

text \<open>
  What a request may do to the packs: a pack on sale stays on sale with its links, and a pack that
  comes on sale has odds that add up.
\<close>

definition packs_step :: "db \<Rightarrow> db \<Rightarrow> bool" where
  "packs_step s s' \<longleftrightarrow>
    (\<forall>i. on_sale i s \<longrightarrow> on_sale i s' \<and> all_links i s' = all_links i s) \<and>
    (\<forall>i. on_sale i s' \<longrightarrow> on_sale i s \<or> (all_links i s' \<noteq> [] \<and> odds_ok (enabled_total (all_links i s'))))"

lemma packs_step_keeps:
  "packs_step s s' \<Longrightarrow> odds_published s \<Longrightarrow> odds_published s'"
  "packs_step s s' \<Longrightarrow> sealed i ls s \<Longrightarrow> sealed i ls s'"
  by (auto simp: packs_step_def odds_published_def sealed_def)

definition same_packs :: "db \<Rightarrow> db \<Rightarrow> bool" where
  "same_packs s s' \<longleftrightarrow> card_packs s' = card_packs s \<and> card_pack_cards s' = card_pack_cards s"

lemma same_packs_eqs:
  "same_packs s s' \<Longrightarrow> on_sale i s' = on_sale i s"
  "same_packs s s' \<Longrightarrow> all_links i s' = all_links i s"
  by (simp_all add: same_packs_def on_sale_def desk_pack_def all_links_def)

lemma same_packs_step: "same_packs s s' \<Longrightarrow> packs_step s s'"
  by (auto simp: packs_step_def same_packs_eqs)

lemma packs_step_then: "packs_step s s1 \<Longrightarrow> same_packs s1 s' \<Longrightarrow> packs_step s s'"
  by (simp add: packs_step_def same_packs_eqs)

lemma audit_same_packs: "record_audit a s = Inr s' \<Longrightarrow> same_packs s s'"
  using record_audit_touch [of a s s'] by (auto simp: same_packs_def)

text \<open>Writing the cards of a pack leaves the packs and the links of the others alone.\<close>

lemma add_links_other:
  assumes "foldE (add_link i) xs s = Inr s'"
  shows "card_packs s' = card_packs s \<and> (\<forall>j. j \<noteq> i \<longrightarrow> all_links j s' = all_links j s)"
  using assms
  by (rule foldE_invariant [where P = "\<lambda>s'. card_packs s' = card_packs s \<and> (\<forall>j. j \<noteq> i \<longrightarrow> all_links j s' = all_links j s)"])
    (auto simp: add_link_def bindE_eq_Inr insert_row_eq_Inr all_links_def draw_def)

lemma on_sale_cong: "card_packs s' = card_packs s \<Longrightarrow> on_sale i s' = on_sale i s"
  by (simp add: on_sale_def desk_pack_def)

lemma get_pack_id: "desk_pack i s = Some p \<Longrightarrow> cp_id p = i"
  by (auto simp: desk_pack_def dest!: find_SomeD)

lemma put_pack_get:
  assumes "put_pack p1 s = Inr s1" and "desk_pack j s = Some p" and "cp_id p1 = j"
  shows "desk_pack i s1 = (if i = j then Some p1 else desk_pack i s)" and "card_pack_cards s1 = card_pack_cards s"
proof -
  from assms(1) have s1: "s1 = s\<lparr>card_packs := update_where (\<lambda>x. cp_id x = j) (\<lambda>_. p1) (card_packs s)\<rparr>"
    by (simp add: put_pack_def assms(3) split: if_splits)
  show "card_pack_cards s1 = card_pack_cards s" by (simp add: s1)
  show "desk_pack i s1 = (if i = j then Some p1 else desk_pack i s)"
  proof (cases "i = j")
    case True
    then show ?thesis using assms(2,3) by (auto simp: desk_pack_def s1 intro: find_set_where dest: find_SomeD)
  next
    case False
    then have "find (\<lambda>p. cp_id p = i) (update_where (\<lambda>x. cp_id x = j) (\<lambda>_. p1) xs) = find (\<lambda>p. cp_id p = i) xs" for xs
      using assms(3) by (induction xs) (auto simp: table_simps)
    with False show ?thesis by (simp add: desk_pack_def s1)
  qed
qed

lemma scoped_pack_get: "scoped_pack i c s = Inr p \<Longrightarrow> desk_pack i s = Some p"
  by (auto simp: scoped_pack_def bindE_eq_Inr option_eq_Inr)

lemma create_pack_step:
  assumes "create_card_pack b c s = Inr (x, s')"
  shows "packs_step s s'"
proof -
  from assms obtain p s1 s2 a where fresh: "\<not> list_ex (clash_pack p) (card_packs s)" and draft: "cp_status p = ''draft''"
    and s1: "s1 = (draw s)\<lparr>card_packs := card_packs s @ [p]\<rparr>"
    and t: "foldE (add_link (cp_id p)) (pkb_cards b) s1 = Inr s2" and r: "record_audit a s2 = Inr s'"
    unfolding create_card_pack_def Let_def bindE_eq_Inr if_eq_Inr insert_row_eq_Inr split_paired_Ex prod.case
    by (auto simp del: foldE.simps)
  have new: "desk_pack (cp_id p) s = None"
    using fresh by (auto simp: desk_pack_def find_None_iff list_ex_iff clash_pack_def)
  have "on_sale i s2 = on_sale i s" for i
    using new draft by (auto simp: on_sale_cong [OF conjunct1 [OF add_links_other [OF t]]])
      (auto simp: on_sale_def desk_pack_def s1 draw_def find_append split: option.splits if_splits)
  moreover have "all_links i s2 = all_links i s" if "on_sale i s" for i
  proof -
    have "i \<noteq> cp_id p" using that new by (auto simp: on_sale_def)
    then have "all_links i s2 = all_links i s1" using add_links_other [OF t] by simp
    then show ?thesis by (simp add: all_links_def s1 draw_def)
  qed
  ultimately have "packs_step s s2" by (simp add: packs_step_def)
  then show ?thesis by (rule packs_step_then) (rule audit_same_packs [OF r])
qed

lemma update_pack_step:
  assumes "update_card_pack i b c s = Inr (x, s')"
  shows "packs_step s s'"
proof -
  from assms obtain p p1 s1 s2 a where p: "scoped_pack i c s = Inr p" "cp_status p \<noteq> ''published''"
    and p1: "p1 = p\<lparr>cp_name := pkb_name b, cp_version := pkb_version b\<rparr>"
    and put: "put_pack p1 s = Inr s1"
    and t: "foldE (add_link (cp_id p)) (pkb_cards b)
      (s1\<lparr>card_pack_cards := filter (\<lambda>l. cpc_pack_id l \<noteq> cp_id p) (card_pack_cards s1)\<rparr>) = Inr s2"
    and r: "record_audit a s2 = Inr s'"
    unfolding update_card_pack_def Let_def bindE_eq_Inr if_eq_Inr split_paired_Ex prod.case by blast
  note g = scoped_pack_get [OF p(1)]
  have i: "cp_id p = i" "cp_id p1 = i" using get_pack_id [OF g] by (simp_all add: p1)
  note put_get = put_pack_get [OF put g i(2)]
  have sale: "on_sale j s2 = on_sale j s" for j
  proof -
    have "on_sale j s2 = on_sale j s1" using add_links_other [OF t] by (simp add: on_sale_def desk_pack_def)
    also have "\<dots> = on_sale j s" using p(2) g by (auto simp: on_sale_def put_get p1)
    finally show ?thesis .
  qed
  have "all_links j s2 = all_links j s" if "on_sale j s" for j
  proof -
    have j: "j \<noteq> i" using that g p(2) by (auto simp: on_sale_def)
    have "all_links j s2 = filter (\<lambda>l. cpc_pack_id l = j) (filter (\<lambda>l. cpc_pack_id l \<noteq> i) (card_pack_cards s1))"
      using add_links_other [OF t] j by (simp add: i all_links_def)
    also have "\<dots> = filter (\<lambda>l. cpc_pack_id l = j) (card_pack_cards s1)" using j by (auto intro!: filter_cong)
    finally show ?thesis by (simp add: all_links_def put_get(2))
  qed
  with sale have "packs_step s s2" by (simp add: packs_step_def)
  then show ?thesis by (rule packs_step_then) (rule audit_same_packs [OF r])
qed

lemma publish_pack_step:
  assumes "publish_card_pack i c s = Inr (x, s')"
  shows "packs_step s s'"
proof -
  from assms obtain p p1 s1 a where p: "scoped_pack i c s = Inr p"
    and odds: "all_links (cp_id p) s \<noteq> []" "odds_ok (enabled_total (all_links (cp_id p) s))"
    and p1: "p1 = p\<lparr>cp_status := ''published'', cp_published_at := Some (now s)\<rparr>"
    and put: "put_pack p1 s = Inr s1" and r: "record_audit a s1 = Inr s'"
    unfolding publish_card_pack_def Let_def bindE_eq_Inr if_eq_Inr split_paired_Ex prod.case by blast
  note g = scoped_pack_get [OF p]
  have i: "cp_id p = i" "cp_id p1 = i" using get_pack_id [OF g] by (simp_all add: p1)
  note put_get = put_pack_get [OF put g i(2)]
  have "all_links j s1 = all_links j s" for j by (simp add: all_links_def put_get(2))
  moreover have "on_sale j s1 \<longleftrightarrow> j = i \<or> on_sale j s" for j by (simp add: on_sale_def put_get(1) p1)
  ultimately have "packs_step s s1" using odds by (auto simp: packs_step_def i)
  then show ?thesis by (rule packs_step_then) (rule audit_same_packs [OF r])
qed

lemma product_same_packs:
  "create_admin_shop_product pb c s = Inr (x, s') \<Longrightarrow> same_packs s s'"
  "update_admin_shop_product i pu c s = Inr (x, s') \<Longrightarrow> same_packs s s'"
  "publish_admin_shop_product i c s = Inr (x, s') \<Longrightarrow> same_packs s s'"
  by (auto simp: create_admin_shop_product_def update_admin_shop_product_def publish_admin_shop_product_def Let_def
      bindE_eq_Inr put_product_def same_packs_def draw_def)

lemma shop_op_step: "shop_op q s = Inr (r, s') \<Longrightarrow> packs_step s s'"
  by (cases q) (auto simp: shop_op_def bindE_eq_Inr intro: create_pack_step update_pack_step publish_pack_step
      same_packs_step product_same_packs)

interpretation odds_desk: service shop_op odds_published
  by unfold_locales (blast intro: packs_step_keeps shop_op_step)

interpretation sealed_desk: service shop_op "sealed i ls" for i ls
  by unfold_locales (blast intro: packs_step_keeps shop_op_step)

text \<open>C9. The odds of a published pack are fixed and add up: whatever operators ask of the desk of
  packs and products, every pack on sale lists cards whose odds sum to one hundred percent within
  a thousandth, and a pack that is on sale stays on sale with exactly the cards and odds it was
  published with.\<close>

theorem published_odds_fixed:
  assumes "odds_published s"
  shows "odds_published (run_shop qs s) \<and>
    (\<forall>i. on_sale i s \<longrightarrow> on_sale i (run_shop qs s) \<and> all_links i (run_shop qs s) = all_links i s)"
proof (intro conjI allI impI)
  show "odds_published (run_shop qs s)" using odds_desk.requests [OF assms] by (simp add: run_shop_def)
  fix i assume "on_sale i s"
  then have "sealed i (all_links i s) s" by (simp add: sealed_def)
  from sealed_desk.requests [OF this, of qs]
  show "on_sale i (run_shop qs s)" "all_links i (run_shop qs s) = all_links i s"
    by (simp_all add: run_shop_def sealed_def)
qed

definition debut_body :: pack_body where
  "debut_body = \<lparr>pkb_artist_id = ''art'', pkb_name = ''Debut'', pkb_version = ''v1'',
     pkb_cards = [\<lparr>pcb_card_id = ''c1'', pcb_position = 0, pcb_probability = 100, pcb_enabled = True\<rparr>]\<rparr>"

definition desk_shop_db :: db where
  "desk_shop_db = empty_db\<lparr>cards := [studio_card\<lparr>c_status := ''published''\<rparr>], artists := [\<lparr>ar_id = ''art'', ar_name = ''A''\<rparr>]\<rparr>"

definition boss :: admin_context where
  "boss = sample_context ''rob'' ''root''"

definition made_pack :: ident where
  "made_pack = new_id ''pack_'' desk_shop_db"

definition selling_db :: db where
  "selling_db = run_shop [CreatePack debut_body boss, PublishPack made_pack boss] desk_shop_db"

theorem published_odds_fixed_witness:
  "on_sale made_pack (run_shop [UpdatePack made_pack (debut_body\<lparr>pkb_cards := []\<rparr>) boss] selling_db) \<and>
   all_links made_pack (run_shop [UpdatePack made_pack (debut_body\<lparr>pkb_cards := []\<rparr>) boss] selling_db) \<noteq> []"
proof -
  have ok: "odds_published desk_shop_db"
    by (simp add: odds_published_def on_sale_def desk_pack_def desk_shop_db_def empty_db_def)
  have sale: "on_sale made_pack selling_db" by code_simp
  let ?qs = "[CreatePack debut_body boss, PublishPack made_pack boss, UpdatePack made_pack (debut_body\<lparr>pkb_cards := []\<rparr>) boss]"
  have run: "run_shop ?qs desk_shop_db = run_shop [UpdatePack made_pack (debut_body\<lparr>pkb_cards := []\<rparr>) boss] selling_db"
    by (simp add: run_shop_def selling_db_def)
  have "odds_published selling_db" using published_odds_fixed [OF ok] by (simp add: selling_db_def)
  from published_odds_fixed [OF this, of "[UpdatePack made_pack (debut_body\<lparr>pkb_cards := []\<rparr>) boss]"] sale
  show ?thesis by (auto simp: odds_published_def)
qed

text \<open>
  The check of publication can be passed by: the update of a product sets the status as it is
  given, also when the pack it sells is still a draft.
\<close>

definition sell_now :: product_update where
  "sell_now = \<lparr>spu_name = None, spu_description = None, spu_fulfillment = None, spu_price_points = None,
     spu_starts_at = None, spu_ends_at = None, spu_status = Some ''published'', spu_inventory_limit = None,
     spu_per_user_limit = None, spu_scheduled_publish_at = None, spu_exposure_slot = None\<rparr>"

definition draft_product_db :: db where
  "draft_product_db = desk_shop_db\<lparr>card_packs := [\<lparr>cp_id = ''pack1'', cp_organization_id = None, cp_artist_id = ''art'',
       cp_name = [], cp_version = ''v1'', cp_status = ''draft'', cp_published_at = None\<rparr>],
     shop_products := [pack_product\<lparr>sp_status := ''draft'', sp_artist_id := Some ''art'', sp_card_pack_id := Some ''pack1''\<rparr>]\<rparr>"

theorem update_publishes_unchecked:
  "case publish_admin_shop_product ''p1'' boss draft_product_db of
     Inl e \<Rightarrow> e = AppError 422 ''SHOP_CARD_PACK_INVALID'' | Inr _ \<Rightarrow> False"
  "case update_admin_shop_product ''p1'' sell_now boss draft_product_db of
     Inl e \<Rightarrow> False | Inr (p, s') \<Rightarrow> shop_product_is_sellable p (now s')"
  by code_simp+

section \<open>Issued codes can be redeemed\<close>

text \<open>The characters of the pattern a prefix is checked against.\<close>

definition code_char :: "char \<Rightarrow> bool" where
  "code_char c \<longleftrightarrow> (let n = of_char c :: nat in
    48 \<le> n \<and> n \<le> 57 \<or> 65 \<le> n \<and> n \<le> 90 \<or> 97 \<le> n \<and> n \<le> 122 \<or> n = 45 \<or> n = 95)"

lemma code_char_space: "code_char c \<Longrightarrow> \<not> is_space c"
  by (auto simp: code_char_def is_space_def Let_def)

lemma of_char_of_nat: "(of_char (char_of (n::nat) :: char) :: nat) = n mod 256"
  by simp

lemma py_upper_chars: "list_all code_char v \<Longrightarrow> list_all code_char (py_upper v)"
  by (auto simp: list_all_iff py_upper_def code_char_def Let_def of_char_of_nat)

lemma py_upper_idem: "py_upper (py_upper v) = py_upper v"
  by (auto simp: py_upper_def Let_def of_char_of_nat)

lemma py_upper_append: "py_upper (v @ w) = py_upper v @ py_upper w"
  by (simp add: py_upper_def)

lemma py_strip_chars:
  assumes "list_all code_char v"
  shows "py_strip v = v"
proof -
  have "dropWhile is_space w = w" if "set w = set v" for w
    using that assms code_char_space by (cases w) (auto simp: list_all_iff)
  from this [of v] this [of "rev v"] show ?thesis by (simp add: py_strip_def)
qed

text \<open>What the loop adds: as many codes as asked for, all alike but for their random digits.\<close>

definition fresh_code :: "batch_body \<Rightarrow> ident \<Rightarrow> time \<Rightarrow> db \<Rightarrow> redeem_code \<Rightarrow> bool" where
  "fresh_code b i expiry s x \<longleftrightarrow> (\<exists>n. rc_code x = cbb_prefix b @ ''-'' @ py_upper (entropy s n)) \<and>
    rc_card_id x = cbb_card_id b \<and> rc_drop_id x = cbb_drop_id b \<and> rc_expires_at x = Some expiry \<and>
    rc_used_count x = 0 \<and> rc_max_uses x = cbb_max_uses_per_code b \<and> rc_batch_id x = Some i \<and> rc_disabled_at x = None"

lemma add_codes:
  "foldE (add_code b i expiry) xs s = Inr s' \<Longrightarrow>
    \<exists>rows n. s' = s\<lparr>redeem_codes := redeem_codes s @ rows, drawn := n\<rparr> \<and> length rows = length xs \<and>
      (\<forall>x \<in> set rows. fresh_code b i expiry s x \<and> find_code (rc_code x) s' = Some x)"
proof (induction xs arbitrary: s' rule: rev_induct)
  case Nil
  then have "s' = s\<lparr>redeem_codes := redeem_codes s @ [], drawn := drawn s\<rparr>" by simp
  then show ?case by fastforce
next
  case (snoc x xs)
  from snoc.prems obtain t where t: "foldE (add_code b i expiry) xs s = Inr t" and a: "add_code b i expiry x t = Inr s'"
    by (auto simp: foldE_append bindE_eq_Inr)
  from snoc.IH [OF t] obtain rows n where rows: "t = s\<lparr>redeem_codes := redeem_codes s @ rows, drawn := n\<rparr>"
    "length rows = length xs" "\<forall>x \<in> set rows. fresh_code b i expiry s x \<and> find_code (rc_code x) t = Some x" by blast
  define r where "r = \<lparr>rc_code = new_code (cbb_prefix b) t, rc_card_id = cbb_card_id b, rc_drop_id = cbb_drop_id b,
         rc_expires_at = Some expiry, rc_used_count = 0, rc_max_uses = cbb_max_uses_per_code b,
         rc_batch_id = Some i, rc_disabled_at = None\<rparr>"
  have r: "fresh_code b i expiry s r" by (auto simp: r_def fresh_code_def new_code_def new_id_def rows(1))
  from a have new: "\<not> list_ex (\<lambda>x. rc_code x = rc_code r) (redeem_codes t)"
    and s': "s' = (draw t)\<lparr>redeem_codes := redeem_codes t @ [r]\<rparr>"
    unfolding add_code_def bindE_eq_Inr insert_row_eq_Inr r_def [symmetric] by auto
  have "find_code (rc_code r) s' = Some r"
    using new by (auto simp: find_code_def s' list_ex_iff find_None_iff intro!: find_snoc_new)
  moreover have "find_code v s' = Some y" if "find_code v t = Some y" for v y
    using that by (simp add: find_code_def s' find_append_hit)
  moreover have "s' = s\<lparr>redeem_codes := redeem_codes s @ (rows @ [r]), drawn := Suc n\<rparr>"
    by (simp add: s' rows(1) draw_def)
  ultimately show ?case using rows(2,3) r by (intro exI [of _ "rows @ [r]"] exI [of _ "Suc n"]) auto
qed

text \<open>Batches are known by foreign keys: a code belongs to a batch of the table.\<close>

definition batches_known :: "db \<Rightarrow> bool" where
  "batches_known s \<longleftrightarrow> list_all (\<lambda>x. case rc_batch_id x of None \<Rightarrow> True
    | Some i \<Rightarrow> list_ex (\<lambda>r. rcb_id r = i) (redeem_code_batches s)) (redeem_codes s)"

lemma code_batchE:
  assumes "code_batch b c s = Inr (r, s')" and "batches_known s"
  obtains d cd expiry rows s1 where "scoped_drop_or_404 (cbb_drop_id b) c s = Inr d" "batch_card b d c s = Inr cd"
    "cbb_expiry b = Some expiry" "batch_codes (rcb_id r) s' = sort_key rc_code rows" "length rows = cbb_quantity b"
    "\<forall>x \<in> set rows. fresh_code b (rcb_id r) expiry s x \<and> find_code (rc_code x) s' = Some x"
    "cards s' = cards s" "drops s' = drops s" "user_cards s' = user_cards s" "now s' = now s"
proof -
  from assms(1) obtain d cd expiry s1 a where 1: "scoped_drop_or_404 (cbb_drop_id b) c s = Inr d"
    "batch_card b d c s = Inr cd" "cbb_expiry b = Some expiry"
    and fresh: "\<not> list_ex (\<lambda>x. rcb_id x = rcb_id r) (redeem_code_batches s)"
    and f: "foldE (add_code b (rcb_id r) expiry) [0..<cbb_quantity b]
      ((draw s)\<lparr>redeem_code_batches := redeem_code_batches s @ [r]\<rparr>) = Inr s1"
    and au: "record_audit a s1 = Inr s'"
    unfolding code_batch_def Let_def bindE_eq_Inr option_eq_Inr insert_row_eq_Inr split_paired_Ex prod.case by auto
  from add_codes [OF f] obtain rows n where rows:
    "s1 = ((draw s)\<lparr>redeem_code_batches := redeem_code_batches s @ [r]\<rparr>)\<lparr>redeem_codes := redeem_codes s @ rows, drawn := n\<rparr>"
    "length rows = cbb_quantity b"
    "\<forall>x \<in> set rows. fresh_code b (rcb_id r) expiry s x \<and> find_code (rc_code x) s1 = Some x"
    by (auto simp: fresh_code_def draw_def)
  obtain al m where s': "s' = s1\<lparr>audit_logs := al, drawn := m\<rparr>" using record_audit_touch [OF au] by blast
  have old: "filter (\<lambda>x. rc_batch_id x = Some (rcb_id r)) (redeem_codes s) = []"
    using assms(2) fresh by (auto simp: batches_known_def list_all_iff list_ex_iff filter_empty_conv split: option.splits)
  have "filter (\<lambda>x. rc_batch_id x = Some (rcb_id r)) rows = rows"
    using rows(3) by (auto simp: fresh_code_def filter_id_conv)
  then have codes: "batch_codes (rcb_id r) s' = sort_key rc_code rows" by (simp add: batch_codes_def s' rows(1) old)
  have "find_code v s' = find_code v s1" for v by (simp add: find_code_def s')
  with rows show thesis
    by (intro that [OF 1 codes rows(2)]) (simp_all add: s' draw_def)
qed

text \<open>C10. The codes of a batch work: it has as many codes as were asked for, and when the card is one of
  the studio (which is then linked to the drop), the prefix has no small letters and the expiry
  lies ahead, every one of them passes all checks of a redemption for a fan who does not hold a copy from it, however
  the fan's input is stripped and capitalised.\<close>

theorem issued_codes_work:
  assumes "code_batch b c s = Inr (r, s')" and "batches_known s"
    and "get_card (cbb_card_id b) s = Some cd" and "c_owner_artist_id cd \<noteq> None"
    and "list_all code_char (cbb_prefix b)" and "py_upper (cbb_prefix b) = cbb_prefix b"
    and "\<forall>n. list_all code_char (entropy s n)"
    and "cbb_expiry b = Some t" and "now s \<le> t" and "0 < cbb_max_uses_per_code b"
  shows "length (batch_codes (rcb_id r) s') = cbb_quantity b \<and>
    (\<forall>x \<in> set (batch_codes (rcb_id r) s'). \<forall>u. \<not> owns_code u (rc_code x) s \<longrightarrow>
      preview_redeem u (normalized_code (rc_code x)) s' = Inr cd)"
  using assms(1,2)
proof (rule code_batchE)
  fix d cd' expiry rows
  assume d: "scoped_drop_or_404 (cbb_drop_id b) c s = Inr d" and card: "batch_card b d c s = Inr cd'"
    and e: "cbb_expiry b = Some expiry" and codes: "batch_codes (rcb_id r) s' = sort_key rc_code rows"
    and n: "length rows = cbb_quantity b"
    and rows: "\<forall>x \<in> set rows. fresh_code b (rcb_id r) expiry s x \<and> find_code (rc_code x) s' = Some x"
    and same: "cards s' = cards s" "drops s' = drops s" "user_cards s' = user_cards s" "now s' = now s"
  have "get_drop (cbb_drop_id b) s = Some d" using d by (auto simp: scoped_drop_or_404_def bindE_eq_Inr split: option.splits if_splits)
  then have drop: "get_drop (cbb_drop_id b) s' = Some d" "d_id d = cbb_drop_id b"
    by (auto simp: get_drop_def same dest: find_SomeD)
  have cd: "d_status d = ''live''" "c_drop_id cd = Some (cbb_drop_id b)" "c_status cd = ''published''"
    using card assms(3,4) drop(2) by (auto simp: batch_card_def split: if_splits)
  have "preview_redeem u (normalized_code (rc_code x)) s' = Inr cd" if x: "x \<in> set rows" and u: "\<not> owns_code u (rc_code x) s" for x u
  proof -
    from rows x have fresh: "fresh_code b (rcb_id r) expiry s x" and found: "find_code (rc_code x) s' = Some x" by auto
    from fresh obtain m where v: "rc_code x = cbb_prefix b @ ''-'' @ py_upper (entropy s m)"
      by (auto simp: fresh_code_def)
    have "list_all code_char (rc_code x)" using assms(5,7) py_upper_chars [of "entropy s m"]
      by (simp add: v) (simp add: code_char_def)
    moreover have "py_upper (rc_code x) = rc_code x"
      using assms(6) py_upper_idem [of "entropy s m"] by (simp add: v py_upper_append) (simp add: py_upper_def)
    ultimately have norm: "normalized_code (rc_code x) = rc_code x"
      by (simp add: normalized_code_def py_strip_chars)
    have "get_card (cbb_card_id b) s' = Some cd" using assms(3) by (simp add: get_card_def same)
    then show ?thesis using fresh found norm u assms(8-10) e drop cd
      by (simp add: preview_redeem_def check_code_def fresh_code_def owns_code_def same)
  qed
  then show ?thesis using n by (simp add: codes)
qed

definition drop_db :: db where
  "drop_db = studio_db\<lparr>cards := [studio_card\<lparr>c_status := ''published'', c_release_status := ''published'', c_drop_id := Some ''d1''\<rparr>],
     entropy := (\<lambda>n. replicate n CHR ''0'')\<rparr>"

definition two_codes :: "string \<Rightarrow> batch_body" where
  "two_codes pre = \<lparr>cbb_drop_id = ''d1'', cbb_card_id = ''c1'', cbb_quantity = 2, cbb_max_uses_per_code = 1,
     cbb_expires_at = ''2030-01-01'', cbb_expiry = Some 9, cbb_prefix = pre\<rparr>"

theorem issued_codes_work_witness:
  "\<exists>r s' x. code_batch (two_codes ''SUMMER'') (sample_context ''mia'' ''manager'') drop_db = Inr (r, s') \<and>
    x \<in> set (batch_codes (rcb_id r) s') \<and> \<not> isl (preview_redeem ''ann'' (normalized_code (rc_code x)) s')"
proof -
  have "case code_batch (two_codes ''SUMMER'') (sample_context ''mia'' ''manager'') drop_db of Inl e \<Rightarrow> False | Inr (r, s') \<Rightarrow> True"
    by code_simp
  then obtain r s' where r: "code_batch (two_codes ''SUMMER'') (sample_context ''mia'' ''manager'') drop_db = Inr (r, s')"
    by (auto simp: case_Inr_iff)
  have 1: "batches_known drop_db" by (simp add: batches_known_def drop_db_def studio_db_def empty_db_def)
  have 2: "list_all code_char (cbb_prefix (two_codes ''SUMMER''))"
    "py_upper (cbb_prefix (two_codes ''SUMMER'')) = cbb_prefix (two_codes ''SUMMER'')" by code_simp+
  have 3: "\<forall>n. list_all code_char (entropy drop_db n)" by (simp add: drop_db_def list_all_iff code_char_def)
  have 4: "get_card (cbb_card_id (two_codes ''SUMMER'')) drop_db =
      Some (studio_card\<lparr>c_status := ''published'', c_release_status := ''published'', c_drop_id := Some ''d1''\<rparr>)"
    by (simp add: get_card_def drop_db_def two_codes_def studio_card_def blank_card_def)
  have 5: "c_owner_artist_id (studio_card\<lparr>c_status := ''published'', c_release_status := ''published'', c_drop_id := Some ''d1''\<rparr>) \<noteq> None"
    by (simp add: studio_card_def)
  have 6: "cbb_expiry (two_codes ''SUMMER'') = Some 9" "now drop_db \<le> 9" "0 < cbb_max_uses_per_code (two_codes ''SUMMER'')"
    by (simp_all add: two_codes_def drop_db_def studio_db_def empty_db_def)
  note works = issued_codes_work [OF r 1 4 5 2 3 6]
  have "batch_codes (rcb_id r) s' \<noteq> []" using works by (auto simp: two_codes_def)
  then obtain x where x: "x \<in> set (batch_codes (rcb_id r) s')" by (cases "batch_codes (rcb_id r) s'") auto
  have "\<not> owns_code ''ann'' (rc_code x) drop_db" by (simp add: owns_code_def drop_db_def studio_db_def empty_db_def)
  with works x have "\<not> isl (preview_redeem ''ann'' (normalized_code (rc_code x)) s')" by simp
  with r x show ?thesis by blast
qed

text \<open>
  Redemption capitalises what the fan enters, but the prefix of a batch may have small letters: such
  codes are never found.
\<close>

theorem small_letter_codes_lost:
  "case code_batch (two_codes ''Summer'') (sample_context ''mia'' ''manager'') drop_db of
     Inl e \<Rightarrow> False
   | Inr (r, s') \<Rightarrow> batch_codes (rcb_id r) s' \<noteq> [] \<and>
       list_all (\<lambda>x. case preview_redeem ''ann'' (normalized_code (rc_code x)) s' of
         Inl e \<Rightarrow> e = AppError 404 ''REDEEM_CODE_NOT_FOUND'' | Inr _ \<Rightarrow> False) (batch_codes (rcb_id r) s')"
  by code_simp

text \<open>
  The comment keeps the issue of codes open to cards that are not linked to the drop, but redeeming
  such a code is refused.
\<close>

theorem unlinked_codes_refused:
  "case code_batch (two_codes ''SUMMER'') (sample_context ''mia'' ''manager'')
      (drop_db\<lparr>cards := [studio_card\<lparr>c_status := ''published'', c_owner_artist_id := None\<rparr>]\<rparr>) of
     Inl e \<Rightarrow> False
   | Inr (r, s') \<Rightarrow> batch_codes (rcb_id r) s' \<noteq> [] \<and>
       list_all (\<lambda>x. case preview_redeem ''ann'' (normalized_code (rc_code x)) s' of
         Inl e \<Rightarrow> e = AppError 409 ''CARD_DROP_MISMATCH'' | Inr _ \<Rightarrow> False) (batch_codes (rcb_id r) s')"
  by code_simp

end
