(* ===== verification/Profiles.thy ===== *)
theory Profiles
  imports Privacy Collection
begin

text \<open>
  What fans see of each other (\<open>routers/social.py\<close>): the search with its ranking, the
  connections of a fan, the public page of a collection and the data of a trade. The visitor of
  a public page may be signed in or not (\<open>optional_current_user\<close> in \<open>dependencies.py\<close>). What a
  fan keeps private shows in none of the answers.
\<close>

section \<open>The visitor of a public page\<close>

definition optional_current_user ::
  "auth_config \<Rightarrow> string option \<Rightarrow> string option \<Rightarrow> string option \<Rightarrow> db \<Rightarrow> user option" where
  "optional_current_user cfg client authorization session_token s =
    (if present authorization then
       (case bearer_token (the authorization) of
          None \<Rightarrow> None
        | Some raw \<Rightarrow>
            (case decode_access_token cfg raw (case client of None \<Rightarrow> [] | Some c \<Rightarrow> c) (now s) of
               Inl e \<Rightarrow> None
             | Inr claims \<Rightarrow>
                 (case live_user (case id_text (jget claims ''sub'') of None \<Rightarrow> None | Some i \<Rightarrow> get_user i s) of
                    None \<Rightarrow> None
                  | Some u \<Rightarrow> if jget claims ''role'' = JStr (role_value (u_role u)) then Some u else None)))
     else if is_hosted cfg \<or> \<not> present session_token then None
     else live_user (case find (\<lambda>x. se_token x = the session_token) (login_sessions s) of
       None \<Rightarrow> None | Some x \<Rightarrow> get_user (se_user_id x) s))"

section \<open>Cards as other fans see them\<close>

text \<open>\<open>a or b or c\<close> of optional texts: the first that is neither null nor empty, else the last.\<close>

definition shown_name :: "user \<Rightarrow> string" where
  "shown_name u =
    (if present (u_nickname u) then the (u_nickname u) else if present (u_email u) then the (u_email u) else u_id u)"

record card_entry =
  cl_user_card :: user_card
  cl_card :: card_row
  cl_artist_id :: "ident option"
  cl_artist_name :: "string option"
  cl_member_id :: "ident option"
  cl_member_name :: "string option"
  cl_tradable :: bool

definition collection_card :: "db \<Rightarrow> user_card \<times> card_row \<Rightarrow> card_entry" where
  "collection_card s = (\<lambda>(uc, c).
    \<lparr>cl_user_card = uc, cl_card = c,
     cl_artist_id = (case artist_of_card c s of Some a \<Rightarrow> Some (ar_id a) | None \<Rightarrow> c_artist_id c),
     cl_artist_name = map_option ar_name (artist_of_card c s),
     cl_member_id = (case member_of_card c s of Some m \<Rightarrow> Some (mem_id m) | None \<Rightarrow> c_member_id c),
     cl_member_name = map_option mem_name (member_of_card c s),
     cl_tradable = (c_tradable c \<and> uc_expires_at uc = None \<and> uc_trade_locked_at uc = None \<and>
       uc_acquisition_source uc \<noteq> ''combination'')\<rparr>)"

text \<open>The copies of a fan that no combination used up, with their cards, the latest first.\<close>

definition owned_rows :: "ident \<Rightarrow> db \<Rightarrow> (user_card \<times> card_row) list" where
  "owned_rows u s =
    sort_key (\<lambda>(uc, c). (- uc_acquired_at uc, uc_id uc))
      (concat (map (\<lambda>uc. case get_card (uc_card_id uc) s of None \<Rightarrow> [] | Some c \<Rightarrow> [(uc, c)])
        (filter (\<lambda>uc. uc_user_id uc = u \<and> \<not> combined_copy (uc_id uc) s) (user_cards s))))"

definition collection_public :: "ident \<Rightarrow> db \<Rightarrow> bool" where
  "collection_public u s \<longleftrightarrow>
    (case find (\<lambda>v. cv_user_id v = u) (card_visibilities s) of None \<Rightarrow> True | Some v \<Rightarrow> cv_public_enabled v)"

definition follows_fan :: "ident \<Rightarrow> ident \<Rightarrow> db \<Rightarrow> bool" where
  "follows_fan viewer target s \<longleftrightarrow>
    list_ex (\<lambda>f. fo_follower_id f = viewer \<and> fo_following_id f = target) (follows s)"

definition favorite_artists :: "user \<Rightarrow> db \<Rightarrow> artist list" where
  "favorite_artists u s =
    concat (map (\<lambda>i. case find (\<lambda>a. ar_id a = i) (artists s) of None \<Rightarrow> [] | Some a \<Rightarrow> [a]) (u_favorite_artist_ids u))"

definition wish_ids :: "ident \<Rightarrow> db \<Rightarrow> ident list" where
  "wish_ids u s = map fw_card_id (filter (\<lambda>w. fw_user_id w = u) (fan_wishlist_items s))"

section \<open>A fan in a list\<close>

record fan_item =
  fi_id :: ident
  fi_name :: string
  fi_is_following :: bool
  fi_follower_count :: nat
  fi_following_count :: nat
  fi_owned_count :: nat
  fi_tradable_count :: nat
  fi_favorite_artists :: "artist list"
  fi_shared_artists :: "artist list"
  fi_preview_cards :: "card_entry list"
  fi_matching_wishlist :: nat
  fi_latest_card_at :: "time option"

text \<open>What a viewer other than the fan likes and looks for.\<close>

definition other_viewer :: "ident option \<Rightarrow> ident \<Rightarrow> bool" where
  "other_viewer viewer target \<longleftrightarrow> viewer \<noteq> None \<and> viewer \<noteq> Some target"

definition viewer_artists :: "ident option \<Rightarrow> ident \<Rightarrow> db \<Rightarrow> ident list" where
  "viewer_artists viewer target s =
    (if other_viewer viewer target
     then (case get_user (the viewer) s of None \<Rightarrow> [] | Some v \<Rightarrow> u_favorite_artist_ids v) else [])"

definition viewer_wishes :: "ident option \<Rightarrow> ident \<Rightarrow> db \<Rightarrow> ident list" where
  "viewer_wishes viewer target s = (if other_viewer viewer target then wish_ids (the viewer) s else [])"

definition fan_summary :: "user \<Rightarrow> ident option \<Rightarrow> db \<Rightarrow> fan_item" where
  "fan_summary target viewer s =
    (let (followers, following, owned) = fan_counts (u_id target) s;
         favorites = favorite_artists target s;
         rows = (if collection_public (u_id target) s then owned_rows (u_id target) s else []);
         shown = map (collection_card s) rows
     in \<lparr>fi_id = u_id target, fi_name = shown_name target,
         fi_is_following = (other_viewer viewer (u_id target) \<and> follows_fan (the viewer) (u_id target) s),
         fi_follower_count = followers, fi_following_count = following, fi_owned_count = owned,
         fi_tradable_count = count_where cl_tradable shown,
         fi_favorite_artists = favorites,
         fi_shared_artists = filter (\<lambda>a. ar_id a \<in> set (viewer_artists viewer (u_id target) s)) favorites,
         fi_preview_cards = take 3 shown,
         fi_matching_wishlist = length (remdups (filter (\<lambda>i. i \<in> set (viewer_wishes viewer (u_id target) s)) (map (\<lambda>(uc, c). c_id c) rows))),
         fi_latest_card_at = (case shown of [] \<Rightarrow> None | x # _ \<Rightarrow> Some (uc_acquired_at (cl_user_card x)))\<rparr>)"

section \<open>The search\<close>

text \<open>The owners of a public copy whose card, season, artist or member matches.\<close>

definition card_matches :: "string \<Rightarrow> card_row \<Rightarrow> db \<Rightarrow> bool" where
  "card_matches pattern c s \<longleftrightarrow>
    ilike pattern (Some (c_name c)) \<or> ilike pattern (c_season_name c) \<or>
    ilike pattern (map_option ar_name (artist_of_card c s)) \<or>
    ilike pattern (map_option mem_name (member_of_card c s))"

definition matching_card_owners :: "string \<Rightarrow> db \<Rightarrow> ident list" where
  "matching_card_owners pattern s = map uc_user_id
    (filter (\<lambda>uc. \<not> combined_copy (uc_id uc) s \<and> collection_public (uc_user_id uc) s \<and>
        (case get_card (uc_card_id uc) s of None \<Rightarrow> False | Some c \<Rightarrow> card_matches pattern c s))
      (user_cards s))"

definition fan_matches :: "string \<Rightarrow> user \<Rightarrow> db \<Rightarrow> bool" where
  "fan_matches query u s \<longleftrightarrow>
    (let pattern = ''%'' @ py_strip query @ ''%''
     in py_strip query = [] \<or> ilike pattern (Some (u_id u)) \<or> ilike pattern (u_email u) \<or>
        ilike pattern (u_nickname u) \<or> u_id u \<in> set (matching_card_owners pattern s))"

definition search_targets :: "ident \<Rightarrow> string \<Rightarrow> db \<Rightarrow> user list" where
  "search_targets viewer query s =
    filter (\<lambda>u. u_role u = FAN \<and> u_id u \<noteq> viewer \<and> u_deleted_at u = None \<and> fan_matches query u s \<and>
      \<not> blocked_between viewer (u_id u) s) (users s)"

datatype reason = SharedArtists "string list" | MatchingWishes nat | TradableCards nat | RecentCollection | ColdStart

definition recent_bonus :: "fan_item \<Rightarrow> time \<Rightarrow> int" where
  "recent_bonus f t = (case fi_latest_card_at f of None \<Rightarrow> 0 | Some x \<Rightarrow> if t - days 7 \<le> x then 10 else 0)"

definition fan_score :: "fan_item \<Rightarrow> time \<Rightarrow> int" where
  "fan_score f t = int (length (fi_shared_artists f)) * 100 + int (fi_matching_wishlist f) * 50 +
    int (min (fi_tradable_count f) 10) * 5 + recent_bonus f t"

definition fan_reasons :: "fan_item \<Rightarrow> time \<Rightarrow> reason list" where
  "fan_reasons f t =
    (let found = (if fi_shared_artists f \<noteq> [] then [SharedArtists (map ar_name (take 2 (fi_shared_artists f)))] else []) @
          (if fi_matching_wishlist f \<noteq> 0 then [MatchingWishes (fi_matching_wishlist f)] else []) @
          (if fi_tradable_count f \<noteq> 0 then [TradableCards (fi_tradable_count f)] else []);
         reasons = (if found = [] \<and> recent_bonus f t \<noteq> 0 then [RecentCollection] else found)
     in if take 3 reasons = [] then [ColdStart] else take 3 reasons)"

text \<open>The final order is by score, name and identifier, so the order of the query does not matter.\<close>

definition rank_key :: "fan_item \<times> int \<times> reason list \<Rightarrow> int \<times> string \<times> string" where
  "rank_key = (\<lambda>(f, n, _). (- n, fi_name f, fi_id f))"

definition ranked :: "ident \<Rightarrow> db \<Rightarrow> user \<Rightarrow> fan_item \<times> int \<times> reason list" where
  "ranked viewer s u = (let f = fan_summary u (Some viewer) s in (f, fan_score f (now s), fan_reasons f (now s)))"

definition search_fans :: "ident \<Rightarrow> string \<Rightarrow> db \<Rightarrow> (fan_item \<times> int \<times> reason list) list" where
  "search_fans viewer query s = sort_key rank_key (map (ranked viewer s) (search_targets viewer query s))"

section \<open>Connections\<close>

text \<open>Null names come last, as PostgreSQL sorts them.\<close>

definition null_last :: "string option \<Rightarrow> bool \<times> string" where
  "null_last t = (case t of None \<Rightarrow> (True, []) | Some x \<Rightarrow> (False, x))"

definition name_order :: "user \<Rightarrow> (bool \<times> string) \<times> (bool \<times> string) \<times> string" where
  "name_order u = (null_last (u_nickname u), null_last (u_email u), u_id u)"

definition fan_connections :: "string \<Rightarrow> ident \<Rightarrow> db \<Rightarrow> fan_item list" where
  "fan_connections kind u s =
    (let joined = (\<lambda>x f. if kind = ''followers'' then fo_follower_id f = u_id x \<and> fo_following_id f = u
          else fo_following_id f = u_id x \<and> fo_follower_id f = u);
         rows = concat (map (\<lambda>x. map (\<lambda>_. x) (filter (joined x) (follows s))) (users s))
     in map (\<lambda>x. fan_summary x (Some u) s) (sort_key name_order rows))"

section \<open>The public page of a collection\<close>

definition wanted_cards :: "ident \<Rightarrow> db \<Rightarrow> card_row list" where
  "wanted_cards u s =
    concat (map (\<lambda>w. case get_card (fw_card_id w) s of None \<Rightarrow> [] | Some c \<Rightarrow> [c])
      (newest fw_created_at fw_id (filter (\<lambda>w. fw_user_id w = u) (fan_wishlist_items s))))"

text \<open>The published pack that offers one of the cards, the latest first.\<close>

definition featured_pack :: "ident list \<Rightarrow> db \<Rightarrow> ident option" where
  "featured_pack card_ids s =
    (let offers = (\<lambda>p. cp_status p = ''published'' \<and>
          list_ex (\<lambda>l. cpc_pack_id l = cp_id p \<and> cpc_enabled l \<and> cpc_card_id l \<in> set card_ids) (card_pack_cards s))
     in case sort_key (\<lambda>p. (case cp_published_at p of None \<Rightarrow> (False, 0) | Some t \<Rightarrow> (True, - t), cp_id p))
         (filter offers (card_packs s)) of [] \<Rightarrow> None | p # _ \<Rightarrow> Some (cp_id p))"

record collection_view =
  cpg_user_id :: ident
  cpg_nickname :: "string option"
  cpg_featured_pack :: "ident option"
  cpg_is_following :: bool
  cpg_owned_count :: nat
  cpg_follower_count :: nat
  cpg_following_count :: nat
  cpg_favorite_artists :: "artist list"
  cpg_cards :: "card_entry list"
  cpg_wanted :: "card_row list"

definition collection_page :: "user \<Rightarrow> ident option \<Rightarrow> db \<Rightarrow> collection_view" where
  "collection_page target viewer s =
    (let rows = owned_rows (u_id target) s; (followers, following, _) = fan_counts (u_id target) s
     in \<lparr>cpg_user_id = u_id target, cpg_nickname = u_nickname target,
         cpg_featured_pack = (if rows = [] then None else featured_pack (map (\<lambda>(uc, c). c_id c) rows) s),
         cpg_is_following = (case viewer of None \<Rightarrow> False
           | Some v \<Rightarrow> v \<noteq> u_id target \<and> follows_fan v (u_id target) s),
         cpg_owned_count = length rows, cpg_follower_count = followers, cpg_following_count = following,
         cpg_favorite_artists = favorite_artists target s,
         cpg_cards = map (collection_card s) rows,
         cpg_wanted = wanted_cards (u_id target) s\<rparr>)"

definition public_collection :: "ident \<Rightarrow> ident option \<Rightarrow> db \<Rightarrow> exn + collection_view" where
  "public_collection u viewer s =
    (case get_user u s of
       None \<Rightarrow> Inl (AppError 404 ''COLLECTION_NOT_FOUND'')
     | Some target \<Rightarrow>
         if u_role target \<noteq> FAN then Inl (AppError 404 ''COLLECTION_NOT_FOUND'')
         else if viewer \<noteq> Some u \<and> viewer \<noteq> None \<and> blocked_between (the viewer) u s
         then Inl (AppError 404 ''COLLECTION_NOT_FOUND'')
         else if viewer \<noteq> Some u \<and> \<not> collection_public u s then Inl (AppError 404 ''COLLECTION_NOT_FOUND'')
         else Inr (collection_page target viewer s))"

section \<open>The data of a trade\<close>

text \<open>An item whose copy or card is gone is shown as unavailable.\<close>

definition trade_card_data :: "trade_item \<Rightarrow> db \<Rightarrow> string \<times> ident \<times> card_entry option" where
  "trade_card_data i s =
    (ti_side i, ti_user_card_id i,
     case find (\<lambda>uc. uc_id uc = ti_user_card_id i) (user_cards s) of
       None \<Rightarrow> None
     | Some uc \<Rightarrow> (case get_card (uc_card_id uc) s of None \<Rightarrow> None | Some c \<Rightarrow> Some (collection_card s (uc, c))))"

definition trade_user_data :: "ident \<Rightarrow> db \<Rightarrow> ident \<times> string option" where
  "trade_user_data i s = (i, map_option shown_name (get_user i s))"

record trade_view =
  tv_proposal :: trade_proposal
  tv_offered_ids :: "ident list"
  tv_requested_ids :: "ident list"
  tv_proposer :: "ident \<times> string option"
  tv_recipient :: "ident \<times> string option"
  tv_offered :: "(string \<times> ident \<times> card_entry option) list"
  tv_requested :: "(string \<times> ident \<times> card_entry option) list"

definition trade_data :: "trade_proposal \<Rightarrow> db \<Rightarrow> trade_view" where
  "trade_data p s =
    (let items = sort_key (\<lambda>i. (ti_side i, ti_id i)) (items_of (tp_id p) s);
         shown = map (\<lambda>i. trade_card_data i s) items
     in \<lparr>tv_proposal = p,
         tv_offered_ids = map ti_user_card_id (filter (\<lambda>i. ti_side i = ''offered'') items),
         tv_requested_ids = map ti_user_card_id (filter (\<lambda>i. ti_side i = ''requested'') items),
         tv_proposer = trade_user_data (tp_proposer_id p) s, tv_recipient = trade_user_data (tp_recipient_id p) s,
         tv_offered = filter (\<lambda>(side, _). side = ''offered'') shown,
         tv_requested = filter (\<lambda>(side, _). side = ''requested'') shown\<rparr>)"

section \<open>Visitors\<close>

text \<open>The two ways of reading the session agree: the optional one answers nobody where the other refuses.\<close>

lemma optional_user_eq:
  "optional_current_user cfg client authorization token s =
    (case current_user cfg client authorization token s of Inl _ \<Rightarrow> None | Inr u \<Rightarrow> Some u)"
  unfolding optional_current_user_def current_user_def bindE_def by (simp split: option.split sum.split)

lemma public_collection_iff:
  "(\<exists>p. public_collection u viewer s = Inr p) \<longleftrightarrow> collection_visible u viewer s"
  by (auto simp: public_collection_def collection_visible_def collection_public_def is_fan_def
      split: option.splits)

section \<open>Private collections\<close>

text \<open>\<open>s'\<close> differs from \<open>s\<close> in nothing but the copies one fan holds.\<close>

definition copies_differ :: "ident \<Rightarrow> db \<Rightarrow> db \<Rightarrow> bool" where
  "copies_differ u s s' \<longleftrightarrow>
    (\<exists>ucs. s' = s\<lparr>user_cards := ucs\<rparr> \<and>
      filter (\<lambda>x. uc_user_id x \<noteq> u) ucs = filter (\<lambda>x. uc_user_id x \<noteq> u) (user_cards s))"

definition without_count :: "ident \<Rightarrow> fan_item \<Rightarrow> fan_item" where
  "without_count u f = (if fi_id f = u then f\<lparr>fi_owned_count := 0\<rparr> else f)"

lemma filter_others:
  assumes "filter Q xs = filter Q ys" and "\<And>x. P x \<Longrightarrow> Q x"
  shows "filter P xs = filter P ys"
proof -
  have "filter P zs = filter P (filter Q zs)" for zs using assms(2) by (induction zs) auto
  then show ?thesis using assms(1) by metis
qed

lemma map_sort_key: "map h (sort_key (\<lambda>x. k (h x)) xs) = sort_key k (map h xs)"
proof (induction xs)
  case (Cons x xs)
  have "map h (insort_key (\<lambda>x. k (h x)) x ys) = insort_key k (h x) (map h ys)" for ys by (induction ys) simp_all
  with Cons show ?case by simp
qed simp

lemma copies_differD:
  assumes "copies_differ u s s'" and "\<not> collection_public u s"
  shows "\<And>p. matching_card_owners p s' = matching_card_owners p s"
    and "\<And>x. collection_public x s' = collection_public x s"
    and "\<And>x. x \<noteq> u \<Longrightarrow> owned_rows x s' = owned_rows x s"
    and "\<And>x. x \<noteq> u \<Longrightarrow> fan_counts x s' = fan_counts x s"
    and "fst (fan_counts u s') = fst (fan_counts u s)" and "fst (snd (fan_counts u s')) = fst (snd (fan_counts u s))"
proof -
  from assms(1) obtain ucs where s': "s' = s\<lparr>user_cards := ucs\<rparr>"
    and eq: "filter (\<lambda>x. uc_user_id x \<noteq> u) ucs = filter (\<lambda>x. uc_user_id x \<noteq> u) (user_cards s)"
    by (auto simp: copies_differ_def)
  note filters = filter_others [OF eq]
  have ucs: "user_cards s' = ucs" by (simp add: s')
  have public: "collection_public x s' = collection_public x s" for x by (simp add: collection_public_def s')
  have card [simp]: "get_card i s' = get_card i s" "combined_copy i s' = combined_copy i s"
    "card_matches p c s' = card_matches p c s" for i p c
    by (simp_all add: s' get_card_def combined_copy_def card_matches_def artist_of_card_def member_of_card_def cong: option.case_cong)
  show "matching_card_owners p s' = matching_card_owners p s" for p
    unfolding matching_card_owners_def using assms(2)
    by (auto simp: public ucs cong: option.case_cong
        intro!: arg_cong [of _ _ "map uc_user_id"] filters)
  show "owned_rows x s' = owned_rows x s" if "x \<noteq> u" for x
    unfolding owned_rows_def card ucs
    using that by (subst filters [where P = "\<lambda>uc. uc_user_id uc = x \<and> \<not> combined_copy (uc_id uc) s"]) auto
  show "fan_counts x s' = fan_counts x s" if "x \<noteq> u" for x
    using that by (auto simp: fan_counts_def s' count_where_def intro!: arg_cong [of _ _ length] filters)
  show "collection_public x s' = collection_public x s" for x by (rule public)
  show "fst (fan_counts u s') = fst (fan_counts u s)" "fst (snd (fan_counts u s')) = fst (snd (fan_counts u s))"
    by (simp_all add: fan_counts_def s')
qed

lemma fan_item_others:
  assumes "copies_differ u s s'" and "\<not> collection_public u s"
  shows "without_count u (fan_summary x viewer s') = without_count u (fan_summary x viewer s)"
proof -
  obtain ucs where s': "s' = s\<lparr>user_cards := ucs\<rparr>" using assms(1) by (auto simp: copies_differ_def)
  have joined: "artist_of_card c s' = artist_of_card c s" "member_of_card c s' = member_of_card c s"
    for c by (simp_all add: s' artist_of_card_def member_of_card_def split: option.split)
  have tables: "artists s' = artists s" "users s' = users s" "fan_wishlist_items s' = fan_wishlist_items s"
    "follows s' = follows s" by (simp_all add: s')
  have same: "favorite_artists x s' = favorite_artists x s" "get_user v s' = get_user v s" "wish_ids v s' = wish_ids v s"
    "viewer_artists viewer w s' = viewer_artists viewer w s" "viewer_wishes viewer w s' = viewer_wishes viewer w s"
    "follows_fan v w s' = follows_fan v w s" "collection_card s' = collection_card s" for v w
    by (auto simp: favorite_artists_def wish_ids_def viewer_artists_def viewer_wishes_def follows_fan_def collection_card_def get_user_def joined tables)
  note D = copies_differD [OF assms]
  show ?thesis
  proof (cases "u_id x = u")
    case True
    obtain m n k where counts: "fan_counts u s = (m, n, k)" by (cases "fan_counts u s") auto
    then obtain k' where "fan_counts u s' = (m, n, k')" using D(5,6) by (cases "fan_counts u s'") auto
    then show ?thesis by (simp add: fan_summary_def without_count_def True counts Let_def same D(2) assms(2))
  next
    case False
    with D(3) [OF False] D(4) [OF False] show ?thesis by (simp add: fan_summary_def same D(2))
  qed
qed

lemma without_count_keeps [simp]:
  "rank_key (without_count u f, z) = rank_key (f, z)" "fan_score (without_count u f) t = fan_score f t"
  "fan_reasons (without_count u f) t = fan_reasons f t"
  by (simp_all add: rank_key_def without_count_def fan_score_def fan_reasons_def recent_bonus_def split: prod.split)

lemma search_targets_others:
  assumes "copies_differ u s s'" and "\<not> collection_public u s"
  shows "search_targets viewer query s' = search_targets viewer query s"
proof -
  obtain ucs where s': "s' = s\<lparr>user_cards := ucs\<rparr>" using assms(1) by (auto simp: copies_differ_def)
  have "fan_matches query x s' = fan_matches query x s" for x
    by (simp add: fan_matches_def copies_differD(1) [OF assms])
  then show ?thesis by (simp add: search_targets_def s' blocked_between_def)
qed

text \<open>C37. A private collection stays private: whatever copies a fan holds who does not show the
  collection, the search, the lists of connections and the public page give every visitor the
  same answer, but for the number of copies next to the fan's name. Which cards they are, whether
  they can be traded, whether the visitor is looking for them and when they were acquired shows
  neither in the entries nor in who is found and in which order.\<close>

theorem private_collections_stay_private:
  assumes "\<not> collection_public u s" and "copies_differ u s s'"
  shows "map (map_prod (without_count u) id) (search_fans viewer query s') =
      map (map_prod (without_count u) id) (search_fans viewer query s) \<and>
    map (without_count u) (fan_connections kind viewer s') = map (without_count u) (fan_connections kind viewer s) \<and>
    (visitor \<noteq> Some u \<longrightarrow> (\<exists>e. public_collection u visitor s = Inl e \<and> public_collection u visitor s' = Inl e))"
proof -
  obtain ucs where s': "s' = s\<lparr>user_cards := ucs\<rparr>" using assms(2) by (auto simp: copies_differ_def)
  note item = fan_item_others [OF assms(2,1)]
  have tables: "users s' = users s" "follows s' = follows s" by (simp_all add: s')
  let ?h = "map_prod (without_count u) id :: fan_item \<times> int \<times> reason list \<Rightarrow> _"
  have key: "rank_key = (\<lambda>x. rank_key (?h x))" by (auto simp: fun_eq_iff)
  have sorted: "map ?h (sort_key rank_key xs) = sort_key rank_key (map ?h xs)" for xs
    by (subst (1) key) (rule map_sort_key)
  have "?h (ranked viewer s' x) = ?h (ranked viewer s x)" for x
    using arg_cong [OF item, of "\<lambda>f. fan_score f (now s)"] arg_cong [OF item, of "\<lambda>f. fan_reasons f (now s)"] item
    by (simp add: ranked_def s' Let_def)
  then have "map ?h (search_fans viewer query s') = map ?h (search_fans viewer query s)"
    by (simp add: search_fans_def sorted search_targets_others [OF assms(2,1)] comp_def)
  moreover have "map (without_count u) (fan_connections kind viewer s') = map (without_count u) (fan_connections kind viewer s)"
    by (simp add: fan_connections_def Let_def comp_def item tables)
  moreover have "\<exists>e. public_collection u visitor s = Inl e \<and> public_collection u visitor s' = Inl e" if "visitor \<noteq> Some u"
    using that assms(1) by (auto simp: public_collection_def s' get_user_def blocked_between_def collection_public_def
        split: option.split)
  ultimately show ?thesis by blast
qed

text \<open>Bob hides his collection; in the second state he holds no copies.\<close>

definition hidden_db :: db where
  "hidden_db = trade_db\<lparr>card_visibilities := [\<lparr>cv_user_id = ''bob'', cv_public_enabled = False\<rparr>],
     fan_wishlist_items := [\<lparr>fw_id = ''w'', fw_user_id = ''ann'', fw_card_id = c_id drop_card, fw_created_at = 0\<rparr>]\<rparr>"

definition bare_db :: db where
  "bare_db = hidden_db\<lparr>user_cards := filter (\<lambda>x. uc_user_id x \<noteq> ''bob'') (user_cards hidden_db)\<rparr>"

theorem private_collections_stay_private_witness:
  "map (map_prod (without_count ''bob'') id) (search_fans ''ann'' ''b'' bare_db) =
     map (map_prod (without_count ''bob'') id) (search_fans ''ann'' ''b'' hidden_db) \<and>
   map (\<lambda>(f, n, _). (fi_id f, n, fi_owned_count f)) (search_fans ''ann'' ''b'' hidden_db) = [(''bob'', 0, 1)] \<and>
   (\<exists>e. public_collection ''bob'' None bare_db = Inl e)"
proof -
  have "\<not> collection_public ''bob'' hidden_db" by code_simp
  moreover have "copies_differ ''bob'' hidden_db bare_db" by (auto simp: copies_differ_def bare_db_def)
  moreover have "map (\<lambda>(f, n, _). (fi_id f, n, fi_owned_count f)) (search_fans ''ann'' ''b'' hidden_db) = [(''bob'', 0, 1)]"
    by code_simp
  ultimately show ?thesis
    using private_collections_stay_private [of "''bob''" hidden_db bare_db "''ann''" "''b''" _ None] by auto
qed

text \<open>The search finds the other fans it is asked for, each of them once, and sorts them by their rank.\<close>

lemma search_fans_sorted: "sorted (map rank_key (search_fans viewer query s))"
  by (simp add: search_fans_def)

lemma fi_id_ranked: "fi_id (fst (ranked viewer s u)) = u_id u"
  by (simp add: ranked_def fan_summary_def Let_def split: prod.split)

lemma search_fans_exact:
  "set (map (fi_id \<circ> fst) (search_fans viewer query s)) =
    {u_id u | u. u \<in> set (users s) \<and> u_role u = FAN \<and> u_id u \<noteq> viewer \<and> u_deleted_at u = None \<and>
      fan_matches query u s \<and> \<not> blocked_between viewer (u_id u) s}"
  by (auto simp: search_fans_def search_targets_def fi_id_ranked image_image)

lemma search_fans_once:
  assumes "distinct (map u_id (users s))"
  shows "distinct (map (fi_id \<circ> fst) (search_fans viewer query s))"
proof -
  have "mset (map (fi_id \<circ> fst) (search_fans viewer query s)) = mset (map u_id (search_targets viewer query s))"
    by (simp add: search_fans_def image_mset.compositionality comp_def fi_id_ranked)
  moreover have "distinct (map u_id (search_targets viewer query s))"
    using assms by (simp add: search_targets_def distinct_map_filter)
  ultimately show ?thesis by (metis mset_eq_imp_distinct_iff)
qed

section \<open>Observations\<close>

text \<open>A copy that is reserved by a pending trade is counted as tradable, although offering it again is refused.\<close>

theorem offered_copy_shown_tradable:
  "case find (\<lambda>u. u_id u = ''ann'') (users proposed_db) of None \<Rightarrow> False
   | Some u \<Rightarrow> list_ex (\<lambda>x. uc_id (cl_user_card x) = ''k1'' \<and> cl_tradable x) (fi_preview_cards (fan_summary u (Some ''bob'') proposed_db))"
  "case create_trade ''bob'' ''ann'' [''k2''] [''k1''] proposed_db of
     Inl (AppError n code) \<Rightarrow> code = ''CARD_ALREADY_IN_TRADE'' | _ \<Rightarrow> False"
  by code_simp+

text \<open>The public page of a fan does not look at the deletion of the account.\<close>

theorem deleted_collection_shown:
  "case delete_account ''DELETE MY ACCOUNT'' ''bob'' trade_db of Inl e \<Rightarrow> False
   | Inr (_, s) \<Rightarrow> (case public_collection ''bob'' None s of Inl e \<Rightarrow> False
       | Inr p \<Rightarrow> map (uc_id \<circ> cl_user_card) (cpg_cards p) = [''k2''])"
  by code_simp

text \<open>A fan who signed up by link has no nickname yet: the others see the address.\<close>

theorem address_shown_to_fans:
  assumes "e \<noteq> []" and "u_nickname u = None" and "u_email u = Some e"
  shows "fi_name (fan_summary u viewer s) = e"
  using assms by (simp add: fan_summary_def shown_name_def Let_def present_def split: prod.split)

end
