(* ===== verification/Uploads.thy ===== *)
theory Uploads
  imports Cards Collection
begin

text \<open>
  Files: the storage (\<open>storage.py\<close>), the checks of what is uploaded (\<open>upload_safety.py\<close>), the
  life of an asset from the presigned address over the upload to its use (\<open>routers/assets.py\<close>),
  and the cleanup of uploads that were never completed (\<open>services.py\<close>). What is stored outlives
  the transaction: a request that raises leaves the files it wrote. Whatever requests come and
  whatever clients write to their presigned addresses, a completed asset names a file that
  passed the checks.
\<close>

section \<open>Storage\<close>

text \<open>Bytes are characters here.\<close>

type_synonym bytes = string
type_synonym files = "string \<Rightarrow> bytes option"

record site =
  st_db :: db
  st_files :: files

text \<open>
  The settings, and what libraries answer: the image library the size of an image, whether it is
  intact, and the banner made from it; the virus scanner a text, or nothing when it cannot be
  reached; the digest of the content. \<open>up_prefix\<close> is what all paths of a provider begin with.
\<close>

record upload_config =
  up_backend :: string
  up_prefix :: string
  up_ttl :: int
  up_max_bytes :: nat
  up_scan_mode :: string
  up_image_size :: "bytes \<Rightarrow> (nat \<times> nat) option"
  up_intact :: "bytes \<Rightarrow> bool"
  up_clamav :: "bytes \<Rightarrow> string option"
  up_banner :: "bytes \<Rightarrow> bytes option"
  up_digest :: "bytes \<Rightarrow> string"

definition asset_file :: "upload_config \<Rightarrow> ident \<Rightarrow> string \<Rightarrow> string" where
  "asset_file cfg i suffix = up_prefix cfg @ ''/assets/'' @ i @ suffix"

definition DIRECT_UPLOAD_STAGING_SUFFIX :: string where
  "DIRECT_UPLOAD_STAGING_SUFFIX = ''-upload.bin''"

definition EVENT_HERO_DERIVATIVE_SUFFIX :: string where
  "EVENT_HERO_DERIVATIVE_SUFFIX = ''-event-hero-v1.webp''"

definition save_derived_bytes :: "upload_config \<Rightarrow> ident \<Rightarrow> string \<Rightarrow> bytes \<Rightarrow> files \<Rightarrow> string \<times> files" where
  "save_derived_bytes cfg i suffix content fs = (asset_file cfg i suffix, fs(asset_file cfg i suffix \<mapsto> content))"

definition save_bytes :: "upload_config \<Rightarrow> ident \<Rightarrow> bytes \<Rightarrow> files \<Rightarrow> string \<times> files" where
  "save_bytes cfg i content fs = save_derived_bytes cfg i ''.bin'' content fs"

definition stored :: "files \<Rightarrow> string \<Rightarrow> bool" where
  "stored fs p \<longleftrightarrow> fs p \<noteq> None"

section \<open>Checks of the content\<close>

definition EXECUTABLE_SIGNATURES :: "string list" where
  "EXECUTABLE_SIGNATURES = [''MZ'', CHR 0x7F # ''ELF'', ''#!'', ''<?php'', ''<script'']"

text \<open>\<open>lstrip\<close> and \<open>lower\<close> of bytes: ASCII only.\<close>

definition byte_space :: "char \<Rightarrow> bool" where
  "byte_space c \<longleftrightarrow> (let n = of_char c :: nat in n = 32 \<or> 9 \<le> n \<and> n \<le> 13)"

definition byte_lower :: "bytes \<Rightarrow> bytes" where
  "byte_lower = map (\<lambda>c. let n = of_char c :: nat in if 65 \<le> n \<and> n \<le> 90 then char_of (n + 32) else c)"

fun occurs :: "string \<Rightarrow> string \<Rightarrow> bool" where
  "occurs p [] \<longleftrightarrow> p = []"
| "occurs p (c # cs) \<longleftrightarrow> startswith (c # cs) p \<or> occurs p cs"

definition reject_obvious_executable :: "bytes \<Rightarrow> exn + unit" where
  "reject_obvious_executable content =
    (let head = byte_lower (dropWhile byte_space (take 512 content))
     in if list_ex (\<lambda>p. startswith content p \<or> startswith head (byte_lower p)) EXECUTABLE_SIGNATURES
        then Inl (AppError 422 ''UNSAFE_UPLOAD'') else Inr ())"

definition scan_unavailable :: exn where
  "scan_unavailable = AppError 503 ''UPLOAD_SCAN_UNAVAILABLE''"

definition scan_with_clamav :: "upload_config \<Rightarrow> bytes \<Rightarrow> exn + unit" where
  "scan_with_clamav cfg content =
    (case up_clamav cfg content of
       None \<Rightarrow> Inl scan_unavailable
     | Some r \<Rightarrow>
         if occurs ''found'' (byte_lower r) then Inl (AppError 422 ''MALWARE_DETECTED'')
         else if \<not> occurs ''ok'' (byte_lower r) then Inl scan_unavailable
         else Inr ())"

definition IMAGE_TYPES :: "string list" where
  "IMAGE_TYPES = [''image/png'', ''image/jpeg'', ''image/webp'']"

definition check_image :: "upload_config \<Rightarrow> string option \<Rightarrow> bytes \<Rightarrow> exn + unit" where
  "check_image cfg purpose content =
    (case up_image_size cfg content of
       None \<Rightarrow> Inl (AppError 422 ''INVALID_IMAGE'')
     | Some (w, h) \<Rightarrow>
         if purpose = Some ''event_banner'' \<and> (w < 320 \<or> h < 160) then Inl (AppError 422 ''INVALID_IMAGE'')
         else if purpose = Some ''reward_image'' \<and> (w < 128 \<or> h < 128) then Inl (AppError 422 ''INVALID_IMAGE'')
         else if \<not> up_intact cfg content then Inl (AppError 422 ''INVALID_IMAGE'')
         else Inr ())"

definition scan_uploaded_content :: "upload_config \<Rightarrow> string option \<Rightarrow> string option \<Rightarrow> bytes \<Rightarrow> exn + unit" where
  "scan_uploaded_content cfg content_type purpose content =
    (if up_scan_mode cfg = ''disabled'' then Inr ()
     else
       bindE (if purpose \<in> {Some ''event_banner'', Some ''reward_image''} \<and> content_type \<in> Some ` set IMAGE_TYPES
              then check_image cfg purpose content else Inr ()) (\<lambda>_.
       bindE (reject_obvious_executable content) (\<lambda>_.
       if up_scan_mode cfg = ''clamav'' then scan_with_clamav cfg content else Inr ())))"

section \<open>Assets\<close>

definition put_asset :: "asset \<Rightarrow> db \<Rightarrow> db" where
  "put_asset a s = s\<lparr>assets := update_where (\<lambda>x. as_id x = as_id a) (\<lambda>_. a) (assets s)\<rparr>"

text \<open>The analyses of an earlier content are dropped; an empty object becomes a null.\<close>

definition invalidate_source_photo_derivatives :: "asset \<Rightarrow> asset" where
  "invalidate_source_photo_derivatives a =
    (case as_transform a of
       None \<Rightarrow> a
     | Some t \<Rightarrow>
         let kept = filter (\<lambda>(k, v). k \<notin> {''photoAnalysis'', ''spatialScene''}) t
         in a\<lparr>as_transform := if kept = [] then None else Some kept\<rparr>)"

definition ORGANIZATION_LOGO_MAX_BYTES :: nat where
  "ORGANIZATION_LOGO_MAX_BYTES = 2 * 1024 * 1024"

definition upload_limit_bytes :: "upload_config \<Rightarrow> asset \<Rightarrow> nat" where
  "upload_limit_bytes cfg a =
    (if as_purpose a = Some ''organization_logo'' then ORGANIZATION_LOGO_MAX_BYTES else up_max_bytes cfg)"

definition require_upload_role :: "user \<Rightarrow> db \<Rightarrow> exn + unit" where
  "require_upload_role u s =
    (if u_role u \<notin> {ADMIN, ARTIST} then Inl (AppError 403 ''FORBIDDEN'')
     else if u_role u = ADMIN then bindE (load_admin_context u s) (\<lambda>_. Inr ()) else Inr ())"

text \<open>
  The banner derived from an upload; the path, and the files with it. A missing file and an
  image that cannot be converted are exceptions of the storage and of the image module; where
  nothing handles them they are server errors.
\<close>

definition storage_object_not_found :: exn where
  "storage_object_not_found = AppError 500 ''StorageObjectNotFound''"

definition ensure_event_hero_derivative ::
  "upload_config \<Rightarrow> ident \<Rightarrow> string \<Rightarrow> bytes option \<Rightarrow> bool \<Rightarrow> files \<Rightarrow> exn + string \<times> files" where
  "ensure_event_hero_derivative cfg i source_path source force fs =
    (let p = asset_file cfg i EVENT_HERO_DERIVATIVE_SUFFIX
     in if \<not> force \<and> stored fs p then Inr (p, fs)
        else
          case (case source of Some c \<Rightarrow> Some c | None \<Rightarrow> fs source_path) of
            None \<Rightarrow> Inl storage_object_not_found
          | Some content \<Rightarrow>
              (case up_banner cfg content of
                 None \<Rightarrow> Inl ValueError
               | Some webp \<Rightarrow> Inr (save_derived_bytes cfg i EVENT_HERO_DERIVATIVE_SUFFIX webp fs)))"

section \<open>The life of an upload\<close>

record presign_body =
  prb_file_name :: string
  prb_content_type :: string
  prb_purpose :: string

definition UPLOAD_TYPES :: "string list" where
  "UPLOAD_TYPES = [''image/png'', ''image/jpeg'', ''image/webp'', ''audio/mpeg'', ''audio/mp4'', ''audio/wav'',
     ''audio/webm'', ''video/mp4'', ''video/webm'', ''application/pdf'']"

definition UPLOAD_PURPOSES :: "string list" where
  "UPLOAD_PURPOSES = [''card'', ''handwriting'', ''voice'', ''video'', ''collection_benefit'', ''organization_logo'',
     ''event_banner'', ''reward_image'']"

text \<open>What the schema admits (\<open>schemas.py\<close>).\<close>

definition image_purpose_must_be_an_image :: "presign_body \<Rightarrow> bool" where
  "image_purpose_must_be_an_image b \<longleftrightarrow>
    prb_purpose b \<in> {''event_banner'', ''organization_logo'', ''reward_image''} \<longrightarrow> prb_content_type b \<in> set IMAGE_TYPES"

definition valid_presign :: "presign_body \<Rightarrow> bool" where
  "valid_presign b \<longleftrightarrow> 1 \<le> length (prb_file_name b) \<and> length (prb_file_name b) \<le> 255 \<and>
    prb_content_type b \<in> set UPLOAD_TYPES \<and> prb_purpose b \<in> set UPLOAD_PURPOSES \<and> image_purpose_must_be_an_image b"

definition direct_upload :: "upload_config \<Rightarrow> bool" where
  "direct_upload cfg \<longleftrightarrow> up_backend cfg \<in> {''s3'', ''supabase''}"

definition new_asset :: "upload_config \<Rightarrow> presign_body \<Rightarrow> ident \<Rightarrow> ident \<Rightarrow> time \<Rightarrow> asset" where
  "new_asset cfg b i owner t =
    \<lparr>as_id = i, as_owner_id = owner, as_file_name = Some (prb_file_name b),
     as_content_type = Some (prb_content_type b), as_purpose = Some (prb_purpose b),
     as_upload_expires_at = Some (t + seconds (up_ttl cfg)), as_upload_completed_at = None,
     as_storage_path = (if direct_upload cfg then Some (asset_file cfg i DIRECT_UPLOAD_STAGING_SUFFIX) else None),
     as_processed_storage_path = None, as_content_sha256 = None, as_transform = None\<rparr>"

text \<open>The new asset, and the limit that is sent along.\<close>

definition presign_upload :: "upload_config \<Rightarrow> presign_body \<Rightarrow> user \<Rightarrow> db \<Rightarrow> exn + (asset \<times> nat) \<times> db" where
  "presign_upload cfg b u s =
    bindE (require_upload_role u s) (\<lambda>_.
    let a = new_asset cfg b (new_id ''asset_'' s) (u_id u) (now s)
    in bindE (insert_row (\<lambda>r x. as_id x = as_id r) a (assets s)) (\<lambda>rows.
       Inr ((a, upload_limit_bytes cfg a), (draw s)\<lparr>assets := rows\<rparr>)))"

text \<open>A header that is missing, one that is no number, or the number.\<close>

datatype content_length = Absent | Unreadable | Declared int

definition too_large :: exn where
  "too_large = AppError 413 ''UPLOAD_TOO_LARGE''"

definition upload_expired :: "asset \<Rightarrow> time \<Rightarrow> bool" where
  "upload_expired a t \<longleftrightarrow> (case as_upload_expires_at a of None \<Rightarrow> False | Some x \<Rightarrow> x < t)"

definition check_length :: "content_length \<Rightarrow> nat \<Rightarrow> exn + unit" where
  "check_length header limit =
    (case header of
       Absent \<Rightarrow> Inr ()
     | Unreadable \<Rightarrow> Inl (AppError 400 ''INVALID_CONTENT_LENGTH'')
     | Declared n \<Rightarrow> if int limit < n then Inl too_large else Inr ())"

text \<open>What both ways of uploading end with.\<close>

definition completed_asset :: "upload_config \<Rightarrow> string \<Rightarrow> string option \<Rightarrow> bytes \<Rightarrow> time \<Rightarrow> asset \<Rightarrow> asset" where
  "completed_asset cfg path processed content t a =
    invalidate_source_photo_derivatives (a\<lparr>as_storage_path := Some path, as_processed_storage_path := processed,
      as_content_sha256 := Some (up_digest cfg content), as_upload_completed_at := Some t\<rparr>)"

text \<open>The path of the variant fans see, and the files with it; the first is unchanged where there is none.\<close>

definition prepare_event_banner_variant ::
  "upload_config \<Rightarrow> asset \<Rightarrow> string \<Rightarrow> bytes option \<Rightarrow> files \<Rightarrow> exn + string option \<times> files" where
  "prepare_event_banner_variant cfg a path source fs =
    (if as_purpose a \<noteq> Some ''event_banner'' then Inr (as_processed_storage_path a, fs)
     else bindE (ensure_event_hero_derivative cfg (as_id a) path source True fs) (\<lambda>(p, fs'). Inr (Some p, fs')))"

text \<open>The checks before anything is written.\<close>

definition accept_content :: "upload_config \<Rightarrow> ident \<Rightarrow> content_length \<Rightarrow> bytes \<Rightarrow> user \<Rightarrow> db \<Rightarrow> exn + asset" where
  "accept_content cfg i header content u s =
    bindE (require_upload_role u s) (\<lambda>_.
    bindE (owned_asset i u s) (\<lambda>a.
    if as_upload_completed_at a \<noteq> None then Inl (AppError 409 ''UPLOAD_ALREADY_COMPLETED'')
    else if upload_expired a (now s) then Inl (AppError 410 ''UPLOAD_URL_EXPIRED'')
    else bindE (check_length header (upload_limit_bytes cfg a)) (\<lambda>_.
      if content = [] then Inl (AppError 422 ''EMPTY_UPLOAD'')
      else if upload_limit_bytes cfg a < length content then Inl too_large
      else bindE (scan_uploaded_content cfg (as_content_type a) (as_purpose a) content) (\<lambda>_. Inr a))))"

definition upload_asset_content ::
  "upload_config \<Rightarrow> ident \<Rightarrow> content_length \<Rightarrow> bytes \<Rightarrow> user \<Rightarrow> site \<Rightarrow> (exn + asset) \<times> site" where
  "upload_asset_content cfg i header content u s =
    (case accept_content cfg i header content u (st_db s) of
       Inl e \<Rightarrow> (Inl e, s)
     | Inr a \<Rightarrow>
         let (path, fs) = save_bytes cfg (as_id a) content (st_files s)
         in case prepare_event_banner_variant cfg a path None fs of
              Inl e \<Rightarrow> (Inl e, s\<lparr>st_files := fs\<rparr>)
            | Inr (processed, fs') \<Rightarrow>
                let a1 = completed_asset cfg path processed content (now (st_db s)) a
                in (Inr a1, \<lparr>st_db = put_asset a1 (st_db s), st_files = fs'\<rparr>))"

text \<open>
  The completion of a direct upload. A refused file is deleted and its path forgotten, and that
  is committed; \<open>broken\<close> names the paths whose deletion fails at the provider: then the request
  that depends on it ends in a server error, while the last cleanup is only logged.
\<close>

definition upload_not_ready :: exn where
  "upload_not_ready = AppError 409 ''UPLOAD_NOT_READY''"

definition storage_failed :: exn where
  "storage_failed = AppError 500 ''StorageError''"

definition drop_staged :: "(string \<Rightarrow> bool) \<Rightarrow> string \<Rightarrow> asset \<Rightarrow> exn \<Rightarrow> site \<Rightarrow> (exn + 'a) \<times> site" where
  "drop_staged broken path a e s =
    (if broken path then (Inl storage_failed, s)
     else (Inl e, \<lparr>st_db = put_asset (a\<lparr>as_storage_path := None\<rparr>) (st_db s), st_files = (st_files s)(path := None)\<rparr>))"

definition finish_upload ::
  "upload_config \<Rightarrow> (string \<Rightarrow> bool) \<Rightarrow> string \<Rightarrow> bytes \<Rightarrow> asset \<Rightarrow> site \<Rightarrow> (exn + asset) \<times> site" where
  "finish_upload cfg broken staging content a s =
    (let (path, fs) = save_bytes cfg (as_id a) content (st_files s)
     in case prepare_event_banner_variant cfg a path (Some content) fs of
          Inl e \<Rightarrow> (Inl e, s\<lparr>st_files := fs\<rparr>)
        | Inr (processed, fs') \<Rightarrow>
            let a1 = completed_asset cfg path processed content (now (st_db s)) a
            in (Inr a1, \<lparr>st_db = put_asset a1 (st_db s),
                  st_files = (if staging \<noteq> path \<and> \<not> broken staging then fs'(staging := None) else fs')\<rparr>))"

definition complete_asset_upload ::
  "upload_config \<Rightarrow> (string \<Rightarrow> bool) \<Rightarrow> ident \<Rightarrow> user \<Rightarrow> site \<Rightarrow> (exn + asset) \<times> site" where
  "complete_asset_upload cfg broken i u s =
    (case bindE (require_upload_role u (st_db s)) (\<lambda>_. owned_asset i u (st_db s)) of
       Inl e \<Rightarrow> (Inl e, s)
     | Inr a \<Rightarrow>
         if upload_expired a (now (st_db s)) then (Inl (AppError 410 ''UPLOAD_URL_EXPIRED''), s)
         else if as_upload_completed_at a \<noteq> None then (Inr a, s)
         else if \<not> present (as_storage_path a) then (Inl upload_not_ready, s)
         else
           let staging = the (as_storage_path a)
           in case st_files s staging of
                None \<Rightarrow> (Inl upload_not_ready, s)
              | Some content \<Rightarrow>
                  if upload_limit_bytes cfg a < length content then drop_staged broken staging a too_large s
                  else (case scan_uploaded_content cfg (as_content_type a) (as_purpose a) content of
                      Inl e \<Rightarrow> drop_staged broken staging a e s
                    | Inr _ \<Rightarrow> finish_upload cfg broken staging content a s))"

text \<open>A client writes to the address it was given; the server does not see it.\<close>

definition direct_put :: "upload_config \<Rightarrow> ident \<Rightarrow> bytes \<Rightarrow> site \<Rightarrow> site" where
  "direct_put cfg i content s =
    s\<lparr>st_files := (st_files s)(asset_file cfg i DIRECT_UPLOAD_STAGING_SUFFIX \<mapsto> content)\<rparr>"

section \<open>Using assets\<close>

definition serve :: "files \<Rightarrow> string \<Rightarrow> exn + bytes" where
  "serve fs p = bindE (storage_response (stored fs) p) (\<lambda>p. Inr (the (fs p)))"

definition get_transparent_asset :: "ident \<Rightarrow> user \<Rightarrow> site \<Rightarrow> exn + bytes" where
  "get_transparent_asset i u s =
    bindE (require_upload_role u (st_db s)) (\<lambda>_.
    bindE (owned_asset i u (st_db s)) (\<lambda>a.
    if \<not> present (as_processed_storage_path a) then Inl asset_not_found
    else serve (st_files s) (the (as_processed_storage_path a))))"

definition get_owned_asset_content :: "ident \<Rightarrow> user \<Rightarrow> site \<Rightarrow> exn + bytes" where
  "get_owned_asset_content i u s =
    bindE (require_upload_role u (st_db s)) (\<lambda>_.
    bindE (owned_asset i u (st_db s)) (\<lambda>a.
    if \<not> present (asset_path a) then Inl (AppError 404 ''ASSET_NOT_READY'')
    else serve (st_files s) (the (asset_path a))))"

definition logo_ready :: "asset \<Rightarrow> bool" where
  "logo_ready a \<longleftrightarrow> as_purpose a = Some ''organization_logo'' \<and> as_content_type a \<in> Some ` set IMAGE_TYPES \<and>
    as_storage_path a \<noteq> None \<and> as_upload_completed_at a \<noteq> None"

definition get_organization_logo :: "ident \<Rightarrow> site \<Rightarrow> exn + bytes" where
  "get_organization_logo i s =
    (case find (\<lambda>g. org_id g = i) (organizations (st_db s)) of
       None \<Rightarrow> Inl asset_not_found
     | Some g \<Rightarrow>
         case (case org_logo_asset_id g of None \<Rightarrow> None | Some j \<Rightarrow> get_asset j (st_db s)) of
           None \<Rightarrow> Inl asset_not_found
         | Some a \<Rightarrow>
             if \<not> logo_ready a then Inl asset_not_found
             else (case st_files s (the (as_storage_path a)) of None \<Rightarrow> Inl asset_not_found | Some c \<Rightarrow> Inr c))"

text \<open>The body holds numbers only.\<close>

definition update_asset_transform :: "ident \<Rightarrow> (string \<times> rat) list \<Rightarrow> user \<Rightarrow> db \<Rightarrow> exn + asset \<times> db" where
  "update_asset_transform i transform u s =
    bindE (require_upload_role u s) (\<lambda>_.
    bindE (owned_asset i u s) (\<lambda>a.
    let a1 = a\<lparr>as_transform := Some (map (\<lambda>(k, x). (k, JNum x)) transform)\<rparr>
    in Inr (a1, put_asset a1 s)))"

section \<open>Cleanup\<close>

definition cleanup_due :: "time \<Rightarrow> asset \<Rightarrow> bool" where
  "cleanup_due t a \<longleftrightarrow> upload_expired a t \<and> as_upload_completed_at a = None \<and> as_storage_path a \<noteq> None"

text \<open>A file whose deletion fails keeps its path, so that a later run tries again. An empty path is only forgotten.\<close>

definition cleanup_one :: "(string \<Rightarrow> bool) \<Rightarrow> asset \<Rightarrow> nat \<times> site \<Rightarrow> nat \<times> site" where
  "cleanup_one broken a = (\<lambda>(n, s).
    (let p = the (as_storage_path a)
     in if p \<noteq> [] \<and> broken p then (n, s)
        else (n + 1, \<lparr>st_db = put_asset (a\<lparr>as_storage_path := None\<rparr>) (st_db s),
               st_files = (if p = [] then st_files s else (st_files s)(p := None))\<rparr>)))"

definition cleanup_expired_uploads :: "(string \<Rightarrow> bool) \<Rightarrow> site \<Rightarrow> nat \<times> site" where
  "cleanup_expired_uploads broken s =
    fold (cleanup_one broken) (filter (cleanup_due (now (st_db s))) (assets (st_db s))) (0, s)"

section \<open>Sequences of requests\<close>

datatype upload_request =
    Presign presign_body user
  | PutContent ident content_length bytes user
  | CompleteUpload "string \<Rightarrow> bool" ident user
  | ClientPut ident bytes
  | SetTransform ident "(string \<times> rat) list" user
  | CleanUp "string \<Rightarrow> bool"
  | Wait time

definition on_db :: "(db \<Rightarrow> exn + 'a \<times> db) \<Rightarrow> site \<Rightarrow> site" where
  "on_db op s = s\<lparr>st_db := snd (run_tx op (st_db s))\<rparr>"

text \<open>What a request leaves, whatever it answers. Clients write to addresses of their own or of others.\<close>

fun upload_step :: "upload_config \<Rightarrow> upload_request \<Rightarrow> site \<Rightarrow> site" where
  "upload_step cfg (Presign b u) s = on_db (presign_upload cfg b u) s"
| "upload_step cfg (PutContent i header content u) s = snd (upload_asset_content cfg i header content u s)"
| "upload_step cfg (CompleteUpload broken i u) s = snd (complete_asset_upload cfg broken i u s)"
| "upload_step cfg (ClientPut i content) s = direct_put cfg i content s"
| "upload_step cfg (SetTransform i transform u) s = on_db (update_asset_transform i transform u) s"
| "upload_step cfg (CleanUp broken) s = snd (cleanup_expired_uploads broken s)"
| "upload_step cfg (Wait t) s = s\<lparr>st_db := (st_db s)\<lparr>now := t\<rparr>\<rparr>"

definition run_uploads :: "upload_config \<Rightarrow> upload_request list \<Rightarrow> site \<Rightarrow> site" where
  "run_uploads cfg qs s = fold (upload_step cfg) qs s"

section \<open>What is completed was checked and stays\<close>

definition canonical :: "upload_config \<Rightarrow> ident \<Rightarrow> string" where
  "canonical cfg i = asset_file cfg i ''.bin''"

definition staging :: "upload_config \<Rightarrow> ident \<Rightarrow> string" where
  "staging cfg i = asset_file cfg i DIRECT_UPLOAD_STAGING_SUFFIX"

text \<open>The file of an asset is there, passed the checks, is small enough and has the digest that was kept.\<close>

definition checked_file :: "upload_config \<Rightarrow> files \<Rightarrow> asset \<Rightarrow> bool" where
  "checked_file cfg fs a \<longleftrightarrow> as_storage_path a = Some (canonical cfg (as_id a)) \<and>
    (\<exists>c. fs (canonical cfg (as_id a)) = Some c \<and> as_content_sha256 a = Some (up_digest cfg c) \<and>
      scan_uploaded_content cfg (as_content_type a) (as_purpose a) c = Inr () \<and> length c \<le> upload_limit_bytes cfg a)"

definition asset_checked :: "upload_config \<Rightarrow> files \<Rightarrow> asset \<Rightarrow> bool" where
  "asset_checked cfg fs a \<longleftrightarrow>
    (if as_upload_completed_at a = None then as_storage_path a \<in> {None, Some (staging cfg (as_id a))}
     else checked_file cfg fs a)"

definition dashless :: "ident \<Rightarrow> bool" where
  "dashless i \<longleftrightarrow> CHR ''-'' \<notin> set i"

definition site_ok :: "upload_config \<Rightarrow> site \<Rightarrow> bool" where
  "site_ok cfg s \<longleftrightarrow> unique_by as_id (assets (st_db s)) \<and> (\<forall>n. dashless (entropy (st_db s) n)) \<and>
    (\<forall>a \<in> set (assets (st_db s)). dashless (as_id a) \<and> asset_checked cfg (st_files s) a)"

text \<open>A completed asset keeps its file and what is known of it.\<close>

definition file_facts :: "asset \<Rightarrow> ident \<times> time option \<times> string option \<times> string option" where
  "file_facts a = (as_id a, as_upload_completed_at a, as_storage_path a, as_content_sha256 a)"

definition kept :: "upload_config \<Rightarrow> site \<Rightarrow> site \<Rightarrow> bool" where
  "kept cfg s s' \<longleftrightarrow> (\<forall>a \<in> set (assets (st_db s)). as_upload_completed_at a \<noteq> None \<longrightarrow>
    (\<exists>a' \<in> set (assets (st_db s')). file_facts a' = file_facts a) \<and>
    st_files s' (canonical cfg (as_id a)) = st_files s (canonical cfg (as_id a)))"

lemma kept_refl: "kept cfg s s"
  by (auto simp: kept_def)

lemma kept_trans: "kept cfg s1 s2 \<Longrightarrow> kept cfg s2 s3 \<Longrightarrow> kept cfg s1 s3"
  unfolding kept_def
proof (intro ballI impI conjI)
  fix a assume 1: "\<forall>a\<in>set (assets (st_db s1)). as_upload_completed_at a \<noteq> None \<longrightarrow>
      (\<exists>a'\<in>set (assets (st_db s2)). file_facts a' = file_facts a) \<and>
      st_files s2 (canonical cfg (as_id a)) = st_files s1 (canonical cfg (as_id a))"
    and 2: "\<forall>a\<in>set (assets (st_db s2)). as_upload_completed_at a \<noteq> None \<longrightarrow>
      (\<exists>a'\<in>set (assets (st_db s3)). file_facts a' = file_facts a) \<and>
      st_files s3 (canonical cfg (as_id a)) = st_files s2 (canonical cfg (as_id a))"
    and a: "a \<in> set (assets (st_db s1))" "as_upload_completed_at a \<noteq> None"
  from 1 a obtain b where b: "b \<in> set (assets (st_db s2))" "file_facts b = file_facts a"
    and f: "st_files s2 (canonical cfg (as_id a)) = st_files s1 (canonical cfg (as_id a))" by blast
  from b(2) a(2) have i: "as_id b = as_id a" "as_upload_completed_at b \<noteq> None" by (simp_all add: file_facts_def)
  with 2 b(1) have "(\<exists>c\<in>set (assets (st_db s3)). file_facts c = file_facts b) \<and>
      st_files s3 (canonical cfg (as_id b)) = st_files s2 (canonical cfg (as_id b))" by blast
  with b(2) f i show "\<exists>c\<in>set (assets (st_db s3)). file_facts c = file_facts a"
    "st_files s3 (canonical cfg (as_id a)) = st_files s1 (canonical cfg (as_id a))" by simp_all
qed

text \<open>The path of a completed upload is no other path the program writes to.\<close>

lemma asset_file_iff [simp]: "asset_file cfg i x = asset_file cfg j y \<longleftrightarrow> i @ x = j @ y"
  by (simp add: asset_file_def)

lemma canonical_iff [simp]: "canonical cfg i = canonical cfg j \<longleftrightarrow> i = j"
  by (simp add: canonical_def)

lemma canonical_dash [simp]:
  assumes "dashless i" and "CHR ''-'' \<in> set y"
  shows "canonical cfg i \<noteq> asset_file cfg j y"
proof
  assume "canonical cfg i = asset_file cfg j y"
  then have eq: "i @ ''.bin'' = j @ y" by (simp add: canonical_def)
  have "CHR ''-'' \<in> set (j @ y)" using assms(2) by simp
  then have "CHR ''-'' \<in> set (i @ ''.bin'')" by (simp only: eq)
  with assms(1) show False by (simp add: dashless_def)
qed

lemma suffix_dash [simp]: "CHR ''-'' \<in> set DIRECT_UPLOAD_STAGING_SUFFIX" "CHR ''-'' \<in> set EVENT_HERO_DERIVATIVE_SUFFIX"
  by (simp_all add: DIRECT_UPLOAD_STAGING_SUFFIX_def EVENT_HERO_DERIVATIVE_SUFFIX_def)

lemma canonical_staging [simp]: "dashless i \<Longrightarrow> canonical cfg i \<noteq> staging cfg j"
  by (simp add: staging_def)

definition agree :: "upload_config \<Rightarrow> ident \<Rightarrow> files \<Rightarrow> files \<Rightarrow> bool" where
  "agree cfg i fs fs' \<longleftrightarrow> (\<forall>j. dashless j \<longrightarrow> j \<noteq> i \<longrightarrow> fs' (canonical cfg j) = fs (canonical cfg j))"

lemma checked_cong:
  "fs' (canonical cfg (as_id a)) = fs (canonical cfg (as_id a)) \<Longrightarrow> asset_checked cfg fs' a = asset_checked cfg fs a"
  by (simp add: asset_checked_def checked_file_def)

text \<open>One row is replaced, and no file of another completed upload is touched.\<close>

lemma put_asset_keeps:
  assumes ok: "site_ok cfg s" and a: "a \<in> set (assets (st_db s))" and i: "as_id a1 = as_id a"
    and a1: "asset_checked cfg fs a1" and others: "agree cfg (as_id a) (st_files s) fs"
    and own: "as_upload_completed_at a \<noteq> None \<Longrightarrow> file_facts a1 = file_facts a \<and>
      fs (canonical cfg (as_id a)) = st_files s (canonical cfg (as_id a))"
  shows "site_ok cfg \<lparr>st_db = put_asset a1 (st_db s), st_files = fs\<rparr> \<and>
    kept cfg s \<lparr>st_db = put_asset a1 (st_db s), st_files = fs\<rparr>"
proof -
  have mem: "set (assets (put_asset a1 (st_db s))) = (\<lambda>x. if as_id x = as_id a then a1 else x) ` set (assets (st_db s))"
    by (simp add: put_asset_def set_update_where i)
  have dash: "dashless (as_id x)" if "x \<in> set (assets (st_db s))" for x using ok that by (simp add: site_ok_def)
  have same: "fs (canonical cfg (as_id x)) = st_files s (canonical cfg (as_id x))"
    if "x \<in> set (assets (st_db s))" "as_id x \<noteq> as_id a" for x
    using others dash [OF that(1)] that(2) by (simp add: agree_def)
  have "unique_by as_id (assets (put_asset a1 (st_db s)))"
    using ok by (auto simp: site_ok_def put_asset_def intro!: unique_by_update_where)
  moreover have "dashless (as_id x) \<and> asset_checked cfg fs x" if "x \<in> set (assets (put_asset a1 (st_db s)))" for x
  proof -
    from that consider "x = a1" | "x \<in> set (assets (st_db s))" "as_id x \<noteq> as_id a" by (auto simp: mem split: if_splits)
    then show ?thesis
    proof cases
      case 1
      with a1 dash [OF a] show ?thesis by (simp add: i)
    next
      case 2
      from same [OF 2] have "asset_checked cfg fs x = asset_checked cfg (st_files s) x" by (rule checked_cong)
      with ok 2 show ?thesis by (simp add: site_ok_def)
    qed
  qed
  ultimately have "site_ok cfg \<lparr>st_db = put_asset a1 (st_db s), st_files = fs\<rparr>"
    using ok by (simp add: site_ok_def put_asset_def)
  moreover have "kept cfg s \<lparr>st_db = put_asset a1 (st_db s), st_files = fs\<rparr>"
    unfolding kept_def
  proof (intro ballI impI)
    fix x assume x: "x \<in> set (assets (st_db s))" and fin: "as_upload_completed_at x \<noteq> None"
    show "(\<exists>a' \<in> set (assets (st_db \<lparr>st_db = put_asset a1 (st_db s), st_files = fs\<rparr>)). file_facts a' = file_facts x) \<and>
      st_files \<lparr>st_db = put_asset a1 (st_db s), st_files = fs\<rparr> (canonical cfg (as_id x)) = st_files s (canonical cfg (as_id x))"
    proof (cases "as_id x = as_id a")
      case True
      with ok x a have "x = a" by (auto simp: site_ok_def unique_by_def inj_on_def distinct_map)
      with own fin a show ?thesis by (auto simp: mem)
    next
      case False
      with x same [OF x] show ?thesis by (auto simp: mem image_iff)
    qed
  qed
  ultimately show ?thesis ..
qed

lemma files_keep:
  assumes "site_ok cfg s"
    and "\<And>x. x \<in> set (assets (st_db s)) \<Longrightarrow> as_upload_completed_at x \<noteq> None \<Longrightarrow> dashless (as_id x) \<Longrightarrow>
      fs (canonical cfg (as_id x)) = st_files s (canonical cfg (as_id x))"
  shows "site_ok cfg (s\<lparr>st_files := fs\<rparr>) \<and> kept cfg s (s\<lparr>st_files := fs\<rparr>)"
  using assms by (auto simp: site_ok_def kept_def asset_checked_def checked_file_def)

lemma incomplete_file_keeps:
  assumes "site_ok cfg s" and "a \<in> set (assets (st_db s))" and "as_upload_completed_at a = None"
    and "agree cfg (as_id a) (st_files s) fs"
  shows "site_ok cfg (s\<lparr>st_files := fs\<rparr>) \<and> kept cfg s (s\<lparr>st_files := fs\<rparr>)"
proof (rule files_keep [OF assms(1)])
  fix x assume x: "x \<in> set (assets (st_db s))" "as_upload_completed_at x \<noteq> None" "dashless (as_id x)"
  with assms(1-3) have "as_id x \<noteq> as_id a" by (auto simp: site_ok_def unique_by_def inj_on_def distinct_map)
  with x(3) assms(4) show "fs (canonical cfg (as_id x)) = st_files s (canonical cfg (as_id x))" by (simp add: agree_def)
qed

lemma agree_own: "agree cfg i fs (fs(canonical cfg i := x))"
  by (simp add: agree_def)

lemma agree_dash: "CHR ''-'' \<in> set y \<Longrightarrow> agree cfg i fs fs' \<Longrightarrow> agree cfg i fs (fs'(asset_file cfg j y := x))"
  by (simp add: agree_def)

lemma owned_asset_mem: "owned_asset i u s = Inr a \<Longrightarrow> a \<in> set (assets s) \<and> as_id a = i"
  by (auto simp: owned_asset_def get_asset_def dest: find_SomeD split: option.splits if_splits)

lemma save_bytes_eq: "save_bytes cfg i content fs = (canonical cfg i, fs(canonical cfg i \<mapsto> content))"
  by (simp add: save_bytes_def save_derived_bytes_def canonical_def)

text \<open>The banner is written to a path of its own.\<close>

lemma hero_keeps:
  assumes "ensure_event_hero_derivative cfg i p source True fs = Inr (q, fs')"
  shows "\<exists>x. fs' = fs(asset_file cfg i EVENT_HERO_DERIVATIVE_SUFFIX := x)"
  using assms by (auto simp: ensure_event_hero_derivative_def save_derived_bytes_def Let_def split: option.splits)

lemma completed_asset_facts [simp]:
  "as_id (completed_asset cfg p q c t a) = as_id a"
  "as_upload_completed_at (completed_asset cfg p q c t a) = Some t"
  "as_storage_path (completed_asset cfg p q c t a) = Some p"
  "as_content_sha256 (completed_asset cfg p q c t a) = Some (up_digest cfg c)"
  "as_purpose (completed_asset cfg p q c t a) = as_purpose a"
  "as_content_type (completed_asset cfg p q c t a) = as_content_type a"
  "upload_limit_bytes cfg (completed_asset cfg p q c t a) = upload_limit_bytes cfg a"
  by (simp_all add: completed_asset_def invalidate_source_photo_derivatives_def upload_limit_bytes_def Let_def
      split: option.split)

text \<open>What both uploads have in common: checked content is written to the asset's own path.\<close>

lemma written_agree:
  assumes "prepare_event_banner_variant cfg a path source (fs(canonical cfg (as_id a) \<mapsto> content)) = Inr (q, fs')"
  shows "agree cfg (as_id a) fs fs'" and "dashless (as_id a) \<Longrightarrow> fs' (canonical cfg (as_id a)) = Some content"
proof -
  consider "fs' = fs(canonical cfg (as_id a) \<mapsto> content)"
    | x where "fs' = fs(canonical cfg (as_id a) \<mapsto> content, asset_file cfg (as_id a) EVENT_HERO_DERIVATIVE_SUFFIX := x)"
    using assms by (auto simp: prepare_event_banner_variant_def inr_simps dest!: hero_keeps split: if_splits)
  then show "agree cfg (as_id a) fs fs'" "dashless (as_id a) \<Longrightarrow> fs' (canonical cfg (as_id a)) = Some content"
    by (cases; simp add: agree_own agree_dash)+
qed

lemma upload_asset_content_keeps:
  assumes "site_ok cfg s"
  shows "site_ok cfg (snd (upload_asset_content cfg i header content u s)) \<and>
    kept cfg s (snd (upload_asset_content cfg i header content u s))"
proof (cases "accept_content cfg i header content u (st_db s)")
  case (Inl e)
  then show ?thesis using assms by (simp add: upload_asset_content_def kept_refl)
next
  case (Inr a)
  then have own: "owned_asset i u (st_db s) = Inr a" and new: "as_upload_completed_at a = None"
    and size: "length content \<le> upload_limit_bytes cfg a"
    and scan: "scan_uploaded_content cfg (as_content_type a) (as_purpose a) content = Inr ()"
    unfolding accept_content_def by (auto simp: inr_simps split: if_splits)
  from owned_asset_mem [OF own] have a: "a \<in> set (assets (st_db s))" by simp
  then have d: "dashless (as_id a)" using assms by (simp add: site_ok_def)
  let ?fs = "(st_files s)(canonical cfg (as_id a) \<mapsto> content)"
  note defs = upload_asset_content_def Inr save_bytes_eq Let_def
  show ?thesis
  proof (cases "prepare_event_banner_variant cfg a (canonical cfg (as_id a)) None ?fs")
    case (Inl e)
    with incomplete_file_keeps [OF assms a new agree_own] show ?thesis by (simp add: defs)
  next
    case (Inr p)
    obtain q fs' where p: "p = (q, fs')" by (cases p)
    note w = written_agree [OF Inr [unfolded p]]
    have "asset_checked cfg fs' (completed_asset cfg (canonical cfg (as_id a)) q content (now (st_db s)) a)"
      using w(2) [OF d] scan size by (simp add: asset_checked_def checked_file_def)
    with put_asset_keeps [OF assms a _ _ w(1)] new Inr p show ?thesis by (simp add: defs)
  qed
qed

lemma finish_upload_keeps:
  assumes "site_ok cfg s" and a: "a \<in> set (assets (st_db s))" and new: "as_upload_completed_at a = None"
    and size: "length content \<le> upload_limit_bytes cfg a"
    and scan: "scan_uploaded_content cfg (as_content_type a) (as_purpose a) content = Inr ()"
  shows "site_ok cfg (snd (finish_upload cfg broken (staging cfg (as_id a)) content a s)) \<and>
    kept cfg s (snd (finish_upload cfg broken (staging cfg (as_id a)) content a s))"
proof -
  from a have d: "dashless (as_id a)" using assms by (simp add: site_ok_def)
  let ?fs = "(st_files s)(canonical cfg (as_id a) \<mapsto> content)"
  note defs = finish_upload_def save_bytes_eq Let_def
  show ?thesis
  proof (cases "prepare_event_banner_variant cfg a (canonical cfg (as_id a)) (Some content) ?fs")
    case (Inl e)
    with incomplete_file_keeps [OF assms(1) a new agree_own] show ?thesis by (simp add: defs)
  next
    case (Inr p)
    obtain q fs' where p: "p = (q, fs')" by (cases p)
    note w = written_agree [OF Inr [unfolded p]]
    let ?a = "completed_asset cfg (canonical cfg (as_id a)) q content (now (st_db s)) a"
    let ?gs = "if staging cfg (as_id a) \<noteq> canonical cfg (as_id a) \<and> \<not> broken (staging cfg (as_id a))
      then fs'(staging cfg (as_id a) := None) else fs'"
    have "agree cfg (as_id a) (st_files s) ?gs" using w(1) by (auto simp: staging_def agree_dash)
    moreover have "asset_checked cfg ?gs ?a"
      using w(2) [OF d] scan size d by (simp add: asset_checked_def checked_file_def)
    ultimately show ?thesis using put_asset_keeps [OF assms(1) a, of ?a ?gs] new Inr p by (simp add: defs)
  qed
qed

lemma drop_staged_keeps:
  assumes "site_ok cfg s" and a: "a \<in> set (assets (st_db s))" and new: "as_upload_completed_at a = None"
  shows "site_ok cfg (snd (drop_staged broken (staging cfg (as_id a)) a e s)) \<and>
    kept cfg s (snd (drop_staged broken (staging cfg (as_id a)) a e s))"
proof -
  have "agree cfg (as_id a) (st_files s) ((st_files s)(staging cfg (as_id a) := None))"
    by (simp add: agree_def)
  with put_asset_keeps [OF assms(1) a, of "a\<lparr>as_storage_path := None\<rparr>"] new assms(1)
  show ?thesis by (simp add: drop_staged_def asset_checked_def kept_refl)
qed

lemma complete_asset_upload_keeps:
  assumes "site_ok cfg s"
  shows "site_ok cfg (snd (complete_asset_upload cfg broken i u s)) \<and> kept cfg s (snd (complete_asset_upload cfg broken i u s))"
proof (cases "bindE (require_upload_role u (st_db s)) (\<lambda>_. owned_asset i u (st_db s))")
  case (Inl e)
  then show ?thesis using assms by (simp add: complete_asset_upload_def kept_refl)
next
  case (Inr a)
  then have "owned_asset i u (st_db s) = Inr a" by (simp add: inr_simps)
  then have a: "a \<in> set (assets (st_db s))" by (simp add: owned_asset_mem)
  show ?thesis
  proof (cases "as_upload_completed_at a = None \<and> present (as_storage_path a)")
    case True
    with assms a have st: "as_storage_path a = Some (staging cfg (as_id a))"
      by (auto simp: site_ok_def asset_checked_def split: if_splits)
    with True show ?thesis
      using drop_staged_keeps [OF assms a] finish_upload_keeps [OF assms a] assms
      by (auto simp: complete_asset_upload_def Inr st kept_refl Let_def not_less split: option.split sum.split)
  next
    case False
    then show ?thesis using assms by (auto simp: complete_asset_upload_def Inr kept_refl)
  qed
qed

lemma presign_upload_keeps:
  assumes "site_ok cfg s" and "presign_upload cfg b u (st_db s) = Inr (r, t)"
  shows "site_ok cfg (s\<lparr>st_db := t\<rparr>) \<and> kept cfg s (s\<lparr>st_db := t\<rparr>)"
proof -
  define a where "a = new_asset cfg b (new_id ''asset_'' (st_db s)) (u_id u) (now (st_db s))"
  then have a: "as_id a = new_id ''asset_'' (st_db s)" "as_upload_completed_at a = None"
      "as_storage_path a \<in> {None, Some (staging cfg (as_id a))}"
    by (simp_all add: new_asset_def staging_def)
  have new: "\<not> list_ex (\<lambda>x. as_id x = as_id a) (assets (st_db s))"
    and t: "t = (draw (st_db s))\<lparr>assets := assets (st_db s) @ [a]\<rparr>"
    using assms(2) by (auto simp: presign_upload_def inr_simps Let_def a_def)
  have "dashless (as_id a)" using assms(1) a(1) by (simp add: site_ok_def new_id_def dashless_def)
  moreover have "asset_checked cfg (st_files s) a" using a by (simp add: asset_checked_def)
  ultimately show ?thesis using assms(1) new
    by (auto simp: site_ok_def kept_def t unique_by_def list_ex_iff)
qed

lemma update_asset_transform_keeps:
  assumes "site_ok cfg s" and "update_asset_transform i transform u (st_db s) = Inr (r, t)"
  shows "site_ok cfg (s\<lparr>st_db := t\<rparr>) \<and> kept cfg s (s\<lparr>st_db := t\<rparr>)"
proof -
  obtain a tr where own: "owned_asset i u (st_db s) = Inr a" and t: "t = put_asset (a\<lparr>as_transform := tr\<rparr>) (st_db s)"
    using assms(2) by (auto simp: update_asset_transform_def inr_simps Let_def)
  from owned_asset_mem [OF own] have a: "a \<in> set (assets (st_db s))" by simp
  have "asset_checked cfg (st_files s) (a\<lparr>as_transform := tr\<rparr>)"
    using assms(1) a by (auto simp: site_ok_def asset_checked_def checked_file_def upload_limit_bytes_def)
  with put_asset_keeps [OF assms(1) a, of "a\<lparr>as_transform := tr\<rparr>" "st_files s"]
  show ?thesis by (cases s) (simp add: t agree_def file_facts_def)
qed

text \<open>The cleanup takes the due assets one by one; those that wait are still as they were.\<close>

lemma cleanup_keeps:
  assumes "site_ok cfg s" and "distinct (map as_id as)"
    and "\<forall>a \<in> set as. a \<in> set (assets (st_db s)) \<and> as_upload_completed_at a = None \<and> as_storage_path a \<noteq> None"
  shows "site_ok cfg (snd (fold (cleanup_one broken) as (n, s))) \<and> kept cfg s (snd (fold (cleanup_one broken) as (n, s)))"
  using assms
proof (induction as arbitrary: n s)
  case Nil
  then show ?case by (simp add: kept_refl)
next
  case (Cons a as)
  let ?s = "snd (cleanup_one broken a (n, s))"
  have a: "a \<in> set (assets (st_db s))" "as_upload_completed_at a = None" using Cons.prems(3) by simp_all
  then have st: "as_storage_path a = Some (staging cfg (as_id a))"
    using Cons.prems(1,3) by (auto simp: site_ok_def asset_checked_def split: if_splits)
  have "agree cfg (as_id a) (st_files s) ((st_files s)(staging cfg (as_id a) := None))" by (simp add: agree_def)
  with put_asset_keeps [OF Cons.prems(1) a(1), of "a\<lparr>as_storage_path := None\<rparr>"] a(2) Cons.prems(1)
  have step: "site_ok cfg ?s \<and> kept cfg s ?s"
    by (auto simp: cleanup_one_def st asset_checked_def agree_def kept_refl Let_def)
  have "\<forall>b \<in> set as. b \<in> set (assets (st_db ?s)) \<and> as_upload_completed_at b = None \<and> as_storage_path b \<noteq> None"
  proof
    fix b assume b: "b \<in> set as"
    then have "as_id b \<in> as_id ` set as" by (rule imageI)
    with Cons.prems(2) have "as_id b \<noteq> as_id a" by auto
    with b Cons.prems(3) show "b \<in> set (assets (st_db ?s)) \<and> as_upload_completed_at b = None \<and> as_storage_path b \<noteq> None"
      by (auto simp: cleanup_one_def put_asset_def set_update_where image_iff Let_def)
  qed
  with Cons.IH [of ?s "fst (cleanup_one broken a (n, s))"] step Cons.prems(2)
  show ?case by (auto intro: kept_trans)
qed

lemma upload_step_keeps:
  assumes "site_ok cfg s"
  shows "site_ok cfg (upload_step cfg q s) \<and> kept cfg s (upload_step cfg q s)"
proof (cases q)
  case (Presign b u)
  show ?thesis using assms presign_upload_keeps [OF assms]
    by (cases "presign_upload cfg b u (st_db s)") (auto simp: Presign on_db_def run_tx_def kept_refl)
next
  case (SetTransform i transform u)
  show ?thesis using assms update_asset_transform_keeps [OF assms]
    by (cases "update_asset_transform i transform u (st_db s)") (auto simp: SetTransform on_db_def run_tx_def kept_refl)
next
  case (ClientPut i content)
  have "direct_put cfg i content s = s\<lparr>st_files := (st_files s)(staging cfg i \<mapsto> content)\<rparr>"
    by (simp add: direct_put_def staging_def)
  then show ?thesis using files_keep [OF assms] by (simp add: ClientPut)
next
  case (CleanUp broken)
  have "distinct (map as_id (filter (cleanup_due (now (st_db s))) (assets (st_db s))))"
    using assms by (simp add: site_ok_def unique_by_def distinct_map_filter)
  then show ?thesis using cleanup_keeps [OF assms] by (simp add: CleanUp cleanup_expired_uploads_def cleanup_due_def)
next
  case (Wait t)
  then show ?thesis using assms by (auto simp: site_ok_def kept_def)
qed (simp_all add: upload_asset_content_keeps complete_asset_upload_keeps assms)

text \<open>One request more is one step of a service that keeps what was established before.\<close>

definition upload_op :: "upload_config \<Rightarrow> upload_request \<Rightarrow> site \<Rightarrow> exn + unit \<times> site" where
  "upload_op cfg q s = Inr ((), upload_step cfg q s)"

interpretation uploads: service "upload_op cfg" "\<lambda>s. site_ok cfg s \<and> kept cfg s0 s" for cfg s0
  by unfold_locales (auto simp: upload_op_def dest: upload_step_keeps intro: kept_trans)

lemma run_uploads_keeps:
  assumes "site_ok cfg s"
  shows "site_ok cfg (run_uploads cfg qs s) \<and> kept cfg s (run_uploads cfg qs s)"
proof -
  have "fold (\<lambda>q s. snd (run_tx (upload_op cfg q) s)) qs s = run_uploads cfg qs s"
    by (simp add: run_uploads_def run_tx_def upload_op_def)
  with uploads.requests [of cfg s s qs] assms show ?thesis by (simp add: kept_refl)
qed


text \<open>An artist uploads a picture, and writes something else to the address after its completion.\<close>

definition sample_uploads :: upload_config where
  "sample_uploads = \<lparr>up_backend = ''s3'', up_prefix = ''s3:'', up_ttl = 60, up_max_bytes = 20, up_scan_mode = ''basic'',
     up_image_size = (\<lambda>_. None), up_intact = (\<lambda>_. True), up_clamav = (\<lambda>_. None), up_banner = (\<lambda>_. None),
     up_digest = (\<lambda>c. c)\<rparr>"

definition uploader :: user where
  "uploader = (a_fan ''art'')\<lparr>u_role := ARTIST\<rparr>"

definition upload_site :: site where
  "upload_site = \<lparr>st_db = empty_db\<lparr>users := [uploader]\<rparr>, st_files = (\<lambda>_. None)\<rparr>"

definition picture_body :: presign_body where
  "picture_body = \<lparr>prb_file_name = ''p.png'', prb_content_type = ''image/png'', prb_purpose = ''card''\<rparr>"

definition picture_id :: ident where
  "picture_id = new_id ''asset_'' (st_db upload_site)"

definition picture_uploaded :: site where
  "picture_uploaded = run_uploads sample_uploads [Presign picture_body uploader, ClientPut picture_id ''PNG'',
     CompleteUpload (\<lambda>_. False) picture_id uploader] upload_site"


section \<open>What the scan refuses\<close>

lemma executables_refused:
  assumes "up_scan_mode cfg \<noteq> ''disabled''" and "p \<in> set EXECUTABLE_SIGNATURES" and "startswith content p"
  shows "scan_uploaded_content cfg content_type purpose content \<noteq> Inr ()"
proof -
  have "reject_obvious_executable content = Inl (AppError 422 ''UNSAFE_UPLOAD'')"
    using assms(2,3) by (auto simp: reject_obvious_executable_def list_ex_iff Let_def)
  with assms(1) show ?thesis by (auto simp: scan_uploaded_content_def inr_simps)
qed

text \<open>The scanner has to answer, and to answer well.\<close>

lemma scan_fails_closed:
  assumes "up_scan_mode cfg = ''clamav''" and "scan_uploaded_content cfg content_type purpose content = Inr ()"
  shows "\<exists>r. up_clamav cfg content = Some r \<and> occurs ''ok'' (byte_lower r) \<and> \<not> occurs ''found'' (byte_lower r)"
  using assms by (auto simp: scan_uploaded_content_def scan_with_clamav_def inr_simps split: if_splits option.splits)

section \<open>Observations\<close>

text \<open>The comment promises the same success to a repeated completion; after the address has expired it is refused.\<close>

theorem late_retry_refused:
  assumes "require_upload_role u (st_db s) = Inr ()" and "owned_asset i u (st_db s) = Inr a"
    and "as_upload_completed_at a \<noteq> None" and "upload_expired a (now (st_db s))"
  shows "complete_asset_upload cfg broken i u s = (Inl (AppError 410 ''UPLOAD_URL_EXPIRED''), s)"
  using assms by (simp add: complete_asset_upload_def)

text \<open>An empty file is refused by one way of uploading and completed by the other.\<close>

theorem empty_upload_completed:
  "case complete_asset_upload sample_uploads (\<lambda>_. False) picture_id uploader
     (run_uploads sample_uploads [Presign picture_body uploader, ClientPut picture_id []] upload_site) of
     (Inl e, s) \<Rightarrow> False | (Inr a, s) \<Rightarrow> as_content_sha256 a = Some []"
  "case upload_asset_content sample_uploads picture_id Absent [] uploader
     (run_uploads sample_uploads [Presign picture_body uploader] upload_site) of
     (Inl (AppError n code), s) \<Rightarrow> n = 422 \<and> code = ''EMPTY_UPLOAD'' | _ \<Rightarrow> False"
  by code_simp+

text \<open>When the scanner cannot be reached the staged file is deleted like malware, and no retry can complete it.\<close>

theorem scanner_outage_loses_upload:
  assumes "require_upload_role u (st_db s) = Inr ()" and "owned_asset i u (st_db s) = Inr a"
    and "as_upload_completed_at a = None" and "\<not> upload_expired a (now (st_db s))"
    and "as_storage_path a = Some p" and "p \<noteq> []" and "st_files s p = Some content"
    and "length content \<le> upload_limit_bytes cfg a" and "\<not> broken p"
    and "scan_uploaded_content cfg (as_content_type a) (as_purpose a) content = Inl scan_unavailable"
  shows "complete_asset_upload cfg broken i u s = (Inl scan_unavailable,
    \<lparr>st_db = put_asset (a\<lparr>as_storage_path := None\<rparr>) (st_db s), st_files = (st_files s)(p := None)\<rparr>)"
  using assms by (simp add: complete_asset_upload_def drop_staged_def Let_def)

end
