(* ===== verification/EventPages.thy ===== *)
theory EventPages
  imports Events Uploads
begin

text \<open>
  The pages about events (\<open>routers/events.py\<close>): what fans are shown in the list, on the home page
  and as banner, and what administrators read. Both fan pages first send the notifications that
  are due. Labels, venues and other texts that are only displayed are left out; the summary the
  search of administrators looks at, and the times of the last change, are arguments.
\<close>

section \<open>An event as fans see it\<close>

text \<open>Where the button leads.\<close>

definition event_cta :: "event_row \<Rightarrow> string option" where
  "event_cta e =
    (let linked_to = (\<lambda>prefix i. if present i then Some (prefix @ the i) else None)
     in if e_event_type e = ''external'' then e_external_url e
        else if e_event_type e = ''card_drop'' then linked_to ''/drops/'' (e_drop_id e)
        else if e_event_type e = ''card'' then linked_to ''/cards/'' (e_card_id e)
        else if e_event_type e = ''fan_mission'' then linked_to ''/missions/'' (e_achievement_id e)
        else if e_event_type e = ''comment'' then Some (''/events/'' @ e_id e @ ''#comments'')
        else Some (''/events/'' @ e_id e))"

record teaser =
  ct_card :: card_row
  ct_artist_name :: "string option"
  ct_member_name :: "string option"

definition card_teaser :: "db \<Rightarrow> card_row \<Rightarrow> teaser" where
  "card_teaser s c = \<lparr>ct_card = c, ct_artist_name = map_option ar_name (artist_of_card c s),
     ct_member_name = map_option mem_name (member_of_card c s)\<rparr>"

definition relations_of :: "ident \<Rightarrow> db \<Rightarrow> event_related_card list" where
  "relations_of i s = sort_key erc_position (filter (\<lambda>r. erc_event_id r = i) (event_related_cards s))"

definition fan_related_cards :: "ident \<Rightarrow> db \<Rightarrow> teaser list" where
  "fan_related_cards i s =
    concat (map (\<lambda>r. case get_card (erc_card_id r) s of None \<Rightarrow> [] | Some c \<Rightarrow> [card_teaser s c]) (relations_of i s))"

record fan_event =
  fe_event :: event_row
  fe_artist_name :: "string option"
  fe_related_cards :: "teaser list"
  fe_status :: "string option"
  fe_participant_count :: nat
  fe_application_status :: string
  fe_applied :: bool
  fe_hero :: "ident option"
  fe_target :: "string option"

definition fan_event_data :: "event_row \<Rightarrow> ident \<Rightarrow> db \<Rightarrow> fan_event" where
  "fan_event_data e u s =
    \<lparr>fe_event = e,
     fe_artist_name = (case e_artist_id e of None \<Rightarrow> None
       | Some i \<Rightarrow> map_option ar_name (find (\<lambda>a. ar_id a = i) (artists s))),
     fe_related_cards = fan_related_cards (e_id e) s, fe_status = event_status e (now s),
     fe_participant_count = count_where (submitted (e_id e)) (event_applications s),
     fe_application_status = application_status e u s,
     fe_applied = list_ex (\<lambda>a. submitted (e_id e) a \<and> ea_user_id a = u) (event_applications s),
     fe_hero = map_option as_id (get_asset (e_hero_asset_id e) s), fe_target = event_cta e\<rparr>"

section \<open>The list\<close>

definition listed_event :: "string \<Rightarrow> ident option \<Rightarrow> time \<Rightarrow> event_row \<Rightarrow> bool" where
  "listed_event status artist t e \<longleftrightarrow> is_open e \<and> (status \<noteq> ''all'' \<longrightarrow> public_filter status t e) \<and>
    (status = ''ended'' \<longrightarrow> (case e_ends_at e of None \<Rightarrow> False | Some x \<Rightarrow> t - days 90 \<le> x)) \<and>
    (present artist \<longrightarrow> e_artist_id e = artist)"

definition page_of :: "nat \<Rightarrow> nat \<Rightarrow> 'r list \<Rightarrow> 'r list" where
  "page_of page n rows = take n (drop ((page - 1) * n) rows)"

definition event_rank :: "event_row \<Rightarrow> int \<times> time" where
  "event_rank e = (- e_priority e, e_starts_at e)"

text \<open>The page with the number of all matches.\<close>

definition list_events ::
  "string \<Rightarrow> ident option \<Rightarrow> nat \<Rightarrow> nat \<Rightarrow> ident \<Rightarrow> db \<Rightarrow> (exn + fan_event list \<times> nat) \<times> db" where
  "list_events status artist page n u =
    with_reconciled (\<lambda>s.
      let found = filter (listed_event status artist (now s)) (events s)
      in Inr ((map (\<lambda>e. fan_event_data e u s) (page_of page n (sort_key event_rank found)), length found), s))"

section \<open>The banner\<close>

text \<open>The banner needs no session; whatever is missing is not ready.\<close>

definition get_event_hero :: "upload_config \<Rightarrow> ident \<Rightarrow> site \<Rightarrow> (exn + bytes) \<times> site" where
  "get_event_hero cfg i s =
    (case require_public_event i (st_db s) of
       Inl e \<Rightarrow> (Inl e, s)
     | Inr e \<Rightarrow>
         let missing = AppError 404 ''EVENT_ASSET_NOT_READY''
         in case get_asset (e_hero_asset_id e) (st_db s) of
              None \<Rightarrow> (Inl missing, s)
            | Some a \<Rightarrow>
                if \<not> present (as_storage_path a) then (Inl missing, s)
                else
                  (case ensure_event_hero_derivative cfg (as_id a) (the (as_storage_path a)) None False (st_files s) of
                     Inl _ \<Rightarrow> (Inl missing, s)
                   | Inr (p, fs) \<Rightarrow>
                       (case fs p of None \<Rightarrow> (Inl missing, s\<lparr>st_files := fs\<rparr>) | Some c \<Rightarrow> (Inr c, s\<lparr>st_files := fs\<rparr>))))"

section \<open>The home page\<close>

definition active_event :: "time \<Rightarrow> event_row \<Rightarrow> bool" where
  "active_event t e \<longleftrightarrow> is_open e \<and> public_filter ''active'' t e"

definition featured_event :: "(ident \<Rightarrow> time) \<Rightarrow> db \<Rightarrow> event_row option" where
  "featured_event updated s =
    (case sort_key (\<lambda>e. (\<not> e_featured e, event_rank e, - updated (e_id e))) (filter (active_event (now s)) (events s)) of
       [] \<Rightarrow> None | e # _ \<Rightarrow> Some e)"

definition upcoming_events :: "db \<Rightarrow> event_row list" where
  "upcoming_events s = take 3 (sort_key e_starts_at (filter (\<lambda>e. is_open e \<and> now s < e_starts_at e) (events s)))"

text \<open>The filter of the catalogue, written out again for this page over a join with the drops.\<close>

definition home_card :: "db \<Rightarrow> card_row \<Rightarrow> bool" where
  "home_card s c \<longleftrightarrow> c_status c = ''published'' \<and> c_is_official c \<and>
    (let d = (case c_drop_id c of None \<Rightarrow> None | Some i \<Rightarrow> get_drop i s)
     in c_owner_artist_id c = None \<or> (c_review_version c = 0 \<and> c_drop_id c = None) \<or>
        (c_release_status c = ''published'' \<and> (case d of None \<Rightarrow> False | Some x \<Rightarrow> d_status x = ''live'')))"

definition favorite_card :: "user \<Rightarrow> card_row \<Rightarrow> bool" where
  "favorite_card u c \<longleftrightarrow> (u_favorite_artist_ids u \<noteq> [] \<or> u_favorite_member_ids u \<noteq> [] \<longrightarrow>
    c_artist_id c \<in> Some ` set (u_favorite_artist_ids u) \<or> c_member_id c \<in> Some ` set (u_favorite_member_ids u))"

definition name_last :: "string option \<Rightarrow> bool \<times> string" where
  "name_last t = (case t of None \<Rightarrow> (True, []) | Some x \<Rightarrow> (False, x))"

definition home_order :: "db \<Rightarrow> card_row \<Rightarrow> (bool \<times> string) \<times> (bool \<times> string) \<times> string \<times> string" where
  "home_order s c = (name_last (map_option ar_name (artist_of_card c s)), name_last (map_option mem_name (member_of_card c s)),
     c_name c, c_id c)"

definition new_cards :: "user \<Rightarrow> db \<Rightarrow> card_row list" where
  "new_cards u s = take 12 (sort_key (home_order s) (filter (\<lambda>c. home_card s c \<and> favorite_card u c) (cards s)))"

record home_page =
  hp_featured :: "fan_event option"
  hp_upcoming :: "fan_event list"
  hp_artists :: "artist list"
  hp_cards :: "teaser list"

definition home :: "(ident \<Rightarrow> time) \<Rightarrow> user \<Rightarrow> db \<Rightarrow> (exn + home_page) \<times> db" where
  "home updated u =
    with_reconciled (\<lambda>s. Inr
      (\<lparr>hp_featured = map_option (\<lambda>e. fan_event_data e (u_id u) s) (featured_event updated s),
        hp_upcoming = map (\<lambda>e. fan_event_data e (u_id u) s) (upcoming_events s),
        hp_artists = concat (map (\<lambda>i. case find (\<lambda>a. ar_id a = i) (artists s) of None \<Rightarrow> [] | Some a \<Rightarrow> [a])
          (u_favorite_artist_ids u)),
        hp_cards = map (card_teaser s) (new_cards u s)\<rparr>, s))"

section \<open>Pages for administrators\<close>

definition scope_filter :: "admin_context \<Rightarrow> event_row \<Rightarrow> bool" where
  "scope_filter c e \<longleftrightarrow>
    (if is_root c \<or> is_platform_operator c then True
     else case ctx_organization c of
       None \<Rightarrow> e_id e = []
     | Some g \<Rightarrow> e_organization_id e = Some (org_id g) \<and>
         (am_access_level (ctx_membership c) \<noteq> ''company_admin'' \<longrightarrow> e_artist_id e \<in> Some ` set (ctx_artists c)))"

record admin_event =
  ae_event :: event_row
  ae_related_ids :: "ident list"
  ae_display_status :: "string option"
  ae_applicant_count :: nat

definition event_admin_data :: "event_row \<Rightarrow> db \<Rightarrow> admin_event" where
  "event_admin_data e s =
    \<lparr>ae_event = e, ae_related_ids = map erc_card_id (relations_of (e_id e) s),
     ae_display_status = event_status e (now s),
     ae_applicant_count = count_where (\<lambda>a. ea_event_id a = e_id e \<and> ea_status a \<in> {''submitted'', ''winner''})
       (event_applications s)\<rparr>"

record event_query =
  eq_text :: "string option"
  eq_status :: "string option"
  eq_artist_id :: "ident option"
  eq_type :: "string option"
  eq_page :: nat
  eq_page_size :: nat

definition admin_event_matches :: "(ident \<Rightarrow> string) \<Rightarrow> event_query \<Rightarrow> admin_context \<Rightarrow> event_row \<Rightarrow> bool" where
  "admin_event_matches summary q c e \<longleftrightarrow> scope_filter c e \<and>
    (present (eq_text q) \<longrightarrow>
      (let pattern = ''%'' @ the (eq_text q) @ ''%''
       in ilike pattern (Some (e_title e)) \<or> ilike pattern (Some (summary (e_id e))))) \<and>
    (present (eq_status q) \<longrightarrow> Some (e_workflow_status e) = eq_status q) \<and>
    (present (eq_artist_id q) \<longrightarrow> e_artist_id e = eq_artist_id q) \<and>
    (present (eq_type q) \<longrightarrow> Some (e_event_type e) = eq_type q)"

text \<open>Summaries and the times of the last change are columns that only the pages read.\<close>

definition admin_list_events ::
  "(ident \<Rightarrow> string) \<Rightarrow> (ident \<Rightarrow> time) \<Rightarrow> event_query \<Rightarrow> admin_context \<Rightarrow> db \<Rightarrow> exn + admin_event list \<times> nat" where
  "admin_list_events summary updated q c s =
    bindE (require_action ''events:read'' c) (\<lambda>_.
    let found = filter (admin_event_matches summary q c) (events s)
    in Inr (map (\<lambda>e. event_admin_data e s) (page_of (eq_page q) (eq_page_size q)
      (sort_key (\<lambda>e. - updated (e_id e)) found)), length found))"

definition with_author :: "('r \<Rightarrow> ident) \<Rightarrow> db \<Rightarrow> 'r list \<Rightarrow> ('r \<times> user) list" where
  "with_author author s rows = concat (map (\<lambda>r. case get_user (author r) s of None \<Rightarrow> [] | Some u \<Rightarrow> [(r, u)]) rows)"

definition admin_list_event_applications :: "ident \<Rightarrow> admin_context \<Rightarrow> db \<Rightarrow> exn + (event_application \<times> user) list" where
  "admin_list_event_applications i c s =
    bindE (require_action ''events:read'' c) (\<lambda>_.
    bindE (scoped_event i c s) (\<lambda>e.
    Inr (with_author ea_user_id s
      (oldest ea_created_at ea_id (filter (\<lambda>a. ea_event_id a = e_id e) (event_applications s))))))"

definition admin_list_event_comments :: "ident \<Rightarrow> admin_context \<Rightarrow> db \<Rightarrow> exn + (event_comment \<times> user) list" where
  "admin_list_event_comments i c s =
    bindE (require_action ''events:read'' c) (\<lambda>_.
    bindE (scoped_event i c s) (\<lambda>e.
    Inr (with_author ec_user_id s
      (oldest ec_created_at ec_id (filter (\<lambda>x. ec_event_id x = e_id e) (event_comments s))))))"

definition admin_get_event_hero :: "ident \<Rightarrow> admin_context \<Rightarrow> site \<Rightarrow> exn + bytes" where
  "admin_get_event_hero i c s =
    bindE (require_action ''events:read'' c) (\<lambda>_.
    bindE (scoped_event i c (st_db s)) (\<lambda>e.
    bindE (validate_event_asset (e_hero_asset_id e) (st_db s)) (\<lambda>a.
    serve (st_files s) (the (as_storage_path a)))))"

section \<open>Only reviewed events are shown\<close>

lemma reconciled_db:
  assumes "with_reconciled rest s = (Inr a, s')"
  obtains n s1 where "reconcile_due_event_notifications s = Inr (n, s1)" and "rest s1 = Inr (a, s')"
  using assms by (auto simp: with_reconciled_def split: sum.splits prod.splits)

lemma open_reviewed: "events_ok s \<Longrightarrow> e \<in> set (events s) \<Longrightarrow> is_open e \<Longrightarrow> e_reviewed_by e \<noteq> None \<and> e_published_at e \<noteq> None"
  by (auto simp: events_ok_def event_ok_def is_open_def)

lemma set_page_of: "set (page_of p n xs) \<subseteq> set xs"
  by (auto simp: page_of_def dest: in_set_takeD in_set_dropD)

text \<open>The catalogue and the home page show the same cards.\<close>

lemma home_card_iff: "home_card s c \<longleftrightarrow> in_catalog c s"
  by (auto simp: home_card_def in_catalog_def catalog_release_visible_def Let_def split: option.splits)

theorem shown_events_reviewed:
  assumes "events s = []" and "s' = run_events qs s"
    and "(\<exists>page m t. list_events status artist p n u s' = (Inr (page, m), t) \<and> f \<in> set page) \<or>
      (\<exists>h t. home updated v s' = (Inr h, t) \<and> (hp_featured h = Some f \<or> f \<in> set (hp_upcoming h)))"
  shows "e_reviewed_by (fe_event f) \<noteq> None \<and> e_published_at (fe_event f) \<noteq> None"
proof -
  have "events_ok s" using assms(1) by (simp add: events_ok_def unique_by_def)
  then have ok: "events_ok s'" unfolding assms(2) by (rule run_events_ok)
  have shown: "\<exists>s1 m. reconcile_due_event_notifications s' = Inr (m, s1) \<and> fe_event f \<in> set (events s1) \<and> is_open (fe_event f)"
    using assms(3)
  proof (elim disjE exE conjE)
    fix page m t assume l: "list_events status artist p n u s' = (Inr (page, m), t)" and f: "f \<in> set page"
    from l obtain m s1 where r: "reconcile_due_event_notifications s' = Inr (m, s1)"
      and page: "page = map (\<lambda>e. fan_event_data e u s1)
        (page_of p n (sort_key event_rank (filter (listed_event status artist (now s1)) (events s1))))"
      unfolding list_events_def by (rule reconciled_db) (auto simp: Let_def)
    from f page obtain e where e: "f = fan_event_data e u s1"
        "e \<in> set (page_of p n (sort_key event_rank (filter (listed_event status artist (now s1)) (events s1))))" by auto
    from subsetD [OF set_page_of e(2)] have "e \<in> set (events s1)" "is_open e" by (auto simp: listed_event_def)
    with r e(1) show ?thesis by (auto simp: fan_event_data_def)
  next
    fix h t assume l: "home updated v s' = (Inr h, t)" and f: "hp_featured h = Some f"
    from l obtain m s1 where r: "reconcile_due_event_notifications s' = Inr (m, s1)"
      and h: "hp_featured h = map_option (\<lambda>e. fan_event_data e (u_id v) s1) (featured_event updated s1)"
      unfolding home_def by (rule reconciled_db) auto
    from f h obtain e where e: "featured_event updated s1 = Some e" "f = fan_event_data e (u_id v) s1" by auto
    then obtain es where "sort_key (\<lambda>e. (\<not> e_featured e, event_rank e, - updated (e_id e))) (filter (active_event (now s1)) (events s1)) = e # es"
      by (auto simp: featured_event_def split: list.splits)
    then have "e \<in> set (sort_key (\<lambda>e. (\<not> e_featured e, event_rank e, - updated (e_id e))) (filter (active_event (now s1)) (events s1)))" by simp
    then have "e \<in> set (events s1)" "is_open e" by (auto simp: active_event_def)
    with r e(2) show ?thesis by (auto simp: fan_event_data_def)
  next
    fix h t assume l: "home updated v s' = (Inr h, t)" and f: "f \<in> set (hp_upcoming h)"
    from l obtain m s1 where r: "reconcile_due_event_notifications s' = Inr (m, s1)"
      and h: "hp_upcoming h = map (\<lambda>e. fan_event_data e (u_id v) s1) (upcoming_events s1)"
      unfolding home_def by (rule reconciled_db) auto
    from f h obtain e where e: "e \<in> set (upcoming_events s1)" "f = fan_event_data e (u_id v) s1" by auto
    then have "e \<in> set (events s1)" "is_open e" by (auto simp: upcoming_events_def dest!: in_set_takeD)
    with r e(2) show ?thesis by (auto simp: fan_event_data_def)
  qed
  then obtain s1 m where r: "reconcile_due_event_notifications s' = Inr (m, s1)"
    and f: "fe_event f \<in> set (events s1)" "is_open (fe_event f)" by blast
  from reconcile_events [OF r ok] f show ?thesis by (rule open_reviewed)
qed

theorem shown_events_reviewed_witness:
  "\<exists>page m t. list_events ''all'' None 1 5 ''ann'' (run_events to_published event_db) = (Inr (page, m), t) \<and>
    list_all (\<lambda>f. e_reviewed_by (fe_event f) \<noteq> None) page \<and> length page = 1"
proof -
  let ?l = "list_events ''all'' None 1 5 ''ann'' (run_events to_published event_db)"
  have "case fst ?l of Inl e \<Rightarrow> False | Inr (page, m) \<Rightarrow> length page = 1" by code_simp
  then obtain page m where "fst ?l = Inr (page, m)" and n: "length page = 1"
    by (auto split: prod.splits sum.splits)
  then obtain t where l: "?l = (Inr (page, m), t)" by (metis prod.collapse)
  have "events event_db = []" by (simp add: event_db_def empty_db_def)
  from shown_events_reviewed [OF this refl] l have "list_all (\<lambda>f. e_reviewed_by (fe_event f) \<noteq> None) page"
    unfolding list_all_iff by blast
  with l n show ?thesis by blast
qed

section \<open>Observations\<close>

text \<open>A card related to an event is shown with it whether or not fans may see the card.\<close>

theorem related_cards_unchecked:
  assumes "r \<in> set (event_related_cards s)" and "erc_event_id r = i" and "get_card (erc_card_id r) s = Some c"
    and "\<not> card_is_visible_to_fans c s"
  shows "\<exists>t \<in> set (fan_related_cards i s). ct_card t = c"
  using assms by (auto simp: fan_related_cards_def relations_of_def card_teaser_def intro!: bexI [of _ r])

text \<open>Whoever won a place is shown as somebody who did not apply, and may find the event open for applications.\<close>

theorem winner_shown_as_new:
  assumes "\<forall>a \<in> set (event_applications s). ea_event_id a = e_id e \<longrightarrow> ea_status a \<noteq> ''submitted''"
    and "e_application_starts_at e = Some t" and "t \<le> now s" and "e_application_ends_at e = Some x" and "now s \<le> x"
    and "\<And>m. e_participant_limit e = Some m \<Longrightarrow> 0 < m"
  shows "\<not> fe_applied (fan_event_data e u s) \<and> fe_application_status (fan_event_data e u s) = ''available''"
proof -
  have "\<not> list_ex (\<lambda>a. submitted (e_id e) a \<and> ea_user_id a = u) (event_applications s)"
    and "filter (submitted (e_id e)) (event_applications s) = []"
    using assms(1) by (auto simp: list_ex_iff submitted_def filter_empty_conv)
  with assms(2-5) assms(6) show ?thesis
    by (fastforce simp: fan_event_data_def application_status_def count_where_def split: option.split)
qed

end
