(* ===== verification/Spec2Isabelle.thy ===== *)
theory Spec2Isabelle
  imports Points Ownership Growth Shop Pass Progress Trades Redeem Access Support Approvals Combinations
    Auth Effects Cards Events Outbox CheckIn RateLimits Accounts Partners Privacy Collection Wallet
    GrowthDesk GrowthReviews ShopDesk Profiles Uploads EventPages
begin

text \<open>
  \<^bold>\<open>The FanFolio backend.\<close> FanFolio sells and trades digital fan cards. Its backend is a FastAPI
  application (\<open>src/backend/app\<close>): routers take a request, check it against the database and
  change rows through the services, in one transaction per request. This development models
  the core of that program: the points and what is bought with them, the cards and their
  ownership, the trades between fans, the growth of a fan, the fan pass, sign-in, the release of
  cards by artists and reviewers, managed events and the desk of the operators.

  \<^bold>\<open>State.\<close> \<open>Schema.db\<close> is the database: one list of records per table of \<open>models.py\<close>, with
  the columns under the source's names and a prefix per table (\<open>uc_user_id\<close> is
  \<open>UserCard.user_id\<close>). Three fields stand for the world around it: \<open>now\<close>, the clock of the
  request; \<open>entropy\<close> with \<open>drawn\<close>, the source of random identifiers; \<open>sha256\<close>, the digest of a
  JSON value. An operation is a function from its arguments and the state to
  \<open>exn + result \<times> db\<close>: \<open>Inl\<close> is a raised exception, whose transaction is rolled back. A
  handler that commits before it raises returns \<open>(exn + result) \<times> db\<close>. Rows are inserted with
  \<open>insert_row\<close> under the unique constraints of the table (\<open>clash_...\<close>), whose violation is
  \<open>IntegrityError\<close>. Foreign keys are not enforced. Titles and texts that are only displayed are
  left out.

  \<^bold>\<open>Theories.\<close>
  \<^item> \<open>Prelude\<close>: errors, tables, texts, JSON, and the locale of transactions that keep an
    invariant.
  \<^item> \<open>Calendar\<close>: dates, ISO weeks and their texts. \<open>Schema\<close>: the tables.
  \<^item> \<open>Engagement\<close> (\<open>services.py\<close>): engagement events, analytics, audit, notifications.
  \<^item> \<open>Points\<close> (\<open>services.py\<close>): the ledger with its balances, charges, refunds, adjustments and
    reconciliation. Spending is exact, a refund undoes a charge, and reconciliation reports
    the accounts that drifted.
  \<^item> \<open>Ownership\<close> (\<open>services.py\<close>): the hash-linked ledger of every fan, its verifier and card
    grants. A verified chain commits to its history; serial numbers count the copies.
  \<^item> \<open>Growth\<close> (\<open>services.py\<close>): XP, levels, rewards, equipment.
  \<^item> \<open>Shop\<close> (\<open>routers/fan.py\<close>): orders, refunds, exchanges, card packs. \<open>Pass\<close>
    (\<open>services.py\<close>): seasons, purchases, tier claims, repair.
  \<^item> \<open>Retry\<close> (\<open>retry.py\<close>) and \<open>Progress\<close> (\<open>services.py\<close>): missions, achievements and the consumption
    of engagement events, with rollback, retries and their limit.
  \<^item> \<open>Trades\<close> (\<open>routers/social.py\<close>): follows, blocks and trades. The trades refine an abstract
    desk of proposals with disjoint reserved cards.
  \<^item> \<open>Redeem\<close> (\<open>services.py\<close>): codes. \<open>Combinations\<close> (\<open>routers/combinations.py\<close>): recipes and the
    combination of cards.
  \<^item> \<open>Access\<close> (\<open>admin_access.py\<close>): what an administrator may do. \<open>Support\<close> and \<open>Approvals\<close>
    (\<open>routers/admin.py\<close>): tickets, and requests that a second administrator decides.
  \<^item> \<open>Auth\<close> (\<open>auth_tokens.py\<close>, \<open>oauth.py\<close>, \<open>routers/auth.py\<close>, \<open>dependencies.py\<close>): tokens, magic
    links, social accounts. A refresh token is used once; using it again revokes its family.
  \<^item> \<open>Effects\<close> (\<open>effects.py\<close>) and \<open>Cards\<close> (\<open>routers/artist.py\<close>, \<open>routers/admin.py\<close>): the studio,
    reviews, effect versions and drops. Only reviewed cards are released.
  \<^item> \<open>Events\<close> (\<open>event_services.py\<close>, \<open>routers/events.py\<close>): managed events, their workflow,
    comments, applications and draws.
  \<^item> \<open>Outbox\<close> (\<open>notification_delivery.py\<close>): the deliveries queued by \<open>Engagement\<close>. The outbox
    drains whatever the providers answer.
  \<^item> \<open>Signing\<close> (\<open>event_checkin.py\<close>, \<open>download_signing.py\<close>): base64, JSON and signed tokens; what
    was written is read back. \<open>CheckIn\<close> (\<open>routers/events.py\<close>, \<open>routers/fan.py\<close>): check-in passes and the
    benefits of collections. A pass admits its holder once.
  \<^item> \<open>Accounts\<close> (\<open>passwords.py\<close>, \<open>routers/auth.py\<close>, \<open>routers/admin.py\<close>): passwords and the accounts of
    administrators and artists. The right password signs in, another does not. \<open>Partners\<close>
    (\<open>routers/admin_partners.py\<close>): organizations and their members, who stay within the contract.
  \<^item> \<open>RateLimits\<close> (\<open>rate_limit.py\<close>): no window holds more accepted requests than its limit.

  \<^item> \<open>Privacy\<close>, \<open>Collection\<close> and \<open>Wallet\<close> (\<open>routers/fan.py\<close>): what a fan sees and changes. \<open>Privacy\<close> holds the
    account with its deletion, the devices and the inbox; \<open>Collection\<close> the catalogue, goals, wishes
    and media; \<open>Wallet\<close> points, orders and missions. Cards that are not released stay hidden, a
    deleted account stays out, and the pages of the catalogue are complete.
  \<^item> \<open>GrowthDesk\<close> (\<open>routers/admin.py\<close>): achievements, missions, level policies, rewards and seasons
    as operators write and review them. \<open>GrowthReviews\<close> runs the desk: what is active was
    approved, and a submitted mission stays as it was submitted.
  \<^item> \<open>ShopDesk\<close> (\<open>routers/admin.py\<close>): packs, charge packages, products, campaigns and batches of
    codes. The odds of a published pack add up and stay, and an issued code is accepted.
  \<^item> \<open>Profiles\<close> (\<open>routers/social.py\<close>): what fans see of each other. A private collection shows
    nowhere but in the number of copies.
  \<^item> \<open>Uploads\<close> (\<open>routers/assets.py\<close>, \<open>upload_safety.py\<close>, \<open>storage.py\<close>): assets over a map of
    stored files. A completed asset names a file that passed the checks, and keeps it.
  \<^item> \<open>EventPages\<close> (\<open>routers/events.py\<close>): the list, the banner and the home page of fans, and what
    administrators read. Events on the pages of fans were reviewed.

  \<^bold>\<open>How they interact.\<close> The shop, the pass, the approvals and the missions write points through
  \<open>Points\<close>; packs, codes, combinations and trades write copies through \<open>Ownership\<close>; nearly every
  operation records an engagement event, which \<open>Progress\<close> consumes later. Components that keep an
  invariant over sequences of requests instantiate the locale of the prelude with their own
  step function.

  \<^bold>\<open>Bounds.\<close> Money, points and counters are Python integers and modelled by \<open>int\<close>; probabilities
  are exact rationals instead of floats; time is counted in microseconds. No operation needs fuel: loops run over lists, and the attempts
  of an event are bounded by the settings of the retry policy.

  \<^bold>\<open>Parameters.\<close> JWT encoding and decoding, SHA-256, HMAC, scrypt, the storage of files, the answers of identity
  providers and the draws of the random source are arguments or fields. Hypotheses about them
  (that an encoding can be decoded, that a digest has no collision among the payloads at hand) are
  named where they are used.

  \<^bold>\<open>Not modelled.\<close> Image and scene processing, file storage, mail and push transport, the HTTP
  exchange with identity providers, Celery wiring, the script that counts requests in
  Redis, statistics, dashboards, exports and calendars. Concurrency inside a
  transaction is left to the database: a request is one atomic step.
\<close>

end
